(* ===== verification/Prelude.thy ===== *)
theory Prelude
  imports Main "HOL-Library.Word"
begin

text \<open>
  Shared vocabulary of the development: the widths of the program's integers, the
  checked, saturating and truncating operations of Rust's integer types, the result
  type of instruction handlers with the combinators that stand for \<open>require!\<close>,
  \<open>ok_or\<close> and the question-mark operator, and the rewrite rules by which the
  component theories turn a successful run of a handler into linear arithmetic on
  natural numbers.
\<close>

unbundle bit_operations_syntax

section \<open>Integers\<close>

type_synonym u8 = "8 word"
type_synonym u16 = "16 word"
type_synonym u32 = "32 word"
type_synonym u64 = "64 word"
type_synonym u128 = "128 word"

text \<open>
  Signed quantities (Unix timestamps, oracle prices, controller gains) are integers whose
  range is enforced by the operations below.
\<close>

type_synonym i64 = int
type_synonym i128 = int

named_theorems arith_ok \<open>characterisations of successful integer operations\<close>

definition checked_add :: "'a::len word \<Rightarrow> 'a word \<Rightarrow> 'a word option" where
  "checked_add a b = (if unat a + unat b < 2 ^ LENGTH('a) then Some (a + b) else None)"

definition checked_sub :: "'a::len word \<Rightarrow> 'a word \<Rightarrow> 'a word option" where
  "checked_sub a b = (if b \<le> a then Some (a - b) else None)"

definition checked_mul :: "'a::len word \<Rightarrow> 'a word \<Rightarrow> 'a word option" where
  "checked_mul a b = (if unat a * unat b < 2 ^ LENGTH('a) then Some (a * b) else None)"

definition checked_div :: "'a::len word \<Rightarrow> 'a word \<Rightarrow> 'a word option" where
  "checked_div a b = (if b = 0 then None else Some (a div b))"

definition saturating_add :: "'a::len word \<Rightarrow> 'a word \<Rightarrow> 'a word" where
  "saturating_add a b = (if unat a + unat b < 2 ^ LENGTH('a) then a + b else - 1)"

definition saturating_sub :: "'a::len word \<Rightarrow> 'a word \<Rightarrow> 'a word" where
  "saturating_sub a b = (if b \<le> a then a - b else 0)"

definition saturating_mul :: "'a::len word \<Rightarrow> 'a word \<Rightarrow> 'a word" where
  "saturating_mul a b = (if unat a * unat b < 2 ^ LENGTH('a) then a * b else - 1)"

definition u64_max :: "'a::len word" where
  "u64_max = 18446744073709551615"

lemma unat_lt: "unat (a :: 'a::len word) < 2 ^ LENGTH('a)"
  by (rule unsigned_less)

lemma unat_minus_one_max: "unat (- 1 :: 'a::len word) = 2 ^ LENGTH('a) - 1"
  by (simp add: unsigned_minus_1_eq_mask mask_eq_exp_minus_1)

lemma checked_add_Some [arith_ok]:
  "checked_add a b = Some c \<longleftrightarrow> unat c = unat a + unat b"
proof
  assume "checked_add a b = Some c"
  then show "unat c = unat a + unat b"
    by (auto simp: checked_add_def unat_word_ariths split: if_splits)
next
  assume *: "unat c = unat a + unat b"
  with unat_lt [of c] have "unat a + unat b < 2 ^ LENGTH('a)" by simp
  moreover from this * have "c = a + b"
    by (metis unat_add_lem word_unat_eq_iff)
  ultimately show "checked_add a b = Some c" by (simp add: checked_add_def)
qed

lemma checked_add_None [arith_ok]:
  "checked_add (a :: 'a::len word) b = None \<longleftrightarrow> 2 ^ LENGTH('a) \<le> unat a + unat b"
  by (auto simp: checked_add_def)

lemma checked_sub_Some [arith_ok]:
  "checked_sub a b = Some c \<longleftrightarrow> unat a = unat b + unat c"
proof
  assume "checked_sub a b = Some c"
  then show "unat a = unat b + unat c"
    by (auto simp: checked_sub_def unat_sub word_le_nat_alt split: if_splits)
next
  assume *: "unat a = unat b + unat c"
  then have "b \<le> a" by (simp add: word_le_nat_alt)
  moreover from this * have "c = a - b"
    by (simp add: word_unat_eq_iff unat_sub)
  ultimately show "checked_sub a b = Some c" by (simp add: checked_sub_def)
qed

lemma checked_sub_None [arith_ok]: "checked_sub a b = None \<longleftrightarrow> unat a < unat b"
  by (auto simp: checked_sub_def word_le_nat_alt)

lemma checked_mul_Some [arith_ok]:
  "checked_mul a b = Some c \<longleftrightarrow> unat c = unat a * unat b"
proof
  assume "checked_mul a b = Some c"
  then show "unat c = unat a * unat b"
    by (auto simp: checked_mul_def unat_word_ariths split: if_splits)
next
  assume *: "unat c = unat a * unat b"
  with unat_lt [of c] have "unat a * unat b < 2 ^ LENGTH('a)" by simp
  moreover from this * have "c = a * b"
    by (simp add: word_unat_eq_iff unat_word_ariths)
  ultimately show "checked_mul a b = Some c" by (simp add: checked_mul_def)
qed

lemma checked_mul_None [arith_ok]:
  "checked_mul (a :: 'a::len word) b = None \<longleftrightarrow> 2 ^ LENGTH('a) \<le> unat a * unat b"
  by (auto simp: checked_mul_def)

lemma checked_div_Some [arith_ok]:
  "checked_div a b = Some c \<longleftrightarrow> b \<noteq> 0 \<and> unat c = unat a div unat b"
  by (auto simp: checked_div_def word_unat_eq_iff unat_div)

lemma unat_saturating_add [arith_ok]:
  "unat (saturating_add a b :: 'a::len word) = min (unat a + unat b) (2 ^ LENGTH('a) - 1)"
  by (auto simp: saturating_add_def unat_word_ariths unat_minus_one_max min_def)

lemma unat_saturating_sub [arith_ok]: "unat (saturating_sub a b) = unat a - unat b"
  by (auto simp: saturating_sub_def unat_sub word_le_nat_alt)

lemma unat_saturating_mul [arith_ok]:
  "unat (saturating_mul a b :: 'a::len word) = min (unat a * unat b) (2 ^ LENGTH('a) - 1)"
proof (cases "unat a * unat b < 2 ^ LENGTH('a)")
  case True
  then have "unat a * unat b \<le> 2 ^ LENGTH('a) - 1" by linarith
  with True show ?thesis by (simp add: saturating_mul_def unat_word_ariths min_absorb1)
next
  case False
  then have "2 ^ LENGTH('a) - 1 \<le> unat a * unat b" by linarith
  with False show ?thesis by (simp add: saturating_mul_def unat_minus_one_max min_absorb2)
qed

text \<open>Widening keeps the value; Rust's narrowing \<open>as\<close> keeps the low bits.\<close>

lemma unat_widen [simp]:
  "LENGTH('a::len) \<le> LENGTH('b::len) \<Longrightarrow> unat (ucast (a :: 'a word) :: 'b word) = unat a"
  by (simp add: unsigned_ucast_eq take_bit_nat_eq_self less_le_trans [OF unat_lt] power_increasing)

lemma unat_narrow:
  "unat (ucast (a :: 'a::len word) :: 'b::len word) = unat a mod 2 ^ LENGTH('b)"
  by (simp add: unsigned_ucast_eq take_bit_eq_mod)

lemma unat_narrow_small:
  "unat a < 2 ^ LENGTH('b) \<Longrightarrow> unat (ucast (a :: 'a::len word) :: 'b::len word) = unat a"
  by (simp add: unat_narrow)

lemma unat_min: "unat (min a b :: 'a::len word) = min (unat a) (unat b)"
  by (simp add: min_def word_le_nat_alt)

lemma unat_max: "unat (max a b :: 'a::len word) = max (unat a) (unat b)"
  by (simp add: max_def word_le_nat_alt)

lemma u64_bound: "unat (a :: u64) < 18446744073709551616"
  using unat_lt [of a] by simp

lemma u16_bound: "unat (a :: u16) < 65536"
  using unat_lt [of a] by simp

lemma u8_bound: "unat (a :: u8) < 256"
  using unat_lt [of a] by simp

lemma word_pos_unat: "(0 < (a :: 'a::len word)) \<longleftrightarrow> 0 < unat a"
  by (simp add: word_less_nat_alt)

lemma word_zero_unat: "(a :: 'a::len word) = 0 \<longleftrightarrow> unat a = 0"
  by (simp add: unat_eq_zero)

lemmas word_to_nat = word_le_nat_alt word_less_nat_alt word_unat_eq_iff unat_min unat_max

definition i64_min :: int where "i64_min = - 9223372036854775808"
definition i64_max :: int where "i64_max = 9223372036854775807"

definition i64_checked_add :: "i64 \<Rightarrow> i64 \<Rightarrow> i64 option" where
  "i64_checked_add a b = (if i64_min \<le> a + b \<and> a + b \<le> i64_max then Some (a + b) else None)"

definition i64_saturating_sub :: "i64 \<Rightarrow> i64 \<Rightarrow> i64" where
  "i64_saturating_sub a b = max i64_min (min i64_max (a - b))"

definition i64_saturating_add :: "i64 \<Rightarrow> i64 \<Rightarrow> i64" where
  "i64_saturating_add a b = max i64_min (min i64_max (a + b))"

definition i64_saturating_mul :: "i64 \<Rightarrow> i64 \<Rightarrow> i64" where
  "i64_saturating_mul a b = max i64_min (min i64_max (a * b))"

lemma i64_checked_add_Some [arith_ok]:
  "i64_checked_add a b = Some c \<longleftrightarrow> c = a + b \<and> i64_min \<le> c \<and> c \<le> i64_max"
  by (auto simp: i64_checked_add_def)

section \<open>Results of handlers\<close>

text \<open>
  A handler returns \<open>Inl\<close> of the error that aborts the transaction or \<open>Inr\<close> of the
  new state. \<open>guarded\<close> is a run of \<open>require!\<close> checks: the first one that fails decides
  the error. \<open>andthen\<close> is the question-mark operator and \<open>ok_or\<close> turns an option into a result.
\<close>

fun guarded :: "(bool \<times> 'e) list \<Rightarrow> 'e + 'a \<Rightarrow> 'e + 'a" where
  "guarded [] k = k"
| "guarded ((b, e) # gs) k = (if b then guarded gs k else Inl e)"

fun andthen :: "'e + 'a \<Rightarrow> ('a \<Rightarrow> 'e + 'b) \<Rightarrow> 'e + 'b" where
  "andthen (Inl e) k = Inl e"
| "andthen (Inr x) k = k x"

fun ok_or :: "'a option \<Rightarrow> 'e \<Rightarrow> 'e + 'a" where
  "ok_or None e = Inl e"
| "ok_or (Some x) e = Inr x"

named_theorems run_ok \<open>inversion of successful runs\<close>

lemma guarded_append: "guarded (gs @ hs) k = guarded gs (guarded hs k)"
  by (induction gs) (auto split: prod.split)

lemma guarded_Inr: "guarded gs k = Inr r \<longleftrightarrow> list_all fst gs \<and> k = Inr r"
  by (induction gs k rule: guarded.induct) auto

lemma guarded_Cons_Inr [run_ok]:
  "guarded ((b, e) # gs) k = Inr r \<longleftrightarrow> b \<and> guarded gs k = Inr r"
  by simp

lemma guarded_Nil_Inr [run_ok]: "guarded [] k = Inr r \<longleftrightarrow> k = Inr r"
  by simp

lemma guarded_fails: "(False, e) \<in> set gs \<Longrightarrow> \<exists>e'. guarded gs k = Inl e'"
  by (induction gs) auto

lemma andthen_Inr [run_ok]: "andthen m k = Inr r \<longleftrightarrow> (\<exists>x. m = Inr x \<and> k x = Inr r)"
  by (cases m) auto

lemma andthen_Inl: "andthen m k = Inl e \<longleftrightarrow> m = Inl e \<or> (\<exists>x. m = Inr x \<and> k x = Inl e)"
  by (cases m) auto

lemma ok_or_Inr [run_ok]: "ok_or x e = Inr r \<longleftrightarrow> x = Some r"
  by (cases x) auto

lemma if_Inl_Inr [run_ok]: "(if b then Inl e else k) = Inr r \<longleftrightarrow> \<not> b \<and> k = Inr r"
  by simp

lemma if_Inr_Inl [run_ok]: "(if b then k else Inl e) = Inr r \<longleftrightarrow> b \<and> k = Inr r"
  by simp

lemma andthen_cong [fundef_cong]:
  "m = m' \<Longrightarrow> (\<And>x. m' = Inr x \<Longrightarrow> k x = k' x) \<Longrightarrow> andthen m k = andthen m' k'"
  by (cases m') auto

text \<open>
  The simplifier works on the first check before it looks at what follows: a check that
  fails on concrete input ends the evaluation.
\<close>

lemma guarded_weak_cong [cong]: "gs = gs' \<Longrightarrow> guarded gs k = guarded gs' k"
  by simp

section \<open>Lists of keys\<close>

text \<open>
  The nested loops by which the program rejects repeated keys
  (\<open>for i in 0..n, for j in i+1..n\<close>): true when two positions agree.
\<close>

fun has_duplicate :: "'a list \<Rightarrow> bool" where
  "has_duplicate [] = False"
| "has_duplicate (x # xs) = (x \<in> set xs \<or> has_duplicate xs)"

lemma has_duplicate_iff [simp]: "has_duplicate xs \<longleftrightarrow> \<not> distinct xs"
  by (induction xs) auto

lemma distinct_snoc: "distinct xs \<Longrightarrow> x \<notin> set xs \<Longrightarrow> distinct (xs @ [x])"
  by simp

text \<open>A list sorted by a key is the part below a key, the part at it and the part above it.\<close>

lemma sorted_key_split:
  "sorted (map f xs) \<Longrightarrow>
     xs = filter (\<lambda>x. f x < t) xs @ filter (\<lambda>x. f x = t) xs @ filter (\<lambda>x. t < f x) xs"
proof (induction xs)
  case Nil
  then show ?case by simp
next
  case (Cons x xs)
  then have ge: "\<forall>y \<in> set xs. f x \<le> f y" and IH: "xs = filter (\<lambda>x. f x < t) xs @
      filter (\<lambda>x. f x = t) xs @ filter (\<lambda>x. t < f x) xs" by auto
  have lo: "filter (\<lambda>x. f x < t) xs = []" if "t \<le> f x"
    using ge that by (fastforce simp: filter_empty_conv)
  have mid: "filter (\<lambda>x. f x = t) xs = []" if "t < f x"
    using ge that by (fastforce simp: filter_empty_conv)
  show ?case
  proof (cases "f x" t rule: linorder_cases)
    case less
    then have "f x \<noteq> t" "\<not> t < f x" by auto
    with less IH show ?thesis by simp
  next
    case equal
    with IH lo show ?thesis by simp
  next
    case greater
    then have "f x \<noteq> t" "\<not> f x < t" "t \<le> f x" by auto
    with greater IH lo mid show ?thesis by simp
  qed
qed

text \<open>Distinct members of a list are at most as many as the list is long.\<close>

lemma distinct_subset_length:
  assumes "distinct xs" and "set xs \<subseteq> set ys"
  shows "length xs \<le> length ys"
proof -
  have "length xs = card (set xs)" using assms(1) by (simp add: distinct_card)
  also have "\<dots> \<le> card (set ys)" using assms(2) by (simp add: card_mono)
  also have "\<dots> \<le> length ys" by (rule card_length)
  finally show ?thesis .
qed

end
