(* ===== verification/Errors.thy ===== *)
theory Errors
  imports Prelude
begin

text \<open>
  The error values of the token program. The variants of \<open>SssError\<close>
  (programs/sss-token/src/error.rs) keep their names and their order; they are grouped, by the
  section of the source they stand in, into datatypes that the type \<open>error\<close> collects.
\<close>

text \<open>Errors of roles, presets, amounts and supply.\<close>

datatype core_error =
    Unauthorized | UnauthorizedCompliance | NotAMinter | MintPaused | MinterCapExceeded
    | WrongPreset | MissingTransferHook | InvalidPreset | ZeroAmount | InsufficientReserves
    | InvalidCollateralMint | InvalidVault | MaxSupplyExceeded | NoPendingAuthority
    | NoPendingComplianceAuthority | ReserveVaultRequired

text \<open>Errors of debt positions, the CPI interface and feature flags.\<close>

datatype cdp_error =
    CollateralRatioTooLow | CdpNotLiquidatable | InsufficientDebt | InsufficientCollateral
    | InvalidPriceFeed | StalePriceFeed | InvalidPrice | WrongCollateralMint
    | InterfaceNotInitialized | InterfaceVersionMismatch | InterfaceDeprecated
    | CircuitBreakerActive | SpendLimitExceeded | SpendPolicyNotConfigured

text \<open>Errors of committee governance.\<close>

datatype dao_error =
    DaoCommitteeRequired | NotACommitteeMember | AlreadyVoted | ProposalAlreadyExecuted
    | ProposalCancelled | DaoProposalRequired | DaoProposalConfigMismatch
    | DaoProposalWrongAction | DaoProposalNotExecuted | DaoProposalInsufficientAmount
    | QuorumNotReached | InvalidQuorum | CommitteeFull | MemberNotFound
    | ProposalActionMismatch

text \<open>Errors of yield collateral and zero-knowledge compliance.\<close>

datatype whitelist_error =
    YieldCollateralNotEnabled | CollateralMintNotWhitelisted | WhitelistFull
    | MintAlreadyWhitelisted | ZkComplianceNotEnabled | VerificationExpired
    | VerificationRecordNotExpired | VerificationRecordMissing | ZkVerifierRequired
    | ZkVerifierMismatch

text \<open>Errors of oracle checks, the admin timelock and fees.\<close>

datatype admin_error =
    UnexpectedPriceFeed | OracleConfidenceTooWide | TimelockNotMature | NoTimelockPending
    | TimelockRequired | InvalidTimelockOpKind | InvalidTimelockDelay | InvalidStabilityFee
    | InvalidBackstopParams | InvalidReserveRatio | DuplicateMember | SlippageExceeded
    | InvalidTokenProgram | StabilityFeeTooHigh | MintVelocityExceeded | InvalidPsmFee

text \<open>Errors of bad debt, collateral configuration, confidential transfers.\<close>

datatype backstop_error =
    BackstopNotConfigured | NoBadDebt | InsuranceFundEmpty | InvalidBackstopBps
    | UnauthorizedBackstopCaller | CollateralNotWhitelisted | DepositCapExceeded
    | InvalidCollateralThreshold | InvalidLiquidationBonus | ConfidentialTransferNotEnabled
    | MissingAuditorKey | InvalidAmount | PartialLiquidationInsufficientRepay

text \<open>Errors of vaults, payment channels, oracle abstraction, authority rotation.\<close>

datatype channel_error =
    FeatureNotEnabled | ProofHashMismatch | VaultAlreadyTerminal | VaultNotExpired
    | InvalidExpirySlot | ChannelAlreadyClosed | InvalidSettleAmount
    | SettlementAlreadyProposed | SettlementNotMatching | ChannelNotExpired
    | UseTimelockForAuthorityTransfer | UnauthorizedBackstopTrigger | OracleNotConfigured
    | InvalidOracleType | RotationNewAuthorityIsCurrent | RotationBackupIsCurrent
    | RotationBackupEqualsNew | RotationZeroPubkey | EmergencyRecoveryNotReady

text \<open>Errors of blacklist, travel rule and sanctions.\<close>

datatype compliance_error =
    InsuranceFundNotConfigured | InvalidMint | InvalidBlacklistState
    | InvalidTransferHookProgram | DaoFlagProtected | NotAuthorizedToPropose
    | ComplianceAuthorityRequiresTimelock | TravelRuleRecordInvalid
    | TravelRuleThresholdNotSet | TravelRuleRequired | SanctionedAddress
    | SanctionsRecordStale | SanctionsRecordMissing

text \<open>Errors of redemption pool, bridge and token accounts.\<close>

datatype pool_error =
    RedemptionPoolEmpty | RedemptionPoolFull | RedemptionPoolMintMismatch
    | RedemptionPoolVaultMismatch | RedemptionAlreadyFulfilled | RedemptionNotExpired
    | RedemptionDailyLimitExceeded | RedemptionFeeTooHigh | RedemptionSLABreached
    | BridgeNotEnabled | BridgeConfigMintMismatch | InvalidBridgeType | BridgeFeeTooHigh
    | BridgeAmountExceedsLimit | BridgeProofEmpty | BridgeRecipientMismatch
    | BridgeRelayerUnauthorized | TokenAccountOwnerMismatch | TokenAccountMintMismatch
    | FeeVaultMismatch | InvalidCompositionBps

text \<open>Errors of market makers and keepers.\<close>

datatype market_error =
    MarketMakerHooksDisabled | MarketMakerHooksNotEnabled | NotWhitelistedMarketMaker
    | MarketMakerListFull | MarketMakerAlreadyRegistered | MmMintLimitExceeded
    | MmBurnLimitExceeded | OraclePriceOutsideSpread | KeeperConfigMintMismatch
    | CircuitBreakerNotArmed | PegStillDeviating | PegWithinThreshold | KeeperCooldownActive
    | KeeperRecoveryWindowNotMet | InvalidKeeperDeviation | InvalidKeeperCooldown
    | InvalidKeeperReward | InvalidKeeperRecovery | NotPaused

text \<open>Errors of redemption queue, upgrade guard, guardians.\<close>

datatype queue_error =
    RedemptionQueueNotInitialized | RedemptionQueueFull | RedemptionAlreadyProcessed
    | RedemptionNotReady | RedemptionNotOwner | RedemptionSlotCapExceeded
    | RedemptionQueueOutOfOrder | UpgradeAuthorityGuardNotSet
    | UpgradeAuthorityGuardAlreadySet | UpgradeAuthorityGuardInvalidKey
    | UpgradeAuthorityMismatch | GuardianListEmpty | GuardianListFull
    | InvalidGuardianThreshold | DuplicateGuardian | NotAGuardian
    | GuardianPauseTimelockActive | ConfigVersionTooOld

text \<open>Errors of proof of reserves, supply cap, oracle consensus and configuration.\<close>

datatype hardening_error =
    OracleConsensusNotFound | PoRNotAttested | PoRBreachHaltsMinting | SupplyCapRequired
    | RequiresMaxSupplyForSSS3 | RequiresSquadsForSSS3 | MaxSupplyImmutable
    | CredentialRegistryNotFound | InsufficientOracles | InvalidLegalEntityAttestor
    | InvalidLegalEntityHash | InvalidLegalEntityJurisdiction | InvalidLiquidationTierConfig
    | InvalidOracleConsensusConfig | InvalidOracleSourceIndex | InvalidPidFeeRange
    | InvalidPsmCurveBaseFee | InvalidPsmCurveMaxFee | InvalidRateLimitAmount
    | InvalidRateLimitWindow | InvalidZkProof

text \<open>Errors of legal registry, Squads authority, rate limits and the rest.\<close>

datatype late_error =
    LegalEntityAlreadyAttested | LegalEntityExpired | MultiOracleNotEnabled
    | OracleNoSourcesConfigured | OracleRemainingAccountsMismatch | PidConfigNotFound
    | PsmCurveConfigNotFound | PsmDynamicFeesNotEnabled | PsmSwapOutputZero
    | SquadsAuthorityAlreadySet | SquadsAuthorityNotSet | SquadsDuplicateMember
    | SquadsMembersEmpty | SquadsMembersTooMany | SquadsMultisigPdaInvalid
    | SquadsSignerMismatch | SquadsThresholdExceedsMembers | SquadsThresholdZero
    | WalletRateLimitExceeded | WalletRateLimitsNotEnabled | DaoProposalExhausted
    | InvalidFeatureFlags | InstructionDisabled | NoCollateralConfigured | Overflow
    | PidUpdateTooFrequent | InvalidCollateralConfig | InvalidInterfaceVersion

text \<open>
  Failures that are not variants of \<open>SssError\<close>: the account checks of the framework, an error
  of the token program (an opaque code) and a panic (an arithmetic overflow under
  \<open>overflow-checks\<close>, an \<open>unwrap\<close> of nothing).
\<close>

datatype anchor_error =
    ConstraintRaw | ConstraintSeeds | ConstraintAddress | ConstraintTokenMint | ConstraintTokenOwner
  | AccountNotInitialized | AccountAlreadyInUse | AccountDidNotDeserialize
  | AccountDidNotSerialize

datatype error =
    Core core_error
  | Cdp cdp_error
  | Dao dao_error
  | Whitelist whitelist_error
  | Admin admin_error
  | Backstop backstop_error
  | Channel channel_error
  | Compliance compliance_error
  | Pool pool_error
  | Market market_error
  | Queue queue_error
  | Hardening hardening_error
  | Late late_error
  | Anchor anchor_error
  | TokenProgram nat
  | Panic

type_synonym 'a res = "error + 'a"

end
