(* ===== verification/Runtime.thy ===== *)
theory Runtime
  imports Errors
begin

text \<open>
  What the program gets from outside its own source. The runtime of the chain (clock,
  derived addresses) and the token program are parameters of every handler: the record
  \<open>runtime\<close> collects them as functions, and \<open>'w\<close> is the state that the token program
  owns. The instructions that the program sends to the token program are the constructors
  of \<open>token_instr\<close>. What the development relies on when it speaks of balances is stated
  once, as the locale \<open>token_ledger\<close>, from the documentation of the token program.
  A handler takes its program accounts already deserialised; mints and token accounts are looked
  up in the ledger where the code reads their data.
\<close>

section \<open>Keys, derived addresses and accounts\<close>

type_synonym pubkey = "256 word"
type_synonym bytes32 = "256 word"

text \<open>\<open>Pubkey::default()\<close> is the all-zero key.\<close>

abbreviation default_key :: pubkey where
  "default_key \<equiv> 0"

datatype seed = SeedStr string | SeedKey pubkey | SeedU64 u64

text \<open>The native balances of accounts, kept by the runtime of the chain.\<close>

type_synonym lamports = "pubkey \<Rightarrow> u64"

text \<open>A program account as a handler receives it: its address and its deserialised data.\<close>

record 'a account =
  key_of :: pubkey
  data_of :: 'a

abbreviation set_data :: "'a account \<Rightarrow> 'a \<Rightarrow> 'a account" where
  "set_data a d \<equiv> a\<lparr>data_of := d\<rparr>"

section \<open>The token program's interface\<close>

record token_account =
  ta_mint :: pubkey
  ta_owner :: pubkey
  ta_amount :: u64

record token_mint =
  tm_decimals :: u8
  tm_supply :: u64

text \<open>
  Argument order: \<open>MintTo mint to authority amount\<close>, \<open>Burn mint from authority amount\<close>,
  \<open>BurnChecked mint from authority amount decimals\<close>,
  \<open>TransferChecked from mint to authority amount decimals\<close>,
  \<open>FreezeAccount account mint authority\<close>, \<open>ThawAccount account mint authority\<close>.
\<close>

datatype token_instr =
    MintTo pubkey pubkey pubkey u64
  | Burn pubkey pubkey pubkey u64
  | BurnChecked pubkey pubkey pubkey u64 u8
  | TransferChecked pubkey pubkey pubkey pubkey u64 u8
  | FreezeAccount pubkey pubkey pubkey
  | ThawAccount pubkey pubkey pubkey

record 'w runtime =
  rt_slot :: u64
  rt_epoch :: u64
  rt_unix_timestamp :: i64
  rt_create_pda :: "seed list \<Rightarrow> u8 \<Rightarrow> pubkey option"
  rt_find_pda :: "seed list \<Rightarrow> pubkey \<times> u8"
  rt_invoke :: "'w \<Rightarrow> pubkey list \<Rightarrow> token_instr \<Rightarrow> nat + 'w"
  rt_token :: "'w \<Rightarrow> pubkey \<Rightarrow> token_account option"
  rt_mint :: "'w \<Rightarrow> pubkey \<Rightarrow> token_mint option"

text \<open>
  A cross-program invocation: \<open>cpi\<close> passes on the signatures of the transaction,
  \<open>cpi_signed\<close> adds the derived address of the given seeds as a signer
  (\<open>CpiContext::new_with_signer\<close>).
\<close>

fun token_result :: "nat + 'w \<Rightarrow> 'w res" where
  "token_result (Inl c) = Inl (TokenProgram c)"
| "token_result (Inr w) = Inr w"

definition cpi :: "'w runtime \<Rightarrow> 'w \<Rightarrow> pubkey list \<Rightarrow> token_instr \<Rightarrow> 'w res" where
  "cpi rt w signers ix = token_result (rt_invoke rt w signers ix)"

definition cpi_signed ::
  "'w runtime \<Rightarrow> 'w \<Rightarrow> pubkey list \<Rightarrow> seed list \<Rightarrow> u8 \<Rightarrow> token_instr \<Rightarrow> 'w res" where
  "cpi_signed rt w signers seeds bump ix =
     (case rt_create_pda rt seeds bump of
        None \<Rightarrow> Inl (Anchor ConstraintSeeds)
      | Some k \<Rightarrow> cpi rt w (k # signers) ix)"

definition load_token :: "'w runtime \<Rightarrow> 'w \<Rightarrow> pubkey \<Rightarrow> token_account res" where
  "load_token rt w k = ok_or (rt_token rt w k) (Anchor AccountNotInitialized)"

definition load_mint :: "'w runtime \<Rightarrow> 'w \<Rightarrow> pubkey \<Rightarrow> token_mint res" where
  "load_mint rt w k = ok_or (rt_mint rt w k) (Anchor AccountNotInitialized)"

text \<open>The \<open>seeds = [...], bump = b\<close> constraint on an account with address \<open>k\<close>.\<close>

definition seeds_ok :: "'w runtime \<Rightarrow> pubkey \<Rightarrow> seed list \<Rightarrow> u8 \<Rightarrow> bool" where
  "seeds_ok rt k seeds bump \<longleftrightarrow> rt_create_pda rt seeds bump = Some k"

lemma token_result_Inr [run_ok]: "token_result r = Inr w' \<longleftrightarrow> r = Inr w'"
  by (cases r) auto

lemma cpi_Inr [run_ok]: "cpi rt w sgs ix = Inr w' \<longleftrightarrow> rt_invoke rt w sgs ix = Inr w'"
  by (simp add: cpi_def token_result_Inr)

lemma cpi_signed_Inr [run_ok]:
  "cpi_signed rt w sgs seeds bump ix = Inr w' \<longleftrightarrow>
     (\<exists>k. rt_create_pda rt seeds bump = Some k \<and> rt_invoke rt w (k # sgs) ix = Inr w')"
  by (auto simp: cpi_signed_def cpi_Inr split: option.splits)

lemma load_token_Inr [run_ok]: "load_token rt w k = Inr a \<longleftrightarrow> rt_token rt w k = Some a"
  by (simp add: load_token_def ok_or_Inr)

lemma load_mint_Inr [run_ok]: "load_mint rt w k = Inr m \<longleftrightarrow> rt_mint rt w k = Some m"
  by (simp add: load_mint_def ok_or_Inr)

text \<open>Only the clock depends on the clock.\<close>

lemma runtime_time [simp]:
  "seeds_ok (rt\<lparr>rt_unix_timestamp := t\<rparr>) = seeds_ok rt"
  "load_token (rt\<lparr>rt_unix_timestamp := t\<rparr>) = load_token rt" "load_mint (rt\<lparr>rt_unix_timestamp := t\<rparr>) = load_mint rt"
  "cpi (rt\<lparr>rt_unix_timestamp := t\<rparr>) = cpi rt" "cpi_signed (rt\<lparr>rt_unix_timestamp := t\<rparr>) = cpi_signed rt"
  by (auto simp: fun_eq_iff seeds_ok_def load_token_def load_mint_def cpi_def cpi_signed_def split: option.split)

section \<open>The documented behaviour of the token program\<close>

text \<open>
  Supply and balances as natural numbers; an account or mint that does not exist counts
  as zero.
\<close>

definition supply_of :: "'w runtime \<Rightarrow> 'w \<Rightarrow> pubkey \<Rightarrow> nat" where
  "supply_of rt w m = (case rt_mint rt w m of None \<Rightarrow> 0 | Some tm \<Rightarrow> unat (tm_supply tm))"

definition balance_of :: "'w runtime \<Rightarrow> 'w \<Rightarrow> pubkey \<Rightarrow> nat" where
  "balance_of rt w k = (case rt_token rt w k of None \<Rightarrow> 0 | Some ta \<Rightarrow> unat (ta_amount ta))"

text \<open>
  The laws: minting and burning move the supply of the one mint named and the balance of
  the one account named by exactly the amount, within 64 bits; a transfer moves the amount
  between two accounts and leaves every supply alone; freezing and thawing move nothing;
  burning and transferring need the authority's signature.
\<close>

locale token_ledger =
  fixes rt :: "'w runtime"
  assumes mint_to_ok:
    "rt_invoke rt w sgs (MintTo m k auth n) = Inr w' \<Longrightarrow>
       supply_of rt w' = (supply_of rt w)(m := supply_of rt w m + unat n) \<and>
       balance_of rt w' = (balance_of rt w)(k := balance_of rt w k + unat n) \<and>
       supply_of rt w m + unat n < 2 ^ 64 \<and> auth \<in> set sgs"
    and burn_ok:
    "rt_invoke rt w sgs (Burn m k auth n) = Inr w' \<Longrightarrow>
       unat n \<le> supply_of rt w m \<and> unat n \<le> balance_of rt w k \<and>
       supply_of rt w' = (supply_of rt w)(m := supply_of rt w m - unat n) \<and>
       balance_of rt w' = (balance_of rt w)(k := balance_of rt w k - unat n) \<and>
       auth \<in> set sgs"
    and burn_checked_ok:
    "rt_invoke rt w sgs (BurnChecked m k auth n d) = Inr w' \<Longrightarrow>
       unat n \<le> supply_of rt w m \<and> unat n \<le> balance_of rt w k \<and>
       supply_of rt w' = (supply_of rt w)(m := supply_of rt w m - unat n) \<and>
       balance_of rt w' = (balance_of rt w)(k := balance_of rt w k - unat n) \<and>
       auth \<in> set sgs"
    and transfer_ok:
    "rt_invoke rt w sgs (TransferChecked f m t auth n d) = Inr w' \<Longrightarrow>
       unat n \<le> balance_of rt w f \<and> supply_of rt w' = supply_of rt w \<and>
       balance_of rt w' =
         ((balance_of rt w)(f := balance_of rt w f - unat n))
           (t := ((balance_of rt w)(f := balance_of rt w f - unat n)) t + unat n) \<and>
       auth \<in> set sgs"
    and freeze_ok:
    "rt_invoke rt w sgs (FreezeAccount k m auth) = Inr w' \<Longrightarrow>
       supply_of rt w' = supply_of rt w \<and> balance_of rt w' = balance_of rt w"
    and thaw_ok:
    "rt_invoke rt w sgs (ThawAccount k m auth) = Inr w' \<Longrightarrow>
       supply_of rt w' = supply_of rt w \<and> balance_of rt w' = balance_of rt w"
begin

text \<open>No instruction the program sends lets a supply leave the 64-bit range.\<close>

lemma supply_bound: "supply_of rt w m < 2 ^ 64"
  using u64_bound by (auto simp: supply_of_def split: option.splits)

lemma supply_change:
  assumes "rt_invoke rt w sgs ix = Inr w'"
  shows "supply_of rt w' = (case ix of
      MintTo m k auth n \<Rightarrow> (supply_of rt w)(m := supply_of rt w m + unat n)
    | Burn m k auth n \<Rightarrow> (supply_of rt w)(m := supply_of rt w m - unat n)
    | BurnChecked m k auth n d \<Rightarrow> (supply_of rt w)(m := supply_of rt w m - unat n)
    | _ \<Rightarrow> supply_of rt w)"
  using assms
  by (cases ix) (auto dest: mint_to_ok burn_ok burn_checked_ok transfer_ok freeze_ok thaw_ok)

end

text \<open>
  The other direction, for claims that an instruction goes through: a burn or a transfer that the
  owner signs, from accounts that are not frozen and hold enough, succeeds, and touches
  nothing but the accounts it names.
\<close>

locale token_progress = token_ledger rt for rt :: "'w runtime" +
  fixes thawed :: "'w \<Rightarrow> pubkey \<Rightarrow> bool"
  assumes burn_checked_goes:
    "rt_token rt w k = Some ta \<Longrightarrow> rt_mint rt w m = Some tm \<Longrightarrow> ta_mint ta = m \<Longrightarrow> tm_decimals tm = d \<Longrightarrow>
       thawed w k \<Longrightarrow> ta_owner ta = auth \<Longrightarrow> auth \<in> set sgs \<Longrightarrow> n \<le> ta_amount ta \<Longrightarrow> n \<le> tm_supply tm \<Longrightarrow>
       \<exists>w'. rt_invoke rt w sgs (BurnChecked m k auth n d) = Inr w'"
    and burn_checked_frame:
    "rt_invoke rt w sgs (BurnChecked m k auth n d) = Inr w' \<Longrightarrow>
       (\<forall>j. j \<noteq> k \<longrightarrow> rt_token rt w' j = rt_token rt w j) \<and>
       (\<forall>j. j \<noteq> m \<longrightarrow> rt_mint rt w' j = rt_mint rt w j) \<and> thawed w' = thawed w"
    and transfer_goes:
    "rt_token rt w f = Some tf \<Longrightarrow> rt_token rt w t = Some tt \<Longrightarrow> rt_mint rt w m = Some tm \<Longrightarrow>
       ta_mint tf = m \<Longrightarrow> ta_mint tt = m \<Longrightarrow> tm_decimals tm = d \<Longrightarrow> thawed w f \<Longrightarrow> thawed w t \<Longrightarrow>
       ta_owner tf = auth \<Longrightarrow> auth \<in> set sgs \<Longrightarrow> n \<le> ta_amount tf \<Longrightarrow>
       unat (ta_amount tt) + unat n < 2 ^ 64 \<Longrightarrow>
       \<exists>w'. rt_invoke rt w sgs (TransferChecked f m t auth n d) = Inr w'"

end
