(* ===== verification/State.thy ===== *)
theory State
  imports Runtime
begin

text \<open>
  The accounts of the token program (programs/sss-token/src/state.rs) that several components
  share: the configuration of a stablecoin, the record of a minter, the feature flags and
  the numbers of the timelocked operations. Fields keep their names behind a prefix
  (\<open>c_\<close> for \<open>StablecoinConfig\<close>, \<open>mi_\<close> for \<open>MinterInfo\<close>) and their
  order.
\<close>

section \<open>Feature flags\<close>

definition FLAG_CIRCUIT_BREAKER :: u64 where "FLAG_CIRCUIT_BREAKER = push_bit 0 1"
definition FLAG_SPEND_POLICY :: u64 where "FLAG_SPEND_POLICY = push_bit 1 1"
definition FLAG_DAO_COMMITTEE :: u64 where "FLAG_DAO_COMMITTEE = push_bit 2 1"
definition FLAG_YIELD_COLLATERAL :: u64 where "FLAG_YIELD_COLLATERAL = push_bit 3 1"
definition FLAG_ZK_COMPLIANCE :: u64 where "FLAG_ZK_COMPLIANCE = push_bit 4 1"
definition FLAG_CONFIDENTIAL_TRANSFERS :: u64 where "FLAG_CONFIDENTIAL_TRANSFERS = push_bit 5 1"
definition FLAG_TRAVEL_RULE :: u64 where "FLAG_TRAVEL_RULE = push_bit 6 1"
definition FLAG_SANCTIONS_ORACLE :: u64 where "FLAG_SANCTIONS_ORACLE = push_bit 7 1"
definition FLAG_ZK_CREDENTIALS :: u64 where "FLAG_ZK_CREDENTIALS = push_bit 8 1"
definition FLAG_PID_FEE_CONTROL :: u64 where "FLAG_PID_FEE_CONTROL = push_bit 9 1"
definition FLAG_GRAD_LIQUIDATION_BONUS :: u64 where "FLAG_GRAD_LIQUIDATION_BONUS = push_bit 10 1"
definition FLAG_PSM_DYNAMIC_FEES :: u64 where "FLAG_PSM_DYNAMIC_FEES = push_bit 11 1"
definition FLAG_WALLET_RATE_LIMITS :: u64 where "FLAG_WALLET_RATE_LIMITS = push_bit 12 1"
definition FLAG_SQUADS_AUTHORITY :: u64 where "FLAG_SQUADS_AUTHORITY = push_bit 13 1"
definition FLAG_REQUIRE_OWNER_CONSENT :: u64 where "FLAG_REQUIRE_OWNER_CONSENT = push_bit 15 1"
definition FLAG_POR_HALT_ON_BREACH :: u64 where "FLAG_POR_HALT_ON_BREACH = push_bit 16 1"
definition FLAG_BRIDGE_ENABLED :: u64 where "FLAG_BRIDGE_ENABLED = push_bit 17 1"
definition FLAG_MARKET_MAKER_HOOKS :: u64 where "FLAG_MARKET_MAKER_HOOKS = push_bit 18 1"
definition FLAG_AGENT_PAYMENT_CHANNEL :: u64 where "FLAG_AGENT_PAYMENT_CHANNEL = push_bit 19 1"
definition FLAG_PROBABILISTIC_MONEY :: u64 where "FLAG_PROBABILISTIC_MONEY = push_bit 20 1"
definition FLAG_INSURANCE_VAULT_REQUIRED :: u64 where "FLAG_INSURANCE_VAULT_REQUIRED = push_bit 21 1"
definition FLAG_MULTI_ORACLE_CONSENSUS :: u64 where "FLAG_MULTI_ORACLE_CONSENSUS = push_bit 22 1"
definition FLAG_REDEMPTION_QUEUE :: u64 where "FLAG_REDEMPTION_QUEUE = push_bit 23 1"
definition FLAG_LEGAL_REGISTRY :: u64 where "FLAG_LEGAL_REGISTRY = push_bit 24 1"

lemmas flag_defs =
  FLAG_CIRCUIT_BREAKER_def FLAG_SPEND_POLICY_def FLAG_DAO_COMMITTEE_def
  FLAG_YIELD_COLLATERAL_def FLAG_ZK_COMPLIANCE_def FLAG_CONFIDENTIAL_TRANSFERS_def
  FLAG_TRAVEL_RULE_def FLAG_SANCTIONS_ORACLE_def FLAG_ZK_CREDENTIALS_def
  FLAG_PID_FEE_CONTROL_def FLAG_GRAD_LIQUIDATION_BONUS_def FLAG_PSM_DYNAMIC_FEES_def
  FLAG_WALLET_RATE_LIMITS_def FLAG_SQUADS_AUTHORITY_def FLAG_REQUIRE_OWNER_CONSENT_def
  FLAG_POR_HALT_ON_BREACH_def FLAG_BRIDGE_ENABLED_def FLAG_MARKET_MAKER_HOOKS_def
  FLAG_AGENT_PAYMENT_CHANNEL_def FLAG_PROBABILISTIC_MONEY_def
  FLAG_INSURANCE_VAULT_REQUIRED_def FLAG_MULTI_ORACLE_CONSENSUS_def
  FLAG_REDEMPTION_QUEUE_def FLAG_LEGAL_REGISTRY_def

text \<open>\<open>feature_flags & flag != 0\<close>, \<open>feature_flags |= flag\<close>, \<open>feature_flags &= !flag\<close>.\<close>

definition check_feature_flag :: "u64 \<Rightarrow> u64 \<Rightarrow> bool" where
  "check_feature_flag flags flag \<longleftrightarrow> flags AND flag \<noteq> 0"

definition set_flags :: "u64 \<Rightarrow> u64 \<Rightarrow> u64" where
  "set_flags flags m = (flags OR m)"

definition clear_flags :: "u64 \<Rightarrow> u64 \<Rightarrow> u64" where
  "clear_flags flags m = (flags AND NOT m)"

section \<open>Kinds of timelocked operations\<close>

definition ADMIN_OP_NONE :: u8 where "ADMIN_OP_NONE = 0"
definition ADMIN_OP_TRANSFER_AUTHORITY :: u8 where "ADMIN_OP_TRANSFER_AUTHORITY = 1"
definition ADMIN_OP_SET_FEATURE_FLAG :: u8 where "ADMIN_OP_SET_FEATURE_FLAG = 2"
definition ADMIN_OP_CLEAR_FEATURE_FLAG :: u8 where "ADMIN_OP_CLEAR_FEATURE_FLAG = 3"
definition ADMIN_OP_SET_PYTH_FEED :: u8 where "ADMIN_OP_SET_PYTH_FEED = 4"
definition ADMIN_OP_SET_ORACLE_PARAMS :: u8 where "ADMIN_OP_SET_ORACLE_PARAMS = 5"
definition ADMIN_OP_SET_STABILITY_FEE :: u8 where "ADMIN_OP_SET_STABILITY_FEE = 6"
definition ADMIN_OP_SET_PSM_FEE :: u8 where "ADMIN_OP_SET_PSM_FEE = 7"
definition ADMIN_OP_SET_BACKSTOP_PARAMS :: u8 where "ADMIN_OP_SET_BACKSTOP_PARAMS = 8"
definition ADMIN_OP_SET_SPEND_LIMIT :: u8 where "ADMIN_OP_SET_SPEND_LIMIT = 9"
definition ADMIN_OP_TRANSFER_COMPLIANCE_AUTHORITY :: u8 where "ADMIN_OP_TRANSFER_COMPLIANCE_AUTHORITY = 10"
definition ADMIN_OP_SET_ORACLE_CONFIG :: u8 where "ADMIN_OP_SET_ORACLE_CONFIG = 11"
definition ADMIN_OP_SET_MIN_RESERVE_RATIO :: u8 where "ADMIN_OP_SET_MIN_RESERVE_RATIO = 12"
definition ADMIN_OP_SET_TRAVEL_RULE_THRESHOLD :: u8 where "ADMIN_OP_SET_TRAVEL_RULE_THRESHOLD = 13"
definition ADMIN_OP_SET_SANCTIONS_PARAMS :: u8 where "ADMIN_OP_SET_SANCTIONS_PARAMS = 14"
definition ADMIN_OP_SET_TIMELOCK_DELAY :: u8 where "ADMIN_OP_SET_TIMELOCK_DELAY = 15"
definition ADMIN_OP_PAUSE :: u8 where "ADMIN_OP_PAUSE = 16"
definition ADMIN_OP_UNPAUSE :: u8 where "ADMIN_OP_UNPAUSE = 17"

lemmas admin_op_defs =
  ADMIN_OP_NONE_def ADMIN_OP_TRANSFER_AUTHORITY_def ADMIN_OP_SET_FEATURE_FLAG_def
  ADMIN_OP_CLEAR_FEATURE_FLAG_def ADMIN_OP_SET_PYTH_FEED_def ADMIN_OP_SET_ORACLE_PARAMS_def
  ADMIN_OP_SET_STABILITY_FEE_def ADMIN_OP_SET_PSM_FEE_def ADMIN_OP_SET_BACKSTOP_PARAMS_def
  ADMIN_OP_SET_SPEND_LIMIT_def ADMIN_OP_TRANSFER_COMPLIANCE_AUTHORITY_def
  ADMIN_OP_SET_ORACLE_CONFIG_def ADMIN_OP_SET_MIN_RESERVE_RATIO_def
  ADMIN_OP_SET_TRAVEL_RULE_THRESHOLD_def ADMIN_OP_SET_SANCTIONS_PARAMS_def
  ADMIN_OP_SET_TIMELOCK_DELAY_def ADMIN_OP_PAUSE_def ADMIN_OP_UNPAUSE_def

definition DEFAULT_ADMIN_TIMELOCK_DELAY :: u64 where
  "DEFAULT_ADMIN_TIMELOCK_DELAY = 432000"

section \<open>The configuration of a stablecoin\<close>

record stablecoin_config =
  c_mint :: pubkey
  c_authority :: pubkey
  c_compliance_authority :: pubkey
  c_preset :: u8
  c_paused :: bool
  c_total_minted :: u64
  c_total_burned :: u64
  c_transfer_hook_program :: pubkey
  c_collateral_mint :: pubkey
  c_reserve_vault :: pubkey
  c_total_collateral :: u64
  c_max_supply :: u64
  c_pending_authority :: pubkey
  c_pending_compliance_authority :: pubkey
  c_feature_flags :: u64
  c_max_transfer_amount :: u64
  c_expected_pyth_feed :: pubkey
  c_admin_op_mature_slot :: u64
  c_admin_op_kind :: u8
  c_admin_op_param :: u64
  c_admin_op_target :: pubkey
  c_admin_timelock_delay :: u64
  c_max_oracle_age_secs :: u32
  c_max_oracle_conf_bps :: u16
  c_stability_fee_bps :: u16
  c_redemption_fee_bps :: u16
  c_insurance_fund_pubkey :: pubkey
  c_max_backstop_bps :: u16
  c_auditor_elgamal_pubkey :: bytes32
  c_oracle_type :: u8
  c_oracle_feed :: pubkey
  c_supply_cap_locked :: bool
  c_version :: u8
  c_min_reserve_ratio_bps :: u16
  c_travel_rule_threshold :: u64
  c_sanctions_oracle :: pubkey
  c_sanctions_max_staleness_slots :: u64
  c_authorized_keepers :: "pubkey list"
  c_squads_multisig :: pubkey
  c_expected_upgrade_authority :: pubkey
  c_bump :: u8

definition MIN_SUPPORTED_VERSION :: u8 where "MIN_SUPPORTED_VERSION = 1"
definition CURRENT_VERSION :: u8 where "CURRENT_VERSION = 1"

text \<open>
  \<open>net_supply\<close> subtracts with saturation (the assertion in front of it is compiled out of
  release builds).
\<close>

definition net_supply :: "stablecoin_config \<Rightarrow> u64" where
  "net_supply c = saturating_sub (c_total_minted c) (c_total_burned c)"

definition reserve_ratio_bps :: "stablecoin_config \<Rightarrow> u64" where
  "reserve_ratio_bps c =
     (let supply = net_supply c in
      if supply = 0 then 10000
      else
        (let scaled = (case checked_mul (ucast (c_total_collateral c) :: u128) 10000 of
                         None \<Rightarrow> - 1 | Some x \<Rightarrow> x);
             q = (case checked_div scaled (ucast supply) of None \<Rightarrow> 0 | Some x \<Rightarrow> x)
         in ucast q))"

definition has_reserve :: "stablecoin_config \<Rightarrow> bool" where
  "has_reserve c \<longleftrightarrow> c_reserve_vault c \<noteq> default_key"

definition has_hook :: "stablecoin_config \<Rightarrow> bool" where
  "has_hook c \<longleftrightarrow> c_transfer_hook_program c \<noteq> default_key"

abbreviation flag_set :: "stablecoin_config \<Rightarrow> u64 \<Rightarrow> bool" where
  "flag_set c f \<equiv> check_feature_flag (c_feature_flags c) f"

definition config_seeds :: "pubkey \<Rightarrow> seed list" where
  "config_seeds mint = [SeedStr ''stablecoin-config'', SeedKey mint]"

section \<open>Minters\<close>

record minter_info =
  mi_config :: pubkey
  mi_minter :: pubkey
  mi_cap :: u64
  mi_minted :: u64
  mi_max_mint_per_epoch :: u64
  mi_minted_this_epoch :: u64
  mi_last_epoch_reset :: u64
  mi_bump :: u8

definition minter_seeds :: "pubkey \<Rightarrow> pubkey \<Rightarrow> seed list" where
  "minter_seeds config minter = [SeedStr ''minter-info'', SeedKey config, SeedKey minter]"

section \<open>Facts about flags and supply\<close>

lemma check_after_set: "check_feature_flag (set_flags f m) m \<longleftrightarrow> m \<noteq> 0"
  by (simp add: check_feature_flag_def set_flags_def bit.conj_disj_distrib2)

lemma check_after_clear: "\<not> check_feature_flag (clear_flags f m) m"
  by (simp add: check_feature_flag_def clear_flags_def and.assoc)

lemma set_flags_keeps: "check_feature_flag f g \<Longrightarrow> check_feature_flag (set_flags f m) g"
  by (auto simp: check_feature_flag_def set_flags_def bit_eq_iff bit_simps)

lemma clear_flags_keeps:
  "m AND g = 0 \<Longrightarrow> check_feature_flag (clear_flags f m) g = check_feature_flag f g"
  by (auto simp: check_feature_flag_def clear_flags_def bit_eq_iff bit_simps)

lemma unat_net_supply:
  "unat (net_supply c) = unat (c_total_minted c) - unat (c_total_burned c)"
  by (simp add: net_supply_def unat_saturating_sub)

end
