(* ===== verification/AuthGate.thy ===== *)
theory AuthGate
  imports State
begin

text \<open>
  The gates every privileged instruction passes: the account checks that tie the signer to the
  configuration (the \<open>#[derive(Accounts)]\<close> blocks shared by the authority's instructions),
  the Squads multisig check with the instruction that installs the multisig
  (programs/sss-token/src/instructions/squads\_authority.rs), and the timelock gate of the direct
  calls (admin\_timelock.rs).
\<close>

section \<open>Squads multisig\<close>

definition verify_squads_signer :: "stablecoin_config \<Rightarrow> pubkey \<Rightarrow> unit res" where
  "verify_squads_signer c signer =
     guarded
       [(flag_set c FLAG_SQUADS_AUTHORITY, Late SquadsAuthorityNotSet),
        (c_squads_multisig c \<noteq> default_key, Late SquadsMultisigPdaInvalid),
        (signer = c_squads_multisig c, Late SquadsSignerMismatch)]
       (Inr ())"

text \<open>\<open>if feature_flags & FLAG_SQUADS_AUTHORITY != 0 { verify_squads_signer(..)?; }\<close>\<close>

definition squads_gate :: "stablecoin_config \<Rightarrow> pubkey \<Rightarrow> unit res" where
  "squads_gate c signer =
     (if flag_set c FLAG_SQUADS_AUTHORITY then verify_squads_signer c signer else Inr ())"

lemma squads_gate_Inr [run_ok]:
  "squads_gate c s = Inr u \<longleftrightarrow>
     (flag_set c FLAG_SQUADS_AUTHORITY \<longrightarrow> c_squads_multisig c \<noteq> default_key \<and> s = c_squads_multisig c)"
  by (auto simp: squads_gate_def verify_squads_signer_def)

text \<open>
  The accounts of the authority's instructions: the signer, the configuration (derived from the
  mint) and the mint.
\<close>

record admin_ctx =
  ac_authority :: pubkey
  ac_config :: "stablecoin_config account"
  ac_mint :: pubkey

abbreviation ac_cfg :: "admin_ctx \<Rightarrow> stablecoin_config" where
  "ac_cfg ctx \<equiv> data_of (ac_config ctx)"

definition config_ok :: "'w runtime \<Rightarrow> stablecoin_config account \<Rightarrow> pubkey \<Rightarrow> (bool \<times> error) list" where
  "config_ok rt cfg mint =
     [(seeds_ok rt (key_of cfg) (config_seeds mint) (c_bump (data_of cfg)), Anchor ConstraintSeeds)]"

definition authority_accounts :: "'w runtime \<Rightarrow> admin_ctx \<Rightarrow> (bool \<times> error) list" where
  "authority_accounts rt ctx =
     config_ok rt (ac_config ctx) (ac_mint ctx) @
     [(c_authority (ac_cfg ctx) = ac_authority ctx, Core Unauthorized),
      (ac_mint ctx = c_mint (ac_cfg ctx), Anchor ConstraintRaw)]"

lemma authority_accounts_Inr [run_ok]:
  "guarded (authority_accounts rt ctx) k = Inr r \<longleftrightarrow>
     seeds_ok rt (key_of (ac_config ctx)) (config_seeds (ac_mint ctx)) (c_bump (ac_cfg ctx)) \<and>
     c_authority (ac_cfg ctx) = ac_authority ctx \<and> ac_mint ctx = c_mint (ac_cfg ctx) \<and> k = Inr r"
  by (auto simp: authority_accounts_def config_ok_def)

text \<open>The accounts of an instruction without a mint: the signer and the configuration.\<close>

definition owner_accounts :: "'w runtime \<Rightarrow> pubkey \<Rightarrow> stablecoin_config account \<Rightarrow> (bool \<times> error) list" where
  "owner_accounts rt authority cfg =
     config_ok rt cfg (c_mint (data_of cfg)) @ [(c_authority (data_of cfg) = authority, Core Unauthorized)]"

text \<open>The record that \<open>init_squads_authority\<close> leaves behind.\<close>

record squads_multisig_config =
  sq_sss_mint :: pubkey
  sq_multisig_pda :: pubkey
  sq_threshold :: u8
  sq_members :: "pubkey list"
  sq_bump :: u8

record init_squads_params =
  isp_multisig_pda :: pubkey
  isp_threshold :: u8
  isp_members :: "pubkey list"

definition SQUADS_MAX_MEMBERS :: nat where "SQUADS_MAX_MEMBERS = 10"
definition PRESET_INSTITUTIONAL :: u8 where "PRESET_INSTITUTIONAL = 4"

text \<open>
  \<open>existing\<close> is what the derived address of the new record already holds: \<open>init\<close> fails unless it
  is empty.
\<close>

definition init_squads_authority_handler ::
  "'w runtime \<Rightarrow> admin_ctx \<Rightarrow> squads_multisig_config option \<Rightarrow> init_squads_params \<Rightarrow>
     (stablecoin_config \<times> squads_multisig_config) res" where
  "init_squads_authority_handler rt ctx existing p =
     (let c = ac_cfg ctx; n = length (isp_members p);
          bump = snd (rt_find_pda rt [SeedStr ''squads-multisig-config'', SeedKey (ac_mint ctx)]) in
      guarded
        [(existing = None, Anchor AccountAlreadyInUse),
         (seeds_ok rt (key_of (ac_config ctx)) (config_seeds (ac_mint ctx)) (c_bump c), Anchor ConstraintSeeds),
         (c_authority c = ac_authority ctx, Core Unauthorized),
         (c_squads_multisig c = default_key, Late SquadsAuthorityAlreadySet),
         (ac_mint ctx = c_mint c, Anchor ConstraintRaw),
         (isp_multisig_pda p \<noteq> default_key, Late SquadsMultisigPdaInvalid),
         (isp_threshold p > 0, Late SquadsThresholdZero),
         (isp_members p \<noteq> [], Late SquadsMembersEmpty),
         (n \<le> SQUADS_MAX_MEMBERS, Late SquadsMembersTooMany),
         (unat (isp_threshold p) \<le> n, Late SquadsThresholdExceedsMembers),
         (\<not> has_duplicate (isp_members p), Late SquadsDuplicateMember)]
        (Inr
          (c\<lparr>c_authority := isp_multisig_pda p, c_squads_multisig := isp_multisig_pda p,
             c_preset := PRESET_INSTITUTIONAL,
             c_feature_flags := set_flags (c_feature_flags c) FLAG_SQUADS_AUTHORITY\<rparr>,
           \<lparr>sq_sss_mint = ac_mint ctx, sq_multisig_pda = isp_multisig_pda p,
            sq_threshold = isp_threshold p, sq_members = isp_members p, sq_bump = bump\<rparr>)))"

text \<open>\<open>verify_squads_authority\<close> checks a signer and changes nothing.\<close>

definition verify_squads_authority_handler :: "'w runtime \<Rightarrow> admin_ctx \<Rightarrow> unit res" where
  "verify_squads_authority_handler rt ctx =
     guarded
       [(seeds_ok rt (key_of (ac_config ctx)) (config_seeds (ac_mint ctx)) (c_bump (ac_cfg ctx)),
           (Anchor ConstraintSeeds)),
        (flag_set (ac_cfg ctx) FLAG_SQUADS_AUTHORITY, Late SquadsAuthorityNotSet),
        (ac_mint ctx = c_mint (ac_cfg ctx), Anchor ConstraintRaw)]
       (verify_squads_signer (ac_cfg ctx) (ac_authority ctx))"

section \<open>The timelock gate of direct calls\<close>

definition require_timelock_executed :: "stablecoin_config \<Rightarrow> u8 \<Rightarrow> unit res" where
  "require_timelock_executed c op_kind =
     (if c_admin_timelock_delay c = 0 then Inr () else Inl (Admin TimelockRequired))"

lemma require_timelock_executed_Inr [run_ok]:
  "require_timelock_executed c op_kind = Inr u \<longleftrightarrow> c_admin_timelock_delay c = 0"
  by (simp add: require_timelock_executed_def)

section \<open>What installing the multisig leaves behind\<close>

lemma init_squads_authority_ok:
  assumes "init_squads_authority_handler rt ctx ex p = Inr (c', sq)"
  shows "c_authority c' = isp_multisig_pda p" "c_squads_multisig c' = isp_multisig_pda p"
    "isp_multisig_pda p \<noteq> default_key" "c_preset c' = 4" "flag_set c' FLAG_SQUADS_AUTHORITY"
    "distinct (sq_members sq)" "0 < unat (sq_threshold sq)"
    "unat (sq_threshold sq) \<le> length (sq_members sq)" "length (sq_members sq) \<le> 10"
    "c_squads_multisig (ac_cfg ctx) = default_key"
  using assms
  by (auto simp: init_squads_authority_handler_def Let_def check_after_set flag_defs
      PRESET_INSTITUTIONAL_def SQUADS_MAX_MEMBERS_def word_to_nat run_ok split: if_splits)

end
