(* ===== verification/RefLedger.thy ===== *)
theory RefLedger
  imports Runtime
begin

text \<open>
  One instance of the runtime parameters, by which the witnesses of the development evaluate the
  handlers and which shows that the laws of \<open>token_ledger\<close> can hold together: a ledger with
  token accounts, mints, a mint authority per mint, frozen accounts and a permanent delegate,
  whose operations check the signature, the mint, the frozen state and the balances as the token
  program is documented to do. No property of the program rests on it.
\<close>

record ref_ledger =
  rl_tokens :: "pubkey \<Rightarrow> token_account option"
  rl_mints :: "pubkey \<Rightarrow> token_mint option"
  rl_mint_authority :: "pubkey \<Rightarrow> pubkey"
  rl_frozen :: "pubkey \<Rightarrow> bool"
  rl_delegate :: pubkey

fun seed_code :: "seed \<Rightarrow> pubkey" where
  "seed_code (SeedStr s) = of_nat (length s)"
| "seed_code (SeedKey k) = k"
| "seed_code (SeedU64 n) = ucast n"

definition ref_pda :: "seed list \<Rightarrow> pubkey" where
  "ref_pda seeds = foldr (\<lambda>s h. 1000 * h + seed_code s) seeds 1"

definition put_amount :: "ref_ledger \<Rightarrow> pubkey \<Rightarrow> token_account \<Rightarrow> u64 \<Rightarrow> ref_ledger" where
  "put_amount w k ta n = w\<lparr>rl_tokens := (rl_tokens w)(k \<mapsto> ta\<lparr>ta_amount := n\<rparr>)\<rparr>"

definition put_supply :: "ref_ledger \<Rightarrow> pubkey \<Rightarrow> token_mint \<Rightarrow> u64 \<Rightarrow> ref_ledger" where
  "put_supply w m tm n = w\<lparr>rl_mints := (rl_mints w)(m \<mapsto> tm\<lparr>tm_supply := n\<rparr>)\<rparr>"

definition may_spend :: "ref_ledger \<Rightarrow> pubkey list \<Rightarrow> pubkey \<Rightarrow> token_account \<Rightarrow> bool" where
  "may_spend w sgs auth ta \<longleftrightarrow> auth \<in> set sgs \<and> (auth = ta_owner ta \<or> auth = rl_delegate w)"

definition ref_burn :: "ref_ledger \<Rightarrow> pubkey list \<Rightarrow> pubkey \<Rightarrow> pubkey \<Rightarrow> pubkey \<Rightarrow> u64 \<Rightarrow> nat + ref_ledger" where
  "ref_burn w sgs m k auth n =
     andthen (ok_or (rl_tokens w k) 1) (\<lambda>ta. andthen (ok_or (rl_mints w m) 1) (\<lambda>tm.
       guarded [(ta_mint ta = m, 2), (\<not> rl_frozen w k, 3), (may_spend w sgs auth ta, 4)]
       (andthen (ok_or (checked_sub (ta_amount ta) n) 5) (\<lambda>a.
        andthen (ok_or (checked_sub (tm_supply tm) n) 5) (\<lambda>s.
          Inr (put_supply (put_amount w k ta a) m tm s))))))"

fun ref_invoke :: "ref_ledger \<Rightarrow> pubkey list \<Rightarrow> token_instr \<Rightarrow> nat + ref_ledger" where
  "ref_invoke w sgs (MintTo m k auth n) =
     andthen (ok_or (rl_tokens w k) 1) (\<lambda>ta. andthen (ok_or (rl_mints w m) 1) (\<lambda>tm.
       guarded [(ta_mint ta = m, 2), (\<not> rl_frozen w k, 3),
                (auth \<in> set sgs \<and> auth = rl_mint_authority w m, 4)]
       (andthen (ok_or (checked_add (ta_amount ta) n) 5) (\<lambda>a.
        andthen (ok_or (checked_add (tm_supply tm) n) 5) (\<lambda>s.
          Inr (put_supply (put_amount w k ta a) m tm s))))))"
| "ref_invoke w sgs (Burn m k auth n) = ref_burn w sgs m k auth n"
| "ref_invoke w sgs (BurnChecked m k auth n d) =
     andthen (ok_or (rl_mints w m) 1) (\<lambda>tm.
       guarded [(tm_decimals tm = d, 6)] (ref_burn w sgs m k auth n))"
| "ref_invoke w sgs (TransferChecked f m t auth n d) =
     andthen (ok_or (rl_tokens w f) 1) (\<lambda>ta. andthen (ok_or (rl_tokens w t) 1) (\<lambda>tb.
     andthen (ok_or (rl_mints w m) 1) (\<lambda>tm.
       guarded [(ta_mint ta = m, 2), (ta_mint tb = m, 2), (\<not> rl_frozen w f, 3), (\<not> rl_frozen w t, 3),
                (may_spend w sgs auth ta, 4), (tm_decimals tm = d, 6)]
       (andthen (ok_or (checked_sub (ta_amount ta) n) 5) (\<lambda>a.
          if f = t then Inr w
          else andthen (ok_or (checked_add (ta_amount tb) n) 5) (\<lambda>b.
            Inr (put_amount (put_amount w f ta a) t tb b)))))))"
| "ref_invoke w sgs (FreezeAccount k m auth) =
     guarded [(auth \<in> set sgs \<and> auth = rl_mint_authority w m, 4)]
       (Inr (w\<lparr>rl_frozen := (rl_frozen w)(k := True)\<rparr>))"
| "ref_invoke w sgs (ThawAccount k m auth) =
     guarded [(auth \<in> set sgs \<and> auth = rl_mint_authority w m, 4)]
       (Inr (w\<lparr>rl_frozen := (rl_frozen w)(k := False)\<rparr>))"

definition ref_runtime :: "u64 \<Rightarrow> u64 \<Rightarrow> i64 \<Rightarrow> ref_ledger runtime" where
  "ref_runtime slot epoch time =
     \<lparr>rt_slot = slot, rt_epoch = epoch, rt_unix_timestamp = time,
      rt_create_pda = (\<lambda>seeds bump. Some (ref_pda seeds)),
      rt_find_pda = (\<lambda>seeds. (ref_pda seeds, 255)),
      rt_invoke = ref_invoke, rt_token = rl_tokens, rt_mint = rl_mints\<rparr>"

lemma ref_runtime_simps [simp]:
  "rt_slot (ref_runtime s e t) = s" "rt_epoch (ref_runtime s e t) = e"
  "rt_unix_timestamp (ref_runtime s e t) = t"
  "rt_create_pda (ref_runtime s e t) seeds bump = Some (ref_pda seeds)"
  "rt_find_pda (ref_runtime s e t) seeds = (ref_pda seeds, 255)"
  "rt_invoke (ref_runtime s e t) = ref_invoke"
  "rt_token (ref_runtime s e t) = rl_tokens" "rt_mint (ref_runtime s e t) = rl_mints"
  by (simp_all add: ref_runtime_def)

lemma ref_supply [simp]:
  "supply_of (ref_runtime s e t) (put_amount w k ta n) = supply_of (ref_runtime s e t) w"
  "supply_of (ref_runtime s e t) (put_supply w m tm n) =
     (supply_of (ref_runtime s e t) w)(m := unat n)"
  "balance_of (ref_runtime s e t) (put_supply w m tm n) = balance_of (ref_runtime s e t) w"
  "balance_of (ref_runtime s e t) (put_amount w k ta n) =
     (balance_of (ref_runtime s e t) w)(k := unat n)"
  by (auto simp: supply_of_def balance_of_def put_amount_def put_supply_def fun_eq_iff)

lemma ref_burn_ok:
  assumes "ref_burn w sgs m k auth n = Inr w'"
  shows "unat n \<le> supply_of (ref_runtime s e t) w m \<and> unat n \<le> balance_of (ref_runtime s e t) w k \<and>
    supply_of (ref_runtime s e t) w' =
      (supply_of (ref_runtime s e t) w)(m := supply_of (ref_runtime s e t) w m - unat n) \<and>
    balance_of (ref_runtime s e t) w' =
      (balance_of (ref_runtime s e t) w)(k := balance_of (ref_runtime s e t) w k - unat n) \<and>
    auth \<in> set sgs"
proof -
  from assms obtain ta tm a b where *: "rl_tokens w k = Some ta" "rl_mints w m = Some tm"
    "unat (ta_amount ta) = unat n + unat a" "unat (tm_supply tm) = unat n + unat b"
    "w' = put_supply (put_amount w k ta a) m tm b" "may_spend w sgs auth ta"
    by (auto simp: ref_burn_def run_ok arith_ok)
  have "supply_of (ref_runtime s e t) w m = unat n + unat b"
    and "balance_of (ref_runtime s e t) w k = unat n + unat a"
    using * by (simp_all add: supply_of_def balance_of_def)
  then show ?thesis using * by (simp add: may_spend_def)
qed

interpretation ref: token_ledger "ref_runtime s e t"
proof unfold_locales
  let ?S = "supply_of (ref_runtime s e t)" and ?B = "balance_of (ref_runtime s e t)"
  {
    fix w w' :: ref_ledger and sgs m k auth n
    assume "rt_invoke (ref_runtime s e t) w sgs (MintTo m k auth n) = Inr w'"
    then obtain ta tm a b where *: "rl_tokens w k = Some ta" "rl_mints w m = Some tm"
      "unat a = unat (ta_amount ta) + unat n" "unat b = unat (tm_supply tm) + unat n"
      "w' = put_supply (put_amount w k ta a) m tm b" "auth \<in> set sgs"
      by (auto simp: run_ok arith_ok)
    have "?S w m = unat (tm_supply tm)" "?B w k = unat (ta_amount ta)"
      using * by (simp_all add: supply_of_def balance_of_def)
    then show "?S w' = (?S w)(m := ?S w m + unat n) \<and> ?B w' = (?B w)(k := ?B w k + unat n) \<and>
        ?S w m + unat n < 2 ^ 64 \<and> auth \<in> set sgs"
      using * u64_bound [of b] by simp
  next
    fix w w' :: ref_ledger and sgs m k auth n
    assume "rt_invoke (ref_runtime s e t) w sgs (Burn m k auth n) = Inr w'"
    then show "unat n \<le> ?S w m \<and> unat n \<le> ?B w k \<and> ?S w' = (?S w)(m := ?S w m - unat n) \<and>
        ?B w' = (?B w)(k := ?B w k - unat n) \<and> auth \<in> set sgs"
      by (simp add: ref_burn_ok)
  next
    fix w w' :: ref_ledger and sgs m k auth n d
    assume "rt_invoke (ref_runtime s e t) w sgs (BurnChecked m k auth n d) = Inr w'"
    then have "ref_burn w sgs m k auth n = Inr w'" by (auto simp: run_ok)
    then show "unat n \<le> ?S w m \<and> unat n \<le> ?B w k \<and> ?S w' = (?S w)(m := ?S w m - unat n) \<and>
        ?B w' = (?B w)(k := ?B w k - unat n) \<and> auth \<in> set sgs"
      by (rule ref_burn_ok)
  next
    fix w w' :: ref_ledger and sgs f m k auth n d
    assume "rt_invoke (ref_runtime s e t) w sgs (TransferChecked f m k auth n d) = Inr w'"
    then obtain ta tb a where *: "rl_tokens w f = Some ta" "rl_tokens w k = Some tb"
      "unat (ta_amount ta) = unat n + unat a" "may_spend w sgs auth ta"
      "f = k \<longrightarrow> w' = w" "f \<noteq> k \<longrightarrow> (\<exists>b. unat b = unat (ta_amount tb) + unat n \<and>
         w' = put_amount (put_amount w f ta a) k tb b)"
      by (cases "f = k") (auto simp: run_ok arith_ok)
    have "?B w f = unat n + unat a" "?B w k = unat (ta_amount tb)"
      using * by (simp_all add: balance_of_def)
    then show "unat n \<le> ?B w f \<and> ?S w' = ?S w \<and> ?B w' = ((?B w)(f := ?B w f - unat n))
        (k := ((?B w)(f := ?B w f - unat n)) k + unat n) \<and> auth \<in> set sgs"
    proof (cases "f = k")
      case True
      with * \<open>?B w f = _\<close> show ?thesis by (simp add: may_spend_def fun_upd_idem)
    next
      case False
      with *(6) obtain b where "unat b = unat (ta_amount tb) + unat n"
        "w' = put_amount (put_amount w f ta a) k tb b" by blast
      with False * \<open>?B w f = _\<close> \<open>?B w k = _\<close> show ?thesis by (simp add: may_spend_def)
    qed
  next
    fix w w' :: ref_ledger and sgs k m auth
    assume "rt_invoke (ref_runtime s e t) w sgs (FreezeAccount k m auth) = Inr w'"
    then show "?S w' = ?S w \<and> ?B w' = ?B w"
      by (auto simp: supply_of_def balance_of_def fun_eq_iff split: if_splits)
  next
    fix w w' :: ref_ledger and sgs k m auth
    assume "rt_invoke (ref_runtime s e t) w sgs (ThawAccount k m auth) = Inr w'"
    then show "?S w' = ?S w \<and> ?B w' = ?B w"
      by (auto simp: supply_of_def balance_of_def fun_eq_iff split: if_splits)
  }
qed

interpretation ref_live: token_progress "ref_runtime s e t" "\<lambda>w k. \<not> rl_frozen w k"
proof unfold_locales
  let ?R = "ref_runtime s e t"
  {
    fix w :: ref_ledger and k ta m tm d auth n and sgs :: "pubkey list"
    assume "rt_token ?R w k = Some ta" "rt_mint ?R w m = Some tm" "ta_mint ta = m" "tm_decimals tm = d"
      "\<not> rl_frozen w k" "ta_owner ta = auth" "auth \<in> set sgs" "n \<le> ta_amount ta" "n \<le> tm_supply tm"
    then show "\<exists>w'. rt_invoke ?R w sgs (BurnChecked m k auth n d) = Inr w'"
      by (auto simp: ref_burn_def may_spend_def checked_sub_def)
  next
    fix w w' :: ref_ledger and sgs m k auth n d
    assume "rt_invoke ?R w sgs (BurnChecked m k auth n d) = Inr w'"
    then show "(\<forall>j. j \<noteq> k \<longrightarrow> rt_token ?R w' j = rt_token ?R w j) \<and>
       (\<forall>j. j \<noteq> m \<longrightarrow> rt_mint ?R w' j = rt_mint ?R w j) \<and> (\<lambda>k. \<not> rl_frozen w' k) = (\<lambda>k. \<not> rl_frozen w k)"
      by (auto simp: ref_burn_def run_ok put_amount_def put_supply_def)
  next
    fix w :: ref_ledger and f tf t' tt m tm d auth n and sgs :: "pubkey list"
    assume "rt_token ?R w f = Some tf" "rt_token ?R w t' = Some tt" "rt_mint ?R w m = Some tm"
      "ta_mint tf = m" "ta_mint tt = m" "tm_decimals tm = d" "\<not> rl_frozen w f" "\<not> rl_frozen w t'"
      "ta_owner tf = auth" "auth \<in> set sgs" "n \<le> ta_amount tf" "unat (ta_amount tt) + unat n < 2 ^ 64"
    then show "\<exists>w'. rt_invoke ?R w sgs (TransferChecked f m t' auth n d) = Inr w'"
      by (auto simp: may_spend_def checked_sub_def checked_add_def)
  }
qed

end
