(* ===== verification/Demo.thy ===== *)
theory Demo
  imports State RefLedger
begin

text \<open>
  Concrete accounts for the witnesses: a stablecoin with mint 5, authority 7 and compliance
  authority 8, and a ledger with the token accounts 20 (owner 9), 21 (owner 10) and the collateral
  accounts 30 (the reserve vault), 31 (owner 9), 32 (owner 10).
\<close>

definition demo_config :: stablecoin_config where
  "demo_config =
     \<lparr>c_mint = 5, c_authority = 7, c_compliance_authority = 8, c_preset = 3,
      c_paused = False, c_total_minted = 1000, c_total_burned = 100, c_transfer_hook_program = 0,
      c_collateral_mint = 6, c_reserve_vault = 30, c_total_collateral = 900, c_max_supply = 5000,
      c_pending_authority = 0, c_pending_compliance_authority = 0, c_feature_flags = 0,
      c_max_transfer_amount = 0, c_expected_pyth_feed = 0, c_admin_op_mature_slot = 0,
      c_admin_op_kind = 0, c_admin_op_param = 0, c_admin_op_target = 0,
      c_admin_timelock_delay = 432000, c_max_oracle_age_secs = 0, c_max_oracle_conf_bps = 0,
      c_stability_fee_bps = 0, c_redemption_fee_bps = 0, c_insurance_fund_pubkey = 0,
      c_max_backstop_bps = 0, c_auditor_elgamal_pubkey = 0, c_oracle_type = 0, c_oracle_feed = 0,
      c_supply_cap_locked = True, c_version = 1, c_min_reserve_ratio_bps = 0,
      c_travel_rule_threshold = 0, c_sanctions_oracle = 0, c_sanctions_max_staleness_slots = 0,
      c_authorized_keepers = [], c_squads_multisig = 0, c_expected_upgrade_authority = 0,
      c_bump = 255\<rparr>"

definition demo_cfg_key :: pubkey where
  "demo_cfg_key = ref_pda (config_seeds 5)"

definition demo_acct :: "stablecoin_config \<Rightarrow> stablecoin_config account" where
  "demo_acct c = \<lparr>key_of = demo_cfg_key, data_of = c\<rparr>"

definition demo_ledger :: ref_ledger where
  "demo_ledger =
     \<lparr>rl_tokens = Map.empty
        (20 \<mapsto> \<lparr>ta_mint = 5, ta_owner = 9, ta_amount = 600\<rparr>,
         21 \<mapsto> \<lparr>ta_mint = 5, ta_owner = 10, ta_amount = 300\<rparr>,
         30 \<mapsto> \<lparr>ta_mint = 6, ta_owner = demo_cfg_key, ta_amount = 900\<rparr>,
         31 \<mapsto> \<lparr>ta_mint = 6, ta_owner = 9, ta_amount = 50\<rparr>,
         32 \<mapsto> \<lparr>ta_mint = 6, ta_owner = 10, ta_amount = 70\<rparr>),
      rl_mints = Map.empty
        (5 \<mapsto> \<lparr>tm_decimals = 6, tm_supply = 900\<rparr>, 6 \<mapsto> \<lparr>tm_decimals = 6, tm_supply = 2000\<rparr>),
      rl_mint_authority = (\<lambda>_. demo_cfg_key),
      rl_frozen = (\<lambda>_. False),
      rl_delegate = demo_cfg_key\<rparr>"

lemma demo_acct_simps [simp]: "key_of (demo_acct c) = demo_cfg_key" "data_of (demo_acct c) = c"
  by (simp_all add: demo_acct_def)

lemma demo_config_seeds [simp]: "seeds_ok (ref_runtime s e t) demo_cfg_key (config_seeds 5) b"
  by (simp add: seeds_ok_def demo_cfg_key_def)

text \<open>What a witness unfolds to evaluate a handler.\<close>

named_theorems eval_defs \<open>definitions unfolded in evaluations\<close>

lemmas demo_eval [eval_defs] =
  demo_ledger_def demo_config_def seeds_ok_def cpi_signed_def cpi_def load_token_def load_mint_def
  ref_burn_def put_amount_def put_supply_def may_spend_def check_feature_flag_def flag_defs
  checked_add_def checked_sub_def checked_mul_def saturating_sub_def net_supply_def
  MIN_SUPPORTED_VERSION_def Let_def

end
