(* ===== verification/Admin.thy ===== *)
theory Admin
  imports AuthGate Demo
begin

text \<open>
  Administration of a stablecoin by its authority: the timelock through which privileged changes
  are proposed, executed and cancelled, the direct setters that work only while no timelock is
  configured, the pause switch, the handover of the two authorities and the keeper list
  (programs/sss-token/src/instructions/{admin\_timelock,feature\_flags,spend\_policy,psm\_fee,
  stability\_fee,oracle\_config,pause,update\_roles,accept\_authority}.rs). Each handler takes the
  accounts and returns the new configuration.
\<close>

section \<open>Proposing, executing and cancelling\<close>

definition timelock_op_kinds :: "u8 list" where
  "timelock_op_kinds =
     [ADMIN_OP_TRANSFER_AUTHORITY, ADMIN_OP_SET_FEATURE_FLAG, ADMIN_OP_CLEAR_FEATURE_FLAG,
      ADMIN_OP_SET_PYTH_FEED, ADMIN_OP_SET_ORACLE_PARAMS, ADMIN_OP_SET_STABILITY_FEE,
      ADMIN_OP_SET_PSM_FEE, ADMIN_OP_SET_BACKSTOP_PARAMS, ADMIN_OP_SET_SPEND_LIMIT,
      ADMIN_OP_TRANSFER_COMPLIANCE_AUTHORITY, ADMIN_OP_SET_ORACLE_CONFIG,
      ADMIN_OP_SET_MIN_RESERVE_RATIO, ADMIN_OP_SET_TRAVEL_RULE_THRESHOLD,
      ADMIN_OP_SET_SANCTIONS_PARAMS, ADMIN_OP_SET_TIMELOCK_DELAY, ADMIN_OP_PAUSE]"

definition propose_timelocked_op_handler ::
  "'w runtime \<Rightarrow> admin_ctx \<Rightarrow> u8 \<Rightarrow> u64 \<Rightarrow> pubkey \<Rightarrow> stablecoin_config res" where
  "propose_timelocked_op_handler rt ctx op_kind param target =
     (let c = ac_cfg ctx in
      guarded (authority_accounts rt ctx)
        (andthen (squads_gate c (ac_authority ctx)) (\<lambda>_.
         guarded
           [(op_kind \<noteq> ADMIN_OP_UNPAUSE, Late InstructionDisabled),
            (op_kind \<in> set timelock_op_kinds, Admin InvalidTimelockOpKind)]
           (let delay = c_admin_timelock_delay c;
                effective_delay = (if op_kind = ADMIN_OP_TRANSFER_COMPLIANCE_AUTHORITY
                                   then max delay DEFAULT_ADMIN_TIMELOCK_DELAY else delay) in
            andthen (ok_or (checked_add (rt_slot rt) effective_delay) (Late Overflow)) (\<lambda>mature.
            Inr (c\<lparr>c_admin_op_kind := op_kind, c_admin_op_param := param,
                   c_admin_op_target := target, c_admin_op_mature_slot := mature\<rparr>))))))"

text \<open>The \<open>match op_kind\<close> of the execution.\<close>

definition apply_timelocked_op ::
  "stablecoin_config \<Rightarrow> u8 \<Rightarrow> u64 \<Rightarrow> pubkey \<Rightarrow> stablecoin_config res" where
  "apply_timelocked_op c op_kind param target =
     (if op_kind = ADMIN_OP_TRANSFER_AUTHORITY then
        guarded [(target \<noteq> default_key, Admin NoTimelockPending)] (Inr (c\<lparr>c_pending_authority := target\<rparr>))
      else if op_kind = ADMIN_OP_SET_FEATURE_FLAG then
        Inr (c\<lparr>c_feature_flags := set_flags (c_feature_flags c) param\<rparr>)
      else if op_kind = ADMIN_OP_CLEAR_FEATURE_FLAG then
        guarded
          [(\<not> check_feature_flag param FLAG_DAO_COMMITTEE, Compliance DaoFlagProtected),
           (\<not> check_feature_flag param FLAG_SQUADS_AUTHORITY, Compliance DaoFlagProtected)]
          (Inr (c\<lparr>c_feature_flags := clear_flags (c_feature_flags c) param\<rparr>))
      else if op_kind = ADMIN_OP_SET_PYTH_FEED then
        Inr (let c1 = c\<lparr>c_expected_pyth_feed := target\<rparr> in
             if c_oracle_type c1 = 0 then c1\<lparr>c_oracle_feed := target\<rparr> else c1)
      else if op_kind = ADMIN_OP_SET_ORACLE_PARAMS then
        Inr (c\<lparr>c_max_oracle_age_secs := ucast (drop_bit 16 param),
               c_max_oracle_conf_bps := ucast (param AND 65535)\<rparr>)
      else if op_kind = ADMIN_OP_SET_STABILITY_FEE then
        guarded [(param \<le> 10000, Admin InvalidStabilityFee)] (Inr (c\<lparr>c_stability_fee_bps := ucast param\<rparr>))
      else if op_kind = ADMIN_OP_SET_PSM_FEE then
        guarded [(param \<le> 1000, Admin InvalidPsmFee)] (Inr (c\<lparr>c_redemption_fee_bps := ucast param\<rparr>))
      else if op_kind = ADMIN_OP_SET_BACKSTOP_PARAMS then
        guarded [(param \<le> 10000, Admin InvalidBackstopParams)]
          (Inr (c\<lparr>c_insurance_fund_pubkey := target, c_max_backstop_bps := ucast param\<rparr>))
      else if op_kind = ADMIN_OP_SET_SPEND_LIMIT then
        Inr (c\<lparr>c_max_transfer_amount := param\<rparr>)
      else if op_kind = ADMIN_OP_TRANSFER_COMPLIANCE_AUTHORITY then
        guarded [(target \<noteq> default_key, Core Unauthorized)]
          (Inr (c\<lparr>c_pending_compliance_authority := target\<rparr>))
      else if op_kind = ADMIN_OP_SET_ORACLE_CONFIG then
        (let oracle_type = ucast param :: u8 in
         guarded [(oracle_type \<le> 2, Channel InvalidOracleType)]
           (Inr (c\<lparr>c_oracle_type := oracle_type, c_oracle_feed := target\<rparr>)))
      else if op_kind = ADMIN_OP_SET_MIN_RESERVE_RATIO then
        guarded [(param \<le> 20000, Admin InvalidReserveRatio)]
          (Inr (c\<lparr>c_min_reserve_ratio_bps := ucast param\<rparr>))
      else if op_kind = ADMIN_OP_SET_TRAVEL_RULE_THRESHOLD then
        Inr (c\<lparr>c_travel_rule_threshold := param\<rparr>)
      else if op_kind = ADMIN_OP_SET_SANCTIONS_PARAMS then
        Inr (c\<lparr>c_sanctions_oracle := target, c_sanctions_max_staleness_slots := param\<rparr>)
      else if op_kind = ADMIN_OP_SET_TIMELOCK_DELAY then
        guarded [(216000 \<le> param, Admin InvalidTimelockDelay)] (Inr (c\<lparr>c_admin_timelock_delay := param\<rparr>))
      else if op_kind = ADMIN_OP_PAUSE then Inr (c\<lparr>c_paused := True\<rparr>)
      else if op_kind = ADMIN_OP_UNPAUSE then Inl (Late InstructionDisabled)
      else Inl (Admin InvalidTimelockOpKind))"

definition clear_pending_op :: "stablecoin_config \<Rightarrow> stablecoin_config" where
  "clear_pending_op c =
     c\<lparr>c_admin_op_kind := ADMIN_OP_NONE, c_admin_op_param := 0,
       c_admin_op_target := default_key, c_admin_op_mature_slot := 0\<rparr>"

definition execute_timelocked_op_handler :: "'w runtime \<Rightarrow> admin_ctx \<Rightarrow> stablecoin_config res" where
  "execute_timelocked_op_handler rt ctx =
     (let c = ac_cfg ctx in
      guarded (authority_accounts rt ctx)
        (andthen (squads_gate c (ac_authority ctx)) (\<lambda>_.
         guarded
           [(c_admin_op_kind c \<noteq> ADMIN_OP_NONE, Admin NoTimelockPending),
            (c_admin_op_mature_slot c \<le> rt_slot rt, Admin TimelockNotMature)]
           (andthen (apply_timelocked_op c (c_admin_op_kind c) (c_admin_op_param c) (c_admin_op_target c))
              (\<lambda>c1. Inr (clear_pending_op c1))))))"

definition cancel_timelocked_op_handler :: "'w runtime \<Rightarrow> admin_ctx \<Rightarrow> stablecoin_config res" where
  "cancel_timelocked_op_handler rt ctx =
     guarded (authority_accounts rt ctx)
       (andthen (squads_gate (ac_cfg ctx) (ac_authority ctx)) (\<lambda>_.
        guarded [(c_admin_op_kind (ac_cfg ctx) \<noteq> ADMIN_OP_NONE, Admin NoTimelockPending)]
          (Inr (clear_pending_op (ac_cfg ctx)))))"

section \<open>Direct setters\<close>

definition set_pyth_feed_handler :: "'w runtime \<Rightarrow> admin_ctx \<Rightarrow> pubkey \<Rightarrow> stablecoin_config res" where
  "set_pyth_feed_handler rt ctx feed =
     guarded (authority_accounts rt ctx)
       (andthen (require_timelock_executed (ac_cfg ctx) ADMIN_OP_SET_PYTH_FEED) (\<lambda>_.
        Inr ((ac_cfg ctx)\<lparr>c_expected_pyth_feed := feed\<rparr>)))"

definition set_oracle_params_handler ::
  "'w runtime \<Rightarrow> admin_ctx \<Rightarrow> u32 \<Rightarrow> u16 \<Rightarrow> stablecoin_config res" where
  "set_oracle_params_handler rt ctx max_age_secs max_conf_bps =
     guarded (authority_accounts rt ctx)
       (andthen (require_timelock_executed (ac_cfg ctx) ADMIN_OP_SET_ORACLE_PARAMS) (\<lambda>_.
        Inr ((ac_cfg ctx)\<lparr>c_max_oracle_age_secs := max_age_secs, c_max_oracle_conf_bps := max_conf_bps\<rparr>)))"

definition set_oracle_config_handler ::
  "'w runtime \<Rightarrow> admin_ctx \<Rightarrow> u8 \<Rightarrow> pubkey \<Rightarrow> stablecoin_config res" where
  "set_oracle_config_handler rt ctx oracle_type oracle_feed =
     guarded (authority_accounts rt ctx)
       (andthen (require_timelock_executed (ac_cfg ctx) ADMIN_OP_SET_ORACLE_CONFIG) (\<lambda>_.
        andthen (squads_gate (ac_cfg ctx) (ac_authority ctx)) (\<lambda>_.
        guarded [(oracle_type = 0 \<or> oracle_type = 1 \<or> oracle_type = 2, Channel InvalidOracleType)]
          (Inr ((ac_cfg ctx)\<lparr>c_oracle_type := oracle_type, c_oracle_feed := oracle_feed\<rparr>)))))"

definition set_feature_flag_handler :: "'w runtime \<Rightarrow> admin_ctx \<Rightarrow> u64 \<Rightarrow> stablecoin_config res" where
  "set_feature_flag_handler rt ctx flag =
     guarded (authority_accounts rt ctx)
       (andthen (require_timelock_executed (ac_cfg ctx) ADMIN_OP_SET_FEATURE_FLAG) (\<lambda>_.
        andthen (squads_gate (ac_cfg ctx) (ac_authority ctx)) (\<lambda>_.
        guarded [(\<not> flag_set (ac_cfg ctx) FLAG_DAO_COMMITTEE, Dao DaoCommitteeRequired)]
          (Inr ((ac_cfg ctx)\<lparr>c_feature_flags := set_flags (c_feature_flags (ac_cfg ctx)) flag\<rparr>)))))"

definition clear_feature_flag_handler :: "'w runtime \<Rightarrow> admin_ctx \<Rightarrow> u64 \<Rightarrow> stablecoin_config res" where
  "clear_feature_flag_handler rt ctx flag =
     guarded (authority_accounts rt ctx)
       (andthen (require_timelock_executed (ac_cfg ctx) ADMIN_OP_CLEAR_FEATURE_FLAG) (\<lambda>_.
        andthen (squads_gate (ac_cfg ctx) (ac_authority ctx)) (\<lambda>_.
        guarded
          [(\<not> check_feature_flag flag FLAG_DAO_COMMITTEE, Compliance DaoFlagProtected),
           (\<not> check_feature_flag flag FLAG_SQUADS_AUTHORITY, Compliance DaoFlagProtected),
           (\<not> flag_set (ac_cfg ctx) FLAG_DAO_COMMITTEE, Dao DaoCommitteeRequired)]
          (Inr ((ac_cfg ctx)\<lparr>c_feature_flags := clear_flags (c_feature_flags (ac_cfg ctx)) flag\<rparr>)))))"

definition set_spend_limit_handler :: "'w runtime \<Rightarrow> admin_ctx \<Rightarrow> u64 \<Rightarrow> stablecoin_config res" where
  "set_spend_limit_handler rt ctx max_amount =
     guarded (authority_accounts rt ctx)
       (andthen (require_timelock_executed (ac_cfg ctx) ADMIN_OP_SET_SPEND_LIMIT) (\<lambda>_.
        andthen (squads_gate (ac_cfg ctx) (ac_authority ctx)) (\<lambda>_.
        guarded [(max_amount > 0, Cdp SpendPolicyNotConfigured)]
          (Inr ((ac_cfg ctx)\<lparr>c_max_transfer_amount := max_amount,
                c_feature_flags := set_flags (c_feature_flags (ac_cfg ctx)) FLAG_SPEND_POLICY\<rparr>)))))"

definition clear_spend_limit_handler :: "'w runtime \<Rightarrow> admin_ctx \<Rightarrow> stablecoin_config res" where
  "clear_spend_limit_handler rt ctx =
     guarded (authority_accounts rt ctx)
       (andthen (require_timelock_executed (ac_cfg ctx) ADMIN_OP_SET_SPEND_LIMIT) (\<lambda>_.
        andthen (squads_gate (ac_cfg ctx) (ac_authority ctx)) (\<lambda>_.
        Inr ((ac_cfg ctx)\<lparr>c_feature_flags := clear_flags (c_feature_flags (ac_cfg ctx)) FLAG_SPEND_POLICY,
             c_max_transfer_amount := 0\<rparr>))))"

definition MAX_PSM_FEE_BPS :: u16 where "MAX_PSM_FEE_BPS = 1000"
definition MAX_STABILITY_FEE_BPS :: u16 where "MAX_STABILITY_FEE_BPS = 2000"

definition set_psm_fee_handler :: "'w runtime \<Rightarrow> admin_ctx \<Rightarrow> u16 \<Rightarrow> stablecoin_config res" where
  "set_psm_fee_handler rt ctx fee_bps =
     guarded
       (config_ok rt (ac_config ctx) (ac_mint ctx) @
        [(c_authority (ac_cfg ctx) = ac_authority ctx, Core Unauthorized),
         (c_preset (ac_cfg ctx) = 3, Core InvalidPreset),
         (ac_mint ctx = c_mint (ac_cfg ctx), Anchor ConstraintRaw)])
       (andthen (require_timelock_executed (ac_cfg ctx) ADMIN_OP_SET_PSM_FEE) (\<lambda>_.
        andthen (squads_gate (ac_cfg ctx) (ac_authority ctx)) (\<lambda>_.
        guarded [(fee_bps \<le> MAX_PSM_FEE_BPS, Admin InvalidPsmFee)]
          (Inr ((ac_cfg ctx)\<lparr>c_redemption_fee_bps := fee_bps\<rparr>)))))"

text \<open>Some instructions derive the configuration from its own mint field and take no mint account.\<close>

definition sss3_authority_accounts :: "'w runtime \<Rightarrow> admin_ctx \<Rightarrow> (bool \<times> error) list" where
  "sss3_authority_accounts rt ctx =
     config_ok rt (ac_config ctx) (c_mint (ac_cfg ctx)) @
     [(c_authority (ac_cfg ctx) = ac_authority ctx, Core Unauthorized),
      (c_preset (ac_cfg ctx) = 3, Core InvalidPreset)]"

definition set_stability_fee_handler :: "'w runtime \<Rightarrow> admin_ctx \<Rightarrow> u16 \<Rightarrow> stablecoin_config res" where
  "set_stability_fee_handler rt ctx fee_bps =
     guarded (sss3_authority_accounts rt ctx)
       (andthen (require_timelock_executed (ac_cfg ctx) ADMIN_OP_SET_STABILITY_FEE) (\<lambda>_.
        andthen (squads_gate (ac_cfg ctx) (ac_authority ctx)) (\<lambda>_.
        guarded [(fee_bps \<le> MAX_STABILITY_FEE_BPS, Admin StabilityFeeTooHigh)]
          (Inr ((ac_cfg ctx)\<lparr>c_stability_fee_bps := fee_bps\<rparr>)))))"

section \<open>Pause and the handover of authorities\<close>

definition pause_handler :: "'w runtime \<Rightarrow> admin_ctx \<Rightarrow> bool \<Rightarrow> stablecoin_config res" where
  "pause_handler rt ctx paused =
     guarded (authority_accounts rt ctx)
       (andthen (require_timelock_executed (ac_cfg ctx)
                   (if paused then ADMIN_OP_PAUSE else ADMIN_OP_UNPAUSE)) (\<lambda>_.
        andthen (squads_gate (ac_cfg ctx) (ac_authority ctx)) (\<lambda>_.
        guarded [(\<not> flag_set (ac_cfg ctx) FLAG_DAO_COMMITTEE, Dao DaoCommitteeRequired)]
          (Inr ((ac_cfg ctx)\<lparr>c_paused := paused\<rparr>)))))"

definition update_roles_handler ::
  "'w runtime \<Rightarrow> admin_ctx \<Rightarrow> pubkey option \<Rightarrow> pubkey option \<Rightarrow> stablecoin_config res" where
  "update_roles_handler rt ctx new_authority new_compliance_authority =
     guarded (authority_accounts rt ctx)
       (andthen (squads_gate (ac_cfg ctx) (ac_authority ctx)) (\<lambda>_.
        guarded [(new_compliance_authority = None, Compliance ComplianceAuthorityRequiresTimelock)]
          (case new_authority of
             None \<Rightarrow> Inr (ac_cfg ctx)
           | Some proposed \<Rightarrow>
               guarded [(c_admin_timelock_delay (ac_cfg ctx) = 0, Channel UseTimelockForAuthorityTransfer)]
                 (Inr ((ac_cfg ctx)\<lparr>c_pending_authority := proposed\<rparr>)))))"

text \<open>Here the signer is the pending authority.\<close>

definition accept_authority_handler :: "'w runtime \<Rightarrow> admin_ctx \<Rightarrow> stablecoin_config res" where
  "accept_authority_handler rt ctx =
     guarded
       (config_ok rt (ac_config ctx) (ac_mint ctx) @
        [(c_pending_authority (ac_cfg ctx) \<noteq> default_key, Core NoPendingAuthority),
         (c_pending_authority (ac_cfg ctx) = ac_authority ctx, Core Unauthorized),
         (ac_mint ctx = c_mint (ac_cfg ctx), Anchor ConstraintRaw)])
       (Inr ((ac_cfg ctx)\<lparr>c_authority := c_pending_authority (ac_cfg ctx), c_pending_authority := default_key\<rparr>))"

definition accept_compliance_authority_handler :: "'w runtime \<Rightarrow> admin_ctx \<Rightarrow> stablecoin_config res" where
  "accept_compliance_authority_handler rt ctx =
     guarded
       (config_ok rt (ac_config ctx) (ac_mint ctx) @
        [(c_pending_compliance_authority (ac_cfg ctx) \<noteq> default_key, Core NoPendingComplianceAuthority),
         (c_pending_compliance_authority (ac_cfg ctx) = ac_authority ctx, Core Unauthorized),
         (ac_mint ctx = c_mint (ac_cfg ctx), Anchor ConstraintRaw)])
       (Inr ((ac_cfg ctx)\<lparr>c_compliance_authority := c_pending_compliance_authority (ac_cfg ctx),
             c_pending_compliance_authority := default_key\<rparr>))"

section \<open>The keeper list\<close>

text \<open>\<open>iter_mut().find(..)\<close> followed by an assignment through the reference: the first match is replaced.\<close>

fun replace_first :: "'a \<Rightarrow> 'a \<Rightarrow> 'a list \<Rightarrow> 'a list option" where
  "replace_first a b [] = None"
| "replace_first a b (x # xs) = (if x = a then Some (b # xs) else map_option ((#) x) (replace_first a b xs))"

definition add_authorized_keeper_handler :: "'w runtime \<Rightarrow> admin_ctx \<Rightarrow> pubkey \<Rightarrow> stablecoin_config res" where
  "add_authorized_keeper_handler rt ctx keeper =
     guarded (sss3_authority_accounts rt ctx @ [(keeper \<noteq> default_key, Core Unauthorized)])
       (if keeper \<in> set (c_authorized_keepers (ac_cfg ctx)) then Inr (ac_cfg ctx)
        else andthen (ok_or (replace_first default_key keeper (c_authorized_keepers (ac_cfg ctx))) (Whitelist WhitelistFull))
          (\<lambda>ks. Inr ((ac_cfg ctx)\<lparr>c_authorized_keepers := ks\<rparr>)))"

definition remove_authorized_keeper_handler :: "'w runtime \<Rightarrow> admin_ctx \<Rightarrow> pubkey \<Rightarrow> stablecoin_config res" where
  "remove_authorized_keeper_handler rt ctx keeper =
     guarded (sss3_authority_accounts rt ctx)
       (andthen (ok_or (replace_first keeper default_key (c_authorized_keepers (ac_cfg ctx))) (Dao MemberNotFound))
          (\<lambda>ks. Inr ((ac_cfg ctx)\<lparr>c_authorized_keepers := ks\<rparr>)))"

end
