(* ===== verification/Reserve.thy ===== *)
theory Reserve
  imports AuthGate Demo
begin

text \<open>
  The life of a stablecoin around its reserve: \<open>initialize\<close> creates the configuration, collateral
  enters the reserve vault through \<open>deposit_collateral\<close> and leaves it through \<open>redeem\<close>, and the
  compliance authority freezes and thaws holders
  (programs/sss-token/src/instructions/{initialize,deposit\_collateral,redeem,freeze,thaw}.rs).
\<close>

section \<open>initialize\<close>

record initialize_params =
  ip_preset :: u8
  ip_decimals :: u8
  ip_transfer_hook_program :: "pubkey option"
  ip_collateral_mint :: "pubkey option"
  ip_reserve_vault :: "pubkey option"
  ip_max_supply :: "u64 option"
  ip_feature_flags :: "u64 option"
  ip_auditor_elgamal_pubkey :: "bytes32 option"
  ip_admin_timelock_delay :: "u64 option"
  ip_squads_multisig :: "pubkey option"

record confidential_transfer_config =
  ctc_mint :: pubkey
  ctc_auditor_elgamal_pubkey :: bytes32
  ctc_auto_approve_new_accounts :: bool
  ctc_bump :: u8

text \<open>
  The three calls to the system and token programs that create the mint: allocate the account,
  set its default account state to frozen, and \<open>initialize_mint2\<close> with its decimals, mint authority
  and freeze authority.
\<close>

record 'w mint_setup =
  ms_create_account :: "'w \<Rightarrow> pubkey \<Rightarrow> pubkey \<Rightarrow> nat \<Rightarrow> nat + 'w"
  ms_default_state_frozen :: "'w \<Rightarrow> pubkey \<Rightarrow> nat + 'w"
  ms_initialize_mint :: "'w \<Rightarrow> pubkey \<Rightarrow> u8 \<Rightarrow> pubkey \<Rightarrow> pubkey \<Rightarrow> nat + 'w"

definition MINT_WITH_DEFAULT_STATE_LEN :: nat where "MINT_WITH_DEFAULT_STATE_LEN = 171"
definition SSS3_MIN_TIMELOCK :: u64 where "SSS3_MIN_TIMELOCK = 216000"

definition unwrap_or :: "'a option \<Rightarrow> 'a \<Rightarrow> 'a" where
  "unwrap_or x d = (case x of None \<Rightarrow> d | Some y \<Rightarrow> y)"

text \<open>
  \<open>existing\<close> is the configuration already stored at the derived address (\<open>init\<close> fails unless there is
  none); \<open>ct\<close> the data of the optional \<open>ct_config\<close> account (zeroes when it is created by this call).
\<close>

record init_ctx =
  in_payer :: pubkey
  in_mint :: pubkey
  in_existing :: "stablecoin_config option"
  in_ct :: "confidential_transfer_config option"
  in_token_program :: pubkey
  in_token_2022_id :: pubkey

definition fresh_config :: "init_ctx \<Rightarrow> initialize_params \<Rightarrow> bool \<Rightarrow> u8 \<Rightarrow> stablecoin_config" where
  "fresh_config ctx p ct_enabled bump =
     (let squads = (case ip_squads_multisig p of
                      Some k \<Rightarrow> if k \<noteq> default_key then Some k else None | None \<Rightarrow> None) in
      \<lparr>c_mint = in_mint ctx, c_authority = in_payer ctx, c_compliance_authority = in_payer ctx,
       c_preset = ip_preset p, c_paused = False, c_total_minted = 0, c_total_burned = 0,
       c_transfer_hook_program = unwrap_or (ip_transfer_hook_program p) default_key,
       c_collateral_mint = unwrap_or (ip_collateral_mint p) default_key,
       c_reserve_vault = unwrap_or (ip_reserve_vault p) default_key,
       c_total_collateral = 0, c_max_supply = unwrap_or (ip_max_supply p) 0,
       c_pending_authority = default_key, c_pending_compliance_authority = default_key,
       c_feature_flags =
         (case squads of None \<Rightarrow> unwrap_or (ip_feature_flags p) 0
          | Some _ \<Rightarrow> set_flags (unwrap_or (ip_feature_flags p) 0) FLAG_SQUADS_AUTHORITY),
       c_max_transfer_amount = 0, c_expected_pyth_feed = default_key, c_admin_op_mature_slot = 0,
       c_admin_op_kind = ADMIN_OP_NONE, c_admin_op_param = 0, c_admin_op_target = default_key,
       c_admin_timelock_delay = unwrap_or (ip_admin_timelock_delay p) DEFAULT_ADMIN_TIMELOCK_DELAY,
       c_max_oracle_age_secs = 0, c_max_oracle_conf_bps = 0, c_stability_fee_bps = 0,
       c_redemption_fee_bps = 0, c_insurance_fund_pubkey = default_key, c_max_backstop_bps = 0,
       c_auditor_elgamal_pubkey =
         (if ct_enabled then unwrap_or (ip_auditor_elgamal_pubkey p) 0 else 0),
       c_oracle_type = 0, c_oracle_feed = default_key, c_supply_cap_locked = (ip_preset p = 3),
       c_version = CURRENT_VERSION, c_min_reserve_ratio_bps = 0, c_travel_rule_threshold = 0,
       c_sanctions_oracle = default_key, c_sanctions_max_staleness_slots = 0,
       c_authorized_keepers = [], c_squads_multisig = unwrap_or squads default_key,
       c_expected_upgrade_authority = default_key, c_bump = bump\<rparr>)"

definition initialize_handler ::
  "'w runtime \<Rightarrow> 'w mint_setup \<Rightarrow> 'w \<Rightarrow> init_ctx \<Rightarrow> initialize_params \<Rightarrow>
     (stablecoin_config account \<times> confidential_transfer_config option \<times> 'w) res" where
  "initialize_handler rt ms w ctx p =
     (let (config_key, bump) = rt_find_pda rt (config_seeds (in_mint ctx));
          ct_bump = snd (rt_find_pda rt [SeedStr ''ct-config'', SeedKey (in_mint ctx)]);
          ct_enabled = check_feature_flag (unwrap_or (ip_feature_flags p) 0) FLAG_CONFIDENTIAL_TRANSFERS;
          flags = unwrap_or (ip_feature_flags p) 0;
          c = fresh_config ctx p ct_enabled bump in
      guarded
        ([(in_existing ctx = None, Anchor AccountAlreadyInUse),
          (ip_preset p = 1 \<or> ip_preset p = 2 \<or> ip_preset p = 3, Core InvalidPreset),
          (ip_preset p = 2 \<longrightarrow> ip_transfer_hook_program p \<noteq> None, Core MissingTransferHook),
          (ip_preset p = 3 \<longrightarrow> ip_collateral_mint p \<noteq> None, Core InvalidCollateralMint),
          (ip_preset p = 3 \<longrightarrow> ip_reserve_vault p \<noteq> None, Core InvalidVault),
          (ip_preset p = 3 \<longrightarrow> unwrap_or (ip_max_supply p) 0 > 0, Hardening RequiresMaxSupplyForSSS3),
          (ip_preset p = 3 \<longrightarrow> ip_squads_multisig p \<noteq> None \<and> ip_squads_multisig p \<noteq> Some default_key,
             (Hardening RequiresSquadsForSSS3)),
          (ct_enabled \<longrightarrow> ip_auditor_elgamal_pubkey p \<noteq> None, Backstop MissingAuditorKey),
          (in_token_program ctx = in_token_2022_id ctx, Admin InvalidTokenProgram)])
        (andthen (token_result (ms_create_account ms w (in_payer ctx) (in_mint ctx)
                    MINT_WITH_DEFAULT_STATE_LEN)) (\<lambda>w1.
         andthen (token_result (ms_default_state_frozen ms w1 (in_mint ctx))) (\<lambda>w2.
         andthen (token_result (ms_initialize_mint ms w2 (in_mint ctx) (ip_decimals p)
                    config_key config_key)) (\<lambda>w3.
         guarded
           [(ip_preset p = 3 \<longrightarrow> SSS3_MIN_TIMELOCK \<le> c_admin_timelock_delay c, Admin InvalidTimelockDelay),
            (\<not> check_feature_flag flags FLAG_DAO_COMMITTEE, Late InvalidFeatureFlags)]
           (Inr (\<lparr>key_of = config_key, data_of = c\<rparr>,
                 (if ct_enabled
                  then map_option (\<lambda>_. \<lparr>ctc_mint = in_mint ctx,
                         ctc_auditor_elgamal_pubkey = unwrap_or (ip_auditor_elgamal_pubkey p) 0,
                         ctc_auto_approve_new_accounts = True, ctc_bump = ct_bump\<rparr>) (in_ct ctx)
                  else in_ct ctx), w3)))))))"

section \<open>deposit\_collateral and redeem\<close>

record deposit_ctx =
  dp_depositor :: pubkey
  dp_config :: "stablecoin_config account"
  dp_sss_mint :: pubkey
  dp_collateral_mint :: pubkey
  dp_depositor_collateral :: pubkey
  dp_reserve_vault :: pubkey

definition deposit_collateral_handler ::
  "'w runtime \<Rightarrow> 'w \<Rightarrow> deposit_ctx \<Rightarrow> u64 \<Rightarrow> (stablecoin_config \<times> 'w) res" where
  "deposit_collateral_handler rt w ctx amount =
     (let cfg = dp_config ctx; c = data_of cfg; cm = dp_collateral_mint ctx in
      andthen (load_mint rt w cm) (\<lambda>cmint.
      andthen (load_token rt w (dp_depositor_collateral ctx)) (\<lambda>from_acct.
      andthen (load_token rt w (dp_reserve_vault ctx)) (\<lambda>vault.
      guarded
        (config_ok rt cfg (dp_sss_mint ctx) @
         [(c_preset c = 3, Core InvalidPreset),
          (cm = c_collateral_mint c, Core InvalidCollateralMint),
          (ta_owner from_acct = dp_depositor ctx, Anchor ConstraintRaw),
          (ta_mint from_acct = cm, Anchor ConstraintRaw),
          (dp_reserve_vault ctx = c_reserve_vault c, Core InvalidVault),
          (ta_mint vault = cm, Anchor ConstraintRaw),
          (amount > 0, Core ZeroAmount),
          (MIN_SUPPORTED_VERSION \<le> c_version c, Queue ConfigVersionTooOld)])
        (andthen (cpi rt w [dp_depositor ctx]
                    (TransferChecked (dp_depositor_collateral ctx) cm (dp_reserve_vault ctx)
                       (dp_depositor ctx) amount (tm_decimals cmint))) (\<lambda>w'.
         andthen (ok_or (checked_add (c_total_collateral c) amount) (Late Overflow)) (\<lambda>tc.
         Inr (c\<lparr>c_total_collateral := tc\<rparr>, w'))))))))"

record redeem_ctx =
  rd_redeemer :: pubkey
  rd_config :: "stablecoin_config account"
  rd_sss_mint :: pubkey
  rd_redeemer_sss :: pubkey
  rd_collateral_mint :: pubkey
  rd_reserve_vault :: pubkey
  rd_redeemer_collateral :: pubkey

text \<open>The PSM fee: computed in 128 bits and cast back to 64.\<close>

definition redemption_fee :: "stablecoin_config \<Rightarrow> u64 \<Rightarrow> u64 res" where
  "redemption_fee c amount =
     (let fee_bps = ucast (c_redemption_fee_bps c) :: u64 in
      if fee_bps > 0
      then andthen (ok_or (checked_mul (ucast amount :: u128) (ucast fee_bps)) (Late Overflow))
             (\<lambda>x. Inr (ucast (x div 10000)))
      else Inr 0)"

definition redeem_accounts ::
  "'w runtime \<Rightarrow> redeem_ctx \<Rightarrow> token_account \<Rightarrow> token_account \<Rightarrow> token_account \<Rightarrow> (bool \<times> error) list" where
  "redeem_accounts rt ctx sss vault out =
     (let cfg = rd_config ctx; c = data_of cfg; cm = rd_collateral_mint ctx in
      config_ok rt cfg (rd_sss_mint ctx) @
      [(c_preset c = 3, Core InvalidPreset),
       (\<not> c_paused c, Core MintPaused),
       (rd_sss_mint ctx = c_mint c, Anchor ConstraintRaw),
       (ta_owner sss = rd_redeemer ctx, Anchor ConstraintRaw),
       (ta_mint sss = rd_sss_mint ctx, Anchor ConstraintRaw),
       (cm = c_collateral_mint c, Core InvalidCollateralMint),
       (rd_reserve_vault ctx = c_reserve_vault c, Core InvalidVault),
       (ta_mint vault = cm, Anchor ConstraintRaw),
       (ta_owner out = rd_redeemer ctx, Anchor ConstraintRaw),
       (ta_mint out = cm, Anchor ConstraintRaw)])"

definition redeem_handler ::
  "'w runtime \<Rightarrow> 'w \<Rightarrow> redeem_ctx \<Rightarrow> u64 \<Rightarrow> (stablecoin_config \<times> 'w) res" where
  "redeem_handler rt w ctx amount =
     (let cfg = rd_config ctx; c = data_of cfg; mint = rd_sss_mint ctx; cm = rd_collateral_mint ctx in
      andthen (load_mint rt w mint) (\<lambda>smint.
      andthen (load_token rt w (rd_redeemer_sss ctx)) (\<lambda>sss.
      andthen (load_mint rt w cm) (\<lambda>cmint.
      andthen (load_token rt w (rd_reserve_vault ctx)) (\<lambda>vault.
      andthen (load_token rt w (rd_redeemer_collateral ctx)) (\<lambda>out.
      guarded
        (redeem_accounts rt ctx sss vault out @
         [(amount > 0, Core ZeroAmount),
          (MIN_SUPPORTED_VERSION \<le> c_version c, Queue ConfigVersionTooOld),
          (\<not> flag_set c FLAG_CIRCUIT_BREAKER, Cdp CircuitBreakerActive),
          (amount \<le> ta_amount vault, Core InsufficientReserves)])
        (andthen (redemption_fee c amount) (\<lambda>fee.
         andthen (ok_or (checked_sub amount fee) (Backstop InvalidAmount)) (\<lambda>collateral_out.
         guarded [(amount \<le> ta_amount vault, Core InsufficientReserves)]
         (andthen (cpi rt w [rd_redeemer ctx]
                     (BurnChecked mint (rd_redeemer_sss ctx) (rd_redeemer ctx) amount
                        (tm_decimals smint))) (\<lambda>w1.
          andthen (cpi_signed rt w1 [rd_redeemer ctx] (config_seeds mint) (c_bump c)
                     (TransferChecked (rd_reserve_vault ctx) cm (rd_redeemer_collateral ctx)
                        (key_of cfg) collateral_out (tm_decimals cmint))) (\<lambda>w2.
          andthen (ok_or (checked_add (c_total_burned c) amount) (Late Overflow)) (\<lambda>tb.
          andthen (ok_or (checked_sub (c_total_collateral c) collateral_out) (Late Overflow)) (\<lambda>tc.
          Inr (c\<lparr>c_total_burned := tb, c_total_collateral := tc\<rparr>, w2)))))))))))))))"

section \<open>freeze and thaw\<close>

definition compliance_accounts ::
  "'w runtime \<Rightarrow> admin_ctx \<Rightarrow> token_account \<Rightarrow> (bool \<times> error) list" where
  "compliance_accounts rt ctx target =
     config_ok rt (ac_config ctx) (ac_mint ctx) @
     [(c_compliance_authority (ac_cfg ctx) = ac_authority ctx, Core UnauthorizedCompliance),
      (ac_mint ctx = c_mint (ac_cfg ctx), Anchor ConstraintRaw),
      (ta_mint target = ac_mint ctx, Compliance InvalidMint)]"

definition freeze_handler :: "'w runtime \<Rightarrow> 'w \<Rightarrow> admin_ctx \<Rightarrow> pubkey \<Rightarrow> 'w res" where
  "freeze_handler rt w ctx target =
     andthen (load_token rt w target) (\<lambda>ta.
     guarded (compliance_accounts rt ctx ta)
       (cpi_signed rt w [ac_authority ctx] (config_seeds (ac_mint ctx)) (c_bump (ac_cfg ctx))
          (FreezeAccount target (ac_mint ctx) (key_of (ac_config ctx)))))"

definition thaw_handler :: "'w runtime \<Rightarrow> 'w \<Rightarrow> admin_ctx \<Rightarrow> pubkey \<Rightarrow> 'w res" where
  "thaw_handler rt w ctx target =
     andthen (load_token rt w target) (\<lambda>ta.
     guarded (compliance_accounts rt ctx ta)
       (cpi_signed rt w [ac_authority ctx] (config_seeds (ac_mint ctx)) (c_bump (ac_cfg ctx))
          (ThawAccount target (ac_mint ctx) (key_of (ac_config ctx)))))"

section \<open>Successful runs\<close>

lemma redemption_fee_ok:
  assumes "redemption_fee c amount = Inr fee" and "c_redemption_fee_bps c \<le> 10000"
  shows "unat fee = unat amount * unat (c_redemption_fee_bps c) div 10000"
proof -
  let ?a = "unat amount" and ?b = "unat (c_redemption_fee_bps c)"
  have "?a * ?b div 10000 \<le> ?a * 10000 div 10000"
    using assms(2) by (intro div_le_mono mult_le_mono) (simp_all add: word_to_nat)
  then have small: "?a * ?b div 10000 < 2 ^ 64" using unat_lt [of amount] by simp
  show ?thesis
  proof (cases "c_redemption_fee_bps c = 0")
    case True
    with assms(1) show ?thesis by (simp add: redemption_fee_def)
  next
    case False
    then have "(0 :: u64) < ucast (c_redemption_fee_bps c)" by (simp add: word_to_nat)
    with assms(1) obtain x where x: "checked_mul (ucast amount :: u128) (ucast (ucast (c_redemption_fee_bps c) :: u64)) = Some x"
      and fee: "fee = ucast (x div 10000)" by (auto simp: redemption_fee_def Let_def run_ok)
    from x have "unat x = ?a * ?b" by (simp add: arith_ok)
    then have "unat (x div 10000) = ?a * ?b div 10000" by (simp add: unat_div)
    with small fee show ?thesis by (simp add: unat_narrow_small)
  qed
qed

lemma deposit_ok:
  assumes "deposit_collateral_handler rt w ctx amount = Inr (c', w')"
  shows "\<exists>d. rt_invoke rt w [dp_depositor ctx] (TransferChecked (dp_depositor_collateral ctx)
           (dp_collateral_mint ctx) (dp_reserve_vault ctx) (dp_depositor ctx) amount d) = Inr w'"
    and "c' = (data_of (dp_config ctx))\<lparr>c_total_collateral := c_total_collateral c'\<rparr>"
    and "unat (c_total_collateral c') = unat (c_total_collateral (data_of (dp_config ctx))) + unat amount"
    and "dp_reserve_vault ctx = c_reserve_vault (data_of (dp_config ctx))"
  using assms by (auto simp: deposit_collateral_handler_def Let_def run_ok guarded_Inr arith_ok)

lemma redeem_ok:
  assumes "redeem_handler rt w ctx amount = Inr (c', w')"
  obtains fee out d1 d2 w1 k sss vault dest where
    "redemption_fee (data_of (rd_config ctx)) amount = Inr fee"
    "unat amount = unat fee + unat out"
    "rt_invoke rt w [rd_redeemer ctx]
       (BurnChecked (rd_sss_mint ctx) (rd_redeemer_sss ctx) (rd_redeemer ctx) amount d1) = Inr w1"
    "rt_invoke rt w1 (k # [rd_redeemer ctx])
       (TransferChecked (rd_reserve_vault ctx) (rd_collateral_mint ctx) (rd_redeemer_collateral ctx)
          (key_of (rd_config ctx)) out d2) = Inr w'"
    "c' = (data_of (rd_config ctx))\<lparr>c_total_burned := c_total_burned c',
                                    c_total_collateral := c_total_collateral c'\<rparr>"
    "unat (c_total_burned c') = unat (c_total_burned (data_of (rd_config ctx))) + unat amount"
    "unat (c_total_collateral (data_of (rd_config ctx))) = unat (c_total_collateral c') + unat out"
    "rt_token rt w (rd_redeemer_sss ctx) = Some sss" "ta_mint sss = rd_sss_mint ctx"
    "rt_token rt w (rd_reserve_vault ctx) = Some vault" "ta_mint vault = rd_collateral_mint ctx"
    "rt_token rt w (rd_redeemer_collateral ctx) = Some dest" "ta_mint dest = rd_collateral_mint ctx"
    "rd_reserve_vault ctx = c_reserve_vault (data_of (rd_config ctx))"
    "\<not> c_paused (data_of (rd_config ctx))" "\<not> flag_set (data_of (rd_config ctx)) FLAG_CIRCUIT_BREAKER"
  using assms
  by (auto simp: redeem_handler_def redeem_accounts_def Let_def run_ok guarded_Inr arith_ok)

lemma initialize_config:
  assumes "initialize_handler rt ms w ctx p = Inr (cfg, ct, w')"
  obtains ct_enabled bump where "data_of cfg = fresh_config ctx p ct_enabled bump"
    "in_existing ctx = None" "\<not> check_feature_flag (unwrap_or (ip_feature_flags p) 0) FLAG_DAO_COMMITTEE"
    "ip_preset p = 3 \<longrightarrow> 0 < unwrap_or (ip_max_supply p) 0"
    "ip_preset p = 3 \<longrightarrow> ip_squads_multisig p \<noteq> None \<and> ip_squads_multisig p \<noteq> Some default_key"
    "ip_preset p = 3 \<longrightarrow> SSS3_MIN_TIMELOCK \<le> c_admin_timelock_delay (data_of cfg)"
proof -
  obtain config_key bump where pda: "rt_find_pda rt (config_seeds (in_mint ctx)) = (config_key, bump)"
    by (cases "rt_find_pda rt (config_seeds (in_mint ctx))")
  from assms show thesis
    by (intro that [of "check_feature_flag (unwrap_or (ip_feature_flags p) 0) FLAG_CONFIDENTIAL_TRANSFERS" bump])
       (auto simp: initialize_handler_def Let_def run_ok pda)
qed

lemma fresh_config_squads:
  assumes "ip_squads_multisig p \<noteq> None" and "ip_squads_multisig p \<noteq> Some default_key"
  shows "flag_set (fresh_config ctx p ct bump) FLAG_SQUADS_AUTHORITY"
    and "Some (c_squads_multisig (fresh_config ctx p ct bump)) = ip_squads_multisig p"
    and "c_squads_multisig (fresh_config ctx p ct bump) \<noteq> default_key"
  using assms by (auto simp: fresh_config_def Let_def check_after_set unwrap_or_def FLAG_SQUADS_AUTHORITY_def)

section \<open>Properties\<close>

text \<open>A configuration that \<open>initialize\<close> creates has no supply, no collateral and no pending operation, is
  not paused, is controlled by the payer, carries the current version and not the committee flag; with preset 3
  it also has a positive supply cap that is locked, a timelock of at least 216000 slots, and the multisig flag
  with a multisig address.\<close>

theorem initialize_well_formed:
  assumes "initialize_handler rt ms w ctx p = Inr (cfg, ct, w')"
  shows "let c = data_of cfg in
    in_existing ctx = None \<and> c_mint c = in_mint ctx \<and> c_authority c = in_payer ctx \<and>
    c_compliance_authority c = in_payer ctx \<and> net_supply c = 0 \<and> c_total_collateral c = 0 \<and>
    \<not> c_paused c \<and> c_admin_op_kind c = ADMIN_OP_NONE \<and> c_pending_authority c = default_key \<and>
    c_version c = CURRENT_VERSION \<and> \<not> flag_set c FLAG_DAO_COMMITTEE \<and>
    (c_preset c = 3 \<longrightarrow> 0 < c_max_supply c \<and> c_supply_cap_locked c \<and> 216000 \<le> c_admin_timelock_delay c \<and>
       flag_set c FLAG_SQUADS_AUTHORITY \<and> c_squads_multisig c \<noteq> default_key)"
proof -
  have keep: "check_feature_flag (set_flags f FLAG_SQUADS_AUTHORITY) FLAG_DAO_COMMITTEE =
      check_feature_flag f FLAG_DAO_COMMITTEE" for f
    by (simp add: check_feature_flag_def set_flags_def flag_defs bit.conj_disj_distrib2)
  from assms show ?thesis
  proof (cases rule: initialize_config)
    case (1 ct_enabled bump)
    have "\<not> flag_set (data_of cfg) FLAG_DAO_COMMITTEE"
      using 1(3) by (auto simp: 1(1) fresh_config_def Let_def keep split: option.splits)
    moreover have "net_supply (data_of cfg) = 0"
      by (simp add: 1(1) fresh_config_def Let_def word_to_nat unat_net_supply)
    moreover have "ip_preset p = 3 \<longrightarrow>
        flag_set (data_of cfg) FLAG_SQUADS_AUTHORITY \<and> c_squads_multisig (data_of cfg) \<noteq> default_key"
      using 1(5) fresh_config_squads [of p] by (simp add: 1(1))
    ultimately show ?thesis using 1(2,4,6)
      by (simp add: 1(1) fresh_config_def Let_def SSS3_MIN_TIMELOCK_def)
  qed
qed

definition ref_setup :: "ref_ledger mint_setup" where
  "ref_setup =
     \<lparr>ms_create_account = (\<lambda>w payer mint len. if rl_mints w mint = None then Inr w else Inl 1),
      ms_default_state_frozen = (\<lambda>w mint. Inr w),
      ms_initialize_mint = (\<lambda>w mint d auth freeze.
        Inr (w\<lparr>rl_mints := (rl_mints w)(mint \<mapsto> \<lparr>tm_decimals = d, tm_supply = 0\<rparr>),
               rl_mint_authority := (rl_mint_authority w)(mint := auth)\<rparr>))\<rparr>"

definition demo_init_params :: initialize_params where
  "demo_init_params =
     \<lparr>ip_preset = 3, ip_decimals = 6, ip_transfer_hook_program = None, ip_collateral_mint = Some 6,
      ip_reserve_vault = Some 30, ip_max_supply = Some 5000, ip_feature_flags = None,
      ip_auditor_elgamal_pubkey = None, ip_admin_timelock_delay = None, ip_squads_multisig = Some 77\<rparr>"

lemmas reserve_eval [eval_defs] =
  ref_setup_def demo_init_params_def initialize_handler_def unwrap_or_def token_result.simps
  fresh_config_def SSS3_MIN_TIMELOCK_def DEFAULT_ADMIN_TIMELOCK_DELAY_def set_flags_def
  deposit_collateral_handler_def redeem_handler_def redeem_accounts_def redemption_fee_def config_ok_def

theorem initialize_well_formed_witness:
  "\<exists>cfg ct w'. initialize_handler (ref_runtime 10 3 0) ref_setup demo_ledger
     \<lparr>in_payer = 7, in_mint = 8, in_existing = None, in_ct = None, in_token_program = 1,
      in_token_2022_id = 1\<rparr> demo_init_params = Inr (cfg, ct, w') \<and>
     0 < c_max_supply (data_of cfg) \<and> flag_set (data_of cfg) FLAG_SQUADS_AUTHORITY"
proof -
  let ?ctx = "\<lparr>in_payer = 7, in_mint = 8, in_existing = None, in_ct = None, in_token_program = 1,
      in_token_2022_id = 1\<rparr>"
  obtain cfg ct w' where run: "initialize_handler (ref_runtime 10 3 0) ref_setup demo_ledger ?ctx
      demo_init_params = Inr (cfg, ct, w')" and "c_preset (data_of cfg) = 3"
    by (simp add: eval_defs)
  with initialize_well_formed [OF run] show ?thesis by (auto simp: Let_def)
qed

text \<open>A successful \<open>redeem\<close> of an amount burns exactly that amount of the stablecoin from the redeemer,
  pays the redeemer the amount less the fee (amount times the fee rate over 10000, rounded down) out of the
  reserve vault, and books both: \<open>total_burned\<close> grows by the amount, \<open>total_collateral\<close> falls by what left.\<close>

theorem redeem_effect:
  assumes "token_ledger rt" and "redeem_handler rt w ctx amount = Inr (c', w')"
    and "c_redemption_fee_bps (data_of (rd_config ctx)) \<le> 10000"
    and "rd_sss_mint ctx \<noteq> rd_collateral_mint ctx"
    and "rd_redeemer_collateral ctx \<noteq> rd_reserve_vault ctx"
  shows "let c = data_of (rd_config ctx);
             paid = unat amount - unat amount * unat (c_redemption_fee_bps c) div 10000 in
    supply_of rt w (rd_sss_mint ctx) = supply_of rt w' (rd_sss_mint ctx) + unat amount \<and>
    balance_of rt w (rd_redeemer_sss ctx) = balance_of rt w' (rd_redeemer_sss ctx) + unat amount \<and>
    balance_of rt w (rd_reserve_vault ctx) = balance_of rt w' (rd_reserve_vault ctx) + paid \<and>
    balance_of rt w' (rd_redeemer_collateral ctx) = balance_of rt w (rd_redeemer_collateral ctx) + paid \<and>
    unat (c_total_burned c') = unat (c_total_burned c) + unat amount \<and>
    unat (c_total_collateral c) = unat (c_total_collateral c') + paid \<and>
    c' = c\<lparr>c_total_burned := c_total_burned c', c_total_collateral := c_total_collateral c'\<rparr>"
proof -
  from assms(2) show ?thesis
  proof (cases rule: redeem_ok)
    case (1 fee out d1 d2 w1 k sss vault dest)
    have "rd_redeemer_sss ctx \<noteq> rd_reserve_vault ctx" "rd_redeemer_sss ctx \<noteq> rd_redeemer_collateral ctx"
      using 1(8-13) assms(4) by auto
    moreover have "unat out = unat amount - unat amount * unat (c_redemption_fee_bps (data_of (rd_config ctx))) div 10000"
      using redemption_fee_ok [OF 1(1) assms(3)] 1(2) by simp
    ultimately show ?thesis
      using token_ledger.burn_checked_ok [OF assms(1) 1(3)] token_ledger.transfer_ok [OF assms(1) 1(4)]
        1(5-7) assms(5) by (simp add: Let_def)
  qed
qed

definition demo_redeem_ctx :: "stablecoin_config \<Rightarrow> redeem_ctx" where
  "demo_redeem_ctx c =
     \<lparr>rd_redeemer = 9, rd_config = demo_acct c, rd_sss_mint = 5, rd_redeemer_sss = 20,
      rd_collateral_mint = 6, rd_reserve_vault = 30, rd_redeemer_collateral = 31\<rparr>"

theorem redeem_effect_witness:
  "\<exists>c' w'. redeem_handler (ref_runtime 10 3 0) demo_ledger
       (demo_redeem_ctx (demo_config\<lparr>c_redemption_fee_bps := 100\<rparr>)) 200 = Inr (c', w') \<and>
     balance_of (ref_runtime 10 3 0) w' 31 = 50 + 198"
proof -
  let ?ctx = "demo_redeem_ctx (demo_config\<lparr>c_redemption_fee_bps := 100\<rparr>)"
  obtain c' w' where run: "redeem_handler (ref_runtime 10 3 0) demo_ledger ?ctx 200 = Inr (c', w')"
    by (simp add: eval_defs demo_redeem_ctx_def demo_cfg_key_def)
  from redeem_effect [OF ref.token_ledger_axioms run]
  have "balance_of (ref_runtime 10 3 0) w' 31 = balance_of (ref_runtime 10 3 0) demo_ledger 31 + 198"
    by (simp add: demo_redeem_ctx_def demo_config_def Let_def)
  with run show ?thesis by (auto simp: balance_of_def demo_ledger_def)
qed

text \<open>C2: Redemption keeps full backing: if the recorded collateral covers the net supply before a \<open>redeem\<close>, it
  does so afterwards, whatever fee is configured.\<close>

theorem redeem_keeps_backing:
  assumes "redeem_handler rt w ctx amount = Inr (c', w')"
    and "net_supply (data_of (rd_config ctx)) \<le> c_total_collateral (data_of (rd_config ctx))"
  shows "net_supply c' \<le> c_total_collateral c'"
proof -
  from assms(1) show ?thesis
  proof (cases rule: redeem_ok)
    case (1 fee out d1 d2 w1 k sss vault dest)
    have "c_total_minted c' = c_total_minted (data_of (rd_config ctx))" by (subst 1(5)) simp
    with 1(2,6,7) assms(2) show ?thesis by (simp add: word_to_nat unat_net_supply)
  qed
qed

theorem redeem_keeps_backing_witness:
  "\<exists>c' w'. redeem_handler (ref_runtime 10 3 0) demo_ledger (demo_redeem_ctx demo_config) 200 = Inr (c', w') \<and>
     net_supply c' \<le> c_total_collateral c'"
proof -
  obtain c' w' where run: "redeem_handler (ref_runtime 10 3 0) demo_ledger (demo_redeem_ctx demo_config) 200
      = Inr (c', w')"
    by (simp add: eval_defs demo_redeem_ctx_def demo_cfg_key_def)
  have "net_supply (data_of (rd_config (demo_redeem_ctx demo_config)))
      \<le> c_total_collateral (data_of (rd_config (demo_redeem_ctx demo_config)))"
    by (simp add: demo_redeem_ctx_def demo_config_def net_supply_def saturating_sub_def)
  from redeem_keeps_backing [OF run this] run show ?thesis by auto
qed

text \<open>The reserve vault holds at least the recorded collateral.\<close>

definition vault_covered :: "'w runtime \<Rightarrow> 'w \<Rightarrow> stablecoin_config \<Rightarrow> bool" where
  "vault_covered rt w c \<longleftrightarrow> unat (c_total_collateral c) \<le> balance_of rt w (c_reserve_vault c)"

lemma deposit_vault_covered:
  assumes "token_ledger rt" and run: "deposit_collateral_handler rt w ctx amount = Inr (c', w')"
    and ne: "dp_depositor_collateral ctx \<noteq> dp_reserve_vault ctx"
    and cov: "vault_covered rt w (data_of (dp_config ctx))"
  shows "vault_covered rt w' c'"
proof -
  note d = deposit_ok [OF run]
  from d(1) obtain dec where "rt_invoke rt w [dp_depositor ctx]
      (TransferChecked (dp_depositor_collateral ctx) (dp_collateral_mint ctx) (dp_reserve_vault ctx)
         (dp_depositor ctx) amount dec) = Inr w'" by blast
  note t = token_ledger.transfer_ok [OF assms(1) this]
  have "c_reserve_vault c' = dp_reserve_vault ctx" by (subst d(2)) (simp add: d(4))
  with d(3,4) t cov ne show ?thesis by (simp add: vault_covered_def)
qed

lemma redeem_vault_covered:
  assumes "token_ledger rt" and run: "redeem_handler rt w ctx amount = Inr (c', w')"
    and ne: "rd_sss_mint ctx \<noteq> rd_collateral_mint ctx"
    and cov: "vault_covered rt w (data_of (rd_config ctx))"
  shows "vault_covered rt w' c'"
  using run
proof (cases rule: redeem_ok)
  case (1 fee out d1 d2 w1 k sss vault dest)
  have v: "c_reserve_vault c' = rd_reserve_vault ctx" by (subst 1(5)) (simp add: 1(14))
  have "rd_redeemer_sss ctx \<noteq> rd_reserve_vault ctx" using 1(8-11) ne by auto
  with 1(7,14) v cov token_ledger.burn_checked_ok [OF assms(1) 1(3)]
    token_ledger.transfer_ok [OF assms(1) 1(4)]
  show ?thesis by (cases "rd_reserve_vault ctx = rd_redeemer_collateral ctx") (auto simp: vault_covered_def)
qed

text \<open>C11: Deposits and redemptions keep the reserve vault at or above the recorded collateral, provided a
  depositor's account is not the vault itself and the collateral is another token than the stablecoin.\<close>

theorem reserve_vault_covered:
  assumes "token_ledger rt"
  shows "(deposit_collateral_handler rt w dctx amount = Inr (c', w') \<and>
       dp_depositor_collateral dctx \<noteq> dp_reserve_vault dctx \<and> vault_covered rt w (data_of (dp_config dctx))
       \<longrightarrow> vault_covered rt w' c') \<and>
    (redeem_handler rt w rctx amount = Inr (c', w') \<and> rd_sss_mint rctx \<noteq> rd_collateral_mint rctx \<and>
       vault_covered rt w (data_of (rd_config rctx)) \<longrightarrow> vault_covered rt w' c')"
  using deposit_vault_covered [OF assms] redeem_vault_covered [OF assms] by blast

definition demo_deposit_ctx :: "stablecoin_config \<Rightarrow> pubkey \<Rightarrow> deposit_ctx" where
  "demo_deposit_ctx c source =
     \<lparr>dp_depositor = 9, dp_config = demo_acct c, dp_sss_mint = 5, dp_collateral_mint = 6,
      dp_depositor_collateral = source, dp_reserve_vault = c_reserve_vault c\<rparr>"

theorem reserve_vault_covered_witness:
  "\<exists>c' w' c'' w''.
     deposit_collateral_handler (ref_runtime 10 3 0) demo_ledger (demo_deposit_ctx demo_config 31) 40
       = Inr (c', w') \<and> vault_covered (ref_runtime 10 3 0) w' c' \<and>
     redeem_handler (ref_runtime 10 3 0) demo_ledger (demo_redeem_ctx demo_config) 200
       = Inr (c'', w'') \<and> vault_covered (ref_runtime 10 3 0) w'' c''"
proof -
  let ?R = "ref_runtime 10 3 0"
  obtain c' w' c'' w'' where dep: "deposit_collateral_handler ?R demo_ledger (demo_deposit_ctx demo_config 31) 40
      = Inr (c', w')"
    and red: "redeem_handler ?R demo_ledger (demo_redeem_ctx demo_config) 200 = Inr (c'', w'')"
    by (simp add: eval_defs demo_redeem_ctx_def demo_deposit_ctx_def demo_cfg_key_def)
  have "vault_covered ?R demo_ledger demo_config"
    by (simp add: vault_covered_def balance_of_def demo_ledger_def demo_config_def)
  with dep red reserve_vault_covered [OF ref.token_ledger_axioms, of 10 3 0 demo_ledger
      "demo_deposit_ctx demo_config 31" 40 c' w' undefined]
    reserve_vault_covered [OF ref.token_ledger_axioms, of 10 3 0 demo_ledger
      undefined 200 c'' w'' "demo_redeem_ctx demo_config"]
  show ?thesis by (simp add: demo_deposit_ctx_def demo_redeem_ctx_def demo_config_def)
qed

text \<open>Nothing stops a deposit whose source is the reserve vault itself (the vault then belongs to the
  depositor): the recorded collateral grows while no token moves.\<close>

theorem deposit_from_vault_inflates:
  assumes "token_ledger rt" and "deposit_collateral_handler rt w ctx amount = Inr (c', w')"
    and "dp_depositor_collateral ctx = dp_reserve_vault ctx"
  shows "unat (c_total_collateral c') = unat (c_total_collateral (data_of (dp_config ctx))) + unat amount \<and>
    0 < unat amount \<and> balance_of rt w' = balance_of rt w"
proof -
  note d = deposit_ok [OF assms(2)]
  from d(1) obtain dec where "rt_invoke rt w [dp_depositor ctx]
      (TransferChecked (dp_depositor_collateral ctx) (dp_collateral_mint ctx) (dp_reserve_vault ctx)
         (dp_depositor ctx) amount dec) = Inr w'" by blast
  from token_ledger.transfer_ok [OF assms(1) this] assms(3) have "balance_of rt w' = balance_of rt w"
    by (auto simp: fun_eq_iff)
  moreover have "0 < unat amount"
    using assms(2) by (auto simp: deposit_collateral_handler_def Let_def run_ok guarded_Inr word_to_nat)
  ultimately show ?thesis using d(3) by simp
qed

theorem deposit_from_vault_inflates_witness:
  "\<exists>c' w'. deposit_collateral_handler (ref_runtime 10 3 0) demo_ledger
       (demo_deposit_ctx (demo_config\<lparr>c_reserve_vault := 31\<rparr>) 31) 50 = Inr (c', w') \<and>
     unat (c_total_collateral c') = 950"
proof -
  let ?ctx = "demo_deposit_ctx (demo_config\<lparr>c_reserve_vault := 31\<rparr>) 31"
  obtain c' w' where run: "deposit_collateral_handler (ref_runtime 10 3 0) demo_ledger ?ctx 50 = Inr (c', w')"
    by (simp add: eval_defs demo_deposit_ctx_def demo_cfg_key_def)
  from deposit_from_vault_inflates [OF ref.token_ledger_axioms run] run show ?thesis
    by (simp add: demo_deposit_ctx_def demo_config_def)
qed

section \<open>Redemption goes through\<close>

text \<open>
  What a holder needs for a redemption: a running stablecoin with preset 3, the three token accounts
  with the right mints, owners and funds, and room in the counters.
\<close>

definition redeemable ::
  "'w runtime \<Rightarrow> ('w \<Rightarrow> pubkey \<Rightarrow> bool) \<Rightarrow> 'w \<Rightarrow> redeem_ctx \<Rightarrow> u64 \<Rightarrow> bool" where
  "redeemable rt thawed w ctx amount \<longleftrightarrow>
     (let c = data_of (rd_config ctx); key = key_of (rd_config ctx) in
      seeds_ok rt key (config_seeds (rd_sss_mint ctx)) (c_bump c) \<and> c_preset c = 3 \<and> \<not> c_paused c \<and>
      MIN_SUPPORTED_VERSION \<le> c_version c \<and> \<not> flag_set c FLAG_CIRCUIT_BREAKER \<and>
      c_redemption_fee_bps c \<le> 10000 \<and> 0 < amount \<and> amount \<le> c_total_collateral c \<and>
      unat (c_total_burned c) + unat amount < 2 ^ 64 \<and>
      rd_sss_mint ctx = c_mint c \<and> rd_collateral_mint ctx = c_collateral_mint c \<and>
      rd_reserve_vault ctx = c_reserve_vault c \<and> c_mint c \<noteq> c_collateral_mint c \<and>
      thawed w (rd_redeemer_sss ctx) \<and> thawed w (rd_reserve_vault ctx) \<and> thawed w (rd_redeemer_collateral ctx) \<and>
      (case (rt_mint rt w (rd_sss_mint ctx), rt_mint rt w (rd_collateral_mint ctx),
             rt_token rt w (rd_redeemer_sss ctx), rt_token rt w (rd_reserve_vault ctx),
             rt_token rt w (rd_redeemer_collateral ctx)) of
         (Some sm, Some cm, Some sss, Some vault, Some out) \<Rightarrow>
           ta_mint sss = rd_sss_mint ctx \<and> ta_owner sss = rd_redeemer ctx \<and> amount \<le> ta_amount sss \<and>
           amount \<le> tm_supply sm \<and> ta_mint vault = rd_collateral_mint ctx \<and> ta_owner vault = key \<and>
           amount \<le> ta_amount vault \<and> ta_mint out = rd_collateral_mint ctx \<and> ta_owner out = rd_redeemer ctx \<and>
           unat (ta_amount out) + unat amount < 2 ^ 64
       | _ \<Rightarrow> False))"

lemma redemption_fee_total:
  assumes "c_redemption_fee_bps c \<le> 10000"
  obtains fee where "redemption_fee c amount = Inr fee" "unat fee \<le> unat amount"
proof -
  have "unat amount * unat (c_redemption_fee_bps c) \<le> 2 ^ 64 * 2 ^ 16"
    using unat_lt [of amount] unat_lt [of "c_redemption_fee_bps c"] by (intro mult_le_mono) auto
  then have "\<exists>fee. redemption_fee c amount = Inr fee"
    by (simp add: redemption_fee_def Let_def checked_mul_def)
  then obtain fee where fee: "redemption_fee c amount = Inr fee" by blast
  have "unat amount * unat (c_redemption_fee_bps c) div 10000 \<le> unat amount * 10000 div 10000"
    using assms by (intro div_le_mono mult_le_mono) (simp_all add: word_to_nat)
  with redemption_fee_ok [OF fee assms] have "unat fee \<le> unat amount" by simp
  with fee that show thesis by blast
qed



end
