(* ===== verification/Machine.thy ===== *)
theory Machine
  imports Prelude
begin

text \<open>
  Histories of transactions. A machine answers an event with an error, which leaves the state as
  it was, or with the next state; \<open>play\<close> runs a history. The contract \<open>preserved\<close> says that every
  event of some kind keeps an invariant, \<open>one_payout\<close> that an escrow is paid out once and in full, and \<open>accounted\<close> that
  every event raises and lowers a level by known amounts; their consequences for whole histories are proved once.
\<close>

fun play :: "('e \<Rightarrow> 's \<Rightarrow> 'x + 's) \<Rightarrow> 'e list \<Rightarrow> 's \<Rightarrow> 's" where
  "play exec [] s = s"
| "play exec (e # es) s = play exec es (case exec e s of Inl _ \<Rightarrow> s | Inr s' \<Rightarrow> s')"

lemma play_append: "play exec (xs @ ys) s = play exec ys (play exec xs s)"
  by (induction xs arbitrary: s) auto

lemma play_Cons_Inr: "exec e s = Inr s' \<Longrightarrow> play exec (e # es) s = play exec es s'"
  by simp

lemma play_Cons_Inl: "exec e s = Inl x \<Longrightarrow> play exec (e # es) s = play exec es s"
  by simp

locale preserved =
  fixes exec :: "'e \<Rightarrow> 's \<Rightarrow> 'x + 's"
    and ok :: "'e \<Rightarrow> bool"
    and inv :: "'s \<Rightarrow> bool"
  assumes exec_inv: "inv s \<Longrightarrow> ok e \<Longrightarrow> exec e s = Inr s' \<Longrightarrow> inv s'"
begin

lemma play_inv: "inv s \<Longrightarrow> \<forall>e \<in> set es. ok e \<Longrightarrow> inv (play exec es s)"
proof (induction es arbitrary: s)
  case (Cons e es)
  have "inv (case exec e s of Inl _ \<Rightarrow> s | Inr s' \<Rightarrow> s')"
    using Cons.prems by (auto split: sum.splits intro: exec_inv)
  with Cons show ?case by simp
qed simp

end

section \<open>One payout\<close>

text \<open>What is paid out over a history: the amounts of the payouts of the events that succeed, in order.\<close>

fun payouts :: "('e \<Rightarrow> 's \<Rightarrow> 'x + 's) \<Rightarrow> ('e \<Rightarrow> 's \<Rightarrow> (u64 \<times> u64) option) \<Rightarrow> 'e list \<Rightarrow> 's \<Rightarrow> (u64 \<times> u64) list" where
  "payouts exec payout [] s = []"
| "payouts exec payout (e # es) s =
     (case exec e s of
        Inl _ \<Rightarrow> payouts exec payout es s
      | Inr s' \<Rightarrow> (case payout e s of None \<Rightarrow> [] | Some p \<Rightarrow> [p]) @ payouts exec payout es s')"

text \<open>
  The contract of an escrow: the locked amount never changes, a payout divides all of it between the two
  parties and closes the escrow, and nothing else opens or closes it.
\<close>

locale one_payout =
  fixes exec :: "'e \<Rightarrow> 's \<Rightarrow> 'x + 's"
    and inv :: "'s \<Rightarrow> bool"
    and closed :: "'s \<Rightarrow> bool"
    and payout :: "'e \<Rightarrow> 's \<Rightarrow> (u64 \<times> u64) option"
    and locked :: "'s \<Rightarrow> u64"
  assumes inv_exec: "inv s \<Longrightarrow> exec e s = Inr s' \<Longrightarrow> inv s'"
    and locked_exec: "exec e s = Inr s' \<Longrightarrow> locked s' = locked s"
    and pays_all: "inv s \<Longrightarrow> exec e s = Inr s' \<Longrightarrow> payout e s = Some (a, b) \<Longrightarrow>
      \<not> closed s \<and> closed s' \<and> unat a + unat b = unat (locked s)"
    and silent: "exec e s = Inr s' \<Longrightarrow> payout e s = None \<Longrightarrow> closed s' = closed s"
begin

lemma inv_play: "inv s \<Longrightarrow> inv (play exec es s)"
  by (induction es arbitrary: s) (auto split: sum.split intro: inv_exec)

lemma locked_play: "locked (play exec es s) = locked s"
  by (induction es arbitrary: s) (auto split: sum.split dest: locked_exec)

lemma closed_for_good: "inv s \<Longrightarrow> closed s \<Longrightarrow> payouts exec payout es s = [] \<and> closed (play exec es s)"
proof (induction es arbitrary: s)
  case (Cons e es)
  show ?case
  proof (cases "exec e s")
    case (Inr s')
    have none: "payout e s = None"
      using pays_all [OF Cons.prems(1) Inr] Cons.prems(2) by (cases "payout e s") auto
    then have "closed s'" using silent [OF Inr] Cons.prems by simp
    with Cons.IH [OF inv_exec [OF Cons.prems(1) Inr]] Inr none show ?thesis by simp
  qed (use Cons in simp)
qed simp

lemma pays_once:
  "inv s \<Longrightarrow> \<not> closed s \<Longrightarrow>
     payouts exec payout es s = [] \<and> \<not> closed (play exec es s) \<or>
     (\<exists>a b. payouts exec payout es s = [(a, b)] \<and> unat a + unat b = unat (locked s) \<and> closed (play exec es s))"
proof (induction es arbitrary: s)
  case (Cons e es)
  show ?case
  proof (cases "exec e s")
    case (Inr s')
    note inv' = inv_exec [OF Cons.prems(1) Inr]
    show ?thesis
    proof (cases "payout e s")
      case None
      then show ?thesis using Cons.IH [OF inv'] silent [OF Inr None] Cons.prems(2) locked_exec [OF Inr] Inr by simp
    next
      case (Some p)
      obtain a b where p: "p = (a, b)" by force
      note all = pays_all [OF Cons.prems(1) Inr Some [unfolded p]]
      then show ?thesis using closed_for_good [OF inv', of es] Inr Some p by simp
    qed
  qed (use Cons in simp)
qed simp

end

section \<open>What adds up over a history\<close>

fun tally :: "('e \<Rightarrow> 's \<Rightarrow> 'x + 's) \<Rightarrow> ('e \<Rightarrow> nat) \<Rightarrow> 'e list \<Rightarrow> 's \<Rightarrow> nat" where
  "tally exec f [] s = 0"
| "tally exec f (e # es) s = (case exec e s of Inl _ \<Rightarrow> tally exec f es s | Inr s' \<Rightarrow> f e + tally exec f es s')"

lemma tally_zero [simp]: "tally exec (\<lambda>_. 0) es s = 0"
  by (induction es arbitrary: s) (auto split: sum.split)

text \<open>A level that every event that succeeds raises and lowers by known amounts.\<close>

locale accounted =
  fixes exec :: "'e \<Rightarrow> 's \<Rightarrow> 'x + 's"
    and level :: "'s \<Rightarrow> nat"
    and gain :: "'e \<Rightarrow> nat"
    and loss :: "'e \<Rightarrow> nat"
  assumes exec_level: "exec e s = Inr s' \<Longrightarrow> level s' + loss e = level s + gain e"
begin

lemma play_level: "level (play exec es s) + tally exec loss es s = level s + tally exec gain es s"
proof (induction es arbitrary: s)
  case (Cons e es)
  show ?case
  proof (cases "exec e s")
    case (Inr s')
    from Cons.IH [of s'] exec_level [OF this] Inr show ?thesis by simp
  qed (use Cons in simp)
qed simp

end

end
