(* ===== verification/Governance.thy ===== *)
theory Governance
  imports Admin Reserve Machine
begin

text \<open>
  Rotation of the authority (programs/sss-token/src/instructions/authority\_rotation.rs), the
  dispatch of the governance instructions (programs/sss-token/src/lib.rs) and what histories of
  them can and cannot do: how long a change takes, who can take over, and which configurations
  nobody can govern.
\<close>

section \<open>Rotation of the authority\<close>

record authority_rotation_request =
  ar_config_mint :: pubkey
  ar_current_authority :: pubkey
  ar_new_authority :: pubkey
  ar_backup_authority :: pubkey
  ar_proposed_slot :: u64
  ar_timelock_slots :: u64
  ar_bump :: u8

definition ROTATION_TIMELOCK_SLOTS :: u64 where "ROTATION_TIMELOCK_SLOTS = 432000"
definition EMERGENCY_RECOVERY_SLOTS :: u64 where "EMERGENCY_RECOVERY_SLOTS = 7 * 432000"

definition rotation_seeds :: "pubkey \<Rightarrow> seed list" where
  "rotation_seeds mint = [SeedStr ''authority-rotation'', SeedKey mint]"

text \<open>
  The log line at the end of the proposal adds the timelock to the clock without a check, which
  panics when it overflows.
\<close>

definition propose_authority_rotation_handler ::
  "'w runtime \<Rightarrow> admin_ctx \<Rightarrow> authority_rotation_request option \<Rightarrow> pubkey \<Rightarrow> pubkey \<Rightarrow>
     authority_rotation_request res" where
  "propose_authority_rotation_handler rt ctx existing new_authority backup_authority =
     (let c = ac_cfg ctx in
      guarded ((existing = None, Anchor AccountAlreadyInUse) # authority_accounts rt ctx)
        (andthen (squads_gate c (ac_authority ctx)) (\<lambda>_.
         guarded
           [(new_authority \<noteq> c_authority c, Channel RotationNewAuthorityIsCurrent),
            (backup_authority \<noteq> c_authority c, Channel RotationBackupIsCurrent),
            (backup_authority \<noteq> new_authority, Channel RotationBackupEqualsNew),
            (new_authority \<noteq> default_key, Channel RotationZeroPubkey),
            (backup_authority \<noteq> default_key, Channel RotationZeroPubkey)]
           (andthen (ok_or (checked_add (rt_slot rt) ROTATION_TIMELOCK_SLOTS) Panic) (\<lambda>_.
            Inr \<lparr>ar_config_mint = c_mint c, ar_current_authority = c_authority c,
                 ar_new_authority = new_authority, ar_backup_authority = backup_authority,
                 ar_proposed_slot = rt_slot rt, ar_timelock_slots = ROTATION_TIMELOCK_SLOTS,
                 ar_bump = snd (rt_find_pda rt (rotation_seeds (ac_mint ctx)))\<rparr>)))))"

text \<open>
  The request account of the three instructions that close it. \<open>claimed\<close> is the field of the
  request that the signer has to equal, \<open>current\<close> the account that receives the rent.
\<close>

definition request_ok ::
  "'w runtime \<Rightarrow> admin_ctx \<Rightarrow> authority_rotation_request account \<Rightarrow> pubkey \<Rightarrow> pubkey \<Rightarrow> (bool \<times> error) list" where
  "request_ok rt ctx req claimed current =
     [(seeds_ok rt (key_of req) (rotation_seeds (ac_mint ctx)) (ar_bump (data_of req)), Anchor ConstraintSeeds),
      (ar_config_mint (data_of req) = ac_mint ctx, Core Unauthorized),
      (claimed = ac_authority ctx, Core Unauthorized),
      (ar_current_authority (data_of req) = current, Core Unauthorized),
      (ac_mint ctx = c_mint (ac_cfg ctx), Anchor ConstraintRaw)]"

definition accept_authority_rotation_handler ::
  "'w runtime \<Rightarrow> admin_ctx \<Rightarrow> authority_rotation_request account \<Rightarrow> pubkey \<Rightarrow> stablecoin_config res" where
  "accept_authority_rotation_handler rt ctx req current =
     guarded (config_ok rt (ac_config ctx) (ac_mint ctx) @
              request_ok rt ctx req (ar_new_authority (data_of req)) current)
       (andthen (ok_or (checked_add (ar_proposed_slot (data_of req)) (ar_timelock_slots (data_of req)))
                   (Late Overflow)) (\<lambda>t.
        guarded [(t \<le> rt_slot rt, Admin TimelockNotMature)]
          (Inr ((ac_cfg ctx)\<lparr>c_authority := ar_new_authority (data_of req),
                c_pending_authority := default_key\<rparr>))))"

definition emergency_recover_authority_handler ::
  "'w runtime \<Rightarrow> admin_ctx \<Rightarrow> authority_rotation_request account \<Rightarrow> pubkey \<Rightarrow> stablecoin_config res" where
  "emergency_recover_authority_handler rt ctx req current =
     guarded (config_ok rt (ac_config ctx) (ac_mint ctx) @
              request_ok rt ctx req (ar_backup_authority (data_of req)) current)
       (andthen (ok_or (checked_add (ar_proposed_slot (data_of req)) EMERGENCY_RECOVERY_SLOTS)
                   (Late Overflow)) (\<lambda>t.
        guarded [(t \<le> rt_slot rt, Channel EmergencyRecoveryNotReady)]
          (Inr ((ac_cfg ctx)\<lparr>c_authority := ar_backup_authority (data_of req),
                c_pending_authority := default_key\<rparr>))))"

text \<open>Cancelling only closes the request (\<open>close = authority\<close>).\<close>

definition cancel_authority_rotation_handler ::
  "'w runtime \<Rightarrow> admin_ctx \<Rightarrow> authority_rotation_request account \<Rightarrow> unit res" where
  "cancel_authority_rotation_handler rt ctx req =
     guarded
       (config_ok rt (ac_config ctx) (ac_mint ctx) @
        [(c_authority (ac_cfg ctx) = ac_authority ctx, Core Unauthorized)] @
        request_ok rt ctx req (ar_current_authority (data_of req)) (ac_authority ctx))
       (squads_gate (ac_cfg ctx) (ac_authority ctx))"

section \<open>The instructions and their histories\<close>

datatype gov_instr =
    ProposeOp u8 u64 pubkey
  | ExecuteOp
  | CancelOp
  | SetPythFeed pubkey
  | SetOracleParams u32 u16
  | SetOracleConfig u8 pubkey
  | SetFeatureFlag u64
  | ClearFeatureFlag u64
  | SetSpendLimit u64
  | ClearSpendLimit
  | SetPsmFee u16
  | SetStabilityFee u16
  | SetPause bool
  | UpdateRoles "pubkey option" "pubkey option"
  | AcceptAuthority
  | AcceptCompliance
  | AddKeeper pubkey
  | RemoveKeeper pubkey
  | ProposeRotation pubkey pubkey
  | AcceptRotation pubkey
  | EmergencyRecover pubkey
  | CancelRotation
  | InitSquads init_squads_params

record gov_state =
  gv_config :: stablecoin_config
  gv_rotation :: "authority_rotation_request option"
  gv_squads :: "squads_multisig_config option"

text \<open>
  An event is an instruction with its signer, the mint account passed and the chain at that
  moment. The configuration sits at the address \<open>key\<close>, the rotation request at its derived address.
\<close>

record 'w gov_event =
  ge_rt :: "'w runtime"
  ge_signer :: pubkey
  ge_mint :: pubkey
  ge_instr :: gov_instr

definition gov_ctx :: "pubkey \<Rightarrow> 'w gov_event \<Rightarrow> gov_state \<Rightarrow> admin_ctx" where
  "gov_ctx key e s =
     \<lparr>ac_authority = ge_signer e, ac_config = \<lparr>key_of = key, data_of = gv_config s\<rparr>, ac_mint = ge_mint e\<rparr>"

definition rotation_acct ::
  "'w gov_event \<Rightarrow> gov_state \<Rightarrow> authority_rotation_request account res" where
  "rotation_acct e s =
     andthen (ok_or (gv_rotation s) (Anchor AccountNotInitialized)) (\<lambda>r.
       Inr \<lparr>key_of = fst (rt_find_pda (ge_rt e) (rotation_seeds (ge_mint e))), data_of = r\<rparr>)"

fun config_instr :: "'w runtime \<Rightarrow> admin_ctx \<Rightarrow> gov_instr \<Rightarrow> stablecoin_config res option" where
  "config_instr rt ctx (ProposeOp k p t) = Some (propose_timelocked_op_handler rt ctx k p t)"
| "config_instr rt ctx ExecuteOp = Some (execute_timelocked_op_handler rt ctx)"
| "config_instr rt ctx CancelOp = Some (cancel_timelocked_op_handler rt ctx)"
| "config_instr rt ctx (SetPythFeed f) = Some (set_pyth_feed_handler rt ctx f)"
| "config_instr rt ctx (SetOracleParams a b) = Some (set_oracle_params_handler rt ctx a b)"
| "config_instr rt ctx (SetOracleConfig t f) = Some (set_oracle_config_handler rt ctx t f)"
| "config_instr rt ctx (SetFeatureFlag f) = Some (set_feature_flag_handler rt ctx f)"
| "config_instr rt ctx (ClearFeatureFlag f) = Some (clear_feature_flag_handler rt ctx f)"
| "config_instr rt ctx (SetSpendLimit n) = Some (set_spend_limit_handler rt ctx n)"
| "config_instr rt ctx ClearSpendLimit = Some (clear_spend_limit_handler rt ctx)"
| "config_instr rt ctx (SetPsmFee b) = Some (set_psm_fee_handler rt ctx b)"
| "config_instr rt ctx (SetStabilityFee b) = Some (set_stability_fee_handler rt ctx b)"
| "config_instr rt ctx (SetPause b) = Some (pause_handler rt ctx b)"
| "config_instr rt ctx (UpdateRoles a b) = Some (update_roles_handler rt ctx a b)"
| "config_instr rt ctx AcceptAuthority = Some (accept_authority_handler rt ctx)"
| "config_instr rt ctx AcceptCompliance = Some (accept_compliance_authority_handler rt ctx)"
| "config_instr rt ctx (AddKeeper k) = Some (add_authorized_keeper_handler rt ctx k)"
| "config_instr rt ctx (RemoveKeeper k) = Some (remove_authorized_keeper_handler rt ctx k)"
| "config_instr rt ctx _ = None"

definition gov_exec :: "pubkey \<Rightarrow> 'w gov_event \<Rightarrow> gov_state \<Rightarrow> gov_state res" where
  "gov_exec key e s =
     (let rt = ge_rt e; ctx = gov_ctx key e s in
      case config_instr rt ctx (ge_instr e) of
        Some r \<Rightarrow> andthen r (\<lambda>c. Inr (s\<lparr>gv_config := c\<rparr>))
      | None \<Rightarrow>
         (case ge_instr e of
            ProposeRotation new backup \<Rightarrow>
              andthen (propose_authority_rotation_handler rt ctx (gv_rotation s) new backup)
                (\<lambda>r. Inr (s\<lparr>gv_rotation := Some r\<rparr>))
          | AcceptRotation cur \<Rightarrow>
              andthen (rotation_acct e s) (\<lambda>req.
              andthen (accept_authority_rotation_handler rt ctx req cur)
                (\<lambda>c. Inr (s\<lparr>gv_config := c, gv_rotation := None\<rparr>)))
          | EmergencyRecover cur \<Rightarrow>
              andthen (rotation_acct e s) (\<lambda>req.
              andthen (emergency_recover_authority_handler rt ctx req cur)
                (\<lambda>c. Inr (s\<lparr>gv_config := c, gv_rotation := None\<rparr>)))
          | CancelRotation \<Rightarrow>
              andthen (rotation_acct e s) (\<lambda>req.
              andthen (cancel_authority_rotation_handler rt ctx req)
                (\<lambda>_. Inr (s\<lparr>gv_rotation := None\<rparr>)))
          | InitSquads p \<Rightarrow>
              andthen (init_squads_authority_handler rt ctx (gv_squads s) p)
                (\<lambda>(c, sq). Inr (s\<lparr>gv_config := c, gv_squads := Some sq\<rparr>))
          | _ \<Rightarrow> Inr s))"

section \<open>What one instruction can change\<close>

text \<open>
  Everything in the configuration but the two authorities with their successors, the pending
  operation, the keeper list, the preset and the multisig with its flag.
\<close>

definition protected :: "stablecoin_config \<Rightarrow> stablecoin_config" where
  "protected c =
     c\<lparr>c_authority := 0, c_pending_authority := 0, c_compliance_authority := 0,
       c_pending_compliance_authority := 0, c_admin_op_kind := 0, c_admin_op_param := 0,
       c_admin_op_target := 0, c_admin_op_mature_slot := 0, c_authorized_keepers := [], c_preset := 0,
       c_squads_multisig := 0, c_feature_flags := clear_flags (c_feature_flags c) FLAG_SQUADS_AUTHORITY\<rparr>"

definition pending_op :: "stablecoin_config \<Rightarrow> u8 \<times> u64" where
  "pending_op c = (c_admin_op_kind c, c_admin_op_mature_slot c)"

lemmas gov_handler_defs =
  propose_timelocked_op_handler_def cancel_timelocked_op_handler_def set_pyth_feed_handler_def
  set_oracle_params_handler_def set_oracle_config_handler_def set_feature_flag_handler_def
  clear_feature_flag_handler_def set_spend_limit_handler_def clear_spend_limit_handler_def
  set_psm_fee_handler_def set_stability_fee_handler_def pause_handler_def update_roles_handler_def
  accept_authority_handler_def accept_compliance_authority_handler_def
  add_authorized_keeper_handler_def remove_authorized_keeper_handler_def

lemma protected_simps [simp]:
  "protected (c\<lparr>c_authority := k\<rparr>) = protected c" "protected (c\<lparr>c_pending_authority := k\<rparr>) = protected c"
  "protected (c\<lparr>c_compliance_authority := k\<rparr>) = protected c"
  "protected (c\<lparr>c_pending_compliance_authority := k\<rparr>) = protected c"
  "protected (c\<lparr>c_admin_op_kind := n\<rparr>) = protected c" "protected (c\<lparr>c_admin_op_param := m\<rparr>) = protected c"
  "protected (c\<lparr>c_admin_op_target := k\<rparr>) = protected c"
  "protected (c\<lparr>c_admin_op_mature_slot := m\<rparr>) = protected c"
  "protected (c\<lparr>c_authorized_keepers := ks\<rparr>) = protected c" "protected (c\<lparr>c_preset := n\<rparr>) = protected c"
  "protected (c\<lparr>c_squads_multisig := k\<rparr>) = protected c"
  by (simp_all add: protected_def)

lemma protected_squads_flag [simp]:
  "protected (c\<lparr>c_feature_flags := set_flags (c_feature_flags c) FLAG_SQUADS_AUTHORITY\<rparr>) = protected c"
  by (simp add: protected_def set_flags_def clear_flags_def bit.conj_disj_distrib2 and.assoc)

lemma protected_delay: "protected c = protected d \<Longrightarrow> c_admin_timelock_delay c = c_admin_timelock_delay d"
  unfolding protected_def by (drule arg_cong [where f = c_admin_timelock_delay]) simp

lemma config_instr_protected:
  assumes "config_instr rt ctx i = Some (Inr c')" and "i \<noteq> ExecuteOp"
    and "0 < unat (c_admin_timelock_delay (ac_cfg ctx))"
  shows "protected c' = protected (ac_cfg ctx) \<and>
    (pending_op c' = pending_op (ac_cfg ctx) \<or> c_admin_op_kind c' = ADMIN_OP_NONE \<or>
     unat (rt_slot rt) + unat (c_admin_timelock_delay (ac_cfg ctx)) \<le> unat (c_admin_op_mature_slot c'))"
  using assms
  by (cases i)
     (auto simp: gov_handler_defs clear_pending_op_def pending_op_def sss3_authority_accounts_def
        Let_def run_ok guarded_Inr arith_ok unat_max split: if_splits option.splits)

text \<open>The other instructions: rotation, recovery and the installation of the multisig.\<close>

lemma gov_exec_cases:
  assumes "gov_exec key e s = Inr s'"
  obtains (config) c' where "config_instr (ge_rt e) (gov_ctx key e s) (ge_instr e) = Some (Inr c')"
      "s' = s\<lparr>gv_config := c'\<rparr>"
  | (propose) r where "s' = s\<lparr>gv_rotation := Some r\<rparr>"
      "ar_proposed_slot r = rt_slot (ge_rt e)" "ar_timelock_slots r = ROTATION_TIMELOCK_SLOTS"
      "ar_current_authority r = c_authority (gv_config s)" "gv_rotation s = None"
      "ge_signer e = c_authority (gv_config s)"
      "flag_set (gv_config s) FLAG_SQUADS_AUTHORITY \<Longrightarrow> ge_signer e = c_squads_multisig (gv_config s)"
  | (accept) r where "gv_rotation s = Some r" "ge_signer e = ar_new_authority r"
      "unat (ar_proposed_slot r) + unat (ar_timelock_slots r) \<le> unat (rt_slot (ge_rt e))"
      "s' = s\<lparr>gv_rotation := None, gv_config := (gv_config s)
              \<lparr>c_authority := ar_new_authority r, c_pending_authority := default_key\<rparr>\<rparr>"
  | (recover) r where "gv_rotation s = Some r" "ge_signer e = ar_backup_authority r"
      "unat (ar_proposed_slot r) + 3024000 \<le> unat (rt_slot (ge_rt e))"
      "s' = s\<lparr>gv_rotation := None, gv_config := (gv_config s)
              \<lparr>c_authority := ar_backup_authority r, c_pending_authority := default_key\<rparr>\<rparr>"
  | (cancel) r where "gv_rotation s = Some r" "s' = s\<lparr>gv_rotation := None\<rparr>"
      "ar_current_authority r = c_authority (gv_config s)" "ge_signer e = c_authority (gv_config s)"
  | (squads) c' sq where "c_squads_multisig (gv_config s) = default_key"
      "ge_signer e = c_authority (gv_config s)"
      "s' = s\<lparr>gv_config := c', gv_squads := Some sq\<rparr>" "c_squads_multisig c' \<noteq> default_key"
      "c' = (gv_config s)\<lparr>c_authority := c_squads_multisig c', c_squads_multisig := c_squads_multisig c',
              c_preset := 4, c_feature_flags := set_flags (c_feature_flags (gv_config s)) FLAG_SQUADS_AUTHORITY\<rparr>"
proof (cases "config_instr (ge_rt e) (gov_ctx key e s) (ge_instr e)")
  case (Some r)
  with assms show ?thesis by (auto simp: gov_exec_def Let_def run_ok intro: config)
next
  case None
  show ?thesis
  proof (cases "ge_instr e")
    case (ProposeRotation n b)
    with assms show ?thesis
      by (auto simp: gov_exec_def Let_def run_ok propose_authority_rotation_handler_def gov_ctx_def
          intro!: propose)
  next
    case (AcceptRotation c)
    with assms show ?thesis
      by (auto simp: gov_exec_def Let_def run_ok accept_authority_rotation_handler_def rotation_acct_def
          request_ok_def guarded_Inr gov_ctx_def arith_ok word_to_nat intro!: accept)
  next
    case (EmergencyRecover c)
    with assms show ?thesis
      by (auto simp: gov_exec_def Let_def run_ok emergency_recover_authority_handler_def rotation_acct_def
          request_ok_def guarded_Inr gov_ctx_def arith_ok word_to_nat EMERGENCY_RECOVERY_SLOTS_def
          intro!: recover)
  next
    case CancelRotation
    with assms show ?thesis
      by (auto simp: gov_exec_def Let_def run_ok cancel_authority_rotation_handler_def rotation_acct_def
          request_ok_def guarded_Inr gov_ctx_def intro!: cancel)
  next
    case (InitSquads p)
    with assms show ?thesis
      by (auto simp: gov_exec_def Let_def run_ok init_squads_authority_handler_def gov_ctx_def
          PRESET_INSTITUTIONAL_def intro!: squads)
  qed (use None in auto)
qed

section \<open>The timelock\<close>

definition timelock_inv :: "nat \<Rightarrow> stablecoin_config \<Rightarrow> gov_state \<Rightarrow> bool" where
  "timelock_inv t0 c0 s \<longleftrightarrow>
     protected (gv_config s) = protected c0 \<and> 0 < unat (c_admin_timelock_delay c0) \<and>
     (c_admin_op_kind (gv_config s) = ADMIN_OP_NONE \<or>
      t0 + unat (c_admin_timelock_delay c0) \<le> unat (c_admin_op_mature_slot (gv_config s)))"

definition within :: "nat \<Rightarrow> nat \<Rightarrow> 'w gov_event \<Rightarrow> bool" where
  "within t0 d e \<longleftrightarrow> t0 \<le> unat (rt_slot (ge_rt e)) \<and> unat (rt_slot (ge_rt e)) < t0 + d"

lemma timelock_inv_exec:
  assumes inv: "timelock_inv t0 c0 s" and t: "within t0 (unat (c_admin_timelock_delay c0)) e"
    and run: "gov_exec key e s = Inr s'"
  shows "timelock_inv t0 c0 s'"
  using run
proof (cases rule: gov_exec_cases)
  case (config c')
  have delay: "c_admin_timelock_delay (gv_config s) = c_admin_timelock_delay c0"
    using inv by (auto simp: timelock_inv_def intro: protected_delay)
  show ?thesis
  proof (cases "ge_instr e = ExecuteOp")
    case True
    with config have "c_admin_op_kind (gv_config s) \<noteq> ADMIN_OP_NONE"
      "c_admin_op_mature_slot (gv_config s) \<le> rt_slot (ge_rt e)"
      by (auto simp: execute_timelocked_op_handler_def Let_def run_ok gov_ctx_def)
    with inv t show ?thesis by (auto simp: timelock_inv_def within_def word_to_nat)
  next
    case False
    from config_instr_protected [OF config(1) False] inv t delay config(2) show ?thesis
      by (auto simp: timelock_inv_def within_def gov_ctx_def pending_op_def)
  qed
next
  case (squads c' sq)
  have "protected c' = protected (gv_config s)" "pending_op c' = pending_op (gv_config s)"
    by (subst squads(5), simp add: protected_def set_flags_def clear_flags_def bit.conj_disj_distrib2 and.assoc pending_op_def)+
  with inv squads(3) show ?thesis by (simp add: timelock_inv_def pending_op_def)
qed (use inv in \<open>auto simp: timelock_inv_def\<close>)

interpretation timelock: preserved "gov_exec key" "within t0 (unat (c_admin_timelock_delay c0))"
    "timelock_inv t0 c0" for key t0 c0
  by unfold_locales (rule timelock_inv_exec)


definition demo_gov :: "stablecoin_config \<Rightarrow> gov_state" where
  "demo_gov c = \<lparr>gv_config = c, gv_rotation = None, gv_squads = None\<rparr>"

definition gov_call :: "u64 \<Rightarrow> pubkey \<Rightarrow> gov_instr \<Rightarrow> ref_ledger gov_event" where
  "gov_call slot signer i =
     \<lparr>ge_rt = ref_runtime slot 0 0, ge_signer = signer, ge_mint = 5, ge_instr = i\<rparr>"

lemma gov_call_simps [simp]:
  "ge_rt (gov_call t k i) = ref_runtime t 0 0" "ge_signer (gov_call t k i) = k"
  "ge_mint (gov_call t k i) = 5" "ge_instr (gov_call t k i) = i"
  by (simp_all add: gov_call_def)

lemma demo_gov_simps [simp]:
  "gv_config (demo_gov c) = c" "gv_rotation (demo_gov c) = None" "gv_squads (demo_gov c) = None"
  by (simp_all add: demo_gov_def)


text \<open>The compliance authority has a delay of its own, whatever delay is configured.\<close>

definition compliance_inv :: "nat \<Rightarrow> pubkey \<Rightarrow> gov_state \<Rightarrow> bool" where
  "compliance_inv t0 k s \<longleftrightarrow>
     c_compliance_authority (gv_config s) = k \<and> c_pending_compliance_authority (gv_config s) = default_key \<and>
     (c_admin_op_kind (gv_config s) = ADMIN_OP_TRANSFER_COMPLIANCE_AUTHORITY \<longrightarrow>
      t0 + 432000 \<le> unat (c_admin_op_mature_slot (gv_config s)))"

definition compliance_view :: "stablecoin_config \<Rightarrow> pubkey \<times> pubkey" where
  "compliance_view c = (c_compliance_authority c, c_pending_compliance_authority c)"

lemma config_instr_compliance:
  assumes "config_instr rt ctx i = Some (Inr c')" and "i \<noteq> ExecuteOp"
    and "c_pending_compliance_authority (ac_cfg ctx) = default_key"
  shows "compliance_view c' = compliance_view (ac_cfg ctx) \<and>
    (pending_op c' = pending_op (ac_cfg ctx) \<or> c_admin_op_kind c' \<noteq> ADMIN_OP_TRANSFER_COMPLIANCE_AUTHORITY \<or>
     unat (rt_slot rt) + 432000 \<le> unat (c_admin_op_mature_slot c'))"
  using assms
  by (cases i)
     (auto simp: gov_handler_defs clear_pending_op_def pending_op_def sss3_authority_accounts_def
        compliance_view_def ADMIN_OP_NONE_def ADMIN_OP_TRANSFER_COMPLIANCE_AUTHORITY_def
        DEFAULT_ADMIN_TIMELOCK_DELAY_def
        Let_def run_ok guarded_Inr arith_ok unat_max split: if_splits option.splits)

lemma apply_op_compliance:
  assumes "apply_timelocked_op c k p t = Inr c'" and "k \<noteq> ADMIN_OP_TRANSFER_COMPLIANCE_AUTHORITY"
  shows "compliance_view c' = compliance_view c"
  using assms unfolding apply_timelocked_op_def compliance_view_def
  by (simp add: Let_def run_ok split: if_split_asm) (auto simp: run_ok split: if_splits)

lemma execute_ok:
  assumes "execute_timelocked_op_handler rt ctx = Inr c'"
  obtains c1 where "c_admin_op_kind (ac_cfg ctx) \<noteq> ADMIN_OP_NONE"
    "unat (c_admin_op_mature_slot (ac_cfg ctx)) \<le> unat (rt_slot rt)"
    "apply_timelocked_op (ac_cfg ctx) (c_admin_op_kind (ac_cfg ctx)) (c_admin_op_param (ac_cfg ctx))
       (c_admin_op_target (ac_cfg ctx)) = Inr c1"
    "c' = clear_pending_op c1" "ac_authority ctx = c_authority (ac_cfg ctx)"
    "squads_gate (ac_cfg ctx) (ac_authority ctx) = Inr ()"
  using assms by (auto simp: execute_timelocked_op_handler_def Let_def run_ok word_to_nat)

lemma compliance_inv_exec:
  assumes inv: "compliance_inv t0 k s" and t: "within t0 432000 e" and run: "gov_exec key e s = Inr s'"
  shows "compliance_inv t0 k s'"
  using run
proof (cases rule: gov_exec_cases)
  case (config c')
  show ?thesis
  proof (cases "ge_instr e = ExecuteOp")
    case True
    with config(1) have "execute_timelocked_op_handler (ge_rt e) (gov_ctx key e s) = Inr c'" by simp
    then show ?thesis
    proof (cases rule: execute_ok)
      case (1 c1)
      have "c_admin_op_kind (gv_config s) \<noteq> ADMIN_OP_TRANSFER_COMPLIANCE_AUTHORITY"
        using 1(2) inv t by (auto simp: compliance_inv_def within_def gov_ctx_def)
      with apply_op_compliance [OF 1(3)] have "compliance_view c1 = compliance_view (gv_config s)"
        by (simp add: gov_ctx_def)
      with inv 1(4) config(2) show ?thesis
        by (simp add: compliance_inv_def compliance_view_def clear_pending_op_def ADMIN_OP_NONE_def
            ADMIN_OP_TRANSFER_COMPLIANCE_AUTHORITY_def)
    qed
  next
    case False
    from config_instr_compliance [OF config(1) False] inv t config(2) show ?thesis
      by (auto simp: compliance_inv_def compliance_view_def within_def gov_ctx_def pending_op_def)
  qed
next
  case (squads c' sq)
  have "compliance_view c' = compliance_view (gv_config s)" "pending_op c' = pending_op (gv_config s)"
    by (subst squads(5), simp add: compliance_view_def pending_op_def)+
  with inv squads(3) show ?thesis by (simp add: compliance_inv_def compliance_view_def pending_op_def)
qed (use inv in \<open>auto simp: compliance_inv_def\<close>)

interpretation compliance: preserved "gov_exec key" "within t0 432000" "compliance_inv t0 k" for key t0 k
  by unfold_locales (rule compliance_inv_exec)

text \<open>The compliance authority cannot change hands in less than 432000 slots, even with a timelock delay of
  zero, an authority that cooperates, and any sequence of governance instructions.\<close>

theorem compliance_authority_timelocked:
  assumes "c_admin_op_kind (gv_config s) = ADMIN_OP_NONE"
    and "c_pending_compliance_authority (gv_config s) = default_key"
    and "\<forall>e \<in> set es. within t0 432000 e"
  shows "c_compliance_authority (gv_config (play (gov_exec key) es s)) = c_compliance_authority (gv_config s)"
proof -
  have "compliance_inv t0 (c_compliance_authority (gv_config s)) s"
    using assms(1,2)
    by (simp add: compliance_inv_def ADMIN_OP_NONE_def ADMIN_OP_TRANSFER_COMPLIANCE_AUTHORITY_def)
  from compliance.play_inv [OF this assms(3)] show ?thesis by (simp add: compliance_inv_def)
qed

theorem compliance_authority_timelocked_witness:
  "c_compliance_authority (gv_config (play (gov_exec demo_cfg_key)
     [gov_call 10 7 (ProposeOp ADMIN_OP_TRANSFER_COMPLIANCE_AUTHORITY 0 70), gov_call 400000 7 ExecuteOp,
      gov_call 400001 70 AcceptCompliance]
     (demo_gov (demo_config\<lparr>c_admin_timelock_delay := 0\<rparr>)))) = 8"
proof -
  have "c_compliance_authority (gv_config (play (gov_exec demo_cfg_key)
     [gov_call 10 7 (ProposeOp ADMIN_OP_TRANSFER_COMPLIANCE_AUTHORITY 0 70), gov_call 400000 7 ExecuteOp,
      gov_call 400001 70 AcceptCompliance]
     (demo_gov (demo_config\<lparr>c_admin_timelock_delay := 0\<rparr>)))) =
     c_compliance_authority (gv_config (demo_gov (demo_config\<lparr>c_admin_timelock_delay := 0\<rparr>)))"
    by (rule compliance_authority_timelocked [where ?t0.0 = 10])
       (simp_all add: demo_config_def ADMIN_OP_NONE_def within_def)
  then show ?thesis by (simp add: demo_config_def)
qed

section \<open>Rotation\<close>

text \<open>
  Nobody becomes the authority in the first 432000 slots: the authority stays while no successor is
  staged, a timelock of at least that delay is in force, the multisig is already installed and any
  rotation request was made in the window.
\<close>

definition authority_inv :: "nat \<Rightarrow> pubkey \<Rightarrow> gov_state \<Rightarrow> bool" where
  "authority_inv t0 k s \<longleftrightarrow>
     c_authority (gv_config s) = k \<and> c_pending_authority (gv_config s) = default_key \<and>
     c_squads_multisig (gv_config s) \<noteq> default_key \<and> 432000 \<le> unat (c_admin_timelock_delay (gv_config s)) \<and>
     (c_admin_op_kind (gv_config s) = ADMIN_OP_NONE \<or> t0 + 432000 \<le> unat (c_admin_op_mature_slot (gv_config s))) \<and>
     (\<forall>r. gv_rotation s = Some r \<longrightarrow> t0 \<le> unat (ar_proposed_slot r) \<and> ar_timelock_slots r = ROTATION_TIMELOCK_SLOTS)"

lemma config_instr_authority:
  assumes "config_instr rt ctx i = Some (Inr c')" and "i \<noteq> ExecuteOp"
    and "c_pending_authority (ac_cfg ctx) = default_key" and "c_admin_timelock_delay (ac_cfg ctx) \<noteq> 0"
  shows "c_authority c' = c_authority (ac_cfg ctx) \<and> c_pending_authority c' = default_key \<and>
    c_squads_multisig c' = c_squads_multisig (ac_cfg ctx)"
  using assms
  by (cases i)
     (auto simp: gov_handler_defs clear_pending_op_def sss3_authority_accounts_def
        Let_def run_ok guarded_Inr split: if_splits option.splits)

lemma authority_inv_exec:
  assumes inv: "authority_inv t0 k s" and t: "within t0 432000 e" and run: "gov_exec key e s = Inr s'"
  shows "authority_inv t0 k s'"
  using run
proof (cases rule: gov_exec_cases)
  case (config c')
  show ?thesis
  proof (cases "ge_instr e = ExecuteOp")
    case True
    with config(1) have "execute_timelocked_op_handler (ge_rt e) (gov_ctx key e s) = Inr c'" by simp
    then have False by (cases rule: execute_ok) (use inv t in \<open>auto simp: authority_inv_def within_def gov_ctx_def\<close>)
    then show ?thesis ..
  next
    case False
    have pos: "c_admin_timelock_delay (gv_config s) \<noteq> 0" "0 < unat (c_admin_timelock_delay (gv_config s))"
      using inv by (auto simp: authority_inv_def)
    have "c_admin_timelock_delay c' = c_admin_timelock_delay (gv_config s)"
      using config_instr_protected [OF config(1) False] pos(2) by (intro protected_delay) (simp add: gov_ctx_def)
    with config_instr_protected [OF config(1) False] config_instr_authority [OF config(1) False] inv t pos config(2)
    show ?thesis by (auto simp: authority_inv_def within_def gov_ctx_def pending_op_def)
  qed
qed (use inv t in \<open>auto simp: authority_inv_def within_def ROTATION_TIMELOCK_SLOTS_def\<close>)

interpretation authority: preserved "gov_exec key" "within t0 432000" "authority_inv t0 k" for key t0 k
  by unfold_locales (rule authority_inv_exec)

text \<open>C10: With the multisig installed, a timelock of at least 432000 slots and nothing staged, the authority of a
  stablecoin cannot change within 432000 slots, by timelock, role update, rotation or recovery.\<close>

theorem authority_change_takes_two_days:
  assumes "c_admin_op_kind (gv_config s) = ADMIN_OP_NONE" and "c_pending_authority (gv_config s) = default_key"
    and "c_squads_multisig (gv_config s) \<noteq> default_key" and "432000 \<le> c_admin_timelock_delay (gv_config s)"
    and "gv_rotation s = None" and "\<forall>e \<in> set es. within t0 432000 e"
  shows "c_authority (gv_config (play (gov_exec key) es s)) = c_authority (gv_config s)"
proof -
  have "authority_inv t0 (c_authority (gv_config s)) s"
    using assms(1-5) by (simp add: authority_inv_def word_to_nat)
  from authority.play_inv [OF this assms(6)] show ?thesis by (simp add: authority_inv_def)
qed

theorem authority_change_takes_two_days_witness:
  "c_authority (gv_config (play (gov_exec demo_cfg_key)
     [gov_call 10 7 (ProposeRotation 70 71), gov_call 20 7 (ProposeOp ADMIN_OP_TRANSFER_AUTHORITY 0 70),
      gov_call 431000 7 ExecuteOp, gov_call 432000 70 (AcceptRotation 7), gov_call 432000 70 AcceptAuthority]
     (demo_gov (demo_config\<lparr>c_squads_multisig := 7\<rparr>)))) = 7"
proof -
  have "c_authority (gv_config (play (gov_exec demo_cfg_key)
     [gov_call 10 7 (ProposeRotation 70 71), gov_call 20 7 (ProposeOp ADMIN_OP_TRANSFER_AUTHORITY 0 70),
      gov_call 431000 7 ExecuteOp, gov_call 432000 70 (AcceptRotation 7), gov_call 432000 70 AcceptAuthority]
     (demo_gov (demo_config\<lparr>c_squads_multisig := 7\<rparr>)))) =
     c_authority (gv_config (demo_gov (demo_config\<lparr>c_squads_multisig := 7\<rparr>)))"
    by (rule authority_change_takes_two_days [where ?t0.0 = 10])
       (simp_all add: demo_config_def ADMIN_OP_NONE_def within_def)
  then show ?thesis by (simp add: demo_config_def)
qed

text \<open>A rotation request outlives the authority that made it: once its 432000 slots have passed, the new
  authority it names takes over whoever holds the authority by then, and an authority other than the one that
  made the request can neither cancel it nor file its own.\<close>

theorem stale_rotation_overrides_authority:
  assumes "gv_rotation s = Some r"
    and "ar_current_authority r \<noteq> c_authority (gv_config s)"
  shows "(seeds_ok (ge_rt e) key (config_seeds (ge_mint e)) (c_bump (gv_config s)) \<and>
      seeds_ok (ge_rt e) (fst (rt_find_pda (ge_rt e) (rotation_seeds (ge_mint e)))) (rotation_seeds (ge_mint e)) (ar_bump r) \<and>
      ar_config_mint r = ge_mint e \<and> ge_mint e = c_mint (gv_config s) \<and> ge_signer e = ar_new_authority r \<and>
      ge_instr e = AcceptRotation (ar_current_authority r) \<and>
      unat (ar_proposed_slot r) + unat (ar_timelock_slots r) \<le> unat (rt_slot (ge_rt e))
      \<longrightarrow> (\<exists>s'. gov_exec key e s = Inr s' \<and> c_authority (gv_config s') = ar_new_authority r)) \<and>
    (ge_instr e' = CancelRotation \<longrightarrow> (\<forall>s'. gov_exec key e' s \<noteq> Inr s')) \<and>
    (ge_instr e' = ProposeRotation n b \<longrightarrow> (\<forall>s'. gov_exec key e' s \<noteq> Inr s'))"
proof (intro conjI impI)
  assume a: "seeds_ok (ge_rt e) key (config_seeds (ge_mint e)) (c_bump (gv_config s)) \<and>
      seeds_ok (ge_rt e) (fst (rt_find_pda (ge_rt e) (rotation_seeds (ge_mint e)))) (rotation_seeds (ge_mint e)) (ar_bump r) \<and>
      ar_config_mint r = ge_mint e \<and> ge_mint e = c_mint (gv_config s) \<and> ge_signer e = ar_new_authority r \<and>
      ge_instr e = AcceptRotation (ar_current_authority r) \<and>
      unat (ar_proposed_slot r) + unat (ar_timelock_slots r) \<le> unat (rt_slot (ge_rt e))"
  then have "unat (ar_proposed_slot r) + unat (ar_timelock_slots r) < 2 ^ 64"
    using unat_lt [of "rt_slot (ge_rt e)"] by simp
  then have "checked_add (ar_proposed_slot r) (ar_timelock_slots r) = Some (ar_proposed_slot r + ar_timelock_slots r)"
    and "unat (ar_proposed_slot r + ar_timelock_slots r) = unat (ar_proposed_slot r) + unat (ar_timelock_slots r)"
    by (simp_all add: checked_add_def unat_word_ariths)
  with a assms(1) show "\<exists>s'. gov_exec key e s = Inr s' \<and> c_authority (gv_config s') = ar_new_authority r"
    by (simp add: gov_exec_def gov_ctx_def Let_def rotation_acct_def accept_authority_rotation_handler_def
        request_ok_def config_ok_def word_to_nat)
next
  assume "ge_instr e' = CancelRotation"
  with assms show "\<forall>s'. gov_exec key e' s \<noteq> Inr s'"
    by (auto simp: gov_exec_def gov_ctx_def Let_def rotation_acct_def cancel_authority_rotation_handler_def
        request_ok_def guarded_Inr run_ok)
next
  assume "ge_instr e' = ProposeRotation n b"
  with assms show "\<forall>s'. gov_exec key e' s \<noteq> Inr s'"
    by (auto simp: gov_exec_def gov_ctx_def Let_def propose_authority_rotation_handler_def run_ok)
qed

lemmas gov_eval [eval_defs] =
  gov_exec_def gov_ctx_def rotation_acct_def propose_authority_rotation_handler_def
  accept_authority_rotation_handler_def request_ok_def authority_accounts_def config_ok_def
  squads_gate_def verify_squads_signer_def update_roles_handler_def accept_authority_handler_def
  ROTATION_TIMELOCK_SLOTS_def

text \<open>The authority 7 files a rotation to 70, then hands over to 80; two days later 70 takes the stablecoin.\<close>

theorem stale_rotation_overrides_authority_witness:
  "\<exists>s'. gov_exec demo_cfg_key (gov_call 432010 70 (AcceptRotation 7))
     (play (gov_exec demo_cfg_key)
       [gov_call 10 7 (ProposeRotation 70 71), gov_call 20 7 (UpdateRoles (Some 80) None),
        gov_call 30 80 AcceptAuthority] (demo_gov (demo_config\<lparr>c_admin_timelock_delay := 0\<rparr>))) = Inr s' \<and>
     c_authority (gv_config s') = 70"
proof -
  let ?s = "play (gov_exec demo_cfg_key)
       [gov_call 10 7 (ProposeRotation 70 71), gov_call 20 7 (UpdateRoles (Some 80) None),
        gov_call 30 80 AcceptAuthority] (demo_gov (demo_config\<lparr>c_admin_timelock_delay := 0\<rparr>))"
  let ?e = "gov_call 432010 70 (AcceptRotation 7)"
  obtain r where r: "gv_rotation ?s = Some r" "ar_current_authority r = 7" "ar_new_authority r = 70"
    "ar_proposed_slot r = 10" "ar_timelock_slots r = 432000" "ar_config_mint r = 5"
    and c: "c_authority (gv_config ?s) = 80" "c_mint (gv_config ?s) = 5"
    by (simp add: eval_defs demo_cfg_key_def)
  have ne: "ar_current_authority r \<noteq> c_authority (gv_config ?s)" using r(2) c(1) by (simp del: play.simps)
  have "seeds_ok (ge_rt ?e) (fst (rt_find_pda (ge_rt ?e) (rotation_seeds (ge_mint ?e))))
      (rotation_seeds (ge_mint ?e)) (ar_bump r)"
    by (simp add: seeds_ok_def)
  then show ?thesis
    using stale_rotation_overrides_authority [OF r(1) ne, of ?e demo_cfg_key, THEN conjunct1] r(2-6) c(2) by (simp del: play.simps)
qed

section \<open>Flags that stay, parameters in range\<close>

definition sticky :: "u64 \<Rightarrow> bool" where
  "sticky f \<longleftrightarrow> f = FLAG_DAO_COMMITTEE \<or> f = FLAG_SQUADS_AUTHORITY"

lemma sticky_not_spend: "sticky f \<Longrightarrow> \<not> check_feature_flag FLAG_SPEND_POLICY f"
  by (auto simp: sticky_def flag_defs check_feature_flag_def)

lemma sticky_not_in:
  "sticky f \<Longrightarrow> \<not> check_feature_flag m FLAG_DAO_COMMITTEE \<Longrightarrow> \<not> check_feature_flag m FLAG_SQUADS_AUTHORITY \<Longrightarrow>
     \<not> check_feature_flag m f"
  by (auto simp: sticky_def)

lemma clear_keeps:
  "\<not> check_feature_flag m g \<Longrightarrow> check_feature_flag (clear_flags f m) g = check_feature_flag f g"
  by (simp add: clear_flags_keeps check_feature_flag_def [of m])

lemma apply_op_sticky:
  assumes "apply_timelocked_op c k p t = Inr c'" and "sticky f" and "flag_set c f"
  shows "flag_set c' f"
proof (cases "k = ADMIN_OP_CLEAR_FEATURE_FLAG \<or> k = ADMIN_OP_SET_FEATURE_FLAG")
  case True
  with assms show ?thesis
    by (auto simp: apply_timelocked_op_def admin_op_defs run_ok set_flags_keeps clear_keeps sticky_not_in)
next
  case False
  with assms(1) have "c_feature_flags c' = c_feature_flags c" unfolding apply_timelocked_op_def
    by (simp add: Let_def run_ok split: if_split_asm) (auto simp: run_ok split: if_splits)
  with assms(3) show ?thesis by simp
qed

lemma config_instr_sticky:
  assumes "config_instr rt ctx i = Some (Inr c')" and "sticky f" and "flag_set (ac_cfg ctx) f"
  shows "flag_set c' f"
proof (cases "i = ExecuteOp")
  case True
  with assms(1) have "execute_timelocked_op_handler rt ctx = Inr c'" by simp
  then show ?thesis
    by (cases rule: execute_ok) (use apply_op_sticky assms in \<open>fastforce simp: clear_pending_op_def\<close>)
next
  case False
  with assms show ?thesis
    by (cases i)
       (auto simp: gov_handler_defs clear_pending_op_def sss3_authority_accounts_def sticky_not_spend
          sticky_not_in set_flags_keeps clear_keeps Let_def run_ok guarded_Inr split: if_splits option.splits)
qed

lemma sticky_exec:
  assumes "sticky f" and "flag_set (gv_config s) f" and run: "gov_exec key e s = Inr s'"
  shows "flag_set (gv_config s') f"
  using run
proof (cases rule: gov_exec_cases)
  case (config c')
  with config_instr_sticky [OF config(1) assms(1)] assms(2) show ?thesis by (simp add: gov_ctx_def)
next
  case (squads c' sq)
  have "c_feature_flags c' = set_flags (c_feature_flags (gv_config s)) FLAG_SQUADS_AUTHORITY"
    by (subst squads(5)) simp
  with assms(2) squads(3) show ?thesis by (simp add: set_flags_keeps)
qed (use assms in auto)

interpretation sticky_flags: preserved "gov_exec key" "\<lambda>_. True" "\<lambda>s. sticky f \<and> flag_set (gv_config s) f" for key f
  by unfold_locales (auto intro: sticky_exec)

text \<open>The committee flag and the multisig flag, once set, survive every history of governance instructions:
  no authority can drop its stablecoin back to a single signer.\<close>

theorem governance_flags_sticky:
  assumes "f = FLAG_DAO_COMMITTEE \<or> f = FLAG_SQUADS_AUTHORITY" and "flag_set (gv_config s) f"
  shows "flag_set (gv_config (play (gov_exec key) es s)) f"
  using sticky_flags.play_inv [of f s es key] assms by (auto simp: sticky_def)

theorem governance_flags_sticky_witness:
  "flag_set (gv_config (play (gov_exec demo_cfg_key)
     [gov_call 10 7 (ClearFeatureFlag FLAG_SQUADS_AUTHORITY), gov_call 11 7 (ClearFeatureFlag FLAG_DAO_COMMITTEE)]
     (demo_gov (demo_config\<lparr>c_feature_flags := FLAG_SQUADS_AUTHORITY\<rparr>)))) FLAG_SQUADS_AUTHORITY"
  by (rule governance_flags_sticky) (simp_all add: check_feature_flag_def flag_defs)

definition in_range :: "stablecoin_config \<Rightarrow> bool" where
  "in_range c \<longleftrightarrow>
     unat (c_redemption_fee_bps c) \<le> 1000 \<and> unat (c_stability_fee_bps c) \<le> 10000 \<and>
     unat (c_oracle_type c) \<le> 2 \<and> unat (c_max_backstop_bps c) \<le> 10000 \<and>
     unat (c_min_reserve_ratio_bps c) \<le> 20000"

lemma u16_of_u64: "unat (p :: u64) < 65536 \<Longrightarrow> unat (ucast p :: u16) = unat p"
  by (simp add: unat_narrow_small)

lemma apply_op_in_range:
  assumes "apply_timelocked_op c k p t = Inr c'" and "in_range c"
  shows "in_range c'"
  using assms unfolding apply_timelocked_op_def
  by (simp add: Let_def run_ok split: if_split_asm)
     (auto simp: run_ok in_range_def word_to_nat u16_of_u64 split: if_splits)

lemma config_instr_in_range:
  assumes "config_instr rt ctx i = Some (Inr c')" and "in_range (ac_cfg ctx)"
  shows "in_range c'"
proof (cases "i = ExecuteOp")
  case True
  with assms(1) have "execute_timelocked_op_handler rt ctx = Inr c'" by simp
  then show ?thesis
    by (cases rule: execute_ok) (use apply_op_in_range assms(2) in \<open>fastforce simp: clear_pending_op_def in_range_def\<close>)
next
  case False
  with assms show ?thesis
    by (cases i)
       (auto simp: gov_handler_defs clear_pending_op_def sss3_authority_accounts_def in_range_def
          MAX_PSM_FEE_BPS_def MAX_STABILITY_FEE_BPS_def word_to_nat
          Let_def run_ok guarded_Inr split: if_splits option.splits)
qed

lemma in_range_exec:
  assumes "in_range (gv_config s)" and run: "gov_exec key e s = Inr s'"
  shows "in_range (gv_config s')"
  using run
proof (cases rule: gov_exec_cases)
  case (config c')
  with config_instr_in_range [OF config(1)] assms(1) show ?thesis by (simp add: gov_ctx_def)
next
  case (squads c' sq)
  have "in_range c'" by (subst squads(5)) (use assms(1) in \<open>simp add: in_range_def\<close>)
  with squads(3) show ?thesis by simp
qed (use assms in \<open>auto simp: in_range_def\<close>)

interpretation ranges: preserved "gov_exec key" "\<lambda>_. True" "\<lambda>s. in_range (gv_config s)" for key
  by unfold_locales (auto intro: in_range_exec)

text \<open>From \<open>initialize\<close> on, whatever is proposed, executed or set directly: the redemption fee stays within 10
  percent, the stability fee, the backstop share within 100 percent, the reserve ratio within 200 percent, and
  the oracle type is one of the three adapters.\<close>

theorem parameters_stay_in_range:
  assumes "initialize_handler rt ms w ctx p = Inr (cfg, ct, w')" and "gv_config s = data_of cfg"
  shows "in_range (gv_config (play (gov_exec key) es s))"
proof -
  obtain ct_enabled bump where "data_of cfg = fresh_config ctx p ct_enabled bump"
    using assms(1) by (rule initialize_config)
  then have "in_range (data_of cfg)" by (simp add: fresh_config_def Let_def in_range_def)
  with assms(2) show ?thesis by (intro ranges.play_inv) auto
qed

definition demo_init_ctx :: init_ctx where
  "demo_init_ctx =
     \<lparr>in_payer = 7, in_mint = 8, in_existing = None, in_ct = None, in_token_program = 1, in_token_2022_id = 1\<rparr>"

lemma demo_init_run:
  obtains cfg ct w' where
    "initialize_handler (ref_runtime 10 3 0) ref_setup demo_ledger demo_init_ctx demo_init_params = Inr (cfg, ct, w')"
    "c_squads_multisig (data_of cfg) = 77" "c_authority (data_of cfg) = 7" "c_admin_timelock_delay (data_of cfg) = 432000"
  by (simp add: eval_defs demo_init_ctx_def)

theorem parameters_stay_in_range_witness:
  "\<exists>c. in_range (gv_config (play (gov_exec demo_cfg_key) [gov_call 10 7 (SetPsmFee 5000)] (demo_gov c)))"
proof -
  obtain cfg ct w' where "initialize_handler (ref_runtime 10 3 0) ref_setup demo_ledger demo_init_ctx demo_init_params
      = Inr (cfg, ct, w')" using demo_init_run by blast
  from parameters_stay_in_range [OF this demo_gov_simps(1)] show ?thesis by blast
qed

section \<open>Configurations nobody can govern\<close>

definition orphaned :: "stablecoin_config \<Rightarrow> bool" where
  "orphaned c \<longleftrightarrow>
     flag_set c FLAG_SQUADS_AUTHORITY \<and> c_squads_multisig c \<noteq> default_key \<and>
     c_authority c \<noteq> c_squads_multisig c \<and> c_pending_authority c = default_key \<and>
     c_pending_compliance_authority c = default_key \<and> c_admin_timelock_delay c \<noteq> 0 \<and>
     c_authorized_keepers c = []"

lemma orphaned_config_instr:
  assumes "orphaned (ac_cfg ctx)"
  shows "config_instr rt ctx i \<noteq> Some (Inr c')"
proof (cases "i = ExecuteOp")
  case True
  with assms show ?thesis
    by (auto simp: execute_timelocked_op_handler_def Let_def run_ok orphaned_def)
next
  case False
  with assms show ?thesis
    by (cases i)
       (auto simp: gov_handler_defs sss3_authority_accounts_def authority_accounts_def orphaned_def Let_def
          run_ok guarded_Inr)
qed

lemma orphaned_exec:
  assumes "orphaned (gv_config s)" and "gv_rotation s = None"
  shows "gov_exec key e s \<noteq> Inr s'"
proof
  assume "gov_exec key e s = Inr s'"
  then show False
    by (cases rule: gov_exec_cases)
       (use assms orphaned_config_instr [of "gov_ctx key e s"] in \<open>auto simp: orphaned_def gov_ctx_def\<close>)
qed

interpretation orphan: preserved "gov_exec key" "\<lambda>_. True"
    "\<lambda>s. s = s0 \<and> orphaned (gv_config s0) \<and> gv_rotation s0 = None" for key s0
  by unfold_locales (auto dest: orphaned_exec)

text \<open>A preset-3 stablecoin initialised by a payer that is not the multisig it names is governed by nobody: the
  payer is the authority, every governance instruction asks for the multisig's signature as well, and so the
  configuration stays for ever what \<open>initialize\<close> made it.\<close>

theorem preset3_governance_frozen:
  assumes "initialize_handler rt ms w ctx p = Inr (cfg, ct, w')" and "ip_preset p = 3"
    and "ip_squads_multisig p \<noteq> Some (in_payer ctx)"
    and "gv_config s = data_of cfg" and "gv_rotation s = None"
  shows "play (gov_exec key) es s = s"
proof -
  have "orphaned (data_of cfg)"
    using assms(1)
  proof (cases rule: initialize_config)
    case (1 ct_enabled bump)
    have sq: "ip_squads_multisig p \<noteq> None" "ip_squads_multisig p \<noteq> Some default_key"
      using 1(5) assms(2) by auto
    have "c_squads_multisig (data_of cfg) \<noteq> in_payer ctx"
      using fresh_config_squads(2) [OF sq, of ctx ct_enabled bump] assms(3) 1(1) by auto
    moreover have "c_admin_timelock_delay (data_of cfg) \<noteq> 0"
      using 1(6) assms(2) by (auto simp: SSS3_MIN_TIMELOCK_def word_to_nat)
    moreover have "c_authority (data_of cfg) = in_payer ctx" "c_pending_authority (data_of cfg) = 0"
      "c_pending_compliance_authority (data_of cfg) = 0" "c_authorized_keepers (data_of cfg) = []"
      by (simp_all add: 1(1) fresh_config_def Let_def)
    ultimately show ?thesis
      using fresh_config_squads(1,3) [OF sq, of ctx ct_enabled bump] by (simp add: orphaned_def 1(1))
  qed
  with assms(4,5) orphan.play_inv [of s s es key] show ?thesis by auto
qed

theorem preset3_governance_frozen_witness:
  "\<exists>c. play (gov_exec demo_cfg_key)
     [gov_call 10 7 (ProposeOp ADMIN_OP_PAUSE 0 0), gov_call 500000 7 ExecuteOp, gov_call 10 77 (SetPause True)]
     (demo_gov c) = demo_gov c"
proof -
  obtain cfg ct w' where "initialize_handler (ref_runtime 10 3 0) ref_setup demo_ledger demo_init_ctx demo_init_params
      = Inr (cfg, ct, w')" using demo_init_run by blast
  from preset3_governance_frozen [OF this _ _ demo_gov_simps(1,2)]
  have "play (gov_exec demo_cfg_key) es (demo_gov (data_of cfg)) = demo_gov (data_of cfg)"
    for es :: "ref_ledger gov_event list"
    by (simp add: demo_init_params_def demo_init_ctx_def)
  then show ?thesis by blast
qed

lemma apply_op_keepers:
  "apply_timelocked_op c k p t = Inr c' \<Longrightarrow> c_authorized_keepers c' = c_authorized_keepers c"
  unfolding apply_timelocked_op_def
  by (simp add: Let_def run_ok split: if_split_asm) (auto simp: run_ok split: if_splits)

lemma config_instr_keepers:
  assumes "config_instr rt ctx i = Some (Inr c')" and "c_authorized_keepers (ac_cfg ctx) = []"
  shows "c_authorized_keepers c' = []"
proof (cases "i = ExecuteOp")
  case True
  with assms(1) have "execute_timelocked_op_handler rt ctx = Inr c'" by simp
  then show ?thesis
    by (cases rule: execute_ok) (use apply_op_keepers assms(2) in \<open>fastforce simp: clear_pending_op_def\<close>)
next
  case False
  with assms show ?thesis
    by (cases i)
       (auto simp: gov_handler_defs clear_pending_op_def sss3_authority_accounts_def
          Let_def run_ok guarded_Inr split: if_splits option.splits)
qed

lemma keepers_exec:
  assumes "c_authorized_keepers (gv_config s) = []" and run: "gov_exec key e s = Inr s'"
  shows "c_authorized_keepers (gv_config s') = []"
  using run
proof (cases rule: gov_exec_cases)
  case (config c')
  with config_instr_keepers [OF config(1)] assms(1) show ?thesis by (simp add: gov_ctx_def)
next
  case (squads c' sq)
  have "c_authorized_keepers c' = []" by (subst squads(5)) (use assms(1) in simp)
  with squads(3) show ?thesis by simp
qed (use assms in auto)

interpretation no_keepers: preserved "gov_exec key" "\<lambda>_. True" "\<lambda>s. c_authorized_keepers (gv_config s) = []" for key
  by unfold_locales (auto intro: keepers_exec)

text \<open>The keeper list of a stablecoin stays empty: no history of governance instructions can put the first
  keeper on it, because a keeper is only ever written over an empty slot that nothing creates.\<close>

theorem keepers_never_added:
  assumes "initialize_handler rt ms w ctx p = Inr (cfg, ct, w')" and "gv_config s = data_of cfg"
  shows "c_authorized_keepers (gv_config (play (gov_exec key) es s)) = []"
proof -
  have "c_authorized_keepers (data_of cfg) = []"
    using assms(1) by (cases rule: initialize_config) (simp add: fresh_config_def Let_def)
  with assms(2) show ?thesis using no_keepers.play_inv [of s es key] by simp
qed

theorem keepers_never_added_witness:
  "\<exists>c. c_authorized_keepers (gv_config (play (gov_exec demo_cfg_key) [gov_call 10 7 (AddKeeper 50)] (demo_gov c))) = []"
proof -
  obtain cfg ct w' where "initialize_handler (ref_runtime 10 3 0) ref_setup demo_ledger demo_init_ctx demo_init_params
      = Inr (cfg, ct, w')" using demo_init_run by blast
  from keepers_never_added [OF this demo_gov_simps(1)] show ?thesis by blast
qed

text \<open>The committee does not control the feature flags while a timelock runs: with the committee flag set, the
  authority alone proposes a flag, waits out the delay and executes it, with no committee proposal involved.\<close>

theorem timelock_bypasses_committee:
  "flag_set (gv_config (play (gov_exec demo_cfg_key)
     [gov_call 10 7 (ProposeOp ADMIN_OP_SET_FEATURE_FLAG FLAG_CIRCUIT_BREAKER 0), gov_call 432010 7 ExecuteOp]
     (demo_gov (demo_config\<lparr>c_feature_flags := FLAG_DAO_COMMITTEE\<rparr>)))) FLAG_CIRCUIT_BREAKER"
  by (simp add: eval_defs demo_cfg_key_def propose_timelocked_op_handler_def execute_timelocked_op_handler_def
      timelock_op_kinds_def admin_op_defs apply_timelocked_op_def clear_pending_op_def set_flags_def)

end
