(* ===== verification/Bytes.thy ===== *)
theory Bytes
  imports Demo
begin

text \<open>
  Bytes: little-endian integers, keys as 32 bytes, the layout in which the token program's accounts
  are stored (the derived Borsh serialisation of the structs in programs/sss-token/src/state.rs,
  field after field behind an eight-byte discriminator), and reading a field back from its offset.
\<close>

section \<open>Little-endian numbers\<close>

fun le_bytes :: "nat \<Rightarrow> nat \<Rightarrow> u8 list" where
  "le_bytes 0 k = []"
| "le_bytes (Suc n) k = of_nat (k mod 256) # le_bytes n (k div 256)"

fun le_nat :: "u8 list \<Rightarrow> nat" where
  "le_nat [] = 0"
| "le_nat (b # bs) = unat b + 256 * le_nat bs"

lemma length_le_bytes [simp]: "length (le_bytes n k) = n"
  by (induction n k rule: le_bytes.induct) simp_all

lemma le_nat_le_bytes: "le_nat (le_bytes n k) = k mod 256 ^ n"
proof (induction n k rule: le_bytes.induct)
  case (2 n k)
  have "le_nat (le_bytes (Suc n) k) = k mod 256 + 256 * (k div 256 mod 256 ^ n)"
    using 2 by (simp add: unat_of_nat)
  also have "\<dots> = k mod (256 * 256 ^ n)" by (simp add: mod_mult2_eq)
  finally show ?case by simp
qed simp

text \<open>\<open>to_le_bytes\<close> and \<open>from_le_bytes\<close> of a 64-bit integer; a key is its 32 bytes, first byte first.\<close>

definition u64_bytes :: "u64 \<Rightarrow> u8 list" where "u64_bytes x = le_bytes 8 (unat x)"
definition u32_bytes :: "u32 \<Rightarrow> u8 list" where "u32_bytes x = le_bytes 4 (unat x)"
definition u16_bytes :: "u16 \<Rightarrow> u8 list" where "u16_bytes x = le_bytes 2 (unat x)"
definition bool_byte :: "bool \<Rightarrow> u8" where "bool_byte b = (if b then 1 else 0)"
definition key_bytes :: "pubkey \<Rightarrow> u8 list" where "key_bytes k = rev (le_bytes 32 (unat k))"

definition u64_from_le :: "u8 list \<Rightarrow> u64" where "u64_from_le bs = of_nat (le_nat bs)"
definition key_from :: "u8 list \<Rightarrow> pubkey" where "key_from bs = of_nat (le_nat (rev bs))"

lemma length_bytes [simp]:
  "length (u64_bytes a) = 8" "length (u32_bytes b) = 4" "length (u16_bytes c) = 2" "length (key_bytes k) = 32"
  by (simp_all add: u64_bytes_def u32_bytes_def u16_bytes_def key_bytes_def)

lemma u64_roundtrip [simp]: "u64_from_le (u64_bytes x) = x"
  using u64_bound [of x] by (simp add: u64_from_le_def u64_bytes_def le_nat_le_bytes)

lemma key_roundtrip [simp]: "key_from (key_bytes k) = k"
proof -
  have "unat k < 256 ^ 32" using unat_lt [of k] by simp
  then show ?thesis by (simp only: key_from_def key_bytes_def rev_rev_ident le_nat_le_bytes mod_less) simp
qed

section \<open>Reading at an offset\<close>

definition slice :: "nat \<Rightarrow> nat \<Rightarrow> u8 list \<Rightarrow> u8 list" where
  "slice off n bs = take n (drop off bs)"

definition u64_at :: "nat \<Rightarrow> u8 list \<Rightarrow> u64" where "u64_at off bs = u64_from_le (slice off 8 bs)"
definition key_at :: "nat \<Rightarrow> u8 list \<Rightarrow> pubkey" where "key_at off bs = key_from (slice off 32 bs)"

lemma slice_field: "off = length pre \<Longrightarrow> n = length field \<Longrightarrow> slice off n (pre @ field @ rest) = field"
  by (simp add: slice_def)

text \<open>Stepping over the fields in front of an offset.\<close>

lemma slice_skip: "length a \<le> off \<Longrightarrow> slice off n (a @ b) = slice (off - length a) n b"
  by (simp add: slice_def)

lemma slice_here: "length a = n \<Longrightarrow> slice 0 n (a @ b) = a" "length a = n \<Longrightarrow> slice 0 n a = a"
  by (simp_all add: slice_def)

lemma slice_Cons: "slice (numeral k) n (a # b) = slice (numeral k - 1) n b"
  by (simp add: slice_def drop_Cons')

lemma slice_Suc: "slice (Suc k) n (a # b) = slice k n b"
  by (simp add: slice_def)

lemmas at_field = u64_at_def key_at_def slice_skip slice_here slice_Cons slice_Suc

section \<open>The stored configuration\<close>

definition key_list_bytes :: "pubkey list \<Rightarrow> u8 list" where
  "key_list_bytes ks = le_bytes 4 (length ks) @ concat (map key_bytes ks)"

definition config_discriminator :: "u8 list" where
  "config_discriminator = [0x7f, 0x19, 0xf4, 0xd5, 0x01, 0xc0, 0x65, 0x06]"

text \<open>
  The fields in the order of \<open>StablecoinConfig\<close>: up to the pending authorities, from the flags to
  the pending operation, the parameters, and the tail after the sanctions fields.
\<close>

definition config_part1 :: "stablecoin_config \<Rightarrow> u8 list" where
  "config_part1 c =
     key_bytes (c_mint c) @ key_bytes (c_authority c) @ key_bytes (c_compliance_authority c) @
     [c_preset c, bool_byte (c_paused c)] @ u64_bytes (c_total_minted c) @ u64_bytes (c_total_burned c) @
     key_bytes (c_transfer_hook_program c) @ key_bytes (c_collateral_mint c) @ key_bytes (c_reserve_vault c) @
     u64_bytes (c_total_collateral c) @ u64_bytes (c_max_supply c) @
     key_bytes (c_pending_authority c) @ key_bytes (c_pending_compliance_authority c)"

definition config_part2 :: "stablecoin_config \<Rightarrow> u8 list" where
  "config_part2 c =
     key_bytes (c_expected_pyth_feed c) @ u64_bytes (c_admin_op_mature_slot c) @ [c_admin_op_kind c] @
     u64_bytes (c_admin_op_param c) @ key_bytes (c_admin_op_target c) @ u64_bytes (c_admin_timelock_delay c) @
     u32_bytes (c_max_oracle_age_secs c) @ u16_bytes (c_max_oracle_conf_bps c) @ u16_bytes (c_stability_fee_bps c) @
     u16_bytes (c_redemption_fee_bps c) @ key_bytes (c_insurance_fund_pubkey c) @ u16_bytes (c_max_backstop_bps c) @
     key_bytes (c_auditor_elgamal_pubkey c) @ [c_oracle_type c] @ key_bytes (c_oracle_feed c) @
     [bool_byte (c_supply_cap_locked c), c_version c] @ u16_bytes (c_min_reserve_ratio_bps c) @
     u64_bytes (c_travel_rule_threshold c)"

definition config_part3 :: "stablecoin_config \<Rightarrow> u8 list" where
  "config_part3 c =
     key_list_bytes (c_authorized_keepers c) @ key_bytes (c_squads_multisig c) @
     key_bytes (c_expected_upgrade_authority c) @ [c_bump c]"

definition config_bytes :: "stablecoin_config \<Rightarrow> u8 list" where
  "config_bytes c =
     config_discriminator @ config_part1 c @ u64_bytes (c_feature_flags c) @ u64_bytes (c_max_transfer_amount c) @
     config_part2 c @ key_bytes (c_sanctions_oracle c) @ u64_bytes (c_sanctions_max_staleness_slots c) @ config_part3 c"

lemma config_parts_length [simp]:
  "length config_discriminator = 8" "length (config_part1 c) = 290" "length (config_part2 c) = 210"
  by (simp_all add: config_discriminator_def config_part1_def config_part2_def)

lemma config_bytes_fields:
  "u64_at 298 (config_bytes c) = c_feature_flags c" "u64_at 306 (config_bytes c) = c_max_transfer_amount c"
  "key_at 524 (config_bytes c) = c_sanctions_oracle c" "u64_at 556 (config_bytes c) = c_sanctions_max_staleness_slots c"
  "slice 0 8 (config_bytes c) = config_discriminator" "564 \<le> length (config_bytes c)"
proof -
  let ?a = "config_discriminator @ config_part1 c"
  have "slice 298 8 (?a @ u64_bytes (c_feature_flags c) @ r) = u64_bytes (c_feature_flags c)" for r
    by (rule slice_field) simp_all
  then show "u64_at 298 (config_bytes c) = c_feature_flags c" by (simp add: u64_at_def config_bytes_def)
  let ?b = "?a @ u64_bytes (c_feature_flags c)"
  have "slice 306 8 (?b @ u64_bytes (c_max_transfer_amount c) @ r) = u64_bytes (c_max_transfer_amount c)" for r
    by (rule slice_field) simp_all
  then show "u64_at 306 (config_bytes c) = c_max_transfer_amount c" by (simp add: u64_at_def config_bytes_def)
  let ?d = "?b @ u64_bytes (c_max_transfer_amount c) @ config_part2 c"
  have "slice 524 32 (?d @ key_bytes (c_sanctions_oracle c) @ r) = key_bytes (c_sanctions_oracle c)" for r
    by (rule slice_field) simp_all
  then show "key_at 524 (config_bytes c) = c_sanctions_oracle c" by (simp add: key_at_def config_bytes_def)
  let ?e = "?d @ key_bytes (c_sanctions_oracle c)"
  have "slice 556 8 (?e @ u64_bytes (c_sanctions_max_staleness_slots c) @ r) =
      u64_bytes (c_sanctions_max_staleness_slots c)" for r
    by (rule slice_field) simp_all
  then show "u64_at 556 (config_bytes c) = c_sanctions_max_staleness_slots c" by (simp add: u64_at_def config_bytes_def)
  show "slice 0 8 (config_bytes c) = config_discriminator" by (simp add: slice_def config_bytes_def)
  show "564 \<le> length (config_bytes c)" by (simp add: config_bytes_def)
qed

section \<open>Reading the configuration back\<close>

definition u32_at :: "nat \<Rightarrow> u8 list \<Rightarrow> u32" where "u32_at off bs = of_nat (le_nat (slice off 4 bs))"
definition u16_at :: "nat \<Rightarrow> u8 list \<Rightarrow> u16" where "u16_at off bs = of_nat (le_nat (slice off 2 bs))"
definition bool_at :: "nat \<Rightarrow> u8 list \<Rightarrow> bool" where "bool_at off bs \<longleftrightarrow> bs ! off \<noteq> 0"

text \<open>The configuration as the framework reads it from an account, and nothing from anything else.\<close>

definition config_from :: "u8 list \<Rightarrow> stablecoin_config option" where
  "config_from bs =
     (let n = le_nat (slice 564 4 bs); tail = 568 + 32 * n in
      if 568 \<le> length bs \<and> slice 0 8 bs = config_discriminator \<and> tail + 65 \<le> length bs then
        Some \<lparr>c_mint = key_at 8 bs, c_authority = key_at 40 bs, c_compliance_authority = key_at 72 bs,
              c_preset = bs ! 104, c_paused = bool_at 105 bs, c_total_minted = u64_at 106 bs,
              c_total_burned = u64_at 114 bs, c_transfer_hook_program = key_at 122 bs,
              c_collateral_mint = key_at 154 bs, c_reserve_vault = key_at 186 bs, c_total_collateral = u64_at 218 bs,
              c_max_supply = u64_at 226 bs, c_pending_authority = key_at 234 bs,
              c_pending_compliance_authority = key_at 266 bs, c_feature_flags = u64_at 298 bs,
              c_max_transfer_amount = u64_at 306 bs, c_expected_pyth_feed = key_at 314 bs,
              c_admin_op_mature_slot = u64_at 346 bs, c_admin_op_kind = bs ! 354, c_admin_op_param = u64_at 355 bs,
              c_admin_op_target = key_at 363 bs, c_admin_timelock_delay = u64_at 395 bs,
              c_max_oracle_age_secs = u32_at 403 bs, c_max_oracle_conf_bps = u16_at 407 bs,
              c_stability_fee_bps = u16_at 409 bs, c_redemption_fee_bps = u16_at 411 bs,
              c_insurance_fund_pubkey = key_at 413 bs, c_max_backstop_bps = u16_at 445 bs,
              c_auditor_elgamal_pubkey = key_at 447 bs, c_oracle_type = bs ! 479, c_oracle_feed = key_at 480 bs,
              c_supply_cap_locked = bool_at 512 bs, c_version = bs ! 513, c_min_reserve_ratio_bps = u16_at 514 bs,
              c_travel_rule_threshold = u64_at 516 bs, c_sanctions_oracle = key_at 524 bs,
              c_sanctions_max_staleness_slots = u64_at 556 bs,
              c_authorized_keepers = map (\<lambda>i. key_at (568 + 32 * i) bs) [0..<n],
              c_squads_multisig = key_at tail bs, c_expected_upgrade_authority = key_at (tail + 32) bs,
              c_bump = bs ! (tail + 64)\<rparr>
      else None)"

lemma u32_roundtrip [simp]: "of_nat (le_nat (u32_bytes x)) = x"
  using unat_lt [of x] by (simp add: u32_bytes_def le_nat_le_bytes)
lemma u16_roundtrip [simp]: "of_nat (le_nat (u16_bytes x)) = x"
  using unat_lt [of x] by (simp add: u16_bytes_def le_nat_le_bytes)

lemma bool_byte_neq [simp]: "(bool_byte b \<noteq> 0) = b"
  by (simp add: bool_byte_def)

lemmas at_numbers = at_field u32_at_def u16_at_def bool_at_def nth_append

lemma part1_fields:
  "key_at 0 (config_part1 c) = c_mint c" "key_at 32 (config_part1 c) = c_authority c"
  "key_at 64 (config_part1 c) = c_compliance_authority c" "config_part1 c ! 96 = c_preset c"
  "bool_at 97 (config_part1 c) = c_paused c" "u64_at 98 (config_part1 c) = c_total_minted c"
  "u64_at 106 (config_part1 c) = c_total_burned c" "key_at 114 (config_part1 c) = c_transfer_hook_program c"
  "key_at 146 (config_part1 c) = c_collateral_mint c" "key_at 178 (config_part1 c) = c_reserve_vault c"
  "u64_at 210 (config_part1 c) = c_total_collateral c" "u64_at 218 (config_part1 c) = c_max_supply c"
  "key_at 226 (config_part1 c) = c_pending_authority c"
  "key_at 258 (config_part1 c) = c_pending_compliance_authority c"
  by (simp_all add: config_part1_def at_numbers)

lemma part2_fields:
  "key_at 0 (config_part2 c) = c_expected_pyth_feed c" "u64_at 32 (config_part2 c) = c_admin_op_mature_slot c"
  "config_part2 c ! 40 = c_admin_op_kind c" "u64_at 41 (config_part2 c) = c_admin_op_param c"
  "key_at 49 (config_part2 c) = c_admin_op_target c" "u64_at 81 (config_part2 c) = c_admin_timelock_delay c"
  "u32_at 89 (config_part2 c) = c_max_oracle_age_secs c" "u16_at 93 (config_part2 c) = c_max_oracle_conf_bps c"
  "u16_at 95 (config_part2 c) = c_stability_fee_bps c" "u16_at 97 (config_part2 c) = c_redemption_fee_bps c"
  "key_at 99 (config_part2 c) = c_insurance_fund_pubkey c" "u16_at 131 (config_part2 c) = c_max_backstop_bps c"
  "key_at 133 (config_part2 c) = c_auditor_elgamal_pubkey c" "config_part2 c ! 165 = c_oracle_type c"
  "key_at 166 (config_part2 c) = c_oracle_feed c" "bool_at 198 (config_part2 c) = c_supply_cap_locked c"
  "config_part2 c ! 199 = c_version c" "u16_at 200 (config_part2 c) = c_min_reserve_ratio_bps c"
  "u64_at 202 (config_part2 c) = c_travel_rule_threshold c"
  by (simp_all add: config_part2_def at_numbers)

lemma slice_key_list: "i < length ks \<Longrightarrow> slice (32 * i) 32 (concat (map key_bytes ks) @ r) = key_bytes (ks ! i)"
proof (induction ks arbitrary: i)
  case (Cons k ks)
  then show ?case by (cases i) (simp_all add: slice_skip slice_here)
qed simp

lemma length_key_list [simp]: "length (concat (map key_bytes ks)) = 32 * length ks"
  by (induction ks) simp_all

lemma part3_fields:
  assumes "length (c_authorized_keepers c) < 2 ^ 32"
  defines "n \<equiv> length (c_authorized_keepers c)"
  shows "le_nat (slice 0 4 (config_part3 c)) = n"
    "i < n \<Longrightarrow> key_at (4 + 32 * i) (config_part3 c) = c_authorized_keepers c ! i"
    "key_at (4 + 32 * n) (config_part3 c) = c_squads_multisig c"
    "key_at (4 + 32 * n + 32) (config_part3 c) = c_expected_upgrade_authority c"
    "config_part3 c ! (4 + 32 * n + 64) = c_bump c" "length (config_part3 c) = 4 + 32 * n + 65"
  using assms by (simp_all add: config_part3_def key_list_bytes_def at_numbers slice_key_list le_nat_le_bytes)

text \<open>A field of a part is a field of the whole.\<close>

lemma at_part:
  assumes "bs = a @ b @ r" and "length a \<le> off"
  shows "off + 32 \<le> length a + length b \<Longrightarrow> key_at off bs = key_at (off - length a) b"
    "off + 8 \<le> length a + length b \<Longrightarrow> u64_at off bs = u64_at (off - length a) b"
    "off + 4 \<le> length a + length b \<Longrightarrow> u32_at off bs = u32_at (off - length a) b"
    "off + 2 \<le> length a + length b \<Longrightarrow> u16_at off bs = u16_at (off - length a) b"
    "off + 1 \<le> length a + length b \<Longrightarrow> bool_at off bs = bool_at (off - length a) b"
    "off + 1 \<le> length a + length b \<Longrightarrow> bs ! off = b ! (off - length a)"
  using assms less_diff_conv2 [of "length a" off "length b"]
  by (simp_all add: key_at_def u64_at_def u32_at_def u16_at_def bool_at_def slice_def nth_append)

lemma config_bytes_parts:
  "config_bytes c = config_discriminator @ config_part1 c @ (u64_bytes (c_feature_flags c) @
     u64_bytes (c_max_transfer_amount c) @ config_part2 c @ key_bytes (c_sanctions_oracle c) @
     u64_bytes (c_sanctions_max_staleness_slots c) @ config_part3 c)"
  "config_bytes c = (config_discriminator @ config_part1 c @ u64_bytes (c_feature_flags c) @
     u64_bytes (c_max_transfer_amount c)) @ config_part2 c @ (key_bytes (c_sanctions_oracle c) @
     u64_bytes (c_sanctions_max_staleness_slots c) @ config_part3 c)"
  "config_bytes c = (config_discriminator @ config_part1 c @ u64_bytes (c_feature_flags c) @
     u64_bytes (c_max_transfer_amount c) @ config_part2 c @ key_bytes (c_sanctions_oracle c) @
     u64_bytes (c_sanctions_max_staleness_slots c)) @ config_part3 c @ []"
  by (simp_all add: config_bytes_def)

lemmas in_part1 = at_part [OF config_bytes_parts(1), simplified]
lemmas in_part2 = at_part [OF config_bytes_parts(2), simplified]
lemmas in_part3 = at_part [OF config_bytes_parts(3), simplified]

lemma config_part1_at:
  "key_at 8 (config_bytes c) = c_mint c" "key_at 40 (config_bytes c) = c_authority c"
  "key_at 72 (config_bytes c) = c_compliance_authority c" "config_bytes c ! 104 = c_preset c"
  "bool_at 105 (config_bytes c) = c_paused c" "u64_at 106 (config_bytes c) = c_total_minted c"
  "u64_at 114 (config_bytes c) = c_total_burned c" "key_at 122 (config_bytes c) = c_transfer_hook_program c"
  "key_at 154 (config_bytes c) = c_collateral_mint c" "key_at 186 (config_bytes c) = c_reserve_vault c"
  "u64_at 218 (config_bytes c) = c_total_collateral c" "u64_at 226 (config_bytes c) = c_max_supply c"
  "key_at 234 (config_bytes c) = c_pending_authority c"
  "key_at 266 (config_bytes c) = c_pending_compliance_authority c"
  by (simp_all add: in_part1 part1_fields)

lemma config_part2_at:
  "key_at 314 (config_bytes c) = c_expected_pyth_feed c" "u64_at 346 (config_bytes c) = c_admin_op_mature_slot c"
  "config_bytes c ! 354 = c_admin_op_kind c" "u64_at 355 (config_bytes c) = c_admin_op_param c"
  "key_at 363 (config_bytes c) = c_admin_op_target c" "u64_at 395 (config_bytes c) = c_admin_timelock_delay c"
  "u32_at 403 (config_bytes c) = c_max_oracle_age_secs c" "u16_at 407 (config_bytes c) = c_max_oracle_conf_bps c"
  "u16_at 409 (config_bytes c) = c_stability_fee_bps c" "u16_at 411 (config_bytes c) = c_redemption_fee_bps c"
  "key_at 413 (config_bytes c) = c_insurance_fund_pubkey c" "u16_at 445 (config_bytes c) = c_max_backstop_bps c"
  "key_at 447 (config_bytes c) = c_auditor_elgamal_pubkey c" "config_bytes c ! 479 = c_oracle_type c"
  "key_at 480 (config_bytes c) = c_oracle_feed c" "bool_at 512 (config_bytes c) = c_supply_cap_locked c"
  "config_bytes c ! 513 = c_version c" "u16_at 514 (config_bytes c) = c_min_reserve_ratio_bps c"
  "u64_at 516 (config_bytes c) = c_travel_rule_threshold c"
  by (simp_all add: in_part2 part2_fields)

lemma config_from_bytes:
  assumes "length (c_authorized_keepers c) < 2 ^ 32"
  shows "config_from (config_bytes c) = Some c"
proof -
  let ?bs = "config_bytes c" and ?n = "length (c_authorized_keepers c)"
  note part3 = part3_fields [OF assms]
  have n: "le_nat (slice 564 4 ?bs) = ?n"
    using part3(1) by (simp add: config_bytes_parts(3) slice_def)
  have len: "length ?bs = 568 + 32 * ?n + 65"
    by (simp add: config_bytes_def part3(6))
  have keepers: "map (\<lambda>i. key_at (568 + 32 * i) ?bs) [0..<?n] = c_authorized_keepers c"
    by (rule nth_equalityI) (simp_all add: in_part3 part3(2,6))
  have tail: "key_at (568 + 32 * ?n) ?bs = c_squads_multisig c"
    "key_at (568 + 32 * ?n + 32) ?bs = c_expected_upgrade_authority c" "?bs ! (568 + 32 * ?n + 64) = c_bump c"
    using part3(3-6) by (simp_all add: in_part3)
  show ?thesis
    unfolding config_from_def Let_def n keepers tail config_part1_at config_part2_at config_bytes_fields
    by (simp add: len)
qed



end
