(* ===== verification/Compliance.thy ===== *)
theory Compliance
  imports AuthGate Bytes Demo
begin

text \<open>
  Compliance records of the token program (programs/sss-token/src/instructions): limits on what a
  wallet may transfer (wallet\_rate\_limit.rs), the sanctions oracle (sanctions\_oracle.rs), verification
  records (zk\_compliance.rs), credentials (zk\_credential.rs) and the travel rule (travel\_rule.rs). The
  transfer hook of the theory \<open>Hook\<close> reads what is written here. Closing an account is a handler
  that returns nothing.
\<close>

section \<open>Limits per wallet\<close>

record wallet_rate_limit =
  wl_sss_mint :: pubkey
  wl_wallet :: pubkey
  wl_max_transfer_per_window :: u64
  wl_window_slots :: u64
  wl_transferred_this_window :: u64
  wl_window_start_slot :: u64
  wl_bump :: u8

definition wallet_limit_seeds :: "pubkey \<Rightarrow> pubkey \<Rightarrow> seed list" where
  "wallet_limit_seeds mint wallet = [SeedStr ''wallet-rate-limit'', SeedKey mint, SeedKey wallet]"

definition set_wallet_rate_limit_handler ::
  "'w runtime \<Rightarrow> admin_ctx \<Rightarrow> pubkey \<Rightarrow> u64 \<Rightarrow> u64 \<Rightarrow> wallet_rate_limit res" where
  "set_wallet_rate_limit_handler rt ctx wallet max_transfer_per_window window_slots =
     (let c = ac_cfg ctx in
      guarded (authority_accounts rt ctx)
        (andthen (squads_gate c (ac_authority ctx)) (\<lambda>_.
         guarded
           [(flag_set c FLAG_WALLET_RATE_LIMITS, Late WalletRateLimitsNotEnabled),
            (max_transfer_per_window > 0, Hardening InvalidRateLimitAmount),
            (window_slots > 0, Hardening InvalidRateLimitWindow)]
           (Inr \<lparr>wl_sss_mint = ac_mint ctx, wl_wallet = wallet,
                 wl_max_transfer_per_window = max_transfer_per_window, wl_window_slots = window_slots,
                 wl_transferred_this_window = 0, wl_window_start_slot = 0,
                 wl_bump = snd (rt_find_pda rt (wallet_limit_seeds (ac_mint ctx) wallet))\<rparr>))))"

definition remove_wallet_rate_limit_handler ::
  "'w runtime \<Rightarrow> admin_ctx \<Rightarrow> wallet_rate_limit account \<Rightarrow> pubkey \<Rightarrow> unit res" where
  "remove_wallet_rate_limit_handler rt ctx limit wallet =
     guarded
       (authority_accounts rt ctx @
        [(seeds_ok rt (key_of limit) (wallet_limit_seeds (ac_mint ctx) wallet) (wl_bump (data_of limit)),
            (Anchor ConstraintSeeds))])
       (squads_gate (ac_cfg ctx) (ac_authority ctx))"

text \<open>The window of a wallet: it starts over with the first transfer after its end.\<close>

definition limit_charge :: "u64 \<Rightarrow> u64 \<Rightarrow> wallet_rate_limit \<Rightarrow> wallet_rate_limit res" where
  "limit_charge slot amount l =
     (let l1 = (if saturating_add (wl_window_start_slot l) (wl_window_slots l) \<le> slot
                then l\<lparr>wl_transferred_this_window := 0, wl_window_start_slot := slot\<rparr> else l) in
      andthen (ok_or (checked_add (wl_transferred_this_window l1) amount) (Late WalletRateLimitExceeded)) (\<lambda>new_total.
      guarded [(new_total \<le> wl_max_transfer_per_window l1, Late WalletRateLimitExceeded)]
        (Inr (l1\<lparr>wl_transferred_this_window := new_total\<rparr>))))"

record update_limit_ctx =
  ul_caller :: pubkey
  ul_caller_signed :: bool
  ul_config :: "stablecoin_config account"
  ul_mint :: pubkey
  ul_limit :: "wallet_rate_limit account"

definition update_wallet_rate_limit_handler ::
  "'w runtime \<Rightarrow> update_limit_ctx \<Rightarrow> pubkey \<Rightarrow> u64 \<Rightarrow> wallet_rate_limit res" where
  "update_wallet_rate_limit_handler rt ctx wallet transfer_amount =
     (let cfg = ul_config ctx; c = data_of cfg in
      guarded
        (config_ok rt cfg (ul_mint ctx) @
         [(ul_mint ctx = c_mint c, Anchor ConstraintRaw),
          (seeds_ok rt (key_of (ul_limit ctx)) (wallet_limit_seeds (ul_mint ctx) wallet)
             (wl_bump (data_of (ul_limit ctx))), Anchor ConstraintSeeds),
          (ul_caller ctx = c_transfer_hook_program c \<or> ul_caller ctx = c_authority c, Core Unauthorized),
          (ul_caller ctx = c_authority c \<longrightarrow> ul_caller_signed ctx, Core Unauthorized)])
        (limit_charge (rt_slot rt) transfer_amount (data_of (ul_limit ctx))))"

section \<open>The sanctions oracle\<close>

record sanctions_record =
  sr_is_sanctioned :: bool
  sr_updated_slot :: u64
  sr_bump :: u8

definition sanctions_seeds :: "pubkey \<Rightarrow> pubkey \<Rightarrow> seed list" where
  "sanctions_seeds mint wallet = [SeedStr ''sanctions-record'', SeedKey mint, SeedKey wallet]"

definition set_sanctions_oracle_handler ::
  "'w runtime \<Rightarrow> pubkey \<Rightarrow> stablecoin_config account \<Rightarrow> pubkey \<Rightarrow> u64 \<Rightarrow> stablecoin_config res" where
  "set_sanctions_oracle_handler rt authority cfg oracle max_staleness_slots =
     (let c = data_of cfg in
      guarded (owner_accounts rt authority cfg)
        (andthen (require_timelock_executed c ADMIN_OP_SET_SANCTIONS_PARAMS) (\<lambda>_.
         andthen (squads_gate c authority) (\<lambda>_.
         Inr (c\<lparr>c_sanctions_oracle := oracle, c_sanctions_max_staleness_slots := max_staleness_slots,
                c_feature_flags := set_flags (c_feature_flags c) FLAG_SANCTIONS_ORACLE\<rparr>)))))"

definition clear_sanctions_oracle_handler ::
  "'w runtime \<Rightarrow> pubkey \<Rightarrow> stablecoin_config account \<Rightarrow> stablecoin_config res" where
  "clear_sanctions_oracle_handler rt authority cfg =
     (let c = data_of cfg in
      guarded (owner_accounts rt authority cfg)
        (andthen (squads_gate c authority) (\<lambda>_.
         Inr (c\<lparr>c_sanctions_oracle := default_key, c_sanctions_max_staleness_slots := 0,
                c_feature_flags := clear_flags (c_feature_flags c) FLAG_SANCTIONS_ORACLE\<rparr>))))"

definition update_sanctions_record_handler ::
  "'w runtime \<Rightarrow> pubkey \<Rightarrow> stablecoin_config account \<Rightarrow> pubkey \<Rightarrow> bool \<Rightarrow> sanctions_record res" where
  "update_sanctions_record_handler rt oracle cfg wallet is_sanctioned =
     (let c = data_of cfg in
      guarded
        (config_ok rt cfg (c_mint c) @
         [(flag_set c FLAG_SANCTIONS_ORACLE, Channel FeatureNotEnabled),
          (c_sanctions_oracle c = oracle, Core Unauthorized)])
        (Inr \<lparr>sr_is_sanctioned = is_sanctioned, sr_updated_slot = rt_slot rt,
              sr_bump = snd (rt_find_pda rt (sanctions_seeds (c_mint c) wallet))\<rparr>))"

definition close_sanctions_record_handler ::
  "'w runtime \<Rightarrow> pubkey \<Rightarrow> stablecoin_config account \<Rightarrow> sanctions_record account \<Rightarrow> pubkey \<Rightarrow> unit res" where
  "close_sanctions_record_handler rt oracle cfg record wallet =
     (let c = data_of cfg in
      guarded
        (config_ok rt cfg (c_mint c) @
         [(c_sanctions_oracle c = oracle, Core Unauthorized),
          (seeds_ok rt (key_of record) (sanctions_seeds (c_mint c) wallet) (sr_bump (data_of record)),
             (Anchor ConstraintSeeds))])
        (Inr ()))"

text \<open>The check the token program offers to the transfer path.\<close>

definition verify_sanctions_if_required ::
  "stablecoin_config \<Rightarrow> sanctions_record option \<Rightarrow> u64 \<Rightarrow> unit res" where
  "verify_sanctions_if_required c record current_slot =
     (if \<not> flag_set c FLAG_SANCTIONS_ORACLE then Inr ()
      else if c_sanctions_oracle c = default_key then Inr ()
      else case record of
        None \<Rightarrow> Inr ()
      | Some r \<Rightarrow>
          if \<not> sr_is_sanctioned r then Inr ()
          else if c_sanctions_max_staleness_slots c > 0 \<and>
            \<not> saturating_sub current_slot (sr_updated_slot r) \<le> c_sanctions_max_staleness_slots c
          then Inl (Compliance SanctionsRecordStale) else Inl (Compliance SanctionedAddress))"

section \<open>Verification records\<close>

record zk_compliance_config =
  zc_sss_mint :: pubkey
  zc_ttl_slots :: u64
  zc_verifier_pubkey :: "pubkey option"
  zc_bump :: u8

record verification_record =
  vr_sss_mint :: pubkey
  vr_user :: pubkey
  vr_expires_at_slot :: u64
  vr_bump :: u8

definition DEFAULT_TTL_SLOTS :: u64 where "DEFAULT_TTL_SLOTS = 1500"

definition zk_config_seeds :: "pubkey \<Rightarrow> seed list" where
  "zk_config_seeds mint = [SeedStr ''zk-compliance-config'', SeedKey mint]"

definition verification_seeds :: "pubkey \<Rightarrow> pubkey \<Rightarrow> seed list" where
  "verification_seeds mint user = [SeedStr ''zk-verification'', SeedKey mint, SeedKey user]"

definition init_zk_compliance_handler ::
  "'w runtime \<Rightarrow> admin_ctx \<Rightarrow> zk_compliance_config option \<Rightarrow> u64 \<Rightarrow> pubkey option \<Rightarrow>
     (stablecoin_config \<times> zk_compliance_config) res" where
  "init_zk_compliance_handler rt ctx existing ttl_slots verifier_pubkey =
     (let c = ac_cfg ctx in
      guarded
        (config_ok rt (ac_config ctx) (ac_mint ctx) @
         [(c_authority c = ac_authority ctx, Core Unauthorized), (c_preset c = 2, Core InvalidPreset),
          (ac_mint ctx = c_mint c, Anchor ConstraintRaw), (existing = None, Anchor AccountAlreadyInUse)])
        (andthen (squads_gate c (ac_authority ctx)) (\<lambda>_.
         Inr (c\<lparr>c_feature_flags := set_flags (c_feature_flags c) FLAG_ZK_COMPLIANCE\<rparr>,
              \<lparr>zc_sss_mint = ac_mint ctx, zc_ttl_slots = (if ttl_slots = 0 then DEFAULT_TTL_SLOTS else ttl_slots),
               zc_verifier_pubkey = verifier_pubkey,
               zc_bump = snd (rt_find_pda rt (zk_config_seeds (ac_mint ctx)))\<rparr>))))"

record zk_proof_ctx =
  zp_user :: pubkey
  zp_config :: "stablecoin_config account"
  zp_mint :: pubkey
  zp_zk :: "zk_compliance_config account"
  zp_verifier :: "pubkey option"

definition submit_zk_proof_handler :: "'w runtime \<Rightarrow> zk_proof_ctx \<Rightarrow> verification_record res" where
  "submit_zk_proof_handler rt ctx =
     (let c = data_of (zp_config ctx); z = data_of (zp_zk ctx) in
      guarded
        (config_ok rt (zp_config ctx) (zp_mint ctx) @
         [(flag_set c FLAG_ZK_COMPLIANCE, Whitelist ZkComplianceNotEnabled),
          (zp_mint ctx = c_mint c, Anchor ConstraintRaw),
          (seeds_ok rt (key_of (zp_zk ctx)) (zk_config_seeds (zp_mint ctx)) (zc_bump z), Anchor ConstraintSeeds)] @
         (case zc_verifier_pubkey z of
            None \<Rightarrow> []
          | Some required \<Rightarrow>
              [(zp_verifier ctx \<noteq> None, Whitelist ZkVerifierRequired),
               (zp_verifier ctx = Some required, Whitelist ZkVerifierMismatch)]))
        (Inr \<lparr>vr_sss_mint = zp_mint ctx, vr_user = zp_user ctx,
              vr_expires_at_slot = saturating_add (rt_slot rt) (zc_ttl_slots z),
              vr_bump = snd (rt_find_pda rt (verification_seeds (zp_mint ctx) (zp_user ctx)))\<rparr>))"

definition close_verification_record_handler ::
  "'w runtime \<Rightarrow> admin_ctx \<Rightarrow> pubkey \<Rightarrow> verification_record account \<Rightarrow> unit res" where
  "close_verification_record_handler rt ctx record_owner record =
     guarded
       (authority_accounts rt ctx @
        [(seeds_ok rt (key_of record) (verification_seeds (ac_mint ctx) record_owner) (vr_bump (data_of record)),
            (Anchor ConstraintSeeds))])
       (andthen (squads_gate (ac_cfg ctx) (ac_authority ctx)) (\<lambda>_.
        guarded [(vr_expires_at_slot (data_of record) \<le> rt_slot rt, Whitelist VerificationRecordNotExpired)] (Inr ())))"

section \<open>Credentials\<close>

record credential_registry =
  cg_sss_mint :: pubkey
  cg_issuer :: pubkey
  cg_merkle_root :: bytes32
  cg_credential_ttl_slots :: u64
  cg_updated_slot :: u64
  cg_bump :: u8

record credential_record =
  cr_sss_mint :: pubkey
  cr_holder :: pubkey
  cr_issued_slot :: u64
  cr_expires_slot :: u64
  cr_revoked :: bool
  cr_bump :: u8

definition registry_seeds :: "pubkey \<Rightarrow> seed list" where
  "registry_seeds mint = [SeedStr ''credential-registry'', SeedKey mint]"

definition credential_seeds :: "pubkey \<Rightarrow> pubkey \<Rightarrow> seed list" where
  "credential_seeds mint holder = [SeedStr ''credential-record'', SeedKey mint, SeedKey holder]"

text \<open>
  What the chain checks of a proof: its length, and that the signals begin with the registry's
  root. The proof itself is left to the issuer.
\<close>

definition validate_proof_structure :: "u8 list \<Rightarrow> u8 list \<Rightarrow> bytes32 \<Rightarrow> unit res" where
  "validate_proof_structure proof public_signals expected_root =
     guarded
       [(length proof = 192, Hardening InvalidZkProof), (32 \<le> length public_signals, Hardening InvalidZkProof),
        (take 32 public_signals = key_bytes expected_root, Hardening InvalidZkProof)]
       (Inr ())"

definition init_credential_registry_handler ::
  "'w runtime \<Rightarrow> pubkey \<Rightarrow> stablecoin_config account \<Rightarrow> credential_registry option \<Rightarrow> pubkey \<Rightarrow> bytes32 \<Rightarrow> u64 \<Rightarrow>
     (stablecoin_config \<times> credential_registry) res" where
  "init_credential_registry_handler rt authority cfg existing issuer merkle_root credential_ttl_slots =
     (let c = data_of cfg in
      guarded (owner_accounts rt authority cfg @ [(existing = None, Anchor AccountAlreadyInUse)])
        (andthen (squads_gate c authority) (\<lambda>_.
         Inr (c\<lparr>c_feature_flags := set_flags (c_feature_flags c) FLAG_ZK_CREDENTIALS\<rparr>,
              \<lparr>cg_sss_mint = c_mint c, cg_issuer = issuer, cg_merkle_root = merkle_root,
               cg_credential_ttl_slots = credential_ttl_slots, cg_updated_slot = rt_slot rt,
               cg_bump = snd (rt_find_pda rt (registry_seeds (c_mint c)))\<rparr>))))"

definition registry_ok ::
  "'w runtime \<Rightarrow> stablecoin_config account \<Rightarrow> credential_registry account \<Rightarrow> (bool \<times> error) list" where
  "registry_ok rt cfg reg =
     [(seeds_ok rt (key_of reg) (registry_seeds (c_mint (data_of cfg))) (cg_bump (data_of reg)), Anchor ConstraintSeeds)]"

definition credential_ok ::
  "'w runtime \<Rightarrow> stablecoin_config account \<Rightarrow> pubkey \<Rightarrow> credential_record account \<Rightarrow> (bool \<times> error) list" where
  "credential_ok rt cfg holder record =
     [(seeds_ok rt (key_of record) (credential_seeds (c_mint (data_of cfg)) holder) (cr_bump (data_of record)),
         (Anchor ConstraintSeeds))]"

definition rotate_credential_root_handler ::
  "'w runtime \<Rightarrow> pubkey \<Rightarrow> stablecoin_config account \<Rightarrow> credential_registry account \<Rightarrow> bytes32 \<Rightarrow>
     credential_registry res" where
  "rotate_credential_root_handler rt issuer cfg reg new_merkle_root =
     guarded
       (config_ok rt cfg (c_mint (data_of cfg)) @ registry_ok rt cfg reg @
        [(cg_issuer (data_of reg) = issuer, Core Unauthorized)])
       (Inr ((data_of reg)\<lparr>cg_merkle_root := new_merkle_root, cg_updated_slot := rt_slot rt\<rparr>))"

definition verify_zk_credential_handler ::
  "'w runtime \<Rightarrow> pubkey \<Rightarrow> pubkey \<Rightarrow> stablecoin_config account \<Rightarrow> credential_registry account \<Rightarrow> u8 list \<Rightarrow> u8 list \<Rightarrow>
     credential_record res" where
  "verify_zk_credential_handler rt holder issuer cfg reg proof public_signals =
     (let c = data_of cfg; g = data_of reg; slot = rt_slot rt in
      guarded
        ([(issuer = cg_issuer g, Core Unauthorized)] @ config_ok rt cfg (c_mint c) @ registry_ok rt cfg reg @
         [(flag_set c FLAG_ZK_CREDENTIALS, Hardening CredentialRegistryNotFound)])
        (andthen (validate_proof_structure proof public_signals (cg_merkle_root g)) (\<lambda>_.
         andthen (if cg_credential_ttl_slots g = 0 then Inr 0
                  else ok_or (checked_add slot (cg_credential_ttl_slots g)) Panic) (\<lambda>expires_slot.
         Inr \<lparr>cr_sss_mint = c_mint c, cr_holder = holder, cr_issued_slot = slot, cr_expires_slot = expires_slot,
              cr_revoked = False, cr_bump = snd (rt_find_pda rt (credential_seeds (c_mint c) holder))\<rparr>))))"

definition revoke_credential_handler ::
  "'w runtime \<Rightarrow> pubkey \<Rightarrow> pubkey \<Rightarrow> stablecoin_config account \<Rightarrow> credential_registry account \<Rightarrow>
     credential_record account \<Rightarrow> credential_record res" where
  "revoke_credential_handler rt issuer holder cfg reg record =
     guarded
       (config_ok rt cfg (c_mint (data_of cfg)) @ registry_ok rt cfg reg @
        [(cg_issuer (data_of reg) = issuer, Core Unauthorized)] @ credential_ok rt cfg holder record)
       (Inr ((data_of record)\<lparr>cr_revoked := True\<rparr>))"

definition close_credential_record_handler ::
  "'w runtime \<Rightarrow> pubkey \<Rightarrow> stablecoin_config account \<Rightarrow> credential_record account \<Rightarrow> unit res" where
  "close_credential_record_handler rt holder cfg record =
     guarded
       (config_ok rt cfg (c_mint (data_of cfg)) @ credential_ok rt cfg holder record @
        [(cr_holder (data_of record) = holder, Core Unauthorized)])
       (Inr ())"

section \<open>The travel rule\<close>

record travel_rule_record =
  tr_sss_mint :: pubkey
  tr_nonce :: u64
  tr_encrypted_payload :: "u8 list"
  tr_originator_vasp :: pubkey
  tr_beneficiary_vasp :: pubkey
  tr_transfer_amount :: u64
  tr_slot :: u64
  tr_bump :: u8

definition travel_rule_seeds :: "pubkey \<Rightarrow> u64 \<Rightarrow> seed list" where
  "travel_rule_seeds mint nonce = [SeedStr ''travel-rule-record'', SeedKey mint, SeedU64 nonce]"

definition set_travel_rule_threshold_handler ::
  "'w runtime \<Rightarrow> pubkey \<Rightarrow> stablecoin_config account \<Rightarrow> u64 \<Rightarrow> stablecoin_config res" where
  "set_travel_rule_threshold_handler rt authority cfg threshold =
     (let c = data_of cfg in
      guarded (owner_accounts rt authority cfg)
        (andthen (require_timelock_executed c ADMIN_OP_SET_TRAVEL_RULE_THRESHOLD) (\<lambda>_.
         andthen (squads_gate c authority) (\<lambda>_.
         guarded (if flag_set c FLAG_TRAVEL_RULE then [(threshold > 0, Compliance TravelRuleThresholdNotSet)] else [])
           (Inr (c\<lparr>c_travel_rule_threshold := threshold\<rparr>))))))"

text \<open>The payload is an array of 256 bytes by its type; a list stands for it.\<close>

definition submit_travel_rule_record_handler ::
  "'w runtime \<Rightarrow> pubkey \<Rightarrow> stablecoin_config account \<Rightarrow> travel_rule_record option \<Rightarrow> u64 \<Rightarrow> u8 list \<Rightarrow> pubkey \<Rightarrow> u64 \<Rightarrow>
     travel_rule_record res" where
  "submit_travel_rule_record_handler rt originator cfg existing nonce encrypted_payload beneficiary_vasp transfer_amount =
     (let c = data_of cfg in
      guarded
        (config_ok rt cfg (c_mint c) @
         [(existing = None, Anchor AccountAlreadyInUse), (transfer_amount > 0, Backstop InvalidAmount)] @
         (if flag_set c FLAG_TRAVEL_RULE then [(c_travel_rule_threshold c > 0, Compliance TravelRuleThresholdNotSet)] else []))
        (Inr \<lparr>tr_sss_mint = c_mint c, tr_nonce = nonce, tr_encrypted_payload = encrypted_payload,
              tr_originator_vasp = originator, tr_beneficiary_vasp = beneficiary_vasp,
              tr_transfer_amount = transfer_amount, tr_slot = rt_slot rt,
              tr_bump = snd (rt_find_pda rt (travel_rule_seeds (c_mint c) nonce))\<rparr>))"

definition verify_travel_rule_if_required ::
  "stablecoin_config \<Rightarrow> travel_rule_record option \<Rightarrow> u64 \<Rightarrow> pubkey \<Rightarrow> unit res" where
  "verify_travel_rule_if_required c record transfer_amount expected_beneficiary_vasp =
     (if \<not> flag_set c FLAG_TRAVEL_RULE then Inr ()
      else if c_travel_rule_threshold c = 0 \<or> transfer_amount < c_travel_rule_threshold c then Inr ()
      else andthen (ok_or record (Compliance TravelRuleRequired)) (\<lambda>r.
        guarded
          [(tr_sss_mint r = c_mint c, Compliance TravelRuleRecordInvalid),
           (tr_transfer_amount r = transfer_amount, Compliance TravelRuleRecordInvalid),
           (tr_beneficiary_vasp r = expected_beneficiary_vasp, Compliance TravelRuleRecordInvalid)]
          (Inr ())))"

definition close_travel_rule_record_handler ::
  "'w runtime \<Rightarrow> pubkey \<Rightarrow> travel_rule_record account \<Rightarrow> u64 \<Rightarrow> unit res" where
  "close_travel_rule_record_handler rt originator record nonce =
     guarded
       [(seeds_ok rt (key_of record) (travel_rule_seeds (tr_sss_mint (data_of record)) nonce) (tr_bump (data_of record)),
           Anchor ConstraintSeeds),
        (tr_originator_vasp (data_of record) = originator, Core Unauthorized)]
       (Inr ())"

section \<open>How the records are stored\<close>

text \<open>
  Field after field behind the eight bytes that name the type (the first of the SHA-256 digest of
  its name, as the framework derives them).
\<close>

definition wallet_limit_discriminator :: "u8 list" where
  "wallet_limit_discriminator = [0x26, 0xf0, 0x2b, 0x5e, 0x5b, 0x24, 0x65, 0xb3]"

definition wallet_limit_bytes :: "wallet_rate_limit \<Rightarrow> u8 list" where
  "wallet_limit_bytes l =
     wallet_limit_discriminator @ key_bytes (wl_sss_mint l) @ key_bytes (wl_wallet l) @
     u64_bytes (wl_max_transfer_per_window l) @ u64_bytes (wl_window_slots l) @
     u64_bytes (wl_transferred_this_window l) @ u64_bytes (wl_window_start_slot l) @ [wl_bump l]"

definition wallet_limit_from :: "u8 list \<Rightarrow> wallet_rate_limit option" where
  "wallet_limit_from bs =
     (if 105 \<le> length bs \<and> slice 0 8 bs = wallet_limit_discriminator then
        Some \<lparr>wl_sss_mint = key_at 8 bs, wl_wallet = key_at 40 bs, wl_max_transfer_per_window = u64_at 72 bs,
              wl_window_slots = u64_at 80 bs, wl_transferred_this_window = u64_at 88 bs,
              wl_window_start_slot = u64_at 96 bs, wl_bump = bs ! 104\<rparr>
      else None)"

definition sanctions_bytes :: "sanctions_record \<Rightarrow> u8 list" where
  "sanctions_bytes r =
     [0x50, 0xd3, 0x18, 0xcf, 0xc1, 0xdc, 0x9c, 0xcb] @ [bool_byte (sr_is_sanctioned r)] @
     u64_bytes (sr_updated_slot r) @ [sr_bump r]"

definition verification_bytes :: "verification_record \<Rightarrow> u8 list" where
  "verification_bytes r =
     [0xf7, 0x0e, 0x48, 0x5d, 0xb8, 0x24, 0x9a, 0xd7] @ key_bytes (vr_sss_mint r) @ key_bytes (vr_user r) @
     u64_bytes (vr_expires_at_slot r) @ [vr_bump r]"

definition credential_bytes :: "credential_record \<Rightarrow> u8 list" where
  "credential_bytes r =
     [0x73, 0xe7, 0x2d, 0xa3, 0xf8, 0xe0, 0x6a, 0xcf] @ key_bytes (cr_sss_mint r) @ key_bytes (cr_holder r) @
     u64_bytes (cr_issued_slot r) @ u64_bytes (cr_expires_slot r) @ [bool_byte (cr_revoked r)] @ [cr_bump r]"

lemma length_wallet_limit_discriminator [simp]: "length wallet_limit_discriminator = 8"
  by (simp add: wallet_limit_discriminator_def)

lemma nth_bool_byte: "(bool_byte b \<noteq> 0) = b"
  by (simp add: bool_byte_def)

lemma wallet_limit_fields:
  "u64_at 72 (wallet_limit_bytes l) = wl_max_transfer_per_window l" "u64_at 80 (wallet_limit_bytes l) = wl_window_slots l"
  "u64_at 88 (wallet_limit_bytes l) = wl_transferred_this_window l"
  "u64_at 96 (wallet_limit_bytes l) = wl_window_start_slot l"
  "key_at 8 (wallet_limit_bytes l) = wl_sss_mint l" "key_at 40 (wallet_limit_bytes l) = wl_wallet l"
  "length (wallet_limit_bytes l) = 105" "wallet_limit_bytes l ! 104 = wl_bump l"
  "slice 0 8 (wallet_limit_bytes l) = wallet_limit_discriminator"
  by (simp_all add: wallet_limit_bytes_def at_field nth_append)

lemma sanctions_fields:
  "sanctions_bytes r ! 8 = bool_byte (sr_is_sanctioned r)" "u64_at 9 (sanctions_bytes r) = sr_updated_slot r"
  "length (sanctions_bytes r) = 18"
  by (simp_all add: sanctions_bytes_def at_field nth_append nth_Cons')

lemma verification_fields:
  "u64_at 72 (verification_bytes v) = vr_expires_at_slot v" "length (verification_bytes v) = 81"
  by (simp_all add: verification_bytes_def at_field)

lemma credential_fields:
  "u64_at 80 (credential_bytes r) = cr_expires_slot r" "credential_bytes r ! 88 = bool_byte (cr_revoked r)"
  "length (credential_bytes r) = 90"
  by (simp_all add: credential_bytes_def at_field nth_append)

lemma wallet_limit_roundtrip: "wallet_limit_from (wallet_limit_bytes l) = Some l"
  by (simp add: wallet_limit_from_def wallet_limit_fields)

section \<open>What a limit allows over time\<close>

lemma limit_charge_ok:
  assumes "limit_charge slot n l = Inr l'"
  shows "wl_window_slots l' = wl_window_slots l" "wl_max_transfer_per_window l' = wl_max_transfer_per_window l"
    "unat (wl_transferred_this_window l') \<le> unat (wl_max_transfer_per_window l)"
    "wl_window_start_slot l' = (if saturating_add (wl_window_start_slot l) (wl_window_slots l) \<le> slot
       then slot else wl_window_start_slot l)"
    "unat (wl_transferred_this_window l') =
       (if saturating_add (wl_window_start_slot l) (wl_window_slots l) \<le> slot then 0
        else unat (wl_transferred_this_window l)) + unat n"
  using assms by (auto simp: limit_charge_def Let_def run_ok arith_ok word_le_nat_alt split: if_splits)

text \<open>
  A history of calls of \<open>update_wallet_rate_limit\<close> on one record: every event has its own time,
  caller and amount. \<open>limit_log\<close> lists slot and amount of the calls that went through.
\<close>

type_synonym 'w limit_event = "'w runtime \<times> update_limit_ctx \<times> pubkey \<times> u64"

fun limit_exec :: "'w limit_event \<Rightarrow> wallet_rate_limit \<Rightarrow> wallet_rate_limit res" where
  "limit_exec (rt, ctx, wallet, n) l =
     update_wallet_rate_limit_handler rt (ctx\<lparr>ul_limit := set_data (ul_limit ctx) l\<rparr>) wallet n"

abbreviation limit_time :: "'w limit_event \<Rightarrow> nat" where
  "limit_time e \<equiv> unat (rt_slot (fst e))"

fun limit_log :: "'w limit_event list \<Rightarrow> wallet_rate_limit \<Rightarrow> (nat \<times> nat) list" where
  "limit_log [] l = []"
| "limit_log (e # es) l =
     (case limit_exec e l of
        Inl _ \<Rightarrow> limit_log es l
      | Inr l' \<Rightarrow> (limit_time e, unat (snd (snd (snd e)))) # limit_log es l')"

lemma update_handler_charge:
  "update_wallet_rate_limit_handler rt ctx wallet n = Inr l' \<Longrightarrow>
     limit_charge (rt_slot rt) n (data_of (ul_limit ctx)) = Inr l'"
  by (auto simp: update_wallet_rate_limit_handler_def Let_def guarded_append guarded_Inr split: if_splits)

lemma limit_exec_charge:
  "limit_exec e l = Inr l' \<Longrightarrow> limit_charge (rt_slot (fst e)) (snd (snd (snd e))) l = Inr l'"
  by (cases e) (auto dest: update_handler_charge)

text \<open>What passes in an interval of slots.\<close>

definition passed :: "nat \<Rightarrow> nat \<Rightarrow> (nat \<times> nat) list \<Rightarrow> nat" where
  "passed t w es = sum_list (map snd (filter (\<lambda>e. t \<le> fst e \<and> fst e < t + w) es))"

lemma passed_simps [simp]:
  "passed t w [] = 0" "passed t w (e # es) = (if t \<le> fst e \<and> fst e < t + w then snd e else 0) + passed t w es"
  by (simp_all add: passed_def)

lemma passed_later: "\<forall>e \<in> set es. t + w \<le> fst e \<Longrightarrow> passed t w es = 0"
  by (induction es) auto

lemma limit_log_times: "fst ` set (limit_log es l) \<subseteq> limit_time ` set es"
  by (induction es arbitrary: l) (auto split: sum.splits)

text \<open>The times of a run: in order, and short of the last slot there is.\<close>

definition in_order :: "'w limit_event list \<Rightarrow> bool" where
  "in_order es \<longleftrightarrow> sorted (map limit_time es) \<and> (\<forall>e \<in> set es. limit_time e < 2 ^ 64 - 1)"

lemma in_order_Cons: "in_order (e # es) \<longleftrightarrow> limit_time e < 2 ^ 64 - 1 \<and> in_order es \<and> (\<forall>e' \<in> set es. limit_time e \<le> limit_time e')"
  by (auto simp: in_order_def)

definition window_over :: "'w limit_event \<Rightarrow> wallet_rate_limit \<Rightarrow> bool" where
  "window_over e l \<longleftrightarrow> unat (wl_window_start_slot l) + unat (wl_window_slots l) \<le> limit_time e"

lemma limit_exec_ok:
  assumes "limit_exec e l = Inr l'" and "limit_time e < 2 ^ 64 - 1"
  shows "wl_window_slots l' = wl_window_slots l" "wl_max_transfer_per_window l' = wl_max_transfer_per_window l"
    "unat (wl_transferred_this_window l') \<le> unat (wl_max_transfer_per_window l)"
    "wl_window_start_slot l' = (if window_over e l then rt_slot (fst e) else wl_window_start_slot l)"
    "unat (wl_transferred_this_window l') =
       (if window_over e l then 0 else unat (wl_transferred_this_window l)) + unat (snd (snd (snd e)))"
proof -
  note charge = limit_charge_ok [OF limit_exec_charge [OF assms(1)]]
  have "saturating_add (wl_window_start_slot l) (wl_window_slots l) \<le> rt_slot (fst e) \<longleftrightarrow> window_over e l"
    using assms(2) by (auto simp: word_le_nat_alt unat_saturating_add window_over_def)
  with charge show "wl_window_slots l' = wl_window_slots l"
    "wl_max_transfer_per_window l' = wl_max_transfer_per_window l"
    "unat (wl_transferred_this_window l') \<le> unat (wl_max_transfer_per_window l)"
    "wl_window_start_slot l' = (if window_over e l then rt_slot (fst e) else wl_window_start_slot l)"
    "unat (wl_transferred_this_window l') =
       (if window_over e l then 0 else unat (wl_transferred_this_window l)) + unat (snd (snd (snd e)))"
    by simp_all
qed

text \<open>In an interval as long as the window, the window that began before it and the one that begins in it.\<close>

lemma second_window:
  assumes "in_order es" and "t \<le> unat (wl_window_start_slot l)"
    and "unat (wl_transferred_this_window l) \<le> unat (wl_max_transfer_per_window l)"
  shows "passed t (unat (wl_window_slots l)) (limit_log es l) + unat (wl_transferred_this_window l)
    \<le> unat (wl_max_transfer_per_window l)"
  using assms
proof (induction es arbitrary: l)
  case (Cons e es)
  then have time: "limit_time e < 2 ^ 64 - 1" and order: "in_order es" "\<forall>e' \<in> set es. limit_time e \<le> limit_time e'"
    by (simp_all add: in_order_Cons)
  show ?case
  proof (cases "limit_exec e l")
    case (Inr l')
    note ok = limit_exec_ok [OF Inr time]
    show ?thesis
    proof (cases "window_over e l")
      case True
      then have late: "t + unat (wl_window_slots l) \<le> limit_time e" using Cons.prems(2) by (simp add: window_over_def)
      then have "passed t (unat (wl_window_slots l)) (limit_log es l') = 0"
        using order(2) limit_log_times [of es l'] by (intro passed_later) fastforce
      with late Inr Cons.prems(3) show ?thesis by simp
    next
      case False
      then have start: "t \<le> unat (wl_window_start_slot l')" using Cons.prems(2) ok by simp
      have "unat (wl_transferred_this_window l') \<le> unat (wl_max_transfer_per_window l')" using ok(2,3) by simp
      from Cons.IH [OF order(1) start this] Inr False ok show ?thesis by auto
    qed
  qed (use Cons order in simp)
qed simp

lemma first_window:
  assumes "in_order es" and "\<forall>e \<in> set es. t \<le> limit_time e"
    and "unat (wl_transferred_this_window l) \<le> unat (wl_max_transfer_per_window l)"
  shows "passed t (unat (wl_window_slots l)) (limit_log es l) + unat (wl_transferred_this_window l)
    \<le> 2 * unat (wl_max_transfer_per_window l)"
  using assms
proof (induction es arbitrary: l)
  case (Cons e es)
  then have time: "limit_time e < 2 ^ 64 - 1" and order: "in_order es" and later: "\<forall>e \<in> set es. t \<le> limit_time e"
    by (simp_all add: in_order_Cons)
  show ?case
  proof (cases "limit_exec e l")
    case (Inr l')
    note ok = limit_exec_ok [OF Inr time]
    have used: "unat (wl_transferred_this_window l') \<le> unat (wl_max_transfer_per_window l')" by (simp only: ok(2,3))
    show ?thesis
    proof (cases "window_over e l")
      case True
      then have "t \<le> unat (wl_window_start_slot l')" using Cons.prems(2) ok(4) by simp
      from second_window [OF order this used] True Inr ok Cons.prems(3) show ?thesis by auto
    next
      case False
      from Cons.IH [OF order later used] False Inr ok show ?thesis by auto
    qed
  qed (use Cons order later in simp)
qed simp

text \<open>C20: A wallet's limit holds over any stretch of slots as long as its window up to a factor of two: from the
  moment the authority sets the limit, whatever calls come in the order of time, the transfers
  charged between slot t and t plus the window sum up to at most twice the maximum.\<close>

theorem wallet_limit_over_time:
  assumes "set_wallet_rate_limit_handler rt ctx wallet m w = Inr l" and "in_order es"
  shows "passed t (unat w) (limit_log es l) \<le> 2 * unat m"
proof -
  have general: "passed t (unat (wl_window_slots l)) (limit_log es l) \<le> 2 * unat (wl_max_transfer_per_window l)"
    if "unat (wl_transferred_this_window l) \<le> unat (wl_max_transfer_per_window l)" "in_order es"
    for l and es :: "'b limit_event list"
    using that
  proof (induction es arbitrary: l)
    case (Cons e es)
    then have time: "limit_time e < 2 ^ 64 - 1" and order: "in_order es" "\<forall>e' \<in> set es. limit_time e \<le> limit_time e'"
      by (simp_all add: in_order_Cons)
    show ?case
    proof (cases "t \<le> limit_time e")
      case True
      with order have "\<forall>e \<in> set (e # es). t \<le> limit_time e" by auto
      from first_window [OF Cons.prems(2) this Cons.prems(1)] show ?thesis by simp
    next
      case False
      then show ?thesis
      proof (cases "limit_exec e l")
        case (Inr l')
        note ok = limit_exec_ok [OF Inr time]
        have "unat (wl_transferred_this_window l') \<le> unat (wl_max_transfer_per_window l')"
          using ok(2,3) by simp
        from Cons.IH [OF this order(1)] Inr False ok(1,2) show ?thesis by simp
      qed (use Cons order in simp)
    qed
  qed simp
  from assms(1) have "wl_window_slots l = w" "wl_max_transfer_per_window l = m" "wl_transferred_this_window l = 0"
    by (auto simp: set_wallet_rate_limit_handler_def Let_def run_ok guarded_Inr)
  with general [of l es] assms(2) show ?thesis by simp
qed

section \<open>At work\<close>

definition demo_limits_cfg :: stablecoin_config where
  "demo_limits_cfg = demo_config\<lparr>c_transfer_hook_program := 77, c_feature_flags := FLAG_WALLET_RATE_LIMITS\<rparr>"

definition demo_limit_key :: pubkey where "demo_limit_key = ref_pda (wallet_limit_seeds 5 9)"

definition demo_limit :: "u64 \<Rightarrow> u64 \<Rightarrow> wallet_rate_limit" where
  "demo_limit used start =
     \<lparr>wl_sss_mint = 5, wl_wallet = 9, wl_max_transfer_per_window = 100, wl_window_slots = 1000,
      wl_transferred_this_window = used, wl_window_start_slot = start, wl_bump = 255\<rparr>"

definition demo_use :: "u64 \<Rightarrow> u64 \<Rightarrow> ref_ledger limit_event" where
  "demo_use slot n =
     (ref_runtime slot 0 0,
      \<lparr>ul_caller = 77, ul_caller_signed = False, ul_config = demo_acct demo_limits_cfg, ul_mint = 5,
       ul_limit = \<lparr>key_of = demo_limit_key, data_of = demo_limit 0 0\<rparr>\<rparr>, 9, n)"

lemmas limit_eval [eval_defs] =
  demo_limits_cfg_def demo_limit_key_def demo_limit_def demo_use_def update_wallet_rate_limit_handler_def
  limit_charge_def set_wallet_rate_limit_handler_def authority_accounts_def config_ok_def squads_gate_def
  saturating_add_def

lemma demo_limit_set:
  "set_wallet_rate_limit_handler (ref_runtime 4000 0 0) \<lparr>ac_authority = 7, ac_config = demo_acct demo_limits_cfg, ac_mint = 5\<rparr>
     9 100 1000 = Inr (demo_limit 0 0)"
  by (simp add: eval_defs demo_cfg_key_def)

text \<open>
  The caller of these calls signs nothing: the key of the hook program is enough. The three of them
  move 199 within a thousand slots, under a limit of 100 per thousand.
\<close>

lemma demo_limit_steps:
  "limit_exec (demo_use 5000 1) (demo_limit 0 0) = Inr (demo_limit 1 5000)"
  "limit_exec (demo_use 5999 99) (demo_limit 1 5000) = Inr (demo_limit 100 5000)"
  "limit_exec (demo_use 6000 100) (demo_limit 100 5000) = Inr (demo_limit 100 6000)"
  by (simp_all add: eval_defs demo_cfg_key_def)

lemma demo_limit_log:
  "limit_log [demo_use 5000 1, demo_use 5999 99, demo_use 6000 100] (demo_limit 0 0) = [(5000, 1), (5999, 99), (6000, 100)]"
  by (simp add: demo_limit_steps del: limit_exec.simps) (simp add: demo_use_def)

lemma rolling_window_overrun:
  "passed 5999 1000 (limit_log [demo_use 5000 1, demo_use 5999 99, demo_use 6000 100] (demo_limit 0 0)) = 199"
  by (subst demo_limit_log) simp

theorem wallet_limit_over_time_witness:
  "passed 5999 1000 (limit_log [demo_use 5000 1, demo_use 5999 99, demo_use 6000 100] (demo_limit 0 0)) \<le> 200"
proof -
  have "in_order [demo_use 5000 1, demo_use 5999 99, demo_use 6000 100]"
    by (simp add: in_order_def demo_use_def)
  from wallet_limit_over_time [OF demo_limit_set this, of 5999] show ?thesis by simp
qed

end
