(* ===== verification/Hook.thy ===== *)
theory Hook
  imports Compliance Machine
begin

text \<open>
  The transfer hook (programs/transfer-hook/src/lib.rs), a program of its own that the token
  program's ledger runs on every transfer: it keeps the blacklist, and reads the accounts of the
  stablecoin program as raw bytes at fixed offsets. \<open>blacklist_add_and_freeze\<close> of the stablecoin
  program (instructions/blacklist.rs), which calls into it, stands at the end.
\<close>

section \<open>Errors and constants\<close>

datatype hook_error =
    SenderBlacklisted | ReceiverBlacklisted | HookUnauthorized | HookSpendLimitExceeded | InvalidConfig
  | ZkRecordMissing | ZkRecordExpired | HookSanctionedAddress | HookSanctionsRecordMissing
  | HookSanctionsRecordStale | SanctionsRecordMissingBug003 | CredentialRequired | CredentialExpired
  | CredentialRevoked | HookWalletRateLimitExceeded | WalletRateLimitAccountNotWritable
  | SanctionsRecordRequired | OwnerConsentRequired

text \<open>
  A failure of the hook: a variant of its own error type, a check of the framework, a failure that
  the meta list's library or the system reports, bad account data, or a panic (an index out of range).
\<close>

datatype hook_failure =
    Hook hook_error | HookAnchor anchor_error | HookLibrary nat | AccountDidNotSerialize | InvalidAccountData | HookPanic

type_synonym 'a hook_res = "hook_failure + 'a"

definition SSS_TOKEN_PROGRAM_ID :: pubkey where
  "SSS_TOKEN_PROGRAM_ID = 0x91de00c0dc85dc40fa7861fd8b0842bd4f8f21835f201df1d0e4de42290987e4"

definition HOOK_PROGRAM_ID :: pubkey where
  "HOOK_PROGRAM_ID = 0xc37b816e95617d2924fc1921cff4c5ac89da1982c4991987c094299603d0f1d"

definition STABLECOIN_CONFIG_DISCRIMINATOR :: "u8 list" where
  "STABLECOIN_CONFIG_DISCRIMINATOR = [0x7f, 0x19, 0xf4, 0xd5, 0x01, 0xc0, 0x65, 0x06]"

definition FEATURE_FLAGS_OFFSET :: nat where "FEATURE_FLAGS_OFFSET = 298"
definition MAX_TRANSFER_AMOUNT_OFFSET :: nat where "MAX_TRANSFER_AMOUNT_OFFSET = 306"
definition SANCTIONS_ORACLE_OFFSET :: nat where "SANCTIONS_ORACLE_OFFSET = 524"
definition SANCTIONS_MAX_STALENESS_OFFSET :: nat where "SANCTIONS_MAX_STALENESS_OFFSET = 556"
definition SANCTIONS_CONFIG_MIN_SIZE :: nat where "SANCTIONS_CONFIG_MIN_SIZE = 564"
definition WRL_MAX_TRANSFER_OFFSET :: nat where "WRL_MAX_TRANSFER_OFFSET = 72"
definition WRL_WINDOW_SLOTS_OFFSET :: nat where "WRL_WINDOW_SLOTS_OFFSET = 80"
definition WRL_TRANSFERRED_OFFSET :: nat where "WRL_TRANSFERRED_OFFSET = 88"
definition WRL_WINDOW_START_OFFSET :: nat where "WRL_WINDOW_START_OFFSET = 96"
definition WRL_MIN_SIZE :: nat where "WRL_MIN_SIZE = 104"
definition ZK_RECORD_EXPIRES_OFFSET :: nat where "ZK_RECORD_EXPIRES_OFFSET = 72"
definition ZK_RECORD_MIN_SIZE :: nat where "ZK_RECORD_MIN_SIZE = 80"
definition SANCTIONS_IS_SANCTIONED_OFFSET :: nat where "SANCTIONS_IS_SANCTIONED_OFFSET = 8"
definition SANCTIONS_UPDATED_SLOT_OFFSET :: nat where "SANCTIONS_UPDATED_SLOT_OFFSET = 9"
definition SANCTIONS_RECORD_MIN_SIZE :: nat where "SANCTIONS_RECORD_MIN_SIZE = 17"
definition CR_REVOKED_OFFSET :: nat where "CR_REVOKED_OFFSET = 88"
definition CR_EXPIRES_SLOT_OFFSET :: nat where "CR_EXPIRES_SLOT_OFFSET = 80"

lemmas offset_defs =
  FEATURE_FLAGS_OFFSET_def MAX_TRANSFER_AMOUNT_OFFSET_def SANCTIONS_ORACLE_OFFSET_def
  SANCTIONS_MAX_STALENESS_OFFSET_def SANCTIONS_CONFIG_MIN_SIZE_def WRL_MAX_TRANSFER_OFFSET_def
  WRL_WINDOW_SLOTS_OFFSET_def WRL_TRANSFERRED_OFFSET_def WRL_WINDOW_START_OFFSET_def WRL_MIN_SIZE_def
  ZK_RECORD_EXPIRES_OFFSET_def ZK_RECORD_MIN_SIZE_def SANCTIONS_IS_SANCTIONED_OFFSET_def
  SANCTIONS_UPDATED_SLOT_OFFSET_def SANCTIONS_RECORD_MIN_SIZE_def CR_REVOKED_OFFSET_def CR_EXPIRES_SLOT_OFFSET_def

section \<open>Accounts and the runtime\<close>

record acct_info =
  ai_key :: pubkey
  ai_writable :: bool
  ai_data :: "u8 list"

record blacklist_state =
  bl_mint :: pubkey
  bl_authority :: pubkey
  bl_blacklisted :: "pubkey list"
  bl_bump :: u8

definition is_blacklisted :: "blacklist_state \<Rightarrow> pubkey \<Rightarrow> bool" where
  "is_blacklisted bl address \<longleftrightarrow> address \<in> set (bl_blacklisted bl)"

definition BLACKLIST_INIT_SPACE :: nat where
  "BLACKLIST_INIT_SPACE = 8 + 32 + 32 + 4 + (100 * 32) + 1"

text \<open>The size of what the framework writes back when the instruction ends.\<close>

definition blacklist_size :: "blacklist_state \<Rightarrow> nat" where
  "blacklist_size bl = 8 + 32 + 32 + (4 + 32 * length (bl_blacklisted bl)) + 1"

definition blacklist_seeds :: "pubkey \<Rightarrow> seed list" where
  "blacklist_seeds mint = [SeedStr ''blacklist-state'', SeedKey mint]"

definition meta_list_seeds :: "pubkey \<Rightarrow> seed list" where
  "meta_list_seeds mint = [SeedStr ''extra-account-metas'', SeedKey mint]"

text \<open>
  The runtime as the hook sees it: the clock, derived addresses of any program, and invoking another
  program with the accounts (key, signer, writable) and the data of an instruction, and what it leaves
  of the accounts handed over.
\<close>

record hook_runtime =
  hr_slot :: u64
  hr_find_pda :: "pubkey \<Rightarrow> seed list \<Rightarrow> pubkey \<times> u8"
  hr_create_pda :: "pubkey \<Rightarrow> seed list \<Rightarrow> u8 \<Rightarrow> pubkey option"
  hr_invoke :: "pubkey \<Rightarrow> (pubkey \<times> bool \<times> bool) list \<Rightarrow> u8 list \<Rightarrow> acct_info list \<Rightarrow> nat + acct_info list"

definition sss_pda :: "hook_runtime \<Rightarrow> seed list \<Rightarrow> pubkey" where
  "sss_pda hr seeds = fst (hr_find_pda hr SSS_TOKEN_PROGRAM_ID seeds)"

definition hook_pda :: "hook_runtime \<Rightarrow> seed list \<Rightarrow> pubkey" where
  "hook_pda hr seeds = fst (hr_find_pda hr HOOK_PROGRAM_ID seeds)"

record hook_ctx =
  hc_source :: acct_info
  hc_mint :: pubkey
  hc_destination :: acct_info
  hc_owner :: pubkey
  hc_meta_list :: pubkey
  hc_blacklist :: "blacklist_state account"
  hc_config :: acct_info
  hc_verification :: acct_info
  hc_remaining :: "acct_info list"

definition find_account :: "pubkey \<Rightarrow> acct_info list \<Rightarrow> acct_info option" where
  "find_account k accounts = find (\<lambda>a. ai_key a = k) accounts"

section \<open>The checks of a transfer\<close>

text \<open>\<open>Pubkey::try_from(&data[32..64])\<close>: the slice panics on shorter data.\<close>

definition token_owner :: "u8 list \<Rightarrow> pubkey hook_res" where
  "token_owner data = (if 64 \<le> length data then Inr (key_at 32 data) else Inl HookPanic)"

definition blacklist_check :: "hook_ctx \<Rightarrow> pubkey hook_res" where
  "blacklist_check ctx =
     (let bl = data_of (hc_blacklist ctx) in
      andthen (token_owner (ai_data (hc_source ctx))) (\<lambda>src_owner.
      guarded [(\<not> is_blacklisted bl src_owner, Hook SenderBlacklisted)]
        (andthen (token_owner (ai_data (hc_destination ctx))) (\<lambda>dst_owner.
         guarded [(\<not> is_blacklisted bl dst_owner, Hook ReceiverBlacklisted)] (Inr src_owner)))))"

definition read_flags :: "hook_runtime \<Rightarrow> hook_ctx \<Rightarrow> u64 hook_res" where
  "read_flags hr ctx =
     (let d = ai_data (hc_config ctx) in
      guarded
        [(ai_key (hc_config ctx) = sss_pda hr (config_seeds (hc_mint ctx)), Hook InvalidConfig),
         (MAX_TRANSFER_AMOUNT_OFFSET + 8 \<le> length d, Hook InvalidConfig),
         (slice 0 8 d = STABLECOIN_CONFIG_DISCRIMINATOR, Hook InvalidConfig)]
        (Inr (u64_at FEATURE_FLAGS_OFFSET d)))"

definition spend_check :: "hook_ctx \<Rightarrow> u64 \<Rightarrow> u64 \<Rightarrow> unit hook_res" where
  "spend_check ctx flags amount =
     (if check_feature_flag flags FLAG_SPEND_POLICY then
        guarded
          [(\<not> check_feature_flag flags FLAG_CONFIDENTIAL_TRANSFERS, Hook HookSpendLimitExceeded),
           (amount \<le> u64_at MAX_TRANSFER_AMOUNT_OFFSET (ai_data (hc_config ctx)), Hook HookSpendLimitExceeded)]
          (Inr ())
      else Inr ())"

definition zk_check :: "hook_runtime \<Rightarrow> hook_ctx \<Rightarrow> u64 \<Rightarrow> pubkey \<Rightarrow> unit hook_res" where
  "zk_check hr ctx flags src_owner =
     (let vr = hc_verification ctx; d = ai_data vr in
      if check_feature_flag flags FLAG_ZK_COMPLIANCE then
        guarded
          [(ai_key vr = sss_pda hr (verification_seeds (hc_mint ctx) src_owner), Hook ZkRecordMissing),
           (ZK_RECORD_MIN_SIZE \<le> length d, Hook ZkRecordMissing),
           (hr_slot hr < u64_at ZK_RECORD_EXPIRES_OFFSET d, Hook ZkRecordExpired)]
          (Inr ())
      else Inr ())"

definition sanctioned :: "hook_runtime \<Rightarrow> u8 list \<Rightarrow> u64 \<Rightarrow> unit hook_res" where
  "sanctioned hr d max_staleness =
     (if SANCTIONS_RECORD_MIN_SIZE \<le> length d \<and> d ! SANCTIONS_IS_SANCTIONED_OFFSET \<noteq> 0 then
        if max_staleness > 0 \<and> saturating_sub (hr_slot hr) (u64_at SANCTIONS_UPDATED_SLOT_OFFSET d) > max_staleness
        then Inl (Hook HookSanctionsRecordStale) else Inl (Hook HookSanctionedAddress)
      else Inr ())"

definition sanctions_check :: "hook_runtime \<Rightarrow> hook_ctx \<Rightarrow> u64 \<Rightarrow> pubkey \<Rightarrow> unit hook_res" where
  "sanctions_check hr ctx flags src_owner =
     (let d = ai_data (hc_config ctx) in
      if check_feature_flag flags FLAG_SANCTIONS_ORACLE \<and> SANCTIONS_CONFIG_MIN_SIZE \<le> length d \<and>
         key_at SANCTIONS_ORACLE_OFFSET d \<noteq> default_key
      then
        (case hc_remaining ctx of
           [] \<Rightarrow> Inl (Hook HookSanctionsRecordMissing)
         | sr # rest \<Rightarrow>
             guarded [(ai_key sr = sss_pda hr (sanctions_seeds (hc_mint ctx) src_owner), Hook HookSanctionsRecordMissing)]
               (sanctioned hr (ai_data sr) (u64_at SANCTIONS_MAX_STALENESS_OFFSET d)))
      else Inr ())"

definition credential_check :: "hook_runtime \<Rightarrow> hook_ctx \<Rightarrow> u64 \<Rightarrow> pubkey \<Rightarrow> unit hook_res" where
  "credential_check hr ctx flags src_owner =
     (if check_feature_flag flags FLAG_ZK_CREDENTIALS then
        (case find_account (sss_pda hr (credential_seeds (hc_mint ctx) src_owner)) (hc_remaining ctx) of
           None \<Rightarrow> Inl (Hook CredentialRequired)
         | Some cr \<Rightarrow>
             let d = ai_data cr; expires_slot = u64_at CR_EXPIRES_SLOT_OFFSET d in
             guarded
               [(8 + 32 + 32 + 8 + 8 + 1 + 1 \<le> length d, Hook CredentialRequired),
                (d ! CR_REVOKED_OFFSET = 0, Hook CredentialRevoked),
                (expires_slot > 0 \<longrightarrow> hr_slot hr \<le> expires_slot, Hook CredentialExpired)]
               (Inr ()))
      else Inr ())"

text \<open>The read-only look at the limit, before the stablecoin program is asked to count.\<close>

definition limit_pre_check :: "hook_runtime \<Rightarrow> u8 list \<Rightarrow> u64 \<Rightarrow> bool" where
  "limit_pre_check hr d amount \<longleftrightarrow>
     WRL_MIN_SIZE \<le> length d \<and>
     (let max_transfer = u64_at WRL_MAX_TRANSFER_OFFSET d; window_slots = u64_at WRL_WINDOW_SLOTS_OFFSET d;
          transferred = u64_at WRL_TRANSFERRED_OFFSET d; window_start = u64_at WRL_WINDOW_START_OFFSET d;
          window_elapsed = (window_start = 0 \<or> saturating_add window_start window_slots \<le> hr_slot hr) in
      (if window_elapsed then amount else saturating_add transferred amount) \<le> max_transfer)"

definition UPDATE_LIMIT_DISCRIMINATOR :: "u8 list" where
  "UPDATE_LIMIT_DISCRIMINATOR = [40, 124, 28, 141, 135, 194, 33, 165]"

definition update_limit_data :: "pubkey \<Rightarrow> u64 \<Rightarrow> u64 \<Rightarrow> u8 list" where
  "update_limit_data wallet amount slot =
     UPDATE_LIMIT_DISCRIMINATOR @ key_bytes wallet @ u64_bytes amount @ u64_bytes slot"

definition limit_check :: "hook_runtime \<Rightarrow> hook_ctx \<Rightarrow> u64 \<Rightarrow> pubkey \<Rightarrow> u64 \<Rightarrow> acct_info list hook_res" where
  "limit_check hr ctx flags src_owner amount =
     (if check_feature_flag flags FLAG_WALLET_RATE_LIMITS then
        let rem = hc_remaining ctx; mint = hc_mint ctx in
        andthen (ok_or (find_account (sss_pda hr (wallet_limit_seeds mint src_owner)) rem)
                   (Hook WalletRateLimitAccountNotWritable)) (\<lambda>wrl.
        guarded [(ai_writable wrl, Hook WalletRateLimitAccountNotWritable)]
          (andthen (ok_or (find_account (sss_pda hr (config_seeds mint)) rem) (Hook InvalidConfig)) (\<lambda>cfg.
           andthen (ok_or (find_account SSS_TOKEN_PROGRAM_ID rem) (Hook InvalidConfig)) (\<lambda>token_program.
           andthen (ok_or (find_account HOOK_PROGRAM_ID rem) (Hook WalletRateLimitAccountNotWritable)) (\<lambda>hook_program.
           guarded [(limit_pre_check hr (ai_data wrl) amount, Hook HookWalletRateLimitExceeded)]
             (andthen (ok_or (find_account mint rem) InvalidAccountData) (\<lambda>mint_info.
              case hr_invoke hr SSS_TOKEN_PROGRAM_ID
                [(HOOK_PROGRAM_ID, False, False), (ai_key cfg, False, False), (mint, False, False), (ai_key wrl, False, True)]
                (update_limit_data src_owner amount (hr_slot hr)) [hook_program, cfg, mint_info, wrl, token_program] of
                Inl e \<Rightarrow> Inl (Hook WalletRateLimitAccountNotWritable)
              | Inr accounts \<Rightarrow> Inr accounts)))))))
      else Inr [])"

definition consent_check :: "hook_runtime \<Rightarrow> hook_ctx \<Rightarrow> unit hook_res" where
  "consent_check hr ctx =
     (let d = ai_data (hc_config ctx) in
      if FEATURE_FLAGS_OFFSET + 8 \<le> length d \<and> slice 0 8 d = STABLECOIN_CONFIG_DISCRIMINATOR \<and>
         check_feature_flag (u64_at FEATURE_FLAGS_OFFSET d) FLAG_REQUIRE_OWNER_CONSENT
      then
        andthen (token_owner (ai_data (hc_source ctx))) (\<lambda>src_owner2.
        if hc_owner ctx \<noteq> src_owner2 then
          guarded
            [(\<exists>a \<in> set (hc_remaining ctx).
                ai_key a = sss_pda hr [SeedStr ''delegate-consent'', SeedKey (hc_mint ctx), SeedKey src_owner2] \<and>
                8 \<le> length (ai_data a), Hook OwnerConsentRequired)]
            (Inr ())
        else Inr ())
      else Inr ())"

definition hook_accounts :: "hook_runtime \<Rightarrow> hook_ctx \<Rightarrow> (bool \<times> hook_failure) list" where
  "hook_accounts hr ctx =
     [(hc_meta_list ctx = hook_pda hr (meta_list_seeds (hc_mint ctx)), HookAnchor ConstraintSeeds),
      (hr_create_pda hr HOOK_PROGRAM_ID (blacklist_seeds (hc_mint ctx)) (bl_bump (data_of (hc_blacklist ctx))) =
         Some (key_of (hc_blacklist ctx)), HookAnchor ConstraintSeeds)]"

text \<open>The hook returns what its call into the stablecoin program left of the accounts.\<close>

definition transfer_hook :: "hook_runtime \<Rightarrow> hook_ctx \<Rightarrow> u64 \<Rightarrow> acct_info list hook_res" where
  "transfer_hook hr ctx amount =
     guarded (hook_accounts hr ctx)
       (andthen (blacklist_check ctx) (\<lambda>src_owner.
        andthen (read_flags hr ctx) (\<lambda>flags.
        andthen (spend_check ctx flags amount) (\<lambda>_.
        andthen (zk_check hr ctx flags src_owner) (\<lambda>_.
        andthen (sanctions_check hr ctx flags src_owner) (\<lambda>_.
        andthen (credential_check hr ctx flags src_owner) (\<lambda>_.
        andthen (limit_check hr ctx flags src_owner amount) (\<lambda>accounts.
        andthen (consent_check hr ctx) (\<lambda>_.
        Inr accounts)))))))))"

section \<open>The list of extra accounts\<close>

text \<open>
  Token-2022 resolves these on every transfer. A meta whose address is derived carries the parts
  of the seeds; \<open>new_with_seeds\<close> names no program.
\<close>

datatype meta_seed = SeedLiteral string | SeedAccountKey nat | SeedAccountData nat nat nat

record extra_account_meta =
  em_seeds :: "meta_seed list"
  em_signer :: bool
  em_writable :: bool

definition extra_account_metas :: "extra_account_meta list" where
  "extra_account_metas =
     [\<lparr>em_seeds = [SeedLiteral ''blacklist-state'', SeedAccountKey 1], em_signer = False, em_writable = False\<rparr>,
      \<lparr>em_seeds = [SeedLiteral ''stablecoin-config'', SeedAccountKey 1], em_signer = False, em_writable = False\<rparr>,
      \<lparr>em_seeds = [SeedLiteral ''zk-verification'', SeedAccountKey 1, SeedAccountData 0 32 32],
       em_signer = False, em_writable = False\<rparr>]"

text \<open>
  The library that keeps the list in an account, and the system program: the size of a list of so
  many entries, writing a list into data, the rent of a size, and creating an account.
\<close>

record meta_library =
  ml_size_of :: "nat \<Rightarrow> nat"
  ml_init :: "u8 list \<Rightarrow> extra_account_meta list \<Rightarrow> nat + u8 list"
  ml_rent :: "nat \<Rightarrow> u64"
  ml_create :: "pubkey \<Rightarrow> u8 list \<Rightarrow> u64 \<Rightarrow> nat \<Rightarrow> nat + u8 list"
  ml_fund :: "pubkey \<Rightarrow> u64 \<Rightarrow> nat + unit"

definition library_result :: "nat + 'a \<Rightarrow> 'a hook_res" where
  "library_result r = (case r of Inl e \<Rightarrow> Inl (HookLibrary e) | Inr x \<Rightarrow> Inr x)"

definition initialize_extra_account_meta_list ::
  "hook_runtime \<Rightarrow> meta_library \<Rightarrow> pubkey \<Rightarrow> pubkey \<Rightarrow> acct_info \<Rightarrow> blacklist_state option \<Rightarrow>
     (u8 list \<times> blacklist_state) hook_res" where
  "initialize_extra_account_meta_list hr ml authority mint meta_list existing =
     guarded
       [(ai_key meta_list = hook_pda hr (meta_list_seeds mint), HookAnchor ConstraintSeeds),
        (existing = None, HookAnchor AccountAlreadyInUse)]
       (let account_size = ml_size_of ml (length extra_account_metas) in
        andthen (library_result (ml_create ml (ai_key meta_list) (ai_data meta_list) (ml_rent ml account_size) account_size)) (\<lambda>data.
        andthen (library_result (ml_init ml data extra_account_metas)) (\<lambda>data'.
        Inr (data', \<lparr>bl_mint = mint, bl_authority = authority, bl_blacklisted = [],
                     bl_bump = snd (hr_find_pda hr HOOK_PROGRAM_ID (blacklist_seeds mint))\<rparr>))))"

definition migrate_hook_extra_accounts ::
  "hook_runtime \<Rightarrow> meta_library \<Rightarrow> pubkey \<Rightarrow> pubkey \<Rightarrow> acct_info \<Rightarrow> u64 \<Rightarrow> blacklist_state account \<Rightarrow> u8 list hook_res" where
  "migrate_hook_extra_accounts hr ml authority mint meta_list current_lamports bl =
     (let new_size = ml_size_of ml (length extra_account_metas); data = ai_data meta_list; required = ml_rent ml new_size in
      guarded
        [(ai_key meta_list = hook_pda hr (meta_list_seeds mint), HookAnchor ConstraintSeeds),
         (hr_create_pda hr HOOK_PROGRAM_ID (blacklist_seeds mint) (bl_bump (data_of bl)) = Some (key_of bl),
            HookAnchor ConstraintSeeds),
         (bl_authority (data_of bl) = authority, Hook HookUnauthorized)]
        (andthen
          (if new_size > length data then
             andthen (if required > current_lamports
                      then library_result (ml_fund ml (ai_key meta_list) (saturating_sub required current_lamports))
                      else Inr ()) (\<lambda>_.
             guarded [(new_size - length data \<le> 10240, Hook InvalidConfig)]
               (Inr (data @ replicate (new_size - length data) 0)))
           else Inr data) (\<lambda>data1.
         library_result (ml_init ml data1 extra_account_metas))))"

section \<open>The blacklist\<close>

definition manage_blacklist :: "hook_runtime \<Rightarrow> pubkey \<Rightarrow> pubkey \<Rightarrow> blacklist_state account \<Rightarrow> (bool \<times> hook_failure) list" where
  "manage_blacklist hr authority mint bl =
     [(hr_create_pda hr HOOK_PROGRAM_ID (blacklist_seeds mint) (bl_bump (data_of bl)) = Some (key_of bl),
         HookAnchor ConstraintSeeds),
      (bl_authority (data_of bl) = authority, Hook HookUnauthorized)]"

definition blacklist_add ::
  "hook_runtime \<Rightarrow> pubkey \<Rightarrow> pubkey \<Rightarrow> blacklist_state account \<Rightarrow> pubkey \<Rightarrow> blacklist_state hook_res" where
  "blacklist_add hr authority mint bl address =
     (let b = data_of bl;
          b' = (if address \<in> set (bl_blacklisted b) then b
                else b\<lparr>bl_blacklisted := bl_blacklisted b @ [address]\<rparr>) in
      guarded
        (manage_blacklist hr authority mint bl @ [(blacklist_size b' \<le> BLACKLIST_INIT_SPACE, AccountDidNotSerialize)])
        (Inr b'))"

definition blacklist_remove ::
  "hook_runtime \<Rightarrow> pubkey \<Rightarrow> pubkey \<Rightarrow> blacklist_state account \<Rightarrow> pubkey \<Rightarrow> blacklist_state hook_res" where
  "blacklist_remove hr authority mint bl address =
     (let b = data_of bl in
      guarded (manage_blacklist hr authority mint bl)
        (Inr (b\<lparr>bl_blacklisted := filter (\<lambda>a. a \<noteq> address) (bl_blacklisted b)\<rparr>)))"

text \<open>
  \<open>blacklist_add_and_freeze\<close> of the stablecoin program. The program registered as the hook is a
  parameter: \<open>invoke\<close> runs its \<open>blacklist_add\<close>; the address of its blacklist is derived by \<open>hook_find\<close>. A failure
  of the other program is an opaque code, as one of the token program is.
\<close>

record freeze_ctx =
  bf_compliance_authority :: pubkey
  bf_config :: "stablecoin_config account"
  bf_mint :: pubkey
  bf_target :: pubkey
  bf_blacklist :: "blacklist_state account"
  bf_hook_program :: pubkey

definition blacklist_add_and_freeze ::
  "'w runtime \<Rightarrow> (pubkey \<Rightarrow> seed list \<Rightarrow> pubkey) \<Rightarrow>
     (pubkey \<Rightarrow> pubkey \<Rightarrow> pubkey \<Rightarrow> blacklist_state account \<Rightarrow> pubkey \<Rightarrow> nat + blacklist_state) \<Rightarrow>
     'w \<Rightarrow> freeze_ctx \<Rightarrow> (blacklist_state \<times> 'w) res" where
  "blacklist_add_and_freeze rt hook_find invoke w ctx =
     (let cfg = bf_config ctx; c = data_of cfg; mint = bf_mint ctx; hook_pid = c_transfer_hook_program c in
      andthen (load_mint rt w mint) (\<lambda>_.
      andthen (load_token rt w (bf_target ctx)) (\<lambda>target.
      guarded
        (config_ok rt cfg mint @
         [(c_compliance_authority c = bf_compliance_authority ctx, Core UnauthorizedCompliance),
          (mint = c_mint c, Compliance InvalidMint), (ta_mint target = mint, Compliance InvalidMint),
          (bf_hook_program ctx = hook_pid, Compliance InvalidTransferHookProgram),
          (key_of (bf_blacklist ctx) = hook_find hook_pid (blacklist_seeds mint), Compliance InvalidBlacklistState)])
        (andthen (case invoke hook_pid (bf_compliance_authority ctx) mint (bf_blacklist ctx) (ta_owner target) of
                    Inl e \<Rightarrow> Inl (TokenProgram e) | Inr b \<Rightarrow> Inr b) (\<lambda>b.
         andthen (cpi_signed rt w [bf_compliance_authority ctx] (config_seeds mint) (c_bump c)
                    (FreezeAccount (bf_target ctx) mint (key_of cfg))) (\<lambda>w'.
         Inr (b, w')))))))"

section \<open>The stablecoin program at the other end of the call\<close>

text \<open>
  How the stablecoin program answers the hook's call: it takes the accounts in the order of
  \<open>UpdateWalletRateLimit\<close>, reads wallet and amount from the data, runs the handler and writes the
  record back. \<open>Inl 0\<close> stands for every refusal.
\<close>

definition refuse :: "'a res \<Rightarrow> nat + 'a" where
  "refuse r = (case r of Inl e \<Rightarrow> Inl 0 | Inr x \<Rightarrow> Inr x)"

fun stablecoin_invoke ::
  "'w runtime \<Rightarrow> pubkey \<Rightarrow> (pubkey \<times> bool \<times> bool) list \<Rightarrow> u8 list \<Rightarrow> acct_info list \<Rightarrow> nat + acct_info list" where
  "stablecoin_invoke rt program [(caller, caller_signed, _), (cfg_key, _, _), (mint, _, _), (limit_key, _, True)] data infos =
     (if program = SSS_TOKEN_PROGRAM_ID \<and> take 8 data = UPDATE_LIMIT_DISCRIMINATOR \<and> length data = 56 then
        andthen (ok_or (find_account cfg_key infos) 0) (\<lambda>cfg.
        andthen (ok_or (config_from (ai_data cfg)) 0) (\<lambda>c.
        andthen (ok_or (find_account limit_key infos) 0) (\<lambda>info.
        andthen (ok_or (wallet_limit_from (ai_data info)) 0) (\<lambda>l.
        andthen (refuse (update_wallet_rate_limit_handler rt
          \<lparr>ul_caller = caller, ul_caller_signed = caller_signed, ul_config = \<lparr>key_of = cfg_key, data_of = c\<rparr>, ul_mint = mint,
           ul_limit = \<lparr>key_of = limit_key, data_of = l\<rparr>\<rparr> (key_at 8 data) (u64_at 40 data))) (\<lambda>l'.
        Inr (map (\<lambda>a. if ai_key a = limit_key then a\<lparr>ai_data := wallet_limit_bytes l'\<rparr> else a) infos))))))
      else Inl 0)"
| "stablecoin_invoke rt program metas data infos = Inl 0"

lemma refuse_Inr [run_ok]: "refuse r = Inr x \<longleftrightarrow> r = Inr x"
  by (cases r) (simp_all add: refuse_def)

section \<open>What a transfer that passes has shown\<close>

abbreviation source_owner :: "hook_ctx \<Rightarrow> pubkey" where
  "source_owner ctx \<equiv> key_at 32 (ai_data (hc_source ctx))"

abbreviation destination_owner :: "hook_ctx \<Rightarrow> pubkey" where
  "destination_owner ctx \<equiv> key_at 32 (ai_data (hc_destination ctx))"

lemma token_owner_Inr [run_ok]: "token_owner d = Inr k \<longleftrightarrow> 64 \<le> length d \<and> k = key_at 32 d"
  by (auto simp: token_owner_def)

lemma blacklist_check_Inr [run_ok]:
  "blacklist_check ctx = Inr k \<longleftrightarrow>
     64 \<le> length (ai_data (hc_source ctx)) \<and> 64 \<le> length (ai_data (hc_destination ctx)) \<and> k = source_owner ctx \<and>
     \<not> is_blacklisted (data_of (hc_blacklist ctx)) (source_owner ctx) \<and>
     \<not> is_blacklisted (data_of (hc_blacklist ctx)) (destination_owner ctx)"
  by (auto simp: blacklist_check_def Let_def run_ok)

lemma config_disc: "config_discriminator = STABLECOIN_CONFIG_DISCRIMINATOR"
  by (simp add: config_discriminator_def STABLECOIN_CONFIG_DISCRIMINATOR_def)

text \<open>The hook reads what the stablecoin program stored.\<close>

lemma hook_reads_config:
  "u64_at FEATURE_FLAGS_OFFSET (config_bytes c) = c_feature_flags c"
  "u64_at MAX_TRANSFER_AMOUNT_OFFSET (config_bytes c) = c_max_transfer_amount c"
  "key_at SANCTIONS_ORACLE_OFFSET (config_bytes c) = c_sanctions_oracle c"
  "u64_at SANCTIONS_MAX_STALENESS_OFFSET (config_bytes c) = c_sanctions_max_staleness_slots c"
  "slice 0 8 (config_bytes c) = STABLECOIN_CONFIG_DISCRIMINATOR"
  "SANCTIONS_CONFIG_MIN_SIZE \<le> length (config_bytes c)" "FEATURE_FLAGS_OFFSET + 8 \<le> length (config_bytes c)"
  "MAX_TRANSFER_AMOUNT_OFFSET + 8 \<le> length (config_bytes c)"
  using config_bytes_fields [of c] by (simp_all add: offset_defs config_disc)

lemma hook_reads_records:
  "SANCTIONS_RECORD_MIN_SIZE \<le> length (sanctions_bytes r)"
  "sanctions_bytes r ! SANCTIONS_IS_SANCTIONED_OFFSET = 0 \<longleftrightarrow> \<not> sr_is_sanctioned r"
  "u64_at SANCTIONS_UPDATED_SLOT_OFFSET (sanctions_bytes r) = sr_updated_slot r"
  "u64_at ZK_RECORD_EXPIRES_OFFSET (verification_bytes v) = vr_expires_at_slot v"
  "credential_bytes k ! CR_REVOKED_OFFSET = 0 \<longleftrightarrow> \<not> cr_revoked k"
  "u64_at CR_EXPIRES_SLOT_OFFSET (credential_bytes k) = cr_expires_slot k"
  by (simp_all add: offset_defs sanctions_fields verification_fields credential_fields bool_byte_def)

lemma find_account_Some: "find_account k xs = Some a \<Longrightarrow> a \<in> set xs \<and> ai_key a = k"
  by (auto simp: find_account_def find_Some_iff)

lemma map_err_Inr [run_ok]: "(case r of Inl e \<Rightarrow> Inl (f e) | Inr x \<Rightarrow> Inr x) = Inr y \<longleftrightarrow> r = Inr y"
  by (cases r) simp_all

lemma transfer_hook_ok:
  assumes "transfer_hook hr ctx n = Inr accounts"
  obtains flags where "blacklist_check ctx = Inr (source_owner ctx)" "read_flags hr ctx = Inr flags"
    "spend_check ctx flags n = Inr ()" "zk_check hr ctx flags (source_owner ctx) = Inr ()"
    "sanctions_check hr ctx flags (source_owner ctx) = Inr ()"
    "credential_check hr ctx flags (source_owner ctx) = Inr ()"
    "limit_check hr ctx flags (source_owner ctx) n = Inr accounts" "consent_check hr ctx = Inr ()"
  using assms by (auto simp: transfer_hook_def guarded_Inr run_ok)


section \<open>The sanctions check against the stablecoin program's own\<close>

text \<open>The hook's error for an error of the stablecoin program.\<close>

fun hook_error_of :: "error \<Rightarrow> hook_failure" where
  "hook_error_of (Compliance SanctionsRecordStale) = Hook HookSanctionsRecordStale"
| "hook_error_of (Compliance SanctionedAddress) = Hook HookSanctionedAddress"
| "hook_error_of e = HookLibrary 0"

definition as_hook :: "'a res \<Rightarrow> 'a hook_res" where
  "as_hook r = (case r of Inl e \<Rightarrow> Inl (hook_error_of e) | Inr x \<Rightarrow> Inr x)"

text \<open>The record that an account at the record's address holds, if any.\<close>

definition holds_record :: "u8 list \<Rightarrow> sanctions_record option \<Rightarrow> bool" where
  "holds_record d r = (case r of None \<Rightarrow> length d < SANCTIONS_RECORD_MIN_SIZE | Some x \<Rightarrow> d = sanctions_bytes x)"

text \<open>C18: The hook's byte-level sanctions check decides as \<open>verify_sanctions_if_required\<close> of the stablecoin
  program does on the decoded accounts, with the corresponding errors, whenever the record's account is
  the first of the remaining ones.\<close>

theorem sanctions_checks_agree:
  assumes "ai_data (hc_config ctx) = config_bytes c" and "hc_remaining ctx = a # rest"
    and "ai_key a = sss_pda hr (sanctions_seeds (hc_mint ctx) owner)" and "holds_record (ai_data a) r"
  shows "sanctions_check hr ctx (c_feature_flags c) owner = as_hook (verify_sanctions_if_required c r (hr_slot hr))"
proof (cases r)
  case None
  with assms show ?thesis
    by (simp add: sanctions_check_def verify_sanctions_if_required_def as_hook_def hook_reads_config sanctioned_def
        holds_record_def Let_def)
next
  case (Some x)
  with assms(4) have "ai_data a = sanctions_bytes x" by (simp add: holds_record_def)
  with Some assms(1-3) show ?thesis
    by (simp add: sanctions_check_def verify_sanctions_if_required_def as_hook_def hook_reads_config hook_reads_records
        sanctioned_def Let_def not_le)
qed

section \<open>The hook and the counter of a wallet\<close>

lemma stablecoin_invoke_limit:
  assumes "stablecoin_invoke rt SSS_TOKEN_PROGRAM_ID
      [(HOOK_PROGRAM_ID, False, False), (cfg_key, False, False), (mint, False, False), (limit_key, False, True)]
      (update_limit_data wallet n slot) infos = Inr accounts"
    and "find_account limit_key infos = Some a" and "ai_data a = wallet_limit_bytes l"
  shows "\<exists>l' c. update_wallet_rate_limit_handler rt
      \<lparr>ul_caller = HOOK_PROGRAM_ID, ul_caller_signed = False, ul_config = \<lparr>key_of = cfg_key, data_of = c\<rparr>, ul_mint = mint,
       ul_limit = \<lparr>key_of = limit_key, data_of = l\<rparr>\<rparr> wallet n = Inr l' \<and>
      a\<lparr>ai_data := wallet_limit_bytes l'\<rparr> \<in> set accounts"
proof -
  have data: "key_at 8 (update_limit_data wallet n slot) = wallet" "u64_at 40 (update_limit_data wallet n slot) = n"
    by (simp_all add: update_limit_data_def UPDATE_LIMIT_DISCRIMINATOR_def at_field)
  from assms find_account_Some [OF assms(2)] show ?thesis
    by (fastforce simp: run_ok data wallet_limit_roundtrip)
qed

text \<open>A transfer under the limits is counted: when the hook, with the stablecoin program at the other end
  of its call, lets a transfer of n pass and the limit of the source's owner is stored in an account, the
  hook's caller gets that account back with n charged to the window, at most the maximum.\<close>

theorem transfer_is_counted:
  assumes "transfer_hook hr ctx n = Inr accounts" and "ai_data (hc_config ctx) = config_bytes c"
    and "flag_set c FLAG_WALLET_RATE_LIMITS" and "hr_invoke hr = stablecoin_invoke rt"
    and "find_account (sss_pda hr (wallet_limit_seeds (hc_mint ctx) (source_owner ctx))) (hc_remaining ctx) = Some a"
    and "ai_data a = wallet_limit_bytes l"
    and "ai_key a \<notin> {HOOK_PROGRAM_ID, sss_pda hr (config_seeds (hc_mint ctx)), hc_mint ctx}"
  shows "\<exists>l'. limit_charge (rt_slot rt) n l = Inr l' \<and> a\<lparr>ai_data := wallet_limit_bytes l'\<rparr> \<in> set accounts \<and>
    wl_transferred_this_window l' \<le> wl_max_transfer_per_window l \<and>
    n \<le> wl_transferred_this_window l'"
proof -
  from assms(1) obtain flags where ok: "read_flags hr ctx = Inr flags"
    "limit_check hr ctx flags (source_owner ctx) n = Inr accounts"
    by (rule transfer_hook_ok) blast
  from ok(1) assms(2) have flags: "flags = c_feature_flags c"
    by (simp add: read_flags_def Let_def run_ok hook_reads_config)
  from ok(2) assms(3,5) obtain cfg tp hp mi where found:
    "find_account (sss_pda hr (config_seeds (hc_mint ctx))) (hc_remaining ctx) = Some cfg"
    "find_account HOOK_PROGRAM_ID (hc_remaining ctx) = Some hp" "find_account (hc_mint ctx) (hc_remaining ctx) = Some mi"
    and call: "hr_invoke hr SSS_TOKEN_PROGRAM_ID
      [(HOOK_PROGRAM_ID, False, False), (ai_key cfg, False, False), (hc_mint ctx, False, False), (ai_key a, False, True)]
      (update_limit_data (source_owner ctx) n (hr_slot hr)) [hp, cfg, mi, a, tp] = Inr accounts"
    by (auto simp: limit_check_def Let_def flags run_ok)
  from found [THEN find_account_Some] assms(7) have "find_account (ai_key a) [hp, cfg, mi, a, tp] = Some a"
    by (auto simp: find_account_def)
  from stablecoin_invoke_limit [OF call [unfolded assms(4)] this assms(6)] obtain l' c' where
    "update_wallet_rate_limit_handler rt
      \<lparr>ul_caller = HOOK_PROGRAM_ID, ul_caller_signed = False, ul_config = \<lparr>key_of = ai_key cfg, data_of = c'\<rparr>,
       ul_mint = hc_mint ctx, ul_limit = \<lparr>key_of = ai_key a, data_of = l\<rparr>\<rparr> (source_owner ctx) n = Inr l'"
    and returned: "a\<lparr>ai_data := wallet_limit_bytes l'\<rparr> \<in> set accounts" by blast
  then have charge: "limit_charge (rt_slot rt) n l = Inr l'"
    using update_handler_charge by fastforce
  from charge returned limit_charge_ok [OF charge] show ?thesis by (auto simp: word_le_nat_alt)
qed

section \<open>The accounts that are resolved\<close>

text \<open>
  What Token-2022 makes of an entry of the list, for the accounts of a transfer: the address derived,
  for the program of the hook itself, from the literal, the keys and the data that the seeds name
  (documented behaviour of \<open>new_with_seeds\<close>). A derivation for another program is an entry of
  a different kind, which the list does not have.
\<close>

definition seed_of :: "acct_info list \<Rightarrow> meta_seed \<Rightarrow> seed" where
  "seed_of accts s = (case s of
      SeedLiteral t \<Rightarrow> SeedStr t
    | SeedAccountKey i \<Rightarrow> SeedKey (ai_key (accts ! i))
    | SeedAccountData i off n \<Rightarrow> SeedKey (key_from (slice off n (ai_data (accts ! i)))))"

definition resolve_meta :: "hook_runtime \<Rightarrow> acct_info list \<Rightarrow> extra_account_meta \<Rightarrow> pubkey" where
  "resolve_meta hr accts m = hook_pda hr (map (seed_of accts) (em_seeds m))"

text \<open>The second entry of the list resolves to an address derived for the hook, while the hook expects the
  configuration at the address derived for the stablecoin program. Where the two derivations differ, the
  hook refuses every transfer whose accounts are the resolved ones, whatever its amount and parties.\<close>

theorem resolved_transfer_refused:
  assumes "ai_key (hc_config ctx) = resolve_meta hr accts (extra_account_metas ! 1)" and "ai_key (accts ! 1) = hc_mint ctx"
    and "hook_pda hr (config_seeds (hc_mint ctx)) \<noteq> sss_pda hr (config_seeds (hc_mint ctx))"
  shows "\<exists>e. transfer_hook hr ctx n = Inl e"
proof (cases "transfer_hook hr ctx n")
  case (Inr accounts)
  then obtain flags where "read_flags hr ctx = Inr flags" by (rule transfer_hook_ok) blast
  then have "ai_key (hc_config ctx) = sss_pda hr (config_seeds (hc_mint ctx))"
    by (simp add: read_flags_def Let_def run_ok)
  moreover have "ai_key (hc_config ctx) = hook_pda hr (config_seeds (hc_mint ctx))"
    using assms(1,2) by (simp add: resolve_meta_def extra_account_metas_def seed_of_def config_seeds_def)
  ultimately show ?thesis using assms(3) by simp
qed simp

section \<open>The blacklist over time\<close>

text \<open>A wallet frozen by \<open>blacklist_add_and_freeze\<close>, with this repository's hook registered, is locked out: the
  hook refuses, from the blacklist it leaves, every transfer from or to an account of that owner.\<close>

theorem blacklisted_wallet_locked_out:
  assumes "blacklist_add_and_freeze rt hook_find
      (\<lambda>program authority mint bl k. case blacklist_add hr authority mint bl k of Inl e \<Rightarrow> Inl 0 | Inr b \<Rightarrow> Inr b)
      w fctx = Inr (b, w')"
    and "rt_token rt w (bf_target fctx) = Some target" and "data_of (hc_blacklist ctx) = b"
    and "source_owner ctx = ta_owner target \<or> destination_owner ctx = ta_owner target"
  shows "\<exists>e. transfer_hook hr' ctx n = Inl e"
proof -
  from assms(1,2) have "blacklist_add hr (bf_compliance_authority fctx) (bf_mint fctx) (bf_blacklist fctx) (ta_owner target) = Inr b"
    by (auto simp: blacklist_add_and_freeze_def Let_def run_ok guarded_Inr split: sum.splits)
  then have listed: "is_blacklisted b (ta_owner target)"
    by (auto simp: blacklist_add_def Let_def guarded_Inr is_blacklisted_def split: if_splits)
  show ?thesis
  proof (cases "transfer_hook hr' ctx n")
    case (Inr accounts)
    then have "blacklist_check ctx = Inr (source_owner ctx)" by (rule transfer_hook_ok)
    with listed assms(3,4) show ?thesis by (auto simp: run_ok)
  qed simp
qed

text \<open>A history of the blacklist: additions and removals, by whoever holds the authority.\<close>

datatype blacklist_event = Add pubkey pubkey | Remove pubkey pubkey

fun blacklist_exec ::
  "hook_runtime \<Rightarrow> pubkey \<Rightarrow> pubkey \<Rightarrow> blacklist_event \<Rightarrow> blacklist_state \<Rightarrow> blacklist_state hook_res" where
  "blacklist_exec hr k mint (Add authority address) b = blacklist_add hr authority mint \<lparr>key_of = k, data_of = b\<rparr> address"
| "blacklist_exec hr k mint (Remove authority address) b = blacklist_remove hr authority mint \<lparr>key_of = k, data_of = b\<rparr> address"

definition blacklist_wf :: "blacklist_state \<Rightarrow> bool" where
  "blacklist_wf b \<longleftrightarrow> distinct (bl_blacklisted b) \<and> length (bl_blacklisted b) \<le> 100"

lemma blacklist_add_ok:
  assumes "blacklist_add hr authority mint bl x = Inr b'"
  shows "blacklist_wf (data_of bl) \<Longrightarrow> blacklist_wf b'" "set (bl_blacklisted b') = insert x (set (bl_blacklisted (data_of bl)))"
  using assms by (auto simp: blacklist_add_def Let_def guarded_Inr blacklist_wf_def blacklist_size_def
      BLACKLIST_INIT_SPACE_def split: if_splits)

lemma blacklist_remove_ok:
  assumes "blacklist_remove hr authority mint bl x = Inr b'"
  shows "blacklist_wf (data_of bl) \<Longrightarrow> blacklist_wf b'" "set (bl_blacklisted b') = set (bl_blacklisted (data_of bl)) - {x}"
  using assms le_trans [OF length_filter_le, of "bl_blacklisted (data_of bl)" 100]
  by (auto simp: blacklist_remove_def Let_def guarded_Inr blacklist_wf_def)

lemma blacklist_exec_ok:
  assumes "blacklist_exec hr k mint e b = Inr b'"
  shows "blacklist_wf b \<Longrightarrow> blacklist_wf b'"
    "set (bl_blacklisted b') = (case e of Add _ x \<Rightarrow> insert x (set (bl_blacklisted b)) | Remove _ x \<Rightarrow> set (bl_blacklisted b) - {x})"
  using assms by (cases e; simp add: blacklist_add_ok blacklist_remove_ok)+

interpretation blacklist: preserved "blacklist_exec hr k mint" "\<lambda>_. True" blacklist_wf for hr k mint
  by unfold_locales (rule blacklist_exec_ok(1))

text \<open>The specification: the set of listed wallets, changed by the additions and removals that went through.\<close>

fun blacklist_spec :: "hook_runtime \<Rightarrow> pubkey \<Rightarrow> pubkey \<Rightarrow> blacklist_event list \<Rightarrow> blacklist_state \<Rightarrow> pubkey set \<Rightarrow> pubkey set" where
  "blacklist_spec hr k mint [] b S = S"
| "blacklist_spec hr k mint (e # es) b S =
     (case blacklist_exec hr k mint e b of
        Inl _ \<Rightarrow> blacklist_spec hr k mint es b S
      | Inr b' \<Rightarrow> blacklist_spec hr k mint es b' (case e of Add _ x \<Rightarrow> insert x S | Remove _ x \<Rightarrow> S - {x}))"

lemma blacklist_spec_play:
  "set (bl_blacklisted b) = S \<Longrightarrow>
     set (bl_blacklisted (play (blacklist_exec hr k mint) es b)) = blacklist_spec hr k mint es b S"
proof (induction es arbitrary: b S)
  case (Cons e es)
  then show ?case by (auto simp: blacklist_exec_ok(2) split: sum.split)
qed simp

text \<open>C19: The blacklist that \<open>initialize_extra_account_meta_list\<close> creates is, after any history, the set that the
  successful additions and removals make, listed without repetition, at most a hundred wallets; a
  full list refuses the next wallet.\<close>

theorem blacklist_is_a_bounded_set:
  assumes "initialize_extra_account_meta_list hr ml authority mint meta_list existing = Inr (data, b)"
  shows "let b' = play (blacklist_exec hr k mint) es b in
    set (bl_blacklisted b') = blacklist_spec hr k mint es b {} \<and> distinct (bl_blacklisted b') \<and>
    length (bl_blacklisted b') \<le> 100 \<and>
    (\<forall>x a. length (bl_blacklisted b') = 100 \<and> x \<notin> set (bl_blacklisted b') \<longrightarrow>
       (\<exists>err. blacklist_exec hr k mint (Add a x) b' = Inl err))"
proof -
  from assms have empty: "bl_blacklisted b = []"
    by (auto simp: initialize_extra_account_meta_list_def Let_def run_ok)
  then have "blacklist_wf b" by (simp add: blacklist_wf_def)
  then have wf: "blacklist_wf (play (blacklist_exec hr k mint) es b)" by (rule blacklist.play_inv) simp
  have full: "\<exists>err. blacklist_exec hr k mint (Add a x) b' = Inl err"
    if "length (bl_blacklisted b') = 100" "x \<notin> set (bl_blacklisted b')" for a x b'
    using that by (cases "blacklist_exec hr k mint (Add a x) b'")
      (auto simp: blacklist_add_def Let_def guarded_Inr blacklist_size_def BLACKLIST_INIT_SPACE_def)
  from wf full blacklist_spec_play [of b "{}"] empty show ?thesis
    by (auto simp: Let_def blacklist_wf_def)
qed

section \<open>At work\<close>

text \<open>
  A stablecoin with every policy on, a wallet 9 that satisfies them all, and derived addresses that
  differ from program to program.
\<close>

definition first_code :: "seed list \<Rightarrow> pubkey" where
  "first_code seeds = (case seeds of SeedStr (ch # t) # rest \<Rightarrow> of_nat (of_char ch) | _ \<Rightarrow> 0)"

definition demo_find :: "pubkey \<Rightarrow> seed list \<Rightarrow> pubkey \<times> u8" where
  "demo_find program seeds =
     (1000 * ref_pda seeds + 2 * first_code seeds + (if program = HOOK_PROGRAM_ID then 1 else 0), 255)"

definition demo_token_rt :: "ref_ledger runtime" where
  "demo_token_rt = (ref_runtime 5000 0 0)\<lparr>rt_create_pda := (\<lambda>seeds b. Some (fst (demo_find SSS_TOKEN_PROGRAM_ID seeds))),
     rt_find_pda := demo_find SSS_TOKEN_PROGRAM_ID\<rparr>"

definition demo_hook_rt :: hook_runtime where
  "demo_hook_rt = \<lparr>hr_slot = 5000, hr_find_pda = demo_find,
     hr_create_pda = (\<lambda>program seeds b. Some (fst (demo_find program seeds))), hr_invoke = stablecoin_invoke demo_token_rt\<rparr>"

definition demo_hook_cfg :: stablecoin_config where
  "demo_hook_cfg = demo_config\<lparr>c_transfer_hook_program := HOOK_PROGRAM_ID, c_feature_flags := 37266,
     c_max_transfer_amount := 80, c_sanctions_oracle := 60, c_sanctions_max_staleness_slots := 500\<rparr>"

definition demo_plain :: "pubkey \<Rightarrow> acct_info" where
  "demo_plain k = \<lparr>ai_key = k, ai_writable = False, ai_data = []\<rparr>"

definition demo_token_info :: "pubkey \<Rightarrow> pubkey \<Rightarrow> acct_info" where
  "demo_token_info k owner = \<lparr>ai_key = k, ai_writable = True, ai_data = replicate 32 0 @ key_bytes owner @ replicate 101 0\<rparr>"

definition demo_config_info :: acct_info where
  "demo_config_info = \<lparr>ai_key = fst (demo_find SSS_TOKEN_PROGRAM_ID (config_seeds 5)), ai_writable = False,
     ai_data = config_bytes demo_hook_cfg\<rparr>"

definition demo_limit_info :: "u64 \<Rightarrow> u64 \<Rightarrow> acct_info" where
  "demo_limit_info used start = \<lparr>ai_key = fst (demo_find SSS_TOKEN_PROGRAM_ID (wallet_limit_seeds 5 9)), ai_writable = True,
     ai_data = wallet_limit_bytes (demo_limit used start)\<rparr>"

definition demo_sanctions_info :: "bool \<Rightarrow> acct_info" where
  "demo_sanctions_info b = \<lparr>ai_key = fst (demo_find SSS_TOKEN_PROGRAM_ID (sanctions_seeds 5 9)), ai_writable = False,
     ai_data = sanctions_bytes \<lparr>sr_is_sanctioned = b, sr_updated_slot = 4900, sr_bump = 255\<rparr>\<rparr>"

definition demo_credential_info :: acct_info where
  "demo_credential_info = \<lparr>ai_key = fst (demo_find SSS_TOKEN_PROGRAM_ID (credential_seeds 5 9)), ai_writable = False,
     ai_data = credential_bytes \<lparr>cr_sss_mint = 5, cr_holder = 9, cr_issued_slot = 1, cr_expires_slot = 6000,
       cr_revoked = False, cr_bump = 255\<rparr>\<rparr>"

definition demo_verification_info :: acct_info where
  "demo_verification_info = \<lparr>ai_key = fst (demo_find SSS_TOKEN_PROGRAM_ID (verification_seeds 5 9)), ai_writable = False,
     ai_data = verification_bytes \<lparr>vr_sss_mint = 5, vr_user = 9, vr_expires_at_slot = 5001, vr_bump = 255\<rparr>\<rparr>"

definition demo_blacklist :: "pubkey list \<Rightarrow> blacklist_state account" where
  "demo_blacklist ks = \<lparr>key_of = fst (demo_find HOOK_PROGRAM_ID (blacklist_seeds 5)),
     data_of = \<lparr>bl_mint = 5, bl_authority = 8, bl_blacklisted = ks, bl_bump = 255\<rparr>\<rparr>"

definition demo_transfer :: "pubkey list \<Rightarrow> bool \<Rightarrow> hook_ctx" where
  "demo_transfer ks b =
     \<lparr>hc_source = demo_token_info 20 9, hc_mint = 5, hc_destination = demo_token_info 21 10, hc_owner = 9,
      hc_meta_list = fst (demo_find HOOK_PROGRAM_ID (meta_list_seeds 5)), hc_blacklist = demo_blacklist ks,
      hc_config = demo_config_info, hc_verification = demo_verification_info,
      hc_remaining = [demo_sanctions_info b, demo_credential_info, demo_limit_info 20 4500, demo_config_info,
        demo_plain SSS_TOKEN_PROGRAM_ID, demo_plain HOOK_PROGRAM_ID, demo_plain 5]\<rparr>"

lemma demo_pdas [simp]:
  "sss_pda demo_hook_rt seeds = fst (demo_find SSS_TOKEN_PROGRAM_ID seeds)"
  "hook_pda demo_hook_rt seeds = fst (demo_find HOOK_PROGRAM_ID seeds)"
  "hr_create_pda demo_hook_rt program seeds b = Some (fst (demo_find program seeds))" "hr_slot demo_hook_rt = 5000"
  by (simp_all add: sss_pda_def hook_pda_def demo_hook_rt_def)

lemma program_ids [simp]:
  "SSS_TOKEN_PROGRAM_ID \<noteq> HOOK_PROGRAM_ID" "HOOK_PROGRAM_ID \<noteq> SSS_TOKEN_PROGRAM_ID"
  "unat k < 2 ^ 64 \<Longrightarrow> k \<noteq> HOOK_PROGRAM_ID" "unat k < 2 ^ 64 \<Longrightarrow> HOOK_PROGRAM_ID \<noteq> k"
  "unat k < 2 ^ 64 \<Longrightarrow> k \<noteq> SSS_TOKEN_PROGRAM_ID" "unat k < 2 ^ 64 \<Longrightarrow> SSS_TOKEN_PROGRAM_ID \<noteq> k"
  by (auto simp: SSS_TOKEN_PROGRAM_ID_def HOOK_PROGRAM_ID_def)

lemma demo_addresses [simp]:
  "demo_find SSS_TOKEN_PROGRAM_ID (config_seeds 5) = (1005017230, 255)"
  "demo_find SSS_TOKEN_PROGRAM_ID (wallet_limit_seeds 5 9) = (1009005017238, 255)"
  "demo_find SSS_TOKEN_PROGRAM_ID (sanctions_seeds 5 9) = (1009005016230, 255)"
  "demo_find SSS_TOKEN_PROGRAM_ID (credential_seeds 5 9) = (1009005017198, 255)"
  "demo_find SSS_TOKEN_PROGRAM_ID (verification_seeds 5 9) = (1009005015244, 255)"
  "demo_find HOOK_PROGRAM_ID (config_seeds 5) = (1005017231, 255)"
  "demo_find HOOK_PROGRAM_ID (blacklist_seeds 5) = (1005015197, 255)"
  by (simp_all add: demo_find_def first_code_def ref_pda_def config_seeds_def wallet_limit_seeds_def sanctions_seeds_def
      credential_seeds_def verification_seeds_def blacklist_seeds_def)

lemma demo_owner [simp]:
  "key_at 32 (ai_data (demo_token_info k owner)) = owner" "64 \<le> length (ai_data (demo_token_info k owner))"
  by (simp_all add: demo_token_info_def at_field)

lemmas demo_infos = demo_plain_def demo_config_info_def demo_limit_info_def demo_sanctions_info_def
  demo_credential_info_def demo_verification_info_def

lemma demo_first:
  "hc_remaining (demo_transfer ks b) = demo_sanctions_info b # tl (hc_remaining (demo_transfer ks b))"
  by (simp add: demo_transfer_def)

lemma demo_seen:
  "find_account 1009005017238 (hc_remaining (demo_transfer ks b)) = Some (demo_limit_info 20 4500)"
  "find_account 1009005017198 (hc_remaining (demo_transfer ks b)) = Some demo_credential_info"
  "find_account 1005017230 (hc_remaining (demo_transfer ks b)) = Some demo_config_info"
  "find_account SSS_TOKEN_PROGRAM_ID (hc_remaining (demo_transfer ks b)) = Some (demo_plain SSS_TOKEN_PROGRAM_ID)"
  "find_account HOOK_PROGRAM_ID (hc_remaining (demo_transfer ks b)) = Some (demo_plain HOOK_PROGRAM_ID)"
  "find_account 5 (hc_remaining (demo_transfer ks b)) = Some (demo_plain 5)"
  by (simp_all add: demo_transfer_def find_account_def demo_infos)

lemma demo_cfg_fields [simp]:
  "c_feature_flags demo_hook_cfg = 37266" "c_max_transfer_amount demo_hook_cfg = 80" "c_sanctions_oracle demo_hook_cfg = 60"
  "c_sanctions_max_staleness_slots demo_hook_cfg = 500" "c_transfer_hook_program demo_hook_cfg = HOOK_PROGRAM_ID"
  "c_mint demo_hook_cfg = 5" "c_authority demo_hook_cfg = 7" "c_authorized_keepers demo_hook_cfg = []" "c_bump demo_hook_cfg = 255"
  by (simp_all add: demo_hook_cfg_def demo_config_def)

lemma demo_counts:
  "stablecoin_invoke demo_token_rt SSS_TOKEN_PROGRAM_ID
     [(HOOK_PROGRAM_ID, False, False), (1005017230, False, False), (5, False, False), (1009005017238, False, True)]
     (update_limit_data 9 80 5000)
     [demo_plain HOOK_PROGRAM_ID, demo_config_info, demo_plain 5, demo_limit_info 20 4500, demo_plain SSS_TOKEN_PROGRAM_ID] =
   Inr [demo_plain HOOK_PROGRAM_ID, demo_config_info, demo_plain 5, demo_limit_info 100 4500, demo_plain SSS_TOKEN_PROGRAM_ID]"
proof -
  have data: "key_at 8 (update_limit_data 9 80 5000) = 9" "u64_at 40 (update_limit_data 9 80 5000) = 80"
    "take 8 (update_limit_data 9 80 5000) = UPDATE_LIMIT_DISCRIMINATOR" "length (update_limit_data 9 80 5000) = 56"
    by (simp_all add: update_limit_data_def UPDATE_LIMIT_DISCRIMINATOR_def at_field)
  have cfg: "config_from (config_bytes demo_hook_cfg) = Some demo_hook_cfg"
    by (rule config_from_bytes) simp
  have handler: "update_wallet_rate_limit_handler demo_token_rt
      \<lparr>ul_caller = HOOK_PROGRAM_ID, ul_caller_signed = False, ul_config = \<lparr>key_of = 1005017230, data_of = demo_hook_cfg\<rparr>,
       ul_mint = 5, ul_limit = \<lparr>key_of = 1009005017238, data_of = demo_limit 20 4500\<rparr>\<rparr> 9 80 = Inr (demo_limit 100 4500)"
    by (simp add: update_wallet_rate_limit_handler_def Let_def config_ok_def seeds_ok_def demo_token_rt_def
        limit_charge_def saturating_add_def checked_add_def HOOK_PROGRAM_ID_def demo_limit_def)
  show ?thesis
    by (simp add: data find_account_def demo_infos wallet_limit_roundtrip cfg handler refuse_def)
qed

lemma demo_transfer_fields [simp]:
  "hc_source (demo_transfer ks b) = demo_token_info 20 9" "hc_mint (demo_transfer ks b) = 5"
  "hc_destination (demo_transfer ks b) = demo_token_info 21 10" "hc_owner (demo_transfer ks b) = 9"
  "hc_config (demo_transfer ks b) = demo_config_info" "hc_verification (demo_transfer ks b) = demo_verification_info"
  "hc_blacklist (demo_transfer ks b) = demo_blacklist ks" "ai_data demo_config_info = config_bytes demo_hook_cfg"
  "hc_meta_list (demo_transfer ks b) = fst (demo_find HOOK_PROGRAM_ID (meta_list_seeds 5))"
  by (simp_all add: demo_transfer_def demo_config_info_def)

lemma demo_flags: "check_feature_flag 37266 FLAG_SPEND_POLICY" "\<not> check_feature_flag 37266 FLAG_CONFIDENTIAL_TRANSFERS"
  "check_feature_flag 37266 FLAG_ZK_COMPLIANCE" "check_feature_flag 37266 FLAG_SANCTIONS_ORACLE"
  "check_feature_flag 37266 FLAG_ZK_CREDENTIALS" "check_feature_flag 37266 FLAG_WALLET_RATE_LIMITS"
  "check_feature_flag 37266 FLAG_REQUIRE_OWNER_CONSENT"
  by (simp_all add: check_feature_flag_def flag_defs)

lemma demo_checks:
  "read_flags demo_hook_rt (demo_transfer ks b) = Inr 37266"
  "spend_check (demo_transfer ks b) 37266 80 = Inr ()"
  "zk_check demo_hook_rt (demo_transfer ks b) 37266 9 = Inr ()"
  "sanctions_check demo_hook_rt (demo_transfer ks False) 37266 9 = Inr ()"
  "credential_check demo_hook_rt (demo_transfer ks b) 37266 9 = Inr ()"
  "consent_check demo_hook_rt (demo_transfer ks b) = Inr ()"
proof -
  show "read_flags demo_hook_rt (demo_transfer ks b) = Inr 37266"
    by (simp add: read_flags_def Let_def hook_reads_config) (simp add: demo_config_info_def)
  show "spend_check (demo_transfer ks b) 37266 80 = Inr ()"
    by (simp add: spend_check_def hook_reads_config demo_flags)
  show "zk_check demo_hook_rt (demo_transfer ks b) 37266 9 = Inr ()"
    by (simp add: zk_check_def Let_def demo_flags demo_verification_info_def hook_reads_records)
      (simp add: ZK_RECORD_MIN_SIZE_def verification_fields)
  show "sanctions_check demo_hook_rt (demo_transfer ks False) 37266 9 = Inr ()"
    unfolding sanctions_check_def Let_def
    by (subst demo_first) (simp add: demo_sanctions_info_def sanctioned_def hook_reads_records)
  show "credential_check demo_hook_rt (demo_transfer ks b) 37266 9 = Inr ()"
    by (simp add: credential_check_def Let_def demo_flags demo_seen)
      (simp add: demo_credential_info_def hook_reads_records credential_fields)
  show "consent_check demo_hook_rt (demo_transfer ks b) = Inr ()"
    by (simp add: consent_check_def Let_def token_owner_def)
qed

lemma demo_limit_check:
  "limit_check demo_hook_rt (demo_transfer ks b) 37266 9 80 =
     Inr [demo_plain HOOK_PROGRAM_ID, demo_config_info, demo_plain 5, demo_limit_info 100 4500, demo_plain SSS_TOKEN_PROGRAM_ID]"
proof -
  have pre: "limit_pre_check demo_hook_rt (ai_data (demo_limit_info 20 4500)) 80"
    by (simp add: limit_pre_check_def Let_def demo_limit_info_def offset_defs wallet_limit_fields)
      (simp add: demo_limit_def saturating_add_def)
  have invoke: "hr_invoke demo_hook_rt = stablecoin_invoke demo_token_rt" by (simp add: demo_hook_rt_def)
  have keys: "ai_key (demo_limit_info 20 4500) = 1009005017238" "ai_key demo_config_info = 1005017230"
    "ai_writable (demo_limit_info 20 4500)"
    by (simp_all add: demo_limit_info_def demo_config_info_def)
  show ?thesis
    by (simp add: limit_check_def Let_def demo_flags demo_seen pre invoke keys demo_counts del: stablecoin_invoke.simps)
qed

lemma demo_transfer_passes:
  "transfer_hook demo_hook_rt (demo_transfer [11] False) 80 =
     Inr [demo_plain HOOK_PROGRAM_ID, demo_config_info, demo_plain 5, demo_limit_info 100 4500, demo_plain SSS_TOKEN_PROGRAM_ID]"
proof -
  have accounts: "hook_accounts demo_hook_rt (demo_transfer [11] False) =
      [(True, HookAnchor ConstraintSeeds), (True, HookAnchor ConstraintSeeds)]"
    by (simp add: hook_accounts_def demo_blacklist_def)
  have owner: "blacklist_check (demo_transfer [11] False) = Inr 9"
    by (simp add: blacklist_check_def Let_def token_owner_def is_blacklisted_def demo_blacklist_def)
  show ?thesis
    by (simp add: transfer_hook_def accounts owner demo_checks demo_limit_check)
qed


theorem transfer_is_counted_witness:
  "\<exists>l'. limit_charge 5000 80 (demo_limit 20 4500) = Inr l' \<and> 80 \<le> wl_transferred_this_window l'"
proof -
  have "hr_invoke demo_hook_rt = stablecoin_invoke demo_token_rt" by (simp add: demo_hook_rt_def)
  moreover have "rt_slot demo_token_rt = 5000" by (simp add: demo_token_rt_def)
  ultimately show ?thesis
    using transfer_is_counted [OF demo_transfer_passes, of demo_hook_cfg demo_token_rt "demo_limit_info 20 4500" "demo_limit 20 4500"]
    by (auto simp: demo_flags demo_seen) (auto simp: demo_limit_info_def)
qed

theorem sanctions_checks_agree_witness:
  "sanctions_check demo_hook_rt (demo_transfer [] True) 37266 9 = Inl (Hook HookSanctionedAddress)"
proof -
  define r where "r = \<lparr>sr_is_sanctioned = True, sr_updated_slot = (4900 :: u64), sr_bump = (255 :: u8)\<rparr>"
  have "sanctions_check demo_hook_rt (demo_transfer [] True) (c_feature_flags demo_hook_cfg) 9 =
      as_hook (verify_sanctions_if_required demo_hook_cfg (Some r) (hr_slot demo_hook_rt))"
    by (rule sanctions_checks_agree [where a = "demo_sanctions_info True" and rest = "tl (hc_remaining (demo_transfer [] True))"])
      (simp, rule demo_first, simp_all add: demo_sanctions_info_def holds_record_def r_def)
  then show ?thesis
    by (simp add: verify_sanctions_if_required_def demo_flags as_hook_def r_def saturating_sub_def)
qed

theorem resolved_transfer_refused_witness:
  "\<exists>e. transfer_hook demo_hook_rt ((demo_transfer [] False)\<lparr>hc_config := demo_config_info\<lparr>ai_key := 1005017231\<rparr>\<rparr>) 1 = Inl e"
  by (rule resolved_transfer_refused [where accts = "[demo_token_info 20 9, demo_plain 5, demo_token_info 21 10, demo_plain 9]"])
    (simp_all add: resolve_meta_def extra_account_metas_def seed_of_def demo_plain_def config_seeds_def [symmetric])

definition demo_meta_library :: meta_library where
  "demo_meta_library = \<lparr>ml_size_of = (\<lambda>n. 16 + 35 * n), ml_init = (\<lambda>data metas. Inr data), ml_rent = (\<lambda>n. 1000),
     ml_create = (\<lambda>k data lamports n. Inr (replicate n 0)), ml_fund = (\<lambda>k lamports. Inr ())\<rparr>"

lemma demo_hook_init:
  "\<exists>data. initialize_extra_account_meta_list demo_hook_rt demo_meta_library 8 5
     (demo_plain (fst (demo_find HOOK_PROGRAM_ID (meta_list_seeds 5)))) None = Inr (data, data_of (demo_blacklist []))"
  by (simp add: initialize_extra_account_meta_list_def demo_meta_library_def library_result_def Let_def demo_plain_def
      demo_blacklist_def demo_hook_rt_def demo_find_def hook_pda_def)

theorem blacklist_is_a_bounded_set_witness:
  "set (bl_blacklisted (play (blacklist_exec demo_hook_rt 1005015197 5) [Add 8 11, Add 8 12, Remove 8 11]
     (data_of (demo_blacklist [])))) = {12}"
proof -
  obtain data where "initialize_extra_account_meta_list demo_hook_rt demo_meta_library 8 5
     (demo_plain (fst (demo_find HOOK_PROGRAM_ID (meta_list_seeds 5)))) None = Inr (data, data_of (demo_blacklist []))"
    using demo_hook_init by blast
  from blacklist_is_a_bounded_set [OF this, where k = 1005015197 and es = "[Add 8 11, Add 8 12, Remove 8 11]"] show ?thesis
    by (auto simp: Let_def blacklist_add_def blacklist_remove_def manage_blacklist_def demo_blacklist_def blacklist_size_def
        BLACKLIST_INIT_SPACE_def)
qed

theorem blacklisted_wallet_locked_out_witness:
  "\<exists>e. transfer_hook demo_hook_rt (demo_transfer [9] False) 1 = Inl e"
proof -
  define fctx where "fctx = \<lparr>bf_compliance_authority = 8, bf_config = \<lparr>key_of = 1005017230, data_of = demo_hook_cfg\<rparr>,
    bf_mint = 5, bf_target = 20, bf_blacklist = demo_blacklist [], bf_hook_program = HOOK_PROGRAM_ID\<rparr>"
  define rt where "rt = demo_token_rt\<lparr>rt_invoke := (\<lambda>w sgs ix. Inr w), rt_token := rl_tokens, rt_mint := rl_mints\<rparr>"
  have "blacklist_add_and_freeze rt (\<lambda>program seeds. fst (demo_find program seeds))
      (\<lambda>program authority mint bl k. case blacklist_add demo_hook_rt authority mint bl k of Inl e \<Rightarrow> Inl 0 | Inr b \<Rightarrow> Inr b)
      demo_ledger fctx = Inr (data_of (demo_blacklist [9]), demo_ledger)"
    by (simp add: blacklist_add_and_freeze_def Let_def fctx_def rt_def demo_token_rt_def load_mint_def load_token_def
        config_ok_def seeds_ok_def cpi_signed_def cpi_def blacklist_add_def manage_blacklist_def demo_blacklist_def
        demo_ledger_def blacklist_size_def BLACKLIST_INIT_SPACE_def demo_hook_cfg_def demo_config_def)
  then show ?thesis
    by (rule blacklisted_wallet_locked_out [where target = "\<lparr>ta_mint = 5, ta_owner = 9, ta_amount = 600\<rparr>"])
      (simp_all add: rt_def demo_token_rt_def fctx_def demo_ledger_def)
qed
end
