(* ===== verification/Ballots.thy ===== *)
theory Ballots
  imports Admin Machine Demo
begin

text \<open>
  Decisions by vote (programs/sss-token/src/instructions): the guardians' emergency pause
  (guardian.rs) and the committee's proposals (dao\_committee.rs). What both ballots promise is a
  locale: votes come from distinct members.
\<close>

section \<open>The contract of a ballot\<close>

text \<open>\<open>cast c k b b'\<close>: in the electorate c the vote of k turns ballot b into b'.\<close>

locale ballot =
  fixes cast :: "'c \<Rightarrow> pubkey \<Rightarrow> 'b \<Rightarrow> 'b \<Rightarrow> bool"
    and votes :: "'b \<Rightarrow> pubkey list"
    and members :: "'c \<Rightarrow> pubkey list"
  assumes cast_member: "cast c k b b' \<Longrightarrow> k \<in> set (members c)"
    and cast_new: "cast c k b b' \<Longrightarrow> k \<notin> set (votes b)"
    and cast_adds: "cast c k b b' \<Longrightarrow> votes b' = votes b @ [k]"
begin

definition sound :: "'c \<Rightarrow> 'b \<Rightarrow> bool" where
  "sound c b \<longleftrightarrow> distinct (votes b) \<and> set (votes b) \<subseteq> set (members c)"

lemma sound_empty: "votes b = [] \<Longrightarrow> sound c b"
  by (simp add: sound_def)

lemma sound_cast: "sound c b \<Longrightarrow> cast c k b b' \<Longrightarrow> sound c b'"
  by (auto simp: sound_def cast_adds dest: cast_member cast_new)

lemma sound_quorum: "sound c b \<Longrightarrow> n \<le> length (votes b) \<Longrightarrow> n \<le> card (set (votes b) \<inter> set (members c))"
  by (simp add: sound_def Int_absorb2 distinct_card)

lemma sound_bound: "sound c b \<Longrightarrow> length (votes b) \<le> length (members c)"
  by (simp add: sound_def distinct_subset_length)

text \<open>When a sound ballot has as many votes as there are distinct members, all of them voted.\<close>

lemma sound_unanimous:
  assumes "sound c b" and "length (members c) \<le> length (votes b)"
  shows "set (members c) \<subseteq> set (votes b)"
proof -
  have "card (set (members c)) \<le> length (members c)" by (rule card_length)
  with assms have "card (set (members c)) \<le> card (set (votes b))" by (simp add: sound_def distinct_card)
  with assms(1) show ?thesis unfolding sound_def by (metis card_seteq finite_set order_refl)
qed

end

section \<open>Guardians\<close>

record guardian_config =
  gc_config :: pubkey
  gc_guardians :: "pubkey list"
  gc_threshold :: u8
  gc_next_proposal_id :: u64
  gc_pending_lift_votes :: "pubkey list"
  gc_guardian_pause_active :: bool
  gc_guardian_pause_unlocks_at :: i64
  gc_bump :: u8

record pause_proposal =
  pp_config :: pubkey
  pp_proposal_id :: u64
  pp_proposer :: pubkey
  pp_reason :: bytes32
  pp_votes :: "pubkey list"
  pp_threshold :: u8
  pp_executed :: bool
  pp_bump :: u8

definition MAX_GUARDIANS :: nat where "MAX_GUARDIANS = 7"
definition GUARDIAN_PAUSE_AUTHORITY_OVERRIDE_DELAY :: i64 where "GUARDIAN_PAUSE_AUTHORITY_OVERRIDE_DELAY = 86400"

definition guardian_seeds :: "pubkey \<Rightarrow> seed list" where
  "guardian_seeds config = [SeedStr ''guardian-config'', SeedKey config]"

definition pause_proposal_seeds :: "pubkey \<Rightarrow> u64 \<Rightarrow> seed list" where
  "pause_proposal_seeds config i = [SeedStr ''pause-proposal'', SeedKey config, SeedU64 i]"

definition init_guardian_config_handler ::
  "'w runtime \<Rightarrow> admin_ctx \<Rightarrow> guardian_config option \<Rightarrow> pubkey list \<Rightarrow> u8 \<Rightarrow> guardian_config res" where
  "init_guardian_config_handler rt ctx existing guardians threshold =
     guarded (authority_accounts rt ctx @ [(existing = None, Anchor AccountAlreadyInUse)])
       (andthen (squads_gate (ac_cfg ctx) (ac_authority ctx)) (\<lambda>_.
        guarded
          [(guardians \<noteq> [], Queue GuardianListEmpty), (length guardians \<le> MAX_GUARDIANS, Queue GuardianListFull),
           (threshold \<ge> 1, Queue InvalidGuardianThreshold), (unat threshold \<le> length guardians, Queue InvalidGuardianThreshold),
           (\<not> has_duplicate guardians, Queue DuplicateGuardian)]
          (Inr \<lparr>gc_config = key_of (ac_config ctx), gc_guardians = guardians, gc_threshold = threshold,
                gc_next_proposal_id = 0, gc_pending_lift_votes = [], gc_guardian_pause_active = False,
                gc_guardian_pause_unlocks_at = 0,
                gc_bump = snd (rt_find_pda rt (guardian_seeds (key_of (ac_config ctx))))\<rparr>)))"

text \<open>The accounts of the guardians' instructions: who signs, the configuration, the mint, the guardians.\<close>

record guardian_ctx =
  gx_signer :: pubkey
  gx_config :: "stablecoin_config account"
  gx_mint :: pubkey
  gx_guardians :: "guardian_config account"

definition guardian_accounts :: "'w runtime \<Rightarrow> guardian_ctx \<Rightarrow> (bool \<times> error) list" where
  "guardian_accounts rt ctx =
     config_ok rt (gx_config ctx) (gx_mint ctx) @
     [(gx_mint ctx = c_mint (data_of (gx_config ctx)), Anchor ConstraintRaw),
      (seeds_ok rt (key_of (gx_guardians ctx)) (guardian_seeds (key_of (gx_config ctx)))
         (gc_bump (data_of (gx_guardians ctx))), Anchor ConstraintSeeds)]"

text \<open>What a passed proposal does, in the two places where one passes.\<close>

definition apply_guardian_pause ::
  "i64 \<Rightarrow> stablecoin_config \<Rightarrow> guardian_config \<Rightarrow> pause_proposal \<Rightarrow> (stablecoin_config \<times> guardian_config \<times> pause_proposal) res" where
  "apply_guardian_pause now c gc p =
     andthen (ok_or (i64_checked_add now GUARDIAN_PAUSE_AUTHORITY_OVERRIDE_DELAY) (Late Overflow)) (\<lambda>unlocks.
     Inr (c\<lparr>c_paused := True\<rparr>,
          gc\<lparr>gc_guardian_pause_active := True, gc_guardian_pause_unlocks_at := unlocks, gc_pending_lift_votes := []\<rparr>,
          p\<lparr>pp_executed := True\<rparr>))"

definition guardian_propose_pause_handler ::
  "'w runtime \<Rightarrow> guardian_ctx \<Rightarrow> pause_proposal option \<Rightarrow> bytes32 \<Rightarrow>
     (stablecoin_config \<times> guardian_config \<times> pause_proposal) res" where
  "guardian_propose_pause_handler rt ctx existing reason =
     (let c = data_of (gx_config ctx); gc = data_of (gx_guardians ctx); proposer = gx_signer ctx; i = gc_next_proposal_id gc in
      guarded
        (guardian_accounts rt ctx @
         [(existing = None, Anchor AccountAlreadyInUse), (proposer \<in> set (gc_guardians gc), Queue NotAGuardian)])
        (andthen (ok_or (checked_add i 1) (Late Overflow)) (\<lambda>next_id.
         let gc' = gc\<lparr>gc_next_proposal_id := next_id\<rparr>;
             p = \<lparr>pp_config = key_of (gx_config ctx), pp_proposal_id = i, pp_proposer = proposer, pp_reason = reason,
                  pp_votes = [proposer], pp_threshold = gc_threshold gc, pp_executed = False,
                  pp_bump = snd (rt_find_pda rt (pause_proposal_seeds (key_of (gx_config ctx)) i))\<rparr> in
         if gc_threshold gc = 1 then apply_guardian_pause (rt_unix_timestamp rt) c gc' p else Inr (c, gc', p))))"

definition guardian_vote_pause_handler ::
  "'w runtime \<Rightarrow> guardian_ctx \<Rightarrow> pause_proposal account \<Rightarrow> u64 \<Rightarrow>
     (stablecoin_config \<times> guardian_config \<times> pause_proposal) res" where
  "guardian_vote_pause_handler rt ctx proposal i =
     (let c = data_of (gx_config ctx); gc = data_of (gx_guardians ctx); p = data_of proposal; voter = gx_signer ctx;
          p' = p\<lparr>pp_votes := pp_votes p @ [voter]\<rparr> in
      guarded
        (guardian_accounts rt ctx @
         [(seeds_ok rt (key_of proposal) (pause_proposal_seeds (key_of (gx_config ctx)) i) (pp_bump p), Anchor ConstraintSeeds),
          (\<not> pp_executed p, Dao AlreadyVoted), (voter \<in> set (gc_guardians gc), Queue NotAGuardian),
          (pp_proposal_id p = i, Core Unauthorized), (voter \<notin> set (pp_votes p), Dao AlreadyVoted)])
        (if gc_threshold gc \<le> of_nat (length (pp_votes p')) then apply_guardian_pause (rt_unix_timestamp rt) c gc p'
         else Inr (c, gc, p')))"

definition lifted :: "stablecoin_config \<Rightarrow> guardian_config \<Rightarrow> stablecoin_config \<times> guardian_config" where
  "lifted c gc =
     (c\<lparr>c_paused := False\<rparr>,
      gc\<lparr>gc_guardian_pause_active := False, gc_guardian_pause_unlocks_at := 0, gc_pending_lift_votes := []\<rparr>)"

definition guardian_lift_pause_handler ::
  "'w runtime \<Rightarrow> guardian_ctx \<Rightarrow> (stablecoin_config \<times> guardian_config) res" where
  "guardian_lift_pause_handler rt ctx =
     (let c = data_of (gx_config ctx); gc = data_of (gx_guardians ctx); caller = gx_signer ctx;
          lifts = gc_pending_lift_votes gc @ [caller] in
      guarded (guardian_accounts rt ctx)
        (if caller \<in> set (gc_guardians gc) then
           guarded [(caller \<notin> set (gc_pending_lift_votes gc), Dao AlreadyVoted)]
             (if length (gc_guardians gc) \<le> length lifts then Inr (lifted c gc)
              else Inr (c, gc\<lparr>gc_pending_lift_votes := lifts\<rparr>))
         else
           guarded [(c_authority c = caller, Core Unauthorized)]
             (andthen (squads_gate c caller) (\<lambda>_.
              if gc_guardian_pause_active gc then
                guarded [(gc_guardian_pause_unlocks_at gc \<le> rt_unix_timestamp rt, Queue GuardianPauseTimelockActive)]
                  (Inr (lifted c gc))
              else Inr (c\<lparr>c_paused := False\<rparr>, gc\<lparr>gc_pending_lift_votes := []\<rparr>)))))"

section \<open>The committee\<close>

datatype proposal_action =
    DaoPause | DaoUnpause | SetFeatureFlag | ClearFeatureFlag | UpdateMinter | RevokeMinter | DrawInsurance

record proposal_pda =
  da_config :: pubkey
  da_proposal_id :: u64
  da_proposer :: pubkey
  da_action :: proposal_action
  da_param :: u64
  da_target :: pubkey
  da_votes :: "pubkey list"
  da_quorum :: u8
  da_executed :: bool
  da_cancelled :: bool
  da_cumulative_consumed :: u64
  da_bump :: u8

record dao_committee_config =
  dc_config :: pubkey
  dc_members :: "pubkey list"
  dc_quorum :: u8
  dc_next_proposal_id :: u64
  dc_bump :: u8

definition MAX_MEMBERS :: nat where "MAX_MEMBERS = 10"

definition committee_seeds :: "pubkey \<Rightarrow> seed list" where
  "committee_seeds config = [SeedStr ''dao-committee'', SeedKey config]"

definition proposal_seeds :: "pubkey \<Rightarrow> u64 \<Rightarrow> seed list" where
  "proposal_seeds config i = [SeedStr ''dao-proposal'', SeedKey config, SeedU64 i]"

definition init_dao_committee_handler ::
  "'w runtime \<Rightarrow> admin_ctx \<Rightarrow> dao_committee_config option \<Rightarrow> pubkey list \<Rightarrow> u8 \<Rightarrow>
     (stablecoin_config \<times> dao_committee_config) res" where
  "init_dao_committee_handler rt ctx existing members quorum =
     (let c = ac_cfg ctx in
      guarded (authority_accounts rt ctx @ [(existing = None, Anchor AccountAlreadyInUse)])
        (andthen (squads_gate c (ac_authority ctx)) (\<lambda>_.
         guarded
           [(members \<noteq> [], Dao InvalidQuorum), (length members \<le> MAX_MEMBERS, Dao CommitteeFull),
            (quorum \<ge> 1 \<and> unat quorum \<le> length members, Dao InvalidQuorum), (\<not> has_duplicate members, Admin DuplicateMember)]
           (Inr (c\<lparr>c_feature_flags := set_flags (c_feature_flags c) FLAG_DAO_COMMITTEE\<rparr>,
                 \<lparr>dc_config = key_of (ac_config ctx), dc_members = members, dc_quorum = quorum, dc_next_proposal_id = 0,
                  dc_bump = snd (rt_find_pda rt (committee_seeds (key_of (ac_config ctx))))\<rparr>)))))"

record dao_ctx =
  dx_signer :: pubkey
  dx_config :: "stablecoin_config account"
  dx_mint :: pubkey
  dx_committee :: "dao_committee_config account"

definition dao_accounts :: "'w runtime \<Rightarrow> dao_ctx \<Rightarrow> (bool \<times> error) list" where
  "dao_accounts rt ctx =
     config_ok rt (dx_config ctx) (dx_mint ctx) @
     [(dx_mint ctx = c_mint (data_of (dx_config ctx)), Anchor ConstraintRaw),
      (seeds_ok rt (key_of (dx_committee ctx)) (committee_seeds (key_of (dx_config ctx)))
         (dc_bump (data_of (dx_committee ctx))), Anchor ConstraintSeeds)]"

definition proposal_ok :: "'w runtime \<Rightarrow> dao_ctx \<Rightarrow> proposal_pda account \<Rightarrow> u64 \<Rightarrow> (bool \<times> error) list" where
  "proposal_ok rt ctx proposal i =
     [(seeds_ok rt (key_of proposal) (proposal_seeds (key_of (dx_config ctx)) i) (da_bump (data_of proposal)),
         (Anchor ConstraintSeeds))]"

definition propose_action_handler ::
  "'w runtime \<Rightarrow> dao_ctx \<Rightarrow> proposal_pda option \<Rightarrow> proposal_action \<Rightarrow> u64 \<Rightarrow> pubkey \<Rightarrow>
     (dao_committee_config \<times> proposal_pda) res" where
  "propose_action_handler rt ctx existing action param target =
     (let c = data_of (dx_config ctx); dc = data_of (dx_committee ctx); i = dc_next_proposal_id dc; proposer = dx_signer ctx in
      guarded
        (dao_accounts rt ctx @
         [(existing = None, Anchor AccountAlreadyInUse), (flag_set c FLAG_DAO_COMMITTEE, Dao DaoCommitteeRequired),
          (c_authority c = proposer \<or> proposer \<in> set (dc_members dc), Compliance NotAuthorizedToPropose)])
        (andthen (squads_gate c proposer) (\<lambda>_.
         andthen (ok_or (checked_add i 1) (Late Overflow)) (\<lambda>next_id.
         Inr (dc\<lparr>dc_next_proposal_id := next_id\<rparr>,
              \<lparr>da_config = key_of (dx_config ctx), da_proposal_id = i, da_proposer = proposer, da_action = action,
               da_param = param, da_target = target, da_votes = [], da_quorum = dc_quorum dc, da_executed = False,
               da_cancelled = False, da_cumulative_consumed = 0,
               da_bump = snd (rt_find_pda rt (proposal_seeds (key_of (dx_config ctx)) i))\<rparr>)))))"

definition vote_action_handler :: "'w runtime \<Rightarrow> dao_ctx \<Rightarrow> proposal_pda account \<Rightarrow> u64 \<Rightarrow> proposal_pda res" where
  "vote_action_handler rt ctx proposal i =
     (let p = data_of proposal; voter = dx_signer ctx in
      guarded
        (dao_accounts rt ctx @ proposal_ok rt ctx proposal i @
         [(voter \<in> set (dc_members (data_of (dx_committee ctx))), Dao NotACommitteeMember),
          (\<not> da_executed p, Dao ProposalAlreadyExecuted), (\<not> da_cancelled p, Dao ProposalCancelled),
          (voter \<notin> set (da_votes p), Dao AlreadyVoted)])
        (Inr (p\<lparr>da_votes := da_votes p @ [voter]\<rparr>)))"

text \<open>What a passed proposal does to the configuration.\<close>

fun perform_action :: "proposal_action \<Rightarrow> u64 \<Rightarrow> stablecoin_config \<Rightarrow> stablecoin_config res" where
  "perform_action DaoPause param c = Inr (c\<lparr>c_paused := True\<rparr>)"
| "perform_action DaoUnpause param c = Inr (c\<lparr>c_paused := False\<rparr>)"
| "perform_action SetFeatureFlag param c = Inr (c\<lparr>c_feature_flags := set_flags (c_feature_flags c) param\<rparr>)"
| "perform_action ClearFeatureFlag param c =
     guarded
       [(\<not> check_feature_flag param FLAG_DAO_COMMITTEE, Compliance DaoFlagProtected),
        (\<not> check_feature_flag param FLAG_SQUADS_AUTHORITY, Compliance DaoFlagProtected)]
       (Inr (c\<lparr>c_feature_flags := clear_flags (c_feature_flags c) param\<rparr>))"
| "perform_action UpdateMinter param c = Inr c"
| "perform_action RevokeMinter param c = Inr c"
| "perform_action DrawInsurance param c = Inr c"

definition execute_action_handler ::
  "'w runtime \<Rightarrow> dao_ctx \<Rightarrow> proposal_pda account \<Rightarrow> u64 \<Rightarrow> (stablecoin_config \<times> proposal_pda) res" where
  "execute_action_handler rt ctx proposal i =
     (let p = data_of proposal in
      guarded
        (dao_accounts rt ctx @ proposal_ok rt ctx proposal i @
         [(\<not> da_executed p, Dao ProposalAlreadyExecuted), (\<not> da_cancelled p, Dao ProposalCancelled),
          (unat (da_quorum p) \<le> length (da_votes p), Dao QuorumNotReached)])
        (andthen (perform_action (da_action p) (da_param p) (data_of (dx_config ctx))) (\<lambda>c.
         Inr (c, p\<lparr>da_executed := True\<rparr>))))"

section \<open>What a successful call has done\<close>

lemma guardian_vote_ok:
  assumes "guardian_vote_pause_handler rt ctx a i = Inr (c', gc', p')"
  defines "gc \<equiv> data_of (gx_guardians ctx)" and "p \<equiv> data_of a"
  shows "gx_signer ctx \<in> set (gc_guardians gc)" "gx_signer ctx \<notin> set (pp_votes p)"
    "pp_votes p' = pp_votes p @ [gx_signer ctx]" "gc_guardians gc' = gc_guardians gc" "gc_threshold gc' = gc_threshold gc"
    "\<not> pp_executed p" "pp_executed p' \<Longrightarrow> unat (gc_threshold gc) \<le> length (pp_votes p')"
    "gc_pending_lift_votes gc' = (if pp_executed p' then [] else gc_pending_lift_votes gc)"
    "gc_guardian_pause_active gc' = (pp_executed p' \<or> gc_guardian_pause_active gc)"
    "gc_guardian_pause_unlocks_at gc' = (if pp_executed p' then rt_unix_timestamp rt + 86400 else gc_guardian_pause_unlocks_at gc)"
    "c_paused c' = (pp_executed p' \<or> c_paused (data_of (gx_config ctx)))" "gc_next_proposal_id gc' = gc_next_proposal_id gc"
proof -
  have small: "unat (of_nat n :: u8) \<le> n" for n by (simp add: unat_of_nat)
  note facts = assms(1) [unfolded guardian_vote_pause_handler_def apply_guardian_pause_def Let_def
      GUARDIAN_PAUSE_AUTHORITY_OVERRIDE_DELAY_def]
  show "gx_signer ctx \<in> set (gc_guardians gc)" "gx_signer ctx \<notin> set (pp_votes p)"
    "pp_votes p' = pp_votes p @ [gx_signer ctx]" "gc_guardians gc' = gc_guardians gc" "gc_threshold gc' = gc_threshold gc"
    "\<not> pp_executed p"
    "gc_pending_lift_votes gc' = (if pp_executed p' then [] else gc_pending_lift_votes gc)"
    "gc_guardian_pause_active gc' = (pp_executed p' \<or> gc_guardian_pause_active gc)"
    "gc_guardian_pause_unlocks_at gc' = (if pp_executed p' then rt_unix_timestamp rt + 86400 else gc_guardian_pause_unlocks_at gc)"
    "c_paused c' = (pp_executed p' \<or> c_paused (data_of (gx_config ctx)))" "gc_next_proposal_id gc' = gc_next_proposal_id gc"
    using facts by (auto simp: gc_def p_def guardian_accounts_def guarded_Inr run_ok arith_ok split: if_splits)
  show "unat (gc_threshold gc) \<le> length (pp_votes p')" if "pp_executed p'"
    using facts that small [of "Suc (length (pp_votes p))"]
    by (auto simp: gc_def p_def guarded_Inr run_ok arith_ok word_le_nat_alt split: if_splits)
qed

lemma guardian_propose_ok:
  assumes "guardian_propose_pause_handler rt ctx existing reason = Inr (c', gc', p')"
  defines "gc \<equiv> data_of (gx_guardians ctx)"
  shows "gx_signer ctx \<in> set (gc_guardians gc)" "existing = None" "pp_votes p' = [gx_signer ctx]"
    "gc_guardians gc' = gc_guardians gc" "gc_threshold gc' = gc_threshold gc" "pp_executed p' = (gc_threshold gc = 1)"
    "gc_pending_lift_votes gc' = (if pp_executed p' then [] else gc_pending_lift_votes gc)"
    "gc_guardian_pause_active gc' = (pp_executed p' \<or> gc_guardian_pause_active gc)"
    "gc_guardian_pause_unlocks_at gc' = (if pp_executed p' then rt_unix_timestamp rt + 86400 else gc_guardian_pause_unlocks_at gc)"
    "c_paused c' = (pp_executed p' \<or> c_paused (data_of (gx_config ctx)))"
  using assms(1) unfolding guardian_propose_pause_handler_def apply_guardian_pause_def Let_def
    GUARDIAN_PAUSE_AUTHORITY_OVERRIDE_DELAY_def
  by (auto simp: gc_def guarded_Inr run_ok arith_ok split: if_splits)

lemma guardian_lift_ok:
  assumes "guardian_lift_pause_handler rt ctx = Inr (c', gc')"
  defines "gc \<equiv> data_of (gx_guardians ctx)" and "k \<equiv> gx_signer ctx"
  shows "gc_guardians gc' = gc_guardians gc" "gc_threshold gc' = gc_threshold gc"
    "k \<in> set (gc_guardians gc) \<Longrightarrow> k \<notin> set (gc_pending_lift_votes gc)"
    "k \<in> set (gc_guardians gc) \<Longrightarrow> length (gc_pending_lift_votes gc) + 1 < length (gc_guardians gc) \<Longrightarrow>
       c' = data_of (gx_config ctx) \<and> gc' = gc\<lparr>gc_pending_lift_votes := gc_pending_lift_votes gc @ [k]\<rparr>"
    "k \<in> set (gc_guardians gc) \<Longrightarrow> length (gc_guardians gc) \<le> length (gc_pending_lift_votes gc) + 1 \<Longrightarrow>
       (c', gc') = lifted (data_of (gx_config ctx)) gc"
    "k \<notin> set (gc_guardians gc) \<Longrightarrow> gc_guardian_pause_active gc \<Longrightarrow> gc_guardian_pause_unlocks_at gc \<le> rt_unix_timestamp rt"
    "k \<notin> set (gc_guardians gc) \<Longrightarrow> gc_pending_lift_votes gc' = [] \<and> \<not> gc_guardian_pause_active gc'"
  using assms(1) unfolding guardian_lift_pause_handler_def Let_def
  by (auto simp: gc_def k_def guarded_Inr run_ok lifted_def split: if_splits)

interpretation pause_votes: ballot
  "\<lambda>gc k p p'. \<exists>ctx a i c gc'. gx_signer ctx = k \<and> data_of (gx_guardians ctx) = gc \<and> data_of a = p \<and>
     guardian_vote_pause_handler rt ctx a i = Inr (c, gc', p')"
  pp_votes gc_guardians for rt
  by unfold_locales (auto dest: guardian_vote_ok)

interpretation lift_votes: ballot
  "\<lambda>guardians k gc gc'. gc_guardians gc = guardians \<and> gc_pending_lift_votes gc' \<noteq> [] \<and>
     (\<exists>ctx c. gx_signer ctx = k \<and> data_of (gx_guardians ctx) = gc \<and> k \<in> set guardians \<and>
        guardian_lift_pause_handler rt ctx = Inr (c, gc'))"
  gc_pending_lift_votes "\<lambda>guardians. guardians" for rt
proof unfold_locales
  fix guardians k gc gc'
  assume *: "gc_guardians gc = guardians \<and> gc_pending_lift_votes gc' \<noteq> [] \<and>
     (\<exists>ctx c. gx_signer ctx = k \<and> data_of (gx_guardians ctx) = gc \<and> k \<in> set guardians \<and>
        guardian_lift_pause_handler rt ctx = Inr (c, gc'))"
  then show "k \<in> set guardians" by blast
  from * show "k \<notin> set (gc_pending_lift_votes gc)" by (auto dest: guardian_lift_ok(3))
  from * obtain ctx c where run: "gx_signer ctx = k" "data_of (gx_guardians ctx) = gc" "k \<in> set (gc_guardians gc)"
    "guardian_lift_pause_handler rt ctx = Inr (c, gc')" by blast
  with * guardian_lift_ok(4,5) [OF run(4)] show "gc_pending_lift_votes gc' = gc_pending_lift_votes gc @ [k]"
    by (cases "length (gc_guardians gc) \<le> length (gc_pending_lift_votes gc) + 1") (auto simp: lifted_def)
qed

lemma vote_action_ok:
  assumes "vote_action_handler rt ctx a i = Inr p'"
  shows "dx_signer ctx \<in> set (dc_members (data_of (dx_committee ctx)))" "dx_signer ctx \<notin> set (da_votes (data_of a))"
    "p' = (data_of a)\<lparr>da_votes := da_votes (data_of a) @ [dx_signer ctx]\<rparr>" "\<not> da_executed (data_of a)"
  using assms by (auto simp: vote_action_handler_def Let_def guarded_Inr)

interpretation dao_votes: ballot
  "\<lambda>dc k p p'. \<exists>ctx a i. dx_signer ctx = k \<and> data_of (dx_committee ctx) = dc \<and> data_of a = p \<and>
     vote_action_handler rt ctx a i = Inr p'"
  da_votes dc_members for rt
  by unfold_locales (auto dest: vote_action_ok)

section \<open>Histories of the guardians\<close>

record guardian_world =
  gw_config :: stablecoin_config
  gw_guardians :: guardian_config
  gw_proposals :: "u64 \<Rightarrow> pause_proposal option"

text \<open>\<open>Besides\<close> is whatever else happens to the configuration.\<close>

datatype 'w guardian_event =
    ProposePause "'w runtime" guardian_ctx bytes32
  | VotePause "'w runtime" guardian_ctx pubkey u64
  | LiftPause "'w runtime" guardian_ctx
  | Besides "stablecoin_config \<Rightarrow> stablecoin_config"

definition seen_by :: "guardian_world \<Rightarrow> guardian_ctx \<Rightarrow> guardian_ctx" where
  "seen_by s ctx = ctx\<lparr>gx_config := set_data (gx_config ctx) (gw_config s),
     gx_guardians := set_data (gx_guardians ctx) (gw_guardians s)\<rparr>"

lemma seen_by_simps [simp]:
  "data_of (gx_config (seen_by s ctx)) = gw_config s" "data_of (gx_guardians (seen_by s ctx)) = gw_guardians s"
  "gx_signer (seen_by s ctx) = gx_signer ctx"
  by (simp_all add: seen_by_def)

fun guardian_exec :: "'w guardian_event \<Rightarrow> guardian_world \<Rightarrow> guardian_world res" where
  "guardian_exec (ProposePause rt ctx reason) s =
     (let i = gc_next_proposal_id (gw_guardians s) in
      andthen (guardian_propose_pause_handler rt (seen_by s ctx) (gw_proposals s i) reason)
        (\<lambda>(c, gc, p). Inr \<lparr>gw_config = c, gw_guardians = gc, gw_proposals = (gw_proposals s)(i \<mapsto> p)\<rparr>))"
| "guardian_exec (VotePause rt ctx k i) s =
     andthen (ok_or (gw_proposals s i) (Anchor AccountNotInitialized)) (\<lambda>p0.
     andthen (guardian_vote_pause_handler rt (seen_by s ctx) \<lparr>key_of = k, data_of = p0\<rparr> i)
       (\<lambda>(c, gc, p). Inr \<lparr>gw_config = c, gw_guardians = gc, gw_proposals = (gw_proposals s)(i \<mapsto> p)\<rparr>))"
| "guardian_exec (LiftPause rt ctx) s =
     andthen (guardian_lift_pause_handler rt (seen_by s ctx))
       (\<lambda>(c, gc). Inr (s\<lparr>gw_config := c, gw_guardians := gc\<rparr>))"
| "guardian_exec (Besides f) s = Inr (s\<lparr>gw_config := f (gw_config s)\<rparr>)"

definition proposal_sound :: "guardian_config \<Rightarrow> pause_proposal \<Rightarrow> bool" where
  "proposal_sound gc p \<longleftrightarrow> pause_votes.sound gc p \<and> (pp_executed p \<longrightarrow> unat (gc_threshold gc) \<le> length (pp_votes p))"

definition guardian_inv :: "pubkey list \<Rightarrow> u8 \<Rightarrow> guardian_world \<Rightarrow> bool" where
  "guardian_inv guardians threshold s \<longleftrightarrow>
     gc_guardians (gw_guardians s) = guardians \<and> gc_threshold (gw_guardians s) = threshold \<and>
     (\<forall>i p. gw_proposals s i = Some p \<longrightarrow> proposal_sound (gw_guardians s) p) \<and>
     (gc_guardian_pause_active (gw_guardians s) \<longrightarrow> (\<exists>i p. gw_proposals s i = Some p \<and> pp_executed p))"

lemma sound_same_guardians:
  "gc_guardians gc' = gc_guardians gc \<Longrightarrow> gc_threshold gc' = gc_threshold gc \<Longrightarrow> proposal_sound gc' p = proposal_sound gc p"
  by (simp add: proposal_sound_def pause_votes.sound_def)

lemma guardian_inv_put:
  assumes inv: "guardian_inv guardians threshold s" and sound: "proposal_sound gc p"
    and same: "gc_guardians gc = gc_guardians (gw_guardians s)" "gc_threshold gc = gc_threshold (gw_guardians s)"
    and active: "gc_guardian_pause_active gc = (pp_executed p \<or> gc_guardian_pause_active (gw_guardians s))"
    and prior: "\<forall>p0. gw_proposals s i = Some p0 \<longrightarrow> \<not> pp_executed p0"
  shows "guardian_inv guardians threshold \<lparr>gw_config = c, gw_guardians = gc, gw_proposals = (gw_proposals s)(i \<mapsto> p)\<rparr>"
proof -
  have "\<exists>j q. ((gw_proposals s)(i \<mapsto> p)) j = Some q \<and> pp_executed q" if "gc_guardian_pause_active gc"
  proof (cases "pp_executed p")
    case True
    then show ?thesis by (intro exI [of _ i] exI [of _ p]) simp
  next
    case False
    with that active inv obtain j q where "gw_proposals s j = Some q" "pp_executed q" by (auto simp: guardian_inv_def)
    moreover from this prior have "j \<noteq> i" by auto
    ultimately show ?thesis by (intro exI [of _ j] exI [of _ q]) simp
  qed
  with inv sound show ?thesis by (auto simp: guardian_inv_def same sound_same_guardians [OF same])
qed

lemma guardian_inv_exec:
  assumes inv: "guardian_inv guardians threshold s" and run: "guardian_exec e s = Inr s'"
  shows "guardian_inv guardians threshold s'"
proof (cases e)
  case (ProposePause rt ctx reason)
  from run [unfolded this] obtain c gc p where ok:
    "guardian_propose_pause_handler rt (seen_by s ctx) (gw_proposals s (gc_next_proposal_id (gw_guardians s))) reason = Inr (c, gc, p)"
    and s': "s' = \<lparr>gw_config = c, gw_guardians = gc,
      gw_proposals = (gw_proposals s)(gc_next_proposal_id (gw_guardians s) \<mapsto> p)\<rparr>"
    by (auto simp: Let_def run_ok)
  note made = guardian_propose_ok [OF ok, simplified]
  have "proposal_sound gc p"
    using made(1,3-6) by (simp add: proposal_sound_def pause_votes.sound_def)
  then show ?thesis unfolding s' by (rule guardian_inv_put [OF inv]) (use made in auto)
next
  case (VotePause rt ctx k i)
  from run [unfolded this] obtain p0 c gc p where p0: "gw_proposals s i = Some p0" and ok:
    "guardian_vote_pause_handler rt (seen_by s ctx) \<lparr>key_of = k, data_of = p0\<rparr> i = Inr (c, gc, p)"
    and s': "s' = \<lparr>gw_config = c, gw_guardians = gc, gw_proposals = (gw_proposals s)(i \<mapsto> p)\<rparr>"
    by (auto simp: run_ok)
  note voted = guardian_vote_ok [OF ok, simplified]
  from inv p0 have "pause_votes.sound (gw_guardians s) p0" by (auto simp: guardian_inv_def proposal_sound_def)
  then have "pause_votes.sound (gw_guardians s) p" using voted(1-3) by (auto simp: pause_votes.sound_def)
  then have "proposal_sound gc p"
    using voted(4,5,7) by (simp add: proposal_sound_def pause_votes.sound_def)
  then show ?thesis unfolding s' by (rule guardian_inv_put [OF inv]) (use voted p0 in auto)
next
  case (LiftPause rt ctx)
  from run [unfolded this] obtain c gc where ok: "guardian_lift_pause_handler rt (seen_by s ctx) = Inr (c, gc)"
    and s': "s' = s\<lparr>gw_config := c, gw_guardians := gc\<rparr>"
    by (auto simp: run_ok)
  note lift = guardian_lift_ok [OF ok, simplified]
  have "gc_guardian_pause_active gc \<Longrightarrow> gc_guardian_pause_active (gw_guardians s)"
    using lift(4,5,7) by (cases "gx_signer ctx \<in> set (gc_guardians (gw_guardians s))";
      cases "length (gc_guardians (gw_guardians s)) \<le> length (gc_pending_lift_votes (gw_guardians s)) + 1")
      (auto simp: lifted_def)
  with inv lift(1,2) show ?thesis by (auto simp: guardian_inv_def s' sound_same_guardians [OF lift(1,2)])
next
  case (Besides f)
  with run have "s' = s\<lparr>gw_config := f (gw_config s)\<rparr>" by simp
  with inv show ?thesis by (simp add: guardian_inv_def)
qed

interpretation guardians: preserved guardian_exec "\<lambda>_. True" "guardian_inv guardians threshold" for guardians threshold
  by unfold_locales (rule guardian_inv_exec)

text \<open>C23: Guardians pause only by quorum: from the guardians that the authority registered, after any history of
  proposals, votes and lifts, with anything else happening to the configuration, an executed proposal
  carries the votes of at least the threshold of distinct registered guardians, and where a
  guardian pause is in force some proposal was executed.\<close>

theorem guardian_pause_needs_quorum:
  assumes "init_guardian_config_handler rt ctx existing gs threshold = Inr gc"
  shows "let s = play guardian_exec es \<lparr>gw_config = c, gw_guardians = gc, gw_proposals = Map.empty\<rparr> in
    (\<forall>i p. gw_proposals s i = Some p \<and> pp_executed p \<longrightarrow> unat threshold \<le> card (set (pp_votes p) \<inter> set gs)) \<and>
    (gc_guardian_pause_active (gw_guardians s) \<longrightarrow> (\<exists>i p. gw_proposals s i = Some p \<and> pp_executed p))"
proof -
  let ?s0 = "\<lparr>gw_config = c, gw_guardians = gc, gw_proposals = Map.empty\<rparr>"
  from assms have "guardian_inv gs threshold ?s0"
    by (auto simp: init_guardian_config_handler_def run_ok guarded_Inr guardian_inv_def)
  then have inv: "guardian_inv gs threshold (play guardian_exec es ?s0)" by (rule guardians.play_inv) simp
  have "unat threshold \<le> card (set (pp_votes p) \<inter> set gs)"
    if "gw_proposals (play guardian_exec es ?s0) i = Some p" "pp_executed p" for i p
    using inv that by (auto simp: guardian_inv_def proposal_sound_def dest!: pause_votes.sound_quorum)
  with inv show ?thesis by (auto simp: Let_def guardian_inv_def)
qed

text \<open>Who lifted, in a history, and when it happened.\<close>

fun lifters :: "'w guardian_event list \<Rightarrow> guardian_world \<Rightarrow> pubkey set" where
  "lifters [] s = {}"
| "lifters (e # es) s =
     (case guardian_exec e s of
        Inl _ \<Rightarrow> lifters es s
      | Inr s' \<Rightarrow> (case e of LiftPause rt ctx \<Rightarrow> {gx_signer ctx} | _ \<Rightarrow> {}) \<union> lifters es s')"

fun guardian_time :: "'w guardian_event \<Rightarrow> i64 option" where
  "guardian_time (ProposePause rt ctx reason) = Some (rt_unix_timestamp rt)"
| "guardian_time (VotePause rt ctx k i) = Some (rt_unix_timestamp rt)"
| "guardian_time (LiftPause rt ctx) = Some (rt_unix_timestamp rt)"
| "guardian_time (Besides f) = None"

text \<open>A pause in force until T at least, with the lifts of some of the guardians collected so far.\<close>

definition pause_holds :: "i64 \<Rightarrow> pubkey set \<Rightarrow> guardian_world \<Rightarrow> bool" where
  "pause_holds T L s \<longleftrightarrow> gc_guardian_pause_active (gw_guardians s) \<and> c_paused (gw_config s) \<and>
     T \<le> gc_guardian_pause_unlocks_at (gw_guardians s) \<and> lift_votes.sound (gc_guardians (gw_guardians s)) (gw_guardians s) \<and>
     set (gc_pending_lift_votes (gw_guardians s)) \<subseteq> L"

lemma lift_under_pause:
  assumes holds: "pause_holds T L s" and run: "guardian_lift_pause_handler rt (seen_by s ctx) = Inr (c, gc)"
    and time: "rt_unix_timestamp rt < T"
  shows "set (gc_guardians (gw_guardians s)) \<subseteq> insert (gx_signer ctx) L \<or>
    pause_holds T (insert (gx_signer ctx) L) (s\<lparr>gw_config := c, gw_guardians := gc\<rparr>)"
proof -
  let ?gc = "gw_guardians s" and ?k = "gx_signer ctx"
  note lift = guardian_lift_ok [OF run, simplified]
  have member: "?k \<in> set (gc_guardians ?gc)" using lift(6) holds time by (auto simp: pause_holds_def)
  have sound: "lift_votes.sound (gc_guardians ?gc) (?gc\<lparr>gc_pending_lift_votes := gc_pending_lift_votes ?gc @ [?k]\<rparr>)"
    using holds member lift(3) by (auto simp: pause_holds_def lift_votes.sound_def)
  show ?thesis
  proof (cases "length (gc_guardians ?gc) \<le> length (gc_pending_lift_votes ?gc) + 1")
    case True
    with lift_votes.sound_unanimous [OF sound] holds show ?thesis by (auto simp: pause_holds_def)
  next
    case False
    with lift(4) member have "c = gw_config s" "gc = ?gc\<lparr>gc_pending_lift_votes := gc_pending_lift_votes ?gc @ [?k]\<rparr>" by auto
    with holds sound show ?thesis by (auto simp: pause_holds_def)
  qed
qed

lemma pause_until_all_lift:
  assumes "pause_holds T L s" and "\<forall>e \<in> set es. \<exists>t. guardian_time e = Some t \<and> T - 86400 \<le> t \<and> t < T"
  shows "set (gc_guardians (gw_guardians s)) \<subseteq> L \<union> lifters es s \<or> pause_holds T (L \<union> lifters es s) (play guardian_exec es s)"
  using assms
proof (induction es arbitrary: s L)
  case (Cons e es)
  then obtain t where t: "guardian_time e = Some t" "T - 86400 \<le> t" "t < T" and
    later: "\<forall>e \<in> set es. \<exists>t. guardian_time e = Some t \<and> T - 86400 \<le> t \<and> t < T" by auto
  show ?case
  proof (cases "guardian_exec e s")
    case (Inr s')
    show ?thesis
    proof (cases e)
      case (ProposePause rt ctx reason)
      with Inr obtain c gc p where ok: "guardian_propose_pause_handler rt (seen_by s ctx)
          (gw_proposals s (gc_next_proposal_id (gw_guardians s))) reason = Inr (c, gc, p)"
        and s': "gw_config s' = c" "gw_guardians s' = gc" by (auto simp: Let_def run_ok)
      note made = guardian_propose_ok [OF ok, simplified]
      have "pause_holds T L s'" "gc_guardians (gw_guardians s') = gc_guardians (gw_guardians s)"
        using made Cons.prems(1) t ProposePause by (auto simp: pause_holds_def s' lift_votes.sound_def)
      with Cons.IH [OF this(1) later] ProposePause Inr show ?thesis by simp
    next
      case (VotePause rt ctx k i)
      with Inr obtain p0 c gc p where ok: "guardian_vote_pause_handler rt (seen_by s ctx) \<lparr>key_of = k, data_of = p0\<rparr> i = Inr (c, gc, p)"
        and s': "gw_config s' = c" "gw_guardians s' = gc" by (auto simp: run_ok)
      note voted = guardian_vote_ok [OF ok, simplified]
      have "pause_holds T L s'" "gc_guardians (gw_guardians s') = gc_guardians (gw_guardians s)"
        using voted Cons.prems(1) t VotePause by (auto simp: pause_holds_def s' lift_votes.sound_def)
      with Cons.IH [OF this(1) later] VotePause Inr show ?thesis by simp
    next
      case (LiftPause rt ctx)
      with Inr obtain c gc where ok: "guardian_lift_pause_handler rt (seen_by s ctx) = Inr (c, gc)"
        and s': "s' = s\<lparr>gw_config := c, gw_guardians := gc\<rparr>" by (auto simp: run_ok)
      have same: "gc_guardians (gw_guardians s') = gc_guardians (gw_guardians s)"
        using guardian_lift_ok(1) [OF ok] by (simp add: s')
      from t LiftPause have "rt_unix_timestamp rt < T" by simp
      from lift_under_pause [OF Cons.prems(1) ok this] show ?thesis
      proof
        assume "pause_holds T (insert (gx_signer ctx) L) (s\<lparr>gw_config := c, gw_guardians := gc\<rparr>)"
        from Cons.IH [OF this [folded s'] later] LiftPause Inr same show ?thesis by simp
      qed (use LiftPause Inr in auto)
    qed (use t in simp)
  qed (use Cons later in simp)
qed simp

text \<open>A guardian pause holds for a day against everybody but the guardians together: when a vote has just
  paused the mint, after any history of the guardians' instructions in the next 24 hours (by the
  authority, too) either the pause is still in force or every registered guardian has lifted it.\<close>

theorem guardian_pause_holds_a_day:
  assumes "guardian_vote_pause_handler rt ctx a i = Inr (c, gc, p)" and "pp_executed p"
    and "\<forall>e \<in> set es. \<exists>t. guardian_time e = Some t \<and> rt_unix_timestamp rt \<le> t \<and> t < rt_unix_timestamp rt + 86400"
  shows "let s = \<lparr>gw_config = c, gw_guardians = gc, gw_proposals = ps\<rparr>; s' = play guardian_exec es s in
    set (gc_guardians gc) \<subseteq> lifters es s \<or> (c_paused (gw_config s') \<and> gc_guardian_pause_active (gw_guardians s'))"
proof -
  let ?s = "\<lparr>gw_config = c, gw_guardians = gc, gw_proposals = ps\<rparr>" and ?T = "rt_unix_timestamp rt + 86400"
  have "pause_holds ?T {} ?s"
    using guardian_vote_ok(8-11) [OF assms(1)] assms(2) by (simp add: pause_holds_def lift_votes.sound_empty)
  from pause_until_all_lift [OF this, of es] assms(3) show ?thesis
    by (auto simp: Let_def pause_holds_def)
qed

section \<open>Histories of the committee\<close>

record dao_world =
  dw_config :: stablecoin_config
  dw_committee :: dao_committee_config
  dw_proposals :: "u64 \<Rightarrow> proposal_pda option"

datatype 'w dao_event =
    ProposeAction "'w runtime" dao_ctx proposal_action u64 pubkey
  | VoteAction "'w runtime" dao_ctx pubkey u64
  | ExecuteAction "'w runtime" dao_ctx pubkey u64
  | BesidesDao "stablecoin_config \<Rightarrow> stablecoin_config"

definition dao_seen :: "dao_world \<Rightarrow> dao_ctx \<Rightarrow> dao_ctx" where
  "dao_seen s ctx = ctx\<lparr>dx_config := set_data (dx_config ctx) (dw_config s),
     dx_committee := set_data (dx_committee ctx) (dw_committee s)\<rparr>"

lemma dao_seen_simps [simp]:
  "data_of (dx_config (dao_seen s ctx)) = dw_config s" "data_of (dx_committee (dao_seen s ctx)) = dw_committee s"
  "dx_signer (dao_seen s ctx) = dx_signer ctx"
  by (simp_all add: dao_seen_def)

fun dao_exec :: "'w dao_event \<Rightarrow> dao_world \<Rightarrow> dao_world res" where
  "dao_exec (ProposeAction rt ctx action param target) s =
     (let i = dc_next_proposal_id (dw_committee s) in
      andthen (propose_action_handler rt (dao_seen s ctx) (dw_proposals s i) action param target)
        (\<lambda>(dc, p). Inr (s\<lparr>dw_committee := dc, dw_proposals := (dw_proposals s)(i \<mapsto> p)\<rparr>)))"
| "dao_exec (VoteAction rt ctx k i) s =
     andthen (ok_or (dw_proposals s i) (Anchor AccountNotInitialized)) (\<lambda>p0.
     andthen (vote_action_handler rt (dao_seen s ctx) \<lparr>key_of = k, data_of = p0\<rparr> i)
       (\<lambda>p. Inr (s\<lparr>dw_proposals := (dw_proposals s)(i \<mapsto> p)\<rparr>)))"
| "dao_exec (ExecuteAction rt ctx k i) s =
     andthen (ok_or (dw_proposals s i) (Anchor AccountNotInitialized)) (\<lambda>p0.
     andthen (execute_action_handler rt (dao_seen s ctx) \<lparr>key_of = k, data_of = p0\<rparr> i)
       (\<lambda>(c, p). Inr (s\<lparr>dw_config := c, dw_proposals := (dw_proposals s)(i \<mapsto> p)\<rparr>)))"
| "dao_exec (BesidesDao f) s = Inr (s\<lparr>dw_config := f (dw_config s)\<rparr>)"

text \<open>The executions of a history: the number and the proposal as it stood.\<close>

fun executions :: "'w dao_event list \<Rightarrow> dao_world \<Rightarrow> (u64 \<times> proposal_pda) list" where
  "executions [] s = []"
| "executions (e # es) s =
     (case dao_exec e s of
        Inl _ \<Rightarrow> executions es s
      | Inr s' \<Rightarrow> (case e of ExecuteAction rt ctx k i \<Rightarrow> [(i, the (dw_proposals s i))] | _ \<Rightarrow> []) @ executions es s')"

definition dao_inv :: "pubkey list \<Rightarrow> u8 \<Rightarrow> dao_world \<Rightarrow> bool" where
  "dao_inv members quorum s \<longleftrightarrow>
     dc_members (dw_committee s) = members \<and> dc_quorum (dw_committee s) = quorum \<and>
     (\<forall>i p. dw_proposals s i = Some p \<longrightarrow> dao_votes.sound (dw_committee s) p \<and> da_quorum p = quorum)"

definition done_at :: "dao_world \<Rightarrow> u64 \<Rightarrow> bool" where
  "done_at s i \<longleftrightarrow> (\<exists>p. dw_proposals s i = Some p \<and> da_executed p)"

lemma propose_action_ok:
  assumes "propose_action_handler rt ctx existing action param target = Inr (dc, p)"
  shows "existing = None" "dc_members dc = dc_members (data_of (dx_committee ctx))"
    "dc_quorum dc = dc_quorum (data_of (dx_committee ctx))" "da_votes p = []"
    "da_quorum p = dc_quorum (data_of (dx_committee ctx))" "\<not> da_executed p"
  using assms by (auto simp: propose_action_handler_def Let_def guarded_Inr run_ok)

lemma execute_action_ok:
  assumes "execute_action_handler rt ctx a i = Inr (c, p)"
  shows "perform_action (da_action (data_of a)) (da_param (data_of a)) (data_of (dx_config ctx)) = Inr c"
    "p = (data_of a)\<lparr>da_executed := True\<rparr>" "\<not> da_executed (data_of a)"
    "unat (da_quorum (data_of a)) \<le> length (da_votes (data_of a))"
  using assms by (auto simp: execute_action_handler_def Let_def guarded_Inr run_ok)

lemma dao_sound_same: "dc_members dc = dc_members dc' \<Longrightarrow> da_votes p = da_votes p' \<Longrightarrow> dao_votes.sound dc p = dao_votes.sound dc' p'"
  by (simp add: dao_votes.sound_def)

lemma dao_inv_exec:
  assumes inv: "dao_inv members quorum s" and run: "dao_exec e s = Inr s'"
  shows "dao_inv members quorum s'"
proof (cases e)
  case (ProposeAction rt ctx action param target)
  with run obtain dc p where ok: "propose_action_handler rt (dao_seen s ctx)
      (dw_proposals s (dc_next_proposal_id (dw_committee s))) action param target = Inr (dc, p)"
    and s': "s' = s\<lparr>dw_committee := dc, dw_proposals := (dw_proposals s)(dc_next_proposal_id (dw_committee s) \<mapsto> p)\<rparr>"
    by (auto simp: Let_def run_ok)
  note made = propose_action_ok [OF ok, simplified]
  have "dao_votes.sound dc p" using made(4) by (rule dao_votes.sound_empty)
  with inv show ?thesis by (auto simp: dao_inv_def s' made(2,3,5) dao_sound_same [OF made(2) refl])
next
  case (VoteAction rt ctx k i)
  with run obtain p0 p where p0: "dw_proposals s i = Some p0" and
    ok: "vote_action_handler rt (dao_seen s ctx) \<lparr>key_of = k, data_of = p0\<rparr> i = Inr p"
    and s': "s' = s\<lparr>dw_proposals := (dw_proposals s)(i \<mapsto> p)\<rparr>" by (auto simp: run_ok)
  note voted = vote_action_ok [OF ok, simplified]
  from inv p0 have "dao_votes.sound (dw_committee s) p0" "da_quorum p0 = quorum" by (auto simp: dao_inv_def)
  then have "dao_votes.sound (dw_committee s) p" "da_quorum p = quorum"
    using voted by (auto simp: dao_votes.sound_def)
  with inv show ?thesis by (auto simp: dao_inv_def s')
next
  case (ExecuteAction rt ctx k i)
  with run obtain p0 c p where p0: "dw_proposals s i = Some p0" and
    ok: "execute_action_handler rt (dao_seen s ctx) \<lparr>key_of = k, data_of = p0\<rparr> i = Inr (c, p)"
    and s': "s' = s\<lparr>dw_config := c, dw_proposals := (dw_proposals s)(i \<mapsto> p)\<rparr>" by (auto simp: run_ok)
  with inv p0 execute_action_ok(2) [OF ok] show ?thesis by (auto simp: dao_inv_def dao_votes.sound_def)
next
  case (BesidesDao f)
  with inv run show ?thesis by (auto simp: dao_inv_def)
qed

lemma done_stays: "done_at s i \<Longrightarrow> dao_exec e s = Inr s' \<Longrightarrow> done_at s' i"
proof (cases e)
  case (ProposeAction rt ctx action param target)
  assume "done_at s i" "dao_exec e s = Inr s'"
  with ProposeAction show ?thesis by (auto simp: done_at_def Let_def run_ok dest!: propose_action_ok(1))
next
  case (VoteAction rt ctx k j)
  assume "done_at s i" "dao_exec e s = Inr s'"
  with VoteAction show ?thesis by (auto simp: done_at_def run_ok dest!: vote_action_ok(4))
next
  case (ExecuteAction rt ctx k j)
  assume "done_at s i" "dao_exec e s = Inr s'"
  with ExecuteAction show ?thesis by (auto simp: done_at_def run_ok dest!: execute_action_ok(3))
next
  case (BesidesDao f)
  assume "done_at s i" "dao_exec e s = Inr s'"
  with BesidesDao show ?thesis by (auto simp: done_at_def)
qed

lemma executions_fresh: "done_at s i \<Longrightarrow> i \<notin> fst ` set (executions es s)"
proof (induction es arbitrary: s)
  case (Cons e es)
  show ?case
  proof (cases "dao_exec e s")
    case (Inr s')
    have "e \<noteq> ExecuteAction rt ctx k i" for rt ctx k
      using Inr Cons.prems by (auto simp: done_at_def run_ok dest!: execute_action_ok(3))
    with Cons.IH [OF done_stays [OF Cons.prems Inr]] Inr show ?thesis by (cases e) auto
  qed (use Cons in simp)
qed simp

lemma executions_once: "distinct (map fst (executions es s))"
proof (induction es arbitrary: s)
  case (Cons e es)
  show ?case
  proof (cases "dao_exec e s")
    case (Inr s')
    show ?thesis
    proof (cases e)
      case (ExecuteAction rt ctx k i)
      with Inr have "done_at s' i" by (auto simp: done_at_def run_ok dest!: execute_action_ok(2))
      with executions_fresh [OF this, of es] Inr Cons show ?thesis by (simp add: ExecuteAction)
    qed (use Inr Cons in simp_all)
  qed (use Cons in simp)
qed simp

lemma executions_quorum:
  "dao_inv members quorum s \<Longrightarrow> (i, p) \<in> set (executions es s) \<Longrightarrow> unat quorum \<le> card (set (da_votes p) \<inter> set members)"
proof (induction es arbitrary: s)
  case (Cons e es)
  show ?case
  proof (cases "dao_exec e s")
    case (Inr s')
    from Cons.prems(2) Inr consider "(i, p) \<in> set (executions es s')"
      | rt ctx k where "e = ExecuteAction rt ctx k i" "p = the (dw_proposals s i)"
      by (cases e) auto
    then show ?thesis
    proof cases
      case 1
      with Cons.IH [OF dao_inv_exec [OF Cons.prems(1) Inr]] show ?thesis by blast
    next
      case 2
      with Inr obtain p0 c p' where p0: "dw_proposals s i = Some p0" and
        ok: "execute_action_handler rt (dao_seen s ctx) \<lparr>key_of = k, data_of = p0\<rparr> i = Inr (c, p')" by (auto simp: run_ok)
      from Cons.prems(1) p0 have sound: "dao_votes.sound (dw_committee s) p0" "da_quorum p0 = quorum"
        "dc_members (dw_committee s) = members" by (auto simp: dao_inv_def)
      from execute_action_ok(4) [OF ok] dao_votes.sound_quorum [OF sound(1)] show ?thesis
        by (simp add: 2 p0 sound(2,3))
    qed
  qed (use Cons in simp)
qed simp

text \<open>The committee decides by quorum, and each decision is carried out once: from the committee that the
  authority installed, in any history of proposals, votes and executions with anything else happening to
  the configuration, every execution had the votes of at least the quorum of distinct members, and no
  proposal is executed twice.\<close>

theorem committee_decides_once:
  assumes "init_dao_committee_handler rt ctx existing members quorum = Inr (c, dc)"
  shows "let log = executions es \<lparr>dw_config = c, dw_committee = dc, dw_proposals = Map.empty\<rparr> in
    distinct (map fst log) \<and> (\<forall>(i, p) \<in> set log. unat quorum \<le> card (set (da_votes p) \<inter> set members))"
proof -
  from assms have "dao_inv members quorum \<lparr>dw_config = c, dw_committee = dc, dw_proposals = Map.empty\<rparr>"
    by (auto simp: init_dao_committee_handler_def Let_def run_ok guarded_Inr dao_inv_def)
  from executions_quorum [OF this, of _ _ es] executions_once show ?thesis by (auto simp: Let_def)
qed

section \<open>At work\<close>

definition demo_gc :: guardian_config where
  "demo_gc = \<lparr>gc_config = demo_cfg_key, gc_guardians = [1, 2, 3], gc_threshold = 2, gc_next_proposal_id = 0,
     gc_pending_lift_votes = [], gc_guardian_pause_active = False, gc_guardian_pause_unlocks_at = 0, gc_bump = 255\<rparr>"

definition demo_gctx :: "pubkey \<Rightarrow> guardian_ctx" where
  "demo_gctx k = \<lparr>gx_signer = k, gx_config = demo_acct demo_config, gx_mint = 5,
     gx_guardians = \<lparr>key_of = ref_pda (guardian_seeds demo_cfg_key), data_of = demo_gc\<rparr>\<rparr>"

definition demo_pause :: "pubkey list \<Rightarrow> bool \<Rightarrow> pause_proposal" where
  "demo_pause ks done = \<lparr>pp_config = demo_cfg_key, pp_proposal_id = 0, pp_proposer = 1, pp_reason = 0, pp_votes = ks,
     pp_threshold = 2, pp_executed = done, pp_bump = 255\<rparr>"

definition demo_guarded :: "guardian_config \<Rightarrow> bool \<Rightarrow> (u64 \<Rightarrow> pause_proposal option) \<Rightarrow> guardian_world" where
  "demo_guarded gc paused ps = \<lparr>gw_config = demo_config\<lparr>c_paused := paused\<rparr>, gw_guardians = gc, gw_proposals = ps\<rparr>"

definition demo_paused_gc :: "pubkey list \<Rightarrow> guardian_config" where
  "demo_paused_gc lifts = demo_gc\<lparr>gc_next_proposal_id := 1, gc_pending_lift_votes := lifts, gc_guardian_pause_active := True,
     gc_guardian_pause_unlocks_at := 87400\<rparr>"

lemmas ballot_eval [eval_defs] =
  demo_gc_def demo_gctx_def demo_pause_def demo_guarded_def demo_paused_gc_def seen_by_def guardian_accounts_def
  config_ok_def guardian_propose_pause_handler_def guardian_vote_pause_handler_def guardian_lift_pause_handler_def
  apply_guardian_pause_def lifted_def i64_checked_add_def i64_min_def i64_max_def
  GUARDIAN_PAUSE_AUTHORITY_OVERRIDE_DELAY_def authority_accounts_def squads_gate_def

lemma demo_guardians_init:
  "init_guardian_config_handler (ref_runtime 1 0 0) \<lparr>ac_authority = 7, ac_config = demo_acct demo_config, ac_mint = 5\<rparr>
     None [1, 2, 3] 2 = Inr demo_gc"
  by (simp add: eval_defs init_guardian_config_handler_def MAX_GUARDIANS_def demo_cfg_key_def word_le_nat_alt)

lemma demo_proposes:
  "guardian_exec (ProposePause (ref_runtime 1 0 900) (demo_gctx 1) 0) (demo_guarded demo_gc False Map.empty) =
     Inr (demo_guarded (demo_gc\<lparr>gc_next_proposal_id := 1\<rparr>) False [0 \<mapsto> demo_pause [1] False])"
  by (simp add: eval_defs, simp add: demo_cfg_key_def)

lemma demo_votes:
  "guardian_exec (VotePause (ref_runtime 1 0 1000) (demo_gctx 2) (ref_pda (pause_proposal_seeds demo_cfg_key 0)) 0)
     (demo_guarded (demo_gc\<lparr>gc_next_proposal_id := 1\<rparr>) False [0 \<mapsto> demo_pause [1] False]) =
   Inr (demo_guarded (demo_paused_gc []) True [0 \<mapsto> demo_pause [1, 2] True])"
  by (simp add: eval_defs, simp add: demo_cfg_key_def)

theorem guardian_pause_needs_quorum_witness:
  "unat (2 :: u8) \<le> card (set (pp_votes (demo_pause [1, 2] True)) \<inter> {1, 2, 3})"
proof -
  let ?es = "[ProposePause (ref_runtime 1 0 900) (demo_gctx 1) 0,
    VotePause (ref_runtime 1 0 1000) (demo_gctx 2) (ref_pda (pause_proposal_seeds demo_cfg_key 0)) 0]"
  have start: "\<lparr>gw_config = demo_config, gw_guardians = demo_gc, gw_proposals = Map.empty\<rparr> = demo_guarded demo_gc False Map.empty"
    by (simp add: demo_guarded_def demo_config_def)
  have "play guardian_exec ?es (demo_guarded demo_gc False Map.empty) =
      demo_guarded (demo_paused_gc []) True [0 \<mapsto> demo_pause [1, 2] True]"
    by (simp only: play.simps demo_proposes demo_votes sum.case)
  with guardian_pause_needs_quorum [OF demo_guardians_init, of ?es demo_config] show ?thesis
    by (simp add: Let_def start) (simp add: demo_guarded_def demo_pause_def)
qed

text \<open>All three lift within the day, one after the other; the authority's call in between fails.\<close>

definition demo_lift :: "pubkey \<Rightarrow> ref_ledger guardian_event" where
  "demo_lift k = LiftPause (ref_runtime 1 0 2000) (demo_gctx k)"

lemma demo_lifts:
  "guardian_exec (demo_lift 7) (demo_guarded (demo_paused_gc []) True ps) = Inl (Queue GuardianPauseTimelockActive)"
  "guardian_exec (demo_lift 1) (demo_guarded (demo_paused_gc []) True ps) = Inr (demo_guarded (demo_paused_gc [1]) True ps)"
  "guardian_exec (demo_lift 2) (demo_guarded (demo_paused_gc [1]) True ps) = Inr (demo_guarded (demo_paused_gc [1, 2]) True ps)"
  "guardian_exec (demo_lift 3) (demo_guarded (demo_paused_gc [1, 2]) True ps) =
     Inr (demo_guarded (demo_gc\<lparr>gc_next_proposal_id := 1\<rparr>) False ps)"
  by (simp_all add: eval_defs demo_lift_def, simp_all add: demo_cfg_key_def)

theorem guardian_pause_holds_a_day_witness:
  "{1, 2, 3} \<subseteq> lifters [demo_lift 7, demo_lift 1, demo_lift 2, demo_lift 3] (demo_guarded (demo_paused_gc []) True Map.empty)"
proof -
  let ?es = "[demo_lift 7, demo_lift 1, demo_lift 2, demo_lift 3]" and ?rt = "ref_runtime 1 0 1000"
  have vote: "guardian_vote_pause_handler ?rt
      ((demo_gctx 2)\<lparr>gx_guardians := \<lparr>key_of = ref_pda (guardian_seeds demo_cfg_key), data_of = demo_gc\<lparr>gc_next_proposal_id := 1\<rparr>\<rparr>\<rparr>)
      \<lparr>key_of = ref_pda (pause_proposal_seeds demo_cfg_key 0), data_of = demo_pause [1] False\<rparr> 0 =
      Inr (demo_config\<lparr>c_paused := True\<rparr>, demo_paused_gc [], demo_pause [1, 2] True)"
    by (simp add: eval_defs, simp add: demo_cfg_key_def)
  have "\<forall>e \<in> set ?es. \<exists>t. guardian_time e = Some t \<and> rt_unix_timestamp ?rt \<le> t \<and> t < rt_unix_timestamp ?rt + 86400"
    by (simp add: demo_lift_def)
  moreover have "pp_executed (demo_pause [1, 2] True)" by (simp add: demo_pause_def)
  ultimately have "set (gc_guardians (demo_paused_gc [])) \<subseteq> lifters ?es (demo_guarded (demo_paused_gc []) True Map.empty) \<or>
      c_paused (gw_config (play guardian_exec ?es (demo_guarded (demo_paused_gc []) True Map.empty)))"
    using guardian_pause_holds_a_day [OF vote, of ?es Map.empty] unfolding Let_def demo_guarded_def by blast
  moreover have "\<not> c_paused (gw_config (play guardian_exec ?es (demo_guarded (demo_paused_gc []) True Map.empty)))"
    by (simp only: play.simps demo_lifts sum.case) (simp add: demo_guarded_def)
  ultimately have "set (gc_guardians (demo_paused_gc [])) \<subseteq> lifters ?es (demo_guarded (demo_paused_gc []) True Map.empty)"
    by blast
  then show ?thesis by (simp only: demo_paused_gc_def demo_gc_def) simp
qed

definition demo_dc :: dao_committee_config where
  "demo_dc = \<lparr>dc_config = demo_cfg_key, dc_members = [1, 2, 3], dc_quorum = 2, dc_next_proposal_id = 0, dc_bump = 255\<rparr>"

definition demo_dao_cfg :: stablecoin_config where
  "demo_dao_cfg = demo_config\<lparr>c_feature_flags := 4\<rparr>"

definition demo_dctx :: "pubkey \<Rightarrow> dao_ctx" where
  "demo_dctx k = \<lparr>dx_signer = k, dx_config = demo_acct demo_dao_cfg, dx_mint = 5,
     dx_committee = \<lparr>key_of = ref_pda (committee_seeds demo_cfg_key), data_of = demo_dc\<rparr>\<rparr>"

definition demo_proposal :: "pubkey list \<Rightarrow> bool \<Rightarrow> proposal_pda" where
  "demo_proposal ks done = \<lparr>da_config = demo_cfg_key, da_proposal_id = 0, da_proposer = 3, da_action = DaoPause, da_param = 0,
     da_target = 0, da_votes = ks, da_quorum = 2, da_executed = done, da_cancelled = False, da_cumulative_consumed = 0, da_bump = 255\<rparr>"

definition demo_dao :: "bool \<Rightarrow> u64 \<Rightarrow> (u64 \<Rightarrow> proposal_pda option) \<Rightarrow> dao_world" where
  "demo_dao paused n ps = \<lparr>dw_config = demo_dao_cfg\<lparr>c_paused := paused\<rparr>, dw_committee = demo_dc\<lparr>dc_next_proposal_id := n\<rparr>, dw_proposals = ps\<rparr>"

lemmas dao_eval [eval_defs] =
  demo_dc_def demo_dao_cfg_def demo_dctx_def demo_proposal_def demo_dao_def dao_seen_def dao_accounts_def proposal_ok_def
  propose_action_handler_def vote_action_handler_def execute_action_handler_def

lemma demo_committee_init:
  "init_dao_committee_handler (ref_runtime 1 0 0) \<lparr>ac_authority = 7, ac_config = demo_acct demo_config, ac_mint = 5\<rparr>
     None [1, 2, 3] 2 = Inr (demo_dao_cfg, demo_dc)"
  by (simp add: eval_defs init_dao_committee_handler_def MAX_MEMBERS_def demo_cfg_key_def word_le_nat_alt set_flags_def)

abbreviation demo_dao_es :: "ref_ledger dao_event list" where
  "demo_dao_es \<equiv> [ProposeAction (ref_runtime 1 0 0) (demo_dctx 3) DaoPause 0 0,
     VoteAction (ref_runtime 1 0 0) (demo_dctx 1) (ref_pda (proposal_seeds demo_cfg_key 0)) 0,
     VoteAction (ref_runtime 1 0 0) (demo_dctx 2) (ref_pda (proposal_seeds demo_cfg_key 0)) 0,
     ExecuteAction (ref_runtime 1 0 0) (demo_dctx 9) (ref_pda (proposal_seeds demo_cfg_key 0)) 0]"

lemma demo_dao_steps:
  "dao_exec (demo_dao_es ! 0) (demo_dao False 0 Map.empty) = Inr (demo_dao False 1 [0 \<mapsto> demo_proposal [] False])"
  "dao_exec (demo_dao_es ! 1) (demo_dao False 1 [0 \<mapsto> demo_proposal [] False]) = Inr (demo_dao False 1 [0 \<mapsto> demo_proposal [1] False])"
  "dao_exec (demo_dao_es ! 2) (demo_dao False 1 [0 \<mapsto> demo_proposal [1] False]) = Inr (demo_dao False 1 [0 \<mapsto> demo_proposal [1, 2] False])"
  "dao_exec (demo_dao_es ! 3) (demo_dao False 1 [0 \<mapsto> demo_proposal [1, 2] False]) = Inr (demo_dao True 1 [0 \<mapsto> demo_proposal [1, 2] True])"
  by (simp_all add: eval_defs, simp_all add: demo_cfg_key_def)

lemma demo_executions: "executions demo_dao_es (demo_dao False 0 Map.empty) = [(0, demo_proposal [1, 2] False)]"
  using demo_dao_steps by (simp add: demo_dao_def del: dao_exec.simps)

theorem committee_decides_once_witness:
  "unat (2 :: u8) \<le> card (set (da_votes (demo_proposal [1, 2] False)) \<inter> {1, 2, 3})"
proof -
  have "\<lparr>dw_config = demo_dao_cfg, dw_committee = demo_dc, dw_proposals = Map.empty\<rparr> = demo_dao False 0 Map.empty"
    by (simp add: demo_dao_def demo_dao_cfg_def demo_config_def demo_dc_def)
  with committee_decides_once [OF demo_committee_init, of demo_dao_es] demo_executions show ?thesis
    by (simp add: Let_def)
qed

end
