(* ===== verification/Oracle.thy ===== *)
theory Oracle
  imports AuthGate Demo
begin

text \<open>
  Prices: the price feed that the authority publishes itself
  (programs/sss-token/src/instructions/oracle\_config.rs), the dispatch to the three adapters
  (programs/sss-token/src/oracle/{mod,pyth,custom,switchboard}.rs) and the consensus record that
  replaces them when its flag is set. The Pyth price account is third-party data: what its library
  returns for a clock and a maximal age is part of the feed account passed in.
\<close>

record oracle_price =
  op_price :: i64
  op_conf :: u64
  op_expo :: int

record custom_price_feed =
  cpf_authority :: pubkey
  cpf_price :: i64
  cpf_expo :: int
  cpf_conf :: u64
  cpf_last_update_slot :: u64
  cpf_last_update_unix_timestamp :: i64
  cpf_bump :: u8

record oracle_source =
  os_oracle_type :: u8
  os_feed :: pubkey

record oracle_consensus =
  oc_mint :: pubkey
  oc_min_oracles :: u8
  oc_outlier_threshold_bps :: u16
  oc_source_count :: u8
  oc_max_age_slots :: u64
  oc_sources :: "oracle_source list"
  oc_last_consensus_price :: u64
  oc_last_consensus_slot :: u64
  oc_twap_price :: u64
  oc_twap_last_slot :: u64
  oc_last_consensus_conf :: u64
  oc_bump :: u8

text \<open>
  A feed account: its address, what \<open>SolanaPriceAccount\<close> makes of it (a function of the clock and
  the maximal age, if it is a Pyth account at all) and what it deserialises to as a
  \<open>CustomPriceFeed\<close>.
\<close>

record feed_account =
  fa_key :: pubkey
  fa_pyth :: "(i64 \<Rightarrow> u64 \<Rightarrow> oracle_price option) option"
  fa_custom :: "custom_price_feed option"

definition ORACLE_PYTH :: u8 where "ORACLE_PYTH = 0"
definition ORACLE_SWITCHBOARD :: u8 where "ORACLE_SWITCHBOARD = 1"
definition ORACLE_CUSTOM :: u8 where "ORACLE_CUSTOM = 2"

text \<open>Casts of a signed 64-bit value: \<open>as u64\<close>, \<open>as u128\<close> (sign-extending) and \<open>u64 as i64\<close>.\<close>

definition i64_as_u64 :: "i64 \<Rightarrow> u64" where "i64_as_u64 x = word_of_int x"
definition i64_as_u128 :: "i64 \<Rightarrow> u128" where "i64_as_u128 x = word_of_int x"
definition u64_as_i64 :: "u64 \<Rightarrow> i64" where "u64_as_i64 x = sint x"

section \<open>The adapters\<close>

definition pyth_get_price :: "feed_account \<Rightarrow> u64 \<Rightarrow> i64 \<Rightarrow> oracle_price res" where
  "pyth_get_price acct max_age_secs now =
     andthen (ok_or (fa_pyth acct) (Cdp InvalidPriceFeed)) (\<lambda>get.
       ok_or (get now max_age_secs) (Cdp StalePriceFeed))"

definition switchboard_get_price :: "feed_account \<Rightarrow> oracle_price res" where
  "switchboard_get_price acct = Inl (Channel OracleNotConfigured)"

definition custom_get_price ::
  "feed_account \<Rightarrow> stablecoin_config \<Rightarrow> u64 \<Rightarrow> i64 \<Rightarrow> oracle_price res" where
  "custom_get_price acct c max_age_secs now =
     andthen (ok_or (fa_custom acct) (Cdp InvalidPriceFeed)) (\<lambda>feed.
       let age = i64_saturating_sub now (cpf_last_update_unix_timestamp feed) in
       guarded
         [(cpf_authority feed = c_authority c, Admin UnexpectedPriceFeed),
          (cpf_last_update_unix_timestamp feed > 0 \<and> age \<ge> 0 \<and> i64_as_u64 age \<le> max_age_secs,
             (Cdp StalePriceFeed))]
         (Inr \<lparr>op_price = cpf_price feed, op_conf = cpf_conf feed, op_expo = cpf_expo feed\<rparr>))"

definition validate_feed_key :: "feed_account \<Rightarrow> stablecoin_config \<Rightarrow> unit res" where
  "validate_feed_key acct c =
     (if c_oracle_feed c \<noteq> default_key then
        guarded [(fa_key acct = c_oracle_feed c, Admin UnexpectedPriceFeed)] (Inr ())
      else if c_oracle_type c = ORACLE_PYTH then
        (if c_expected_pyth_feed c \<noteq> default_key then
           guarded [(fa_key acct = c_expected_pyth_feed c, Admin UnexpectedPriceFeed)] (Inr ())
         else Inr ())
      else Inr ())"

definition max_age_of :: "stablecoin_config \<Rightarrow> u64" where
  "max_age_of c = (if c_max_oracle_age_secs c > 0 then ucast (c_max_oracle_age_secs c) else 60)"

definition confidence_ok :: "stablecoin_config \<Rightarrow> oracle_price \<Rightarrow> bool" where
  "confidence_ok c p \<longleftrightarrow>
     (c_max_oracle_conf_bps c > 0 \<longrightarrow>
        saturating_mul (op_conf p) 10000 div i64_as_u64 (op_price p) \<le> ucast (c_max_oracle_conf_bps c))"

definition get_oracle_price :: "feed_account \<Rightarrow> stablecoin_config \<Rightarrow> i64 \<Rightarrow> oracle_price res" where
  "get_oracle_price acct c now =
     andthen (validate_feed_key acct c) (\<lambda>_.
     andthen
       (if c_oracle_type c = ORACLE_PYTH then pyth_get_price acct (max_age_of c) now
        else if c_oracle_type c = ORACLE_SWITCHBOARD then switchboard_get_price acct
        else if c_oracle_type c = ORACLE_CUSTOM then custom_get_price acct c (max_age_of c) now
        else Inl (Cdp InvalidPriceFeed)) (\<lambda>p.
     guarded [(op_price p > 0, Cdp InvalidPrice), (confidence_ok c p, Admin OracleConfidenceTooWide)] (Inr p)))"

text \<open>The consensus price replaces the feed when the flag is set.\<close>

definition get_effective_oracle_price ::
  "feed_account \<Rightarrow> stablecoin_config \<Rightarrow> u64 \<Rightarrow> i64 \<Rightarrow> oracle_consensus option \<Rightarrow> oracle_price res" where
  "get_effective_oracle_price acct c slot now consensus =
     (if flag_set c FLAG_MULTI_ORACLE_CONSENSUS then
        andthen (ok_or consensus (Hardening OracleConsensusNotFound)) (\<lambda>oc.
        guarded
          [(oc_last_consensus_price oc > 0, Hardening InsufficientOracles),
           (saturating_sub slot (oc_last_consensus_slot oc) \<le> oc_max_age_slots oc, Cdp StalePriceFeed)]
          (Inr \<lparr>op_price = u64_as_i64 (oc_last_consensus_price oc), op_conf = oc_last_consensus_conf oc,
                op_expo = - 8\<rparr>))
      else get_oracle_price acct c now)"

section \<open>The price feed of the authority\<close>

definition custom_feed_seeds :: "pubkey \<Rightarrow> seed list" where
  "custom_feed_seeds mint = [SeedStr ''custom-price-feed'', SeedKey mint]"

definition init_custom_price_feed_handler ::
  "'w runtime \<Rightarrow> admin_ctx \<Rightarrow> custom_price_feed option \<Rightarrow> custom_price_feed res" where
  "init_custom_price_feed_handler rt ctx existing =
     guarded
       ((existing = None, Anchor AccountAlreadyInUse) #
        config_ok rt (ac_config ctx) (ac_mint ctx) @
        [(c_authority (ac_cfg ctx) = ac_authority ctx, Core Unauthorized),
         (c_preset (ac_cfg ctx) = 3, Core InvalidPreset),
         (ac_mint ctx = c_mint (ac_cfg ctx), Anchor ConstraintRaw)])
       (andthen (squads_gate (ac_cfg ctx) (ac_authority ctx)) (\<lambda>_.
        Inr \<lparr>cpf_authority = ac_authority ctx, cpf_price = 0, cpf_expo = - 8, cpf_conf = 0,
             cpf_last_update_slot = 0, cpf_last_update_unix_timestamp = 0,
             cpf_bump = snd (rt_find_pda rt (custom_feed_seeds (ac_mint ctx)))\<rparr>))"

definition update_custom_price_handler ::
  "'w runtime \<Rightarrow> admin_ctx \<Rightarrow> custom_price_feed account \<Rightarrow> i64 \<Rightarrow> int \<Rightarrow> u64 \<Rightarrow> custom_price_feed res" where
  "update_custom_price_handler rt ctx feed price expo conf =
     guarded
       (authority_accounts rt ctx @
        [(seeds_ok rt (key_of feed) (custom_feed_seeds (ac_mint ctx)) (cpf_bump (data_of feed)),
            (Anchor ConstraintSeeds)),
         (cpf_authority (data_of feed) = ac_authority ctx, Core Unauthorized)])
       (andthen (squads_gate (ac_cfg ctx) (ac_authority ctx)) (\<lambda>_.
        guarded [(price > 0, Cdp InvalidPrice)]
          (Inr ((data_of feed)\<lparr>cpf_price := price, cpf_expo := expo, cpf_conf := conf,
                cpf_last_update_slot := rt_slot rt,
                cpf_last_update_unix_timestamp := rt_unix_timestamp rt\<rparr>))))"

section \<open>What a price is worth\<close>

lemma get_oracle_price_ok:
  assumes "get_oracle_price acct c now = Inr p"
  shows "0 < op_price p" and "confidence_ok c p" and "validate_feed_key acct c = Inr ()"
    and "c_oracle_type c = ORACLE_PYTH \<or> c_oracle_type c = ORACLE_CUSTOM"
    and "c_oracle_type c = ORACLE_PYTH \<Longrightarrow> pyth_get_price acct (max_age_of c) now = Inr p"
    and "c_oracle_type c = ORACLE_CUSTOM \<Longrightarrow> custom_get_price acct c (max_age_of c) now = Inr p"
  using assms
  by (auto simp: get_oracle_price_def run_ok switchboard_get_price_def ORACLE_PYTH_def
      ORACLE_SWITCHBOARD_def ORACLE_CUSTOM_def split: if_splits)

lemma i64_as_u64_nat: "0 \<le> x \<Longrightarrow> x \<le> i64_max \<Longrightarrow> unat (i64_as_u64 x) = nat x"
  by (simp add: i64_as_u64_def i64_max_def unat_eq_nat_uint uint_word_of_int)

lemma i64_as_u128_nat: "0 \<le> x \<Longrightarrow> x \<le> i64_max \<Longrightarrow> unat (i64_as_u128 x) = nat x"
  by (simp add: i64_as_u128_def i64_max_def unat_eq_nat_uint uint_word_of_int)

lemma i64_saturating_sub_le: "i64_saturating_sub a b \<le> i64_max"
  by (simp add: i64_saturating_sub_def i64_max_def i64_min_def)

text \<open>A price of the authority's own feed is taken only if the feed carries the authority's name, the price is
  positive, it was published, and its age in seconds is within the configured maximum (60 when none is
  configured).\<close>

theorem custom_price_fresh:
  assumes "get_oracle_price acct c now = Inr p" and "c_oracle_type c = ORACLE_CUSTOM"
    and "now \<le> i64_max" and "i64_min \<le> now"
  shows "\<exists>feed. fa_custom acct = Some feed \<and> cpf_authority feed = c_authority c \<and>
    op_price p = cpf_price feed \<and> 0 < op_price p \<and> 0 < cpf_last_update_unix_timestamp feed \<and>
    cpf_last_update_unix_timestamp feed \<le> now \<and>
    now - cpf_last_update_unix_timestamp feed \<le> int (unat (max_age_of c)) \<and>
    (c_oracle_feed c = default_key \<or> fa_key acct = c_oracle_feed c)"
proof -
  note ok = get_oracle_price_ok [OF assms(1)]
  from ok(6) [OF assms(2)] obtain feed where feed: "fa_custom acct = Some feed"
    "cpf_authority feed = c_authority c" "0 < cpf_last_update_unix_timestamp feed"
    "0 \<le> i64_saturating_sub now (cpf_last_update_unix_timestamp feed)"
    "i64_as_u64 (i64_saturating_sub now (cpf_last_update_unix_timestamp feed)) \<le> max_age_of c"
    "p = \<lparr>op_price = cpf_price feed, op_conf = cpf_conf feed, op_expo = cpf_expo feed\<rparr>"
    by (auto simp: custom_get_price_def Let_def run_ok)
  have sub: "i64_saturating_sub now (cpf_last_update_unix_timestamp feed) =
      now - cpf_last_update_unix_timestamp feed"
    using assms(3,4) feed(3,4) by (auto simp: i64_saturating_sub_def i64_min_def i64_max_def min_def max_def split: if_splits)
  have "nat (now - cpf_last_update_unix_timestamp feed) \<le> unat (max_age_of c)"
    using feed(4,5) i64_saturating_sub_le [of now "cpf_last_update_unix_timestamp feed"]
    by (simp add: sub word_to_nat i64_as_u64_nat)
  then have "now - cpf_last_update_unix_timestamp feed \<le> int (unat (max_age_of c))" by linarith
  with feed ok(1) ok(3) sub show ?thesis
    by (auto simp: validate_feed_key_def run_ok split: if_splits)
qed

definition demo_feed :: "i64 \<Rightarrow> i64 \<Rightarrow> feed_account" where
  "demo_feed price published =
     \<lparr>fa_key = 60, fa_pyth = None,
      fa_custom = Some \<lparr>cpf_authority = 7, cpf_price = price, cpf_expo = - 8, cpf_conf = 0,
        cpf_last_update_slot = 0, cpf_last_update_unix_timestamp = published, cpf_bump = 255\<rparr>\<rparr>"

lemmas oracle_eval [eval_defs] =
  demo_feed_def get_oracle_price_def get_effective_oracle_price_def validate_feed_key_def max_age_of_def
  custom_get_price_def confidence_ok_def ORACLE_PYTH_def ORACLE_SWITCHBOARD_def ORACLE_CUSTOM_def
  i64_as_u64_def i64_as_u128_def i64_saturating_sub_def i64_min_def i64_max_def

theorem custom_price_fresh_witness:
  "\<exists>p. get_oracle_price (demo_feed 100000000 1000) (demo_config\<lparr>c_oracle_type := 2\<rparr>) 1030 = Inr p \<and>
     0 < op_price p"
proof -
  obtain p where run: "get_oracle_price (demo_feed 100000000 1000) (demo_config\<lparr>c_oracle_type := 2\<rparr>) 1030 = Inr p"
    by (simp add: eval_defs)
  from custom_price_fresh [OF run] run show ?thesis by (auto simp: ORACLE_CUSTOM_def i64_min_def i64_max_def)
qed

end
