(* ===== verification/Consensus.thy ===== *)
theory Consensus
  imports Oracle Bytes Machine "HOL-Library.Multiset" "HOL-Library.While_Combinator"
begin

text \<open>
  The consensus of several price sources (programs/sss-token/src/instructions/multi\_oracle.rs): which
  prices are fresh, their median by an insertion sort in place, the rejection of outliers, the moving
  average that stands in when too few sources are left, and the record that keeps it all.
\<close>

section \<open>The arithmetic\<close>

text \<open>
  \<open>sort_slice\<close>: the inner loop moves larger elements up one place until the key fits, the
  outer loop takes the elements from the second on.
\<close>

fun shift_up :: "u64 \<Rightarrow> u64 list \<Rightarrow> nat \<Rightarrow> u64 list \<times> nat" where
  "shift_up key xs 0 = (xs, 0)"
| "shift_up key xs (Suc j) = (if xs ! j > key then shift_up key (xs[Suc j := xs ! j]) j else (xs, Suc j))"

definition insert_at :: "u64 list \<Rightarrow> nat \<Rightarrow> u64 list" where
  "insert_at xs i = (let key = xs ! i; (ys, j) = shift_up key xs i in ys[j := key])"

definition sort_slice :: "u64 list \<Rightarrow> u64 list" where
  "sort_slice xs = foldl insert_at xs [1..<length xs]"

text \<open>
  The same two loops as they are written, the inner one as a \<open>while\<close> on the slice and the index:
  \<open>None\<close> would be a loop that does not end.
\<close>

definition insert_loop :: "u64 list \<Rightarrow> nat \<Rightarrow> u64 list option" where
  "insert_loop xs i =
     (let key = xs ! i in
      map_option (\<lambda>(s, j). s[j := key])
        (while_option (\<lambda>(s, j). 0 < j \<and> s ! (j - 1) > key) (\<lambda>(s, j). (s[j := s ! (j - 1)], j - 1)) (xs, i)))"

definition sort_slice_loop :: "u64 list \<Rightarrow> u64 list option" where
  "sort_slice_loop xs = foldl (\<lambda>r i. Option.bind r (\<lambda>s. insert_loop s i)) (Some xs) [1..<length xs]"

definition median_of :: "u64 list \<Rightarrow> u64" where
  "median_of s =
     (let n = length s in
      if n = 0 then 0
      else if n mod 2 = 1 then s ! (n div 2)
      else (let lo = s ! (n div 2 - 1); hi = s ! (n div 2) in lo div 2 + hi div 2 + (lo AND hi AND 1)))"

definition deviation_bps :: "u64 \<Rightarrow> u64 \<Rightarrow> u64" where
  "deviation_bps p median =
     (if p \<ge> median then saturating_mul (saturating_sub p median) 10000 div max median 1
      else saturating_mul (saturating_sub median p) 10000 div max median 1)"

definition accepted_prices :: "u64 list \<Rightarrow> u64 \<Rightarrow> u64 \<Rightarrow> u64 list" where
  "accepted_prices fresh median outlier_bps = filter (\<lambda>p. deviation_bps p median \<le> outlier_bps) fresh"

definition max_deviation :: "u64 list \<Rightarrow> u64 \<Rightarrow> u64" where
  "max_deviation accepted price =
     foldl (\<lambda>md p. let dev = (if p > price then saturating_sub p price else saturating_sub price p) in
                   if dev > md then dev else md) 0 accepted"

definition update_twap :: "oracle_consensus \<Rightarrow> u64 \<Rightarrow> u64 \<Rightarrow> oracle_consensus" where
  "update_twap oc new_price slot =
     (if oc_twap_price oc = 0 then oc\<lparr>oc_twap_price := new_price, oc_twap_last_slot := slot\<rparr>
      else
        let next_price = saturating_add (saturating_mul (ucast (oc_twap_price oc) :: u128) 7) (ucast new_price) div 8 in
        oc\<lparr>oc_twap_price := ucast (min next_price 18446744073709551615), oc_twap_last_slot := slot\<rparr>)"

section \<open>Sources\<close>

text \<open>
  An account passed for a source: beside what the oracle abstraction reads, the aggregate price and
  its slot of a Pyth account (\<open>load_price_account\<close>, third-party) and the raw data.
\<close>

record consensus_feed = feed_account +
  cf_pyth_agg :: "(i64 \<times> u64) option"
  cf_data :: "u8 list"

definition read_source_price :: "u8 \<Rightarrow> consensus_feed \<Rightarrow> u64 \<Rightarrow> (u64 \<times> u64) option res" where
  "read_source_price oracle_type acct slot =
     (if oracle_type = ORACLE_PYTH then
        andthen (ok_or (cf_pyth_agg acct) (Cdp InvalidPriceFeed)) (\<lambda>(price, pub_slot).
        Inr (if price \<le> 0 then None else Some (i64_as_u64 price, pub_slot)))
      else if oracle_type = ORACLE_SWITCHBOARD then
        (case switchboard_get_price (feed_account.truncate acct) of
           Inr p \<Rightarrow> Inr (if op_price p > 0 then Some (i64_as_u64 (op_price p), slot) else None)
         | Inl e \<Rightarrow> Inr None)
      else if oracle_type = ORACLE_CUSTOM then
        (if length (cf_data acct) < 77 then Inr None
         else
           let price = u64_as_i64 (u64_at 40 (cf_data acct)) in
           Inr (if price \<le> 0 then None else Some (i64_as_u64 price, u64_at 60 (cf_data acct))))
      else Inr None)"

fun collect_fresh ::
  "u64 \<Rightarrow> u64 \<Rightarrow> oracle_source list \<Rightarrow> consensus_feed list \<Rightarrow> u64 list res" where
  "collect_fresh slot max_age (src # srcs) (acct # accts) =
     (if os_feed src = default_key then collect_fresh slot max_age srcs accts
      else
        guarded [(fa_key acct = os_feed src, Admin UnexpectedPriceFeed)]
          (andthen (collect_fresh slot max_age srcs accts) (\<lambda>rest.
           Inr (case read_source_price (os_oracle_type src) acct slot of
                  Inr (Some (price, last_slot)) \<Rightarrow>
                    if saturating_sub slot last_slot > max_age then rest else price # rest
                | _ \<Rightarrow> rest))))"
| "collect_fresh slot max_age srcs accts = Inr []"

section \<open>The instructions\<close>

definition MAX_SOURCES :: nat where "MAX_SOURCES = 8"

definition consensus_seeds :: "pubkey \<Rightarrow> seed list" where
  "consensus_seeds mint = [SeedStr ''oracle-consensus'', SeedKey mint]"

definition no_source :: oracle_source where
  "no_source = \<lparr>os_oracle_type = 0, os_feed = default_key\<rparr>"

definition init_oracle_consensus_handler ::
  "'w runtime \<Rightarrow> admin_ctx \<Rightarrow> oracle_consensus option \<Rightarrow> u8 \<Rightarrow> u16 \<Rightarrow> u64 \<Rightarrow> (stablecoin_config \<times> oracle_consensus) res" where
  "init_oracle_consensus_handler rt ctx existing min_oracles outlier_threshold_bps max_age_slots =
     (let c = ac_cfg ctx in
      guarded
        (authority_accounts rt ctx @
         [(existing = None, Anchor AccountAlreadyInUse),
          (min_oracles \<ge> 1 \<and> min_oracles \<le> of_nat MAX_SOURCES, Hardening InvalidOracleConsensusConfig),
          (outlier_threshold_bps > 0 \<and> outlier_threshold_bps \<le> 5000, Hardening InvalidOracleConsensusConfig),
          (max_age_slots > 0, Hardening InvalidOracleConsensusConfig)])
        (Inr (c\<lparr>c_feature_flags := set_flags (c_feature_flags c) FLAG_MULTI_ORACLE_CONSENSUS\<rparr>,
              \<lparr>oc_mint = ac_mint ctx, oc_min_oracles = min_oracles, oc_outlier_threshold_bps = outlier_threshold_bps,
               oc_source_count = 0, oc_max_age_slots = max_age_slots, oc_sources = replicate MAX_SOURCES no_source,
               oc_last_consensus_price = 0, oc_last_consensus_slot = 0, oc_twap_price = 0, oc_twap_last_slot = 0,
               oc_last_consensus_conf = 0, oc_bump = snd (rt_find_pda rt (consensus_seeds (ac_mint ctx)))\<rparr>)))"

definition consensus_ok :: "'w runtime \<Rightarrow> pubkey \<Rightarrow> oracle_consensus account \<Rightarrow> (bool \<times> error) list" where
  "consensus_ok rt mint oc =
     [(seeds_ok rt (key_of oc) (consensus_seeds mint) (oc_bump (data_of oc)), Anchor ConstraintSeeds),
      (oc_mint (data_of oc) = mint, Hardening OracleConsensusNotFound)]"

definition set_oracle_source_handler ::
  "'w runtime \<Rightarrow> admin_ctx \<Rightarrow> oracle_consensus account \<Rightarrow> u8 \<Rightarrow> u8 \<Rightarrow> pubkey \<Rightarrow> oracle_consensus res" where
  "set_oracle_source_handler rt ctx oca slot_index oracle_type feed =
     (let oc = data_of oca; i = unat slot_index; was_empty = (os_feed (oc_sources oc ! i) = default_key) in
      guarded
        (authority_accounts rt ctx @ consensus_ok rt (ac_mint ctx) oca @
         [(i < MAX_SOURCES, Hardening InvalidOracleSourceIndex),
          (oracle_type = ORACLE_PYTH \<or> oracle_type = ORACLE_SWITCHBOARD \<or> oracle_type = ORACLE_CUSTOM, Channel InvalidOracleType),
          (i < length (oc_sources oc), Panic)])
        (Inr (oc\<lparr>oc_sources := (oc_sources oc)[i := \<lparr>os_oracle_type = oracle_type, os_feed = feed\<rparr>],
                oc_source_count :=
                  (if was_empty \<and> feed \<noteq> default_key then min (saturating_add (oc_source_count oc) 1) (of_nat MAX_SOURCES)
                   else if \<not> was_empty \<and> feed = default_key then saturating_sub (oc_source_count oc) 1
                   else oc_source_count oc)\<rparr>)))"

definition remove_oracle_source_handler ::
  "'w runtime \<Rightarrow> admin_ctx \<Rightarrow> oracle_consensus account \<Rightarrow> u8 \<Rightarrow> oracle_consensus res" where
  "remove_oracle_source_handler rt ctx oca slot_index =
     (let oc = data_of oca; i = unat slot_index; was_filled = (os_feed (oc_sources oc ! i) \<noteq> default_key) in
      guarded
        (authority_accounts rt ctx @ consensus_ok rt (ac_mint ctx) oca @
         [(i < MAX_SOURCES, Hardening InvalidOracleSourceIndex), (i < length (oc_sources oc), Panic)])
        (Inr (oc\<lparr>oc_sources := (oc_sources oc)[i := no_source],
                oc_source_count := (if was_filled then saturating_sub (oc_source_count oc) 1 else oc_source_count oc)\<rparr>)))"

text \<open>The price of an update: the median of the accepted, or the moving average if it is not too old.\<close>

definition twap_fallback :: "oracle_consensus \<Rightarrow> u64 \<Rightarrow> u64 res" where
  "twap_fallback oc slot =
     (if oc_twap_price oc > 0 then
        guarded [(saturating_sub slot (oc_twap_last_slot oc) \<le> 1000, Cdp StalePriceFeed)] (Inr (oc_twap_price oc))
      else Inl (Hardening InsufficientOracles))"

definition settle_consensus :: "oracle_consensus \<Rightarrow> u64 \<Rightarrow> u64 list \<Rightarrow> oracle_consensus res" where
  "settle_consensus oc slot fresh =
     (if fresh = [] then andthen (twap_fallback oc slot) (\<lambda>twap. Inr (update_twap oc twap slot))
      else
        let median = median_of (sort_slice fresh);
            accepted = accepted_prices fresh median (ucast (oc_outlier_threshold_bps oc)) in
        andthen
          (if unat (oc_min_oracles oc) \<le> length accepted then Inr (median_of (sort_slice accepted), False)
           else andthen (twap_fallback oc slot) (\<lambda>twap. Inr (twap, True))) (\<lambda>(price, used_twap).
        guarded [(price > 0, Cdp InvalidPrice)]
          (Inr ((update_twap oc price slot)
             \<lparr>oc_last_consensus_price := price,
              oc_last_consensus_conf := (if used_twap then 0 else max_deviation accepted price),
              oc_last_consensus_slot := slot\<rparr>))))"

definition update_oracle_consensus_handler ::
  "'w runtime \<Rightarrow> stablecoin_config account \<Rightarrow> pubkey \<Rightarrow> oracle_consensus account \<Rightarrow> consensus_feed list \<Rightarrow> oracle_consensus res" where
  "update_oracle_consensus_handler rt cfg mint oca remaining =
     (let oc = data_of oca in
      guarded
        (config_ok rt cfg mint @ [(mint = c_mint (data_of cfg), Anchor ConstraintRaw)] @ consensus_ok rt mint oca @
         [(flag_set (data_of cfg) FLAG_MULTI_ORACLE_CONSENSUS, Late MultiOracleNotEnabled),
          (length remaining = MAX_SOURCES, Late OracleRemainingAccountsMismatch),
          (oc_source_count oc > 0, Late OracleNoSourcesConfigured), (MAX_SOURCES \<le> length (oc_sources oc), Panic)])
        (andthen (collect_fresh (rt_slot rt) (oc_max_age_slots oc) (take MAX_SOURCES (oc_sources oc)) remaining)
           (settle_consensus oc (rt_slot rt))))"

section \<open>The sort\<close>

lemma insort_snoc_less: "key < y \<Longrightarrow> insort key (xs @ [y]) = insort key xs @ [y]"
  by (induction xs) auto

lemma insort_at_end: "sorted xs \<Longrightarrow> \<forall>x \<in> set xs. x \<le> key \<Longrightarrow> insort key xs = xs @ [key]"
proof (induction xs)
  case (Cons x xs)
  show ?case
  proof (cases "key \<le> x")
    case True
    with Cons have "\<forall>y \<in> set xs. key \<le> y" by auto
    then have "insort key xs = key # xs" by (simp add: insort_is_Cons)
    with Cons have "key # xs = xs @ [key]" by auto
    moreover have "x = key" using Cons True by auto
    ultimately show ?thesis by (metis append_Cons insort_key.simps(2) order_refl)
  qed (use Cons in auto)
qed simp

lemma shift_up_inserts:
  "j < length xs \<Longrightarrow> sorted (take j xs) \<Longrightarrow> shift_up key xs j = (ys, k) \<Longrightarrow>
     ys[k := key] = insort key (take j xs) @ drop (Suc j) xs"
proof (induction key xs j arbitrary: ys k rule: shift_up.induct)
  case (1 key xs)
  then show ?case by (cases xs) auto
next
  case (2 key xs j)
  have tk: "take (Suc j) xs = take j xs @ [xs ! j]"
    using 2 by (simp add: take_Suc_conv_app_nth)
  have srt: "sorted (take j xs)" "\<forall>x \<in> set (take j xs). x \<le> xs ! j"
    using 2 tk by (auto simp: sorted_append)
  show ?case
  proof (cases "xs ! j > key")
    case True
    let ?xs = "xs[Suc j := xs ! j]"
    have run: "shift_up key ?xs j = (ys, k)" using 2 True by simp
    have "ys[k := key] = insort key (take j ?xs) @ drop (Suc j) ?xs"
      by (rule 2(1) [OF True _ _ run]) (use 2 srt in auto)
    also have "drop (Suc j) ?xs = xs ! j # drop (Suc (Suc j)) xs"
      using 2 by (simp add: drop_update_swap flip: Cons_nth_drop_Suc)
    finally show ?thesis using True by (simp add: tk insort_snoc_less)
  next
    case False
    then have "\<forall>x \<in> set (take (Suc j) xs). x \<le> key"
      using srt by (auto simp: tk)
    then have "insort key (take (Suc j) xs) = take (Suc j) xs @ [key]"
      using 2 by (intro insort_at_end) auto
    moreover have "xs[Suc j := key] = take (Suc j) xs @ key # drop (Suc (Suc j)) xs"
      using 2 by (simp add: upd_conv_take_nth_drop)
    ultimately show ?thesis using 2 False by auto
  qed
qed

lemma insert_at_inserts:
  assumes "i < length xs" and "sorted (take i xs)"
  shows "insert_at xs i = insort (xs ! i) (take i xs) @ drop (Suc i) xs"
proof -
  obtain ys j where run: "shift_up (xs ! i) xs i = (ys, j)" by force
  show ?thesis
    using shift_up_inserts [OF assms run] by (simp add: insert_at_def run Let_def)
qed

lemma insort_sort_snoc: "insort x (sort xs) = sort (xs @ [x])" for x :: "'a::linorder"
  by (rule properties_for_sort [symmetric]) (simp_all add: sorted_insort)

lemma insert_at_prefix:
  assumes "i < length xs"
  shows "insert_at (sort (take i xs) @ drop i xs) i = sort (take (Suc i) xs) @ drop (Suc i) xs"
proof -
  let ?p = "sort (take i xs)"
  have len: "length ?p = i" using assms by simp
  have "insert_at (?p @ drop i xs) i = insort ((?p @ drop i xs) ! i) ?p @ drop (Suc i) (?p @ drop i xs)"
    using insert_at_inserts [of i "?p @ drop i xs"] assms by (simp add: len)
  also have "(?p @ drop i xs) ! i = xs ! i"
    using assms by (simp add: nth_append)
  also have "drop (Suc i) (?p @ drop i xs) = drop (Suc i) xs"
    using len by simp
  finally show ?thesis
    using assms by (simp add: insort_sort_snoc take_Suc_conv_app_nth)
qed

lemma sort_prefix:
  "Suc i \<le> length xs \<Longrightarrow> foldl insert_at xs [1..<Suc i] = sort (take (Suc i) xs) @ drop (Suc i) xs"
proof (induction i)
  case 0
  then show ?case by (cases xs) auto
next
  case (Suc i)
  then show ?case by (simp add: insert_at_prefix)
qed

lemma sort_slice_sort: "sort_slice xs = sort xs"
proof (cases "length xs")
  case 0
  then show ?thesis by (simp add: sort_slice_def)
next
  case (Suc n)
  then show ?thesis using sort_prefix [of n xs] by (simp add: sort_slice_def)
qed

text \<open>The loops end.\<close>

lemma shift_loop:
  "while_option (\<lambda>(s, j). 0 < j \<and> s ! (j - 1) > key) (\<lambda>(s, j). (s[j := s ! (j - 1)], j - 1)) (xs, i)
     = Some (shift_up key xs i)"
  by (induction key xs i rule: shift_up.induct) (simp_all add: while_option_unfold)

lemma insert_loop_total: "insert_loop xs i = Some (insert_at xs i)"
  unfolding insert_loop_def insert_at_def Let_def shift_loop by (simp split: prod.split)

lemma sort_loop_prefix:
  "foldl (\<lambda>r i. Option.bind r (\<lambda>s. insert_loop s i)) (Some xs) is = Some (foldl insert_at xs is)"
  by (induction "is" arbitrary: xs) (simp_all add: insert_loop_total)

text \<open>C28: the hand-written sort of the price consensus ends on every slice, and what it leaves is the
  sorted slice.\<close>

theorem sort_slice_terminates_sorted: "sort_slice_loop xs = Some (sort_slice xs) \<and> sort_slice xs = sort xs"
  by (simp add: sort_slice_loop_def sort_slice_def sort_loop_prefix flip: sort_slice_sort)

section \<open>The median resists a minority\<close>

lemma median_parts: "n > 0 \<Longrightarrow> length s = n \<Longrightarrow>
  unat (median_of s) = (if n mod 2 = 1 then unat (s ! (n div 2)) else (unat (s ! (n div 2 - 1)) + unat (s ! (n div 2))) div 2)"
proof -
  have mean: "unat (a div 2 + b div 2 + (a AND b AND 1)) = (unat a + unat b) div 2" for a b :: u64
  proof -
    have one: "unat (a AND b AND 1) = (unat a mod 2) * (unat b mod 2)"
    proof -
      have "unat (a AND b AND 1) = unat a AND unat b AND 1" by (simp only: unsigned_and_eq unsigned_1)
      also have "\<dots> = (unat a mod 2) * (unat b mod 2)" by (simp add: and_one_eq mod_2_eq_odd even_and_iff)
      finally show ?thesis .
    qed
    have "unat a < 2 ^ 64" "unat b < 2 ^ 64" using u64_bound [of a] u64_bound [of b] by simp_all
    moreover have avg: "unat a div 2 + unat b div 2 + (unat a mod 2) * (unat b mod 2) = (unat a + unat b) div 2"
      by (cases "even (unat a)"; cases "even (unat b)") (auto elim!: evenE oddE)
    ultimately have "unat a div 2 + unat b div 2 + (unat a mod 2) * (unat b mod 2) < 2 ^ 64"
      unfolding avg by linarith
    with avg show ?thesis by (simp add: unat_word_ariths unat_div one)
  qed
  assume "n > 0" and "length s = n"
  then show ?thesis by (simp add: median_of_def Let_def mean)
qed

lemma rank_low:
  assumes "\<And>i. k \<le> i \<Longrightarrow> i < length s \<Longrightarrow> \<not> P (s ! i)"
  shows "length (filter P s) \<le> k"
proof -
  have "{i. i < length s \<and> P (s ! i)} \<subseteq> {..<k}" using assms by (auto simp: not_le [symmetric])
  then have "card {i. i < length s \<and> P (s ! i)} \<le> k" by (metis card_lessThan card_mono finite_lessThan)
  then show ?thesis by (simp add: length_filter_conv_card)
qed

lemma rank_high:
  assumes "\<And>i. i \<le> k \<Longrightarrow> \<not> P (s ! i)" and "k < length s"
  shows "length (filter P s) + Suc k \<le> length s"
proof -
  have "{i. i < length s \<and> P (s ! i)} \<subseteq> {Suc k..<length s}"
    using assms(1) by (auto simp: not_less_eq_eq [symmetric])
  then have "card {i. i < length s \<and> P (s ! i)} \<le> card {Suc k..<length s}" by (rule card_mono [rotated]) simp
  then show ?thesis using assms(2) by (simp add: length_filter_conv_card)
qed

lemma sorted_rank:
  fixes s :: "u64 list"
  assumes "sorted s" and "k < length s"
    and "length s \<le> 2 * Suc k" and "k \<le> length s div 2"
    and maj: "length s < 2 * length (filter (\<lambda>p. lo \<le> p \<and> p \<le> hi) s)"
  shows "lo \<le> s ! k \<and> s ! k \<le> hi"
proof (rule ccontr)
  assume "\<not> (lo \<le> s ! k \<and> s ! k \<le> hi)"
  then consider "s ! k < lo" | "hi < s ! k" by fastforce
  then show False
  proof cases
    case 1
    have "s ! i < lo" if "i \<le> k" for i
      using sorted_nth_mono [OF assms(1) that assms(2)] 1 by simp
    then have "length (filter (\<lambda>p. lo \<le> p \<and> p \<le> hi) s) + Suc k \<le> length s"
      by (intro rank_high) (use assms in \<open>auto simp: not_le\<close>)
    then have "2 * length (filter (\<lambda>p. lo \<le> p \<and> p \<le> hi) s) + 2 * Suc k \<le> 2 * length s" by simp
    with assms(3) have "2 * length (filter (\<lambda>p. lo \<le> p \<and> p \<le> hi) s) \<le> length s" by linarith
    with maj show False by simp
  next
    case 2
    have "hi < s ! i" if "k \<le> i" "i < length s" for i
      using sorted_nth_mono [OF assms(1) that] 2 by simp
    then have "length (filter (\<lambda>p. lo \<le> p \<and> p \<le> hi) s) \<le> k"
      by (intro rank_low) (auto simp: not_le)
    moreover have "2 * k \<le> length s" using assms(4) by linarith
    ultimately show False using maj by linarith
  qed
qed

lemma median_between:
  assumes "fresh \<noteq> []" and "length fresh < 2 * length (filter (\<lambda>p. lo \<le> p \<and> p \<le> hi) fresh)"
  shows "lo \<le> median_of (sort_slice fresh) \<and> median_of (sort_slice fresh) \<le> hi"
proof -
  let ?s = "sort_slice fresh"
  let ?n = "length fresh"
  have s: "sorted ?s" "length ?s = ?n" by (simp_all add: sort_slice_sort)
  have maj: "length ?s < 2 * length (filter (\<lambda>p. lo \<le> p \<and> p \<le> hi) ?s)"
    using assms by (simp add: sort_slice_sort filter_sort)
  have n: "0 < ?n" using assms by simp
  have mid: "lo \<le> ?s ! (?n div 2) \<and> ?s ! (?n div 2) \<le> hi"
    by (rule sorted_rank [OF s(1) _ _ _ maj]) (use n in \<open>simp_all add: s(2)\<close>)
  have med: "unat (median_of ?s) = (if ?n mod 2 = 1 then unat (?s ! (?n div 2))
      else (unat (?s ! (?n div 2 - 1)) + unat (?s ! (?n div 2))) div 2)"
    by (rule median_parts [OF n s(2)])
  show ?thesis
  proof (cases "?n mod 2 = 1")
    case True
    then show ?thesis using med mid by (simp add: word_le_nat_alt)
  next
    case False
    then have "lo \<le> ?s ! (?n div 2 - 1) \<and> ?s ! (?n div 2 - 1) \<le> hi"
      by (intro sorted_rank [OF s(1) _ _ _ maj]) (use n False in \<open>simp_all only: s(2), presburger+\<close>)
    with mid med False show ?thesis by (auto simp: word_le_nat_alt)
  qed
qed

lemma median_of_all:
  "xs \<noteq> [] \<Longrightarrow> \<forall>p \<in> set xs. lo \<le> p \<and> p \<le> hi \<Longrightarrow>
     lo \<le> median_of (sort_slice xs) \<and> median_of (sort_slice xs) \<le> hi"
  by (rule median_between) (simp_all add: filter_True)

text \<open>
  A price is accepted when it is near the median. The product with 10000 saturates for very large
  prices, so the bound needs a median small enough.
\<close>

lemma accepted_near:
  assumes acc: "deviation_bps p m \<le> ucast (b :: u16)"
    and m: "0 < m" and small: "unat m * (unat b + 1) < 2 ^ 64 - 1"
  shows "unat p * 10000 < unat m * (10001 + unat b) \<and> unat m * (9999 - unat b) < unat p * 10000 + (if unat b < 9999 then 0 else 1)"
proof -
  define d where "d = (if m \<le> p then unat p - unat m else unat m - unat p)"
  have m': "0 < unat m" using m by (simp add: word_less_nat_alt)
  have "unat (deviation_bps p m) = min (d * 10000) (2 ^ 64 - 1) div unat m"
    using m' by (simp add: deviation_bps_def d_def unat_div unat_max arith_ok word_le_nat_alt max_absorb1)
  then have "min (d * 10000) (2 ^ 64 - 1) div unat m \<le> unat b"
    using acc by (simp add: word_le_nat_alt)
  then have lt: "min (d * 10000) (2 ^ 64 - 1) < unat m * (unat b + 1)"
    using m' by (metis Suc_eq_plus1 div_less_iff_less_mult less_Suc_eq_le mult.commute)
  then have d: "d * 10000 < unat m * (unat b + 1)"
    using small by (simp add: min_def split: if_splits)
  have up: "unat p * 10000 < unat m * (10001 + unat b)"
    using d m' by (auto simp: d_def word_le_nat_alt algebra_simps split: if_splits)
  have "unat m * (9999 - unat b) < unat p * 10000" if "unat b < 9999"
  proof -
    from that obtain k where k: "unat b + k = 9999" "0 < k" by (metis less_imp_add_positive)
    have e: "10000 = (unat b + 1) + k" using k by simp
    have "unat m * k < unat p * 10000"
    proof (cases "m \<le> p")
      case True
      then have "unat m * 10000 \<le> unat p * 10000" by (simp add: word_le_nat_alt)
      moreover have "unat m * 10000 = unat m * (unat b + 1) + unat m * k" by (metis distrib_left e)
      ultimately show ?thesis using m' by simp
    next
      case False
      then have "unat m * 10000 < unat p * 10000 + unat m * (unat b + 1)"
        using d by (simp add: d_def word_le_nat_alt diff_mult_distrib split: if_splits)
      moreover have "unat m * 10000 = unat m * (unat b + 1) + unat m * k" by (metis distrib_left e)
      ultimately show ?thesis by linarith
    qed
    moreover have "9999 - unat b = k" using k by simp
    ultimately show ?thesis by simp
  qed
  with up show ?thesis by auto
qed

text \<open>What an update leaves: nothing but the average, or the settled price of a quorum, or the average again.\<close>

lemma update_twap_simps [simp]:
  "oc_twap_last_slot (update_twap oc p slot) = slot"
  "oc_mint (update_twap oc p slot) = oc_mint oc" "oc_sources (update_twap oc p slot) = oc_sources oc"
  "oc_source_count (update_twap oc p slot) = oc_source_count oc" "oc_min_oracles (update_twap oc p slot) = oc_min_oracles oc"
  "oc_outlier_threshold_bps (update_twap oc p slot) = oc_outlier_threshold_bps oc"
  "oc_max_age_slots (update_twap oc p slot) = oc_max_age_slots oc"
  "oc_last_consensus_price (update_twap oc p slot) = oc_last_consensus_price oc"
  "oc_last_consensus_slot (update_twap oc p slot) = oc_last_consensus_slot oc"
  by (simp_all add: update_twap_def Let_def)

lemma twap_average:
  "unat (oc_twap_price (update_twap oc p slot)) =
     (if oc_twap_price oc = 0 then unat p else (7 * unat (oc_twap_price oc) + unat p) div 8)"
proof -
  have "7 * unat (oc_twap_price oc) + unat p < 2 ^ 67"
    using u64_bound [of "oc_twap_price oc"] u64_bound [of p] by simp
  then have "unat (saturating_add (saturating_mul (ucast (oc_twap_price oc) :: u128) 7) (ucast p) div 8) =
      (7 * unat (oc_twap_price oc) + unat p) div 8"
    by (simp add: unat_div unat_saturating_add unat_saturating_mul mult.commute)
  moreover have "(7 * unat (oc_twap_price oc) + unat p) div 8 \<le> 18446744073709551615"
    using u64_bound [of "oc_twap_price oc"] u64_bound [of p] by simp
  ultimately show ?thesis
    by (simp add: update_twap_def Let_def unat_narrow_small unat_min)
qed

lemma twap_same: "oc_twap_price (update_twap oc (oc_twap_price oc) slot) = oc_twap_price oc"
  by (simp add: word_unat_eq_iff twap_average)

lemma twap_positive: "0 < p \<Longrightarrow> 0 < oc_twap_price (update_twap oc p slot)"
  by (auto simp: word_less_nat_alt twap_average word_zero_unat div_greater_zero_iff)

lemma settle_cases:
  assumes "settle_consensus oc slot fresh = Inr oc'"
  obtains (empty) "fresh = []" "twap_fallback oc slot = Inr (oc_twap_price oc)" "oc' = update_twap oc (oc_twap_price oc) slot"
  | (agreed) price acc where "fresh \<noteq> []" "acc = accepted_prices fresh (median_of (sort_slice fresh)) (ucast (oc_outlier_threshold_bps oc))"
      "unat (oc_min_oracles oc) \<le> length acc" "price = median_of (sort_slice acc)" "0 < price"
      "oc' = (update_twap oc price slot)\<lparr>oc_last_consensus_price := price,
          oc_last_consensus_conf := max_deviation acc price, oc_last_consensus_slot := slot\<rparr>"
  | (average) "fresh \<noteq> []" "twap_fallback oc slot = Inr (oc_twap_price oc)" "0 < oc_twap_price oc"
      "oc' = (update_twap oc (oc_twap_price oc) slot)\<lparr>oc_last_consensus_price := oc_twap_price oc,
          oc_last_consensus_conf := 0, oc_last_consensus_slot := slot\<rparr>"
proof -
  have fb: "t = oc_twap_price oc" if "twap_fallback oc slot = Inr t" for t
    using that by (simp add: twap_fallback_def run_ok split: if_splits)
  consider "fresh = []"
    | "fresh \<noteq> []" "unat (oc_min_oracles oc) \<le> length (accepted_prices fresh (median_of (sort_slice fresh)) (ucast (oc_outlier_threshold_bps oc)))"
    | "fresh \<noteq> []" "\<not> unat (oc_min_oracles oc) \<le> length (accepted_prices fresh (median_of (sort_slice fresh)) (ucast (oc_outlier_threshold_bps oc)))"
    by blast
  then show ?thesis
  proof cases
    case 1
    with assms show ?thesis by (auto simp: settle_consensus_def run_ok dest: fb intro!: empty)
  next
    case 2
    with assms show ?thesis by (intro agreed) (auto simp: settle_consensus_def Let_def run_ok)
  next
    case 3
    with assms show ?thesis by (auto simp: settle_consensus_def Let_def run_ok dest: fb intro!: average)
  qed
qed

lemma update_oracle_consensus_ok:
  "update_oracle_consensus_handler rt cfg mint oca remaining = Inr oc' \<Longrightarrow>
     0 < oc_source_count (data_of oca) \<and> length remaining = MAX_SOURCES \<and>
     (\<exists>fresh. collect_fresh (rt_slot rt) (oc_max_age_slots (data_of oca)) (take MAX_SOURCES (oc_sources (data_of oca))) remaining = Inr fresh \<and>
        settle_consensus (data_of oca) (rt_slot rt) fresh = Inr oc')"
  by (auto simp: update_oracle_consensus_handler_def Let_def guarded_Inr run_ok)

lemma majority_consensus:
  assumes settle: "settle_consensus oc slot fresh = Inr oc'" and ne: "fresh \<noteq> []"
    and maj: "length fresh < 2 * length (filter (\<lambda>p. lo \<le> p \<and> p \<le> hi) fresh)"
    and lo: "0 < lo" and cap: "oc_outlier_threshold_bps oc \<le> 5000" and min: "0 < oc_min_oracles oc"
    and small: "unat hi * 5001 < 2 ^ 64 - 1"
  shows "oc_last_consensus_price oc' = oc_twap_price oc \<or>
    (unat lo * (9999 - unat (oc_outlier_threshold_bps oc)) div 10000 \<le> unat (oc_last_consensus_price oc') \<and>
     unat (oc_last_consensus_price oc') \<le> unat hi * (10001 + unat (oc_outlier_threshold_bps oc)) div 10000)"
  using settle
proof (cases rule: settle_cases)
  case (agreed price acc)
  let ?m = "median_of (sort_slice fresh)"
  let ?b = "unat (oc_outlier_threshold_bps oc)"
  let ?lo = "unat lo * (9999 - ?b) div 10000"
  let ?hi = "unat hi * (10001 + ?b) div 10000"
  have m: "lo \<le> ?m" "?m \<le> hi" using median_between [OF ne maj] by auto
  have m': "unat lo \<le> unat ?m" "unat ?m \<le> unat hi" using m by (simp_all add: word_le_nat_alt)
  have b: "?b \<le> 5000" using cap by (simp add: word_le_nat_alt)
  have "unat ?m * (?b + 1) \<le> unat hi * 5001" using m' b by (intro mult_le_mono) auto
  then have sm: "unat ?m * (?b + 1) < 2 ^ 64 - 1" using small by simp
  have near: "?lo \<le> unat p \<and> unat p \<le> ?hi" if "p \<in> set acc" for p
  proof -
    from that have dev: "deviation_bps p ?m \<le> ucast (oc_outlier_threshold_bps oc)"
      by (simp add: agreed accepted_prices_def)
    have "0 < ?m" using lo m(1) by (rule less_le_trans)
    from accepted_near [OF dev this sm] b
    have a: "unat p * 10000 < unat ?m * (10001 + ?b)" "unat ?m * (9999 - ?b) < unat p * 10000" by auto
    have "unat lo * (9999 - ?b) \<le> unat ?m * (9999 - ?b)" "unat ?m * (10001 + ?b) \<le> unat hi * (10001 + ?b)"
      using m' by (auto intro: mult_le_mono)
    with a have "unat lo * (9999 - ?b) \<le> unat p * 10000" "unat p * 10000 \<le> unat hi * (10001 + ?b)" by linarith+
    then show ?thesis by linarith
  qed
  have ne': "acc \<noteq> []" using agreed min by (auto simp: word_less_nat_alt)
  have "unat hi * (10001 + ?b) \<le> unat hi * 15001" "unat lo * (9999 - ?b) \<le> unat lo * 9999"
    using b by (auto intro: mult_le_mono simp del: mult_le_cancel1 mult_le_cancel2)
  moreover have "unat hi * 15001 < 18446744073709551616 * 10000" "unat lo * 9999 < 18446744073709551616 * 10000"
    using u64_bound [of hi] u64_bound [of lo] small by simp_all
  ultimately have "unat hi * (10001 + ?b) < 18446744073709551616 * 10000" "unat lo * (9999 - ?b) < 18446744073709551616 * 10000"
    by linarith+
  then have "?hi < 2 ^ 64" "?lo < 2 ^ 64" by (simp_all only: div_less_iff_less_mult) simp_all
  then have w: "unat (of_nat ?lo :: u64) = ?lo" "unat (of_nat ?hi :: u64) = ?hi"
    by (simp_all add: unat_of_nat)
  have "of_nat ?lo \<le> median_of (sort_slice acc) \<and> median_of (sort_slice acc) \<le> of_nat ?hi"
    by (rule median_of_all [OF ne']) (use near w in \<open>auto simp: word_le_nat_alt\<close>)
  with w agreed show ?thesis by (simp add: word_le_nat_alt)
qed (use ne in simp_all)


section \<open>Histories of the record\<close>

datatype 'w consensus_event =
    SetSource "'w runtime" admin_ctx u8 u8 pubkey
  | RemoveSource "'w runtime" admin_ctx u8
  | UpdateConsensus "'w runtime" "stablecoin_config account" pubkey "consensus_feed list"

fun consensus_exec :: "pubkey \<Rightarrow> 'w consensus_event \<Rightarrow> oracle_consensus \<Rightarrow> oracle_consensus res" where
  "consensus_exec k (SetSource rt ctx i t feed) oc = set_oracle_source_handler rt ctx \<lparr>key_of = k, data_of = oc\<rparr> i t feed"
| "consensus_exec k (RemoveSource rt ctx i) oc = remove_oracle_source_handler rt ctx \<lparr>key_of = k, data_of = oc\<rparr> i"
| "consensus_exec k (UpdateConsensus rt cfg mint feeds) oc =
     update_oracle_consensus_handler rt cfg mint \<lparr>key_of = k, data_of = oc\<rparr> feeds"

definition sources_used :: "oracle_consensus \<Rightarrow> nat" where
  "sources_used oc = length (filter (\<lambda>s. os_feed s \<noteq> default_key) (oc_sources oc))"

definition consensus_wf :: "oracle_consensus \<Rightarrow> bool" where
  "consensus_wf oc \<longleftrightarrow>
     length (oc_sources oc) = MAX_SOURCES \<and> unat (oc_source_count oc) = sources_used oc \<and>
     1 \<le> oc_min_oracles oc \<and> oc_min_oracles oc \<le> 8 \<and>
     0 < oc_outlier_threshold_bps oc \<and> oc_outlier_threshold_bps oc \<le> 5000 \<and> 0 < oc_max_age_slots oc \<and>
     (0 < oc_last_consensus_price oc \<longrightarrow> 0 < oc_twap_price oc)"

lemma length_filter_put:
  "i < length xs \<Longrightarrow> length (filter P (xs[i := x])) + (if P (xs ! i) then 1 else 0) =
     length (filter P xs) + (if P x then 1 else 0)"
proof (induction xs arbitrary: i)
  case (Cons y xs)
  then show ?case by (cases i) auto
qed simp

lemma sources_used_bound: "consensus_wf oc \<Longrightarrow> sources_used oc \<le> 8"
  using length_filter_le [of "\<lambda>s. os_feed s \<noteq> default_key" "oc_sources oc"]
  by (simp add: consensus_wf_def sources_used_def MAX_SOURCES_def)

lemma set_source_wf:
  assumes wf: "consensus_wf oc" and i: "unat i < length (oc_sources oc)"
  shows "consensus_wf (oc\<lparr>oc_sources := (oc_sources oc)[unat i := \<lparr>os_oracle_type = t, os_feed = feed\<rparr>],
     oc_source_count :=
       (if os_feed (oc_sources oc ! unat i) = default_key \<and> feed \<noteq> default_key then min (saturating_add (oc_source_count oc) 1) (of_nat MAX_SOURCES)
        else if os_feed (oc_sources oc ! unat i) \<noteq> default_key \<and> feed = default_key then saturating_sub (oc_source_count oc) 1
        else oc_source_count oc)\<rparr>)"
proof -
  let ?n = "length (filter (\<lambda>s. os_feed s \<noteq> default_key) ((oc_sources oc)[unat i := \<lparr>os_oracle_type = t, os_feed = feed\<rparr>]))"
  have n: "?n + (if os_feed (oc_sources oc ! unat i) \<noteq> default_key then 1 else 0) = sources_used oc + (if feed \<noteq> default_key then 1 else 0)"
    using length_filter_put [OF i, of "\<lambda>s. os_feed s \<noteq> default_key" "\<lparr>os_oracle_type = t, os_feed = feed\<rparr>"]
    by (simp add: sources_used_def)
  have "?n \<le> 8"
    using length_filter_le [of "\<lambda>s. os_feed s \<noteq> default_key" "(oc_sources oc)[unat i := \<lparr>os_oracle_type = t, os_feed = feed\<rparr>]"] wf
    by (simp add: consensus_wf_def MAX_SOURCES_def)
  with n sources_used_bound [OF wf] wf show ?thesis
    by (auto simp: consensus_wf_def sources_used_def MAX_SOURCES_def unat_min arith_ok split: if_splits)
qed

lemma update_twap_wf:
  "consensus_wf oc \<Longrightarrow> 0 < p \<Longrightarrow> consensus_wf (update_twap oc p slot)"
  by (simp add: consensus_wf_def sources_used_def twap_positive)

lemma settle_wf: "consensus_wf oc \<Longrightarrow> settle_consensus oc slot fresh = Inr oc' \<Longrightarrow> consensus_wf oc'"
proof (erule settle_cases)
  assume wf: "consensus_wf oc"
  show "consensus_wf oc'" if "twap_fallback oc slot = Inr (oc_twap_price oc)" "oc' = update_twap oc (oc_twap_price oc) slot"
    using that wf by (simp add: update_twap_wf twap_fallback_def split: if_splits)
  show "consensus_wf oc'" if "0 < price" "oc' = (update_twap oc price slot)\<lparr>oc_last_consensus_price := price,
          oc_last_consensus_conf := max_deviation acc price, oc_last_consensus_slot := slot\<rparr>" for price acc
    using that wf by (simp add: consensus_wf_def sources_used_def twap_positive)
  show "consensus_wf oc'" if "0 < oc_twap_price oc" "oc' = (update_twap oc (oc_twap_price oc) slot)\<lparr>oc_last_consensus_price := oc_twap_price oc,
          oc_last_consensus_conf := 0, oc_last_consensus_slot := slot\<rparr>"
    using that wf by (simp add: consensus_wf_def sources_used_def twap_positive)
qed

lemma consensus_exec_wf: "consensus_wf oc \<Longrightarrow> consensus_exec k e oc = Inr oc' \<Longrightarrow> consensus_wf oc'"
proof (cases e)
  case (SetSource rt ctx i t feed)
  assume wf: "consensus_wf oc" and "consensus_exec k e oc = Inr oc'"
  with SetSource show ?thesis
    using set_source_wf [where i = i and t = t and feed = feed and oc = oc]
    by (auto simp: set_oracle_source_handler_def Let_def guarded_Inr split: if_splits)
next
  case (RemoveSource rt ctx i)
  assume wf: "consensus_wf oc" and "consensus_exec k e oc = Inr oc'"
  with RemoveSource show ?thesis
    using set_source_wf [where i = i and t = 0 and feed = default_key and oc = oc]
    by (auto simp: remove_oracle_source_handler_def no_source_def Let_def guarded_Inr split: if_splits)
next
  case (UpdateConsensus rt cfg mint feeds)
  assume wf: "consensus_wf oc" and "consensus_exec k e oc = Inr oc'"
  with UpdateConsensus show ?thesis by (auto dest!: update_oracle_consensus_ok intro: settle_wf)
qed

interpretation consensus_record: preserved "consensus_exec k" "\<lambda>_. True" consensus_wf for k
  by unfold_locales (rule consensus_exec_wf)

text \<open>C30: the record of the sources is well formed from its creation on, whatever is set, removed and updated:
  it has eight places, counts those that are taken, needs between one and eight sources, accepts
  prices at most half off the median and has an average as soon as it has a price.\<close>

theorem consensus_record_wf:
  assumes "init_oracle_consensus_handler rt ctx existing min_oracles outlier_bps max_age = Inr (c', oc)"
  shows "consensus_wf (play (consensus_exec k) es oc)"
proof (rule consensus_record.play_inv)
  show "consensus_wf oc"
    using assms by (auto simp: init_oracle_consensus_handler_def Let_def guarded_Inr consensus_wf_def sources_used_def
        no_source_def MAX_SOURCES_def)
qed simp

section \<open>The average without end\<close>

text \<open>
  What stands in for a missing quorum renews itself: as long as someone updates the record at least
  every thousand slots, with fresh but too few accepted prices, the last average stays
  the price, and stays fresh, for ever.
\<close>

definition too_few :: "oracle_consensus \<Rightarrow> u64 list \<Rightarrow> bool" where
  "too_few oc fresh \<longleftrightarrow> fresh \<noteq> [] \<and>
     length (accepted_prices fresh (median_of (sort_slice fresh)) (ucast (oc_outlier_threshold_bps oc))) < unat (oc_min_oracles oc)"

fun kept_awake :: "oracle_consensus \<Rightarrow> u64 \<Rightarrow> (u64 \<times> u64 list) list \<Rightarrow> bool" where
  "kept_awake oc slot [] = True"
| "kept_awake oc slot ((slot', fresh) # rest) =
     (saturating_sub slot' slot \<le> 1000 \<and> too_few oc fresh \<and> kept_awake oc slot' rest)"

lemma twap_never_expires:
  assumes "0 < oc_twap_price oc" and "kept_awake oc (oc_twap_last_slot oc) steps" and "steps \<noteq> []"
  shows "let oc' = play (\<lambda>(slot, fresh) oc. settle_consensus oc slot fresh) steps oc in
     oc_last_consensus_price oc' = oc_twap_price oc \<and> oc_last_consensus_slot oc' = fst (last steps)"
  using assms
proof (induction steps arbitrary: oc)
  case (Cons st steps)
  obtain slot fresh where st: "st = (slot, fresh)" by force
  define oc1 where "oc1 = (update_twap oc (oc_twap_price oc) slot)\<lparr>oc_last_consensus_price := oc_twap_price oc,
      oc_last_consensus_conf := 0, oc_last_consensus_slot := slot\<rparr>"
  have step: "settle_consensus oc slot fresh = Inr oc1"
    using Cons.prems by (simp add: st settle_consensus_def twap_fallback_def too_few_def oc1_def Let_def not_le)
  have awake: "kept_awake oc1 slot rest = kept_awake oc slot rest" for slot rest
    by (induction rest arbitrary: slot) (auto simp: oc1_def too_few_def)
  show ?case
  proof (cases "steps = []")
    case True
    then show ?thesis by (simp add: st step) (simp add: oc1_def)
  next
    case False
    have "0 < oc_twap_price oc1" "oc_twap_last_slot oc1 = slot" "oc_twap_price oc1 = oc_twap_price oc"
      using Cons.prems by (simp_all add: oc1_def twap_same)
    then show ?thesis
      using Cons.IH [of oc1] Cons.prems False by (simp add: st step awake)
  qed
qed simp

section \<open>At work\<close>

lemma demo_consensus_init:
  "init_oracle_consensus_handler (ref_runtime 1 0 0) \<lparr>ac_authority = 7, ac_config = demo_acct demo_config, ac_mint = 5\<rparr>
     None 2 500 100 = Inr (demo_config\<lparr>c_feature_flags := FLAG_MULTI_ORACLE_CONSENSUS\<rparr>,
       \<lparr>oc_mint = 5, oc_min_oracles = 2, oc_outlier_threshold_bps = 500, oc_source_count = 0, oc_max_age_slots = 100,
        oc_sources = replicate MAX_SOURCES no_source, oc_last_consensus_price = 0, oc_last_consensus_slot = 0,
        oc_twap_price = 0, oc_twap_last_slot = 0, oc_last_consensus_conf = 0, oc_bump = 255\<rparr>)"
  by (simp add: eval_defs init_oracle_consensus_handler_def authority_accounts_def config_ok_def MAX_SOURCES_def
      word_le_nat_alt set_flags_def demo_cfg_key_def)

theorem consensus_record_wf_witness:
  "consensus_wf \<lparr>oc_mint = 5, oc_min_oracles = 2, oc_outlier_threshold_bps = 500, oc_source_count = 0, oc_max_age_slots = 100,
        oc_sources = replicate MAX_SOURCES no_source, oc_last_consensus_price = 0, oc_last_consensus_slot = 0,
        oc_twap_price = 0, oc_twap_last_slot = 0, oc_last_consensus_conf = 0, oc_bump = 255\<rparr>"
  using consensus_record_wf [OF demo_consensus_init, of 0 "[]"] by simp

definition demo_oc :: oracle_consensus where
  "demo_oc = \<lparr>oc_mint = 5, oc_min_oracles = 2, oc_outlier_threshold_bps = 500, oc_source_count = 3, oc_max_age_slots = 100,
     oc_sources = [\<lparr>os_oracle_type = 0, os_feed = 61\<rparr>, no_source, \<lparr>os_oracle_type = 0, os_feed = 62\<rparr>,
       \<lparr>os_oracle_type = 0, os_feed = 63\<rparr>, no_source, no_source, no_source, no_source],
     oc_last_consensus_price = 0, oc_last_consensus_slot = 0, oc_twap_price = 0, oc_twap_last_slot = 0,
     oc_last_consensus_conf = 0, oc_bump = 255\<rparr>"

definition demo_oc_acct :: "oracle_consensus account" where
  "demo_oc_acct = \<lparr>key_of = ref_pda (consensus_seeds 5), data_of = demo_oc\<rparr>"

definition demo_pyth :: "pubkey \<Rightarrow> i64 \<Rightarrow> u64 \<Rightarrow> consensus_feed" where
  "demo_pyth k p slot = \<lparr>fa_key = k, fa_pyth = None, fa_custom = None, cf_pyth_agg = Some (p, slot), cf_data = []\<rparr>"

abbreviation demo_feeds :: "consensus_feed list" where
  "demo_feeds \<equiv> [demo_pyth 61 100 990, demo_pyth 0 0 0, demo_pyth 62 102 1000, demo_pyth 63 5000 1000,
     demo_pyth 0 0 0, demo_pyth 0 0 0, demo_pyth 0 0 0, demo_pyth 0 0 0]"

lemmas consensus_eval [eval_defs] =
  demo_oc_def demo_oc_acct_def demo_pyth_def no_source_def MAX_SOURCES_def read_source_price_def ORACLE_PYTH_def
  i64_as_u64_def update_oracle_consensus_handler_def consensus_ok_def config_ok_def

lemma demo_fresh: "collect_fresh 1000 100 (oc_sources demo_oc) demo_feeds = Inr [100, 102, 5000]"
  by (simp add: eval_defs word_le_nat_alt)

lemma demo_settles: "settle_consensus demo_oc 1000 [100, 102, 5000] = Inr (demo_oc
    \<lparr>oc_last_consensus_price := 101, oc_last_consensus_conf := 1, oc_last_consensus_slot := 1000,
     oc_twap_price := 101, oc_twap_last_slot := 1000\<rparr>)"
proof -
  have med: "median_of (sort_slice [100, 102, 5000]) = 102" "median_of (sort_slice [100, 102]) = 101"
    by (simp_all add: sort_slice_sort median_of_def word_le_nat_alt)
  have acc: "accepted_prices [100, 102, 5000] 102 500 = [100, 102]"
    by (simp add: accepted_prices_def deviation_bps_def saturating_mul_def saturating_sub_def word_le_nat_alt max_def)
  show ?thesis
    by (simp add: settle_consensus_def Let_def demo_oc_def med acc update_twap_def max_deviation_def saturating_sub_def
        word_le_nat_alt word_less_nat_alt)
qed

lemma demo_updates:
  "update_oracle_consensus_handler (ref_runtime 1000 0 0) (demo_acct (demo_config\<lparr>c_feature_flags := FLAG_MULTI_ORACLE_CONSENSUS\<rparr>))
     5 demo_oc_acct demo_feeds = Inr (demo_oc
    \<lparr>oc_last_consensus_price := 101, oc_last_consensus_conf := 1, oc_last_consensus_slot := 1000,
     oc_twap_price := 101, oc_twap_last_slot := 1000\<rparr>)"
  using demo_fresh demo_settles
  by (simp add: eval_defs) (simp add: demo_cfg_key_def)


end
