(* ===== verification/Escrow.thy ===== *)
theory Escrow
  imports AuthGate Machine Demo
begin

text \<open>
  Tokens held until two parties agree: the payment channels between an initiator and a counterparty
  (programs/sss-token/src/instructions/apc.rs) and the vaults that pay on proof (pbs.rs). Both lock an
  amount once and pay it out once; the locale \<open>one_payout\<close> states that contract for both.
\<close>

section \<open>Payment channels\<close>

datatype channel_status = ChOpen | ChDisputed | ChSettled | ChForceClose

fun ch_terminal :: "channel_status \<Rightarrow> bool" where
  "ch_terminal ChSettled = True"
| "ch_terminal ChForceClose = True"
| "ch_terminal _ = False"

record payment_channel =
  ch_initiator :: pubkey
  ch_counterparty :: pubkey
  ch_stable_mint :: pubkey
  ch_initiator_deposit :: u64
  ch_open_slot :: u64
  ch_channel_id :: u64
  ch_dispute_policy :: u8
  ch_timeout_slots :: u64
  ch_work_proof_hash :: bytes32
  ch_status :: channel_status
  ch_bump :: u8

record proposed_settlement =
  pse_amount :: u64
  pse_proposed_by :: pubkey
  pse_bump :: u8

definition channel_seeds :: "pubkey \<Rightarrow> u64 \<Rightarrow> seed list" where
  "channel_seeds initiator channel_id = [SeedStr ''apc-channel'', SeedKey initiator, SeedU64 channel_id]"

definition settle_seeds :: "pubkey \<Rightarrow> seed list" where
  "settle_seeds channel = [SeedStr ''apc-settle'', SeedKey channel]"

record open_channel_params =
  ocp_counterparty :: pubkey
  ocp_deposit :: u64
  ocp_channel_id :: u64
  ocp_dispute_policy :: u8
  ocp_timeout_slots :: u64

record open_ctx =
  ox_initiator :: pubkey
  ox_config :: "stablecoin_config account"
  ox_mint :: pubkey
  ox_escrow :: pubkey
  ox_source :: pubkey

text \<open>The accounts of the two instructions that lock tokens.\<close>

definition lock_accounts ::
  "'w runtime \<Rightarrow> open_ctx \<Rightarrow> u64 \<Rightarrow> bool \<Rightarrow> pubkey \<Rightarrow> token_account \<Rightarrow> token_account \<Rightarrow> (bool \<times> error) list" where
  "lock_accounts rt ctx flag fresh holder escrow source =
     (let c = data_of (ox_config ctx) in
      config_ok rt (ox_config ctx) (ox_mint ctx) @
      [(c_preset c \<ge> 1, Core InvalidPreset), (\<not> c_paused c, Core MintPaused),
       (flag_set c flag, Channel FeatureNotEnabled),
       (ox_mint ctx = c_mint c, Anchor ConstraintRaw), (fresh, Anchor AccountAlreadyInUse),
       (ta_mint escrow = ox_mint ctx, Anchor ConstraintRaw), (ta_owner escrow = holder, Anchor ConstraintRaw),
       (ta_mint source = ox_mint ctx, Anchor ConstraintRaw), (ta_owner source = ox_initiator ctx, Anchor ConstraintRaw)])"

definition open_channel_handler ::
  "'w runtime \<Rightarrow> 'w \<Rightarrow> open_ctx \<Rightarrow> payment_channel option \<Rightarrow> open_channel_params \<Rightarrow> (payment_channel account \<times> 'w) res" where
  "open_channel_handler rt w ctx existing p =
     (let (key, bump) = rt_find_pda rt (channel_seeds (ox_initiator ctx) (ocp_channel_id p)) in
      andthen (load_mint rt w (ox_mint ctx)) (\<lambda>mint.
      andthen (load_token rt w (ox_escrow ctx)) (\<lambda>escrow.
      andthen (load_token rt w (ox_source ctx)) (\<lambda>source.
      guarded
        (lock_accounts rt ctx FLAG_AGENT_PAYMENT_CHANNEL (existing = None) key escrow source @
         [(ocp_timeout_slots p > 0, Channel InvalidExpirySlot), (ocp_deposit p > 0, Core ZeroAmount)])
        (andthen (if ocp_deposit p > 0
                  then cpi rt w [ox_initiator ctx]
                         (TransferChecked (ox_source ctx) (ox_mint ctx) (ox_escrow ctx) (ox_initiator ctx) (ocp_deposit p) (tm_decimals mint))
                  else Inr w) (\<lambda>w'.
         Inr (\<lparr>key_of = key, data_of =
                \<lparr>ch_initiator = ox_initiator ctx, ch_counterparty = ocp_counterparty p, ch_stable_mint = ox_mint ctx,
                 ch_initiator_deposit = ocp_deposit p, ch_open_slot = rt_slot rt, ch_channel_id = ocp_channel_id p,
                 ch_dispute_policy = ocp_dispute_policy p, ch_timeout_slots = ocp_timeout_slots p,
                 ch_work_proof_hash = 0, ch_status = ChOpen, ch_bump = bump\<rparr>\<rparr>, w')))))))"

text \<open>A party to an open channel; \<open>blake3\<close> stands for the hash of the third-party crate on 32-byte blocks.\<close>

definition party_ok :: "pubkey \<Rightarrow> payment_channel \<Rightarrow> (bool \<times> error) list" where
  "party_ok signer ch =
     [(ch_status ch = ChOpen, Channel ChannelAlreadyClosed),
      (ch_initiator ch = signer \<or> ch_counterparty ch = signer, Core Unauthorized)]"

definition submit_work_proof_handler ::
  "(bytes32 list \<Rightarrow> bytes32) \<Rightarrow> pubkey \<Rightarrow> payment_channel \<Rightarrow> bytes32 \<Rightarrow> bytes32 \<Rightarrow> payment_channel res" where
  "submit_work_proof_handler blake3 submitter ch task_hash output_hash =
     guarded (party_ok submitter ch) (Inr (ch\<lparr>ch_work_proof_hash := blake3 [task_hash, output_hash]\<rparr>))"

definition propose_settle_handler ::
  "'w runtime \<Rightarrow> pubkey \<Rightarrow> payment_channel account \<Rightarrow> proposed_settlement option \<Rightarrow> u64 \<Rightarrow> proposed_settlement res" where
  "propose_settle_handler rt proposer ch existing amount =
     guarded
       (party_ok proposer (data_of ch) @
        [(existing = None, Anchor AccountAlreadyInUse),
         (amount \<le> ch_initiator_deposit (data_of ch), Channel InvalidSettleAmount)])
       (Inr \<lparr>pse_amount = amount, pse_proposed_by = proposer,
             pse_bump = snd (rt_find_pda rt (settle_seeds (key_of ch)))\<rparr>)"

text \<open>The token accounts of a settlement, and the two transfers out of the escrow.\<close>

record settle_ctx =
  sx_signer :: pubkey
  sx_mint :: pubkey
  sx_escrow :: pubkey
  sx_counterparty_token :: pubkey
  sx_initiator_token :: pubkey

definition settle_accounts ::
  "settle_ctx \<Rightarrow> payment_channel account \<Rightarrow> token_account \<Rightarrow> token_account \<Rightarrow> token_account \<Rightarrow> (bool \<times> error) list" where
  "settle_accounts ctx ch escrow cp_acct in_acct =
     [(sx_mint ctx = ch_stable_mint (data_of ch), Anchor ConstraintRaw),
      (ta_mint escrow = sx_mint ctx, Anchor ConstraintRaw), (ta_owner escrow = key_of ch, Anchor ConstraintRaw),
      (ta_mint cp_acct = sx_mint ctx, Anchor ConstraintRaw), (ta_owner cp_acct = ch_counterparty (data_of ch), Anchor ConstraintRaw),
      (ta_mint in_acct = sx_mint ctx, Anchor ConstraintRaw), (ta_owner in_acct = ch_initiator (data_of ch), Anchor ConstraintRaw)]"

definition pay_out ::
  "'w runtime \<Rightarrow> 'w \<Rightarrow> pubkey list \<Rightarrow> seed list \<Rightarrow> u8 \<Rightarrow> pubkey \<Rightarrow> pubkey \<Rightarrow> pubkey \<Rightarrow> pubkey \<Rightarrow> u8 \<Rightarrow> u64 \<Rightarrow> 'w res" where
  "pay_out rt w signers seeds bump escrow mint dest holder dec n =
     (if n > 0 then cpi_signed rt w signers seeds bump (TransferChecked escrow mint dest holder n dec) else Inr w)"

definition channel_pay ::
  "'w runtime \<Rightarrow> 'w \<Rightarrow> pubkey list \<Rightarrow> payment_channel account \<Rightarrow> settle_ctx \<Rightarrow> u8 \<Rightarrow> u64 \<Rightarrow> (payment_channel \<times> 'w) res" where
  "channel_pay rt w signers ch ctx dec amount =
     (let c = data_of ch; seeds = channel_seeds (ch_initiator c) (ch_channel_id c);
          remainder = saturating_sub (ch_initiator_deposit c) amount in
      andthen (pay_out rt w signers seeds (ch_bump c) (sx_escrow ctx) (sx_mint ctx) (sx_counterparty_token ctx) (key_of ch) dec amount) (\<lambda>w1.
      andthen (pay_out rt w1 signers seeds (ch_bump c) (sx_escrow ctx) (sx_mint ctx) (sx_initiator_token ctx) (key_of ch) dec remainder) (\<lambda>w2.
      Inr (c\<lparr>ch_status := ChSettled\<rparr>, w2))))"

definition countersign_settle_handler ::
  "'w runtime \<Rightarrow> 'w \<Rightarrow> settle_ctx \<Rightarrow> payment_channel account \<Rightarrow> proposed_settlement account \<Rightarrow> u64 \<Rightarrow>
     (payment_channel \<times> 'w) res" where
  "countersign_settle_handler rt w ctx ch ps amount =
     andthen (load_mint rt w (sx_mint ctx)) (\<lambda>mint.
     andthen (load_token rt w (sx_escrow ctx)) (\<lambda>escrow.
     andthen (load_token rt w (sx_counterparty_token ctx)) (\<lambda>cp_acct.
     andthen (load_token rt w (sx_initiator_token ctx)) (\<lambda>in_acct.
     guarded
       (party_ok (sx_signer ctx) (data_of ch) @
        [(seeds_ok rt (key_of ps) (settle_seeds (key_of ch)) (pse_bump (data_of ps)), Anchor ConstraintSeeds),
         (pse_proposed_by (data_of ps) \<noteq> sx_signer ctx, Core Unauthorized)] @
        settle_accounts ctx ch escrow cp_acct in_acct @
        [(amount = pse_amount (data_of ps), Channel SettlementNotMatching),
         (amount \<le> ch_initiator_deposit (data_of ch), Channel InvalidSettleAmount)])
       (channel_pay rt w [sx_signer ctx] ch ctx (tm_decimals mint) amount)))))"

definition dispute_handler :: "pubkey \<Rightarrow> payment_channel \<Rightarrow> bytes32 \<Rightarrow> payment_channel res" where
  "dispute_handler disputer ch evidence_hash =
     guarded (party_ok disputer ch) (Inr (ch\<lparr>ch_work_proof_hash := evidence_hash, ch_status := ChDisputed\<rparr>))"

definition force_close_handler ::
  "'w runtime \<Rightarrow> 'w \<Rightarrow> settle_ctx \<Rightarrow> payment_channel account \<Rightarrow> (payment_channel \<times> 'w) res" where
  "force_close_handler rt w ctx ch =
     (let c = data_of ch in
      andthen (load_mint rt w (sx_mint ctx)) (\<lambda>mint.
      andthen (load_token rt w (sx_escrow ctx)) (\<lambda>escrow.
      andthen (load_token rt w (sx_initiator_token ctx)) (\<lambda>in_acct.
      guarded
        [(ch_initiator c = sx_signer ctx, Core Unauthorized),
         (\<not> ch_terminal (ch_status c), Channel ChannelAlreadyClosed),
         (sx_mint ctx = ch_stable_mint c, Anchor ConstraintRaw),
         (ta_mint escrow = sx_mint ctx, Anchor ConstraintRaw), (ta_owner escrow = key_of ch, Anchor ConstraintRaw),
         (ta_mint in_acct = sx_mint ctx, Anchor ConstraintRaw), (ta_owner in_acct = sx_signer ctx, Anchor ConstraintRaw),
         (saturating_add (ch_open_slot c) (ch_timeout_slots c) \<le> rt_slot rt, Channel ChannelNotExpired)]
        (andthen (pay_out rt w [sx_signer ctx] (channel_seeds (ch_initiator c) (ch_channel_id c)) (ch_bump c) (sx_escrow ctx)
                    (sx_mint ctx) (sx_initiator_token ctx) (key_of ch) (tm_decimals mint) (ch_initiator_deposit c)) (\<lambda>w'.
         Inr (c\<lparr>ch_status := ChForceClose\<rparr>, w')))))))"

text \<open>Who signs a resolution: the keys of the three optional signers with their \<open>is_signer\<close> bits.\<close>

record resolve_ctx = settle_ctx +
  rx_initiator_signer :: "pubkey \<times> bool"
  rx_counterparty_signer :: "pubkey \<times> bool"
  rx_authority :: "pubkey \<times> bool"
  rx_config :: "stablecoin_config account"

definition both_parties_signed :: "resolve_ctx \<Rightarrow> payment_channel \<Rightarrow> bool" where
  "both_parties_signed ctx ch \<longleftrightarrow>
     snd (rx_initiator_signer ctx) \<and> snd (rx_counterparty_signer ctx) \<and>
     fst (rx_initiator_signer ctx) = ch_initiator ch \<and> fst (rx_counterparty_signer ctx) = ch_counterparty ch"

definition authority_signed :: "resolve_ctx \<Rightarrow> bool" where
  "authority_signed ctx \<longleftrightarrow> snd (rx_authority ctx) \<and> fst (rx_authority ctx) = c_authority (data_of (rx_config ctx))"

definition resolve_signers :: "resolve_ctx \<Rightarrow> pubkey list" where
  "resolve_signers ctx =
     sx_signer ctx # map fst (filter snd [rx_initiator_signer ctx, rx_counterparty_signer ctx, rx_authority ctx])"

definition resolve_dispute_handler ::
  "'w runtime \<Rightarrow> 'w \<Rightarrow> resolve_ctx \<Rightarrow> payment_channel account \<Rightarrow> u64 \<Rightarrow> (payment_channel \<times> 'w) res" where
  "resolve_dispute_handler rt w ctx ch settlement_amount =
     andthen (load_mint rt w (sx_mint ctx)) (\<lambda>mint.
     andthen (load_token rt w (sx_escrow ctx)) (\<lambda>escrow.
     andthen (load_token rt w (sx_counterparty_token ctx)) (\<lambda>cp_acct.
     andthen (load_token rt w (sx_initiator_token ctx)) (\<lambda>in_acct.
     guarded
       (config_ok rt (rx_config ctx) (sx_mint ctx) @
        [(ch_status (data_of ch) = ChDisputed, Channel ChannelAlreadyClosed)] @
        settle_accounts (settle_ctx.truncate ctx) ch escrow cp_acct in_acct @
        [(both_parties_signed ctx (data_of ch) \<or> authority_signed ctx, Core Unauthorized),
         (settlement_amount \<le> ch_initiator_deposit (data_of ch), Channel InvalidSettleAmount)])
       (channel_pay rt w (resolve_signers ctx) ch (settle_ctx.truncate ctx) (tm_decimals mint) settlement_amount)))))"

section \<open>Vaults that pay on proof\<close>

datatype vault_status = VPending | VResolved | VExpired | VPartiallyResolved

record probabilistic_vault =
  pv_config :: pubkey
  pv_issuer :: pubkey
  pv_claimant :: pubkey
  pv_stable_mint :: pubkey
  pv_committed_amount :: u64
  pv_resolved_amount :: u64
  pv_condition_hash :: bytes32
  pv_expiry_slot :: u64
  pv_commitment_id :: u64
  pv_status :: vault_status
  pv_bump :: u8

definition vault_remaining :: "probabilistic_vault \<Rightarrow> u64" where
  "vault_remaining v = saturating_sub (pv_committed_amount v) (pv_resolved_amount v)"

definition vault_terminal :: "probabilistic_vault \<Rightarrow> bool" where
  "vault_terminal v \<longleftrightarrow>
     pv_status v = VResolved \<or> pv_status v = VExpired \<or> (pv_status v = VPartiallyResolved \<and> vault_remaining v = 0)"

record commit_params =
  cmp_amount :: u64
  cmp_condition_hash :: bytes32
  cmp_expiry_slot :: u64
  cmp_commitment_id :: u64
  cmp_claimant :: pubkey

definition pbs_seeds :: "pubkey \<Rightarrow> u64 \<Rightarrow> seed list" where
  "pbs_seeds config commitment_id = [SeedStr ''pbs-vault'', SeedKey config, SeedU64 commitment_id]"

definition commit_probabilistic_handler ::
  "'w runtime \<Rightarrow> 'w \<Rightarrow> open_ctx \<Rightarrow> probabilistic_vault option \<Rightarrow> commit_params \<Rightarrow> (probabilistic_vault account \<times> 'w) res" where
  "commit_probabilistic_handler rt w ctx existing p =
     (let (key, bump) = rt_find_pda rt (pbs_seeds (key_of (ox_config ctx)) (cmp_commitment_id p)) in
      andthen (load_mint rt w (ox_mint ctx)) (\<lambda>mint.
      andthen (load_token rt w (ox_escrow ctx)) (\<lambda>escrow.
      andthen (load_token rt w (ox_source ctx)) (\<lambda>source.
      guarded
        (lock_accounts rt ctx FLAG_PROBABILISTIC_MONEY (existing = None) key escrow source @
         [(cmp_amount p > 0, Core ZeroAmount), (cmp_expiry_slot p > rt_slot rt, Channel InvalidExpirySlot)])
        (andthen (cpi rt w [ox_initiator ctx]
                    (TransferChecked (ox_source ctx) (ox_mint ctx) (ox_escrow ctx) (ox_initiator ctx) (cmp_amount p) (tm_decimals mint))) (\<lambda>w'.
         Inr (\<lparr>key_of = key, data_of =
                \<lparr>pv_config = key_of (ox_config ctx), pv_issuer = ox_initiator ctx, pv_claimant = cmp_claimant p,
                 pv_stable_mint = ox_mint ctx, pv_committed_amount = cmp_amount p, pv_resolved_amount = 0,
                 pv_condition_hash = cmp_condition_hash p, pv_expiry_slot = cmp_expiry_slot p,
                 pv_commitment_id = cmp_commitment_id p, pv_status = VPending, pv_bump = bump\<rparr>\<rparr>, w')))))))"

record vault_ctx =
  vx_signer :: pubkey
  vx_mint :: pubkey
  vx_escrow :: pubkey
  vx_claimant_token :: pubkey
  vx_issuer_token :: pubkey

definition vault_pay ::
  "'w runtime \<Rightarrow> 'w \<Rightarrow> vault_ctx \<Rightarrow> probabilistic_vault account \<Rightarrow> pubkey \<Rightarrow> u8 \<Rightarrow> u64 \<Rightarrow> 'w res" where
  "vault_pay rt w ctx va dest dec n =
     (let v = data_of va in
      cpi_signed rt w [vx_signer ctx] (pbs_seeds (pv_config v) (pv_commitment_id v)) (pv_bump v)
        (TransferChecked (vx_escrow ctx) (vx_mint ctx) dest (key_of va) n dec))"

definition vault_escrow_ok :: "vault_ctx \<Rightarrow> probabilistic_vault account \<Rightarrow> token_account \<Rightarrow> (bool \<times> error) list" where
  "vault_escrow_ok ctx va escrow =
     [(vx_mint ctx = pv_stable_mint (data_of va), Anchor ConstraintRaw),
      (ta_mint escrow = vx_mint ctx, Anchor ConstraintRaw), (ta_owner escrow = key_of va, Anchor ConstraintRaw)]"

definition claimant_ok :: "vault_ctx \<Rightarrow> probabilistic_vault account \<Rightarrow> (bool \<times> error) list" where
  "claimant_ok ctx va =
     [(pv_claimant (data_of va) = vx_signer ctx, Core Unauthorized),
      (\<not> vault_terminal (data_of va), Channel VaultAlreadyTerminal)]"

definition prove_and_resolve_handler ::
  "(bytes32 list \<Rightarrow> bytes32) \<Rightarrow> 'w runtime \<Rightarrow> 'w \<Rightarrow> vault_ctx \<Rightarrow> probabilistic_vault account \<Rightarrow> bytes32 \<Rightarrow>
     (probabilistic_vault \<times> 'w) res" where
  "prove_and_resolve_handler blake3 rt w ctx va proof_hash =
     (let v = data_of va; remaining = vault_remaining v in
      andthen (load_mint rt w (vx_mint ctx)) (\<lambda>mint.
      andthen (load_token rt w (vx_escrow ctx)) (\<lambda>escrow.
      andthen (load_token rt w (vx_claimant_token ctx)) (\<lambda>cl_acct.
      guarded
        (claimant_ok ctx va @ vault_escrow_ok ctx va escrow @
         [(ta_mint cl_acct = vx_mint ctx, Anchor ConstraintRaw), (ta_owner cl_acct = vx_signer ctx, Anchor ConstraintRaw),
          (blake3 [proof_hash] = pv_condition_hash v, Channel ProofHashMismatch),
          (remaining > 0, Core ZeroAmount)])
        (andthen (vault_pay rt w ctx va (vx_claimant_token ctx) (tm_decimals mint) remaining) (\<lambda>w'.
         Inr (v\<lparr>pv_resolved_amount := pv_committed_amount v, pv_status := VResolved\<rparr>, w')))))))"

definition partial_resolve_handler ::
  "(bytes32 list \<Rightarrow> bytes32) \<Rightarrow> 'w runtime \<Rightarrow> 'w \<Rightarrow> vault_ctx \<Rightarrow> probabilistic_vault account \<Rightarrow> u64 \<Rightarrow> bytes32 \<Rightarrow>
     (probabilistic_vault \<times> 'w) res" where
  "partial_resolve_handler blake3 rt w ctx va amount proof_hash =
     (let v = data_of va; remaining = vault_remaining v in
      andthen (load_mint rt w (vx_mint ctx)) (\<lambda>mint.
      andthen (load_token rt w (vx_escrow ctx)) (\<lambda>escrow.
      andthen (load_token rt w (vx_claimant_token ctx)) (\<lambda>cl_acct.
      andthen (load_token rt w (vx_issuer_token ctx)) (\<lambda>is_acct.
      guarded
        (claimant_ok ctx va @ vault_escrow_ok ctx va escrow @
         [(ta_mint cl_acct = vx_mint ctx, Anchor ConstraintRaw), (ta_owner cl_acct = vx_signer ctx, Anchor ConstraintRaw),
          (ta_mint is_acct = vx_mint ctx, Anchor ConstraintRaw), (ta_owner is_acct = pv_issuer v, Anchor ConstraintRaw),
          (blake3 [proof_hash] = pv_condition_hash v, Channel ProofHashMismatch),
          (amount > 0, Core ZeroAmount), (amount \<le> remaining, Backstop InvalidAmount)])
        (let remainder = saturating_sub remaining amount in
         andthen (vault_pay rt w ctx va (vx_claimant_token ctx) (tm_decimals mint) amount) (\<lambda>w1.
         andthen (if remainder > 0 then vault_pay rt w1 ctx va (vx_issuer_token ctx) (tm_decimals mint) remainder else Inr w1) (\<lambda>w2.
         andthen (ok_or (checked_add (pv_resolved_amount v) amount) (Late Overflow)) (\<lambda>resolved.
         Inr (v\<lparr>pv_resolved_amount := (if remainder > 0 then pv_committed_amount v else resolved),
                pv_status := VResolved\<rparr>, w2))))))))))"

definition expire_and_refund_handler ::
  "'w runtime \<Rightarrow> 'w \<Rightarrow> vault_ctx \<Rightarrow> probabilistic_vault account \<Rightarrow> (probabilistic_vault \<times> 'w) res" where
  "expire_and_refund_handler rt w ctx va =
     (let v = data_of va; remaining = vault_remaining v in
      andthen (load_mint rt w (vx_mint ctx)) (\<lambda>mint.
      andthen (load_token rt w (vx_escrow ctx)) (\<lambda>escrow.
      andthen (load_token rt w (vx_issuer_token ctx)) (\<lambda>is_acct.
      guarded
        ([(\<not> vault_terminal v, Channel VaultAlreadyTerminal)] @ vault_escrow_ok ctx va escrow @
         [(ta_mint is_acct = vx_mint ctx, Anchor ConstraintRaw), (ta_owner is_acct = pv_issuer v, Anchor ConstraintRaw),
          (pv_expiry_slot v \<le> rt_slot rt, Channel VaultNotExpired)])
        (andthen (if remaining > 0 then vault_pay rt w ctx va (vx_issuer_token ctx) (tm_decimals mint) remaining else Inr w) (\<lambda>w'.
         Inr (v\<lparr>pv_status := VExpired\<rparr>, w')))))))"

section \<open>Paying out\<close>

text \<open>A payout moves what it says, whatever the order of the two transfers.\<close>

lemma pay_out_ok:
  assumes "token_ledger rt" and "pay_out rt w signers seeds bump escrow mint dest holder dec n = Inr w'" and "dest \<noteq> escrow"
  shows "balance_of rt w' = (balance_of rt w)(escrow := balance_of rt w escrow - unat n, dest := balance_of rt w dest + unat n) \<and>
    unat n \<le> balance_of rt w escrow \<and> supply_of rt w' = supply_of rt w"
proof (cases "n > 0")
  case True
  with assms(2) obtain k where "rt_invoke rt w (k # signers) (TransferChecked escrow mint dest holder n dec) = Inr w'"
    by (auto simp: pay_out_def run_ok)
  from token_ledger.transfer_ok [OF assms(1) this] assms(3) show ?thesis by simp
next
  case False
  with assms show ?thesis by (simp add: pay_out_def word_less_nat_alt)
qed

section \<open>The life of a channel\<close>

text \<open>
  One channel, the settlement proposed for it and the ledger. \<open>ElsewhereC\<close> is any other
  transaction: it may put the ledger into any state.
\<close>

record 'w channel_world =
  cw_channel :: payment_channel
  cw_settlement :: "proposed_settlement option"
  cw_ledger :: 'w

datatype 'w channel_event =
    SubmitProof pubkey bytes32 bytes32
  | ProposeSettle "'w runtime" pubkey u64
  | Countersign "'w runtime" settle_ctx pubkey u64
  | Dispute pubkey bytes32
  | ForceClose "'w runtime" settle_ctx
  | ResolveDispute "'w runtime" resolve_ctx u64
  | ElsewhereC 'w

definition channel_at :: "pubkey \<Rightarrow> 'w channel_world \<Rightarrow> payment_channel account" where
  "channel_at k s = \<lparr>key_of = k, data_of = cw_channel s\<rparr>"

fun channel_exec ::
  "(bytes32 list \<Rightarrow> bytes32) \<Rightarrow> pubkey \<Rightarrow> 'w channel_event \<Rightarrow> 'w channel_world \<Rightarrow> 'w channel_world res" where
  "channel_exec h k (SubmitProof who t out) s =
     andthen (submit_work_proof_handler h who (cw_channel s) t out) (\<lambda>ch. Inr (s\<lparr>cw_channel := ch\<rparr>))"
| "channel_exec h k (ProposeSettle rt who n) s =
     andthen (propose_settle_handler rt who (channel_at k s) (cw_settlement s) n) (\<lambda>ps. Inr (s\<lparr>cw_settlement := Some ps\<rparr>))"
| "channel_exec h k (Countersign rt ctx psk n) s =
     andthen (ok_or (cw_settlement s) (Anchor AccountNotInitialized)) (\<lambda>ps.
     andthen (countersign_settle_handler rt (cw_ledger s) ctx (channel_at k s) \<lparr>key_of = psk, data_of = ps\<rparr> n) (\<lambda>(ch, w).
     Inr \<lparr>cw_channel = ch, cw_settlement = None, cw_ledger = w\<rparr>))"
| "channel_exec h k (Dispute who ev) s =
     andthen (dispute_handler who (cw_channel s) ev) (\<lambda>ch. Inr (s\<lparr>cw_channel := ch\<rparr>))"
| "channel_exec h k (ForceClose rt ctx) s =
     andthen (force_close_handler rt (cw_ledger s) ctx (channel_at k s)) (\<lambda>(ch, w). Inr (s\<lparr>cw_channel := ch, cw_ledger := w\<rparr>))"
| "channel_exec h k (ResolveDispute rt ctx n) s =
     andthen (resolve_dispute_handler rt (cw_ledger s) ctx (channel_at k s) n) (\<lambda>(ch, w). Inr (s\<lparr>cw_channel := ch, cw_ledger := w\<rparr>))"
| "channel_exec h k (ElsewhereC w) s = Inr (s\<lparr>cw_ledger := w\<rparr>)"

text \<open>What an event pays: to the counterparty and to the initiator.\<close>

fun channel_payout :: "'w channel_event \<Rightarrow> 'w channel_world \<Rightarrow> (u64 \<times> u64) option" where
  "channel_payout (Countersign rt ctx psk n) s = Some (n, saturating_sub (ch_initiator_deposit (cw_channel s)) n)"
| "channel_payout (ResolveDispute rt ctx n) s = Some (n, saturating_sub (ch_initiator_deposit (cw_channel s)) n)"
| "channel_payout (ForceClose rt ctx) s = Some (0, ch_initiator_deposit (cw_channel s))"
| "channel_payout _ s = None"

definition channel_locked :: "'w channel_world \<Rightarrow> u64" where
  "channel_locked s = ch_initiator_deposit (cw_channel s)"

definition channel_closed :: "'w channel_world \<Rightarrow> bool" where
  "channel_closed s \<longleftrightarrow> ch_terminal (ch_status (cw_channel s))"

definition same_terms :: "payment_channel \<Rightarrow> payment_channel \<Rightarrow> bool" where
  "same_terms ch ch' \<longleftrightarrow>
     ch_initiator ch' = ch_initiator ch \<and> ch_counterparty ch' = ch_counterparty ch \<and> ch_stable_mint ch' = ch_stable_mint ch \<and>
     ch_initiator_deposit ch' = ch_initiator_deposit ch \<and> ch_open_slot ch' = ch_open_slot ch \<and>
     ch_channel_id ch' = ch_channel_id ch \<and> ch_dispute_policy ch' = ch_dispute_policy ch \<and>
     ch_timeout_slots ch' = ch_timeout_slots ch \<and> ch_bump ch' = ch_bump ch"

lemma channel_pay_status:
  "channel_pay rt w signers ch ctx dec amount = Inr (c', w') \<Longrightarrow> c' = (data_of ch)\<lparr>ch_status := ChSettled\<rparr>"
  by (auto simp: channel_pay_def Let_def run_ok)

lemmas channel_handlers =
  submit_work_proof_handler_def propose_settle_handler_def countersign_settle_handler_def dispute_handler_def
  force_close_handler_def resolve_dispute_handler_def party_ok_def channel_at_def

lemma same_terms_exec: "channel_exec h k e s = Inr s' \<Longrightarrow> same_terms (cw_channel s) (cw_channel s')"
  by (cases e) (auto simp: channel_handlers same_terms_def guarded_Inr run_ok Let_def dest!: channel_pay_status)

text \<open>The life cycle.\<close>

inductive channel_step :: "channel_status \<Rightarrow> channel_status \<Rightarrow> bool" where
  raise: "channel_step ChOpen ChDisputed"
| agree: "channel_step ChOpen ChSettled"
| resolve: "channel_step ChDisputed ChSettled"
| timeout: "channel_step ChOpen ChForceClose"
| timeout_disputed: "channel_step ChDisputed ChForceClose"

inductive_cases channel_step_from: "channel_step a b"

lemma channel_exec_status:
  assumes "channel_exec h k e s = Inr s'"
  shows "(if channel_payout e s = None then ch_status (cw_channel s') = ch_status (cw_channel s) \<or>
            ch_status (cw_channel s) = ChOpen \<and> ch_status (cw_channel s') = ChDisputed
          else \<not> ch_terminal (ch_status (cw_channel s)) \<and> ch_terminal (ch_status (cw_channel s')) \<and>
            channel_step (ch_status (cw_channel s)) (ch_status (cw_channel s')))"
proof (cases e)
  case (ForceClose rt ctx)
  with assms show ?thesis
    by (cases "ch_status (cw_channel s)") (auto simp: channel_handlers guarded_Inr run_ok Let_def intro: channel_step.intros)
qed (use assms in \<open>auto simp: channel_handlers guarded_Inr run_ok Let_def intro: channel_step.intros dest!: channel_pay_status\<close>)

lemma channel_exec_step:
  assumes "channel_exec h k e s = Inr s'"
  shows "channel_step\<^sup>=\<^sup>= (ch_status (cw_channel s)) (ch_status (cw_channel s'))"
  using channel_exec_status [OF assms] by (auto split: if_splits intro: channel_step.intros)

definition channel_inv :: "'w channel_world \<Rightarrow> bool" where
  "channel_inv s \<longleftrightarrow> (\<forall>ps. cw_settlement s = Some ps \<longrightarrow>
     pse_amount ps \<le> ch_initiator_deposit (cw_channel s) \<and>
     pse_proposed_by ps \<in> {ch_initiator (cw_channel s), ch_counterparty (cw_channel s)})"

lemma same_terms_simps:
  assumes "same_terms ch ch'"
  shows "ch_initiator_deposit ch' = ch_initiator_deposit ch" "ch_initiator ch' = ch_initiator ch"
    "ch_counterparty ch' = ch_counterparty ch"
  using assms by (simp_all add: same_terms_def)

lemma channel_inv_exec: "channel_inv s \<Longrightarrow> channel_exec h k e s = Inr s' \<Longrightarrow> channel_inv s'"
proof -
  assume inv: "channel_inv s" and run: "channel_exec h k e s = Inr s'"
  note same = same_terms_simps [OF same_terms_exec [OF run]]
  show "channel_inv s'"
  proof (cases e)
    case (ProposeSettle rt who n)
    with run show ?thesis by (auto simp: channel_inv_def channel_handlers guarded_Inr run_ok)
  qed (use inv run same in \<open>auto simp: channel_inv_def run_ok\<close>)
qed

lemma channel_amount_le:
  assumes "channel_exec h k e s = Inr s'" and "channel_payout e s = Some (a, b)"
  shows "a \<le> ch_initiator_deposit (cw_channel s) \<and> b = saturating_sub (ch_initiator_deposit (cw_channel s)) a"
proof (cases e)
  case (ForceClose rt ctx)
  with assms show ?thesis by (auto simp: saturating_sub_def)
qed (use assms in \<open>auto simp: channel_handlers guarded_Inr run_ok\<close>)

interpretation channel: one_payout "channel_exec h k" channel_inv channel_closed channel_payout channel_locked for h k
proof unfold_locales
  fix e and s s' :: "'a channel_world" and a b
  assume inv: "channel_inv s" and run: "channel_exec h k e s = Inr s'"
  show "channel_inv s'" by (rule channel_inv_exec [OF inv run])
  assume pay: "channel_payout e s = Some (a, b)"
  show "\<not> channel_closed s \<and> channel_closed s' \<and> unat a + unat b = unat (channel_locked s)"
    using channel_exec_status [OF run] channel_amount_le [OF run pay] pay
    by (auto simp: channel_closed_def channel_locked_def arith_ok word_le_nat_alt)
next
  fix e and s s' :: "'a channel_world"
  assume run: "channel_exec h k e s = Inr s'"
  show "channel_locked s' = channel_locked s"
    using same_terms_simps [OF same_terms_exec [OF run]] by (simp add: channel_locked_def)
  assume "channel_payout e s = None"
  then show "channel_closed s' = channel_closed s"
    using channel_exec_status [OF run] by (auto simp: channel_closed_def)
qed


text \<open>the status of a channel only ever moves along the life cycle: from open to disputed, and from either to settled or
  force-closed, which are final.\<close>

theorem channel_lifecycle:
  "channel_step\<^sup>*\<^sup>* (ch_status (cw_channel s)) (ch_status (cw_channel (play (channel_exec blake3 k) es s))) \<and>
   (ch_terminal a \<longrightarrow> \<not> channel_step a b)"
proof -
  have "channel_step\<^sup>*\<^sup>* (ch_status (cw_channel s)) (ch_status (cw_channel (play (channel_exec blake3 k) es s)))"
  proof (induction es arbitrary: s)
    case (Cons e es)
    show ?case
    proof (cases "channel_exec blake3 k e s")
      case (Inr s')
      from channel_exec_step [OF this] have "channel_step\<^sup>*\<^sup>* (ch_status (cw_channel s)) (ch_status (cw_channel s'))"
        by auto
      with Cons.IH [of s'] Inr show ?thesis by simp
    qed (use Cons in simp)
  qed simp
  moreover have "\<not> channel_step a b" if "ch_terminal a"
    using that by (auto elim!: channel_step_from)
  ultimately show ?thesis by blast
qed

text \<open>a settlement takes both parties: in any history of a channel, one that is countersigned was proposed by one
  party and signed by the other, for the same amount, which is at most the deposit.\<close>

theorem settlement_needs_both:
  assumes "open_channel_handler rt w ctx existing p = Inr (ch, w')"
    and "channel_exec blake3 (key_of ch) (Countersign rt2 sx psk n)
      (play (channel_exec blake3 (key_of ch)) es \<lparr>cw_channel = data_of ch, cw_settlement = None, cw_ledger = w'\<rparr>) = Inr s'"
  shows "\<exists>ps. cw_settlement (play (channel_exec blake3 (key_of ch)) es \<lparr>cw_channel = data_of ch, cw_settlement = None, cw_ledger = w'\<rparr>) = Some ps \<and>
    {pse_proposed_by ps, sx_signer sx} = {ox_initiator ctx, ocp_counterparty p} \<and> ox_initiator ctx \<noteq> ocp_counterparty p \<and>
    pse_amount ps = n \<and> n \<le> ocp_deposit p"
proof -
  let ?start = "\<lparr>cw_channel = data_of ch, cw_settlement = None, cw_ledger = w'\<rparr>"
  let ?s = "play (channel_exec blake3 (key_of ch)) es ?start"
  have ch: "ch_initiator (data_of ch) = ox_initiator ctx" "ch_counterparty (data_of ch) = ocp_counterparty p"
      "ch_initiator_deposit (data_of ch) = ocp_deposit p"
    using assms(1) by (auto simp: open_channel_handler_def guarded_Inr run_ok split: prod.splits if_splits)
  have same: "same_terms (cw_channel t) (cw_channel (play (channel_exec blake3 k) es t))" for t :: "'a channel_world" and k
  proof (induction es arbitrary: t)
    case (Cons e es)
    show ?case
    proof (cases "channel_exec blake3 k e t")
      case (Inr t')
      from Cons.IH [of t'] same_terms_exec [OF this] Inr show ?thesis by (simp add: same_terms_def)
    qed (use Cons in simp)
  qed (simp add: same_terms_def)
  have inv: "channel_inv ?s" by (rule channel.inv_play) (simp add: channel_inv_def)
  obtain ps where ps: "cw_settlement ?s = Some ps" "pse_proposed_by ps \<noteq> sx_signer sx" "n = pse_amount ps"
      "sx_signer sx \<in> {ch_initiator (cw_channel ?s), ch_counterparty (cw_channel ?s)}"
      "n \<le> ch_initiator_deposit (cw_channel ?s)"
    using assms(2) by (auto simp: channel_handlers guarded_Inr run_ok)
  have "pse_proposed_by ps \<in> {ch_initiator (cw_channel ?s), ch_counterparty (cw_channel ?s)}"
    using inv ps(1) by (auto simp: channel_inv_def)
  with ps same_terms_simps [OF same [where t = ?start and k = "key_of ch"]] ch show ?thesis by auto
qed

definition payout_accounts :: "'w channel_event \<Rightarrow> ('w runtime \<times> settle_ctx) option" where
  "payout_accounts e =
     (case e of Countersign rt ctx psk n \<Rightarrow> Some (rt, ctx) | ResolveDispute rt ctx n \<Rightarrow> Some (rt, settle_ctx.truncate ctx)
      | ForceClose rt ctx \<Rightarrow> Some (rt, ctx) | _ \<Rightarrow> None)"

definition moved :: "(pubkey \<Rightarrow> nat) \<Rightarrow> pubkey \<Rightarrow> pubkey \<Rightarrow> nat \<Rightarrow> pubkey \<Rightarrow> nat \<Rightarrow> pubkey \<Rightarrow> nat" where
  "moved B escrow dest1 n1 dest2 n2 =
     (let B1 = B(escrow := B escrow - (n1 + n2)); B2 = B1(dest1 := B1 dest1 + n1) in B2(dest2 := B2 dest2 + n2))"

lemma channel_pay_moves:
  assumes "token_ledger rt" and "channel_pay rt w signers ch ctx dec n = Inr (c', w')"
    and "sx_escrow ctx \<noteq> sx_counterparty_token ctx" and "sx_escrow ctx \<noteq> sx_initiator_token ctx"
  shows "balance_of rt w' = moved (balance_of rt w) (sx_escrow ctx) (sx_counterparty_token ctx) (unat n)
      (sx_initiator_token ctx) (unat (saturating_sub (ch_initiator_deposit (data_of ch)) n)) \<and> supply_of rt w' = supply_of rt w"
proof -
  let ?c = "data_of ch"
  let ?rest = "saturating_sub (ch_initiator_deposit ?c) n"
  from assms(2) obtain w1 where
    p1: "pay_out rt w signers (channel_seeds (ch_initiator ?c) (ch_channel_id ?c)) (ch_bump ?c) (sx_escrow ctx) (sx_mint ctx)
       (sx_counterparty_token ctx) (key_of ch) dec n = Inr w1" and
    p2: "pay_out rt w1 signers (channel_seeds (ch_initiator ?c) (ch_channel_id ?c)) (ch_bump ?c) (sx_escrow ctx) (sx_mint ctx)
       (sx_initiator_token ctx) (key_of ch) dec ?rest = Inr w'"
    by (auto simp: channel_pay_def Let_def run_ok)
  show ?thesis
    using pay_out_ok [OF assms(1) p1] pay_out_ok [OF assms(1) p2] assms(3,4) by (simp add: moved_def Let_def fun_eq_iff)
qed

text \<open>what a payout says is what the ledger does: a countersigned settlement or a resolved dispute takes the deposit
  out of the escrow account, gives the agreed amount to the counterparty's account and the rest to the initiator's, and
  leaves the supply and every other account alone; a forced close gives all of it to the initiator, and only after the timeout.\<close>

theorem channel_payout_effect:
  assumes "channel_exec blake3 k e s = Inr s'" and "channel_payout e s = Some (a, b)"
    and "payout_accounts e = Some (rt, ctx)" and "token_ledger rt"
    and "sx_escrow ctx \<noteq> sx_counterparty_token ctx" and "sx_escrow ctx \<noteq> sx_initiator_token ctx"
  shows "balance_of rt (cw_ledger s') = moved (balance_of rt (cw_ledger s)) (sx_escrow ctx) (sx_counterparty_token ctx) (unat a)
      (sx_initiator_token ctx) (unat b) \<and> supply_of rt (cw_ledger s') = supply_of rt (cw_ledger s) \<and>
    (e = ForceClose rt ctx \<longrightarrow> saturating_add (ch_open_slot (cw_channel s)) (ch_timeout_slots (cw_channel s)) \<le> rt_slot rt)"
proof (cases e)
  case (Countersign rt' ctx' psk n)
  then obtain signers dec ch where "rt' = rt" "ctx' = ctx" "n = a"
      "channel_pay rt (cw_ledger s) signers (channel_at k s) ctx dec n = Inr (ch, cw_ledger s')"
    using assms(1-3) by (auto simp: countersign_settle_handler_def guarded_Inr run_ok payout_accounts_def)
  with channel_pay_moves [OF assms(4) this(4) assms(5,6)] assms(2) Countersign show ?thesis by (simp add: channel_at_def)
next
  case (ResolveDispute rt' ctx' n)
  then obtain signers dec ch where "rt' = rt" "settle_ctx.truncate ctx' = ctx" "n = a"
      "channel_pay rt (cw_ledger s) signers (channel_at k s) ctx dec n = Inr (ch, cw_ledger s')"
    using assms(1-3) by (auto simp: resolve_dispute_handler_def guarded_Inr run_ok payout_accounts_def)
  with channel_pay_moves [OF assms(4) this(4) assms(5,6)] assms(2) ResolveDispute show ?thesis by (simp add: channel_at_def)
next
  case (ForceClose rt' ctx')
  then obtain signers dec where fc: "rt' = rt" "ctx' = ctx" "a = 0" "b = ch_initiator_deposit (cw_channel s)"
      "saturating_add (ch_open_slot (cw_channel s)) (ch_timeout_slots (cw_channel s)) \<le> rt_slot rt" and
      pay: "pay_out rt (cw_ledger s) signers (channel_seeds (ch_initiator (cw_channel s)) (ch_channel_id (cw_channel s))) (ch_bump (cw_channel s))
        (sx_escrow ctx) (sx_mint ctx) (sx_initiator_token ctx) k dec b = Inr (cw_ledger s')"
    using assms(1-3) by (auto simp: force_close_handler_def guarded_Inr run_ok payout_accounts_def channel_at_def Let_def)
  from pay_out_ok [OF assms(4) pay] assms(6) fc show ?thesis by (simp add: moved_def Let_def fun_eq_iff)
qed (use assms in \<open>simp_all add: payout_accounts_def\<close>)

text \<open>What the initiator needs to close: the accounts, the timeout, and room for the deposit.\<close>

definition closable :: "'w runtime \<Rightarrow> ('w \<Rightarrow> pubkey \<Rightarrow> bool) \<Rightarrow> 'w \<Rightarrow> settle_ctx \<Rightarrow> payment_channel account \<Rightarrow> bool" where
  "closable rt thawed w ctx ch \<longleftrightarrow>
     (let c = data_of ch in
      sx_signer ctx = ch_initiator c \<and> sx_mint ctx = ch_stable_mint c \<and>
      rt_create_pda rt (channel_seeds (ch_initiator c) (ch_channel_id c)) (ch_bump c) = Some (key_of ch) \<and>
      unat (ch_open_slot c) + unat (ch_timeout_slots c) \<le> unat (rt_slot rt) \<and>
      thawed w (sx_escrow ctx) \<and> thawed w (sx_initiator_token ctx) \<and>
      (case (rt_mint rt w (sx_mint ctx), rt_token rt w (sx_escrow ctx), rt_token rt w (sx_initiator_token ctx)) of
         (Some m, Some esc, Some acct) \<Rightarrow>
           ta_mint esc = sx_mint ctx \<and> ta_owner esc = key_of ch \<and> ch_initiator_deposit c \<le> ta_amount esc \<and>
           ta_mint acct = sx_mint ctx \<and> ta_owner acct = ch_initiator c \<and>
           unat (ta_amount acct) + unat (ch_initiator_deposit c) < 2 ^ 64
       | _ \<Rightarrow> False))"

text \<open>a deposit is never stuck: once the timeout has passed, the initiator of a channel that is open or disputed can
  close it, whatever the counterparty does.\<close>

theorem force_close_succeeds:
  assumes "token_progress rt thawed" and "closable rt thawed w ctx ch" and "\<not> ch_terminal (ch_status (data_of ch))"
  shows "\<exists>w'. force_close_handler rt w ctx ch = Inr ((data_of ch)\<lparr>ch_status := ChForceClose\<rparr>, w')"
proof -
  let ?c = "data_of ch"
  obtain m esc acct where acc: "rt_mint rt w (sx_mint ctx) = Some m" "rt_token rt w (sx_escrow ctx) = Some esc"
      "rt_token rt w (sx_initiator_token ctx) = Some acct"
    and tok: "ta_mint esc = sx_mint ctx" "ta_owner esc = key_of ch" "ch_initiator_deposit ?c \<le> ta_amount esc"
      "ta_mint acct = sx_mint ctx" "ta_owner acct = ch_initiator ?c"
      "unat (ta_amount acct) + unat (ch_initiator_deposit ?c) < 2 ^ 64"
    using assms(2) by (auto simp: closable_def Let_def split: option.splits)
  have pre: "sx_signer ctx = ch_initiator ?c" "sx_mint ctx = ch_stable_mint ?c"
      "rt_create_pda rt (channel_seeds (ch_initiator ?c) (ch_channel_id ?c)) (ch_bump ?c) = Some (key_of ch)"
      "unat (ch_open_slot ?c) + unat (ch_timeout_slots ?c) \<le> unat (rt_slot rt)"
      "thawed w (sx_escrow ctx)" "thawed w (sx_initiator_token ctx)"
    using assms(2) by (auto simp: closable_def Let_def)
  obtain w' where pay: "rt_invoke rt w (key_of ch # [ch_initiator ?c]) (TransferChecked (sx_escrow ctx) (sx_mint ctx)
      (sx_initiator_token ctx) (key_of ch) (ch_initiator_deposit ?c) (tm_decimals m)) = Inr w'"
    using token_progress.transfer_goes [where sgs = "[key_of ch, ch_initiator ?c]",
        OF assms(1) acc(2,3,1) tok(1,4) refl pre(5,6) tok(2) _ tok(3,6)] by auto
  have slot: "saturating_add (ch_open_slot ?c) (ch_timeout_slots ?c) \<le> rt_slot rt"
    using pre(4) by (auto simp: word_le_nat_alt unat_saturating_add min_def)
  have "pay_out rt w [ch_initiator ?c] (channel_seeds (ch_initiator ?c) (ch_channel_id ?c)) (ch_bump ?c) (sx_escrow ctx)
      (sx_mint ctx) (sx_initiator_token ctx) (key_of ch) (tm_decimals m) (ch_initiator_deposit ?c) =
      Inr (if ch_initiator_deposit ?c > 0 then w' else w)"
    using pay pre(3) by (simp add: pay_out_def run_ok)
  with acc tok pre(1,2) assms(3) slot show ?thesis
    by (simp add: force_close_handler_def load_mint_def load_token_def Let_def)
qed

section \<open>The life of a vault\<close>

record 'w vault_world =
  vw_vault :: probabilistic_vault
  vw_ledger :: 'w

datatype 'w vault_event =
    ProveResolve "'w runtime" vault_ctx bytes32
  | PartialResolve "'w runtime" vault_ctx u64 bytes32
  | ExpireRefund "'w runtime" vault_ctx
  | ElsewhereV 'w

definition vault_at :: "pubkey \<Rightarrow> 'w vault_world \<Rightarrow> probabilistic_vault account" where
  "vault_at k s = \<lparr>key_of = k, data_of = vw_vault s\<rparr>"

fun vault_exec ::
  "(bytes32 list \<Rightarrow> bytes32) \<Rightarrow> pubkey \<Rightarrow> 'w vault_event \<Rightarrow> 'w vault_world \<Rightarrow> 'w vault_world res" where
  "vault_exec h k (ProveResolve rt ctx proof) s =
     andthen (prove_and_resolve_handler h rt (vw_ledger s) ctx (vault_at k s) proof) (\<lambda>(v, w). Inr \<lparr>vw_vault = v, vw_ledger = w\<rparr>)"
| "vault_exec h k (PartialResolve rt ctx n proof) s =
     andthen (partial_resolve_handler h rt (vw_ledger s) ctx (vault_at k s) n proof) (\<lambda>(v, w). Inr \<lparr>vw_vault = v, vw_ledger = w\<rparr>)"
| "vault_exec h k (ExpireRefund rt ctx) s =
     andthen (expire_and_refund_handler rt (vw_ledger s) ctx (vault_at k s)) (\<lambda>(v, w). Inr \<lparr>vw_vault = v, vw_ledger = w\<rparr>)"
| "vault_exec h k (ElsewhereV w) s = Inr (s\<lparr>vw_ledger := w\<rparr>)"

text \<open>What an event pays: to the claimant and back to the issuer.\<close>

fun vault_payout :: "'w vault_event \<Rightarrow> 'w vault_world \<Rightarrow> (u64 \<times> u64) option" where
  "vault_payout (ProveResolve rt ctx proof) s = Some (vault_remaining (vw_vault s), 0)"
| "vault_payout (PartialResolve rt ctx n proof) s = Some (n, saturating_sub (vault_remaining (vw_vault s)) n)"
| "vault_payout (ExpireRefund rt ctx) s = Some (0, vault_remaining (vw_vault s))"
| "vault_payout (ElsewhereV w) s = None"

definition vault_locked :: "'w vault_world \<Rightarrow> u64" where
  "vault_locked s = pv_committed_amount (vw_vault s)"

definition vault_closed :: "'w vault_world \<Rightarrow> bool" where
  "vault_closed s \<longleftrightarrow> vault_terminal (vw_vault s)"

text \<open>The status \<open>PartiallyResolved\<close> is never reached, and nothing is resolved while the vault is pending.\<close>

definition vault_inv :: "'w vault_world \<Rightarrow> bool" where
  "vault_inv s \<longleftrightarrow> pv_status (vw_vault s) \<noteq> VPartiallyResolved \<and>
     (pv_status (vw_vault s) = VPending \<longrightarrow> pv_resolved_amount (vw_vault s) = 0)"

lemmas vault_handlers =
  prove_and_resolve_handler_def partial_resolve_handler_def expire_and_refund_handler_def claimant_ok_def vault_escrow_ok_def vault_at_def

lemma vault_exec_facts:
  assumes "vault_exec h k e s = Inr s'"
  shows "pv_committed_amount (vw_vault s') = pv_committed_amount (vw_vault s)"
    and "pv_condition_hash (vw_vault s') = pv_condition_hash (vw_vault s)"
    and "vault_payout e s = None \<Longrightarrow> vw_vault s' = vw_vault s"
    and "vault_payout e s = Some (a, b) \<Longrightarrow> \<not> vault_terminal (vw_vault s) \<and> pv_status (vw_vault s') \<in> {VResolved, VExpired} \<and>
      unat a + unat b = unat (vault_remaining (vw_vault s))"
  using assms
  by (cases e; auto simp: vault_handlers guarded_Inr run_ok Let_def arith_ok word_le_nat_alt split: if_splits)+

lemma vault_inv_exec: "vault_inv s \<Longrightarrow> vault_exec h k e s = Inr s' \<Longrightarrow> vault_inv s'"
  using vault_exec_facts(3,4) [of h k e s s'] by (cases "vault_payout e s") (auto simp: vault_inv_def)

lemma pending_remaining: "vault_inv s \<Longrightarrow> \<not> vault_terminal (vw_vault s) \<Longrightarrow> vault_remaining (vw_vault s) = vault_locked s"
  by (cases "pv_status (vw_vault s)")
    (auto simp: vault_inv_def vault_terminal_def vault_remaining_def vault_locked_def saturating_sub_def)

interpretation vault: one_payout "vault_exec h k" vault_inv vault_closed vault_payout vault_locked for h k
proof unfold_locales
  fix e and s s' :: "'a vault_world" and a b
  assume inv: "vault_inv s" and run: "vault_exec h k e s = Inr s'"
  show "vault_inv s'" by (rule vault_inv_exec [OF inv run])
  assume pay: "vault_payout e s = Some (a, b)"
  show "\<not> vault_closed s \<and> vault_closed s' \<and> unat a + unat b = unat (vault_locked s)"
    using vault_exec_facts(4) [OF run pay] pending_remaining [OF inv]
    by (auto simp: vault_closed_def vault_terminal_def)
next
  fix e and s s' :: "'a vault_world"
  assume run: "vault_exec h k e s = Inr s'"
  show "vault_locked s' = vault_locked s" using vault_exec_facts(1) [OF run] by (simp add: vault_locked_def)
  assume "vault_payout e s = None"
  then show "vault_closed s' = vault_closed s" using vault_exec_facts(3) [OF run] by (simp add: vault_closed_def)
qed

text \<open>The proofs that a history reveals.\<close>

fun revealed :: "'w vault_event \<Rightarrow> bytes32 option" where
  "revealed (ProveResolve rt ctx proof) = Some proof"
| "revealed (PartialResolve rt ctx n proof) = Some proof"
| "revealed _ = None"

lemma claim_reveals:
  "(a, b) \<in> set (payouts (vault_exec h k) vault_payout es s) \<Longrightarrow> 0 < a \<Longrightarrow>
     \<exists>e \<in> set es. \<exists>proof. revealed e = Some proof \<and> h [proof] = pv_condition_hash (vw_vault s)"
proof (induction es arbitrary: s)
  case (Cons e es)
  show ?case
  proof (cases "vault_exec h k e s")
    case (Inr s')
    show ?thesis
    proof (cases "vault_payout e s = Some (a, b)")
      case True
      then have "\<exists>proof. revealed e = Some proof \<and> h [proof] = pv_condition_hash (vw_vault s)"
        using Inr Cons.prems(2) by (cases e) (auto simp: vault_handlers guarded_Inr run_ok Let_def)
      then show ?thesis by auto
    next
      case False
      then have "(a, b) \<in> set (payouts (vault_exec h k) vault_payout es s')"
        using Cons.prems(1) Inr by (auto split: option.splits)
      from Cons.IH [OF this Cons.prems(2)] vault_exec_facts(2) [OF Inr] show ?thesis by auto
    qed
  qed (use Cons in simp)
qed simp

text \<open>a vault that pays on proof pays out once and all of it: over any history after the commitment either nothing was paid
  and the vault is pending, or one event paid the committed amount to claimant and issuer together and the
  vault is closed; and the claimant gets a part of it only if the history reveals a preimage of the condition.\<close>

theorem vault_pays_once:
  assumes "commit_probabilistic_handler rt w ctx existing p = Inr (va, w')"
  shows "let s = \<lparr>vw_vault = data_of va, vw_ledger = w'\<rparr>;
             paid = payouts (vault_exec blake3 (key_of va)) vault_payout es s;
             end = vw_vault (play (vault_exec blake3 (key_of va)) es s) in
    (paid = [] \<and> \<not> vault_terminal end \<or>
     (\<exists>a b. paid = [(a, b)] \<and> unat a + unat b = unat (cmp_amount p) \<and> vault_terminal end)) \<and>
    (\<forall>(a, b) \<in> set paid. 0 < a \<longrightarrow>
       (\<exists>e \<in> set es. \<exists>proof. revealed e = Some proof \<and> blake3 [proof] = cmp_condition_hash p))"
proof -
  let ?s = "\<lparr>vw_vault = data_of va, vw_ledger = w'\<rparr>"
  have v: "pv_status (data_of va) = VPending" "pv_resolved_amount (data_of va) = 0"
      "pv_committed_amount (data_of va) = cmp_amount p" "pv_condition_hash (data_of va) = cmp_condition_hash p"
    using assms by (auto simp: commit_probabilistic_handler_def guarded_Inr run_ok split: prod.splits)
  have "vault_inv ?s" "\<not> vault_closed ?s" using v by (auto simp: vault_inv_def vault_closed_def vault_terminal_def)
  note once = vault.pays_once [OF this, of blake3 "key_of va" es]
  have "\<exists>e \<in> set es. \<exists>proof. revealed e = Some proof \<and> blake3 [proof] = cmp_condition_hash p"
    if "(a, b) \<in> set (payouts (vault_exec blake3 (key_of va)) vault_payout es ?s)" "0 < a" for a b
    using claim_reveals [OF that] v by simp
  with once v show ?thesis by (simp add: vault_closed_def vault_locked_def Let_def) blast
qed

section \<open>At work\<close>

text \<open>Initiator 9 with account 20, counterparty 10 with account 21, escrow account 40 of the channel or vault.\<close>

definition demo_escrow_ledger :: "pubkey \<Rightarrow> u64 \<Rightarrow> u64 \<Rightarrow> u64 \<Rightarrow> ref_ledger" where
  "demo_escrow_ledger holder a b e = demo_ledger\<lparr>rl_tokens := Map.empty
     (20 \<mapsto> \<lparr>ta_mint = 5, ta_owner = 9, ta_amount = a\<rparr>, 21 \<mapsto> \<lparr>ta_mint = 5, ta_owner = 10, ta_amount = b\<rparr>,
      40 \<mapsto> \<lparr>ta_mint = 5, ta_owner = holder, ta_amount = e\<rparr>)\<rparr>"

definition demo_open_ctx :: "u64 \<Rightarrow> open_ctx" where
  "demo_open_ctx flag = \<lparr>ox_initiator = 9, ox_config = demo_acct (demo_config\<lparr>c_feature_flags := flag\<rparr>), ox_mint = 5,
     ox_escrow = 40, ox_source = 20\<rparr>"

definition demo_open :: open_channel_params where
  "demo_open = \<lparr>ocp_counterparty = 10, ocp_deposit = 100, ocp_channel_id = 1, ocp_dispute_policy = 0, ocp_timeout_slots = 50\<rparr>"

definition demo_channel_key :: pubkey where "demo_channel_key = ref_pda (channel_seeds 9 1)"

definition demo_channel :: "channel_status \<Rightarrow> payment_channel" where
  "demo_channel st = \<lparr>ch_initiator = 9, ch_counterparty = 10, ch_stable_mint = 5, ch_initiator_deposit = 100, ch_open_slot = 1,
     ch_channel_id = 1, ch_dispute_policy = 0, ch_timeout_slots = 50, ch_work_proof_hash = 0, ch_status = st, ch_bump = 255\<rparr>"

definition demo_sx :: "pubkey \<Rightarrow> settle_ctx" where
  "demo_sx who = \<lparr>sx_signer = who, sx_mint = 5, sx_escrow = 40, sx_counterparty_token = 21, sx_initiator_token = 20\<rparr>"

lemmas escrow_eval =
  demo_escrow_ledger_def demo_open_ctx_def demo_open_def demo_channel_def demo_sx_def lock_accounts_def config_ok_def
  settle_accounts_def channel_pay_def pay_out_def

lemma demo_opens:
  "open_channel_handler (ref_runtime 1 0 0) (demo_escrow_ledger demo_channel_key 600 300 0) (demo_open_ctx FLAG_AGENT_PAYMENT_CHANNEL) None demo_open
     = Inr (\<lparr>key_of = demo_channel_key, data_of = demo_channel ChOpen\<rparr>, demo_escrow_ledger demo_channel_key 500 300 100)"
proof -
  have "ref_pda (channel_seeds 9 1) = demo_channel_key" by (simp add: demo_channel_key_def)
  then show ?thesis
    by (simp add: eval_defs escrow_eval open_channel_handler_def fun_upd_twist word_le_nat_alt) (simp add: demo_cfg_key_def)
qed

definition demo_channel_world :: "channel_status \<Rightarrow> proposed_settlement option \<Rightarrow> u64 \<Rightarrow> u64 \<Rightarrow> u64 \<Rightarrow> ref_ledger channel_world" where
  "demo_channel_world st ps a b e =
     \<lparr>cw_channel = demo_channel st, cw_settlement = ps, cw_ledger = demo_escrow_ledger demo_channel_key a b e\<rparr>"

definition demo_settle_key :: pubkey where "demo_settle_key = ref_pda (settle_seeds demo_channel_key)"

abbreviation demo_ps :: proposed_settlement where
  "demo_ps \<equiv> \<lparr>pse_amount = 70, pse_proposed_by = 9, pse_bump = 255\<rparr>"

lemma demo_channel_steps:
  "channel_exec h demo_channel_key (ProposeSettle (ref_runtime 5 0 0) 9 70) (demo_channel_world ChOpen None 500 300 100) =
     Inr (demo_channel_world ChOpen (Some demo_ps) 500 300 100)"
  "channel_exec h demo_channel_key (Countersign (ref_runtime 6 0 0) (demo_sx 10) demo_settle_key 70)
     (demo_channel_world ChOpen (Some demo_ps) 500 300 100) = Inr (demo_channel_world ChSettled None 530 370 0)"
proof -
  show "channel_exec h demo_channel_key (ProposeSettle (ref_runtime 5 0 0) 9 70) (demo_channel_world ChOpen None 500 300 100) =
     Inr (demo_channel_world ChOpen (Some demo_ps) 500 300 100)"
    by (simp add: demo_channel_world_def demo_channel_def channel_handlers word_le_nat_alt)
  have keys: "ref_pda (channel_seeds 9 1) = demo_channel_key" "ref_pda (settle_seeds demo_channel_key) = demo_settle_key"
    by (simp_all add: demo_channel_key_def demo_settle_key_def)
  then show "channel_exec h demo_channel_key (Countersign (ref_runtime 6 0 0) (demo_sx 10) demo_settle_key 70)
     (demo_channel_world ChOpen (Some demo_ps) 500 300 100) = Inr (demo_channel_world ChSettled None 530 370 0)"
    by (simp add: demo_channel_world_def channel_handlers eval_defs escrow_eval fun_upd_twist word_le_nat_alt)
qed

abbreviation demo_channel_events :: "ref_ledger channel_event list" where
  "demo_channel_events \<equiv> [ProposeSettle (ref_runtime 5 0 0) 9 70, Countersign (ref_runtime 6 0 0) (demo_sx 10) demo_settle_key 70]"

lemma demo_start:
  "\<lparr>cw_channel = demo_channel ChOpen, cw_settlement = None, cw_ledger = demo_escrow_ledger demo_channel_key 500 300 100\<rparr> =
     demo_channel_world ChOpen None 500 300 100"
  by (simp add: demo_channel_world_def)

lemma demo_payouts:
  "payouts (channel_exec h demo_channel_key) channel_payout demo_channel_events (demo_channel_world ChOpen None 500 300 100) = [(70, 30)]"
  by (simp only: payouts.simps demo_channel_steps sum.case channel_payout.simps)
    (simp add: demo_channel_world_def demo_channel_def saturating_sub_def word_le_nat_alt)


theorem channel_lifecycle_witness: "channel_step\<^sup>*\<^sup>* ChOpen ChSettled \<and> \<not> channel_step ChSettled ChOpen"
proof -
  have "ch_status (cw_channel (play (channel_exec (\<lambda>_. 0) demo_channel_key) demo_channel_events (demo_channel_world ChOpen None 500 300 100))) = ChSettled"
    by (simp only: play.simps demo_channel_steps sum.case) (simp add: demo_channel_world_def demo_channel_def)
  with channel_lifecycle [of "demo_channel_world ChOpen None 500 300 100" "\<lambda>_. 0" demo_channel_key demo_channel_events ChSettled ChOpen]
  show ?thesis by (simp add: demo_channel_world_def demo_channel_def)
qed

theorem settlement_needs_both_witness: "{9, 10 :: pubkey} = {9, 10} \<and> (70 :: u64) \<le> 100"
proof -
  have "play (channel_exec (\<lambda>_. 0) demo_channel_key) [ProposeSettle (ref_runtime 5 0 0) 9 70] (demo_channel_world ChOpen None 500 300 100) =
      demo_channel_world ChOpen (Some demo_ps) 500 300 100"
    by (simp only: play.simps demo_channel_steps sum.case)
  with settlement_needs_both [OF demo_opens, of "\<lambda>_. 0" "ref_runtime 6 0 0" "demo_sx 10" demo_settle_key 70 "[ProposeSettle (ref_runtime 5 0 0) 9 70]"]
    demo_channel_steps(2) [of "\<lambda>_. 0"]
  show ?thesis by (simp add: demo_start demo_open_def del: channel_exec.simps)
qed

theorem channel_payout_effect_witness:
  "balance_of (ref_runtime 6 0 0) (demo_escrow_ledger demo_channel_key 530 370 0) 21 = 300 + 70"
proof -
  have "balance_of (ref_runtime 6 0 0) (cw_ledger (demo_channel_world ChSettled None 530 370 0)) =
      moved (balance_of (ref_runtime 6 0 0) (cw_ledger (demo_channel_world ChOpen (Some demo_ps) 500 300 100))) 40 21 70 20 30"
    using channel_payout_effect [OF demo_channel_steps(2) [of "\<lambda>_. 0"] _ _ ref.token_ledger_axioms, of 70 30 6 0 0 "demo_sx 10"]
    by (simp add: payout_accounts_def demo_sx_def demo_channel_world_def demo_channel_def saturating_sub_def word_le_nat_alt)
  then show ?thesis
    by (simp add: demo_channel_world_def demo_escrow_ledger_def moved_def balance_of_def Let_def fun_eq_iff)
qed

theorem force_close_succeeds_witness:
  "\<exists>w'. force_close_handler (ref_runtime 51 0 0) (demo_escrow_ledger demo_channel_key 500 300 100) (demo_sx 9)
     \<lparr>key_of = demo_channel_key, data_of = demo_channel ChDisputed\<rparr> = Inr (demo_channel ChForceClose, w')"
proof -
  have "closable (ref_runtime 51 0 0) (\<lambda>w k. \<not> rl_frozen w k) (demo_escrow_ledger demo_channel_key 500 300 100) (demo_sx 9)
      \<lparr>key_of = demo_channel_key, data_of = demo_channel ChDisputed\<rparr>"
    by (simp add: closable_def demo_sx_def demo_channel_def demo_escrow_ledger_def demo_ledger_def demo_channel_key_def word_le_nat_alt)
  from force_close_succeeds [OF ref_live.token_progress_axioms this] show ?thesis by (simp add: demo_channel_def)
qed

text \<open>A vault of issuer 9 for claimant 10, whose condition is the hash 77 of the secret 42.\<close>

abbreviation demo_hash :: "bytes32 list \<Rightarrow> bytes32" where
  "demo_hash xs \<equiv> foldr (\<lambda>x h. x + h) xs 35"

definition demo_commit :: commit_params where
  "demo_commit = \<lparr>cmp_amount = 100, cmp_condition_hash = 77, cmp_expiry_slot = 90, cmp_commitment_id = 1, cmp_claimant = 10\<rparr>"

definition demo_vault_key :: pubkey where "demo_vault_key = ref_pda (pbs_seeds demo_cfg_key 1)"

definition demo_vault :: "vault_status \<Rightarrow> u64 \<Rightarrow> probabilistic_vault" where
  "demo_vault st n = \<lparr>pv_config = demo_cfg_key, pv_issuer = 9, pv_claimant = 10, pv_stable_mint = 5, pv_committed_amount = 100,
     pv_resolved_amount = n, pv_condition_hash = 77, pv_expiry_slot = 90, pv_commitment_id = 1, pv_status = st, pv_bump = 255\<rparr>"

definition demo_vx :: vault_ctx where
  "demo_vx = \<lparr>vx_signer = 10, vx_mint = 5, vx_escrow = 40, vx_claimant_token = 21, vx_issuer_token = 20\<rparr>"

lemma demo_commits:
  "commit_probabilistic_handler (ref_runtime 1 0 0) (demo_escrow_ledger demo_vault_key 600 300 0) (demo_open_ctx FLAG_PROBABILISTIC_MONEY) None demo_commit
     = Inr (\<lparr>key_of = demo_vault_key, data_of = demo_vault VPending 0\<rparr>, demo_escrow_ledger demo_vault_key 500 300 100)"
proof -
  have "ref_pda (pbs_seeds demo_cfg_key 1) = demo_vault_key" by (simp add: demo_vault_key_def)
  then show ?thesis
    by (simp add: eval_defs escrow_eval demo_commit_def demo_vault_def commit_probabilistic_handler_def fun_upd_twist word_le_nat_alt word_less_nat_alt)
      (simp add: demo_cfg_key_def)
qed

lemma demo_claims:
  "vault_exec demo_hash demo_vault_key (PartialResolve (ref_runtime 6 0 0) demo_vx 60 42)
     \<lparr>vw_vault = demo_vault VPending 0, vw_ledger = demo_escrow_ledger demo_vault_key 500 300 100\<rparr> =
   Inr \<lparr>vw_vault = demo_vault VResolved 100, vw_ledger = demo_escrow_ledger demo_vault_key 540 360 0\<rparr>"
proof -
  have "ref_pda (pbs_seeds demo_cfg_key 1) = demo_vault_key" by (simp add: demo_vault_key_def)
  then show ?thesis
    by (simp add: vault_handlers eval_defs escrow_eval demo_vault_def demo_vx_def vault_terminal_def vault_remaining_def vault_pay_def
        fun_upd_twist word_le_nat_alt word_less_nat_alt)
qed

theorem vault_pays_once_witness:
  "unat (60 :: u64) + unat (40 :: u64) = unat (100 :: u64) \<and> (\<exists>proof. demo_hash [proof] = 77)"
proof -
  let ?es = "[PartialResolve (ref_runtime 6 0 0) demo_vx 60 42]"
  let ?s = "\<lparr>vw_vault = demo_vault VPending 0, vw_ledger = demo_escrow_ledger demo_vault_key 500 300 100\<rparr>"
  have "payouts (vault_exec demo_hash demo_vault_key) vault_payout ?es ?s = [(60, 40)]"
    by (simp only: payouts.simps demo_claims sum.case vault_payout.simps)
      (simp add: demo_vault_def vault_remaining_def saturating_sub_def word_le_nat_alt)
  with vault_pays_once [OF demo_commits, of demo_hash ?es] show ?thesis
    by (simp add: Let_def demo_commit_def word_less_nat_alt del: payouts.simps)
qed

end
