(* ===== verification/Cdp.thy ===== *)
theory Cdp
  imports Oracle
begin

text \<open>
  Collateralised debt positions: the collateral registry, deposits, borrowing against collateral,
  repayment, liquidation in its two versions, and the stability fee
  (programs/sss-token/src/instructions/{collateral\_config,yield\_collateral,
  cdp\_deposit\_collateral,cdp\_borrow\_stable,cdp\_repay\_stable,cdp\_liquidate,cdp\_liquidate\_v2,
  stability\_fee}.rs).
\<close>

section \<open>Accounts\<close>

record collateral_vault =
  cv_owner :: pubkey
  cv_collateral_mint :: pubkey
  cv_vault_token_account :: pubkey
  cv_deposited_amount :: u64
  cv_bump :: u8

record cdp_position =
  cp_config :: pubkey
  cp_sss_mint :: pubkey
  cp_owner :: pubkey
  cp_debt_amount :: u64
  cp_collateral_mint :: pubkey
  cp_last_fee_accrual :: i64
  cp_accrued_fees :: u64
  cp_bump :: u8

record collateral_config =
  cc_sss_mint :: pubkey
  cc_collateral_mint :: pubkey
  cc_whitelisted :: bool
  cc_max_ltv_bps :: u16
  cc_liquidation_threshold_bps :: u16
  cc_liquidation_bonus_bps :: u16
  cc_max_deposit_cap :: u64
  cc_total_deposited :: u64
  cc_bump :: u8

record yield_collateral_config =
  yc_sss_mint :: pubkey
  yc_whitelisted_mints :: "pubkey list"
  yc_bump :: u8

definition MIN_COLLATERAL_RATIO_BPS :: u64 where "MIN_COLLATERAL_RATIO_BPS = 15000"
definition LIQUIDATION_THRESHOLD_BPS :: u64 where "LIQUIDATION_THRESHOLD_BPS = 12000"
definition DEFAULT_LIQUIDATION_BONUS_BPS :: u16 where "DEFAULT_LIQUIDATION_BONUS_BPS = 500"
definition YIELD_MAX_MINTS :: nat where "YIELD_MAX_MINTS = 8"
definition SECS_PER_YEAR :: u64 where "SECS_PER_YEAR = 365 * 24 * 3600"

definition vault_seeds :: "pubkey \<Rightarrow> pubkey \<Rightarrow> pubkey \<Rightarrow> seed list" where
  "vault_seeds sss_mint user collateral_mint =
     [SeedStr ''cdp-collateral-vault'', SeedKey sss_mint, SeedKey user, SeedKey collateral_mint]"

definition position_seeds :: "pubkey \<Rightarrow> pubkey \<Rightarrow> seed list" where
  "position_seeds sss_mint user = [SeedStr ''cdp-position'', SeedKey sss_mint, SeedKey user]"

definition collateral_config_seeds :: "pubkey \<Rightarrow> pubkey \<Rightarrow> seed list" where
  "collateral_config_seeds sss_mint collateral_mint =
     [SeedStr ''collateral-config'', SeedKey sss_mint, SeedKey collateral_mint]"

definition yield_seeds :: "pubkey \<Rightarrow> seed list" where
  "yield_seeds mint = [SeedStr ''yield-collateral'', SeedKey mint]"

definition consensus_seeds :: "pubkey \<Rightarrow> seed list" where
  "consensus_seeds mint = [SeedStr ''oracle-consensus'', SeedKey mint]"

section \<open>Arithmetic of values\<close>

text \<open>\<open>10u128.pow(n)\<close>, which panics on overflow, and a division, which panics at zero.\<close>

definition pow10 :: "nat \<Rightarrow> u128 res" where
  "pow10 n = (if n \<le> 38 then Inr (10 ^ n) else Inl Panic)"

definition rdiv :: "u128 \<Rightarrow> u128 \<Rightarrow> u128 res" where
  "rdiv a b = (if b = 0 then Inl Panic else Inr (a div b))"

definition mul_or :: "u128 \<Rightarrow> u128 \<Rightarrow> error \<Rightarrow> u128 res" where
  "mul_or a b e = ok_or (checked_mul a b) e"

text \<open>The value of a deposit in millionths of a dollar, and of a debt at one dollar per token.\<close>

definition collateral_value_e6 :: "u64 \<Rightarrow> u128 \<Rightarrow> nat \<Rightarrow> nat \<Rightarrow> u128 res" where
  "collateral_value_e6 deposited price expo_abs decimals =
     andthen (mul_or (ucast deposited) price (Cdp InvalidPrice)) (\<lambda>a.
     andthen (mul_or a 1000000 (Cdp InvalidPrice)) (\<lambda>b.
     andthen (pow10 expo_abs) (\<lambda>pe. andthen (pow10 decimals) (\<lambda>pd.
     Inr (b div pe div pd)))))"

definition debt_value_e6 :: "u64 \<Rightarrow> nat \<Rightarrow> u128 res" where
  "debt_value_e6 debt decimals =
     andthen (mul_or (ucast debt) 1000000 (Late Overflow)) (\<lambda>a.
     andthen (pow10 decimals) (\<lambda>pd. Inr (a div pd)))"

definition ratio_bps_of :: "u128 \<Rightarrow> u128 \<Rightarrow> u128 res" where
  "ratio_bps_of value_e6 debt_e6 =
     andthen (mul_or value_e6 10000 (Cdp InvalidPrice)) (\<lambda>a. rdiv a debt_e6)"

definition max_borrow :: "u128 \<Rightarrow> nat \<Rightarrow> u128 res" where
  "max_borrow value_e6 sss_decimals =
     andthen (mul_or value_e6 10000 (Cdp CollateralRatioTooLow)) (\<lambda>a.
     andthen (pow10 sss_decimals) (\<lambda>pd.
     andthen (mul_or (a div ucast MIN_COLLATERAL_RATIO_BPS) pd (Cdp CollateralRatioTooLow)) (\<lambda>b.
     Inr (b div 1000000))))"

section \<open>The collateral registry\<close>

record collateral_params =
  cpar_whitelisted :: bool
  cpar_max_ltv_bps :: u16
  cpar_liquidation_threshold_bps :: u16
  cpar_liquidation_bonus_bps :: u16
  cpar_max_deposit_cap :: u64

definition validate_collateral_params :: "u16 \<Rightarrow> u16 \<Rightarrow> u16 \<Rightarrow> (bool \<times> error) list" where
  "validate_collateral_params ltv threshold bonus =
     [(ltv \<le> 10000, Late InvalidCollateralConfig), (threshold \<le> 10000, Late InvalidCollateralConfig),
      (threshold > ltv, Backstop InvalidCollateralThreshold), (bonus \<le> 5000, Backstop InvalidLiquidationBonus)]"

definition collateral_authority :: "'w runtime \<Rightarrow> admin_ctx \<Rightarrow> (bool \<times> error) list" where
  "collateral_authority rt ctx =
     config_ok rt (ac_config ctx) (ac_mint ctx) @
     [(c_preset (ac_cfg ctx) = 3, Core InvalidPreset),
      (c_authority (ac_cfg ctx) = ac_authority ctx, Core Unauthorized)]"

definition registry_gate :: "admin_ctx \<Rightarrow> unit res" where
  "registry_gate ctx =
     guarded [(c_admin_timelock_delay (ac_cfg ctx) > 0 \<longrightarrow> flag_set (ac_cfg ctx) FLAG_SQUADS_AUTHORITY,
                 (Admin TimelockRequired))]
       (squads_gate (ac_cfg ctx) (ac_authority ctx))"

definition register_collateral_handler ::
  "'w runtime \<Rightarrow> admin_ctx \<Rightarrow> pubkey \<Rightarrow> collateral_config option \<Rightarrow> collateral_params \<Rightarrow> collateral_config res" where
  "register_collateral_handler rt ctx collateral_mint existing p =
     guarded ((existing = None, Anchor AccountAlreadyInUse) # collateral_authority rt ctx)
       (andthen (registry_gate ctx) (\<lambda>_.
        guarded (validate_collateral_params (cpar_max_ltv_bps p) (cpar_liquidation_threshold_bps p)
                   (cpar_liquidation_bonus_bps p))
          (Inr \<lparr>cc_sss_mint = ac_mint ctx, cc_collateral_mint = collateral_mint,
               cc_whitelisted = cpar_whitelisted p, cc_max_ltv_bps = cpar_max_ltv_bps p,
               cc_liquidation_threshold_bps = cpar_liquidation_threshold_bps p,
               cc_liquidation_bonus_bps = cpar_liquidation_bonus_bps p,
               cc_max_deposit_cap = cpar_max_deposit_cap p, cc_total_deposited = 0,
               cc_bump = snd (rt_find_pda rt (collateral_config_seeds (ac_mint ctx) collateral_mint))\<rparr>)))"

definition collateral_config_ok ::
  "'w runtime \<Rightarrow> pubkey \<Rightarrow> pubkey \<Rightarrow> collateral_config account \<Rightarrow> (bool \<times> error) list" where
  "collateral_config_ok rt sss_mint collateral_mint cc =
     [(seeds_ok rt (key_of cc) (collateral_config_seeds sss_mint collateral_mint) (cc_bump (data_of cc)),
         (Anchor ConstraintSeeds))]"

definition update_collateral_config_handler ::
  "'w runtime \<Rightarrow> admin_ctx \<Rightarrow> pubkey \<Rightarrow> collateral_config account \<Rightarrow> collateral_params \<Rightarrow> collateral_config res" where
  "update_collateral_config_handler rt ctx collateral_mint cc p =
     guarded
       (collateral_authority rt ctx @ collateral_config_ok rt (ac_mint ctx) collateral_mint cc @
        [(cc_sss_mint (data_of cc) = ac_mint ctx, Anchor ConstraintRaw),
         (cc_collateral_mint (data_of cc) = collateral_mint, Anchor ConstraintRaw)])
       (andthen (registry_gate ctx) (\<lambda>_.
        guarded (validate_collateral_params (cpar_max_ltv_bps p) (cpar_liquidation_threshold_bps p)
                   (cpar_liquidation_bonus_bps p))
          (Inr ((data_of cc)\<lparr>cc_whitelisted := cpar_whitelisted p, cc_max_ltv_bps := cpar_max_ltv_bps p,
               cc_liquidation_threshold_bps := cpar_liquidation_threshold_bps p,
               cc_liquidation_bonus_bps := cpar_liquidation_bonus_bps p,
               cc_max_deposit_cap := cpar_max_deposit_cap p\<rparr>))))"

definition init_yield_collateral_handler ::
  "'w runtime \<Rightarrow> admin_ctx \<Rightarrow> yield_collateral_config option \<Rightarrow> pubkey list \<Rightarrow>
     (stablecoin_config \<times> yield_collateral_config) res" where
  "init_yield_collateral_handler rt ctx existing initial_mints =
     guarded
       ((existing = None, Anchor AccountAlreadyInUse) # config_ok rt (ac_config ctx) (ac_mint ctx) @
        [(c_authority (ac_cfg ctx) = ac_authority ctx, Core Unauthorized),
         (c_preset (ac_cfg ctx) = 3, Core InvalidPreset),
         (ac_mint ctx = c_mint (ac_cfg ctx), Anchor ConstraintRaw)])
       (andthen (squads_gate (ac_cfg ctx) (ac_authority ctx)) (\<lambda>_.
        guarded [(length initial_mints \<le> YIELD_MAX_MINTS, Whitelist WhitelistFull)]
          (Inr ((ac_cfg ctx)\<lparr>c_feature_flags := set_flags (c_feature_flags (ac_cfg ctx)) FLAG_YIELD_COLLATERAL\<rparr>,
                \<lparr>yc_sss_mint = ac_mint ctx, yc_whitelisted_mints = initial_mints,
                 yc_bump = snd (rt_find_pda rt (yield_seeds (ac_mint ctx)))\<rparr>))))"

definition add_yield_collateral_mint_handler ::
  "'w runtime \<Rightarrow> admin_ctx \<Rightarrow> yield_collateral_config account \<Rightarrow> pubkey \<Rightarrow> yield_collateral_config res" where
  "add_yield_collateral_mint_handler rt ctx yc collateral_mint =
     guarded
       (authority_accounts rt ctx @
        [(seeds_ok rt (key_of yc) (yield_seeds (ac_mint ctx)) (yc_bump (data_of yc)), Anchor ConstraintSeeds)])
       (andthen (squads_gate (ac_cfg ctx) (ac_authority ctx)) (\<lambda>_.
        guarded
          [(flag_set (ac_cfg ctx) FLAG_YIELD_COLLATERAL, Whitelist YieldCollateralNotEnabled),
           (length (yc_whitelisted_mints (data_of yc)) < YIELD_MAX_MINTS, Whitelist WhitelistFull),
           (collateral_mint \<notin> set (yc_whitelisted_mints (data_of yc)), Whitelist MintAlreadyWhitelisted)]
          (Inr ((data_of yc)\<lparr>yc_whitelisted_mints := yc_whitelisted_mints (data_of yc) @ [collateral_mint]\<rparr>))))"

section \<open>Depositing collateral\<close>

text \<open>
  \<open>vault\<close> is the data at the vault's derived address, all zero when the account is created by this call
  (\<open>init_if_needed\<close>).
\<close>

record cdp_deposit_ctx =
  cd_user :: pubkey
  cd_config :: "stablecoin_config account"
  cd_sss_mint :: pubkey
  cd_collateral_mint :: pubkey
  cd_vault :: collateral_vault
  cd_vault_token_account :: pubkey
  cd_user_collateral :: pubkey
  cd_yield_config :: "yield_collateral_config option"
  cd_collateral_config :: "collateral_config account option"

definition yield_gate ::
  "stablecoin_config \<Rightarrow> yield_collateral_config option \<Rightarrow> pubkey \<Rightarrow> pubkey \<Rightarrow> unit res" where
  "yield_gate c yc sss_mint collateral_mint =
     (if flag_set c FLAG_YIELD_COLLATERAL then
        andthen (ok_or yc (Whitelist YieldCollateralNotEnabled)) (\<lambda>y.
        guarded
          [(yc_sss_mint y = sss_mint, Core InvalidCollateralMint),
           (collateral_mint \<in> set (yc_whitelisted_mints y), Whitelist CollateralMintNotWhitelisted)]
          (Inr ()))
      else Inr ())"

definition registry_checks ::
  "collateral_config account option \<Rightarrow> pubkey \<Rightarrow> pubkey \<Rightarrow> u64 \<Rightarrow> (bool \<times> error) list" where
  "registry_checks cc sss_mint collateral_mint amount =
     (case cc of None \<Rightarrow> []
      | Some a \<Rightarrow>
          [(cc_sss_mint (data_of a) = sss_mint \<and> cc_collateral_mint (data_of a) = collateral_mint,
              (Backstop CollateralNotWhitelisted)),
           (cc_whitelisted (data_of a), Backstop CollateralNotWhitelisted),
           (cc_max_deposit_cap (data_of a) > 0 \<longrightarrow>
              saturating_add (cc_total_deposited (data_of a)) amount \<le> cc_max_deposit_cap (data_of a),
              (Backstop DepositCapExceeded))])"

definition open_vault ::
  "'w runtime \<Rightarrow> collateral_vault \<Rightarrow> pubkey \<Rightarrow> pubkey \<Rightarrow> pubkey \<Rightarrow> pubkey \<Rightarrow> collateral_vault" where
  "open_vault rt v sss_mint user collateral_mint vault_token =
     (if cv_owner v = default_key
      then v\<lparr>cv_owner := user, cv_collateral_mint := collateral_mint, cv_vault_token_account := vault_token,
             cv_bump := snd (rt_find_pda rt (vault_seeds sss_mint user collateral_mint))\<rparr>
      else v)"

definition cdp_deposit_collateral_handler ::
  "'w runtime \<Rightarrow> 'w \<Rightarrow> cdp_deposit_ctx \<Rightarrow> u64 \<Rightarrow> (collateral_vault \<times> collateral_config option \<times> 'w) res" where
  "cdp_deposit_collateral_handler rt w ctx amount =
     (let cfg = cd_config ctx; c = data_of cfg; mint = cd_sss_mint ctx; cm = cd_collateral_mint ctx;
          vault_key = fst (rt_find_pda rt (vault_seeds mint (cd_user ctx) cm)) in
      andthen (load_mint rt w cm) (\<lambda>cmint.
      andthen (load_token rt w (cd_vault_token_account ctx)) (\<lambda>vt.
      andthen (load_token rt w (cd_user_collateral ctx)) (\<lambda>ut.
      guarded
        (config_ok rt cfg mint @
         [(c_preset c = 3, Core InvalidPreset),
          (ta_mint vt = cm, Anchor ConstraintRaw), (ta_owner vt = vault_key, Anchor ConstraintRaw),
          (ta_mint ut = cm, Anchor ConstraintRaw), (ta_owner ut = cd_user ctx, Anchor ConstraintRaw)] @
         (case cd_collateral_config ctx of None \<Rightarrow> [] | Some a \<Rightarrow> collateral_config_ok rt mint cm a) @
         [(amount > 0, Core ZeroAmount),
          (MIN_SUPPORTED_VERSION \<le> c_version c, Queue ConfigVersionTooOld)])
        (andthen (yield_gate c (cd_yield_config ctx) mint cm) (\<lambda>_.
         guarded (registry_checks (cd_collateral_config ctx) mint cm amount)
           (let v = open_vault rt (cd_vault ctx) mint (cd_user ctx) cm (cd_vault_token_account ctx) in
            andthen (cpi rt w [cd_user ctx] (TransferChecked (cd_user_collateral ctx) cm
                       (cd_vault_token_account ctx) (cd_user ctx) amount (tm_decimals cmint))) (\<lambda>w'.
            andthen (ok_or (checked_add (cv_deposited_amount v) amount) (Late Overflow)) (\<lambda>d.
            andthen (case cd_collateral_config ctx of None \<Rightarrow> Inr None
                     | Some a \<Rightarrow> andthen (ok_or (checked_add (cc_total_deposited (data_of a)) amount) (Late Overflow))
                         (\<lambda>t. Inr (Some ((data_of a)\<lparr>cc_total_deposited := t\<rparr>)))) (\<lambda>cc.
            Inr (v\<lparr>cv_deposited_amount := d\<rparr>, cc, w')))))))))))"

section \<open>Borrowing\<close>

record cdp_borrow_ctx =
  cb_user :: pubkey
  cb_config :: "stablecoin_config account"
  cb_sss_mint :: pubkey
  cb_collateral_mint :: pubkey
  cb_vault :: "collateral_vault account"
  cb_position :: cdp_position
  cb_user_sss :: pubkey
  cb_feed :: feed_account
  cb_consensus :: "oracle_consensus account option"

definition vault_ok ::
  "'w runtime \<Rightarrow> collateral_vault account \<Rightarrow> pubkey \<Rightarrow> pubkey \<Rightarrow> pubkey \<Rightarrow> (bool \<times> error) list" where
  "vault_ok rt v sss_mint owner collateral_mint =
     [(seeds_ok rt (key_of v) (vault_seeds sss_mint owner collateral_mint) (cv_bump (data_of v)),
         (Anchor ConstraintSeeds)),
      (cv_owner (data_of v) = owner, Anchor ConstraintRaw),
      (cv_collateral_mint (data_of v) = collateral_mint, Anchor ConstraintRaw)]"

definition consensus_ok ::
  "'w runtime \<Rightarrow> oracle_consensus account option \<Rightarrow> pubkey \<Rightarrow> (bool \<times> error) list" where
  "consensus_ok rt oc mint =
     (case oc of None \<Rightarrow> []
      | Some a \<Rightarrow> [(key_of a = fst (rt_find_pda rt (consensus_seeds mint)), Anchor ConstraintSeeds),
                   (oc_mint (data_of a) = mint, Hardening OracleConsensusNotFound)])"

text \<open>Fees that accrued since the last time, in 128 bits with failures counted as zero, capped at 64 bits.\<close>

definition pending_fees :: "cdp_position \<Rightarrow> u16 \<Rightarrow> i64 \<Rightarrow> u64" where
  "pending_fees p fee_bps now =
     (if cp_last_fee_accrual p > 0 \<and> fee_bps > 0 then
        (let elapsed = i64_as_u128 (max (i64_saturating_sub now (cp_last_fee_accrual p)) 0);
             unwrap0 = (\<lambda>x. case x of None \<Rightarrow> 0 | Some y \<Rightarrow> y);
             a = unwrap0 (checked_mul (ucast (cp_debt_amount p) :: u128) (ucast fee_bps));
             b = unwrap0 (checked_mul a elapsed)
         in ucast (min (b div (10000 * 31536000)) u64_max))
      else 0)"

text \<open>A first borrow opens the position; a later one must use the same collateral and books the fees.\<close>

definition open_position ::
  "'w runtime \<Rightarrow> cdp_position \<Rightarrow> pubkey \<Rightarrow> pubkey \<Rightarrow> pubkey \<Rightarrow> pubkey \<Rightarrow> i64 \<Rightarrow> u64 \<Rightarrow> cdp_position res" where
  "open_position rt p config_key mint user cm now total_accrued =
     (if cp_owner p = default_key then
        Inr (p\<lparr>cp_config := config_key, cp_sss_mint := mint, cp_owner := user, cp_collateral_mint := cm,
               cp_bump := snd (rt_find_pda rt (position_seeds mint user)),
               cp_last_fee_accrual := now, cp_accrued_fees := 0\<rparr>)
      else guarded [(cp_collateral_mint p = cm, Cdp WrongCollateralMint)]
        (Inr (p\<lparr>cp_accrued_fees := total_accrued, cp_last_fee_accrual := now\<rparr>)))"

definition fees_after :: "cdp_position \<Rightarrow> u16 \<Rightarrow> i64 \<Rightarrow> u64" where
  "fees_after p fee_bps now =
     (case checked_add (cp_accrued_fees p) (pending_fees p fee_bps now) of
        None \<Rightarrow> cp_accrued_fees p | Some t \<Rightarrow> t)"

definition cdp_borrow_stable_handler ::
  "'w runtime \<Rightarrow> 'w \<Rightarrow> cdp_borrow_ctx \<Rightarrow> u64 \<Rightarrow> (stablecoin_config \<times> cdp_position \<times> 'w) res" where
  "cdp_borrow_stable_handler rt w ctx amount =
     (let cfg = cb_config ctx; c = data_of cfg; mint = cb_sss_mint ctx; cm = cb_collateral_mint ctx;
          p = cb_position ctx; now = rt_unix_timestamp rt;
          deposited = cv_deposited_amount (data_of (cb_vault ctx));
          consensus = map_option data_of (cb_consensus ctx) in
      andthen (load_mint rt w mint) (\<lambda>smint.
      andthen (load_mint rt w cm) (\<lambda>cmint.
      andthen (load_token rt w (cb_user_sss ctx)) (\<lambda>ut.
      guarded
        (config_ok rt cfg mint @
         [(c_preset c = 3, Core InvalidPreset), (\<not> c_paused c, Core MintPaused),
          (mint = c_mint c, Anchor ConstraintRaw)] @
         vault_ok rt (cb_vault ctx) mint (cb_user ctx) cm @
         [(ta_mint ut = mint, Anchor ConstraintRaw), (ta_owner ut = cb_user ctx, Anchor ConstraintRaw)] @
         consensus_ok rt (cb_consensus ctx) mint @
         [(MIN_SUPPORTED_VERSION \<le> c_version c, Queue ConfigVersionTooOld),
          (amount > 0, Core ZeroAmount),
          (\<not> flag_set c FLAG_CIRCUIT_BREAKER, Cdp CircuitBreakerActive),
          (\<not> flag_set c FLAG_MULTI_ORACLE_CONSENSUS \<or> consensus \<noteq> None, Hardening OracleConsensusNotFound)])
        (andthen (get_effective_oracle_price (cb_feed ctx) c (rt_slot rt) now consensus) (\<lambda>price.
         guarded [(deposited > 0, Cdp InsufficientCollateral)]
         (andthen (collateral_value_e6 deposited (i64_as_u128 (op_price price)) (nat \<bar>op_expo price\<bar>)
                     (unat (tm_decimals cmint))) (\<lambda>value.
          andthen (max_borrow value (unat (tm_decimals smint))) (\<lambda>limit.
          let total_accrued = fees_after p (c_stability_fee_bps c) now in
          andthen (ok_or (checked_add (ucast (cp_debt_amount p) :: u128) (ucast total_accrued)) (Late Overflow)) (\<lambda>eff.
          andthen (ok_or (checked_add eff (ucast amount)) (Late Overflow)) (\<lambda>new_total.
          guarded [(new_total \<le> limit, Cdp CollateralRatioTooLow)]
          (andthen (cpi_signed rt w [cb_user ctx] (config_seeds mint) (c_bump c)
                      (MintTo mint (cb_user_sss ctx) (key_of cfg) amount)) (\<lambda>w'.
           andthen (open_position rt p (key_of cfg) mint (cb_user ctx) cm now total_accrued) (\<lambda>p1.
           andthen (ok_or (checked_add (cp_debt_amount p1) amount) (Late Overflow)) (\<lambda>d.
           andthen (ok_or (checked_add (c_total_minted c) amount) (Late Overflow)) (\<lambda>tm.
           Inr (c\<lparr>c_total_minted := tm\<rparr>, p1\<lparr>cp_debt_amount := d\<rparr>, w')))))))))))))))))"

section \<open>Repaying\<close>

record cdp_repay_ctx =
  cr_user :: pubkey
  cr_config :: "stablecoin_config account"
  cr_sss_mint :: pubkey
  cr_user_sss :: pubkey
  cr_position :: "cdp_position account"
  cr_vault :: "collateral_vault account"
  cr_collateral_mint :: pubkey
  cr_vault_token_account :: pubkey
  cr_user_collateral :: pubkey
  cr_collateral_config :: "collateral_config account option"

definition position_ok ::
  "'w runtime \<Rightarrow> cdp_position account \<Rightarrow> pubkey \<Rightarrow> pubkey \<Rightarrow> (bool \<times> error) list" where
  "position_ok rt p sss_mint owner =
     [(seeds_ok rt (key_of p) (position_seeds sss_mint owner) (cp_bump (data_of p)), Anchor ConstraintSeeds),
      (cp_owner (data_of p) = owner, Anchor ConstraintRaw),
      (cp_sss_mint (data_of p) = sss_mint, Anchor ConstraintRaw)]"

definition repay_accounts ::
  "'w runtime \<Rightarrow> cdp_repay_ctx \<Rightarrow> token_account \<Rightarrow> token_account \<Rightarrow> token_account \<Rightarrow> (bool \<times> error) list" where
  "repay_accounts rt ctx sss vt uc =
     (let cfg = cr_config ctx; c = data_of cfg; mint = cr_sss_mint ctx; cm = cr_collateral_mint ctx in
      config_ok rt cfg mint @
      [(c_preset c = 3, Core InvalidPreset), (mint = c_mint c, Anchor ConstraintRaw),
       (ta_mint sss = mint, Anchor ConstraintRaw), (ta_owner sss = cr_user ctx, Anchor ConstraintRaw)] @
      position_ok rt (cr_position ctx) mint (cr_user ctx) @
      vault_ok rt (cr_vault ctx) mint (cr_user ctx) cm @
      [(cr_vault_token_account ctx = cv_vault_token_account (data_of (cr_vault ctx)), Anchor ConstraintRaw),
       (ta_mint vt = cm, Anchor ConstraintRaw),
       (ta_mint uc = cm, Anchor ConstraintRaw), (ta_owner uc = cr_user ctx, Anchor ConstraintRaw)] @
      (case cr_collateral_config ctx of None \<Rightarrow> [] | Some a \<Rightarrow> collateral_config_ok rt mint cm a))"

definition collateral_release :: "u64 \<Rightarrow> u64 \<Rightarrow> u64 \<Rightarrow> u64 res" where
  "collateral_release deposited amount debt =
     (if debt > 0 then
        andthen (ok_or (checked_mul (ucast deposited :: u128) (ucast amount)) (Late Overflow)) (\<lambda>x.
        Inr (ucast (case checked_div x (ucast debt) of None \<Rightarrow> 0 | Some q \<Rightarrow> q)))
      else Inr 0)"

text \<open>The running total of the registry goes down when collateral leaves; \<open>n = 0\<close> leaves it alone.\<close>

definition release_total :: "collateral_config account option \<Rightarrow> u64 \<Rightarrow> collateral_config option res" where
  "release_total cc n =
     (case cc of None \<Rightarrow> Inr None
      | Some a \<Rightarrow>
          if n > 0 then andthen (ok_or (checked_sub (cc_total_deposited (data_of a)) n) (Late Overflow))
                          (\<lambda>t. Inr (Some ((data_of a)\<lparr>cc_total_deposited := t\<rparr>)))
          else Inr (Some (data_of a)))"

definition cdp_repay_stable_handler ::
  "'w runtime \<Rightarrow> 'w \<Rightarrow> cdp_repay_ctx \<Rightarrow> u64 \<Rightarrow>
     (stablecoin_config \<times> cdp_position \<times> collateral_vault \<times> collateral_config option \<times> 'w) res" where
  "cdp_repay_stable_handler rt w ctx amount =
     (let cfg = cr_config ctx; c = data_of cfg; mint = cr_sss_mint ctx; cm = cr_collateral_mint ctx;
          p = data_of (cr_position ctx); v = data_of (cr_vault ctx) in
      andthen (load_mint rt w mint) (\<lambda>smint.
      andthen (load_token rt w (cr_user_sss ctx)) (\<lambda>sss.
      andthen (load_mint rt w cm) (\<lambda>cmint.
      andthen (load_token rt w (cr_vault_token_account ctx)) (\<lambda>vt.
      andthen (load_token rt w (cr_user_collateral ctx)) (\<lambda>uc.
      guarded
        (repay_accounts rt ctx sss vt uc @
         [(amount > 0, Core ZeroAmount),
          (MIN_SUPPORTED_VERSION \<le> c_version c, Queue ConfigVersionTooOld),
          (amount \<le> cp_debt_amount p, Cdp InsufficientDebt)])
        (andthen (collateral_release (cv_deposited_amount v) amount (cp_debt_amount p)) (\<lambda>released.
         andthen (ok_or (checked_add amount (cp_accrued_fees p)) (Backstop InvalidAmount)) (\<lambda>total_burn.
         andthen (cpi rt w [cr_user ctx] (BurnChecked mint (cr_user_sss ctx) (cr_user ctx) total_burn
                    (tm_decimals smint))) (\<lambda>w1.
         andthen (if released > 0 then
                    cpi_signed rt w1 [cr_user ctx] (vault_seeds mint (cr_user ctx) cm) (cv_bump v)
                      (TransferChecked (cr_vault_token_account ctx) cm (cr_user_collateral ctx)
                         (key_of (cr_vault ctx)) released (tm_decimals cmint))
                  else Inr w1) (\<lambda>w2.
         andthen (ok_or (checked_sub (cp_debt_amount p) amount) (Late Overflow)) (\<lambda>d.
         andthen (ok_or (checked_sub (cv_deposited_amount v) released) (Late Overflow)) (\<lambda>dep.
         andthen (release_total (cr_collateral_config ctx) released) (\<lambda>cc.
         andthen (ok_or (checked_add (c_total_burned c) total_burn) (Late Overflow)) (\<lambda>tb.
         Inr (c\<lparr>c_total_burned := tb\<rparr>, p\<lparr>cp_debt_amount := d, cp_accrued_fees := 0\<rparr>,
              v\<lparr>cv_deposited_amount := dep\<rparr>, cc, w2))))))))))))))))"

section \<open>The stability fee\<close>

record collect_fee_ctx =
  cf_caller :: pubkey
  cf_config :: "stablecoin_config account"
  cf_sss_mint :: pubkey
  cf_debtor :: pubkey
  cf_position :: "cdp_position account"
  cf_debtor_sss :: pubkey

definition stability_fee :: "u64 \<Rightarrow> u64 \<Rightarrow> u64 \<Rightarrow> u64 res" where
  "stability_fee debt fee_bps elapsed =
     andthen (mul_or (ucast debt) (ucast fee_bps) (Cdp InvalidPrice)) (\<lambda>a.
     andthen (mul_or a (ucast elapsed) (Cdp InvalidPrice)) (\<lambda>b.
     Inr (ucast (min (b div (10000 * ucast SECS_PER_YEAR)) u64_max))))"

text \<open>What is collected once the caller is admitted: nothing, a new time stamp, or a burn.\<close>

definition collect_fee ::
  "'w runtime \<Rightarrow> 'w \<Rightarrow> collect_fee_ctx \<Rightarrow> u64 \<Rightarrow> u64 \<Rightarrow> (stablecoin_config \<times> cdp_position \<times> 'w) res" where
  "collect_fee rt w ctx fee_bps elapsed =
     (let cfg = cf_config ctx; c = data_of cfg; p = data_of (cf_position ctx); mint = cf_sss_mint ctx;
          now = rt_unix_timestamp rt in
      if fee_bps = 0 then Inr (c, p, w)
      else if elapsed = 0 then Inr (c, p, w)
      else andthen (stability_fee (cp_debt_amount p) fee_bps elapsed) (\<lambda>new_fee.
           andthen (ok_or (checked_add (cp_accrued_fees p) new_fee) (Late Overflow)) (\<lambda>total.
           if total = 0 then Inr (c, p\<lparr>cp_last_fee_accrual := now\<rparr>, w)
           else andthen (cpi_signed rt w [cf_caller ctx] (config_seeds mint) (c_bump c)
                   (Burn mint (cf_debtor_sss ctx) (key_of cfg) total)) (\<lambda>w'.
                andthen (ok_or (checked_add (c_total_burned c) total) (Late Overflow)) (\<lambda>tb.
                Inr (c\<lparr>c_total_burned := tb\<rparr>,
                     p\<lparr>cp_accrued_fees := 0, cp_last_fee_accrual := now\<rparr>, w'))))))"

definition elapsed_secs :: "i64 \<Rightarrow> i64 \<Rightarrow> u64" where
  "elapsed_secs now since = i64_as_u64 (max (i64_saturating_sub now since) 0)"

definition collect_stability_fee_handler ::
  "'w runtime \<Rightarrow> 'w \<Rightarrow> collect_fee_ctx \<Rightarrow> (stablecoin_config \<times> cdp_position \<times> 'w) res" where
  "collect_stability_fee_handler rt w ctx =
     (let cfg = cf_config ctx; c = data_of cfg; mint = cf_sss_mint ctx; p = data_of (cf_position ctx) in
      andthen (load_token rt w (cf_debtor_sss ctx)) (\<lambda>da.
      guarded
        (config_ok rt cfg mint @
         [(c_preset c = 3, Core InvalidPreset), (\<not> c_paused c, Core MintPaused),
          (mint = c_mint c, Anchor ConstraintRaw),
          (seeds_ok rt (key_of (cf_position ctx)) (position_seeds mint (cf_debtor ctx)) (cp_bump p),
             (Anchor ConstraintSeeds)),
          (ta_mint da = mint, Anchor ConstraintRaw), (ta_owner da = cf_debtor ctx, Core Unauthorized),
          (cf_caller ctx = c_authority c \<or>
             list_ex (\<lambda>k. k = cf_caller ctx \<and> k \<noteq> default_key) (c_authorized_keepers c), Core Unauthorized)])
        (collect_fee rt w ctx (ucast (c_stability_fee_bps c))
           (elapsed_secs (rt_unix_timestamp rt) (cp_last_fee_accrual p)))))"

text \<open>\<open>burn_accrued_fees\<close> is switched off: after its account checks it fails.\<close>

definition burn_accrued_fees_handler ::
  "'w runtime \<Rightarrow> pubkey \<Rightarrow> stablecoin_config account \<Rightarrow> cdp_position account \<Rightarrow> unit res" where
  "burn_accrued_fees_handler rt debtor cfg p =
     guarded
       (config_ok rt cfg (c_mint (data_of cfg)) @
        [(seeds_ok rt (key_of p) (position_seeds (c_mint (data_of cfg)) debtor) (cp_bump (data_of p)),
            (Anchor ConstraintSeeds)),
         (cp_owner (data_of p) = debtor, Core Unauthorized)])
       (Inl (Late InstructionDisabled))"

section \<open>Successful runs\<close>

lemma pow10_Inr [run_ok]: "pow10 n = Inr p \<longleftrightarrow> n \<le> 38 \<and> p = 10 ^ n"
  by (auto simp: pow10_def)

lemma unat_pow10: "n \<le> 38 \<Longrightarrow> unat (10 ^ n :: u128) = 10 ^ n"
proof -
  assume "n \<le> 38"
  then have "(10 :: nat) ^ n \<le> 10 ^ 38" by (intro power_increasing) auto
  then have "(10 :: nat) ^ n < 2 ^ 128" by simp
  moreover have "unat (of_nat m :: u128) = m" if "m < 2 ^ 128" for m
    using that by (simp add: unat_of_nat)
  ultimately have "unat (of_nat (10 ^ n) :: u128) = 10 ^ n" by blast
  then show ?thesis by simp
qed

lemma mul_or_Inr [run_ok]: "mul_or a b e = Inr c \<longleftrightarrow> unat c = unat a * unat b"
  by (simp add: mul_or_def run_ok arith_ok)

lemma rdiv_Inr [run_ok]: "rdiv a b = Inr c \<longleftrightarrow> b \<noteq> 0 \<and> c = a div b"
  by (auto simp: rdiv_def)

lemma collateral_value_ok:
  assumes "collateral_value_e6 deposited price e d = Inr v"
  shows "unat v = unat deposited * unat price * 1000000 div 10 ^ e div 10 ^ d" and "e \<le> 38" and "d \<le> 38"
  using assms by (auto simp: collateral_value_e6_def run_ok unat_div unat_pow10)

lemma debt_value_ok:
  assumes "debt_value_e6 debt d = Inr v"
  shows "unat v = unat debt * 1000000 div 10 ^ d" and "d \<le> 38"
  using assms by (auto simp: debt_value_e6_def run_ok unat_div unat_pow10)

lemma max_borrow_ok:
  assumes "max_borrow v d = Inr l"
  shows "unat l = unat v * 10000 div 15000 * 10 ^ d div 1000000"
  using assms
  by (auto simp: max_borrow_def MIN_COLLATERAL_RATIO_BPS_def run_ok unat_div unat_pow10)

text \<open>What passes the limit is covered one and a half times, with no rounding in the debtor's favour.\<close>

lemma within_max_borrow:
  assumes "collateral_value_e6 dep price e cd = Inr v" and "max_borrow v sd = Inr l" and "n \<le> unat l"
  shows "3 * n * 10 ^ e * 10 ^ cd \<le> 2 * (unat dep * unat price) * 10 ^ sd"
proof -
  let ?v = "unat v"
  have "?v * 10 ^ e * 10 ^ cd \<le> unat dep * unat price * 1000000"
  proof -
    have "?v * 10 ^ cd \<le> unat dep * unat price * 1000000 div 10 ^ e"
      using collateral_value_ok(1) [OF assms(1)] by (simp add: div_times_less_eq_dividend)
    then have "?v * 10 ^ cd * 10 ^ e \<le> unat dep * unat price * 1000000 div 10 ^ e * 10 ^ e" by simp
    also have "\<dots> \<le> unat dep * unat price * 1000000" by (simp add: div_times_less_eq_dividend)
    finally show ?thesis by (simp add: ac_simps)
  qed
  moreover define q where "q = ?v * 10000 div 15000"
  have "n * 1000000 \<le> q * 10 ^ sd"
    using assms(3) max_borrow_ok [OF assms(2)] unfolding q_def
    by (metis div_times_less_eq_dividend le_trans mult_le_mono1)
  then have "3 * n * 1000000 \<le> 3 * q * 10 ^ sd" by simp
  moreover have "3 * q * 10 ^ sd \<le> 2 * ?v * 10 ^ sd" by (rule mult_le_mono1) (simp add: q_def)
  ultimately have "3 * n * 1000000 \<le> 2 * ?v * 10 ^ sd"
    and v: "?v * 10 ^ e * 10 ^ cd \<le> unat dep * unat price * 1000000" by linarith+
  then have "3 * n * 1000000 * (10 ^ e * 10 ^ cd) \<le> 2 * ?v * 10 ^ sd * (10 ^ e * 10 ^ cd)"
    by (intro mult_le_mono1)
  also have "\<dots> = 2 * 10 ^ sd * (?v * 10 ^ e * 10 ^ cd)" by (simp add: ac_simps)
  also have "\<dots> \<le> 2 * 10 ^ sd * (unat dep * unat price * 1000000)" using v by (intro mult_le_mono2)
  finally have "3 * n * 1000000 * (10 ^ e * 10 ^ cd) \<le> 2 * 10 ^ sd * (unat dep * unat price * 1000000)" .
  then show ?thesis by (simp add: ac_simps)
qed

end
