(* ===== verification/Insurance.thy ===== *)
theory Insurance
  imports Cdp Ballots
begin

text \<open>
  Cover for losses: the insurance vault with its governed draws
  (programs/sss-token/src/instructions/insurance\_vault.rs, state.rs) and the backstop that moves an insurance
  fund's collateral into the reserve when a position is under water (bad\_debt\_backstop.rs).
\<close>

section \<open>The insurance vault\<close>

record insurance_vault =
  ivt_sss_mint :: pubkey
  ivt_vault_token_account :: pubkey
  ivt_min_seed_bps :: u16
  ivt_current_balance :: u64
  ivt_total_drawn :: u64
  ivt_max_draw_per_event_bps :: u16
  ivt_adequately_seeded :: bool
  ivt_bump :: u8

definition insurance_seeds :: "pubkey \<Rightarrow> seed list" where
  "insurance_seeds mint = [SeedStr ''insurance-vault'', SeedKey mint]"

definition bps_of_supply :: "u64 \<Rightarrow> u16 \<Rightarrow> u128" where
  "bps_of_supply net bps = saturating_mul (ucast net) (ucast bps) div 10000"

definition required_seed_amount :: "insurance_vault \<Rightarrow> u64 \<Rightarrow> u64" where
  "required_seed_amount v net =
     (if ivt_min_seed_bps v = 0 then 0
      else ucast (min (bps_of_supply net (ivt_min_seed_bps v)) 18446744073709551615))"

definition recompute_seeded :: "insurance_vault \<Rightarrow> u64 \<Rightarrow> insurance_vault" where
  "recompute_seeded v net = v\<lparr>ivt_adequately_seeded := (required_seed_amount v net \<le> ivt_current_balance v)\<rparr>"

definition init_insurance_vault_handler ::
  "'w runtime \<Rightarrow> 'w \<Rightarrow> admin_ctx \<Rightarrow> insurance_vault option \<Rightarrow> pubkey \<Rightarrow> u16 \<Rightarrow> u16 \<Rightarrow> (stablecoin_config \<times> insurance_vault) res" where
  "init_insurance_vault_handler rt w ctx existing vault_token_account min_seed_bps max_draw_per_event_bps =
     (let c = ac_cfg ctx in
      andthen (load_token rt w vault_token_account) (\<lambda>vta.
      guarded
        (config_ok rt (ac_config ctx) (ac_mint ctx) @
         [(c_authority c = ac_authority ctx, Core Unauthorized), (c_preset c = 3, Core InvalidPreset),
          (ta_mint vta = c_collateral_mint c, Core InvalidCollateralMint),
          (existing = None, Anchor AccountAlreadyInUse),
          (min_seed_bps \<le> 10000, Backstop InvalidBackstopBps)])
        (Inr (c\<lparr>c_feature_flags := set_flags (c_feature_flags c) FLAG_INSURANCE_VAULT_REQUIRED\<rparr>,
              \<lparr>ivt_sss_mint = ac_mint ctx, ivt_vault_token_account = vault_token_account, ivt_min_seed_bps = min_seed_bps,
               ivt_current_balance = 0, ivt_total_drawn = 0, ivt_max_draw_per_event_bps = max_draw_per_event_bps,
               ivt_adequately_seeded = (min_seed_bps = 0),
               ivt_bump = snd (rt_find_pda rt (insurance_seeds (ac_mint ctx)))\<rparr>))))"

text \<open>The accounts of the two deposits and of the draw; the deposits differ only in name.\<close>

record insurance_ctx =
  ins_signer :: pubkey
  ins_config :: "stablecoin_config account"
  ins_mint :: pubkey
  ins_user_account :: pubkey
  ins_vault_account :: pubkey
  ins_collateral_mint :: pubkey

definition insurance_accounts :: "'w runtime \<Rightarrow> insurance_ctx \<Rightarrow> insurance_vault account \<Rightarrow> (bool \<times> error) list" where
  "insurance_accounts rt ctx va =
     config_ok rt (ins_config ctx) (ins_mint ctx) @
     [(flag_set (data_of (ins_config ctx)) FLAG_INSURANCE_VAULT_REQUIRED, Channel FeatureNotEnabled),
      (seeds_ok rt (key_of va) (insurance_seeds (ins_mint ctx)) (ivt_bump (data_of va)), Anchor ConstraintSeeds)]"

definition seed_insurance_vault_handler ::
  "'w runtime \<Rightarrow> 'w \<Rightarrow> insurance_ctx \<Rightarrow> insurance_vault account \<Rightarrow> u64 \<Rightarrow> (insurance_vault \<times> 'w) res" where
  "seed_insurance_vault_handler rt w ctx va amount =
     (let c = data_of (ins_config ctx); v = data_of va in
      andthen (load_mint rt w (ins_mint ctx)) (\<lambda>_.
      andthen (load_token rt w (ins_user_account ctx)) (\<lambda>src.
      andthen (load_token rt w (ins_vault_account ctx)) (\<lambda>_.
      andthen (load_mint rt w (ins_collateral_mint ctx)) (\<lambda>cm.
      guarded
        (insurance_accounts rt ctx va @
         [(ta_mint src = c_collateral_mint c, Core InvalidCollateralMint),
          (ta_owner src = ins_signer ctx, Pool TokenAccountOwnerMismatch),
          (ins_vault_account ctx = ivt_vault_token_account v, Core InvalidVault),
          (ins_collateral_mint ctx = c_collateral_mint c, Core InvalidCollateralMint),
          (amount > 0, Core ZeroAmount)])
        (andthen (cpi rt w [ins_signer ctx]
                    (TransferChecked (ins_user_account ctx) (ins_collateral_mint ctx) (ins_vault_account ctx) (ins_signer ctx)
                       amount (tm_decimals cm))) (\<lambda>w'.
         andthen (ok_or (checked_add (ivt_current_balance v) amount) (Cdp InvalidPrice)) (\<lambda>b.
         Inr (recompute_seeded (v\<lparr>ivt_current_balance := b\<rparr>) (net_supply c), w')))))))))"

definition replenish_insurance_vault_handler ::
  "'w runtime \<Rightarrow> 'w \<Rightarrow> insurance_ctx \<Rightarrow> insurance_vault account \<Rightarrow> u64 \<Rightarrow> (insurance_vault \<times> 'w) res" where
  "replenish_insurance_vault_handler rt w ctx va amount = seed_insurance_vault_handler rt w ctx va amount"

text \<open>
  Who may draw: the authority, or with the committee's flag the target of an executed proposal, whose
  budget is charged.
\<close>

definition authorise_draw ::
  "stablecoin_config account \<Rightarrow> pubkey \<Rightarrow> proposal_pda option \<Rightarrow> u64 \<Rightarrow> proposal_pda option res" where
  "authorise_draw cfg signer proposal amount =
     (if flag_set (data_of cfg) FLAG_DAO_COMMITTEE then
        andthen (ok_or proposal (Dao DaoProposalRequired)) (\<lambda>p.
        guarded
          [(da_config p = key_of cfg, Dao DaoProposalConfigMismatch),
           (da_action p = DrawInsurance, Dao DaoProposalWrongAction),
           (da_executed p, Dao DaoProposalNotExecuted),
           (\<not> da_cancelled p, Dao ProposalCancelled),
           (da_target p = signer, Core Unauthorized)]
          (andthen (ok_or (checked_add (da_cumulative_consumed p) amount) (Backstop InvalidAmount)) (\<lambda>consumed.
           guarded [(consumed \<le> da_param p, Late DaoProposalExhausted)]
             (Inr (Some (p\<lparr>da_cumulative_consumed := consumed\<rparr>))))))
      else guarded [(c_authority (data_of cfg) = signer, Core Unauthorized)] (Inr proposal))"

definition max_draw :: "insurance_vault \<Rightarrow> u64 \<Rightarrow> u64" where
  "max_draw v net =
     (if ivt_max_draw_per_event_bps v = 0 then ivt_current_balance v
      else min (ucast (bps_of_supply net (ivt_max_draw_per_event_bps v))) (ivt_current_balance v))"

definition draw_insurance_handler ::
  "'w runtime \<Rightarrow> 'w \<Rightarrow> insurance_ctx \<Rightarrow> insurance_vault account \<Rightarrow> proposal_pda option \<Rightarrow> u64 \<Rightarrow>
     (insurance_vault \<times> proposal_pda option \<times> 'w) res" where
  "draw_insurance_handler rt w ctx va proposal amount =
     (let c = data_of (ins_config ctx); v = data_of va; net = net_supply c in
      andthen (load_mint rt w (ins_mint ctx)) (\<lambda>_.
      andthen (load_token rt w (ins_vault_account ctx)) (\<lambda>_.
      andthen (load_token rt w (ins_user_account ctx)) (\<lambda>dest.
      andthen (load_mint rt w (ins_collateral_mint ctx)) (\<lambda>cm.
      guarded
        (insurance_accounts rt ctx va @
         [(ivt_current_balance v > 0, Backstop InsuranceFundEmpty),
          (ins_vault_account ctx = ivt_vault_token_account v, Core InvalidVault),
          (ta_mint dest = c_collateral_mint c, Core InvalidCollateralMint),
          (ins_collateral_mint ctx = c_collateral_mint c, Core InvalidCollateralMint),
          (amount > 0, Core ZeroAmount)])
        (andthen (authorise_draw (ins_config ctx) (ins_signer ctx) proposal amount) (\<lambda>proposal'.
         guarded [(amount \<le> max_draw v net, Backstop InvalidAmount)]
         (andthen (cpi_signed rt w [ins_signer ctx] (insurance_seeds (ins_mint ctx)) (ivt_bump v)
                     (TransferChecked (ins_vault_account ctx) (ins_collateral_mint ctx) (ins_user_account ctx) (key_of va)
                        amount (tm_decimals cm))) (\<lambda>w'.
          andthen (ok_or (checked_sub (ivt_current_balance v) amount) (Cdp InsufficientCollateral)) (\<lambda>b.
          andthen (ok_or (checked_add (ivt_total_drawn v) amount) (Cdp InvalidPrice)) (\<lambda>t.
          Inr (recompute_seeded (v\<lparr>ivt_current_balance := b, ivt_total_drawn := t\<rparr>) net, proposal', w'))))))))))))"

section \<open>The backstop\<close>

definition set_backstop_params_handler :: "'w runtime \<Rightarrow> admin_ctx \<Rightarrow> pubkey \<Rightarrow> u16 \<Rightarrow> stablecoin_config res" where
  "set_backstop_params_handler rt ctx fund max_backstop_bps =
     (let c = ac_cfg ctx in
      guarded
        (config_ok rt (ac_config ctx) (ac_mint ctx) @
         [(c_authority c = ac_authority ctx, Core Unauthorized), (c_preset c = 3, Core InvalidPreset)])
        (andthen (require_timelock_executed c ADMIN_OP_SET_BACKSTOP_PARAMS) (\<lambda>_.
         andthen (squads_gate c (ac_authority ctx)) (\<lambda>_.
         guarded [(max_backstop_bps \<le> 10000, Backstop InvalidBackstopBps)]
           (Inr (c\<lparr>c_insurance_fund_pubkey := fund, c_max_backstop_bps := max_backstop_bps\<rparr>))))))"

record backstop_ctx =
  bk_liquidation_authority :: pubkey
  bk_config :: "stablecoin_config account"
  bk_mint :: pubkey
  bk_owner :: pubkey
  bk_position :: "cdp_position account"
  bk_vault :: "collateral_vault account"
  bk_collateral_mint :: pubkey
  bk_feed :: feed_account
  bk_fund :: pubkey
  bk_reserve_vault :: pubkey
  bk_fund_authority :: pubkey

definition backstop_accounts ::
  "'w runtime \<Rightarrow> backstop_ctx \<Rightarrow> token_account \<Rightarrow> token_account \<Rightarrow> (bool \<times> error) list" where
  "backstop_accounts rt ctx fund reserve =
     (let cfg = bk_config ctx; c = data_of cfg; mint = bk_mint ctx; cm = bk_collateral_mint ctx;
          p = bk_position ctx; v = bk_vault ctx in
      config_ok rt cfg mint @
      [(c_preset c = 3, Core InvalidPreset),
       (bk_liquidation_authority ctx = key_of cfg, Backstop UnauthorizedBackstopCaller),
       (seeds_ok rt (key_of p) (position_seeds mint (bk_owner ctx)) (cp_bump (data_of p)), Anchor ConstraintSeeds),
       (cp_sss_mint (data_of p) = mint, Core Unauthorized),
       (cp_collateral_mint (data_of p) = cm, Cdp WrongCollateralMint),
       (seeds_ok rt (key_of v) (vault_seeds mint (bk_owner ctx) cm) (cv_bump (data_of v)), Anchor ConstraintSeeds),
       (cv_owner (data_of v) = bk_owner ctx, Core Unauthorized),
       (cv_collateral_mint (data_of v) = cm, Cdp WrongCollateralMint),
       (cm = c_collateral_mint c, Cdp WrongCollateralMint),
       (bk_fund ctx = c_insurance_fund_pubkey c, Backstop BackstopNotConfigured),
       (ta_mint fund = cm, Anchor ConstraintRaw),
       (bk_reserve_vault ctx = c_reserve_vault c, Anchor ConstraintRaw),
       (ta_mint reserve = cm, Anchor ConstraintRaw)])"

text \<open>The value of the deposit in units of the stablecoin, and the debt it does not cover.\<close>

definition collateral_value_in_sss :: "u64 \<Rightarrow> u128 \<Rightarrow> nat \<Rightarrow> nat \<Rightarrow> nat \<Rightarrow> u128 res" where
  "collateral_value_in_sss deposited price sss_decimals collateral_decimals expo_abs =
     andthen (mul_or (ucast deposited) price (Cdp InvalidPrice)) (\<lambda>a.
     andthen (pow10 sss_decimals) (\<lambda>ps.
     andthen (mul_or a ps (Cdp InvalidPrice)) (\<lambda>b.
     andthen (pow10 collateral_decimals) (\<lambda>pc.
     andthen (pow10 expo_abs) (\<lambda>pe.
     Inr (b div pc div pe))))))"

definition backstop_draw :: "stablecoin_config \<Rightarrow> u64 \<Rightarrow> u64 \<Rightarrow> u64" where
  "backstop_draw c shortfall fund_balance =
     (let max_draw = (if c_max_backstop_bps c = 0 then shortfall
                      else min (ucast (case checked_mul (ucast (net_supply c) :: u128) (ucast (c_max_backstop_bps c)) of
                                         None \<Rightarrow> 0 | Some x \<Rightarrow> x div 10000)) shortfall) in
      min max_draw fund_balance)"

definition trigger_backstop_handler :: "'w runtime \<Rightarrow> 'w \<Rightarrow> backstop_ctx \<Rightarrow> (stablecoin_config \<times> 'w) res" where
  "trigger_backstop_handler rt w ctx =
     (let c = data_of (bk_config ctx); p = data_of (bk_position ctx) in
      andthen (load_mint rt w (bk_mint ctx)) (\<lambda>smint.
      andthen (load_mint rt w (bk_collateral_mint ctx)) (\<lambda>cmint.
      andthen (load_token rt w (bk_fund ctx)) (\<lambda>fund.
      andthen (load_token rt w (bk_reserve_vault ctx)) (\<lambda>reserve.
      guarded
        (backstop_accounts rt ctx fund reserve @ [(c_insurance_fund_pubkey c \<noteq> default_key, Backstop BackstopNotConfigured)])
        (andthen (get_oracle_price (bk_feed ctx) c (rt_unix_timestamp rt)) (\<lambda>price.
         andthen (ok_or (checked_add (cp_debt_amount p) (cp_accrued_fees p)) (Late Overflow)) (\<lambda>debt.
         andthen (collateral_value_in_sss (cv_deposited_amount (data_of (bk_vault ctx))) (i64_as_u128 (op_price price))
                    (unat (tm_decimals smint)) (unat (tm_decimals cmint)) (nat \<bar>op_expo price\<bar>)) (\<lambda>value.
         guarded [(ucast debt > value, Backstop NoBadDebt), (ta_amount fund > 0, Backstop InsuranceFundEmpty)]
           (let shortfall = ucast (min (saturating_sub (ucast debt) value) 18446744073709551615);
                amount = backstop_draw c shortfall (ta_amount fund) in
            andthen (cpi rt w [bk_liquidation_authority ctx, bk_fund_authority ctx]
                       (TransferChecked (bk_fund ctx) (bk_collateral_mint ctx) (bk_reserve_vault ctx) (bk_fund_authority ctx)
                          amount (tm_decimals cmint))) (\<lambda>w'.
            andthen (ok_or (checked_add (c_total_collateral c) amount) (Cdp InvalidPrice)) (\<lambda>tc.
            Inr (c\<lparr>c_total_collateral := tc\<rparr>, w')))))))))))))"

section \<open>The books of the vault\<close>

record 'w insurance_world =
  iw_vault :: insurance_vault
  iw_proposal :: "proposal_pda option"
  iw_ledger :: 'w

datatype 'w insurance_event =
    SeedVault "'w runtime" insurance_ctx u64
  | ReplenishVault "'w runtime" insurance_ctx u64
  | DrawVault "'w runtime" insurance_ctx u64
  | ElsewhereI 'w

fun insurance_exec :: "pubkey \<Rightarrow> 'w insurance_event \<Rightarrow> 'w insurance_world \<Rightarrow> 'w insurance_world res" where
  "insurance_exec k (SeedVault rt ctx n) s =
     andthen (seed_insurance_vault_handler rt (iw_ledger s) ctx \<lparr>key_of = k, data_of = iw_vault s\<rparr> n) (\<lambda>(v, w).
     Inr (s\<lparr>iw_vault := v, iw_ledger := w\<rparr>))"
| "insurance_exec k (ReplenishVault rt ctx n) s =
     andthen (replenish_insurance_vault_handler rt (iw_ledger s) ctx \<lparr>key_of = k, data_of = iw_vault s\<rparr> n) (\<lambda>(v, w).
     Inr (s\<lparr>iw_vault := v, iw_ledger := w\<rparr>))"
| "insurance_exec k (DrawVault rt ctx n) s =
     andthen (draw_insurance_handler rt (iw_ledger s) ctx \<lparr>key_of = k, data_of = iw_vault s\<rparr> (iw_proposal s) n) (\<lambda>(v, p, w).
     Inr \<lparr>iw_vault = v, iw_proposal = p, iw_ledger = w\<rparr>)"
| "insurance_exec k (ElsewhereI w) s = Inr (s\<lparr>iw_ledger := w\<rparr>)"

fun paid_in :: "'w insurance_event \<Rightarrow> nat" where
  "paid_in (SeedVault rt ctx n) = unat n"
| "paid_in (ReplenishVault rt ctx n) = unat n"
| "paid_in _ = 0"

fun drawn_out :: "'w insurance_event \<Rightarrow> nat" where
  "drawn_out (DrawVault rt ctx n) = unat n"
| "drawn_out _ = 0"

text \<open>What is drawn under the committee's flag is charged to the proposal.\<close>

fun drawn_by_proposal :: "'w insurance_event \<Rightarrow> nat" where
  "drawn_by_proposal (DrawVault rt ctx n) = (if flag_set (data_of (ins_config ctx)) FLAG_DAO_COMMITTEE then unat n else 0)"
| "drawn_by_proposal _ = 0"

definition consumed :: "'w insurance_world \<Rightarrow> nat" where
  "consumed s = (case iw_proposal s of None \<Rightarrow> 0 | Some p \<Rightarrow> unat (da_cumulative_consumed p))"

lemma seed_ok:
  "seed_insurance_vault_handler rt w ctx va n = Inr (v', w') \<Longrightarrow>
     unat (ivt_current_balance v') = unat (ivt_current_balance (data_of va)) + unat n \<and>
     ivt_total_drawn v' = ivt_total_drawn (data_of va) \<and> ivt_vault_token_account v' = ivt_vault_token_account (data_of va) \<and>
     ins_vault_account ctx = ivt_vault_token_account (data_of va) \<and>
     (\<exists>d. rt_invoke rt w [ins_signer ctx] (TransferChecked (ins_user_account ctx) (ins_collateral_mint ctx) (ins_vault_account ctx)
        (ins_signer ctx) n d) = Inr w')"
  by (auto simp: seed_insurance_vault_handler_def recompute_seeded_def guarded_Inr run_ok arith_ok Let_def)

lemma authorise_ok:
  assumes "authorise_draw cfg signer p n = Inr p'"
  shows "if flag_set (data_of cfg) FLAG_DAO_COMMITTEE
    then \<exists>q. p = Some q \<and> da_config q = key_of cfg \<and> da_action q = DrawInsurance \<and> da_executed q \<and> \<not> da_cancelled q \<and> da_target q = signer \<and>
      (\<exists>x. unat x = unat (da_cumulative_consumed q) + unat n \<and> x \<le> da_param q \<and> p' = Some (q\<lparr>da_cumulative_consumed := x\<rparr>))
    else c_authority (data_of cfg) = signer \<and> p' = p"
proof (cases "flag_set (data_of cfg) FLAG_DAO_COMMITTEE")
  case True
  with assms obtain q where q: "p = Some q" by (auto simp: authorise_draw_def run_ok)
  with True assms obtain x where "checked_add (da_cumulative_consumed q) n = Some x" "x \<le> da_param q"
    "p' = Some (q\<lparr>da_cumulative_consumed := x\<rparr>)" by (auto simp: authorise_draw_def run_ok)
  moreover have "da_config q = key_of cfg \<and> da_action q = DrawInsurance \<and> da_executed q \<and> \<not> da_cancelled q \<and> da_target q = signer"
    using True assms q by (auto simp: authorise_draw_def run_ok)
  ultimately show ?thesis using True q by (auto simp: arith_ok)
next
  case False
  with assms show ?thesis by (simp add: authorise_draw_def run_ok)
qed

lemma draw_ok:
  assumes "draw_insurance_handler rt w ctx va p n = Inr (v', p', w')"
  shows "authorise_draw (ins_config ctx) (ins_signer ctx) p n = Inr p'"
    and "n \<le> max_draw (data_of va) (net_supply (data_of (ins_config ctx)))"
    and "unat (ivt_current_balance (data_of va)) = unat (ivt_current_balance v') + unat n"
    and "unat (ivt_total_drawn v') = unat (ivt_total_drawn (data_of va)) + unat n"
    and "ins_vault_account ctx = ivt_vault_token_account (data_of va)"
    and "ivt_adequately_seeded v' \<longleftrightarrow> required_seed_amount v' (net_supply (data_of (ins_config ctx))) \<le> ivt_current_balance v'"
    and "\<exists>d k. rt_invoke rt w [k, ins_signer ctx] (TransferChecked (ins_vault_account ctx) (ins_collateral_mint ctx) (ins_user_account ctx)
        (key_of va) n d) = Inr w'"
  using assms
  by (auto simp: draw_insurance_handler_def recompute_seeded_def required_seed_amount_def guarded_Inr run_ok arith_ok Let_def)

interpretation vault_balance: accounted "insurance_exec k" "\<lambda>s. unat (ivt_current_balance (iw_vault s))" paid_in drawn_out for k
proof unfold_locales
  fix e and s s' :: "'a insurance_world"
  assume "insurance_exec k e s = Inr s'"
  then show "unat (ivt_current_balance (iw_vault s')) + drawn_out e = unat (ivt_current_balance (iw_vault s)) + paid_in e"
    by (cases e) (auto simp: run_ok replenish_insurance_vault_handler_def dest!: seed_ok dest: draw_ok(3))
qed

interpretation vault_drawn: accounted "insurance_exec k" "\<lambda>s. unat (ivt_total_drawn (iw_vault s))" drawn_out "\<lambda>_. 0" for k
proof unfold_locales
  fix e and s s' :: "'a insurance_world"
  assume "insurance_exec k e s = Inr s'"
  then show "unat (ivt_total_drawn (iw_vault s')) + 0 = unat (ivt_total_drawn (iw_vault s)) + drawn_out e"
    by (cases e) (auto simp: run_ok replenish_insurance_vault_handler_def dest!: seed_ok dest: draw_ok(4))
qed

interpretation proposal_budget: accounted "insurance_exec k" consumed drawn_by_proposal "\<lambda>_. 0" for k
proof unfold_locales
  fix e and s s' :: "'a insurance_world"
  assume run: "insurance_exec k e s = Inr s'"
  show "consumed s' + 0 = consumed s + drawn_by_proposal e"
  proof (cases e)
    case (DrawVault rt ctx n)
    with run obtain v p w where "draw_insurance_handler rt (iw_ledger s) ctx \<lparr>key_of = k, data_of = iw_vault s\<rparr> (iw_proposal s) n = Inr (v, p, w)"
      and s': "s' = \<lparr>iw_vault = v, iw_proposal = p, iw_ledger = w\<rparr>" by (auto simp: run_ok)
    from authorise_ok [OF draw_ok(1) [OF this(1)]] DrawVault s' show ?thesis
      by (auto simp: consumed_def split: if_splits)
  qed (use run in \<open>auto simp: run_ok consumed_def\<close>)
qed


definition within_budget :: "proposal_pda \<Rightarrow> 'w insurance_world \<Rightarrow> bool" where
  "within_budget p s \<longleftrightarrow> (\<exists>x. iw_proposal s = Some (p\<lparr>da_cumulative_consumed := x\<rparr>) \<and> x \<le> da_param p)"

lemma within_budget_exec: "within_budget p s \<Longrightarrow> insurance_exec k e s = Inr s' \<Longrightarrow> within_budget p s'"
proof -
  assume inv: "within_budget p s" and run: "insurance_exec k e s = Inr s'"
  show "within_budget p s'"
  proof (cases e)
    case (DrawVault rt ctx n)
    with run obtain v q w where "draw_insurance_handler rt (iw_ledger s) ctx \<lparr>key_of = k, data_of = iw_vault s\<rparr> (iw_proposal s) n = Inr (v, q, w)"
      and s': "s' = \<lparr>iw_vault = v, iw_proposal = q, iw_ledger = w\<rparr>" by (auto simp: run_ok)
    from authorise_ok [OF draw_ok(1) [OF this(1)]] inv s' show ?thesis
      by (auto simp: within_budget_def split: if_splits)
  qed (use inv run in \<open>auto simp: within_budget_def run_ok\<close>)
qed

interpretation budget: preserved "insurance_exec k" "\<lambda>_. True" "within_budget p" for k p
  by unfold_locales (rule within_budget_exec)

lemma draws_need_decision:
  "within_budget p s \<Longrightarrow> 0 < tally (insurance_exec k) drawn_by_proposal es s \<Longrightarrow>
     da_action p = DrawInsurance \<and> da_executed p \<and> \<not> da_cancelled p"
proof (induction es arbitrary: s)
  case (Cons e es)
  show ?case
  proof (cases "insurance_exec k e s")
    case (Inr s')
    show ?thesis
    proof (cases "drawn_by_proposal e = 0")
      case True
      with Cons.IH [OF within_budget_exec [OF Cons.prems(1) Inr]] Cons.prems(2) Inr show ?thesis by simp
    next
      case False
      then obtain rt ctx n where e: "e = DrawVault rt ctx n" "flag_set (data_of (ins_config ctx)) FLAG_DAO_COMMITTEE"
        by (cases e) (auto split: if_splits)
      with Inr obtain v q w where "draw_insurance_handler rt (iw_ledger s) ctx \<lparr>key_of = k, data_of = iw_vault s\<rparr> (iw_proposal s) n = Inr (v, q, w)"
        by (auto simp: run_ok)
      from authorise_ok [OF draw_ok(1) [OF this]] e(2) Cons.prems(1) show ?thesis by (auto simp: within_budget_def)
    qed
  qed (use Cons in simp)
qed simp

text \<open>a decision of the committee pays out at most what it approved, in however many draws: what is drawn under the
  committee's flag over any history is at most the parameter of the proposal, and nothing is drawn unless
  the proposal is an executed, uncancelled decision to draw.\<close>

theorem dao_draws_within_budget:
  assumes "da_cumulative_consumed p = 0"
  shows "let drawn = tally (insurance_exec k) drawn_by_proposal es \<lparr>iw_vault = v, iw_proposal = Some p, iw_ledger = w\<rparr> in
    drawn \<le> unat (da_param p) \<and> (0 < drawn \<longrightarrow> da_action p = DrawInsurance \<and> da_executed p \<and> \<not> da_cancelled p)"
proof -
  let ?s = "\<lparr>iw_vault = v, iw_proposal = Some p, iw_ledger = w\<rparr>"
  have inv: "within_budget p ?s"
    using assms by (auto simp: within_budget_def intro!: exI [of _ 0])
  then obtain x where "iw_proposal (play (insurance_exec k) es ?s) = Some (p\<lparr>da_cumulative_consumed := x\<rparr>)" "x \<le> da_param p"
    using budget.play_inv [of p ?s es k] by (auto simp: within_budget_def)
  then have "tally (insurance_exec k) drawn_by_proposal es ?s \<le> unat (da_param p)"
    using proposal_budget.play_level [of k es ?s] assms by (simp add: consumed_def word_le_nat_alt)
  with draws_need_decision [OF inv] show ?thesis by (simp add: Let_def)
qed

section \<open>The effect of the backstop\<close>

lemma backstop_ok:
  assumes run: "trigger_backstop_handler rt w ctx = Inr (c', w')"
  defines "c \<equiv> data_of (bk_config ctx)" and "p \<equiv> data_of (bk_position ctx)"
  obtains sm cm fund price worth debt draw where
    "rt_mint rt w (bk_mint ctx) = Some sm" "rt_mint rt w (bk_collateral_mint ctx) = Some cm" "rt_token rt w (bk_fund ctx) = Some fund"
    "get_oracle_price (bk_feed ctx) c (rt_unix_timestamp rt) = Inr price"
    "unat (debt :: u64) = unat (cp_debt_amount p) + unat (cp_accrued_fees p)"
    "collateral_value_in_sss (cv_deposited_amount (data_of (bk_vault ctx))) (i64_as_u128 (op_price price))
       (unat (tm_decimals sm)) (unat (tm_decimals cm)) (nat \<bar>op_expo price\<bar>) = Inr worth"
    "worth < ucast debt" "0 < ta_amount fund"
    "draw = backstop_draw c (ucast (min (saturating_sub (ucast debt) worth) 18446744073709551615)) (ta_amount fund)"
    "rt_invoke rt w [bk_liquidation_authority ctx, bk_fund_authority ctx]
       (TransferChecked (bk_fund ctx) (bk_collateral_mint ctx) (bk_reserve_vault ctx) (bk_fund_authority ctx) draw (tm_decimals cm)) = Inr w'"
    "unat (c_total_collateral c') = unat (c_total_collateral c) + unat draw" "c' = c\<lparr>c_total_collateral := c_total_collateral c'\<rparr>"
    "bk_fund ctx = c_insurance_fund_pubkey c" "bk_reserve_vault ctx = c_reserve_vault c" "bk_liquidation_authority ctx = key_of (bk_config ctx)"
proof -
  let ?k = "\<lambda>debt worth fund cm. TransferChecked (bk_fund ctx) (bk_collateral_mint ctx) (bk_reserve_vault ctx) (bk_fund_authority ctx)
    (backstop_draw c (ucast (min (saturating_sub (ucast (debt :: u64)) worth) 18446744073709551615)) (ta_amount fund)) (tm_decimals cm)"
  note open_up = trigger_backstop_handler_def backstop_accounts_def guarded_Inr Let_def c_def p_def
  obtain sm where sm: "load_mint rt w (bk_mint ctx) = Inr sm" using run by (auto simp: trigger_backstop_handler_def andthen_Inr Let_def)
  obtain cm where cm: "load_mint rt w (bk_collateral_mint ctx) = Inr cm" using run by (auto simp: trigger_backstop_handler_def andthen_Inr Let_def)
  obtain fund where fund: "load_token rt w (bk_fund ctx) = Inr fund" using run by (auto simp: trigger_backstop_handler_def andthen_Inr Let_def)
  obtain reserve where reserve: "load_token rt w (bk_reserve_vault ctx) = Inr reserve" using run by (auto simp: trigger_backstop_handler_def andthen_Inr Let_def)
  obtain price where price: "get_oracle_price (bk_feed ctx) c (rt_unix_timestamp rt) = Inr price"
    using run sm cm fund reserve by (auto simp: open_up andthen_Inr)
  obtain debt where debt: "checked_add (cp_debt_amount p) (cp_accrued_fees p) = Some debt"
    using run sm cm fund reserve price by (auto simp: open_up andthen_Inr ok_or_Inr)
  obtain worth where worth: "collateral_value_in_sss (cv_deposited_amount (data_of (bk_vault ctx))) (i64_as_u128 (op_price price))
       (unat (tm_decimals sm)) (unat (tm_decimals cm)) (nat \<bar>op_expo price\<bar>) = Inr worth"
    using run sm cm fund reserve price debt by (auto simp: open_up andthen_Inr)
  note found = sm cm fund reserve price debt worth
  have gates: "worth < ucast debt" "0 < ta_amount fund" "bk_fund ctx = c_insurance_fund_pubkey c" "bk_reserve_vault ctx = c_reserve_vault c"
    "bk_liquidation_authority ctx = key_of (bk_config ctx)"
    using run found by (auto simp: open_up split: if_splits)
  obtain tc where tc: "checked_add (c_total_collateral c) (backstop_draw c (ucast (min (saturating_sub (ucast debt) worth) 18446744073709551615)) (ta_amount fund)) = Some tc"
    "cpi rt w [bk_liquidation_authority ctx, bk_fund_authority ctx] (?k debt worth fund cm) = Inr w'" "c' = c\<lparr>c_total_collateral := tc\<rparr>"
    using run found gates by (auto simp: open_up andthen_Inr ok_or_Inr)
  show thesis
    by (rule that [where draw = "backstop_draw c (ucast (min (saturating_sub (ucast debt) worth) 18446744073709551615)) (ta_amount fund)"])
      (use found gates tc in \<open>simp_all add: run_ok arith_ok\<close>)
qed

text \<open>The uncovered debt as a number, and the amount drawn for it.\<close>

lemma unat_shortfall:
  fixes debt :: u64 and worth :: u128
  assumes "worth < ucast debt"
  shows "unat (ucast (min (saturating_sub (ucast debt) worth) 18446744073709551615) :: u64) = unat debt - unat worth"
proof -
  have "unat debt - unat worth < 18446744073709551616" using u64_bound [of debt] by linarith
  then have "unat (min (saturating_sub (ucast debt) worth) 18446744073709551615) = unat debt - unat worth"
    by (simp add: unat_min arith_ok)
  then show ?thesis using \<open>unat debt - unat worth < _\<close> by (simp add: unat_narrow)
qed

lemma net_times_bps:
  "checked_mul (ucast (net :: u64) :: u128) (ucast (bps :: u16)) = Some x \<Longrightarrow> unat (ucast (x div 10000) :: u64) * 10000 \<le> unat net * unat bps"
proof -
  assume "checked_mul (ucast net :: u128) (ucast bps) = Some x"
  then have x: "unat x = unat net * unat bps" by (simp add: arith_ok)
  have "unat (ucast (x div 10000) :: u64) \<le> unat (x div 10000)" by (simp add: unat_narrow)
  also have "\<dots> = unat x div 10000" by (simp add: unat_div)
  finally have "unat (ucast (x div 10000) :: u64) \<le> unat x div 10000" .
  then have "unat (ucast (x div 10000) :: u64) * 10000 \<le> unat x div 10000 * 10000" by simp
  also have "\<dots> \<le> unat x" by simp
  finally show ?thesis using x by simp
qed

lemma backstop_draw_le:
  "unat (backstop_draw c s f) \<le> unat s" "unat (backstop_draw c s f) \<le> unat f"
  "c_max_backstop_bps c \<noteq> 0 \<Longrightarrow> unat (backstop_draw c s f) * 10000 \<le> unat (net_supply c) * unat (c_max_backstop_bps c)"
proof -
  show "unat (backstop_draw c s f) \<le> unat s" "unat (backstop_draw c s f) \<le> unat f"
    by (auto simp: backstop_draw_def unat_min)
  assume bps: "c_max_backstop_bps c \<noteq> 0"
  show "unat (backstop_draw c s f) * 10000 \<le> unat (net_supply c) * unat (c_max_backstop_bps c)"
  proof (cases "checked_mul (ucast (net_supply c) :: u128) (ucast (c_max_backstop_bps c))")
    case (Some x)
    with bps have "unat (backstop_draw c s f) \<le> unat (ucast (x div 10000) :: u64)"
      by (simp add: backstop_draw_def Let_def unat_min)
    then have "unat (backstop_draw c s f) * 10000 \<le> unat (ucast (x div 10000) :: u64) * 10000" by (rule mult_le_mono1)
    with net_times_bps [OF Some] show ?thesis by (rule order_trans [rotated])
  qed (use bps in \<open>simp add: backstop_draw_def Let_def unat_min\<close>)
qed

text \<open>the backstop moves collateral from the insurance fund to the reserve only for a position whose debt
  exceeds the value of its deposit, at most the uncovered part, at most what the fund holds, and at most the configured share of
  the supply; the recorded collateral grows by exactly what arrives in the vault, so the reserve stays covered.\<close>

theorem backstop_covers_bad_debt:
  assumes ledger: "token_ledger rt" and run: "trigger_backstop_handler rt w ctx = Inr (c', w')"
    and apart: "bk_fund ctx \<noteq> bk_reserve_vault ctx"
  defines "c \<equiv> data_of (bk_config ctx)" and "p \<equiv> data_of (bk_position ctx)"
  shows "\<exists>price sm cm worth drawn.
    get_oracle_price (bk_feed ctx) c (rt_unix_timestamp rt) = Inr price \<and>
    rt_mint rt w (bk_mint ctx) = Some sm \<and> rt_mint rt w (bk_collateral_mint ctx) = Some cm \<and>
    collateral_value_in_sss (cv_deposited_amount (data_of (bk_vault ctx))) (i64_as_u128 (op_price price))
       (unat (tm_decimals sm)) (unat (tm_decimals cm)) (nat \<bar>op_expo price\<bar>) = Inr worth \<and>
    unat worth < unat (cp_debt_amount p) + unat (cp_accrued_fees p) \<and>
    drawn \<le> unat (cp_debt_amount p) + unat (cp_accrued_fees p) - unat worth \<and>
    drawn \<le> balance_of rt w (c_insurance_fund_pubkey c) \<and>
    (c_max_backstop_bps c \<noteq> 0 \<longrightarrow> drawn * 10000 \<le> unat (net_supply c) * unat (c_max_backstop_bps c)) \<and>
    unat (c_total_collateral c') = unat (c_total_collateral c) + drawn \<and>
    balance_of rt w' (c_reserve_vault c) = balance_of rt w (c_reserve_vault c) + drawn \<and>
    balance_of rt w' (c_insurance_fund_pubkey c) = balance_of rt w (c_insurance_fund_pubkey c) - drawn \<and>
    (unat (c_total_collateral c) \<le> balance_of rt w (c_reserve_vault c) \<longrightarrow>
       unat (c_total_collateral c') \<le> balance_of rt w' (c_reserve_vault c'))"
proof -
  obtain sm cm fund price worth debt draw where 1:
    "rt_mint rt w (bk_mint ctx) = Some sm" "rt_mint rt w (bk_collateral_mint ctx) = Some cm" "rt_token rt w (bk_fund ctx) = Some fund"
    "get_oracle_price (bk_feed ctx) c (rt_unix_timestamp rt) = Inr price"
    "unat (debt :: u64) = unat (cp_debt_amount p) + unat (cp_accrued_fees p)"
    "collateral_value_in_sss (cv_deposited_amount (data_of (bk_vault ctx))) (i64_as_u128 (op_price price))
       (unat (tm_decimals sm)) (unat (tm_decimals cm)) (nat \<bar>op_expo price\<bar>) = Inr worth"
    "worth < ucast debt" "0 < ta_amount fund"
    "draw = backstop_draw c (ucast (min (saturating_sub (ucast debt) worth) 18446744073709551615)) (ta_amount fund)"
    "rt_invoke rt w [bk_liquidation_authority ctx, bk_fund_authority ctx]
       (TransferChecked (bk_fund ctx) (bk_collateral_mint ctx) (bk_reserve_vault ctx) (bk_fund_authority ctx) draw (tm_decimals cm)) = Inr w'"
    "unat (c_total_collateral c') = unat (c_total_collateral c) + unat draw" "c' = c\<lparr>c_total_collateral := c_total_collateral c'\<rparr>"
    "bk_fund ctx = c_insurance_fund_pubkey c" "bk_reserve_vault ctx = c_reserve_vault c" "bk_liquidation_authority ctx = key_of (bk_config ctx)"
    by (rule backstop_ok [OF run, folded c_def p_def]) blast
  note t = token_ledger.transfer_ok [OF ledger 1(10)]
  have worth: "unat worth < unat debt" using 1(7) by (simp add: word_less_nat_alt)
  have vault: "c_reserve_vault c' = c_reserve_vault c" by (subst 1(12)) simp
  have draw: "unat draw \<le> unat debt - unat worth"
    using backstop_draw_le(1) [of c] unat_shortfall [OF 1(7)] 1(9) by metis
  show ?thesis
    by (rule exI [of _ price], rule exI [of _ sm], rule exI [of _ cm], rule exI [of _ worth], rule exI [of _ "unat draw"])
       (use 1(1,2,4,6,11) t worth draw 1(5,9,13,14) apart vault backstop_draw_le(3) [of c] in auto)
qed

section \<open>Examples\<close>

text \<open>A vault for mint 5 with token account 35 and a committee's decision to draw up to 30.\<close>

definition demo_ins_config :: "u64 \<Rightarrow> stablecoin_config" where
  "demo_ins_config flags = demo_config\<lparr>c_feature_flags := flags\<rparr>"

definition demo_ins_ledger :: "u64 \<Rightarrow> u64 \<Rightarrow> ref_ledger" where
  "demo_ins_ledger user vault = demo_ledger\<lparr>rl_tokens := Map.empty
     (31 \<mapsto> \<lparr>ta_mint = 6, ta_owner = 9, ta_amount = user\<rparr>,
      35 \<mapsto> \<lparr>ta_mint = 6, ta_owner = ref_pda (insurance_seeds 5), ta_amount = vault\<rparr>)\<rparr>"

definition demo_iv :: "u64 \<Rightarrow> u64 \<Rightarrow> insurance_vault" where
  "demo_iv b d =
     \<lparr>ivt_sss_mint = 5, ivt_vault_token_account = 35, ivt_min_seed_bps = 0, ivt_current_balance = b, ivt_total_drawn = d,
      ivt_max_draw_per_event_bps = 0, ivt_adequately_seeded = True, ivt_bump = 255\<rparr>"

definition demo_ins_ctx :: "pubkey \<Rightarrow> u64 \<Rightarrow> insurance_ctx" where
  "demo_ins_ctx who flags =
     \<lparr>ins_signer = who, ins_config = demo_acct (demo_ins_config flags), ins_mint = 5, ins_user_account = 31,
      ins_vault_account = 35, ins_collateral_mint = 6\<rparr>"

definition demo_decision :: "u64 \<Rightarrow> proposal_pda" where
  "demo_decision used =
     \<lparr>da_config = demo_cfg_key, da_proposal_id = 0, da_proposer = 7, da_action = DrawInsurance, da_param = 30, da_target = 9,
      da_votes = [], da_quorum = 1, da_executed = True, da_cancelled = False,
      da_cumulative_consumed = used, da_bump = 255\<rparr>"

lemmas insurance_eval =
  demo_ins_config_def demo_ins_ledger_def demo_iv_def demo_ins_ctx_def demo_decision_def insurance_accounts_def config_ok_def
  seed_insurance_vault_handler_def replenish_insurance_vault_handler_def draw_insurance_handler_def authorise_draw_def
  max_draw_def recompute_seeded_def required_seed_amount_def

definition demo_ins_world :: "u64 \<Rightarrow> u64 \<Rightarrow> u64 \<Rightarrow> u64 \<Rightarrow> ref_ledger insurance_world" where
  "demo_ins_world user b d used =
     \<lparr>iw_vault = demo_iv b d, iw_proposal = Some (demo_decision used), iw_ledger = demo_ins_ledger user b\<rparr>"

abbreviation demo_flags :: u64 where "demo_flags \<equiv> FLAG_INSURANCE_VAULT_REQUIRED OR FLAG_DAO_COMMITTEE"

abbreviation demo_iv_key :: pubkey where "demo_iv_key \<equiv> ref_pda (insurance_seeds 5)"

lemma demo_insurance_steps:
  "insurance_exec demo_iv_key (SeedVault (ref_runtime 1 0 0) (demo_ins_ctx 9 demo_flags) 40) (demo_ins_world 50 0 0 0) =
     Inr (demo_ins_world 10 40 0 0)"
  "insurance_exec demo_iv_key (DrawVault (ref_runtime 1 0 0) (demo_ins_ctx 9 demo_flags) 25) (demo_ins_world 10 40 0 0) =
     Inr (demo_ins_world 35 15 25 25)"
  "insurance_exec demo_iv_key (DrawVault (ref_runtime 1 0 0) (demo_ins_ctx 9 demo_flags) 10) (demo_ins_world 35 15 25 25) =
     Inl (Late DaoProposalExhausted)"
  by (simp_all add: eval_defs insurance_eval demo_ins_world_def fun_upd_twist word_le_nat_alt) (simp_all add: demo_cfg_key_def)

abbreviation demo_insurance_events :: "ref_ledger insurance_event list" where
  "demo_insurance_events \<equiv>
     [SeedVault (ref_runtime 1 0 0) (demo_ins_ctx 9 demo_flags) 40, DrawVault (ref_runtime 1 0 0) (demo_ins_ctx 9 demo_flags) 25,
      DrawVault (ref_runtime 1 0 0) (demo_ins_ctx 9 demo_flags) 10]"

lemma demo_insurance_tallies:
  "play (insurance_exec demo_iv_key) demo_insurance_events (demo_ins_world 50 0 0 0) = demo_ins_world 35 15 25 25"
  "tally (insurance_exec demo_iv_key) drawn_out demo_insurance_events (demo_ins_world 50 0 0 0) = 25"
  "tally (insurance_exec demo_iv_key) paid_in demo_insurance_events (demo_ins_world 50 0 0 0) = 40"
  "tally (insurance_exec demo_iv_key) drawn_by_proposal demo_insurance_events (demo_ins_world 50 0 0 0) = 25"
  by (simp_all only: play.simps tally.simps demo_insurance_steps sum.case)
     (simp_all add: demo_ins_ctx_def demo_ins_config_def flag_defs check_feature_flag_def)

lemma demo_vault_created:
  "\<exists>c'. init_insurance_vault_handler (ref_runtime 1 0 0) (demo_ins_ledger 50 0)
     \<lparr>ac_authority = 7, ac_config = demo_acct demo_config, ac_mint = 5\<rparr> None 35 0 0 = Inr (c', demo_iv 0 0)"
  by (simp add: eval_defs insurance_eval init_insurance_vault_handler_def) (simp add: demo_cfg_key_def)


theorem dao_draws_within_budget_witness: "(25 :: nat) \<le> 30 \<and> da_executed (demo_decision 0)"
proof -
  have "da_cumulative_consumed (demo_decision 0) = 0" by (simp add: demo_decision_def)
  from dao_draws_within_budget [OF this, of demo_iv_key demo_insurance_events "demo_iv 0 0" "demo_ins_ledger 50 0"]
    demo_insurance_tallies(4)
  show ?thesis by (simp add: demo_ins_world_def Let_def demo_decision_def del: tally.simps)
qed

text \<open>350 of collateral at a price of 1 behind 400 of debt: with 20 in the fund, 20 of the 50 short are moved.\<close>

definition demo_backstop_config :: stablecoin_config where
  "demo_backstop_config = demo_config\<lparr>c_oracle_type := 2, c_insurance_fund_pubkey := 31\<rparr>"

definition demo_backstop_ctx :: backstop_ctx where
  "demo_backstop_ctx =
     \<lparr>bk_liquidation_authority = demo_cfg_key, bk_config = demo_acct demo_backstop_config, bk_mint = 5, bk_owner = 9,
      bk_position = \<lparr>key_of = ref_pda (position_seeds 5 9), data_of =
        \<lparr>cp_config = demo_cfg_key, cp_sss_mint = 5, cp_owner = 9, cp_debt_amount = 390, cp_collateral_mint = 6,
         cp_last_fee_accrual = 0, cp_accrued_fees = 10, cp_bump = 255\<rparr>\<rparr>,
      bk_vault = \<lparr>key_of = ref_pda (vault_seeds 5 9 6), data_of =
        \<lparr>cv_owner = 9, cv_collateral_mint = 6, cv_vault_token_account = 40, cv_deposited_amount = 350, cv_bump = 255\<rparr>\<rparr>,
      bk_collateral_mint = 6, bk_feed = demo_feed 100000000 1000, bk_fund = 31, bk_reserve_vault = 30, bk_fund_authority = 9\<rparr>"

theorem backstop_covers_bad_debt_witness:
  "\<exists>c' w'. trigger_backstop_handler (ref_runtime 10 3 1030) demo_ledger demo_backstop_ctx = Inr (c', w') \<and>
     unat (c_total_collateral c') = 950 \<and> balance_of (ref_runtime 10 3 1030) w' 30 = 950"
proof -
  obtain c' w' where run: "trigger_backstop_handler (ref_runtime 10 3 1030) demo_ledger demo_backstop_ctx = Inr (c', w')"
      and c': "unat (c_total_collateral c') = 950"
    by (simp add: eval_defs demo_backstop_ctx_def demo_backstop_config_def trigger_backstop_handler_def backstop_accounts_def
        config_ok_def collateral_value_in_sss_def backstop_draw_def mul_or_def pow10_def demo_cfg_key_def)
  from backstop_covers_bad_debt [OF ref.token_ledger_axioms run] c'
  have "balance_of (ref_runtime 10 3 1030) w' 30 = 950"
    by (auto simp: demo_backstop_ctx_def demo_backstop_config_def demo_config_def demo_ledger_def balance_of_def)
  with run c' show ?thesis by blast
qed

end
