(* ===== verification/Pace.thy ===== *)
theory Pace
  imports Machine
begin

text \<open>
  The contract of a clock that makes an operation wait: the operation runs only when a fixed number of slots has passed
  since it ran last. Its consequence for a whole history, that the runs lie that far apart and how many fit into a
  stretch of time, is proved once for every component that keeps such a clock.
\<close>

text \<open>When an operation ran over a history.\<close>

fun fired :: "('e \<Rightarrow> 's \<Rightarrow> 'x + 's) \<Rightarrow> ('e \<Rightarrow> nat option) \<Rightarrow> 'e list \<Rightarrow> 's \<Rightarrow> nat list" where
  "fired exec fires [] s = []"
| "fired exec fires (e # es) s =
     (case exec e s of
        Inl _ \<Rightarrow> fired exec fires es s
      | Inr s' \<Rightarrow> (case fires e of None \<Rightarrow> [] | Some t \<Rightarrow> [t]) @ fired exec fires es s')"

definition spaced :: "nat \<Rightarrow> nat list \<Rightarrow> bool" where
  "spaced gap ts = sorted_wrt (\<lambda>a b. a + gap \<le> b) ts"

lemma spaced_Nil [simp]: "spaced gap []" by (simp add: spaced_def)

lemma spaced_Cons [simp]: "spaced gap (t # ts) \<longleftrightarrow> (\<forall>u \<in> set ts. t + gap \<le> u) \<and> spaced gap ts"
  by (simp add: spaced_def)

lemma spaced_filter: "spaced gap ts \<Longrightarrow> spaced gap (filter P ts)"
  by (induction ts) auto

lemma spaced_count:
  "spaced gap ts \<Longrightarrow> \<forall>t \<in> set ts. lo \<le> t \<and> t \<le> hi \<Longrightarrow> length ts * gap \<le> hi - lo + gap"
proof (induction ts arbitrary: lo)
  case (Cons t ts)
  show ?case
  proof (cases ts)
    case (Cons u us)
    have "length ts * gap \<le> hi - (lo + gap) + gap"
      using Cons.IH [of "lo + gap"] Cons.prems by force
    moreover have "lo + gap \<le> hi" using Cons Cons.prems by force
    ultimately show ?thesis by simp
  qed simp
qed simp

text \<open>At most this many runs fit into the slots from \<open>lo\<close> to \<open>hi\<close>.\<close>

lemma spaced_window:
  "spaced gap ts \<Longrightarrow> length (filter (\<lambda>t. lo \<le> t \<and> t \<le> hi) ts) * gap \<le> hi - lo + gap"
  by (rule spaced_count [OF spaced_filter]) auto

locale paced =
  fixes exec :: "'e \<Rightarrow> 's \<Rightarrow> 'x + 's"
    and ok :: "'e \<Rightarrow> bool"
    and wf :: "'s \<Rightarrow> bool"
    and fires :: "'e \<Rightarrow> nat option"
    and latest :: "'s \<Rightarrow> nat option"
    and gap :: nat
  assumes wf_exec: "wf s \<Longrightarrow> ok e \<Longrightarrow> exec e s = Inr s' \<Longrightarrow> wf s'"
    and fires_late: "wf s \<Longrightarrow> ok e \<Longrightarrow> exec e s = Inr s' \<Longrightarrow> fires e = Some t \<Longrightarrow>
      latest s' = Some t \<and> (\<forall>u. latest s = Some u \<longrightarrow> u + gap \<le> t)"
    and silent: "wf s \<Longrightarrow> ok e \<Longrightarrow> exec e s = Inr s' \<Longrightarrow> fires e = None \<Longrightarrow> latest s' = latest s"
begin

lemma fired_spaced:
  "wf s \<Longrightarrow> \<forall>e \<in> set es. ok e \<Longrightarrow>
     spaced gap (fired exec fires es s) \<and> (\<forall>u. latest s = Some u \<longrightarrow> (\<forall>t \<in> set (fired exec fires es s). u + gap \<le> t))"
proof (induction es arbitrary: s)
  case (Cons e es)
  show ?case
  proof (cases "exec e s")
    case (Inr s')
    have ok: "ok e" and rest: "\<forall>e \<in> set es. ok e" using Cons.prems by auto
    note wf' = wf_exec [OF Cons.prems(1) ok Inr]
    note IH = Cons.IH [OF wf' rest]
    show ?thesis
    proof (cases "fires e")
      case None
      with IH silent [OF Cons.prems(1) ok Inr None] Inr show ?thesis by simp
    next
      case (Some t)
      with IH fires_late [OF Cons.prems(1) ok Inr Some] Inr show ?thesis by fastforce
    qed
  qed (use Cons in simp)
qed simp

lemmas fired_window = fired_spaced [THEN conjunct1, THEN spaced_window]

end

end
