(* ===== verification/Keeper.thy ===== *)
theory Keeper
  imports Oracle Pace
begin

text \<open>
  The circuit breaker's keeper: anyone may pause the stablecoin while the price is off the peg and is paid for it, and
  anyone may lift that pause once the price has recovered
  (programs/sss-token/src/instructions/circuit\_breaker\_keeper.rs).
\<close>

section \<open>Configuration\<close>

record keeper_config =
  kpc_sss_mint :: pubkey
  kpc_deviation_threshold_bps :: u16
  kpc_keeper_reward_lamports :: u64
  kpc_min_cooldown_slots :: u64
  kpc_sustained_recovery_slots :: u64
  kpc_target_price :: u64
  kpc_last_trigger_slot :: u64
  kpc_last_within_threshold_slot :: u64
  kpc_bump :: u8

record init_keeper_params =
  ikp_deviation_threshold_bps :: u16
  ikp_keeper_reward_lamports :: u64
  ikp_min_cooldown_slots :: u64
  ikp_sustained_recovery_slots :: u64
  ikp_target_price :: u64

definition MAX_KEEPER_REWARD_LAMPORTS :: u64 where "MAX_KEEPER_REWARD_LAMPORTS = 100000000"

definition keeper_seeds :: "pubkey \<Rightarrow> seed list" where
  "keeper_seeds mint = [SeedStr ''keeper-config'', SeedKey mint]"

definition init_keeper_config_handler ::
  "'w runtime \<Rightarrow> pubkey \<Rightarrow> stablecoin_config account \<Rightarrow> keeper_config option \<Rightarrow> init_keeper_params \<Rightarrow> keeper_config res" where
  "init_keeper_config_handler rt authority cfg existing p =
     (let c = data_of cfg in
      guarded (owner_accounts rt authority cfg @ [(existing = None, Anchor AccountAlreadyInUse)])
        (andthen (squads_gate c authority) (\<lambda>_.
         guarded
           [(ikp_keeper_reward_lamports p \<le> MAX_KEEPER_REWARD_LAMPORTS, Market InvalidKeeperReward),
            (ikp_deviation_threshold_bps p > 0 \<and> ikp_deviation_threshold_bps p \<le> 5000, Market InvalidKeeperDeviation),
            (ikp_min_cooldown_slots p \<ge> 10, Market InvalidKeeperCooldown),
            (ikp_sustained_recovery_slots p > 0, Market InvalidKeeperRecovery),
            (ikp_target_price p > 0, Cdp InvalidPrice)]
           (Inr \<lparr>kpc_sss_mint = c_mint c, kpc_deviation_threshold_bps = ikp_deviation_threshold_bps p,
                 kpc_keeper_reward_lamports = ikp_keeper_reward_lamports p, kpc_min_cooldown_slots = ikp_min_cooldown_slots p,
                 kpc_sustained_recovery_slots = ikp_sustained_recovery_slots p, kpc_target_price = ikp_target_price p,
                 kpc_last_trigger_slot = 0, kpc_last_within_threshold_slot = 0,
                 kpc_bump = snd (rt_find_pda rt (keeper_seeds (c_mint c)))\<rparr>))))"

text \<open>\<open>transfer\<close> is the transfer of the system program.\<close>

definition seed_keeper_vault_handler ::
  "'w runtime \<Rightarrow> (lamports \<Rightarrow> pubkey \<Rightarrow> pubkey \<Rightarrow> u64 \<Rightarrow> nat + lamports) \<Rightarrow> lamports \<Rightarrow> pubkey \<Rightarrow> keeper_config account \<Rightarrow> u64 \<Rightarrow>
     lamports res" where
  "seed_keeper_vault_handler rt transfer lam funder ka amount_lamports =
     guarded
       [(seeds_ok rt (key_of ka) (keeper_seeds (kpc_sss_mint (data_of ka))) (kpc_bump (data_of ka)), Anchor ConstraintSeeds),
        (amount_lamports > 0, Core ZeroAmount)]
       (token_result (transfer lam funder (key_of ka) amount_lamports))"

section \<open>Tripping the breaker\<close>

record keeper_ctx =
  kpx_keeper :: pubkey
  kpx_config :: "stablecoin_config account"
  kpx_feed :: feed_account

definition keeper_accounts :: "'w runtime \<Rightarrow> keeper_ctx \<Rightarrow> keeper_config account \<Rightarrow> (bool \<times> error) list" where
  "keeper_accounts rt ctx ka =
     (let c = data_of (kpx_config ctx) in
      config_ok rt (kpx_config ctx) (c_mint c) @
      [(seeds_ok rt (key_of ka) (keeper_seeds (c_mint c)) (kpc_bump (data_of ka)), Anchor ConstraintSeeds),
       (kpc_sss_mint (data_of ka) = c_mint c, Market KeeperConfigMintMismatch)])"

text \<open>The distance of the price from the target in bps of the target: a plain subtraction, then 128 bits cut down to 64.\<close>

definition peg_deviation_bps :: "u64 \<Rightarrow> i64 \<Rightarrow> u64 res" where
  "peg_deviation_bps target_price current =
     (let target = u64_as_i64 target_price; raw_dev = (if current > target then current - target else target - current) in
      guarded [(raw_dev \<le> i64_max, Panic)]
        (Inr (ucast (case checked_div (saturating_mul (i64_as_u128 raw_dev) 10000) (i64_as_u128 target) of
                       None \<Rightarrow> - 1 | Some q \<Rightarrow> q))))"

definition cooldown_over :: "u64 \<Rightarrow> keeper_config \<Rightarrow> unit res" where
  "cooldown_over slot kc =
     (if kpc_last_trigger_slot kc > 0 then
        andthen (ok_or (checked_add (kpc_last_trigger_slot kc) (kpc_min_cooldown_slots kc)) Panic) (\<lambda>t.
        guarded [(slot \<ge> t, Market KeeperCooldownActive)] (Inr ()))
      else Inr ())"

text \<open>The reward leaves the record's own lamports, unless less than the rent would be left.\<close>

definition pay_keeper :: "u64 \<Rightarrow> u64 \<Rightarrow> pubkey \<Rightarrow> pubkey \<Rightarrow> lamports \<Rightarrow> lamports res" where
  "pay_keeper min_rent reward vault keeper lam =
     (if reward > 0 \<and> saturating_sub (lam vault) reward \<ge> min_rent then
        andthen (ok_or (checked_sub (lam vault) reward) Panic) (\<lambda>v.
        let lam1 = lam(vault := v) in
        andthen (ok_or (checked_add (lam1 keeper) reward) Panic) (\<lambda>r.
        Inr (lam1(keeper := r))))
      else Inr lam)"

definition crank_circuit_breaker_handler ::
  "'w runtime \<Rightarrow> u64 \<Rightarrow> lamports \<Rightarrow> keeper_ctx \<Rightarrow> keeper_config account \<Rightarrow> (stablecoin_config \<times> keeper_config \<times> lamports) res" where
  "crank_circuit_breaker_handler rt min_rent lam ctx ka =
     (let c = data_of (kpx_config ctx); kc = data_of ka in
      guarded (keeper_accounts rt ctx ka @ [(flag_set c FLAG_CIRCUIT_BREAKER, Market CircuitBreakerNotArmed)])
        (andthen (cooldown_over (rt_slot rt) kc) (\<lambda>_.
         guarded [(\<not> c_paused c, Core MintPaused)]
         (andthen (get_oracle_price (kpx_feed ctx) c (rt_unix_timestamp rt)) (\<lambda>p.
          andthen (peg_deviation_bps (kpc_target_price kc) (op_price p)) (\<lambda>dev.
          guarded [(dev \<ge> ucast (kpc_deviation_threshold_bps kc), Market PegWithinThreshold)]
          (andthen (pay_keeper min_rent (kpc_keeper_reward_lamports kc) (key_of ka) (kpx_keeper ctx) lam) (\<lambda>lam'.
           Inr (c\<lparr>c_paused := True\<rparr>,
                kc\<lparr>kpc_last_trigger_slot := rt_slot rt, kpc_last_within_threshold_slot := 0\<rparr>, lam')))))))))"

section \<open>Lifting the pause\<close>

definition crank_unpause_handler ::
  "'w runtime \<Rightarrow> keeper_ctx \<Rightarrow> keeper_config account \<Rightarrow> (stablecoin_config \<times> keeper_config) res" where
  "crank_unpause_handler rt ctx ka =
     (let c = data_of (kpx_config ctx); kc = data_of ka in
      guarded (keeper_accounts rt ctx ka @ [(c_paused c, Market NotPaused)])
        (andthen (get_oracle_price (kpx_feed ctx) c (rt_unix_timestamp rt)) (\<lambda>p.
         andthen (peg_deviation_bps (kpc_target_price kc) (op_price p)) (\<lambda>dev.
         if dev < ucast (kpc_deviation_threshold_bps kc) then
           (let kc1 = (if kpc_last_within_threshold_slot kc = 0 then kc\<lparr>kpc_last_within_threshold_slot := rt_slot rt\<rparr> else kc);
                recovery_elapsed = saturating_sub (rt_slot rt) (kpc_last_within_threshold_slot kc1) in
            guarded [(recovery_elapsed \<ge> kpc_sustained_recovery_slots kc1, Market KeeperRecoveryWindowNotMet)]
              (Inr (c\<lparr>c_paused := False\<rparr>, kc1\<lparr>kpc_last_within_threshold_slot := 0\<rparr>)))
         else Inl (Market PegStillDeviating)))))"

section \<open>When the breaker trips\<close>

lemma u64_as_i64_small:
  fixes t :: u64
  assumes "unat t \<le> 9223372036854775807"
  shows "u64_as_i64 t = int (unat t)"
proof -
  have "int (unat t) \<le> int 9223372036854775807" using assms by (rule of_nat_mono)
  then have "uint t < 2 ^ 63" by simp
  moreover have "- (2 ^ 63) \<le> uint t" by (rule order_trans [of _ 0]) simp_all
  ultimately have "signed_take_bit 63 (uint t) = uint t" by (intro signed_take_bit_int_eq_self) auto
  then show ?thesis by (simp add: u64_as_i64_def sint_uint)
qed

lemma peg_deviation_nat:
  assumes "peg_deviation_bps target cur = Inr dev" and "0 < unat target" and "unat target \<le> 9223372036854775807"
  shows "unat dev = nat \<bar>cur - int (unat target)\<bar> * 10000 div unat target mod 2 ^ 64"
proof -
  let ?raw = "\<bar>cur - int (unat target)\<bar>"
  have t: "u64_as_i64 target = int (unat target)" by (rule u64_as_i64_small [OF assms(3)])
  have raw: "(if cur > int (unat target) then cur - int (unat target) else int (unat target) - cur) = ?raw" by simp
  obtain small: "?raw \<le> i64_max" and dev: "dev = ucast (case checked_div (saturating_mul (i64_as_u128 ?raw) 10000) (i64_as_u128 (int (unat target))) of
      None \<Rightarrow> - 1 | Some q \<Rightarrow> q)"
    using assms(1) unfolding peg_deviation_bps_def Let_def t raw by (auto simp del: int_nat_eq of_nat_unat split: if_splits)
  have a: "unat (i64_as_u128 ?raw) = nat ?raw" using small by (intro i64_as_u128_nat) auto
  have b: "unat (i64_as_u128 (int (unat target))) = unat target"
    using assms(3) by (subst i64_as_u128_nat) (simp_all add: i64_max_def del: of_nat_unat)
  have m: "unat (saturating_mul (i64_as_u128 ?raw) 10000) = nat ?raw * 10000"
  proof -
    have "nat ?raw \<le> 9223372036854775807" using small by (simp add: i64_max_def)
    then show ?thesis unfolding unat_saturating_mul a by (simp add: min_def del: of_nat_unat)
  qed
  have "unat (case checked_div (saturating_mul (i64_as_u128 ?raw) 10000) (i64_as_u128 (int (unat target))) of None \<Rightarrow> - 1 | Some q \<Rightarrow> q) =
      nat ?raw * 10000 div unat target"
    using assms(2) b m by (auto simp: checked_div_def unat_div word_zero_unat)
  then show ?thesis unfolding dev by (simp add: unat_narrow)
qed

lemma cooldown_over_ok:
  "cooldown_over slot kc = Inr u \<Longrightarrow>
     unat (kpc_last_trigger_slot kc) = 0 \<or> unat (kpc_last_trigger_slot kc) + unat (kpc_min_cooldown_slots kc) \<le> unat slot"
  by (auto simp: cooldown_over_def run_ok arith_ok word_to_nat split: if_splits)

lemma pay_keeper_ok:
  assumes "pay_keeper min_rent reward vault keeper lam = Inr lam'" and "vault \<noteq> keeper"
  shows "lam' = lam \<or>
    unat (lam' vault) + unat reward = unat (lam vault) \<and> unat (lam' keeper) = unat (lam keeper) + unat reward \<and>
    min_rent \<le> lam' vault \<and> (\<forall>k. k \<noteq> vault \<longrightarrow> k \<noteq> keeper \<longrightarrow> lam' k = lam k)"
proof (cases "reward > 0 \<and> saturating_sub (lam vault) reward \<ge> min_rent")
  case True
  then obtain v r where v: "unat (lam vault) = unat reward + unat v" and r: "unat r = unat (lam keeper) + unat reward"
    and lam': "lam' = lam(vault := v, keeper := r)"
    using assms by (auto simp: pay_keeper_def Let_def run_ok arith_ok)
  moreover have "unat min_rent \<le> unat v" using True v by (simp add: word_le_nat_alt unat_saturating_sub)
  ultimately show ?thesis using assms(2) by (simp add: word_le_nat_alt)
qed (use assms in \<open>auto simp: pay_keeper_def\<close>)

lemma crank_ok:
  assumes "crank_circuit_breaker_handler rt min_rent lam ctx ka = Inr (c', kc', lam')"
  defines "c \<equiv> data_of (kpx_config ctx)" and "kc \<equiv> data_of ka"
  shows "flag_set c FLAG_CIRCUIT_BREAKER" and "\<not> c_paused c" and "c' = c\<lparr>c_paused := True\<rparr>"
    and "kc' = kc\<lparr>kpc_last_trigger_slot := rt_slot rt, kpc_last_within_threshold_slot := 0\<rparr>"
    and "cooldown_over (rt_slot rt) kc = Inr ()"
    and "pay_keeper min_rent (kpc_keeper_reward_lamports kc) (key_of ka) (kpx_keeper ctx) lam = Inr lam'"
    and "\<exists>p dev. get_oracle_price (kpx_feed ctx) c (rt_unix_timestamp rt) = Inr p \<and>
      peg_deviation_bps (kpc_target_price kc) (op_price p) = Inr dev \<and> ucast (kpc_deviation_threshold_bps kc) \<le> dev"
  using assms(1) unfolding c_def kc_def by (auto simp: crank_circuit_breaker_handler_def guarded_Inr run_ok Let_def)

text \<open>the breaker trips only on an armed, running stablecoin whose price is off the target by the threshold and after the
  cooldown; it pauses the stablecoin and changes nothing else of it, and the keeper gets the whole reward, out of what the record
  holds above the rent, or nothing.\<close>

theorem keeper_trips_on_deviation:
  assumes run: "crank_circuit_breaker_handler rt min_rent lam ctx ka = Inr (c', kc', lam')"
    and target: "0 < kpc_target_price (data_of ka)" "unat (kpc_target_price (data_of ka)) \<le> 9223372036854775807"
    and apart: "key_of ka \<noteq> kpx_keeper ctx"
  defines "c \<equiv> data_of (kpx_config ctx)" and "kc \<equiv> data_of ka"
  shows "flag_set c FLAG_CIRCUIT_BREAKER \<and> \<not> c_paused c \<and> c' = c\<lparr>c_paused := True\<rparr> \<and>
    (\<exists>p. get_oracle_price (kpx_feed ctx) c (rt_unix_timestamp rt) = Inr p \<and>
       int (unat (kpc_deviation_threshold_bps kc)) * int (unat (kpc_target_price kc)) \<le> 10000 * \<bar>op_price p - int (unat (kpc_target_price kc))\<bar>) \<and>
    (unat (kpc_last_trigger_slot kc) = 0 \<or>
       unat (kpc_last_trigger_slot kc) + unat (kpc_min_cooldown_slots kc) \<le> unat (rt_slot rt)) \<and>
    (lam' = lam \<or>
       unat (lam' (key_of ka)) + unat (kpc_keeper_reward_lamports kc) = unat (lam (key_of ka)) \<and>
       unat (lam' (kpx_keeper ctx)) = unat (lam (kpx_keeper ctx)) + unat (kpc_keeper_reward_lamports kc) \<and> min_rent \<le> lam' (key_of ka))"
proof -
  note o = crank_ok [OF run, folded c_def kc_def]
  let ?t = "unat (kpc_target_price kc)" and ?th = "unat (kpc_deviation_threshold_bps kc)"
  from o(7) obtain p dev where p: "get_oracle_price (kpx_feed ctx) c (rt_unix_timestamp rt) = Inr p"
    and dev: "peg_deviation_bps (kpc_target_price kc) (op_price p) = Inr dev" "ucast (kpc_deviation_threshold_bps kc) \<le> dev" by blast
  let ?raw = "\<bar>op_price p - int ?t\<bar>"
  have t: "0 < ?t" "?t \<le> 9223372036854775807" using target by (simp_all add: kc_def word_less_nat_alt)
  have "?th \<le> unat dev" using dev(2) by (simp add: word_le_nat_alt)
  also have "\<dots> \<le> nat ?raw * 10000 div ?t" unfolding peg_deviation_nat [OF dev(1) t] by (rule mod_less_eq_dividend)
  finally have "?th * ?t \<le> nat ?raw * 10000" using t(1) by (simp add: less_eq_div_iff_mult_less_eq)
  then have "int (?th * ?t) \<le> int (nat ?raw * 10000)" by (rule of_nat_mono)
  then have "int ?th * int ?t \<le> 10000 * ?raw" by (simp del: of_nat_unat)
  with p show ?thesis
    using o(1-3) cooldown_over_ok [OF o(5)] pay_keeper_ok [OF o(6) apart] by blast
qed

section \<open>Keepers over time\<close>

record keeper_world =
  kpw_config :: stablecoin_config
  kpw_keeper :: keeper_config
  kpw_lamports :: lamports

datatype 'w keeper_event =
    Trip "'w runtime" u64 keeper_ctx
  | Lift "'w runtime" keeper_ctx
  | ElsewhereR stablecoin_config lamports

definition keeper_at :: "keeper_ctx \<Rightarrow> stablecoin_config \<Rightarrow> keeper_ctx" where
  "keeper_at ctx c = ctx\<lparr>kpx_config := set_data (kpx_config ctx) c\<rparr>"

fun keeper_exec :: "pubkey \<Rightarrow> 'w keeper_event \<Rightarrow> keeper_world \<Rightarrow> keeper_world res" where
  "keeper_exec k (Trip rt min_rent ctx) s =
     andthen (crank_circuit_breaker_handler rt min_rent (kpw_lamports s) (keeper_at ctx (kpw_config s)) \<lparr>key_of = k, data_of = kpw_keeper s\<rparr>)
       (\<lambda>(c, kc, lam). Inr \<lparr>kpw_config = c, kpw_keeper = kc, kpw_lamports = lam\<rparr>)"
| "keeper_exec k (Lift rt ctx) s =
     andthen (crank_unpause_handler rt (keeper_at ctx (kpw_config s)) \<lparr>key_of = k, data_of = kpw_keeper s\<rparr>)
       (\<lambda>(c, kc). Inr (s\<lparr>kpw_config := c, kpw_keeper := kc\<rparr>))"
| "keeper_exec k (ElsewhereR c lam) s = Inr (s\<lparr>kpw_config := c, kpw_lamports := lam\<rparr>)"

lemma unpause_ok:
  assumes "crank_unpause_handler rt ctx ka = Inr (c', kc')"
  defines "kc \<equiv> data_of ka"
  shows "kc' = kc\<lparr>kpc_last_within_threshold_slot := 0\<rparr>"
    and "kpc_last_within_threshold_slot kc = 0 \<Longrightarrow> unat (kpc_sustained_recovery_slots kc) = 0"
  using assms(1) unfolding kc_def
  by (auto simp: crank_unpause_handler_def guarded_Inr run_ok Let_def word_le_nat_alt unat_saturating_sub split: if_splits)

text \<open>Slot zero, which the record takes for never, is before every transaction.\<close>

fun keeper_event_ok :: "'w keeper_event \<Rightarrow> bool" where
  "keeper_event_ok (Trip rt min_rent ctx) \<longleftrightarrow> rt_slot rt \<noteq> 0"
| "keeper_event_ok _ \<longleftrightarrow> True"

fun trip_time :: "'w keeper_event \<Rightarrow> nat option" where
  "trip_time (Trip rt min_rent ctx) = Some (unat (rt_slot rt))"
| "trip_time _ = None"

definition latest_trip :: "keeper_world \<Rightarrow> nat option" where
  "latest_trip s = (let t = unat (kpc_last_trigger_slot (kpw_keeper s)) in if t = 0 then None else Some t)"

interpretation trips: paced "keeper_exec k" keeper_event_ok "\<lambda>s. unat (kpc_min_cooldown_slots (kpw_keeper s)) = gap" trip_time latest_trip gap
  for k gap
proof unfold_locales
  fix e :: "'a keeper_event" and s s' t
  assume wf: "unat (kpc_min_cooldown_slots (kpw_keeper s)) = gap" and ok: "keeper_event_ok e" and run: "keeper_exec k e s = Inr s'"
  show "unat (kpc_min_cooldown_slots (kpw_keeper s')) = gap"
    using run wf by (cases e) (auto simp: run_ok dest!: crank_ok(4) unpause_ok(1))
  show "latest_trip s' = latest_trip s" if "trip_time e = None"
    using run that by (cases e) (auto simp: run_ok latest_trip_def dest!: unpause_ok(1))
  show "latest_trip s' = Some t \<and> (\<forall>u. latest_trip s = Some u \<longrightarrow> u + gap \<le> t)" if time: "trip_time e = Some t"
  proof (cases e)
    case (Trip rt min_rent ctx)
    with run obtain c kc lam where "crank_circuit_breaker_handler rt min_rent (kpw_lamports s) (keeper_at ctx (kpw_config s))
        \<lparr>key_of = k, data_of = kpw_keeper s\<rparr> = Inr (c, kc, lam)" and s': "s' = \<lparr>kpw_config = c, kpw_keeper = kc, kpw_lamports = lam\<rparr>"
      by (auto simp: run_ok)
    from crank_ok(4) [OF this(1)] cooldown_over_ok [OF crank_ok(5) [OF this(1)]] wf ok time Trip s'
    show ?thesis by (auto simp: latest_trip_def Let_def unat_eq_zero unat_gt_0)
  qed (use time in auto)
qed

text \<open>keepers cannot farm the reward: into the slots from \<open>lo\<close> to \<open>hi\<close> fit only as many trips as cooldowns fit, and one more.\<close>

theorem keeper_trips_paced:
  assumes "\<forall>e \<in> set es. keeper_event_ok e"
  shows "length (filter (\<lambda>t. lo \<le> t \<and> t \<le> hi) (fired (keeper_exec k) trip_time es s)) * unat (kpc_min_cooldown_slots (kpw_keeper s)) \<le>
    hi - lo + unat (kpc_min_cooldown_slots (kpw_keeper s))"
  by (rule trips.fired_window [OF refl assms])

text \<open>The recovery clock starts in the transaction that checks it, which then fails and takes the start back.\<close>

definition never_recovering :: "keeper_world \<Rightarrow> bool" where
  "never_recovering s \<longleftrightarrow> kpc_last_within_threshold_slot (kpw_keeper s) = 0 \<and> 0 < unat (kpc_sustained_recovery_slots (kpw_keeper s))"

interpretation recovery: preserved "keeper_exec k" "\<lambda>_. True" never_recovering for k
proof unfold_locales
  fix e :: "'a keeper_event" and s s'
  assume "never_recovering s" "keeper_exec k e s = Inr s'"
  then show "never_recovering s'"
    by (cases e) (auto simp: run_ok never_recovering_def dest!: crank_ok(4) unpause_ok(1))
qed

text \<open>no keeper ever lifts a pause: whatever happened since the keeper's record was made, and whatever the price,
  \<open>crank_unpause\<close> answers with an error.\<close>

theorem auto_unpause_never:
  assumes init: "init_keeper_config_handler rt0 authority cfg existing p = Inr (kpw_keeper s)"
  shows "\<exists>e. crank_unpause_handler rt ctx \<lparr>key_of = k, data_of = kpw_keeper (play (keeper_exec k) es s)\<rparr> = Inl e"
proof -
  have "never_recovering s"
    using init by (auto simp: init_keeper_config_handler_def guarded_Inr run_ok never_recovering_def word_less_nat_alt Let_def
        dest!: sym [of _ "kpw_keeper s"])
  then have rec: "never_recovering (play (keeper_exec k) es s)" by (rule recovery.play_inv) simp
  show ?thesis
  proof (cases "crank_unpause_handler rt ctx \<lparr>key_of = k, data_of = kpw_keeper (play (keeper_exec k) es s)\<rparr>")
    case (Inr r)
    then obtain c' kc' where "crank_unpause_handler rt ctx \<lparr>key_of = k, data_of = kpw_keeper (play (keeper_exec k) es s)\<rparr> = Inr (c', kc')"
      by (cases r) auto
    from unpause_ok(2) [OF this] rec show ?thesis by (simp add: never_recovering_def)
  qed blast
qed

section \<open>Examples\<close>

text \<open>The price is one per cent below the target, half a per cent is tolerated; keeper 9 trips the breaker in slot 50 and gets 5 lamports.\<close>

definition demo_keeper :: "u64 \<Rightarrow> keeper_config" where
  "demo_keeper tripped =
     \<lparr>kpc_sss_mint = 5, kpc_deviation_threshold_bps = 50, kpc_keeper_reward_lamports = 5, kpc_min_cooldown_slots = 10,
      kpc_sustained_recovery_slots = 20, kpc_target_price = 100000000, kpc_last_trigger_slot = tripped,
      kpc_last_within_threshold_slot = 0, kpc_bump = 255\<rparr>"

definition demo_keeper_config :: "bool \<Rightarrow> stablecoin_config" where
  "demo_keeper_config halted = demo_config\<lparr>c_feature_flags := FLAG_CIRCUIT_BREAKER, c_paused := halted, c_oracle_type := 2\<rparr>"

definition demo_keeper_ctx :: keeper_ctx where
  "demo_keeper_ctx = \<lparr>kpx_keeper = 9, kpx_config = demo_acct (demo_keeper_config False), kpx_feed = demo_feed 99000000 1000\<rparr>"

abbreviation demo_keeper_key :: pubkey where "demo_keeper_key \<equiv> ref_pda (keeper_seeds 5)"

definition demo_lamports :: "u64 \<Rightarrow> u64 \<Rightarrow> lamports" where
  "demo_lamports vault keeper = (\<lambda>_. 0)(demo_keeper_key := vault, 9 := keeper)"

lemma demo_keeper_apart [simp]: "demo_keeper_key \<noteq> 9" "9 \<noteq> demo_keeper_key"
  by (simp_all add: keeper_seeds_def ref_pda_def)

lemmas keeper_eval =
  demo_keeper_def demo_keeper_config_def demo_keeper_ctx_def demo_lamports_def keeper_accounts_def config_ok_def cooldown_over_def
  pay_keeper_def peg_deviation_bps_def saturating_mul_def checked_div_def u64_as_i64_def i64_as_u128_def

lemma demo_trip:
  "crank_circuit_breaker_handler (ref_runtime 50 0 1030) 100 (demo_lamports 1000 0) demo_keeper_ctx
     \<lparr>key_of = demo_keeper_key, data_of = demo_keeper 0\<rparr> =
     Inr (demo_keeper_config True, demo_keeper 50, demo_lamports 995 5)"
  by (simp_all add: eval_defs keeper_eval crank_circuit_breaker_handler_def fun_upd_twist word_le_nat_alt word_less_nat_alt)
     (simp_all add: demo_cfg_key_def)

theorem keeper_trips_on_deviation_witness:
  "unat (demo_lamports 995 5 9) = unat (demo_lamports 1000 0 9) + 5 \<and> c_paused (demo_keeper_config True)"
  using keeper_trips_on_deviation [OF demo_trip]
  by (simp add: demo_keeper_def demo_keeper_ctx_def demo_lamports_def demo_keeper_config_def)

definition demo_keeper_world :: keeper_world where
  "demo_keeper_world = \<lparr>kpw_config = demo_keeper_config False, kpw_keeper = demo_keeper 0, kpw_lamports = demo_lamports 1000 0\<rparr>"

theorem keeper_trips_paced_witness:
  "length (filter (\<lambda>t. 40 \<le> t \<and> t \<le> 60) (fired (keeper_exec demo_keeper_key) trip_time [Trip (ref_runtime 50 0 1030) 100 demo_keeper_ctx]
     demo_keeper_world)) * 10 \<le> 30"
  using keeper_trips_paced [where lo = 40 and hi = 60 and k = demo_keeper_key and s = demo_keeper_world and
      es = "[Trip (ref_runtime 50 0 1030) 100 demo_keeper_ctx]"]
  by (simp add: demo_keeper_world_def demo_keeper_def)

theorem auto_unpause_never_witness:
  "\<exists>e. crank_unpause_handler (ref_runtime 900 0 1030) demo_keeper_ctx
     \<lparr>key_of = demo_keeper_key, data_of = kpw_keeper (play (keeper_exec demo_keeper_key) [Lift (ref_runtime 800 0 1030) demo_keeper_ctx] demo_keeper_world)\<rparr> = Inl e"
proof -
  have "init_keeper_config_handler (ref_runtime 1 0 0) 7 (demo_acct (demo_keeper_config False)) None
      \<lparr>ikp_deviation_threshold_bps = 50, ikp_keeper_reward_lamports = 5, ikp_min_cooldown_slots = 10, ikp_sustained_recovery_slots = 20,
       ikp_target_price = 100000000\<rparr> = Inr (kpw_keeper demo_keeper_world)"
    by (simp add: eval_defs keeper_eval init_keeper_config_handler_def owner_accounts_def squads_gate_def demo_keeper_world_def
        MAX_KEEPER_REWARD_LAMPORTS_def word_le_nat_alt word_less_nat_alt)
      (simp add: demo_cfg_key_def)
  then show ?thesis by (rule auto_unpause_never)
qed

end
