(* ===== verification/Registry.thy ===== *)
theory Registry
  imports AuthGate Demo Machine
begin

text \<open>
  Records for those who watch the issuer: the legal entity behind the stablecoin and its attestation
  (programs/sss-token/src/instructions/legal\_entity\_registry.rs), the composition of the reserve
  (reserve\_composition.rs) and the expected upgrade authority (upgrade\_authority\_guard.rs).
\<close>

section \<open>The legal entity\<close>

record issuer_registry =
  ilr_config :: pubkey
  ilr_legal_entity_hash :: bytes32
  ilr_jurisdiction :: u32
  ilr_registration_number_hash :: bytes32
  ilr_attestor :: pubkey
  ilr_attested_slot :: u64
  ilr_expiry_slot :: u64
  ilr_attested :: bool
  ilr_bump :: u8

text \<open>The arguments by which an entity is registered or updated.\<close>

record entity_details =
  ent_legal_entity_hash :: bytes32
  ent_jurisdiction :: u32
  ent_registration_number_hash :: bytes32
  ent_attestor :: pubkey
  ent_expiry_slot :: u64

definition registry_seeds :: "pubkey \<Rightarrow> seed list" where
  "registry_seeds config = [SeedStr ''issuer_registry'', SeedKey config]"

definition entity_valid :: "u64 \<Rightarrow> entity_details \<Rightarrow> (bool \<times> error) list" where
  "entity_valid slot d =
     [(ent_jurisdiction d \<noteq> 0, Hardening InvalidLegalEntityJurisdiction),
      (ent_legal_entity_hash d \<noteq> 0, Hardening InvalidLegalEntityHash),
      (ent_registration_number_hash d \<noteq> 0, Hardening InvalidLegalEntityHash),
      (ent_attestor d \<noteq> default_key, Hardening InvalidLegalEntityAttestor),
      (ent_expiry_slot d = 0 \<or> ent_expiry_slot d > slot, Late LegalEntityExpired)]"

definition register_legal_entity ::
  "'w runtime \<Rightarrow> pubkey \<Rightarrow> stablecoin_config account \<Rightarrow> issuer_registry option \<Rightarrow> entity_details \<Rightarrow>
     (stablecoin_config \<times> issuer_registry) res" where
  "register_legal_entity rt authority cfg existing d =
     (let c = data_of cfg in
      guarded (owner_accounts rt authority cfg @ [(existing = None, Anchor AccountAlreadyInUse)] @ entity_valid (rt_slot rt) d)
        (Inr (c\<lparr>c_feature_flags := set_flags (c_feature_flags c) FLAG_LEGAL_REGISTRY\<rparr>,
              \<lparr>ilr_config = key_of cfg, ilr_legal_entity_hash = ent_legal_entity_hash d, ilr_jurisdiction = ent_jurisdiction d,
               ilr_registration_number_hash = ent_registration_number_hash d, ilr_attestor = ent_attestor d, ilr_attested_slot = 0,
               ilr_expiry_slot = ent_expiry_slot d, ilr_attested = False,
               ilr_bump = snd (rt_find_pda rt (registry_seeds (key_of cfg)))\<rparr>)))"

definition registry_ok :: "'w runtime \<Rightarrow> stablecoin_config account \<Rightarrow> issuer_registry account \<Rightarrow> (bool \<times> error) list" where
  "registry_ok rt cfg ra =
     [(seeds_ok rt (key_of ra) (registry_seeds (key_of cfg)) (ilr_bump (data_of ra)), Anchor ConstraintSeeds),
      (ilr_config (data_of ra) = key_of cfg, Core Unauthorized)]"

definition attest_legal_entity ::
  "'w runtime \<Rightarrow> pubkey \<Rightarrow> stablecoin_config account \<Rightarrow> issuer_registry account \<Rightarrow> issuer_registry res" where
  "attest_legal_entity rt attestor cfg ra =
     (let r = data_of ra in
      guarded
        (config_ok rt cfg (c_mint (data_of cfg)) @ registry_ok rt cfg ra @
         [(attestor = ilr_attestor r, Core Unauthorized), (\<not> ilr_attested r, Late LegalEntityAlreadyAttested),
          (ilr_expiry_slot r = 0 \<or> rt_slot rt \<le> ilr_expiry_slot r, Late LegalEntityExpired)])
        (Inr (r\<lparr>ilr_attested := True, ilr_attested_slot := rt_slot rt\<rparr>)))"

definition update_legal_entity ::
  "'w runtime \<Rightarrow> pubkey \<Rightarrow> stablecoin_config account \<Rightarrow> issuer_registry account \<Rightarrow> entity_details \<Rightarrow> issuer_registry res" where
  "update_legal_entity rt authority cfg ra d =
     guarded (owner_accounts rt authority cfg @ registry_ok rt cfg ra @ entity_valid (rt_slot rt) d)
       (Inr ((data_of ra)\<lparr>ilr_legal_entity_hash := ent_legal_entity_hash d, ilr_jurisdiction := ent_jurisdiction d,
                          ilr_registration_number_hash := ent_registration_number_hash d, ilr_attestor := ent_attestor d,
                          ilr_expiry_slot := ent_expiry_slot d, ilr_attested := False, ilr_attested_slot := 0\<rparr>))"

section \<open>The composition of the reserve\<close>

record reserve_composition =
  rsc_sss_mint :: pubkey
  rsc_cash_bps :: u16
  rsc_t_bills_bps :: u16
  rsc_crypto_bps :: u16
  rsc_other_bps :: u16
  rsc_last_updated_slot :: u64
  rsc_last_updated_by :: pubkey
  rsc_bump :: u8

record composition_params =
  rcp_cash_bps :: u16
  rcp_t_bills_bps :: u16
  rcp_crypto_bps :: u16
  rcp_other_bps :: u16

definition composition_seeds :: "pubkey \<Rightarrow> seed list" where
  "composition_seeds mint = [SeedStr ''reserve-composition'', SeedKey mint]"

text \<open>\<open>init_if_needed\<close>: a record that is not there yet is handed over zeroed.\<close>

definition zero_composition :: reserve_composition where
  "zero_composition = \<lparr>rsc_sss_mint = 0, rsc_cash_bps = 0, rsc_t_bills_bps = 0, rsc_crypto_bps = 0, rsc_other_bps = 0,
     rsc_last_updated_slot = 0, rsc_last_updated_by = 0, rsc_bump = 0\<rparr>"

definition composition_sum :: "composition_params \<Rightarrow> u32" where
  "composition_sum p =
     saturating_add (saturating_add (saturating_add (ucast (rcp_cash_bps p)) (ucast (rcp_t_bills_bps p))) (ucast (rcp_crypto_bps p)))
       (ucast (rcp_other_bps p))"

definition update_reserve_composition_handler ::
  "'w runtime \<Rightarrow> pubkey \<Rightarrow> stablecoin_config account \<Rightarrow> pubkey \<Rightarrow> reserve_composition option \<Rightarrow> composition_params \<Rightarrow>
     reserve_composition res" where
  "update_reserve_composition_handler rt authority cfg rc_key existing p =
     (let c = data_of cfg; rc0 = (case existing of None \<Rightarrow> zero_composition | Some rc \<Rightarrow> rc);
          found = rt_find_pda rt (composition_seeds (c_mint c)) in
      guarded (owner_accounts rt authority cfg @ [(rc_key = fst found, Anchor ConstraintSeeds)])
        (andthen (squads_gate c authority) (\<lambda>_.
         guarded [(composition_sum p = 10000, Pool InvalidCompositionBps)]
           (let rc1 = (if rsc_bump rc0 = 0 then rc0\<lparr>rsc_bump := snd found, rsc_sss_mint := c_mint c\<rparr> else rc0) in
            Inr (rc1\<lparr>rsc_cash_bps := rcp_cash_bps p, rsc_t_bills_bps := rcp_t_bills_bps p, rsc_crypto_bps := rcp_crypto_bps p,
                     rsc_other_bps := rcp_other_bps p, rsc_last_updated_slot := rt_slot rt, rsc_last_updated_by := authority\<rparr>)))))"

text \<open>What a reader gets: the record, once its address and its mint are checked.\<close>

definition get_reserve_composition_handler ::
  "'w runtime \<Rightarrow> stablecoin_config account \<Rightarrow> reserve_composition account \<Rightarrow> reserve_composition res" where
  "get_reserve_composition_handler rt cfg ra =
     (let c = data_of cfg; rc = data_of ra in
      guarded
        (config_ok rt cfg (c_mint c) @
         [(seeds_ok rt (key_of ra) (composition_seeds (c_mint c)) (rsc_bump rc), Anchor ConstraintSeeds),
          (rsc_sss_mint rc = c_mint c, Core InvalidVault)])
        (Inr rc))"

lemma composition_complete:
  assumes "update_reserve_composition_handler rt authority cfg k existing p = Inr rc"
  shows "unat (rsc_cash_bps rc) + unat (rsc_t_bills_bps rc) + unat (rsc_crypto_bps rc) + unat (rsc_other_bps rc) = 10000"
proof -
  have "unat (composition_sum p) = 10000" and "rsc_cash_bps rc = rcp_cash_bps p" "rsc_t_bills_bps rc = rcp_t_bills_bps p"
    "rsc_crypto_bps rc = rcp_crypto_bps p" "rsc_other_bps rc = rcp_other_bps p"
    using assms by (auto simp: update_reserve_composition_handler_def guarded_Inr run_ok Let_def)
  then show ?thesis
    using u16_bound [of "rcp_cash_bps p"] u16_bound [of "rcp_t_bills_bps p"] u16_bound [of "rcp_crypto_bps p"] u16_bound [of "rcp_other_bps p"]
    by (simp add: composition_sum_def unat_saturating_add)
qed

section \<open>The upgrade authority\<close>

definition set_upgrade_authority_guard_handler ::
  "'w runtime \<Rightarrow> pubkey \<Rightarrow> stablecoin_config account \<Rightarrow> pubkey \<Rightarrow> stablecoin_config res" where
  "set_upgrade_authority_guard_handler rt authority cfg upgrade_authority =
     (let c = data_of cfg in
      guarded
        (owner_accounts rt authority cfg @
         [(flag_set c FLAG_SQUADS_AUTHORITY, Core Unauthorized),
          (upgrade_authority = c_squads_multisig c, Queue UpgradeAuthorityGuardInvalidKey),
          (upgrade_authority \<noteq> default_key, Queue UpgradeAuthorityGuardInvalidKey),
          (c_expected_upgrade_authority c = default_key, Queue UpgradeAuthorityGuardAlreadySet)])
        (Inr (c\<lparr>c_expected_upgrade_authority := upgrade_authority\<rparr>)))"

definition verify_upgrade_authority_handler :: "'w runtime \<Rightarrow> stablecoin_config account \<Rightarrow> pubkey \<Rightarrow> unit res" where
  "verify_upgrade_authority_handler rt cfg current =
     (let c = data_of cfg in
      guarded
        (config_ok rt cfg (c_mint c) @
         [(c_expected_upgrade_authority c \<noteq> default_key, Queue UpgradeAuthorityGuardNotSet),
          (current = c_expected_upgrade_authority c, Queue UpgradeAuthorityMismatch)])
        (Inr ()))"

text \<open>Once set, the guard names the multisig of that moment, and it cannot be set again.\<close>

lemma upgrade_guard_once:
  assumes "set_upgrade_authority_guard_handler rt authority cfg k = Inr c'"
  shows "c_expected_upgrade_authority c' = c_squads_multisig c'" and "c_squads_multisig c' = k" and "k \<noteq> default_key"
    and "c_expected_upgrade_authority (data_of cfg') = k \<Longrightarrow> \<exists>e. set_upgrade_authority_guard_handler rt' authority' cfg' k' = Inl e"
  using assms
  by (auto simp: set_upgrade_authority_guard_handler_def guarded_Inr run_ok Let_def intro!: guarded_fails)

section \<open>An attestation is of what is registered\<close>

datatype 'w registry_event =
    Attest "'w runtime" pubkey "stablecoin_config account"
  | UpdateEntity "'w runtime" pubkey "stablecoin_config account" entity_details

fun registry_exec :: "pubkey \<Rightarrow> 'w registry_event \<Rightarrow> issuer_registry \<Rightarrow> issuer_registry res" where
  "registry_exec k (Attest rt who cfg) r = attest_legal_entity rt who cfg \<lparr>key_of = k, data_of = r\<rparr>"
| "registry_exec k (UpdateEntity rt who cfg d) r = update_legal_entity rt who cfg \<lparr>key_of = k, data_of = r\<rparr> d"

definition entity_of :: "issuer_registry \<Rightarrow> entity_details" where
  "entity_of r = \<lparr>ent_legal_entity_hash = ilr_legal_entity_hash r, ent_jurisdiction = ilr_jurisdiction r,
     ent_registration_number_hash = ilr_registration_number_hash r, ent_attestor = ilr_attestor r, ent_expiry_slot = ilr_expiry_slot r\<rparr>"

text \<open>Who signed which details when.\<close>

fun signings :: "pubkey \<Rightarrow> 'w registry_event list \<Rightarrow> issuer_registry \<Rightarrow> (pubkey \<times> entity_details \<times> u64) list" where
  "signings k [] r = []"
| "signings k (e # es) r =
     (case registry_exec k e r of
        Inl _ \<Rightarrow> signings k es r
      | Inr r' \<Rightarrow> (case e of Attest rt who cfg \<Rightarrow> [(who, entity_of r, rt_slot rt)] | _ \<Rightarrow> []) @ signings k es r')"

definition attested_by :: "issuer_registry \<Rightarrow> (pubkey \<times> entity_details \<times> u64) \<Rightarrow> bool" where
  "attested_by r x \<longleftrightarrow> ilr_attested r \<and> x = (ilr_attestor r, entity_of r, ilr_attested_slot r)"

lemma registry_step:
  assumes "registry_exec k e r = Inr r'" and "attested_by r' x"
  shows "\<exists>rt who cfg. e = Attest rt who cfg \<and> x = (who, entity_of r, rt_slot rt) \<and>
    (ilr_expiry_slot r = 0 \<or> rt_slot rt \<le> ilr_expiry_slot r)"
  using assms
  by (cases e) (auto simp: attest_legal_entity_def update_legal_entity_def guarded_Inr Let_def attested_by_def entity_of_def)

lemma attested_signed: "attested_by (play (registry_exec k) es r) x \<Longrightarrow> x \<in> set (signings k es r) \<or> attested_by r x"
proof (induction es arbitrary: r)
  case (Cons e es)
  show ?case
  proof (cases "registry_exec k e r")
    case (Inr r')
    with Cons.prems Cons.IH [of r'] have "x \<in> set (signings k es r') \<or> attested_by r' x" by simp
    then show ?thesis using registry_step [OF Inr] Inr by fastforce
  qed (use Cons in simp)
qed simp

text \<open>an attested entity was attested as it stands: after any history of attestations and changes, the attestor on record has
  signed, in the slot on record, exactly the details on record; changing any of them takes the attestation back.\<close>

theorem attestation_covers_details:
  assumes "register_legal_entity rt authority cfg existing d = Inr (c', r0)" and "r = play (registry_exec k) es r0" and "ilr_attested r"
  shows "(ilr_attestor r, entity_of r, ilr_attested_slot r) \<in> set (signings k es r0)"
proof -
  have "\<not> ilr_attested r0" using assms(1) by (auto simp: register_legal_entity_def guarded_Inr Let_def)
  moreover have "attested_by (play (registry_exec k) es r0) (ilr_attestor r, entity_of r, ilr_attested_slot r)"
    using assms(2,3) by (simp add: attested_by_def)
  ultimately show ?thesis using attested_signed [of k es r0] by (auto simp: attested_by_def)
qed

definition demo_entity :: "pubkey \<Rightarrow> entity_details" where
  "demo_entity who = \<lparr>ent_legal_entity_hash = 1, ent_jurisdiction = 2, ent_registration_number_hash = 3, ent_attestor = who, ent_expiry_slot = 0\<rparr>"

definition demo_entity_record :: issuer_registry where
  "demo_entity_record = \<lparr>ilr_config = demo_cfg_key, ilr_legal_entity_hash = 1, ilr_jurisdiction = 2, ilr_registration_number_hash = 3,
     ilr_attestor = 70, ilr_attested_slot = 0, ilr_expiry_slot = 0, ilr_attested = False, ilr_bump = 255\<rparr>"

theorem attestation_covers_details_witness:
  "(70, demo_entity 70, 9) \<in> set (signings (ref_pda (registry_seeds demo_cfg_key)) [Attest (ref_runtime 9 0 0) 70 (demo_acct demo_config)] demo_entity_record)"
proof -
  let ?k = "ref_pda (registry_seeds demo_cfg_key)" and ?e = "Attest (ref_runtime 9 0 0) 70 (demo_acct demo_config)"
  have reg: "register_legal_entity (ref_runtime 1 0 0) 7 (demo_acct demo_config) None (demo_entity 70) =
      Inr (demo_config\<lparr>c_feature_flags := FLAG_LEGAL_REGISTRY\<rparr>, demo_entity_record)"
    by (simp add: eval_defs register_legal_entity_def owner_accounts_def config_ok_def entity_valid_def demo_entity_def demo_entity_record_def
        set_flags_def) (simp add: demo_cfg_key_def)
  have run: "registry_exec ?k ?e demo_entity_record = Inr (demo_entity_record\<lparr>ilr_attested := True, ilr_attested_slot := 9\<rparr>)"
    by (simp add: eval_defs attest_legal_entity_def registry_ok_def config_ok_def demo_entity_record_def) (simp add: demo_cfg_key_def)
  have "(ilr_attestor r, entity_of r, ilr_attested_slot r) \<in> set (signings ?k [?e] demo_entity_record)"
    if "r = demo_entity_record\<lparr>ilr_attested := True, ilr_attested_slot := 9\<rparr>" for r
    by (rule attestation_covers_details [OF reg]) (use that run in simp_all)
  from this [OF refl] show ?thesis by (simp add: demo_entity_record_def demo_entity_def entity_of_def)
qed

end
