(* ===== verification/Upgrade.thy ===== *)
theory Upgrade
  imports AuthGate Bytes
begin

text \<open>
  The upgrade path: an account of an earlier layout is grown to the present size and marked with the present version,
  byte by byte (programs/sss-token/src/instructions/upgrade.rs).
\<close>

definition DISC_LEN :: nat where "DISC_LEN = 8"
definition OFFSET_AUTHORITY :: nat where "OFFSET_AUTHORITY = DISC_LEN + 32"
definition OFFSET_VERSION :: nat where "OFFSET_VERSION = 513"
definition V0_MIN_READ :: nat where "V0_MIN_READ = DISC_LEN + 32 + 32"

text \<open>\<open>DISC_LEN + StablecoinConfig::INIT_SPACE\<close>: the fields, with room for eight keepers.\<close>

definition CONFIG_SPACE :: nat where "CONFIG_SPACE = 889"

text \<open>
  The missing rent is moved from the authority's wallet by writing both balances; \<open>settle\<close> is what the runtime makes of
  that (it lets a program lower only the balances of its own accounts).
\<close>

definition fund_rent :: "(lamports \<Rightarrow> lamports \<Rightarrow> nat + lamports) \<Rightarrow> u64 \<Rightarrow> pubkey \<Rightarrow> pubkey \<Rightarrow> lamports \<Rightarrow> lamports res" where
  "fund_rent settle needed authority config lam =
     (if lam config < needed then
        (let diff = needed - lam config in
         andthen (ok_or (checked_sub (lam authority) diff) Panic) (\<lambda>a.
         let lam1 = lam(authority := a) in
         andthen (ok_or (checked_add (lam1 config) diff) Panic) (\<lambda>b.
         token_result (settle lam (lam1(config := b))))))
      else Inr lam)"

definition stored_version :: "u8 list \<Rightarrow> u8" where
  "stored_version bs = (if length bs \<le> OFFSET_VERSION then 0 else bs ! OFFSET_VERSION)"

definition migrate_config_handler ::
  "'w runtime \<Rightarrow> (lamports \<Rightarrow> lamports \<Rightarrow> nat + lamports) \<Rightarrow> u64 \<Rightarrow> lamports \<Rightarrow> pubkey \<Rightarrow> pubkey \<Rightarrow> pubkey \<Rightarrow> u8 list \<Rightarrow>
     (u8 list \<times> lamports) res" where
  "migrate_config_handler rt settle needed lam authority mint config bs =
     guarded
       [(config = fst (rt_find_pda rt (config_seeds mint)), Core Unauthorized),
        (V0_MIN_READ \<le> length bs, Core Unauthorized), (slice 0 8 bs = config_discriminator, Core Unauthorized),
        (key_at OFFSET_AUTHORITY bs = authority, Core Unauthorized)]
       (if stored_version bs \<ge> CURRENT_VERSION then Inr (bs, lam)
        else
          andthen
            (if CONFIG_SPACE \<le> length bs then
               andthen (ok_or (config_from bs) (Anchor AccountDidNotDeserialize)) (\<lambda>c. squads_gate c authority)
             else Inr ()) (\<lambda>_.
          andthen (if length bs < CONFIG_SPACE then fund_rent settle needed authority config lam else Inr lam) (\<lambda>lam'.
          Inr ((bs @ replicate (CONFIG_SPACE - length bs) 0)[OFFSET_VERSION := CURRENT_VERSION], lam'))))"

lemmas upgrade_defs = DISC_LEN_def OFFSET_AUTHORITY_def OFFSET_VERSION_def V0_MIN_READ_def CONFIG_SPACE_def CURRENT_VERSION_def

section \<open>Migration changes the version and nothing else\<close>

lemma version_byte: "(config_bytes c @ pad)[513 := v] = config_bytes (c\<lparr>c_version := v\<rparr>) @ pad"
proof -
  define pre where "pre = config_discriminator @ config_part1 c @ u64_bytes (c_feature_flags c) @ u64_bytes (c_max_transfer_amount c) @
     key_bytes (c_expected_pyth_feed c) @ u64_bytes (c_admin_op_mature_slot c) @ [c_admin_op_kind c] @
     u64_bytes (c_admin_op_param c) @ key_bytes (c_admin_op_target c) @ u64_bytes (c_admin_timelock_delay c) @
     u32_bytes (c_max_oracle_age_secs c) @ u16_bytes (c_max_oracle_conf_bps c) @ u16_bytes (c_stability_fee_bps c) @
     u16_bytes (c_redemption_fee_bps c) @ key_bytes (c_insurance_fund_pubkey c) @ u16_bytes (c_max_backstop_bps c) @
     key_bytes (c_auditor_elgamal_pubkey c) @ [c_oracle_type c] @ key_bytes (c_oracle_feed c) @ [bool_byte (c_supply_cap_locked c)]"
  define post where "post = u16_bytes (c_min_reserve_ratio_bps c) @ u64_bytes (c_travel_rule_threshold c) @
     key_bytes (c_sanctions_oracle c) @ u64_bytes (c_sanctions_max_staleness_slots c) @ config_part3 c"
  have len: "length pre = 513" by (simp add: pre_def)
  have "config_bytes (c\<lparr>c_version := v\<rparr>) = pre @ v # post" for v
    by (simp add: config_bytes_def config_part1_def config_part2_def config_part3_def pre_def post_def)
  from this [of v] this [of "c_version c"] len show ?thesis by (simp add: list_update_append)
qed

lemma slice_append: "off + n \<le> length bs \<Longrightarrow> slice off n (bs @ pad) = slice off n bs"
  by (simp add: slice_def)

lemma at_append:
  "off + 8 \<le> length bs \<Longrightarrow> u64_at off (bs @ pad) = u64_at off bs"
  "off + 4 \<le> length bs \<Longrightarrow> u32_at off (bs @ pad) = u32_at off bs"
  "off + 2 \<le> length bs \<Longrightarrow> u16_at off (bs @ pad) = u16_at off bs"
  "off + 32 \<le> length bs \<Longrightarrow> key_at off (bs @ pad) = key_at off bs"
  "off < length bs \<Longrightarrow> bool_at off (bs @ pad) = bool_at off bs"
  by (simp_all add: u64_at_def u32_at_def u16_at_def key_at_def bool_at_def slice_append nth_append)

text \<open>What follows the stored fields does not matter to the reader.\<close>

lemma config_from_append:
  assumes "config_from bs = Some c"
  shows "config_from (bs @ pad) = Some c"
proof -
  let ?n = "le_nat (slice 564 4 bs)"
  have len: "568 \<le> length bs" "633 + 32 * ?n \<le> length bs" using assms by (auto simp: config_from_def Let_def split: if_splits)
  have n: "le_nat (slice 564 4 (bs @ pad)) = ?n" using len(1) by (simp add: slice_append)
  have keepers: "map (\<lambda>i. key_at (568 + 32 * i) (bs @ pad)) [0..<?n] = map (\<lambda>i. key_at (568 + 32 * i) bs) [0..<?n]"
    using len by (auto intro!: at_append(4))
  show ?thesis
    using assms len unfolding config_from_def Let_def n keepers
    by (simp add: at_append slice_append nth_append split: if_splits)
qed

lemma version_read: "stored_version (config_bytes c @ pad) = c_version c"
  using config_bytes_fields(6) [of c] by (simp add: stored_version_def OFFSET_VERSION_def nth_append config_part2_at(17))

lemma migrated_bytes:
  assumes "migrate_config_handler rt settle needed lam authority mint config bs = Inr (bs', lam')"
  shows "if stored_version bs \<ge> CURRENT_VERSION then bs' = bs \<and> lam' = lam
    else bs' = (bs @ replicate (CONFIG_SPACE - length bs) 0)[OFFSET_VERSION := CURRENT_VERSION]"
    and "key_at OFFSET_AUTHORITY bs = authority" and "config = fst (rt_find_pda rt (config_seeds mint))"
    and "\<not> stored_version bs \<ge> CURRENT_VERSION \<Longrightarrow> CONFIG_SPACE \<le> length bs \<Longrightarrow> config_from bs = Some c \<Longrightarrow> squads_gate c authority = Inr ()"
  using assms by (auto simp: migrate_config_handler_def guarded_Inr run_ok split: if_splits)

text \<open>C27: migrating a stored configuration asks for its authority (and for the multisig, once the account is large enough to name one),
  raises version 0 to 1 and changes no other field; an account of a present version stays as it is, byte for byte, so that
  migrating twice is migrating once.\<close>

theorem migration_keeps_config:
  assumes run: "migrate_config_handler rt settle needed lam authority mint config (config_bytes c @ pad) = Inr (bs', lam')"
    and keepers: "length (c_authorized_keepers c) < 2 ^ 32"
  shows "config_from bs' = Some (c\<lparr>c_version := (if c_version c = 0 then 1 else c_version c)\<rparr>) \<and> authority = c_authority c \<and>
    (c_version c \<noteq> 0 \<longrightarrow> bs' = config_bytes c @ pad \<and> lam' = lam) \<and>
    (c_version c = 0 \<and> 889 \<le> length (config_bytes c @ pad) \<and> flag_set c FLAG_SQUADS_AUTHORITY \<longrightarrow> authority = c_squads_multisig c) \<and>
    migrate_config_handler rt settle needed lam' authority mint config bs' = Inr (bs', lam')"
proof -
  let ?bs = "config_bytes c @ pad" and ?v = "if c_version c = 0 then 1 else c_version c"
  have old: "stored_version ?bs \<ge> CURRENT_VERSION \<longleftrightarrow> c_version c \<noteq> 0"
    unfolding version_read by (simp add: CURRENT_VERSION_def word_le_nat_alt word_zero_unat Suc_le_eq)
  have read: "config_from ?bs = Some c" by (rule config_from_append [OF config_from_bytes [OF keepers]])
  have auth: "authority = c_authority c"
    using migrated_bytes(2) [OF run] config_bytes_fields(6) [of c] by (simp add: upgrade_defs at_append config_part1_at)
  obtain pad' where bs': "bs' = config_bytes (c\<lparr>c_version := ?v\<rparr>) @ pad'"
  proof (cases "c_version c = 0")
    case True
    then have "bs' = (config_bytes c @ (pad @ replicate (889 - length ?bs) 0))[513 := 1]"
      using migrated_bytes(1) [OF run] old by (simp add: upgrade_defs)
    then show thesis using that True by (simp add: version_byte)
  next
    case False
    then show thesis using migrated_bytes(1) [OF run] old that [of pad] by simp
  qed
  have new: "config_from bs' = Some (c\<lparr>c_version := ?v\<rparr>)"
    unfolding bs' by (rule config_from_append [OF config_from_bytes]) (use keepers in simp)
  have "stored_version bs' \<ge> CURRENT_VERSION"
    unfolding bs' version_read by (simp add: CURRENT_VERSION_def word_le_nat_alt word_zero_unat)
  moreover have "key_at OFFSET_AUTHORITY bs' = authority" "slice 0 8 bs' = config_discriminator" "72 \<le> length bs'"
    unfolding bs' using config_bytes_fields(5,6) [of "c\<lparr>c_version := ?v\<rparr>"] auth
    by (simp_all add: upgrade_defs at_append slice_append config_part1_at)
  ultimately have again: "migrate_config_handler rt settle needed lam' authority mint config bs' = Inr (bs', lam')"
    using migrated_bytes(3) [OF run] by (simp add: migrate_config_handler_def upgrade_defs)
  show ?thesis
    using new auth again migrated_bytes(1) [OF run] migrated_bytes(4) [OF run _ _ read] old
    by (auto simp: CONFIG_SPACE_def run_ok)
qed

text \<open>an account of an earlier, shorter layout cannot be migrated unless it holds the rent of the larger one already: the program
  takes the difference from the authority's wallet, which is not its own to lower, and the runtime refuses the transaction.\<close>

theorem short_account_stays:
  assumes law: "\<And>lam lam'. lam' authority < lam authority \<Longrightarrow> \<exists>e. settle lam lam' = Inl e"
    and short: "length bs < 889" "stored_version bs = 0" and poor: "lam config < needed" and apart: "authority \<noteq> config"
  shows "\<exists>e. migrate_config_handler rt settle needed lam authority mint config bs = Inl e"
proof (cases "migrate_config_handler rt settle needed lam authority mint config bs")
  case (Inr r)
  obtain bs' lam' where "r = (bs', lam')" by force
  with Inr short have "fund_rent settle needed authority config lam = Inr lam'"
    by (auto simp: migrate_config_handler_def guarded_Inr run_ok upgrade_defs word_le_nat_alt split: if_splits)
  with poor obtain a b where a: "unat (lam authority) = unat (needed - lam config) + unat a"
    and settled: "settle lam (lam(authority := a, config := b)) = Inr lam'"
    by (auto simp: fund_rent_def Let_def run_ok arith_ok)
  have "0 < unat (needed - lam config)" using poor by (simp add: unat_gt_0)
  with a have "a < lam authority" by (simp add: word_less_nat_alt)
  with law [of "lam(authority := a, config := b)" lam] settled apart show ?thesis by auto
qed blast

section \<open>Examples\<close>

lemma length_config_bytes: "length (config_bytes c) = 633 + 32 * length (c_authorized_keepers c)"
  by (simp add: config_bytes_def config_part3_def key_list_bytes_def)

definition demo_runtime_settles :: "lamports \<Rightarrow> lamports \<Rightarrow> nat + lamports" where
  "demo_runtime_settles lam lam' = (if lam' 7 < lam 7 then Inl 1 else Inr lam')"

definition demo_old :: stablecoin_config where "demo_old = demo_config\<lparr>c_version := 0\<rparr>"

lemma demo_old_read:
  "length (config_bytes demo_old) = 633" "stored_version (config_bytes demo_old) = 0" "key_at 40 (config_bytes demo_old) = 7"
  "slice 0 8 (config_bytes demo_old) = config_discriminator"
  using version_read [of demo_old "[]"]
  by (simp_all add: length_config_bytes config_bytes_fields config_part1_at) (simp_all add: demo_old_def demo_config_def)

theorem migration_keeps_config_witness:
  "\<exists>bs'. migrate_config_handler (ref_runtime 1 0 0) demo_runtime_settles 100 (\<lambda>_. 500) 7 5 demo_cfg_key (config_bytes demo_old) = Inr (bs', \<lambda>_. 500) \<and>
     config_from bs' = Some demo_config"
proof -
  let ?bs = "(config_bytes demo_old @ replicate 256 0)[513 := 1]"
  have run: "migrate_config_handler (ref_runtime 1 0 0) demo_runtime_settles 100 (\<lambda>_. 500) 7 5 demo_cfg_key (config_bytes demo_old) = Inr (?bs, \<lambda>_. 500)"
    by (simp add: migrate_config_handler_def demo_old_read upgrade_defs fund_rent_def word_le_nat_alt word_less_nat_alt) (simp add: demo_cfg_key_def)
  have "length (c_authorized_keepers demo_old) < 2 ^ 32" by (simp add: demo_old_def demo_config_def)
  from migration_keeps_config [where pad = "[]", simplified, OF run this [simplified], THEN conjunct1]
  have "config_from ?bs = Some demo_config" by (simp add: demo_old_def demo_config_def)
  with run show ?thesis by blast
qed

theorem short_account_stays_witness:
  "\<exists>e. migrate_config_handler (ref_runtime 1 0 0) demo_runtime_settles 700 (\<lambda>_. 500) 7 5 demo_cfg_key (config_bytes demo_old) = Inl e"
  by (rule short_account_stays) (simp_all add: demo_runtime_settles_def demo_old_read demo_cfg_key_def config_seeds_def ref_pda_def word_less_nat_alt)

end
