(* ===== verification/RateWindow.thy ===== *)
theory RateWindow
  imports Machine
begin

text \<open>
  The contract of a counter that limits how much may pass within one window of time (an epoch,
  a slot): the counter remembers the window it counts in, starts over when the window changes,
  and admits an amount only if the count stays within the limit in force. Several components
  keep such a counter; the consequence for a whole run is proved here once.
\<close>

locale rate_window =
  fixes admit :: "'t::linorder \<Rightarrow> nat \<Rightarrow> nat \<Rightarrow> 'r \<Rightarrow> 'r \<Rightarrow> bool"
    and window :: "'r \<Rightarrow> 't"
    and used :: "'r \<Rightarrow> nat"
  assumes admit_window: "admit t n l r r' \<Longrightarrow> window r' = t"
    and admit_used: "admit t n l r r' \<Longrightarrow> used r' = (if window r = t then used r else 0) + n"
    and admit_bound: "admit t n l r r' \<Longrightarrow> used r' \<le> l"
begin

text \<open>A run admits a list of events: when, how much, under which limit.\<close>

inductive admits :: "('t \<times> nat \<times> nat) list \<Rightarrow> 'r \<Rightarrow> 'r \<Rightarrow> bool" where
  admits_Nil: "admits [] r r"
| admits_Cons: "admit t n l r r' \<Longrightarrow> admits es r' r'' \<Longrightarrow> admits ((t, n, l) # es) r r''"

inductive_simps admits_Nil_iff [simp]: "admits [] r r'"
inductive_cases admits_ConsE: "admits (e # es) r r'"

lemma admits_append: "admits (xs @ ys) r r'' \<Longrightarrow> \<exists>r'. admits xs r r' \<and> admits ys r' r''"
proof (induction xs arbitrary: r)
  case Nil
  then show ?case by (auto intro: admits_Nil)
next
  case (Cons e xs)
  then show ?case by (fastforce elim: admits_ConsE intro: admits_Cons)
qed

text \<open>Within one window the counter adds up.\<close>

lemma admits_same_window:
  assumes "admits es r r'" and "\<forall>e \<in> set es. fst e = t" and "es \<noteq> []"
  shows "used r' = (if window r = t then used r else 0) + sum_list (map (fst \<circ> snd) es)"
  using assms
proof (induction rule: admits.induct)
  case (admits_Nil r)
  then show ?case by simp
next
  case (admits_Cons s n l r r' es r'')
  show ?case
  proof (cases es)
    case Nil
    with admits_Cons show ?thesis by (simp add: admit_used)
  next
    case (Cons e es')
    with admits_Cons show ?thesis by (simp add: admit_used admit_window)
  qed
qed

lemma admits_last_bound:
  assumes "admits es r r'" and "es \<noteq> []" and "\<forall>(t, n, l) \<in> set es. l \<le> L"
  shows "used r' \<le> L"
  using assms
proof (induction rule: admits.induct)
  case (admits_Cons s n l r r' es r'')
  then show ?case by (cases es) (fastforce dest: admit_bound)+
qed simp

text \<open>
  What passes in any one window of a run whose events come in the order of time is at most the
  largest limit in force in that window.
\<close>

lemma window_total:
  assumes run: "admits es r r'" and ord: "sorted (map fst es)"
    and lim: "\<forall>(t', n, l) \<in> set es. t' = t \<longrightarrow> l \<le> L"
  shows "sum_list (map (fst \<circ> snd) (filter (\<lambda>e. fst e = t) es)) \<le> L"
proof -
  let ?mid = "filter (\<lambda>e. fst e = t) es"
  obtain lo hi where split: "es = lo @ ?mid @ hi"
    using sorted_key_split [OF ord] by blast
  show ?thesis
  proof (cases "?mid = []")
    case False
    from run split have "admits (lo @ ?mid @ hi) r r'" by simp
    then obtain r1 where "admits (?mid @ hi) r1 r'" using admits_append by blast
    then obtain r2 where mid: "admits ?mid r1 r2" using admits_append by blast
    from lim have "\<forall>(t', n, l) \<in> set ?mid. l \<le> L" by auto
    with mid False have "used r2 \<le> L" by (rule admits_last_bound)
    moreover have "used r2 = (if window r1 = t then used r1 else 0) + sum_list (map (fst \<circ> snd) ?mid)"
      by (rule admits_same_window [OF mid _ False]) simp
    ultimately show ?thesis by simp
  qed simp
qed

end

text \<open>
  A machine that keeps such a counter in its state: some of its events are admitted by the counter, the others
  leave it alone. \<open>passed\<close> is what a history lets through: when, how much, under which limit.
\<close>

fun passed :: "('e \<Rightarrow> 's \<Rightarrow> 'x + 's) \<Rightarrow> ('e \<Rightarrow> 's \<Rightarrow> ('t \<times> nat \<times> nat) option) \<Rightarrow> 'e list \<Rightarrow> 's \<Rightarrow> ('t \<times> nat \<times> nat) list" where
  "passed exec charge [] s = []"
| "passed exec charge (e # es) s =
     (case exec e s of
        Inl _ \<Rightarrow> passed exec charge es s
      | Inr s' \<Rightarrow> (case charge e s of None \<Rightarrow> [] | Some c \<Rightarrow> [c]) @ passed exec charge es s')"

locale window_machine = rate_window admit window used
  for admit :: "'t::linorder \<Rightarrow> nat \<Rightarrow> nat \<Rightarrow> 'r \<Rightarrow> 'r \<Rightarrow> bool" and window and used +
  fixes exec :: "'e \<Rightarrow> 's \<Rightarrow> 'x + 's"
    and charge :: "'e \<Rightarrow> 's \<Rightarrow> ('t \<times> nat \<times> nat) option"
    and counter :: "'s \<Rightarrow> 'r"
    and time :: "'e \<Rightarrow> 't"
  assumes charged: "exec e s = Inr s' \<Longrightarrow> charge e s = Some (t, n, l) \<Longrightarrow> admit t n l (counter s) (counter s') \<and> t = time e"
    and uncharged: "exec e s = Inr s' \<Longrightarrow> charge e s = None \<Longrightarrow> counter s' = counter s"
begin

lemma passed_admits: "admits (passed exec charge es s) (counter s) (counter (play exec es s))"
proof (induction es arbitrary: s)
  case (Cons e es)
  show ?case
  proof (cases "exec e s")
    case (Inr s')
    then show ?thesis
      using Cons.IH [of s'] charged [OF Inr] uncharged [OF Inr]
      by (cases "charge e s") (auto intro: admits_Cons)
  qed (use Cons in simp)
qed simp

lemma passed_times: "t \<in> fst ` set (passed exec charge es s) \<Longrightarrow> t \<in> time ` set es"
proof (induction es arbitrary: s)
  case (Cons e es)
  show ?case
  proof (cases "exec e s")
    case (Inr s')
    with Cons.prems have "t \<in> fst ` set (passed exec charge es s') \<or> (\<exists>n l. charge e s = Some (t, n, l))"
      by (cases "charge e s") auto
    with Cons.IH [of s'] charged [OF Inr] show ?thesis by auto
  qed (use Cons in simp)
qed simp

lemma passed_sorted: "sorted (map time es) \<Longrightarrow> sorted (map fst (passed exec charge es s))"
proof (induction es arbitrary: s)
  case (Cons e es)
  show ?case
  proof (cases "exec e s")
    case (Inr s')
    have "sorted (map fst (passed exec charge es s'))" using Cons by simp
    moreover have "\<forall>t \<in> fst ` set (passed exec charge es s'). time e \<le> t"
      using passed_times [of _ es s'] Cons.prems by fastforce
    ultimately show ?thesis using charged [OF Inr] Inr by (cases "charge e s") auto
  qed (use Cons in simp)
qed simp

text \<open>What passes in one window of a history in the order of time is at most the largest limit in force.\<close>

lemma passed_within:
  assumes "sorted (map time es)" and "\<forall>(t', n, l) \<in> set (passed exec charge es s). t' = t \<longrightarrow> l \<le> L"
  shows "sum_list (map (fst \<circ> snd) (filter (\<lambda>e. fst e = t) (passed exec charge es s))) \<le> L"
  using passed_admits passed_sorted [OF assms(1)] assms(2) by (rule window_total)

end

end
