(* ===== verification/Minting.thy ===== *)
theory Minting
  imports AuthGate RateWindow Demo
begin

text \<open>
  Issuing and destroying supply: the instructions \<open>mint\<close>, \<open>burn\<close> and their CPI entry points
  \<open>cpi_mint\<close>, \<open>cpi_burn\<close>, the records they consult (\<open>MinterInfo\<close>, \<open>ProofOfReserves\<close>,
  \<open>InterfaceVersion\<close>) and the instructions that maintain those records
  (programs/sss-token/src/instructions/{mint,burn,cpi\_mint,cpi\_burn,update\_minter,
  revoke\_minter,psm\_fee,proof\_of\_reserves,interface\_version}.rs).
\<close>

section \<open>Proof of reserves and interface version\<close>

record proof_of_reserves =
  por_mint :: pubkey
  por_last_attestation_slot :: u64
  por_last_verified_ratio_bps :: u64
  por_attester :: pubkey
  por_bump :: u8

record interface_version =
  iv_mint :: pubkey
  iv_version :: u8
  iv_active :: bool
  iv_namespace :: bytes32
  iv_bump :: u8

definition por_seeds :: "pubkey \<Rightarrow> seed list" where
  "por_seeds mint = [SeedStr ''proof-of-reserves'', SeedKey mint]"

definition interface_seeds :: "pubkey \<Rightarrow> seed list" where
  "interface_seeds mint = [SeedStr ''interface-version'', SeedKey mint]"

definition init_proof_of_reserves_handler ::
  "'w runtime \<Rightarrow> admin_ctx \<Rightarrow> proof_of_reserves option \<Rightarrow> pubkey \<Rightarrow> proof_of_reserves res" where
  "init_proof_of_reserves_handler rt ctx existing attester =
     guarded
       [(existing = None, Anchor AccountAlreadyInUse),
        (seeds_ok rt (key_of (ac_config ctx)) (config_seeds (ac_mint ctx)) (c_bump (ac_cfg ctx)),
           (Anchor ConstraintSeeds)),
        (c_authority (ac_cfg ctx) = ac_authority ctx, Core Unauthorized)]
       (Inr \<lparr>por_mint = ac_mint ctx, por_last_attestation_slot = 0, por_last_verified_ratio_bps = 0,
             por_attester = attester, por_bump = snd (rt_find_pda rt (por_seeds (ac_mint ctx)))\<rparr>)"

definition attest_proof_of_reserves_handler ::
  "'w runtime \<Rightarrow> pubkey \<Rightarrow> pubkey \<Rightarrow> proof_of_reserves account \<Rightarrow> u64 \<Rightarrow> proof_of_reserves res" where
  "attest_proof_of_reserves_handler rt attester mint por_acct verified_ratio_bps =
     (let por = data_of por_acct in
      guarded
        [(seeds_ok rt (key_of por_acct) (por_seeds mint) (por_bump por), Anchor ConstraintSeeds),
         (por_attester por = attester, Core Unauthorized)]
        (Inr (por\<lparr>por_last_attestation_slot := rt_slot rt,
                  por_last_verified_ratio_bps := verified_ratio_bps\<rparr>)))"

definition INTERFACE_CURRENT_VERSION :: u8 where "INTERFACE_CURRENT_VERSION = 1"

text \<open>The 18 bytes of \<open>sss_mint_interface\<close>, zero-padded to 32, read as a big-endian number.\<close>

definition INTERFACE_NAMESPACE :: bytes32 where
  "INTERFACE_NAMESPACE = 0x7373735f6d696e745f696e746572666163650000000000000000000000000000"

definition init_interface_version_handler ::
  "'w runtime \<Rightarrow> admin_ctx \<Rightarrow> interface_version option \<Rightarrow> interface_version res" where
  "init_interface_version_handler rt ctx existing =
     guarded ((existing = None, Anchor AccountAlreadyInUse) #
        [(seeds_ok rt (key_of (ac_config ctx)) (config_seeds (ac_mint ctx)) (c_bump (ac_cfg ctx)),
            (Anchor ConstraintSeeds)),
         (c_authority (ac_cfg ctx) = ac_authority ctx, Core Unauthorized),
         (ac_mint ctx = c_mint (ac_cfg ctx), Anchor ConstraintAddress)])
       (andthen (squads_gate (ac_cfg ctx) (ac_authority ctx)) (\<lambda>_.
        Inr \<lparr>iv_mint = ac_mint ctx, iv_version = INTERFACE_CURRENT_VERSION, iv_active = True,
             iv_namespace = INTERFACE_NAMESPACE,
             iv_bump = snd (rt_find_pda rt (interface_seeds (ac_mint ctx)))\<rparr>))"

definition update_interface_version_handler ::
  "'w runtime \<Rightarrow> pubkey \<Rightarrow> stablecoin_config account \<Rightarrow> interface_version account \<Rightarrow>
     u8 option \<Rightarrow> bool option \<Rightarrow> interface_version res" where
  "update_interface_version_handler rt authority cfg iv_acct new_version active =
     (let c = data_of cfg; iv = data_of iv_acct in
      guarded
        [(seeds_ok rt (key_of cfg) (config_seeds (iv_mint iv)) (c_bump c), Anchor ConstraintSeeds),
         (c_authority c = authority, Core Unauthorized),
         (seeds_ok rt (key_of iv_acct) (interface_seeds (iv_mint iv)) (iv_bump iv), Anchor ConstraintSeeds)]
        (andthen (squads_gate c authority) (\<lambda>_.
         andthen (case new_version of
                    None \<Rightarrow> Inr iv
                  | Some v \<Rightarrow> guarded [(iv_version iv \<le> v, Late InvalidInterfaceVersion)]
                               (Inr (iv\<lparr>iv_version := v\<rparr>))) (\<lambda>iv1.
         Inr (case active of None \<Rightarrow> iv1 | Some a \<Rightarrow> iv1\<lparr>iv_active := a\<rparr>)))))"

section \<open>The checks in front of a mint\<close>

text \<open>
  \<open>remaining\<close> are the extra accounts of the call: the address and what the data deserialises to
  as a \<open>ProofOfReserves\<close>.
\<close>

type_synonym remaining = "(pubkey \<times> proof_of_reserves option) list"

definition por_gate :: "'w runtime \<Rightarrow> stablecoin_config \<Rightarrow> remaining \<Rightarrow> unit res" where
  "por_gate rt c remaining =
     (if flag_set c FLAG_POR_HALT_ON_BREACH then
        (case remaining of
           [] \<Rightarrow> Inl (Hardening PoRNotAttested)
         | (k, d) # _ \<Rightarrow>
             guarded [(k = fst (rt_find_pda rt (por_seeds (c_mint c))), Core InvalidVault)]
               (andthen (ok_or d (Anchor AccountDidNotDeserialize)) (\<lambda>por.
                let min_ratio = ucast (c_min_reserve_ratio_bps c) :: u64 in
                guarded
                  [(por_last_attestation_slot por > 0, Hardening PoRNotAttested),
                   (\<not> (min_ratio > 0 \<and> por_last_verified_ratio_bps por < min_ratio),
                      (Hardening PoRBreachHaltsMinting))]
                  (Inr ()))))
      else Inr ())"

text \<open>The epoch counter starts over when the epoch changed (or when it never ran).\<close>

definition roll_epoch :: "u64 \<Rightarrow> minter_info \<Rightarrow> minter_info" where
  "roll_epoch epoch mi =
     (if mi_last_epoch_reset mi = 0 \<or> epoch \<noteq> mi_last_epoch_reset mi
      then mi\<lparr>mi_minted_this_epoch := 0, mi_last_epoch_reset := epoch\<rparr> else mi)"

text \<open>
  A limit of zero means none; otherwise the new total must not overflow and must stay within it.
\<close>

definition within_limit :: "u64 \<Rightarrow> u64 \<Rightarrow> u64 \<Rightarrow> error \<Rightarrow> unit res" where
  "within_limit limit used amount e =
     (if limit > 0 then
        andthen (ok_or (checked_add used amount) (Late Overflow)) (\<lambda>s. guarded [(s \<le> limit, e)] (Inr ()))
      else Inr ())"

text \<open>
  The body that \<open>mint::handler\<close> and \<open>cpi_mint_handler\<close> share: the guards, the three limits, the
  call to the token program signed by the configuration's address, and the counters.
\<close>

definition mint_body ::
  "'w runtime \<Rightarrow> 'w \<Rightarrow> pubkey list \<Rightarrow> stablecoin_config account \<Rightarrow> pubkey \<Rightarrow> minter_info \<Rightarrow>
     pubkey \<Rightarrow> remaining \<Rightarrow> u64 \<Rightarrow> (stablecoin_config \<times> minter_info \<times> 'w) res" where
  "mint_body rt w signers cfg mint mi recipient remaining amount =
     (let c = data_of cfg in
      guarded
        [(MIN_SUPPORTED_VERSION \<le> c_version c, Queue ConfigVersionTooOld),
         (amount > 0, Core ZeroAmount),
         (\<not> c_paused c, Core MintPaused),
         (\<not> flag_set c FLAG_CIRCUIT_BREAKER, Cdp CircuitBreakerActive)]
        (andthen (por_gate rt c remaining) (\<lambda>_.
         let mi1 = roll_epoch (rt_epoch rt) mi in
         andthen (within_limit (mi_max_mint_per_epoch mi1) (mi_minted_this_epoch mi1) amount
                    (Admin MintVelocityExceeded)) (\<lambda>_.
         andthen (within_limit (mi_cap mi1) (mi_minted mi1) amount (Core MinterCapExceeded)) (\<lambda>_.
         andthen (within_limit (c_max_supply c) (net_supply c) amount (Core MaxSupplyExceeded)) (\<lambda>_.
         andthen (cpi_signed rt w signers (config_seeds mint) (c_bump c)
                    (MintTo mint recipient (key_of cfg) amount)) (\<lambda>w'.
         andthen (ok_or (checked_add (c_total_minted c) amount) (Late Overflow)) (\<lambda>tm.
         andthen (ok_or (checked_add (mi_minted mi1) amount) (Late Overflow)) (\<lambda>m.
         andthen (ok_or (checked_add (mi_minted_this_epoch mi1) amount) (Late Overflow)) (\<lambda>e.
         Inr (c\<lparr>c_total_minted := tm\<rparr>,
              mi1\<lparr>mi_minted := m, mi_minted_this_epoch := e\<rparr>, w')))))))))))"

section \<open>The instructions mint and burn\<close>

record mint_ctx =
  mt_minter :: pubkey
  mt_config :: "stablecoin_config account"
  mt_mint :: pubkey
  mt_minter_info :: "minter_info account"
  mt_token_account :: pubkey
  mt_remaining :: remaining

definition minter_ok ::
  "'w runtime \<Rightarrow> stablecoin_config account \<Rightarrow> pubkey \<Rightarrow> minter_info account \<Rightarrow> (bool \<times> error) list" where
  "minter_ok rt cfg minter mi_acct =
     [(seeds_ok rt (key_of mi_acct) (minter_seeds (key_of cfg) minter) (mi_bump (data_of mi_acct)),
         (Anchor ConstraintSeeds)),
      (mi_config (data_of mi_acct) = key_of cfg, Core NotAMinter),
      (mi_minter (data_of mi_acct) = minter, Core NotAMinter)]"

definition mint_handler ::
  "'w runtime \<Rightarrow> 'w \<Rightarrow> mint_ctx \<Rightarrow> u64 \<Rightarrow> (stablecoin_config \<times> minter_info \<times> 'w) res" where
  "mint_handler rt w ctx amount =
     (let cfg = mt_config ctx; mint = mt_mint ctx in
      andthen (load_token rt w (mt_token_account ctx)) (\<lambda>recipient.
      guarded
        (config_ok rt cfg mint @ [(mint = c_mint (data_of cfg), Anchor ConstraintRaw)] @
         minter_ok rt cfg (mt_minter ctx) (mt_minter_info ctx) @
         [(ta_mint recipient = mint, Compliance InvalidMint)])
        (mint_body rt w [mt_minter ctx] cfg mint (data_of (mt_minter_info ctx))
           (mt_token_account ctx) (mt_remaining ctx) amount)))"

definition cpi_mint_handler ::
  "'w runtime \<Rightarrow> 'w \<Rightarrow> mint_ctx \<Rightarrow> interface_version account \<Rightarrow> u64 \<Rightarrow> u8 \<Rightarrow>
     (stablecoin_config \<times> minter_info \<times> 'w) res" where
  "cpi_mint_handler rt w ctx iv_acct amount required_version =
     (let cfg = mt_config ctx; mint = mt_mint ctx; iv = data_of iv_acct in
      andthen (load_token rt w (mt_token_account ctx)) (\<lambda>recipient.
      guarded
        (config_ok rt cfg mint @ minter_ok rt cfg (mt_minter ctx) (mt_minter_info ctx) @
         [(mint = c_mint (data_of cfg), Anchor ConstraintRaw), (ta_mint recipient = mint, Compliance InvalidMint),
          (seeds_ok rt (key_of iv_acct) (interface_seeds mint) (iv_bump iv), Anchor ConstraintSeeds),
          (iv_active iv, Cdp InterfaceDeprecated),
          (iv_version iv = required_version, Cdp InterfaceVersionMismatch)])
        (mint_body rt w [mt_minter ctx] cfg mint (data_of (mt_minter_info ctx))
           (mt_token_account ctx) (mt_remaining ctx) amount)))"

text \<open>The body that \<open>burn::handler\<close> and \<open>cpi_burn_handler\<close> share.\<close>

definition burn_body ::
  "'w runtime \<Rightarrow> 'w \<Rightarrow> pubkey \<Rightarrow> stablecoin_config \<Rightarrow> pubkey \<Rightarrow> pubkey \<Rightarrow> u64 \<Rightarrow>
     (stablecoin_config \<times> 'w) res" where
  "burn_body rt w minter c mint source amount =
     guarded
       [(MIN_SUPPORTED_VERSION \<le> c_version c, Queue ConfigVersionTooOld),
        (amount > 0, Core ZeroAmount),
        (\<not> c_paused c, Core MintPaused),
        (\<not> flag_set c FLAG_CIRCUIT_BREAKER, Cdp CircuitBreakerActive)]
       (andthen (cpi rt w [minter] (Burn mint source minter amount)) (\<lambda>w'.
        andthen (ok_or (checked_add (c_total_burned c) amount) (Late Overflow)) (\<lambda>tb.
        Inr (c\<lparr>c_total_burned := tb\<rparr>, w'))))"

definition burn_handler ::
  "'w runtime \<Rightarrow> 'w \<Rightarrow> mint_ctx \<Rightarrow> u64 \<Rightarrow> (stablecoin_config \<times> 'w) res" where
  "burn_handler rt w ctx amount =
     (let cfg = mt_config ctx; mint = mt_mint ctx in
      andthen (load_token rt w (mt_token_account ctx)) (\<lambda>source.
      guarded
        (config_ok rt cfg mint @ [(mint = c_mint (data_of cfg), Anchor ConstraintRaw)] @
         minter_ok rt cfg (mt_minter ctx) (mt_minter_info ctx) @
         [(ta_mint source = mint, Compliance InvalidMint), (ta_owner source = mt_minter ctx, Anchor ConstraintRaw)])
        (burn_body rt w (mt_minter ctx) (data_of cfg) mint (mt_token_account ctx) amount)))"

definition cpi_burn_handler ::
  "'w runtime \<Rightarrow> 'w \<Rightarrow> mint_ctx \<Rightarrow> interface_version account \<Rightarrow> u64 \<Rightarrow> u8 \<Rightarrow>
     (stablecoin_config \<times> 'w) res" where
  "cpi_burn_handler rt w ctx iv_acct amount required_version =
     (let cfg = mt_config ctx; mint = mt_mint ctx; iv = data_of iv_acct in
      andthen (load_token rt w (mt_token_account ctx)) (\<lambda>source.
      guarded
        (config_ok rt cfg mint @ minter_ok rt cfg (mt_minter ctx) (mt_minter_info ctx) @
         [(mint = c_mint (data_of cfg), Anchor ConstraintRaw), (ta_mint source = mint, Compliance InvalidMint),
          (ta_owner source = mt_minter ctx, Anchor ConstraintRaw),
          (seeds_ok rt (key_of iv_acct) (interface_seeds mint) (iv_bump iv), Anchor ConstraintSeeds),
          (iv_active iv, Cdp InterfaceDeprecated),
          (iv_version iv = required_version, Cdp InterfaceVersionMismatch)])
        (burn_body rt w (mt_minter ctx) (data_of cfg) mint (mt_token_account ctx) amount)))"

section \<open>Maintaining minters\<close>

definition minter_update_accounts :: "'w runtime \<Rightarrow> admin_ctx \<Rightarrow> pubkey \<Rightarrow> minter_info account \<Rightarrow> (bool \<times> error) list" where
  "minter_update_accounts rt ctx minter mi_acct =
     authority_accounts rt ctx @
     [(seeds_ok rt (key_of mi_acct) (minter_seeds (key_of (ac_config ctx)) minter)
         (mi_bump (data_of mi_acct)), Anchor ConstraintSeeds)]"

text \<open>
  \<open>init_if_needed\<close>: a minter record that does not exist yet starts out all zero; its address is
  the one found from the seeds.
\<close>

definition fresh_minter_info :: minter_info where
  "fresh_minter_info =
     \<lparr>mi_config = default_key, mi_minter = default_key, mi_cap = 0, mi_minted = 0,
      mi_max_mint_per_epoch = 0, mi_minted_this_epoch = 0, mi_last_epoch_reset = 0, mi_bump = 0\<rparr>"

definition update_minter_handler ::
  "'w runtime \<Rightarrow> admin_ctx \<Rightarrow> pubkey \<Rightarrow> minter_info option \<Rightarrow> u64 \<Rightarrow> minter_info res" where
  "update_minter_handler rt ctx minter existing cap =
     (let c = ac_cfg ctx;
          mi = (case existing of None \<Rightarrow> fresh_minter_info | Some m \<Rightarrow> m);
          bump = snd (rt_find_pda rt (minter_seeds (key_of (ac_config ctx)) minter)) in
      guarded (authority_accounts rt ctx)
        (andthen (squads_gate c (ac_authority ctx)) (\<lambda>_.
         guarded [(\<not> flag_set c FLAG_DAO_COMMITTEE, Dao DaoCommitteeRequired)]
           (Inr (mi\<lparr>mi_config := key_of (ac_config ctx), mi_minter := minter, mi_cap := cap,
                    mi_bump := (if mi_bump mi = 0 then bump else mi_bump mi)\<rparr>)))))"

text \<open>\<open>close = authority\<close>: the record is gone afterwards.\<close>

definition revoke_minter_handler ::
  "'w runtime \<Rightarrow> admin_ctx \<Rightarrow> pubkey \<Rightarrow> minter_info account \<Rightarrow> minter_info option res" where
  "revoke_minter_handler rt ctx minter mi_acct =
     guarded (minter_update_accounts rt ctx minter mi_acct)
       (andthen (squads_gate (ac_cfg ctx) (ac_authority ctx)) (\<lambda>_.
        guarded [(\<not> flag_set (ac_cfg ctx) FLAG_DAO_COMMITTEE, Dao DaoCommitteeRequired)]
          (Inr None)))"

definition set_mint_velocity_limit_handler ::
  "'w runtime \<Rightarrow> admin_ctx \<Rightarrow> pubkey \<Rightarrow> minter_info account \<Rightarrow> u64 \<Rightarrow> minter_info res" where
  "set_mint_velocity_limit_handler rt ctx minter mi_acct max_mint_per_epoch =
     guarded (authority_accounts rt ctx @ minter_ok rt (ac_config ctx) minter mi_acct)
       (andthen (squads_gate (ac_cfg ctx) (ac_authority ctx)) (\<lambda>_.
        Inr ((data_of mi_acct)\<lparr>mi_max_mint_per_epoch := max_mint_per_epoch\<rparr>)))"

section \<open>Successful runs\<close>

lemma within_limit_Inr [run_ok]:
  "within_limit limit used amount e = Inr u \<longleftrightarrow>
     (unat limit = 0 \<or> unat used + unat amount \<le> unat limit)"
proof (cases "unat used + unat amount \<le> unat limit")
  case True
  then obtain s where "checked_add used amount = Some s"
    using unat_lt [of limit] by (auto simp: checked_add_def)
  moreover from this have "s \<le> limit" using True by (simp add: arith_ok word_to_nat)
  ultimately show ?thesis using True by (simp add: within_limit_def)
next
  case False
  then show ?thesis
    by (auto simp: within_limit_def run_ok arith_ok word_to_nat split: option.splits)
qed

lemma por_gate_Inr [run_ok]:
  "por_gate rt c remaining = Inr u \<longleftrightarrow>
     (flag_set c FLAG_POR_HALT_ON_BREACH \<longrightarrow>
        (\<exists>por rest. remaining = (fst (rt_find_pda rt (por_seeds (c_mint c))), Some por) # rest \<and>
           0 < por_last_attestation_slot por \<and>
           unat (c_min_reserve_ratio_bps c) \<le> unat (por_last_verified_ratio_bps por)))"
  by (cases remaining)
     (auto simp: por_gate_def run_ok word_to_nat Let_def split: if_splits)

text \<open>
  What \<open>mint_body\<close> does to the minter's record alone: roll the epoch, check the two limits of the
  minter, count.
\<close>

definition minter_charge :: "u64 \<Rightarrow> u64 \<Rightarrow> minter_info \<Rightarrow> minter_info res" where
  "minter_charge epoch amount mi =
     (let mi1 = roll_epoch epoch mi in
      andthen (within_limit (mi_max_mint_per_epoch mi1) (mi_minted_this_epoch mi1) amount
                 (Admin MintVelocityExceeded)) (\<lambda>_.
      andthen (within_limit (mi_cap mi1) (mi_minted mi1) amount (Core MinterCapExceeded)) (\<lambda>_.
      andthen (ok_or (checked_add (mi_minted mi1) amount) (Late Overflow)) (\<lambda>m.
      andthen (ok_or (checked_add (mi_minted_this_epoch mi1) amount) (Late Overflow)) (\<lambda>e.
      Inr (mi1\<lparr>mi_minted := m, mi_minted_this_epoch := e\<rparr>))))))"

lemma roll_epoch_simps [simp]:
  "mi_cap (roll_epoch e mi) = mi_cap mi" "mi_minted (roll_epoch e mi) = mi_minted mi"
  "mi_max_mint_per_epoch (roll_epoch e mi) = mi_max_mint_per_epoch mi"
  "mi_config (roll_epoch e mi) = mi_config mi" "mi_minter (roll_epoch e mi) = mi_minter mi"
  "mi_last_epoch_reset (roll_epoch e mi) = e"
  by (simp_all add: roll_epoch_def)

lemma roll_epoch_used:
  "e \<noteq> 0 \<Longrightarrow> mi_minted_this_epoch (roll_epoch e mi) =
     (if mi_last_epoch_reset mi = e then mi_minted_this_epoch mi else 0)"
  by (auto simp: roll_epoch_def)

lemma minter_charge_ok:
  assumes "minter_charge epoch amount mi = Inr mi'"
  shows "unat (mi_minted mi') = unat (mi_minted mi) + unat amount"
    and "unat (mi_minted_this_epoch mi') =
           unat (mi_minted_this_epoch (roll_epoch epoch mi)) + unat amount"
    and "mi_last_epoch_reset mi' = epoch" and "mi_cap mi' = mi_cap mi"
    and "mi_max_mint_per_epoch mi' = mi_max_mint_per_epoch mi"
    and "unat (mi_cap mi) = 0 \<or> unat (mi_minted mi') \<le> unat (mi_cap mi)"
    and "unat (mi_max_mint_per_epoch mi) = 0 \<or>
           unat (mi_minted_this_epoch mi') \<le> unat (mi_max_mint_per_epoch mi)"
  using assms by (auto simp: minter_charge_def Let_def run_ok arith_ok)

lemma mint_body_ok:
  assumes "mint_body rt w sgs cfg mint mi recipient remaining amount = Inr (c', mi', w')"
  shows "MIN_SUPPORTED_VERSION \<le> c_version (data_of cfg)" and "0 < unat amount"
    and "\<not> c_paused (data_of cfg)" and "\<not> flag_set (data_of cfg) FLAG_CIRCUIT_BREAKER"
    and "por_gate rt (data_of cfg) remaining = Inr ()"
    and "unat (c_max_supply (data_of cfg)) = 0 \<or>
           unat (net_supply (data_of cfg)) + unat amount \<le> unat (c_max_supply (data_of cfg))"
    and "\<exists>k. rt_create_pda rt (config_seeds mint) (c_bump (data_of cfg)) = Some k \<and>
           rt_invoke rt w (k # sgs) (MintTo mint recipient (key_of cfg) amount) = Inr w'"
    and "c' = (data_of cfg)\<lparr>c_total_minted := c_total_minted c'\<rparr>"
    and "unat (c_total_minted c') = unat (c_total_minted (data_of cfg)) + unat amount"
    and "minter_charge (rt_epoch rt) amount mi = Inr mi'"
  using assms
  by (auto simp: mint_body_def minter_charge_def Let_def run_ok arith_ok word_to_nat)

lemma mint_handler_body:
  assumes "mint_handler rt w ctx amount = Inr r"
  shows "mint_body rt w [mt_minter ctx] (mt_config ctx) (mt_mint ctx) (data_of (mt_minter_info ctx))
           (mt_token_account ctx) (mt_remaining ctx) amount = Inr r"
    and "mt_mint ctx = c_mint (data_of (mt_config ctx))"
    and "seeds_ok rt (key_of (mt_config ctx)) (config_seeds (mt_mint ctx)) (c_bump (data_of (mt_config ctx)))"
    and "mi_minter (data_of (mt_minter_info ctx)) = mt_minter ctx"
  using assms by (auto simp: mint_handler_def config_ok_def minter_ok_def Let_def run_ok)

lemma burn_body_ok:
  assumes "burn_body rt w minter c mint source amount = Inr (c', w')"
  shows "0 < unat amount" and "\<not> c_paused c" and "\<not> flag_set c FLAG_CIRCUIT_BREAKER"
    and "rt_invoke rt w [minter] (Burn mint source minter amount) = Inr w'"
    and "c' = c\<lparr>c_total_burned := c_total_burned c'\<rparr>"
    and "unat (c_total_burned c') = unat (c_total_burned c) + unat amount"
  using assms by (auto simp: burn_body_def run_ok arith_ok word_to_nat)

text \<open>The minter's counter is a window over epochs, except for epoch zero.\<close>

definition minter_admit :: "u64 \<Rightarrow> nat \<Rightarrow> nat \<Rightarrow> minter_info \<Rightarrow> minter_info \<Rightarrow> bool" where
  "minter_admit t n l mi mi' \<longleftrightarrow>
     t \<noteq> 0 \<and> 0 < l \<and> l = unat (mi_max_mint_per_epoch mi) \<and>
     (\<exists>amount. n = unat amount \<and> minter_charge t amount mi = Inr mi')"

interpretation epoch: rate_window minter_admit mi_last_epoch_reset "\<lambda>mi. unat (mi_minted_this_epoch mi)"
  by unfold_locales
     (auto simp: minter_admit_def roll_epoch_used dest: minter_charge_ok)

section \<open>Properties\<close>

definition demo_minter :: minter_info where
  "demo_minter =
     \<lparr>mi_config = demo_cfg_key, mi_minter = 9, mi_cap = 400, mi_minted = 0, mi_max_mint_per_epoch = 100,
      mi_minted_this_epoch = 0, mi_last_epoch_reset = 0, mi_bump = 255\<rparr>"

definition demo_mint_ctx :: "stablecoin_config \<Rightarrow> minter_info \<Rightarrow> mint_ctx" where
  "demo_mint_ctx c mi =
     \<lparr>mt_minter = 9, mt_config = demo_acct c, mt_mint = 5,
      mt_minter_info = \<lparr>key_of = ref_pda (minter_seeds demo_cfg_key 9), data_of = mi\<rparr>,
      mt_token_account = 20, mt_remaining = []\<rparr>"

lemmas minting_eval [eval_defs] =
  demo_minter_def demo_mint_ctx_def mint_handler_def burn_handler_def mint_body_def burn_body_def
  config_ok_def minter_ok_def por_gate_def within_limit_def roll_epoch_def

text \<open>A successful \<open>mint\<close> raises the supply of the stablecoin's mint, the balance of the recipient's
  account, \<open>total_minted\<close> and the minter's two counters by exactly the amount, within 64 bits;
  no other balance, supply or field of the configuration changes.\<close>

theorem mint_effect:
  assumes "token_ledger rt" and "mint_handler rt w ctx amount = Inr (c', mi', w')"
  shows "supply_of rt w' = (supply_of rt w)(mt_mint ctx := supply_of rt w (mt_mint ctx) + unat amount) \<and>
    balance_of rt w' =
      (balance_of rt w)(mt_token_account ctx := balance_of rt w (mt_token_account ctx) + unat amount) \<and>
    c' = (data_of (mt_config ctx))\<lparr>c_total_minted := c_total_minted c'\<rparr> \<and>
    unat (c_total_minted c') = unat (c_total_minted (data_of (mt_config ctx))) + unat amount \<and>
    unat (mi_minted mi') = unat (mi_minted (data_of (mt_minter_info ctx))) + unat amount \<and>
    unat (mi_minted_this_epoch mi') =
      unat (mi_minted_this_epoch (roll_epoch (rt_epoch rt) (data_of (mt_minter_info ctx)))) + unat amount"
proof -
  note body = mint_body_ok [OF mint_handler_body(1) [OF assms(2)]]
  from body(7) obtain k where "rt_invoke rt w (k # [mt_minter ctx])
      (MintTo (mt_mint ctx) (mt_token_account ctx) (key_of (mt_config ctx)) amount) = Inr w'" by blast
  note ledger = token_ledger.mint_to_ok [OF assms(1) this]
  show ?thesis using ledger body(8,9) minter_charge_ok(1,2) [OF body(10)] by simp
qed

theorem mint_effect_witness:
  "\<exists>c' mi' w'. mint_handler (ref_runtime 10 3 0) demo_ledger (demo_mint_ctx demo_config demo_minter) 80
     = Inr (c', mi', w') \<and> supply_of (ref_runtime 10 3 0) w' 5 = 980"
proof -
  obtain c' mi' w' where run: "mint_handler (ref_runtime 10 3 0) demo_ledger
      (demo_mint_ctx demo_config demo_minter) 80 = Inr (c', mi', w')"
    by (simp add: eval_defs demo_cfg_key_def)
  from mint_effect [OF ref.token_ledger_axioms run]
  have "supply_of (ref_runtime 10 3 0) w' 5 = supply_of (ref_runtime 10 3 0) demo_ledger 5 + 80"
    by (simp add: demo_mint_ctx_def)
  with run show ?thesis by (auto simp: supply_of_def demo_ledger_def)
qed

text \<open>C1: No \<open>mint\<close> passes a limit that is set: afterwards the net supply is within \<open>max_supply\<close>, the
  minter's total within its cap and the minter's count of the epoch within \<open>max_mint_per_epoch\<close>.\<close>

theorem mint_respects_limits:
  assumes "mint_handler rt w ctx amount = Inr (c', mi', w')"
  shows "(c_max_supply c' = 0 \<or> net_supply c' \<le> c_max_supply c') \<and>
    (mi_cap mi' = 0 \<or> mi_minted mi' \<le> mi_cap mi') \<and>
    (mi_max_mint_per_epoch mi' = 0 \<or> mi_minted_this_epoch mi' \<le> mi_max_mint_per_epoch mi')"
proof -
  note body = mint_body_ok [OF mint_handler_body(1) [OF assms]]
  have same: "c_max_supply c' = c_max_supply (data_of (mt_config ctx))"
    "c_total_burned c' = c_total_burned (data_of (mt_config ctx))" by (subst body(8), simp)+
  then have "unat (net_supply c') \<le> unat (net_supply (data_of (mt_config ctx))) + unat amount"
    using body(9) by (simp add: unat_net_supply)
  with body(6) same have "c_max_supply c' = 0 \<or> net_supply c' \<le> c_max_supply c'"
    by (auto simp: word_to_nat)
  with minter_charge_ok(4-7) [OF body(10)] show ?thesis by (auto simp: word_to_nat)
qed

theorem mint_respects_limits_witness:
  "\<exists>c' mi' w'. mint_handler (ref_runtime 10 3 0) demo_ledger (demo_mint_ctx demo_config demo_minter) 100
     = Inr (c', mi', w') \<and> mi_minted_this_epoch mi' \<le> 100"
proof -
  obtain c' mi' w' where run: "mint_handler (ref_runtime 10 3 0) demo_ledger
      (demo_mint_ctx demo_config demo_minter) 100 = Inr (c', mi', w')"
    and "mi_max_mint_per_epoch mi' = 100"
    by (simp add: eval_defs demo_cfg_key_def)
  with mint_respects_limits [OF run] show ?thesis by auto
qed

text \<open>
  A run of mint attempts by one minter. Each attempt comes with its own runtime, ledger and
  accounts (whatever else happened in between), only the minter's record is the one the last
  successful attempt left; an attempt that fails leaves it as it was. The log holds the epoch and
  the amount of every success.
\<close>

fun minter_log ::
  "minter_info \<Rightarrow> ('w runtime \<times> 'w \<times> mint_ctx \<times> u64) list \<Rightarrow> (u64 \<times> u64) list" where
  "minter_log mi [] = []"
| "minter_log mi ((rt, w, ctx, amount) # es) =
     (case mint_handler rt w (ctx\<lparr>mt_minter_info := set_data (mt_minter_info ctx) mi\<rparr>) amount of
        Inl _ \<Rightarrow> minter_log mi es
      | Inr r \<Rightarrow> (rt_epoch rt, amount) # minter_log (fst (snd r)) es)"

lemma minter_log_admits:
  assumes "\<forall>ev \<in> set es. rt_epoch (fst ev) \<noteq> 0" and "0 < unat (mi_max_mint_per_epoch mi)"
  shows "\<exists>mi'. epoch.admits 
    (map (\<lambda>l. (fst l, unat (snd l), unat (mi_max_mint_per_epoch mi))) (minter_log mi es)) mi mi'"
  using assms
proof (induction mi es rule: minter_log.induct)
  case (1 mi)
  then show ?case by simp
next
  case (2 mi rt w ctx amount es)
  let ?run = "mint_handler rt w (ctx\<lparr>mt_minter_info := set_data (mt_minter_info ctx) mi\<rparr>) amount"
  show ?case
  proof (cases ?run)
    case (Inl e)
    with 2 show ?thesis by simp
  next
    case (Inr r)
    obtain c' mi' w' where r: "r = (c', mi', w')" by (cases r)
    from mint_body_ok(10) [OF mint_handler_body(1) [OF Inr [unfolded r]]]
    have ch: "minter_charge (rt_epoch rt) amount mi = Inr mi'" by simp
    then have same: "mi_max_mint_per_epoch mi' = mi_max_mint_per_epoch mi" by (rule minter_charge_ok)
    have adm: "minter_admit (rt_epoch rt) (unat amount) (unat (mi_max_mint_per_epoch mi)) mi mi'"
      using ch 2(3,4) by (auto simp: minter_admit_def)
    show ?thesis using 2(2) [OF Inr] 2(3,4) Inr r same adm
      by (auto intro: epoch.admits_Cons)
  qed
qed

lemma minter_log_epochs: "fst ` set (minter_log mi es) \<subseteq> (rt_epoch \<circ> fst) ` set es"
proof (induction mi es rule: minter_log.induct)
  case (2 mi rt w ctx amount es)
  show ?case
  proof (cases "mint_handler rt w (ctx\<lparr>mt_minter_info := set_data (mt_minter_info ctx) mi\<rparr>) amount")
    case (Inl e)
    with 2(1) [OF Inl] show ?thesis by auto
  next
    case (Inr r)
    with 2(2) [OF Inr] show ?thesis by auto
  qed
qed simp

lemma minter_log_sorted:
  "sorted (map (rt_epoch \<circ> fst) es) \<Longrightarrow> sorted (map fst (minter_log mi es))"
proof (induction mi es rule: minter_log.induct)
  case (2 mi rt w ctx amount es)
  have "\<forall>mi. \<forall>e \<in> set (map fst (minter_log mi es)). rt_epoch rt \<le> e"
    using minter_log_epochs [of _ es] 2(3) by fastforce
  with 2 show ?case by (auto split: sum.splits)
qed simp



text \<open>In epoch zero the velocity limit does not bind: the counter is reset before every mint, so a minter
  limited to 100 mints 80 and then 80 more in the same epoch.\<close>

theorem mint_velocity_unlimited_in_epoch_zero:
  "minter_log demo_minter
     [(ref_runtime 10 0 0, demo_ledger, demo_mint_ctx demo_config demo_minter, 80),
      (ref_runtime 11 0 0, demo_ledger, demo_mint_ctx demo_config demo_minter, 80)] = [(0, 80), (0, 80)]"
  by (simp add: eval_defs demo_cfg_key_def)



text \<open>The CPI entry point is \<open>mint\<close> behind a version gate: for an active interface record of the requested
  version at its derived address, \<open>cpi_mint\<close> succeeds exactly when \<open>mint\<close> does, with the same result;
  otherwise it never succeeds.\<close>

theorem cpi_mint_is_gated_mint:
  "cpi_mint_handler rt w ctx iv_acct amount required_version = Inr r \<longleftrightarrow>
     seeds_ok rt (key_of iv_acct) (interface_seeds (mt_mint ctx)) (iv_bump (data_of iv_acct)) \<and>
     iv_active (data_of iv_acct) \<and> iv_version (data_of iv_acct) = required_version \<and>
     mint_handler rt w ctx amount = Inr r"
  by (auto simp: cpi_mint_handler_def mint_handler_def Let_def run_ok guarded_Inr)

text \<open>With the proof-of-reserves flag set, a mint succeeds only if the first extra account is the derived
  proof-of-reserves record, has been attested, and its attested ratio reaches the configured minimum.\<close>

theorem por_breach_halts_mint:
  assumes "flag_set (data_of (mt_config ctx)) FLAG_POR_HALT_ON_BREACH"
    and "mint_handler rt w ctx amount = Inr r"
  shows "\<exists>por rest.
    mt_remaining ctx = (fst (rt_find_pda rt (por_seeds (c_mint (data_of (mt_config ctx))))), Some por) # rest \<and>
    0 < por_last_attestation_slot por \<and>
    ucast (c_min_reserve_ratio_bps (data_of (mt_config ctx))) \<le> por_last_verified_ratio_bps por"
proof -
  obtain c' mi' w' where "r = (c', mi', w')" by (cases r)
  with assms(2) have "mint_handler rt w ctx amount = Inr (c', mi', w')" by simp
  from mint_body_ok(5) [OF mint_handler_body(1) [OF this]] assms(1) show ?thesis
    by (auto simp: por_gate_Inr word_to_nat)
qed

theorem por_breach_halts_mint_witness:
  "\<exists>r. mint_handler (ref_runtime 10 3 0) demo_ledger
     ((demo_mint_ctx (demo_config\<lparr>c_feature_flags := FLAG_POR_HALT_ON_BREACH, c_min_reserve_ratio_bps := 9000\<rparr>)
       demo_minter)\<lparr>mt_remaining := [(ref_pda (por_seeds 5),
         Some \<lparr>por_mint = 5, por_last_attestation_slot = 4, por_last_verified_ratio_bps = 9500,
               por_attester = 8, por_bump = 255\<rparr>)]\<rparr>) 80 = Inr r \<and>
     (9000 :: u64) \<le> 9500"
proof -
  let ?ctx = "(demo_mint_ctx (demo_config\<lparr>c_feature_flags := FLAG_POR_HALT_ON_BREACH,
      c_min_reserve_ratio_bps := 9000\<rparr>) demo_minter)\<lparr>mt_remaining := [(ref_pda (por_seeds 5),
      Some \<lparr>por_mint = 5, por_last_attestation_slot = 4, por_last_verified_ratio_bps = 9500,
            por_attester = 8, por_bump = 255\<rparr>)]\<rparr>"
  obtain r where run: "mint_handler (ref_runtime 10 3 0) demo_ledger ?ctx 80 = Inr r"
    by (simp add: eval_defs demo_cfg_key_def)
  have flag: "flag_set (data_of (mt_config ?ctx)) FLAG_POR_HALT_ON_BREACH"
    by (simp add: demo_mint_ctx_def check_feature_flag_def flag_defs)
  from por_breach_halts_mint [OF flag run] have "(9000 :: u64) \<le> 9500"
    by (auto simp: demo_mint_ctx_def)
  with run show ?thesis by blast
qed

text \<open>Under the committee flag the minters of a stablecoin are frozen: \<open>update_minter\<close> and \<open>revoke_minter\<close>
  reject every call, and no account of an executed proposal can be passed to them.\<close>

theorem committee_flag_freezes_minters:
  assumes "flag_set (ac_cfg ctx) FLAG_DAO_COMMITTEE"
  shows "(\<forall>r. update_minter_handler rt ctx minter existing cap \<noteq> Inr r) \<and>
    (\<forall>r. revoke_minter_handler rt ctx minter mi_acct \<noteq> Inr r)"
  using assms
  by (auto simp: update_minter_handler_def revoke_minter_handler_def Let_def run_ok guarded_Inr)

theorem committee_flag_freezes_minters_witness:
  "\<forall>r. update_minter_handler (ref_runtime 10 3 0)
     \<lparr>ac_authority = 7, ac_config = demo_acct (demo_config\<lparr>c_feature_flags := FLAG_DAO_COMMITTEE\<rparr>),
      ac_mint = 5\<rparr> 9 None 100 \<noteq> Inr r"
  by (rule committee_flag_freezes_minters [THEN conjunct1])
     (simp add: check_feature_flag_def flag_defs)

end
