(* ===== verification/Lending.thy ===== *)
theory Lending
  imports Cdp
begin

text \<open>
  What borrowing, repaying and the stability fee guarantee: every loan is covered one and a half
  times at the price it was granted at, repayment releases collateral in proportion and burns the
  booked fees, and where the code promises more than it does.
\<close>

section \<open>Borrowing\<close>

lemma open_position_ok:
  assumes "open_position rt p k mint user cm now t = Inr p1"
  shows "cp_debt_amount p1 = cp_debt_amount p"
    and "cp_accrued_fees p1 = (if cp_owner p = default_key then 0 else t)"
    and "cp_collateral_mint p1 = cm" and "cp_last_fee_accrual p1 = now"
  using assms by (auto simp: open_position_def run_ok split: if_splits)

lemma fees_after_ge: "unat (cp_accrued_fees p) \<le> unat (fees_after p bps now)"
  by (auto simp: fees_after_def arith_ok split: option.splits)

lemma borrow_ok:
  assumes "cdp_borrow_stable_handler rt w ctx amount = Inr (c', p', w')"
  obtains smint cmint price worth limit p1 where
    "rt_mint rt w (cb_sss_mint ctx) = Some smint" "rt_mint rt w (cb_collateral_mint ctx) = Some cmint"
    "get_effective_oracle_price (cb_feed ctx) (data_of (cb_config ctx)) (rt_slot rt) (rt_unix_timestamp rt)
       (map_option data_of (cb_consensus ctx)) = Inr price"
    "collateral_value_e6 (cv_deposited_amount (data_of (cb_vault ctx))) (i64_as_u128 (op_price price))
       (nat \<bar>op_expo price\<bar>) (unat (tm_decimals cmint)) = Inr worth"
    "max_borrow worth (unat (tm_decimals smint)) = Inr limit"
    "unat (cp_debt_amount (cb_position ctx)) + unat (fees_after (cb_position ctx)
       (c_stability_fee_bps (data_of (cb_config ctx))) (rt_unix_timestamp rt)) + unat amount \<le> unat limit"
    "open_position rt (cb_position ctx) (key_of (cb_config ctx)) (cb_sss_mint ctx) (cb_user ctx)
       (cb_collateral_mint ctx) (rt_unix_timestamp rt) (fees_after (cb_position ctx)
       (c_stability_fee_bps (data_of (cb_config ctx))) (rt_unix_timestamp rt)) = Inr p1"
    "p' = p1\<lparr>cp_debt_amount := cp_debt_amount p'\<rparr>"
    "unat (cp_debt_amount p') = unat (cp_debt_amount p1) + unat amount"
    "c' = (data_of (cb_config ctx))\<lparr>c_total_minted := c_total_minted c'\<rparr>"
    "unat (c_total_minted c') = unat (c_total_minted (data_of (cb_config ctx))) + unat amount"
    "\<exists>k. rt_invoke rt w (k # [cb_user ctx]) (MintTo (cb_sss_mint ctx) (cb_user_sss ctx)
       (key_of (cb_config ctx)) amount) = Inr w'"
    "cb_sss_mint ctx = c_mint (data_of (cb_config ctx))" "0 < unat amount"
    "\<not> c_paused (data_of (cb_config ctx))" "\<not> flag_set (data_of (cb_config ctx)) FLAG_CIRCUIT_BREAKER"
  using assms unfolding cdp_borrow_stable_handler_def Let_def
  apply (simp add: run_ok guarded_Inr arith_ok word_le_nat_alt word_less_nat_alt)
  apply (elim exE conjE)
  apply (rule that, assumption+)
  apply auto
  done

text \<open>C4: Every loan is over-collateralised: after a successful borrow, one and a half times the debt with its
  accrued fees is worth no more than the deposit at the oracle's price (cross-multiplied, so no rounding hides
  in it).\<close>

theorem borrow_overcollateralised:
  assumes "cdp_borrow_stable_handler rt w ctx amount = Inr (c', p', w')"
  shows "\<exists>price smint cmint.
    get_effective_oracle_price (cb_feed ctx) (data_of (cb_config ctx)) (rt_slot rt) (rt_unix_timestamp rt)
      (map_option data_of (cb_consensus ctx)) = Inr price \<and>
    rt_mint rt w (cb_sss_mint ctx) = Some smint \<and> rt_mint rt w (cb_collateral_mint ctx) = Some cmint \<and>
    3 * (unat (cp_debt_amount p') + unat (cp_accrued_fees p')) *
        10 ^ nat \<bar>op_expo price\<bar> * 10 ^ unat (tm_decimals cmint) \<le>
    2 * (unat (cv_deposited_amount (data_of (cb_vault ctx))) * unat (i64_as_u128 (op_price price))) *
        10 ^ unat (tm_decimals smint)"
  using assms
proof (cases rule: borrow_ok)
  case (1 smint cmint price worth limit p1)
  note pos = open_position_ok [OF 1(7)]
  have "cp_accrued_fees p' = cp_accrued_fees p1" by (subst 1(8)) simp
  with pos(1,2) 1(6,9) have "unat (cp_debt_amount p') + unat (cp_accrued_fees p') \<le> unat limit"
    by (simp split: if_splits)
  with within_max_borrow [OF 1(4,5)] 1(1-3) show ?thesis by blast
qed

definition demo_vault :: collateral_vault where
  "demo_vault =
     \<lparr>cv_owner = 9, cv_collateral_mint = 6, cv_vault_token_account = 33, cv_deposited_amount = 600000000,
      cv_bump = 255\<rparr>"

definition fresh_position :: cdp_position where
  "fresh_position =
     \<lparr>cp_config = 0, cp_sss_mint = 0, cp_owner = 0, cp_debt_amount = 0, cp_collateral_mint = 0,
      cp_last_fee_accrual = 0, cp_accrued_fees = 0, cp_bump = 0\<rparr>"

definition demo_borrow_ctx :: "stablecoin_config \<Rightarrow> cdp_borrow_ctx" where
  "demo_borrow_ctx c =
     \<lparr>cb_user = 9, cb_config = demo_acct c, cb_sss_mint = 5, cb_collateral_mint = 6,
      cb_vault = \<lparr>key_of = ref_pda (vault_seeds 5 9 6), data_of = demo_vault\<rparr>,
      cb_position = fresh_position, cb_user_sss = 20, cb_feed = demo_feed 100000000 1000, cb_consensus = None\<rparr>"

lemmas cdp_eval [eval_defs] =
  demo_vault_def fresh_position_def demo_borrow_ctx_def cdp_borrow_stable_handler_def vault_ok_def
  consensus_ok_def config_ok_def collateral_value_e6_def max_borrow_def mul_or_def pow10_def
  MIN_COLLATERAL_RATIO_BPS_def fees_after_def pending_fees_def open_position_def

text \<open>A dollar collateral of 600 (six decimals) at price 1.00: up to 400 may be borrowed.\<close>

theorem borrow_overcollateralised_witness:
  "\<exists>c' p' w'. cdp_borrow_stable_handler (ref_runtime 10 3 1030) demo_ledger
       (demo_borrow_ctx (demo_config\<lparr>c_oracle_type := 2\<rparr>)) 400000000 = Inr (c', p', w') \<and>
     3 * unat (cp_debt_amount p') \<le> 2 * 600000000"
proof -
  let ?ctx = "demo_borrow_ctx (demo_config\<lparr>c_oracle_type := 2\<rparr>)"
  obtain c' p' w' where run: "cdp_borrow_stable_handler (ref_runtime 10 3 1030) demo_ledger ?ctx 400000000
      = Inr (c', p', w')"
    by (simp add: eval_defs demo_cfg_key_def)
  have price: "get_effective_oracle_price (demo_feed 100000000 1000) (demo_config\<lparr>c_oracle_type := 2\<rparr>) 10 1030 None
      = Inr \<lparr>op_price = 100000000, op_conf = 0, op_expo = - 8\<rparr>"
    by (simp add: eval_defs)
  from borrow_overcollateralised [OF run] price
  have "3 * unat (cp_debt_amount p') \<le> 2 * 600000000"
    by (auto simp: demo_borrow_ctx_def demo_vault_def demo_ledger_def i64_as_u128_def)
  with run show ?thesis by blast
qed

text \<open>The supply cap does not bind lenders: \<open>cdp_borrow_stable\<close> mints with no look at \<open>max_supply\<close>, so a
  stablecoin capped at 5000 with 900 outstanding can be borrowed up to 400000900.\<close>

theorem borrow_ignores_supply_cap:
  "\<exists>c' p' w'. cdp_borrow_stable_handler (ref_runtime 10 3 1030) demo_ledger
       (demo_borrow_ctx (demo_config\<lparr>c_oracle_type := 2\<rparr>)) 400000000 = Inr (c', p', w') \<and>
     c_max_supply c' = 5000 \<and> net_supply c' = 400000900"
  by (simp add: eval_defs demo_cfg_key_def)

section \<open>Repaying\<close>

lemma collateral_release_ok:
  assumes "collateral_release deposited amount debt = Inr r" and "amount \<le> debt" and "0 < unat amount"
  shows "unat r = unat deposited * unat amount div unat debt" and "unat r \<le> unat deposited"
proof -
  have pos: "0 < unat debt" using assms(2,3) by (simp add: word_le_nat_alt)
  have "unat deposited * unat amount div unat debt \<le> unat deposited * unat debt div unat debt"
    using assms(2) by (intro div_le_mono mult_le_mono2) (simp add: word_le_nat_alt)
  then have le: "unat deposited * unat amount div unat debt \<le> unat deposited" using pos by simp
  moreover obtain x where x: "unat (x :: u128) = unat deposited * unat amount"
    and r: "r = ucast (case checked_div x (ucast debt) of None \<Rightarrow> 0 | Some q \<Rightarrow> q)"
    using assms(1) pos by (auto simp: collateral_release_def run_ok arith_ok word_less_nat_alt)
  have "(ucast debt :: u128) \<noteq> 0" using pos by (simp add: word_unat_eq_iff)
  then have "r = ucast (x div ucast debt)" by (simp add: r checked_div_def)
  moreover have "unat (x div ucast debt) = unat deposited * unat amount div unat debt"
    by (simp add: unat_div x)
  ultimately show "unat r = unat deposited * unat amount div unat debt"
    using unat_lt [of deposited] by (simp add: unat_narrow_small)
  with le show "unat r \<le> unat deposited" by simp
qed

lemma repay_ok:
  assumes "cdp_repay_stable_handler rt w ctx amount = Inr (c', p', v', cc', w')"
  obtains released burn w1 d where
    "collateral_release (cv_deposited_amount (data_of (cr_vault ctx))) amount
       (cp_debt_amount (data_of (cr_position ctx))) = Inr released"
    "amount \<le> cp_debt_amount (data_of (cr_position ctx))" "0 < unat amount"
    "unat burn = unat amount + unat (cp_accrued_fees (data_of (cr_position ctx)))"
    "rt_invoke rt w [cr_user ctx] (BurnChecked (cr_sss_mint ctx) (cr_user_sss ctx) (cr_user ctx) burn d) = Inr w1"
    "if 0 < unat released then \<exists>k d. rt_invoke rt w1 (k # [cr_user ctx]) (TransferChecked (cr_vault_token_account ctx)
       (cr_collateral_mint ctx) (cr_user_collateral ctx) (key_of (cr_vault ctx)) released d) = Inr w' else w' = w1"
    "unat (cp_debt_amount (data_of (cr_position ctx))) = unat amount + unat (cp_debt_amount p')"
    "cp_accrued_fees p' = 0"
    "unat (cv_deposited_amount (data_of (cr_vault ctx))) = unat released + unat (cv_deposited_amount v')"
    "c' = (data_of (cr_config ctx))\<lparr>c_total_burned := c_total_burned c'\<rparr>"
    "unat (c_total_burned c') = unat (c_total_burned (data_of (cr_config ctx))) + unat burn"
    "cr_sss_mint ctx = c_mint (data_of (cr_config ctx))"
  using assms unfolding cdp_repay_stable_handler_def Let_def
  apply (simp add: run_ok guarded_Inr arith_ok repay_accounts_def Let_def word_less_nat_alt)
  apply (elim exE conjE)
  apply (rule that, assumption+)
  apply (auto simp: run_ok split: if_splits)
  done

text \<open>Repaying part of a debt burns that part plus the booked fees from the borrower, lowers the debt by it,
  clears the booked fees and releases collateral in proportion, rounded down: the collateral behind each unit
  of debt never falls, and repaying the whole debt releases the whole deposit.\<close>

theorem repay_in_proportion:
  assumes "token_ledger rt" and "cdp_repay_stable_handler rt w ctx amount = Inr (c', p', v', cc', w')"
  shows "let p = data_of (cr_position ctx); v = data_of (cr_vault ctx);
             burned = unat amount + unat (cp_accrued_fees p) in
    supply_of rt w (cr_sss_mint ctx) = supply_of rt w' (cr_sss_mint ctx) + burned \<and>
    unat (c_total_burned c') = unat (c_total_burned (data_of (cr_config ctx))) + burned \<and>
    unat (cp_debt_amount p) = unat amount + unat (cp_debt_amount p') \<and> cp_accrued_fees p' = 0 \<and>
    unat (cv_deposited_amount v) = unat (cv_deposited_amount v') +
      unat (cv_deposited_amount v) * unat amount div unat (cp_debt_amount p) \<and>
    unat (cv_deposited_amount v) * unat (cp_debt_amount p') \<le>
      unat (cv_deposited_amount v') * unat (cp_debt_amount p) \<and>
    (cp_debt_amount p' = 0 \<longrightarrow> cv_deposited_amount v' = 0)"
  using assms(2)
proof (cases rule: repay_ok)
  case (1 released burn w1 d)
  let ?D = "unat (cp_debt_amount (data_of (cr_position ctx)))"
  let ?V = "unat (cv_deposited_amount (data_of (cr_vault ctx)))"
  note rel = collateral_release_ok(1) [OF 1(1,2,3)]
  have "supply_of rt w1 = (supply_of rt w)(cr_sss_mint ctx := supply_of rt w (cr_sss_mint ctx) - unat burn)"
    and le: "unat burn \<le> supply_of rt w (cr_sss_mint ctx)"
    using token_ledger.burn_checked_ok [OF assms(1) 1(5)] by auto
  moreover have "supply_of rt w' = supply_of rt w1"
    using 1(6) token_ledger.transfer_ok [OF assms(1)] by (cases "0 < unat released") auto
  ultimately have burned: "supply_of rt w (cr_sss_mint ctx) = supply_of rt w' (cr_sss_mint ctx) + unat burn"
    by simp
  have "unat released * ?D \<le> ?V * unat amount" by (simp add: rel div_times_less_eq_dividend)
  moreover have "?V * ?D = unat released * ?D + unat (cv_deposited_amount v') * ?D"
    using 1(9) by (simp add: add_mult_distrib)
  moreover have "?V * ?D = ?V * unat amount + ?V * unat (cp_debt_amount p')"
    using 1(7) by (simp add: add_mult_distrib2)
  ultimately have share: "?V * unat (cp_debt_amount p') \<le> unat (cv_deposited_amount v') * ?D" by linarith
  have "cv_deposited_amount v' = 0" if "cp_debt_amount p' = 0"
    using that 1(3,7,9) rel by (simp add: word_unat_eq_iff)
  moreover have "?V = unat (cv_deposited_amount v') + ?V * unat amount div ?D" using 1(9) rel by simp
  ultimately show ?thesis using burned share 1(4,7,8,11) unfolding Let_def by auto
qed

definition demo_position :: cdp_position where
  "demo_position =
     \<lparr>cp_config = demo_cfg_key, cp_sss_mint = 5, cp_owner = 9, cp_debt_amount = 300, cp_collateral_mint = 6,
      cp_last_fee_accrual = 1000, cp_accrued_fees = 20, cp_bump = 255\<rparr>"

definition demo_cdp_ledger :: ref_ledger where
  "demo_cdp_ledger = demo_ledger\<lparr>rl_tokens := (rl_tokens demo_ledger)
     (33 \<mapsto> \<lparr>ta_mint = 6, ta_owner = ref_pda (vault_seeds 5 9 6), ta_amount = 500\<rparr>),
     rl_delegate := ref_pda (vault_seeds 5 9 6)\<rparr>"

definition demo_repay_ctx :: cdp_repay_ctx where
  "demo_repay_ctx =
     \<lparr>cr_user = 9, cr_config = demo_acct demo_config, cr_sss_mint = 5, cr_user_sss = 20,
      cr_position = \<lparr>key_of = ref_pda (position_seeds 5 9), data_of = demo_position\<rparr>,
      cr_vault = \<lparr>key_of = ref_pda (vault_seeds 5 9 6), data_of = demo_vault\<lparr>cv_deposited_amount := 500\<rparr>\<rparr>,
      cr_collateral_mint = 6, cr_vault_token_account = 33, cr_user_collateral = 31, cr_collateral_config = None\<rparr>"

lemmas repay_eval [eval_defs] =
  demo_position_def demo_cdp_ledger_def demo_repay_ctx_def cdp_repay_stable_handler_def repay_accounts_def
  position_ok_def collateral_release_def release_total_def checked_div_def

theorem repay_in_proportion_witness:
  "\<exists>c' p' v' cc' w'. cdp_repay_stable_handler (ref_runtime 10 3 1030) demo_cdp_ledger demo_repay_ctx 100
       = Inr (c', p', v', cc', w') \<and> unat (cv_deposited_amount v') = 334"
proof -
  obtain c' p' v' cc' w' where run: "cdp_repay_stable_handler (ref_runtime 10 3 1030) demo_cdp_ledger demo_repay_ctx 100
       = Inr (c', p', v', cc', w')"
    by (simp add: eval_defs demo_cfg_key_def)
  from repay_in_proportion [OF ref.token_ledger_axioms run] run show ?thesis
    by (simp add: demo_repay_ctx_def demo_position_def demo_vault_def Let_def)
qed

text \<open>Repayment ignores time: its outcome is the same whatever the clock says, so the stability fee that accrued
  since the last accrual is never charged by it; repaying in full leaves no debt it could be charged on later.\<close>

theorem repay_ignores_elapsed_time:
  "cdp_repay_stable_handler (rt\<lparr>rt_unix_timestamp := t\<rparr>) w ctx amount = cdp_repay_stable_handler rt w ctx amount"
  by (unfold cdp_repay_stable_handler_def repay_accounts_def config_ok_def position_ok_def vault_ok_def
      collateral_config_ok_def runtime_time) (rule refl)

section \<open>The stability fee\<close>

lemma stability_fee_ok:
  assumes "stability_fee debt bps elapsed = Inr fee"
  shows "unat fee = min (unat debt * unat bps * unat elapsed div (10000 * 31536000)) (2 ^ 64 - 1)"
proof -
  obtain b :: u128 where b: "unat b = unat debt * unat bps * unat elapsed"
    and fee: "fee = ucast (min (b div (10000 * ucast SECS_PER_YEAR)) u64_max)"
    using assms by (auto simp: stability_fee_def run_ok)
  have "unat (b div (10000 * ucast SECS_PER_YEAR)) = unat debt * unat bps * unat elapsed div (10000 * 31536000)"
    by (simp add: unat_div b SECS_PER_YEAR_def)
  then have "unat (min (b div (10000 * ucast SECS_PER_YEAR)) u64_max) =
      min (unat debt * unat bps * unat elapsed div (10000 * 31536000)) (2 ^ 64 - 1)"
    by (simp add: unat_min u64_max_def)
  moreover from this have "unat (min (b div (10000 * ucast SECS_PER_YEAR)) u64_max) < 2 ^ LENGTH(64)"
    by simp
  ultimately show ?thesis by (simp add: fee unat_narrow_small)
qed

lemma collect_fee_ok:
  assumes "collect_fee rt w ctx bps elapsed = Inr (c', p', w')"
  obtains (nothing) "c' = data_of (cf_config ctx)" "w' = w" "cp_debt_amount p' = cp_debt_amount (data_of (cf_position ctx))"
      "cp_accrued_fees p' = cp_accrued_fees (data_of (cf_position ctx))"
      "bps = 0 \<or> elapsed = 0 \<or> (\<exists>fee. stability_fee (cp_debt_amount (data_of (cf_position ctx))) bps elapsed = Inr fee \<and>
         unat (cp_accrued_fees (data_of (cf_position ctx))) + unat fee = 0)"
  | (fee) total fee k where "bps \<noteq> 0" "elapsed \<noteq> 0" "stability_fee (cp_debt_amount (data_of (cf_position ctx))) bps elapsed = Inr fee"
      "unat total = unat (cp_accrued_fees (data_of (cf_position ctx))) + unat fee" "0 < unat total"
      "rt_invoke rt w (k # [cf_caller ctx]) (Burn (cf_sss_mint ctx) (cf_debtor_sss ctx) (key_of (cf_config ctx)) total) = Inr w'"
      "c' = (data_of (cf_config ctx))\<lparr>c_total_burned := c_total_burned c'\<rparr>"
      "unat (c_total_burned c') = unat (c_total_burned (data_of (cf_config ctx))) + unat total"
      "p' = (data_of (cf_position ctx))\<lparr>cp_accrued_fees := 0, cp_last_fee_accrual := rt_unix_timestamp rt\<rparr>"
proof -
  consider "bps = 0 \<or> elapsed = 0" | total fee where "bps \<noteq> 0" "elapsed \<noteq> 0"
    "stability_fee (cp_debt_amount (data_of (cf_position ctx))) bps elapsed = Inr fee"
    "unat total = unat (cp_accrued_fees (data_of (cf_position ctx))) + unat fee"
    "checked_add (cp_accrued_fees (data_of (cf_position ctx))) fee = Some total"
    using assms by (auto simp: collect_fee_def Let_def run_ok arith_ok split: if_splits)
  then show thesis
  proof cases
    case 1
    with assms have "c' = data_of (cf_config ctx) \<and> w' = w \<and> p' = data_of (cf_position ctx)"
      by (cases "bps = 0") (auto simp: collect_fee_def Let_def)
    with 1 show ?thesis by (elim conjE) (rule nothing, auto)
  next
    case (2 total fee)
    show ?thesis
    proof (cases "total = 0")
      case True
      with 2(1,2,3,5) assms have "c' = data_of (cf_config ctx) \<and> w' = w \<and>
          p' = (data_of (cf_position ctx))\<lparr>cp_last_fee_accrual := rt_unix_timestamp rt\<rparr>"
        by (auto simp: collect_fee_def Let_def)
      with True 2(3,4) show ?thesis by (elim conjE) (rule nothing, auto)
    next
      case False
      with 2(1,2,3,5) assms have "\<exists>k tb. rt_invoke rt w (k # [cf_caller ctx]) (Burn (cf_sss_mint ctx) (cf_debtor_sss ctx)
          (key_of (cf_config ctx)) total) = Inr w' \<and> checked_add (c_total_burned (data_of (cf_config ctx))) total = Some tb \<and>
          c' = (data_of (cf_config ctx))\<lparr>c_total_burned := tb\<rparr> \<and>
          p' = (data_of (cf_position ctx))\<lparr>cp_accrued_fees := 0, cp_last_fee_accrual := rt_unix_timestamp rt\<rparr>"
        by (auto simp: collect_fee_def Let_def run_ok)
      then obtain k tb where burn: "rt_invoke rt w (k # [cf_caller ctx]) (Burn (cf_sss_mint ctx) (cf_debtor_sss ctx)
          (key_of (cf_config ctx)) total) = Inr w'"
        and tb: "checked_add (c_total_burned (data_of (cf_config ctx))) total = Some tb"
        and c': "c' = (data_of (cf_config ctx))\<lparr>c_total_burned := tb\<rparr>"
        and p': "p' = (data_of (cf_position ctx))\<lparr>cp_accrued_fees := 0, cp_last_fee_accrual := rt_unix_timestamp rt\<rparr>"
        by (elim exE conjE)
      have "0 < unat total" using False by (simp add: unat_gt_0)
      then show ?thesis using tb by (intro fee [OF 2(1-4) _ burn _ _ p']) (simp_all add: c' arith_ok)
    qed
  qed
qed

lemma collect_handler_ok:
  assumes "collect_stability_fee_handler rt w ctx = Inr r"
  shows "collect_fee rt w ctx (ucast (c_stability_fee_bps (data_of (cf_config ctx)))) (elapsed_secs (rt_unix_timestamp rt)
           (cp_last_fee_accrual (data_of (cf_position ctx)))) = Inr r"
    and "cf_sss_mint ctx = c_mint (data_of (cf_config ctx))"
    and "cf_caller ctx = c_authority (data_of (cf_config ctx)) \<or> cf_caller ctx \<in> set (c_authorized_keepers (data_of (cf_config ctx)))"
  using assms unfolding collect_stability_fee_handler_def Let_def
  by (auto simp: run_ok guarded_Inr list_ex_iff)

text \<open>Collecting the stability fee is for the authority and its keepers; it burns, from the debtor's account, the
  fees booked so far plus debt times rate times elapsed seconds over a year, rounded down, enters the burn in
  the books and clears the booked fees; the debt itself never changes, and with no rate or no time elapsed
  nothing happens.\<close>

theorem stability_fee_collected:
  assumes "token_ledger rt" and "collect_stability_fee_handler rt w ctx = Inr (c', p', w')"
  shows "let c = data_of (cf_config ctx); p = data_of (cf_position ctx); mint = cf_sss_mint ctx;
             bps = unat (c_stability_fee_bps c);
             secs = unat (elapsed_secs (rt_unix_timestamp rt) (cp_last_fee_accrual p));
             burned = (if bps = 0 \<or> secs = 0 then 0
                       else unat (cp_accrued_fees p) +
                         min (unat (cp_debt_amount p) * bps * secs div (10000 * 31536000)) (2 ^ 64 - 1)) in
    (cf_caller ctx = c_authority c \<or> cf_caller ctx \<in> set (c_authorized_keepers c)) \<and>
    supply_of rt w mint = supply_of rt w' mint + burned \<and>
    unat (c_total_burned c') = unat (c_total_burned c) + burned \<and>
    cp_debt_amount p' = cp_debt_amount p \<and>
    (bps \<noteq> 0 \<and> secs \<noteq> 0 \<longrightarrow> cp_accrued_fees p' = 0)"
proof -
  note h = collect_handler_ok [OF assms(2)]
  from h(1) show ?thesis
  proof (cases rule: collect_fee_ok)
    case nothing
    then show ?thesis using h(3) by (auto simp: Let_def word_unat_eq_iff dest: stability_fee_ok)
  next
    case (fee total fee k)
    note burn = token_ledger.burn_ok [OF assms(1) fee(6)]
    have bps: "unat (c_stability_fee_bps (data_of (cf_config ctx))) \<noteq> 0"
      using fee(1) by (auto simp: word_unat_eq_iff)
    have secs: "unat (elapsed_secs (rt_unix_timestamp rt) (cp_last_fee_accrual (data_of (cf_position ctx)))) \<noteq> 0"
      using fee(2) by (auto simp: word_unat_eq_iff)
    have total: "unat total = unat (cp_accrued_fees (data_of (cf_position ctx))) +
        min (unat (cp_debt_amount (data_of (cf_position ctx))) * unat (c_stability_fee_bps (data_of (cf_config ctx))) *
          unat (elapsed_secs (rt_unix_timestamp rt) (cp_last_fee_accrual (data_of (cf_position ctx)))) div
          (10000 * 31536000)) (2 ^ 64 - 1)"
      using fee(4) stability_fee_ok [OF fee(3)] by simp
    have "supply_of rt w (cf_sss_mint ctx) = supply_of rt w' (cf_sss_mint ctx) + unat total"
      using burn by simp
    then show ?thesis using h(3) bps secs unfolding Let_def by (simp only: if_False fee(8,9) total) simp
  qed
qed

definition demo_collect_ctx :: collect_fee_ctx where
  "demo_collect_ctx =
     \<lparr>cf_caller = 7, cf_config = demo_acct (demo_config\<lparr>c_stability_fee_bps := 200\<rparr>), cf_sss_mint = 5, cf_debtor = 9,
      cf_position = \<lparr>key_of = ref_pda (position_seeds 5 9), data_of = demo_position\<rparr>, cf_debtor_sss = 20\<rparr>"

lemmas collect_eval [eval_defs] =
  demo_collect_ctx_def collect_stability_fee_handler_def collect_fee_def stability_fee_def elapsed_secs_def
  SECS_PER_YEAR_def u64_max_def

text \<open>Ten years at two percent on a debt of 300, with 20 booked: 80 are burned.\<close>

theorem stability_fee_collected_witness:
  "\<exists>c' p' w'. collect_stability_fee_handler (ref_runtime 10 3 315361000) demo_ledger demo_collect_ctx = Inr (c', p', w') \<and>
     supply_of (ref_runtime 10 3 315361000) w' 5 = 820 \<and> unat (c_total_burned c') = 180"
proof -
  obtain c' p' w' where run:
    "collect_stability_fee_handler (ref_runtime 10 3 315361000) demo_ledger demo_collect_ctx = Inr (c', p', w')"
    by (simp add: eval_defs demo_cfg_key_def)
  have secs: "unat (elapsed_secs 315361000 1000) = 315360000" by (simp add: eval_defs)
  have "supply_of (ref_runtime 10 3 315361000) demo_ledger 5 = 900"
    by (simp add: supply_of_def demo_ledger_def)
  with stability_fee_collected [OF ref.token_ledger_axioms run] run show ?thesis
    by (simp add: demo_collect_ctx_def demo_position_def demo_config_def secs)
qed

end
