(* ===== verification/Liquidation.thy ===== *)
theory Liquidation
  imports Lending
begin

text \<open>
  Liquidation of under-collateralised positions, in both versions
  (programs/sss-token/src/instructions/{cdp\_liquidate,cdp\_liquidate\_v2}.rs): who may be
  liquidated, what is burned and seized, and what a partial liquidation leaves behind.
\<close>

section \<open>The handlers\<close>

record liquidate_ctx =
  lq_liquidator :: pubkey
  lq_config :: "stablecoin_config account"
  lq_sss_mint :: pubkey
  lq_liquidator_sss :: pubkey
  lq_position :: "cdp_position account"
  lq_owner :: pubkey
  lq_vault :: "collateral_vault account"
  lq_collateral_mint :: pubkey
  lq_vault_token_account :: pubkey
  lq_liquidator_collateral :: pubkey
  lq_feed :: feed_account
  lq_collateral_config :: "collateral_config account option"
  lq_consensus :: "oracle_consensus account option"

text \<open>The account constraints that the two versions share.\<close>

definition liquidate_accounts ::
  "'w runtime \<Rightarrow> liquidate_ctx \<Rightarrow> token_account \<Rightarrow> token_account \<Rightarrow> token_account \<Rightarrow> (bool \<times> error) list" where
  "liquidate_accounts rt ctx sss vt lc =
     (let cfg = lq_config ctx; c = data_of cfg; mint = lq_sss_mint ctx; cm = lq_collateral_mint ctx in
      config_ok rt cfg mint @
      [(c_preset c = 3, Core InvalidPreset), (mint = c_mint c, Anchor ConstraintRaw),
       (ta_mint sss = mint, Anchor ConstraintRaw), (ta_owner sss = lq_liquidator ctx, Anchor ConstraintRaw)] @
      position_ok rt (lq_position ctx) mint (lq_owner ctx) @
      [(cp_collateral_mint (data_of (lq_position ctx)) = cm, Cdp WrongCollateralMint)] @
      vault_ok rt (lq_vault ctx) mint (lq_owner ctx) cm @
      [(lq_vault_token_account ctx = cv_vault_token_account (data_of (lq_vault ctx)), Anchor ConstraintRaw),
       (ta_mint vt = cm, Anchor ConstraintRaw),
       (ta_mint lc = cm, Anchor ConstraintRaw), (ta_owner lc = lq_liquidator ctx, Anchor ConstraintRaw)])"

definition liquidate_config_ok ::
  "'w runtime \<Rightarrow> liquidate_ctx \<Rightarrow> error \<Rightarrow> collateral_config account \<Rightarrow> (bool \<times> error) list" where
  "liquidate_config_ok rt ctx e a =
     collateral_config_ok rt (lq_sss_mint ctx) (lq_collateral_mint ctx) a @
     [(cc_sss_mint (data_of a) = lq_sss_mint ctx, e),
      (cc_collateral_mint (data_of a) = lq_collateral_mint ctx, Cdp WrongCollateralMint)]"

definition liquidation_open :: "liquidate_ctx \<Rightarrow> (bool \<times> error) list" where
  "liquidation_open ctx =
     (let c = data_of (lq_config ctx) in
      [(MIN_SUPPORTED_VERSION \<le> c_version c, Queue ConfigVersionTooOld),
       (\<not> flag_set c FLAG_CIRCUIT_BREAKER, Cdp CircuitBreakerActive),
       (c_expected_pyth_feed c \<noteq> default_key \<longrightarrow> fa_key (lq_feed ctx) = c_expected_pyth_feed c,
          (Admin UnexpectedPriceFeed))])"

text \<open>The ratio of value to debt in basis points, as the health checks compute it.\<close>

definition health_bps :: "u64 \<Rightarrow> u128 \<Rightarrow> nat \<Rightarrow> nat \<Rightarrow> u64 \<Rightarrow> nat \<Rightarrow> u128 res" where
  "health_bps deposited price expo_abs cdec debt sdec =
     andthen (collateral_value_e6 deposited price expo_abs cdec) (\<lambda>worth.
     andthen (debt_value_e6 debt sdec) (\<lambda>owed. ratio_bps_of worth owed))"

text \<open>Version 1: what a partial repayment seizes.\<close>

definition partial_seizure :: "u64 \<Rightarrow> u64 \<Rightarrow> u16 \<Rightarrow> u128 \<Rightarrow> nat \<Rightarrow> nat \<Rightarrow> nat \<Rightarrow> u64 res" where
  "partial_seizure deposited repay bonus price expo_abs cdec sdec =
     andthen (debt_value_e6 repay sdec) (\<lambda>usd.
     andthen (pow10 cdec) (\<lambda>pc.
     andthen (mul_or usd pc (Cdp InvalidPrice)) (\<lambda>a.
     andthen (mul_or a (10000 + ucast bonus) (Cdp InvalidPrice)) (\<lambda>b.
     andthen (pow10 expo_abs) (\<lambda>pe.
     andthen (mul_or b pe (Cdp InvalidPrice)) (\<lambda>d.
     andthen (rdiv d price) (\<lambda>q.
     Inr (ucast (min (q div 1000000 div 10000) (ucast deposited))))))))))"

definition liquidation_terms :: "collateral_config account option \<Rightarrow> u128 \<times> u16" where
  "liquidation_terms cc =
     (case cc of
        Some a \<Rightarrow> (ucast (cc_liquidation_threshold_bps (data_of a)), cc_liquidation_bonus_bps (data_of a))
      | None \<Rightarrow> (ucast LIQUIDATION_THRESHOLD_BPS, DEFAULT_LIQUIDATION_BONUS_BPS))"

text \<open>Version 1: the debt to burn and the collateral to seize.\<close>

definition liquidation_amounts ::
  "u64 \<Rightarrow> cdp_position \<Rightarrow> u64 \<Rightarrow> u64 \<Rightarrow> u128 \<times> u16 \<Rightarrow> u128 \<Rightarrow> nat \<Rightarrow> nat \<Rightarrow> nat \<Rightarrow> (u64 \<times> u64) res" where
  "liquidation_amounts deposited p effective repay terms price expo_abs cdec sdec =
     (if repay > 0 \<and> repay < cp_debt_amount p then
        andthen (partial_seizure deposited repay (snd terms) price expo_abs cdec sdec) (\<lambda>seize.
        andthen (ok_or (checked_add (saturating_sub (cp_debt_amount p) repay) (cp_accrued_fees p)) (Late Overflow))
          (\<lambda>remaining.
        if remaining > 0 then
          andthen (health_bps (saturating_sub deposited seize) price expo_abs cdec remaining sdec) (\<lambda>post.
          guarded [(fst terms \<le> post, Backstop PartialLiquidationInsufficientRepay)] (Inr (repay, seize)))
        else Inr (repay, seize)))
      else Inr (effective, deposited))"

text \<open>Burn from the liquidator, then hand over the collateral.\<close>

definition settle_liquidation ::
  "'w runtime \<Rightarrow> 'w \<Rightarrow> liquidate_ctx \<Rightarrow> u8 \<Rightarrow> u8 \<Rightarrow> u64 \<Rightarrow> u64 \<Rightarrow> 'w res" where
  "settle_liquidation rt w ctx sdec cdec burn seize =
     andthen (cpi rt w [lq_liquidator ctx] (BurnChecked (lq_sss_mint ctx) (lq_liquidator_sss ctx)
                (lq_liquidator ctx) burn sdec)) (\<lambda>w1.
     cpi_signed rt w1 [lq_liquidator ctx] (vault_seeds (lq_sss_mint ctx) (lq_owner ctx) (lq_collateral_mint ctx))
       (cv_bump (data_of (lq_vault ctx)))
       (TransferChecked (lq_vault_token_account ctx) (lq_collateral_mint ctx) (lq_liquidator_collateral ctx)
          (key_of (lq_vault ctx)) seize cdec))"

definition lower_total :: "collateral_config account option \<Rightarrow> u64 \<Rightarrow> collateral_config option res" where
  "lower_total cc n =
     (case cc of None \<Rightarrow> Inr None
      | Some a \<Rightarrow> andthen (ok_or (checked_sub (cc_total_deposited (data_of a)) n) (Late Overflow))
                    (\<lambda>t. Inr (Some ((data_of a)\<lparr>cc_total_deposited := t\<rparr>))))"

definition debt_after :: "cdp_position \<Rightarrow> u64 \<Rightarrow> cdp_position" where
  "debt_after p burn =
     (let d = saturating_sub (cp_debt_amount p) burn in
      p\<lparr>cp_debt_amount := d, cp_accrued_fees := (if d = 0 then 0 else cp_accrued_fees p)\<rparr>)"

definition cdp_liquidate_handler ::
  "'w runtime \<Rightarrow> 'w \<Rightarrow> liquidate_ctx \<Rightarrow> u64 \<Rightarrow> u64 \<Rightarrow>
     (stablecoin_config \<times> cdp_position \<times> collateral_vault \<times> collateral_config option \<times> 'w) res" where
  "cdp_liquidate_handler rt w ctx min_collateral repay =
     (let c = data_of (lq_config ctx); mint = lq_sss_mint ctx; p = data_of (lq_position ctx); v = data_of (lq_vault ctx);
          deposited = cv_deposited_amount v; terms = liquidation_terms (lq_collateral_config ctx);
          consensus = map_option data_of (lq_consensus ctx) in
      andthen (load_mint rt w mint) (\<lambda>smint.
      andthen (load_token rt w (lq_liquidator_sss ctx)) (\<lambda>sss.
      andthen (load_mint rt w (lq_collateral_mint ctx)) (\<lambda>cmint.
      andthen (load_token rt w (lq_vault_token_account ctx)) (\<lambda>vt.
      andthen (load_token rt w (lq_liquidator_collateral ctx)) (\<lambda>lc.
      guarded
        (liquidate_accounts rt ctx sss vt lc @
         (case lq_collateral_config ctx of None \<Rightarrow> [] | Some a \<Rightarrow> liquidate_config_ok rt ctx (Core Unauthorized) a) @
         consensus_ok rt (lq_consensus ctx) mint @ liquidation_open ctx @
         [(\<not> flag_set c FLAG_MULTI_ORACLE_CONSENSUS \<or> consensus \<noteq> None, Hardening OracleConsensusNotFound)])
        (andthen (get_effective_oracle_price (lq_feed ctx) c (rt_slot rt) (rt_unix_timestamp rt) consensus) (\<lambda>price.
         let pr = i64_as_u128 (op_price price); e = nat \<bar>op_expo price\<bar>;
             cdec = unat (tm_decimals cmint); sdec = unat (tm_decimals smint) in
         guarded [(deposited > 0, Cdp InsufficientCollateral)]
         (andthen (collateral_value_e6 deposited pr e cdec) (\<lambda>worth.
          andthen (ok_or (checked_add (cp_debt_amount p) (cp_accrued_fees p)) (Late Overflow)) (\<lambda>effective.
          guarded [(effective > 0, Cdp InsufficientDebt)]
          (andthen (debt_value_e6 effective sdec) (\<lambda>owed.
           andthen (ratio_bps_of worth owed) (\<lambda>ratio.
           guarded [(ratio < fst terms, Cdp CdpNotLiquidatable)]
           (andthen (liquidation_amounts deposited p effective repay terms pr e cdec sdec) (\<lambda>(burn, seize).
            guarded [(min_collateral > 0 \<longrightarrow> min_collateral \<le> seize, Admin SlippageExceeded)]
            (andthen (settle_liquidation rt w ctx (tm_decimals smint) (tm_decimals cmint) burn seize) (\<lambda>w'.
             andthen (lower_total (lq_collateral_config ctx) seize) (\<lambda>cc.
             andthen (ok_or (checked_add (c_total_burned c) burn) (Late Overflow)) (\<lambda>tb.
             Inr (c\<lparr>c_total_burned := tb\<rparr>, debt_after p burn,
                  v\<lparr>cv_deposited_amount := saturating_sub deposited seize\<rparr>, cc, w')))))))))))))))))))))"

text \<open>Version 2: the collateral that a repaid amount is worth with the bonus.\<close>

definition seize_raw :: "u64 \<Rightarrow> u16 \<Rightarrow> u128 \<Rightarrow> nat \<Rightarrow> nat \<Rightarrow> nat \<Rightarrow> u128 res" where
  "seize_raw repaid bonus price expo_abs cdec sdec =
     andthen (debt_value_e6 repaid sdec) (\<lambda>usd.
     andthen (mul_or usd (10000 + ucast bonus) (Cdp InvalidPrice)) (\<lambda>a.
     andthen (pow10 cdec) (\<lambda>pc.
     andthen (mul_or (a div 10000) pc (Cdp InvalidPrice)) (\<lambda>b.
     andthen (pow10 expo_abs) (\<lambda>pe.
     andthen (mul_or b pe (Cdp InvalidPrice)) (\<lambda>d.
     andthen (rdiv d price) (\<lambda>q. Inr (q div 1000000))))))))"

text \<open>Version 2 reads the Pyth feed itself.\<close>

definition v2_price :: "liquidate_ctx \<Rightarrow> i64 \<Rightarrow> oracle_price res" where
  "v2_price ctx now =
     (let c = data_of (lq_config ctx) in
      andthen (pyth_get_price (lq_feed ctx) (max_age_of c) now) (\<lambda>p.
      guarded [(op_price p > 0, Cdp InvalidPrice), (confidence_ok c p, Admin OracleConfidenceTooWide)] (Inr p)))"

definition v2_debt_after :: "cdp_position \<Rightarrow> u64 \<Rightarrow> cdp_position" where
  "v2_debt_after p repaid =
     (let p1 = (if cp_debt_amount p \<le> repaid
                then p\<lparr>cp_debt_amount := 0,
                       cp_accrued_fees := saturating_sub (cp_accrued_fees p) (saturating_sub repaid (cp_debt_amount p))\<rparr>
                else p\<lparr>cp_debt_amount := saturating_sub (cp_debt_amount p) repaid\<rparr>) in
      if cp_debt_amount p1 = 0 then p1\<lparr>cp_accrued_fees := 0\<rparr> else p1)"

text \<open>Version 2: the health that a partial liquidation has to leave.\<close>

definition v2_health_left :: "u64 \<Rightarrow> u64 \<Rightarrow> u64 \<Rightarrow> u64 \<Rightarrow> u128 \<Rightarrow> nat \<Rightarrow> nat \<Rightarrow> nat \<Rightarrow> unit res" where
  "v2_health_left deposited seize owing repaid price expo_abs cdec sdec =
     (if repaid < owing \<and> saturating_sub owing repaid > 0 then
        andthen (health_bps (saturating_sub deposited seize) price expo_abs cdec (saturating_sub owing repaid) sdec)
          (\<lambda>post. guarded [(ucast MIN_COLLATERAL_RATIO_BPS \<le> post, Cdp CollateralRatioTooLow)] (Inr ()))
      else Inr ())"

definition cdp_liquidate_v2_handler ::
  "'w runtime \<Rightarrow> 'w \<Rightarrow> liquidate_ctx \<Rightarrow> collateral_config account \<Rightarrow> u64 \<Rightarrow> u64 \<Rightarrow>
     (stablecoin_config \<times> cdp_position \<times> collateral_vault \<times> collateral_config \<times> 'w) res" where
  "cdp_liquidate_v2_handler rt w ctx cca debt_to_repay min_collateral =
     (let c = data_of (lq_config ctx); mint = lq_sss_mint ctx; p = data_of (lq_position ctx); v = data_of (lq_vault ctx);
          deposited = cv_deposited_amount v; cc = data_of cca in
      andthen (load_mint rt w mint) (\<lambda>smint.
      andthen (load_token rt w (lq_liquidator_sss ctx)) (\<lambda>sss.
      andthen (load_mint rt w (lq_collateral_mint ctx)) (\<lambda>cmint.
      andthen (load_token rt w (lq_vault_token_account ctx)) (\<lambda>vt.
      andthen (load_token rt w (lq_liquidator_collateral ctx)) (\<lambda>lc.
      guarded
        (liquidate_accounts rt ctx sss vt lc @ liquidate_config_ok rt ctx (Core InvalidCollateralMint) cca @
         liquidation_open ctx)
        (andthen (v2_price ctx (rt_unix_timestamp rt)) (\<lambda>price.
         let pr = i64_as_u128 (op_price price); e = nat \<bar>op_expo price\<bar>;
             cdec = unat (tm_decimals cmint); sdec = unat (tm_decimals smint) in
         guarded [(cc_whitelisted cc, Backstop CollateralNotWhitelisted), (deposited > 0, Cdp InsufficientCollateral)]
         (andthen (collateral_value_e6 deposited pr e cdec) (\<lambda>worth.
          andthen (ok_or (checked_add (cp_debt_amount p) (cp_accrued_fees p)) (Late Overflow)) (\<lambda>owing.
          guarded [(owing > 0, Cdp InsufficientDebt)]
          (andthen (debt_value_e6 owing sdec) (\<lambda>owed.
           andthen (ratio_bps_of worth owed) (\<lambda>ratio.
           guarded [(ratio < ucast (cc_liquidation_threshold_bps cc), Cdp CdpNotLiquidatable)]
           (let repaid = (if debt_to_repay = 0 \<or> owing \<le> debt_to_repay then owing else debt_to_repay) in
            andthen (seize_raw repaid (cc_liquidation_bonus_bps cc) pr e cdec sdec) (\<lambda>raw.
            let seize = (if ucast deposited \<le> raw \<or> \<not> repaid < owing then deposited else ucast raw) in
            andthen (v2_health_left deposited seize owing repaid pr e cdec sdec) (\<lambda>_.
            guarded [(min_collateral > 0 \<longrightarrow> min_collateral \<le> seize, Admin SlippageExceeded)]
            (andthen (settle_liquidation rt w ctx (tm_decimals smint) (tm_decimals cmint) repaid seize) (\<lambda>w'.
             andthen (ok_or (checked_sub (cc_total_deposited cc) seize) (Late Overflow)) (\<lambda>t.
             andthen (ok_or (checked_add (c_total_burned c) repaid) (Late Overflow)) (\<lambda>tb.
             Inr (c\<lparr>c_total_burned := tb\<rparr>, v2_debt_after p repaid,
                  v\<lparr>cv_deposited_amount := saturating_sub deposited seize\<rparr>,
                  cc\<lparr>cc_total_deposited := t\<rparr>, w'))))))))))))))))))))))"

section \<open>Successful liquidations\<close>

lemma health_bps_ok:
  assumes "health_bps deposited price e cdec debt sdec = Inr ratio"
  obtains worth owed where "collateral_value_e6 deposited price e cdec = Inr worth" "debt_value_e6 debt sdec = Inr owed"
    "0 < unat owed" "unat ratio = unat worth * 10000 div unat owed"
proof -
  from assms obtain worth owed a where "collateral_value_e6 deposited price e cdec = Inr worth"
    "debt_value_e6 debt sdec = Inr owed" "unat a = unat worth * unat (10000 :: u128)" "owed \<noteq> 0" "ratio = a div owed"
    by (auto simp: health_bps_def ratio_bps_of_def run_ok)
  then show thesis by (intro that) (simp_all add: unat_div unat_gt_0)
qed

lemma settle_ok:
  assumes "token_ledger rt" and "settle_liquidation rt w ctx sdec cdec burn seize = Inr w'"
  shows "supply_of rt w (lq_sss_mint ctx) = supply_of rt w' (lq_sss_mint ctx) + unat burn"
proof -
  from assms(2) obtain w1 k where w1: "rt_invoke rt w [lq_liquidator ctx] (BurnChecked (lq_sss_mint ctx)
      (lq_liquidator_sss ctx) (lq_liquidator ctx) burn sdec) = Inr w1"
    and w': "rt_invoke rt w1 [k, lq_liquidator ctx] (TransferChecked (lq_vault_token_account ctx)
      (lq_collateral_mint ctx) (lq_liquidator_collateral ctx) (key_of (lq_vault ctx)) seize cdec) = Inr w'"
    by (auto simp: settle_liquidation_def run_ok)
  show ?thesis using token_ledger.burn_checked_ok [OF assms(1) w1] token_ledger.transfer_ok [OF assms(1) w'] by simp
qed

text \<open>A slippage bound of zero is no bound, which the comparison says anyway.\<close>

lemma slippage_ok: "(0 < m \<longrightarrow> m \<le> n) \<longleftrightarrow> m \<le> (n :: 'a::len word)"
  by (cases "m = 0") (simp_all add: word_gt_0)

lemma liquidate_ok:
  assumes "cdp_liquidate_handler rt w ctx min_collateral repay = Inr (c', p', v', cc', w')"
  obtains smint cmint price effective worth owed ratio burn seize where
    "rt_mint rt w (lq_sss_mint ctx) = Some smint" "rt_mint rt w (lq_collateral_mint ctx) = Some cmint"
    "get_effective_oracle_price (lq_feed ctx) (data_of (lq_config ctx)) (rt_slot rt) (rt_unix_timestamp rt)
       (map_option data_of (lq_consensus ctx)) = Inr price"
    "unat effective = unat (cp_debt_amount (data_of (lq_position ctx))) + unat (cp_accrued_fees (data_of (lq_position ctx)))"
    "collateral_value_e6 (cv_deposited_amount (data_of (lq_vault ctx))) (i64_as_u128 (op_price price))
       (nat \<bar>op_expo price\<bar>) (unat (tm_decimals cmint)) = Inr worth"
    "debt_value_e6 effective (unat (tm_decimals smint)) = Inr owed" "ratio_bps_of worth owed = Inr ratio"
    "ratio < fst (liquidation_terms (lq_collateral_config ctx))"
    "liquidation_amounts (cv_deposited_amount (data_of (lq_vault ctx))) (data_of (lq_position ctx)) effective repay
       (liquidation_terms (lq_collateral_config ctx)) (i64_as_u128 (op_price price)) (nat \<bar>op_expo price\<bar>)
       (unat (tm_decimals cmint)) (unat (tm_decimals smint)) = Inr (burn, seize)"
    "settle_liquidation rt w ctx (tm_decimals smint) (tm_decimals cmint) burn seize = Inr w'"
    "p' = debt_after (data_of (lq_position ctx)) burn"
    "v' = (data_of (lq_vault ctx))\<lparr>cv_deposited_amount :=
       saturating_sub (cv_deposited_amount (data_of (lq_vault ctx))) seize\<rparr>"
    "lower_total (lq_collateral_config ctx) seize = Inr cc'"
    "c' = (data_of (lq_config ctx))\<lparr>c_total_burned := c_total_burned c'\<rparr>"
    "unat (c_total_burned c') = unat (c_total_burned (data_of (lq_config ctx))) + unat burn"
    "lq_sss_mint ctx = c_mint (data_of (lq_config ctx))" "\<not> flag_set (data_of (lq_config ctx)) FLAG_CIRCUIT_BREAKER"
    "min_collateral \<le> seize"
  using assms unfolding cdp_liquidate_handler_def Let_def
  apply (simp add: run_ok guarded_Inr arith_ok split_beta liquidate_accounts_def liquidation_open_def Let_def slippage_ok)
  apply (elim exE conjE)
  apply (rule that, assumption+)
  apply auto
  done

lemma v2_ok:
  assumes "cdp_liquidate_v2_handler rt w ctx cca debt_to_repay min_collateral = Inr (c', p', v', cc', w')"
  obtains smint cmint price owing worth owed ratio repaid raw seize where
    "rt_mint rt w (lq_sss_mint ctx) = Some smint" "rt_mint rt w (lq_collateral_mint ctx) = Some cmint"
    "v2_price ctx (rt_unix_timestamp rt) = Inr price"
    "unat owing = unat (cp_debt_amount (data_of (lq_position ctx))) + unat (cp_accrued_fees (data_of (lq_position ctx)))"
    "collateral_value_e6 (cv_deposited_amount (data_of (lq_vault ctx))) (i64_as_u128 (op_price price))
       (nat \<bar>op_expo price\<bar>) (unat (tm_decimals cmint)) = Inr worth"
    "debt_value_e6 owing (unat (tm_decimals smint)) = Inr owed" "ratio_bps_of worth owed = Inr ratio"
    "ratio < ucast (cc_liquidation_threshold_bps (data_of cca))"
    "repaid = (if debt_to_repay = 0 \<or> owing \<le> debt_to_repay then owing else debt_to_repay)"
    "seize_raw repaid (cc_liquidation_bonus_bps (data_of cca)) (i64_as_u128 (op_price price)) (nat \<bar>op_expo price\<bar>)
       (unat (tm_decimals cmint)) (unat (tm_decimals smint)) = Inr raw"
    "seize = (if ucast (cv_deposited_amount (data_of (lq_vault ctx))) \<le> raw \<or> \<not> repaid < owing
       then cv_deposited_amount (data_of (lq_vault ctx)) else ucast raw)"
    "v2_health_left (cv_deposited_amount (data_of (lq_vault ctx))) seize owing repaid (i64_as_u128 (op_price price))
       (nat \<bar>op_expo price\<bar>) (unat (tm_decimals cmint)) (unat (tm_decimals smint)) = Inr ()"
    "settle_liquidation rt w ctx (tm_decimals smint) (tm_decimals cmint) repaid seize = Inr w'"
    "p' = v2_debt_after (data_of (lq_position ctx)) repaid"
    "v' = (data_of (lq_vault ctx))\<lparr>cv_deposited_amount :=
       saturating_sub (cv_deposited_amount (data_of (lq_vault ctx))) seize\<rparr>"
    "c' = (data_of (lq_config ctx))\<lparr>c_total_burned := c_total_burned c'\<rparr>"
    "unat (c_total_burned c') = unat (c_total_burned (data_of (lq_config ctx))) + unat repaid"
    "lq_sss_mint ctx = c_mint (data_of (lq_config ctx))" "\<not> flag_set (data_of (lq_config ctx)) FLAG_CIRCUIT_BREAKER"
    "cc_whitelisted (data_of cca)" "min_collateral \<le> seize"
proof -
  define repaid where "repaid owing = (if debt_to_repay = 0 \<or> owing \<le> debt_to_repay then owing else debt_to_repay)"
    for owing
  define seized where "seized owing raw = (if ucast (cv_deposited_amount (data_of (lq_vault ctx))) \<le> raw \<or>
      \<not> repaid owing < owing then cv_deposited_amount (data_of (lq_vault ctx)) else ucast raw)" for owing and raw :: u128
  show thesis
    using assms unfolding cdp_liquidate_v2_handler_def Let_def repaid_def [symmetric] seized_def [symmetric]
    apply (simp add: run_ok guarded_Inr arith_ok liquidate_accounts_def liquidation_open_def Let_def slippage_ok)
    apply (elim exE conjE)
    subgoal for smint _ cmint _ _ price worth owing owed ratio raw
      apply (rule that [of smint cmint price owing worth owed ratio "repaid owing" raw "seized owing raw"], assumption+)
                    apply (auto simp: repaid_def seized_def split del: if_split)
      done
    done
qed

section \<open>Version 1: who is liquidated and what is left\<close>

lemma health_bpsI:
  "collateral_value_e6 deposited price e cdec = Inr worth \<Longrightarrow> debt_value_e6 debt sdec = Inr owed \<Longrightarrow>
     ratio_bps_of worth owed = Inr ratio \<Longrightarrow> health_bps deposited price e cdec debt sdec = Inr ratio"
  by (simp add: health_bps_def)

lemma partial_seizure_le:
  assumes "partial_seizure deposited repay bonus price e cdec sdec = Inr seize"
  shows "unat seize \<le> unat deposited"
proof -
  from assms obtain q :: u128 where "seize = ucast (min q (ucast deposited))"
    by (auto simp: partial_seizure_def run_ok)
  moreover have "unat (min q (ucast deposited)) < 2 ^ LENGTH(64)"
    using unat_lt [of deposited] by (simp add: unat_min)
  ultimately show ?thesis by (simp add: unat_narrow_small unat_min)
qed

lemma liquidation_amounts_ok:
  assumes "liquidation_amounts deposited p effective repay terms price e cdec sdec = Inr (burn, seize)"
    and "unat effective = unat (cp_debt_amount p) + unat (cp_accrued_fees p)"
  shows "unat seize \<le> unat deposited"
    and "if 0 < repay \<and> repay < cp_debt_amount p
         then burn = repay \<and> (\<exists>remaining post.
           unat remaining = unat (cp_debt_amount p) - unat repay + unat (cp_accrued_fees p) \<and>
           health_bps (saturating_sub deposited seize) price e cdec remaining sdec = Inr post \<and> fst terms \<le> post)
         else burn = effective \<and> seize = deposited"
proof -
  show "unat seize \<le> unat deposited"
    using assms(1) by (auto simp: liquidation_amounts_def run_ok split: if_splits dest: partial_seizure_le)
  show "if 0 < repay \<and> repay < cp_debt_amount p
         then burn = repay \<and> (\<exists>remaining post.
           unat remaining = unat (cp_debt_amount p) - unat repay + unat (cp_accrued_fees p) \<and>
           health_bps (saturating_sub deposited seize) price e cdec remaining sdec = Inr post \<and> fst terms \<le> post)
         else burn = effective \<and> seize = deposited"
  proof (cases "0 < repay \<and> repay < cp_debt_amount p")
    case True
    then obtain remaining where rem: "unat remaining = unat (saturating_sub (cp_debt_amount p) repay) + unat (cp_accrued_fees p)"
      and rest: "if remaining > 0 then \<exists>post. health_bps (saturating_sub deposited seize) price e cdec remaining sdec = Inr post \<and>
          fst terms \<le> post \<and> burn = repay else burn = repay"
      using assms(1) by (auto simp: liquidation_amounts_def run_ok arith_ok split: if_splits)
    have "0 < remaining" using True rem by (simp add: word_less_nat_alt unat_saturating_sub)
    with rest rem True show ?thesis by (auto simp: unat_saturating_sub)
  next
    case False
    with assms(1) show ?thesis by (auto simp: liquidation_amounts_def)
  qed
qed


section \<open>Version 2 and configured collateral\<close>

lemma div_superadd: "(a :: nat) div k + b div k \<le> (a + b) div k"
proof (cases "k = 0")
  case False
  have "(a div k + b div k) * k \<le> a + b"
    unfolding add_mult_distrib by (intro add_mono div_times_less_eq_dividend)
  with False show ?thesis by (simp add: less_eq_div_iff_mult_less_eq)
qed simp

lemma div_subadd: "0 < k \<Longrightarrow> ((a :: nat) + b) div k \<le> a div k + b div k + 1"
proof -
  assume k: "0 < k"
  have "(a + b) div k = a div k + b div k + (a mod k + b mod k) div k" by (rule div_add1_eq)
  moreover have "a mod k + b mod k < 2 * k" using k by (simp add: add_strict_mono mult_2)
  then have "(a mod k + b mod k) div k < 2" using k by (simp add: less_mult_imp_div_less)
  ultimately show ?thesis by simp
qed

text \<open>What \<open>n\<close> units of collateral are worth and what \<open>n\<close> units of debt are worth, in millionths.\<close>

definition worth_e6 :: "nat \<Rightarrow> nat \<Rightarrow> nat \<Rightarrow> nat \<Rightarrow> nat" where
  "worth_e6 n price e cdec = n * price * 1000000 div 10 ^ e div 10 ^ cdec"

lemma worth_e6_superadd: "worth_e6 a price e d + worth_e6 b price e d \<le> worth_e6 (a + b) price e d"
proof -
  have "worth_e6 a price e d + worth_e6 b price e d \<le>
      (a * price * 1000000 div 10 ^ e + b * price * 1000000 div 10 ^ e) div 10 ^ d"
    unfolding worth_e6_def by (rule div_superadd)
  also have "\<dots> \<le> (a * price * 1000000 + b * price * 1000000) div 10 ^ e div 10 ^ d"
    by (intro div_le_mono div_superadd)
  also have "\<dots> = worth_e6 (a + b) price e d" by (simp add: worth_e6_def add_mult_distrib)
  finally show ?thesis .
qed

lemma worth_e6_mono: "a \<le> b \<Longrightarrow> worth_e6 a price e d \<le> worth_e6 b price e d"
  unfolding worth_e6_def by (intro div_le_mono mult_le_mono1)

text \<open>The registry admits only thresholds up to 100 percent.\<close>

lemma registered_threshold:
  assumes "register_collateral_handler rt ctx cm ex par = Inr cc \<or> update_collateral_config_handler rt ctx cm old par = Inr cc"
  shows "unat (cc_liquidation_threshold_bps cc) \<le> 10000"
  using assms
  by (auto simp: register_collateral_handler_def update_collateral_config_handler_def run_ok guarded_Inr
      validate_collateral_params_def word_le_nat_alt)

lemma insolvent:
  assumes "ratio_bps_of worth owed = Inr ratio" and "ratio < ucast (t :: u16)" and "unat t \<le> 10000"
  shows "unat worth < unat owed"
proof -
  from assms(1) obtain a where "unat a = unat worth * unat (10000 :: u128)" "owed \<noteq> 0" "ratio = a div owed"
    by (auto simp: ratio_bps_of_def run_ok)
  then have r: "unat ratio = unat worth * 10000 div unat owed" and pos: "0 < unat owed"
    by (simp_all add: unat_div unat_gt_0)
  from assms(2,3) have "unat ratio < 10000" by (simp add: word_less_nat_alt)
  with r have "unat worth * 10000 < 10000 * unat owed" using pos by (simp add: div_less_iff_less_mult)
  then show ?thesis by simp
qed

text \<open>What a partial liquidation leaves: a position at one and a half times its debt or better is worth more than it.\<close>

lemma left_covered:
  assumes "health_bps dep price expo cdec rest sdec = Inr post" and "ucast MIN_COLLATERAL_RATIO_BPS \<le> post"
  shows "unat rest * 1000000 div 10 ^ sdec < worth_e6 (unat dep) (unat price) expo cdec"
proof -
  from assms(1) obtain left owe where l: "collateral_value_e6 dep price expo cdec = Inr left" and o: "debt_value_e6 rest sdec = Inr owe"
    and pos: "0 < unat owe" and ratio: "unat post = unat left * 10000 div unat owe"
    by (rule health_bps_ok)
  have "15000 \<le> unat left * 10000 div unat owe"
    using assms(2) by (simp add: ratio [symmetric] word_le_nat_alt MIN_COLLATERAL_RATIO_BPS_def)
  then have "15000 * unat owe \<le> unat left * 10000" using pos by (simp add: less_eq_div_iff_mult_less_eq)
  then have "unat owe < unat left" using pos by linarith
  moreover have "unat left = worth_e6 (unat dep) (unat price) expo cdec" using collateral_value_ok(1) [OF l] by (simp add: worth_e6_def)
  ultimately show ?thesis using debt_value_ok(1) [OF o] by simp
qed

text \<open>C16: A liquidation under a registered collateral configuration never pays the liquidator: the registry bounds
  the threshold by 100 percent, so version 2 opens only when the collateral is worth less than the debt, and
  whatever the amount repaid, the collateral handed over is worth strictly less than the stablecoins burned,
  bonus or not.\<close>

theorem registered_liquidation_never_pays:
  assumes "register_collateral_handler rt0 actx cm ex par = Inr cc0 \<or> update_collateral_config_handler rt0 actx cm old par = Inr cc0"
    and "cc_liquidation_threshold_bps (data_of cca) = cc_liquidation_threshold_bps cc0"
    and "token_ledger rt"
    and "cdp_liquidate_v2_handler rt w ctx cca debt_to_repay min_collateral = Inr (c', p', v', cc', w')"
  shows "\<exists>price smint cmint burned seized.
    v2_price ctx (rt_unix_timestamp rt) = Inr price \<and>
    rt_mint rt w (lq_sss_mint ctx) = Some smint \<and> rt_mint rt w (lq_collateral_mint ctx) = Some cmint \<and>
    supply_of rt w (lq_sss_mint ctx) = supply_of rt w' (lq_sss_mint ctx) + burned \<and>
    unat (cv_deposited_amount (data_of (lq_vault ctx))) = unat (cv_deposited_amount v') + seized \<and>
    worth_e6 seized (unat (i64_as_u128 (op_price price))) (nat \<bar>op_expo price\<bar>) (unat (tm_decimals cmint)) <
      burned * 1000000 div 10 ^ unat (tm_decimals smint)"
  using assms(4)
proof (cases rule: v2_ok)
  case (1 smint cmint price owing worth owed ratio repaid raw seize)
  let ?dep = "cv_deposited_amount (data_of (lq_vault ctx))"
  let ?W = "\<lambda>n. worth_e6 n (unat (i64_as_u128 (op_price price))) (nat \<bar>op_expo price\<bar>) (unat (tm_decimals cmint))"
  let ?D = "\<lambda>n. n * 1000000 div 10 ^ unat (tm_decimals smint)"
  have worth: "unat worth = ?W (unat ?dep)" using collateral_value_ok(1) [OF 1(5)] by (simp add: worth_e6_def)
  have owed: "unat owed = ?D (unat owing)" by (rule debt_value_ok(1) [OF 1(6)])
  have poor: "unat worth < unat owed"
    using insolvent [OF 1(7,8)] registered_threshold [OF assms(1)] assms(2) by simp
  have le: "unat seize \<le> unat ?dep"
  proof (cases "ucast ?dep \<le> raw \<or> \<not> repaid < owing")
    case False
    then have "unat raw < unat ?dep" "seize = ucast raw" using 1(11) by (auto simp: word_le_nat_alt)
    then show ?thesis using unat_lt [of ?dep] by (simp add: unat_narrow_small)
  qed (use 1(11) in simp)
  then have dep: "unat ?dep = unat (cv_deposited_amount v') + unat seize"
    by (simp add: 1(15) unat_saturating_sub)
  have "?W (unat seize) < ?D (unat repaid)"
  proof (cases "repaid < owing")
    case False
    then have "repaid = owing" using 1(9) by (auto simp: not_le split: if_splits)
    moreover have "?W (unat seize) \<le> unat worth"
      unfolding worth using le by (rule worth_e6_mono)
    ultimately show ?thesis using poor owed by simp
  next
    case True
    define rest where "rest = saturating_sub owing repaid"
    have rest: "unat owing = unat repaid + unat rest" "0 < rest"
      using True by (simp_all add: rest_def unat_saturating_sub word_less_nat_alt)
    with 1(12) True obtain post where post: "health_bps (saturating_sub ?dep seize) (i64_as_u128 (op_price price))
        (nat \<bar>op_expo price\<bar>) (unat (tm_decimals cmint)) rest (unat (tm_decimals smint)) = Inr post"
      "ucast MIN_COLLATERAL_RATIO_BPS \<le> post"
      by (auto simp: v2_health_left_def run_ok rest_def [symmetric])
    have "?D (unat rest) < ?W (unat (cv_deposited_amount v'))" using left_covered [OF post] by (simp add: 1(15))
    moreover have "?W (unat seize) + ?W (unat (cv_deposited_amount v')) \<le> unat worth"
      using worth_e6_superadd [of "unat seize" _ _ _ "unat (cv_deposited_amount v')"] dep
      by (simp add: worth add.commute)
    moreover have "unat owed \<le> ?D (unat repaid) + ?D (unat rest) + 1"
      using div_subadd [of "10 ^ unat (tm_decimals smint)" "unat repaid * 1000000" "unat rest * 1000000"]
      by (simp add: owed rest(1) add_mult_distrib)
    ultimately show ?thesis using poor by linarith
  qed
  then show ?thesis
    by (intro exI [of _ price] exI [of _ smint] exI [of _ cmint] exI [of _ "unat repaid"] exI [of _ "unat seize"] conjI
        1(1-3) settle_ok [OF assms(3) 1(13)] dep)
qed

section \<open>Concrete liquidations\<close>

definition demo_liquidate_ctx :: "stablecoin_config \<Rightarrow> feed_account \<Rightarrow> u64 \<Rightarrow> u64 \<Rightarrow> liquidate_ctx" where
  "demo_liquidate_ctx c feed deposit debt =
     \<lparr>lq_liquidator = 10, lq_config = demo_acct c, lq_sss_mint = 5, lq_liquidator_sss = 21,
      lq_position = \<lparr>key_of = ref_pda (position_seeds 5 9), data_of = demo_position\<lparr>cp_debt_amount := debt\<rparr>\<rparr>,
      lq_owner = 9,
      lq_vault = \<lparr>key_of = ref_pda (vault_seeds 5 9 6), data_of = demo_vault\<lparr>cv_deposited_amount := deposit\<rparr>\<rparr>,
      lq_collateral_mint = 6, lq_vault_token_account = 33, lq_liquidator_collateral = 32, lq_feed = feed,
      lq_collateral_config = None, lq_consensus = None\<rparr>"

lemmas liquidation_eval [eval_defs] =
  demo_liquidate_ctx_def cdp_liquidate_handler_def liquidate_accounts_def liquidation_open_def liquidation_terms_def
  liquidation_amounts_def partial_seizure_def health_bps_def debt_value_e6_def ratio_bps_of_def rdiv_def
  LIQUIDATION_THRESHOLD_BPS_def DEFAULT_LIQUIDATION_BONUS_BPS_def settle_liquidation_def lower_total_def
  debt_after_def


definition demo_registry :: "u16 \<Rightarrow> collateral_config res" where
  "demo_registry threshold =
     register_collateral_handler (ref_runtime 10 3 1030)
       \<lparr>ac_authority = 7, ac_config = demo_acct (demo_config\<lparr>c_admin_timelock_delay := 0\<rparr>), ac_mint = 5\<rparr> 6 None
       \<lparr>cpar_whitelisted = True, cpar_max_ltv_bps = 7500, cpar_liquidation_threshold_bps = threshold,
        cpar_liquidation_bonus_bps = 500, cpar_max_deposit_cap = 0\<rparr>"

definition demo_pyth :: "i64 \<Rightarrow> feed_account" where
  "demo_pyth price =
     \<lparr>fa_key = 60, fa_pyth = Some (\<lambda>now age. Some \<lparr>op_price = price, op_conf = 0, op_expo = - 8\<rparr>), fa_custom = None\<rparr>"

definition demo_cca :: "collateral_config \<Rightarrow> collateral_config account" where
  "demo_cca cc = \<lparr>key_of = ref_pda (collateral_config_seeds 5 6), data_of = cc\<lparr>cc_total_deposited := 1000\<rparr>\<rparr>"

lemmas v2_eval [eval_defs] =
  demo_registry_def demo_pyth_def demo_cca_def register_collateral_handler_def collateral_authority_def registry_gate_def
  validate_collateral_params_def collateral_config_ok_def liquidate_config_ok_def cdp_liquidate_v2_handler_def v2_price_def
  squads_gate_def verify_squads_signer_def pyth_get_price_def seize_raw_def v2_health_left_def v2_debt_after_def

text \<open>150 of collateral behind 220 of debt and fees: the liquidator burns 220 and gets 150.\<close>

theorem registered_liquidation_never_pays_witness:
  "\<exists>cc0 c' p' v' cc' w'. demo_registry 8500 = Inr cc0 \<and>
     cdp_liquidate_v2_handler (ref_runtime 10 3 1030) demo_cdp_ledger
       (demo_liquidate_ctx demo_config (demo_pyth 100000000) 150 200) (demo_cca cc0) 0 0 = Inr (c', p', v', cc', w') \<and>
     supply_of (ref_runtime 10 3 1030) w' 5 < supply_of (ref_runtime 10 3 1030) demo_cdp_ledger 5 - (150 - unat (cv_deposited_amount v'))"
proof -
  let ?ctx = "demo_liquidate_ctx demo_config (demo_pyth 100000000) 150 200"
  obtain cc0 where cc0: "demo_registry 8500 = Inr cc0" by (simp add: eval_defs demo_cfg_key_def)
  then have "cc0 = \<lparr>cc_sss_mint = 5, cc_collateral_mint = 6, cc_whitelisted = True, cc_max_ltv_bps = 7500,
      cc_liquidation_threshold_bps = 8500, cc_liquidation_bonus_bps = 500, cc_max_deposit_cap = 0,
      cc_total_deposited = 0, cc_bump = 255\<rparr>"
    by (simp add: eval_defs demo_cfg_key_def)
  then obtain c' p' v' cc' w' where run: "cdp_liquidate_v2_handler (ref_runtime 10 3 1030) demo_cdp_ledger ?ctx
      (demo_cca cc0) 0 0 = Inr (c', p', v', cc', w')"
    by (simp add: eval_defs demo_cfg_key_def)
  have reg: "cc_liquidation_threshold_bps (data_of (demo_cca cc0)) = cc_liquidation_threshold_bps cc0"
    by (simp add: demo_cca_def)
  have price: "v2_price ?ctx 1030 = Inr p \<longleftrightarrow> p = \<lparr>op_price = 100000000, op_conf = 0, op_expo = - 8\<rparr>" for p
    by (auto simp: eval_defs)
  have fields: "lq_sss_mint ?ctx = 5" "lq_collateral_mint ?ctx = 6" "cv_deposited_amount (data_of (lq_vault ?ctx)) = 150"
    by (simp_all add: demo_liquidate_ctx_def)
  have mints: "rl_mints demo_cdp_ledger 5 = Some m \<longleftrightarrow> m = \<lparr>tm_decimals = 6, tm_supply = 900\<rparr>"
    "rl_mints demo_cdp_ledger 6 = Some m \<longleftrightarrow> m = \<lparr>tm_decimals = 6, tm_supply = 2000\<rparr>" for m
    by (auto simp: demo_cdp_ledger_def demo_ledger_def)
  from registered_liquidation_never_pays [OF disjI1 [OF cc0 [unfolded demo_registry_def]] reg ref.token_ledger_axioms run]
  have "supply_of (ref_runtime 10 3 1030) w' 5 <
      supply_of (ref_runtime 10 3 1030) demo_cdp_ledger 5 - (150 - unat (cv_deposited_amount v'))"
    by (auto simp: price fields mints worth_e6_def i64_as_u128_def)
  with cc0 run show ?thesis by blast
qed

end
