(* ===== verification/Queue.thy ===== *)
theory Queue
  imports AuthGate RateWindow Demo Machine
begin

text \<open>
  The redemption queue (programs/sss-token/src/instructions/redemption\_queue.rs): holders put
  stablecoins into an escrow of their own and take a number; keepers settle the numbers in order
  after a delay, under a cap per slot; owners may cancel, and anyone may step the head over a
  settled number.
\<close>

section \<open>Accounts\<close>

record redemption_queue =
  rq_sss_mint :: pubkey
  rq_queue_head :: u64
  rq_queue_tail :: u64
  rq_min_delay_slots :: u64
  rq_max_queue_depth :: u64
  rq_max_redemption_per_slot_bps :: u16
  rq_last_slot_processed :: u64
  rq_slot_redemption_total :: u64
  rq_keeper_reward_lamports :: u64
  rq_bump :: u8

record redemption_entry =
  re_queue_index :: u64
  re_owner :: pubkey
  re_amount :: u64
  re_enqueue_slot :: u64
  re_slot_hash_seed :: "u8 list"
  re_fulfilled :: bool
  re_cancelled :: bool
  re_bump :: u8

definition DEFAULT_MIN_DELAY_SLOTS :: u64 where "DEFAULT_MIN_DELAY_SLOTS = 750"
definition DEFAULT_MAX_QUEUE_DEPTH :: u64 where "DEFAULT_MAX_QUEUE_DEPTH = 1000"
definition DEFAULT_MAX_REDEMPTION_PER_SLOT_BPS :: u16 where "DEFAULT_MAX_REDEMPTION_PER_SLOT_BPS = 100"
definition DEFAULT_KEEPER_REWARD_LAMPORTS :: u64 where "DEFAULT_KEEPER_REWARD_LAMPORTS = 1000000"

definition queue_seeds :: "pubkey \<Rightarrow> seed list" where
  "queue_seeds mint = [SeedStr ''redemption-queue'', SeedKey mint]"

definition entry_seeds :: "pubkey \<Rightarrow> u64 \<Rightarrow> seed list" where
  "entry_seeds mint i = [SeedStr ''redemption-entry'', SeedKey mint, SeedU64 i]"

definition escrow_seeds :: "pubkey \<Rightarrow> u64 \<Rightarrow> seed list" where
  "escrow_seeds mint i = [SeedStr ''queue-escrow'', SeedKey mint, SeedU64 i]"

definition queue_enabled :: "'w runtime \<Rightarrow> stablecoin_config account \<Rightarrow> (bool \<times> error) list" where
  "queue_enabled rt cfg =
     config_ok rt cfg (c_mint (data_of cfg)) @
     [(flag_set (data_of cfg) FLAG_REDEMPTION_QUEUE, Channel FeatureNotEnabled)]"

definition queue_ok ::
  "'w runtime \<Rightarrow> stablecoin_config account \<Rightarrow> redemption_queue account \<Rightarrow> (bool \<times> error) list" where
  "queue_ok rt cfg q =
     [(seeds_ok rt (key_of q) (queue_seeds (c_mint (data_of cfg))) (rq_bump (data_of q)), Anchor ConstraintSeeds),
      (rq_sss_mint (data_of q) = c_mint (data_of cfg), Queue RedemptionQueueNotInitialized)]"

definition entry_ok ::
  "'w runtime \<Rightarrow> stablecoin_config account \<Rightarrow> redemption_entry account \<Rightarrow> u64 \<Rightarrow> (bool \<times> error) list" where
  "entry_ok rt cfg e i =
     [(seeds_ok rt (key_of e) (entry_seeds (c_mint (data_of cfg)) i) (re_bump (data_of e)), Anchor ConstraintSeeds)]"

definition entry_pending :: "redemption_entry \<Rightarrow> (bool \<times> error) list" where
  "entry_pending e =
     [(\<not> re_fulfilled e, Queue RedemptionAlreadyProcessed), (\<not> re_cancelled e, Queue RedemptionAlreadyProcessed)]"

text \<open>The escrow of a number: at its derived address, of the mint passed in, owned by the queue's address.\<close>

definition escrow_ok ::
  "'w runtime \<Rightarrow> pubkey \<Rightarrow> u64 \<Rightarrow> pubkey \<Rightarrow> token_account \<Rightarrow> pubkey \<Rightarrow> pubkey \<Rightarrow> (bool \<times> error) list" where
  "escrow_ok rt mint i key acct stable_mint queue_key =
     [(key = fst (rt_find_pda rt (escrow_seeds mint i)), Anchor ConstraintSeeds),
      (ta_mint acct = stable_mint, Anchor ConstraintTokenMint),
      (ta_owner acct = queue_key, Anchor ConstraintTokenOwner)]"

section \<open>The handlers\<close>

definition init_redemption_queue_handler ::
  "'w runtime \<Rightarrow> pubkey \<Rightarrow> stablecoin_config account \<Rightarrow> redemption_queue option \<Rightarrow> redemption_queue res" where
  "init_redemption_queue_handler rt authority cfg existing =
     (let c = data_of cfg in
      guarded
        (config_ok rt cfg (c_mint c) @
         [(c_authority c = authority, Core Unauthorized),
          (flag_set c FLAG_REDEMPTION_QUEUE, Channel FeatureNotEnabled),
          (existing = None, Anchor AccountAlreadyInUse)])
        (Inr \<lparr>rq_sss_mint = c_mint c, rq_queue_head = 0, rq_queue_tail = 0,
              rq_min_delay_slots = DEFAULT_MIN_DELAY_SLOTS, rq_max_queue_depth = DEFAULT_MAX_QUEUE_DEPTH,
              rq_max_redemption_per_slot_bps = DEFAULT_MAX_REDEMPTION_PER_SLOT_BPS,
              rq_last_slot_processed = 0, rq_slot_redemption_total = 0,
              rq_keeper_reward_lamports = DEFAULT_KEEPER_REWARD_LAMPORTS,
              rq_bump = snd (rt_find_pda rt (queue_seeds (c_mint c)))\<rparr>))"

text \<open>
  \<open>eq_open_account w key mint owner\<close> is what the framework's \<open>init\<close> makes of the ledger when it
  creates the escrow; \<open>eq_slot_hashes\<close> is the raw data of the sysvar.
\<close>

record 'w enqueue_ctx =
  eq_user :: pubkey
  eq_config :: "stablecoin_config account"
  eq_queue :: "redemption_queue account"
  eq_existing :: "redemption_entry option"
  eq_user_stable :: pubkey
  eq_open_account :: "'w \<Rightarrow> pubkey \<Rightarrow> pubkey \<Rightarrow> pubkey \<Rightarrow> nat + 'w"
  eq_slot_hashes :: "u8 list"
  eq_stable_mint :: pubkey

definition slot_hash_seed :: "u8 list \<Rightarrow> u8 list" where
  "slot_hash_seed data = (if 24 \<le> length data then take 8 (drop 16 data) else replicate 8 0)"

definition enqueue_redemption_handler ::
  "'w runtime \<Rightarrow> 'w \<Rightarrow> 'w enqueue_ctx \<Rightarrow> u64 \<Rightarrow> (redemption_queue \<times> redemption_entry \<times> 'w) res" where
  "enqueue_redemption_handler rt w ctx amount =
     (let cfg = eq_config ctx; c = data_of cfg; mint = c_mint c; q = data_of (eq_queue ctx);
          i = rq_queue_tail q; sm = eq_stable_mint ctx; escrow = fst (rt_find_pda rt (escrow_seeds mint i)) in
      andthen (load_token rt w (eq_user_stable ctx)) (\<lambda>ut.
      andthen (load_mint rt w sm) (\<lambda>smint.
      guarded
        (queue_enabled rt cfg @ queue_ok rt cfg (eq_queue ctx) @
         [(ta_mint ut = sm, Anchor ConstraintTokenMint), (ta_owner ut = eq_user ctx, Anchor ConstraintTokenOwner),
          (eq_existing ctx = None, Anchor AccountAlreadyInUse)])
        (andthen (token_result (eq_open_account ctx w escrow sm (key_of (eq_queue ctx)))) (\<lambda>w0.
         guarded
           [(amount > 0, Backstop InvalidAmount),
            (saturating_sub i (rq_queue_head q) < rq_max_queue_depth q, Queue RedemptionQueueFull)]
           (andthen (cpi_signed rt w0 [eq_user ctx] (config_seeds mint) (c_bump c)
                       (ThawAccount escrow sm (key_of cfg))) (\<lambda>w1.
            andthen (cpi rt w1 [eq_user ctx] (TransferChecked (eq_user_stable ctx) sm escrow (eq_user ctx) amount
                       (tm_decimals smint))) (\<lambda>w2.
            Inr (q\<lparr>rq_queue_tail := saturating_add i 1\<rparr>,
                 \<lparr>re_queue_index = i, re_owner = eq_user ctx, re_amount = amount, re_enqueue_slot = rt_slot rt,
                  re_slot_hash_seed = slot_hash_seed (eq_slot_hashes ctx), re_fulfilled = False, re_cancelled = False,
                  re_bump = snd (rt_find_pda rt (entry_seeds mint i))\<rparr>, w2)))))))))"

text \<open>What may leave the queue in one slot, and the counter that keeps to it.\<close>

definition slot_cap :: "u64 \<Rightarrow> u16 \<Rightarrow> u64" where
  "slot_cap stable_supply bps = max (saturating_mul stable_supply (ucast bps) div 10000) 1"

definition slot_charge :: "u64 \<Rightarrow> u64 \<Rightarrow> u64 \<Rightarrow> redemption_queue \<Rightarrow> redemption_queue res" where
  "slot_charge slot stable_supply amount q =
     (let q1 = (if slot \<noteq> rq_last_slot_processed q
                then q\<lparr>rq_last_slot_processed := slot, rq_slot_redemption_total := 0\<rparr> else q) in
      guarded
        [(saturating_add (rq_slot_redemption_total q1) amount \<le>
            slot_cap stable_supply (rq_max_redemption_per_slot_bps q1), Queue RedemptionSlotCapExceeded)]
        (Inr (q1\<lparr>rq_slot_redemption_total := saturating_add (rq_slot_redemption_total q1) amount\<rparr>)))"

record process_ctx =
  pr_keeper :: pubkey
  pr_config :: "stablecoin_config account"
  pr_queue :: "redemption_queue account"
  pr_entry :: "redemption_entry account"
  pr_escrow :: pubkey
  pr_reserve_vault :: pubkey
  pr_reserve_vault_authority :: pubkey
  pr_user_collateral :: pubkey
  pr_stable_mint :: pubkey
  pr_collateral_mint :: pubkey
  pr_queue_lamports :: u64
  pr_rent_minimum :: u64
  pr_keeper_lamports :: u64

text \<open>The keeper's reward: what the queue's account holds beyond its rent, at most.\<close>

definition keeper_payment :: "u64 \<Rightarrow> u64 \<Rightarrow> u64 \<Rightarrow> u64 \<Rightarrow> (u64 \<times> u64) res" where
  "keeper_payment reward queue_lamports rent_minimum keeper_lamports =
     (let actual = min reward (saturating_sub queue_lamports rent_minimum) in
      if reward > 0 \<and> actual > 0 then
        andthen (ok_or (checked_sub queue_lamports actual) Panic) (\<lambda>ql.
        andthen (ok_or (checked_add keeper_lamports actual) Panic) (\<lambda>kl. Inr (ql, kl)))
      else Inr (queue_lamports, keeper_lamports))"

definition process_accounts ::
  "'w runtime \<Rightarrow> process_ctx \<Rightarrow> u64 \<Rightarrow> token_account \<Rightarrow> token_account \<Rightarrow> (bool \<times> error) list" where
  "process_accounts rt ctx i esc rv =
     (let cfg = pr_config ctx in
      queue_enabled rt cfg @ queue_ok rt cfg (pr_queue ctx) @ entry_ok rt cfg (pr_entry ctx) i @
      entry_pending (data_of (pr_entry ctx)) @
      escrow_ok rt (c_mint (data_of cfg)) i (pr_escrow ctx) esc (pr_stable_mint ctx) (key_of (pr_queue ctx)) @
      [(ta_owner rv = pr_reserve_vault_authority ctx, Anchor ConstraintTokenOwner)])"

definition process_redemption_handler ::
  "'w runtime \<Rightarrow> 'w \<Rightarrow> process_ctx \<Rightarrow> u64 \<Rightarrow>
     (stablecoin_config \<times> redemption_queue \<times> redemption_entry \<times> (u64 \<times> u64) \<times> 'w) res" where
  "process_redemption_handler rt w ctx i =
     (let cfg = pr_config ctx; c = data_of cfg; mint = c_mint c; q = data_of (pr_queue ctx); e = data_of (pr_entry ctx);
          amount = re_amount e; sgs = [pr_keeper ctx, pr_reserve_vault_authority ctx] in
      andthen (load_token rt w (pr_escrow ctx)) (\<lambda>esc.
      andthen (load_token rt w (pr_reserve_vault ctx)) (\<lambda>rv.
      andthen (load_token rt w (pr_user_collateral ctx)) (\<lambda>uc.
      andthen (load_mint rt w (pr_stable_mint ctx)) (\<lambda>smint.
      andthen (load_mint rt w (pr_collateral_mint ctx)) (\<lambda>cmint.
      guarded
        (process_accounts rt ctx i esc rv @
         [(i = rq_queue_head q, Queue RedemptionQueueOutOfOrder),
          (saturating_add (re_enqueue_slot e) (rq_min_delay_slots q) \<le> rt_slot rt, Queue RedemptionNotReady)])
        (andthen (slot_charge (rt_slot rt) (tm_supply smint) amount q) (\<lambda>q1.
         andthen (cpi_signed rt w sgs (queue_seeds mint) (rq_bump q)
                    (Burn (pr_stable_mint ctx) (pr_escrow ctx) (key_of (pr_queue ctx)) amount)) (\<lambda>w1.
         andthen (cpi rt w1 sgs (TransferChecked (pr_reserve_vault ctx) (pr_collateral_mint ctx)
                    (pr_user_collateral ctx) (pr_reserve_vault_authority ctx) amount (tm_decimals cmint))) (\<lambda>w2.
         andthen (ok_or (checked_add (c_total_burned c) amount) (Late Overflow)) (\<lambda>tb.
         andthen (ok_or (checked_sub (c_total_collateral c) amount) (Late Overflow)) (\<lambda>tc.
         andthen (keeper_payment (rq_keeper_reward_lamports q) (pr_queue_lamports ctx) (pr_rent_minimum ctx)
                    (pr_keeper_lamports ctx)) (\<lambda>pay.
         Inr (c\<lparr>c_total_burned := tb, c_total_collateral := tc\<rparr>,
              q1\<lparr>rq_queue_head := saturating_add (rq_queue_head q1) 1\<rparr>,
              e\<lparr>re_fulfilled := True\<rparr>, pay, w2))))))))))))))"

definition update_redemption_queue_handler ::
  "'w runtime \<Rightarrow> pubkey \<Rightarrow> stablecoin_config account \<Rightarrow> redemption_queue account \<Rightarrow>
     u64 option \<Rightarrow> u64 option \<Rightarrow> u16 option \<Rightarrow> u64 option \<Rightarrow> redemption_queue res" where
  "update_redemption_queue_handler rt authority cfg q delay depth bps reward =
     (let q1 = (case delay of None \<Rightarrow> data_of q | Some v \<Rightarrow> (data_of q)\<lparr>rq_min_delay_slots := v\<rparr>) in
      guarded
        (config_ok rt cfg (c_mint (data_of cfg)) @ [(c_authority (data_of cfg) = authority, Core Unauthorized)] @
         queue_ok rt cfg q @
         (case depth of None \<Rightarrow> [] | Some v \<Rightarrow> [(v > 0, Backstop InvalidAmount)]) @
         (case bps of None \<Rightarrow> [] | Some v \<Rightarrow> [(v \<le> 10000, Backstop InvalidAmount)]))
        (let q2 = (case depth of None \<Rightarrow> q1 | Some v \<Rightarrow> q1\<lparr>rq_max_queue_depth := v\<rparr>);
             q3 = (case bps of None \<Rightarrow> q2 | Some v \<Rightarrow> q2\<lparr>rq_max_redemption_per_slot_bps := v\<rparr>) in
         Inr (case reward of None \<Rightarrow> q3 | Some v \<Rightarrow> q3\<lparr>rq_keeper_reward_lamports := v\<rparr>)))"

record cancel_ctx =
  ca_owner :: pubkey
  ca_config :: "stablecoin_config account"
  ca_queue :: "redemption_queue account"
  ca_entry :: "redemption_entry account"
  ca_escrow :: pubkey
  ca_user_stable :: pubkey
  ca_stable_mint :: pubkey

definition cancel_redemption_handler ::
  "'w runtime \<Rightarrow> 'w \<Rightarrow> cancel_ctx \<Rightarrow> u64 \<Rightarrow> (redemption_queue \<times> redemption_entry \<times> 'w) res" where
  "cancel_redemption_handler rt w ctx i =
     (let cfg = ca_config ctx; mint = c_mint (data_of cfg); q = data_of (ca_queue ctx); e = data_of (ca_entry ctx) in
      andthen (load_token rt w (ca_escrow ctx)) (\<lambda>esc.
      andthen (load_token rt w (ca_user_stable ctx)) (\<lambda>us.
      andthen (load_mint rt w (ca_stable_mint ctx)) (\<lambda>smint.
      guarded
        (config_ok rt cfg mint @ queue_ok rt cfg (ca_queue ctx) @ entry_ok rt cfg (ca_entry ctx) i @
         [(re_owner e = ca_owner ctx, Queue RedemptionNotOwner)] @ entry_pending e @
         escrow_ok rt mint i (ca_escrow ctx) esc (ca_stable_mint ctx) (key_of (ca_queue ctx)) @
         [(ta_mint us = ca_stable_mint ctx, Anchor ConstraintTokenMint),
          (ta_owner us = ca_owner ctx, Anchor ConstraintTokenOwner)])
        (andthen (cpi_signed rt w [ca_owner ctx] (queue_seeds mint) (rq_bump q)
                    (TransferChecked (ca_escrow ctx) (ca_stable_mint ctx) (ca_user_stable ctx) (key_of (ca_queue ctx))
                       (re_amount e) (tm_decimals smint))) (\<lambda>w'.
         Inr (if i = rq_queue_head q then q\<lparr>rq_queue_head := saturating_add (rq_queue_head q) 1\<rparr> else q,
              e\<lparr>re_cancelled := True\<rparr>, w')))))))"

definition compact_redemption_head_handler ::
  "'w runtime \<Rightarrow> stablecoin_config account \<Rightarrow> redemption_queue account \<Rightarrow> redemption_entry account \<Rightarrow> u64 \<Rightarrow>
     redemption_queue res" where
  "compact_redemption_head_handler rt cfg q e i =
     guarded
       (queue_enabled rt cfg @ queue_ok rt cfg q @ entry_ok rt cfg e i @
        [(re_cancelled (data_of e) \<or> re_fulfilled (data_of e), Queue RedemptionQueueOutOfOrder),
         (i = rq_queue_head (data_of q), Queue RedemptionQueueOutOfOrder)])
       (Inr ((data_of q)\<lparr>rq_queue_head := saturating_add (rq_queue_head (data_of q)) 1\<rparr>))"

section \<open>Histories of a queue\<close>

text \<open>
  The state that the instructions of the queue share, and their events. The accounts of an event are
  those the caller passes, with the data the state holds; \<open>Elsewhere\<close> is whatever the rest of the
  chain does to the configuration and to the ledger in between.
\<close>

record 'w queue_world =
  qw_config :: stablecoin_config
  qw_queue :: redemption_queue
  qw_entries :: "u64 \<Rightarrow> redemption_entry option"
  qw_ledger :: 'w

datatype 'w queue_event =
    Enqueue "'w runtime" "'w enqueue_ctx" u64
  | Settle "'w runtime" process_ctx u64
  | Withdraw "'w runtime" cancel_ctx u64
  | Compact "'w runtime" "pubkey \<times> pubkey \<times> pubkey" u64
  | Retune "'w runtime" "pubkey \<times> pubkey \<times> pubkey" "u64 option" "u64 option" "u16 option" "u64 option"
  | Elsewhere "stablecoin_config \<Rightarrow> 'w \<Rightarrow> stablecoin_config \<times> 'w"

definition entry_at :: "'w queue_world \<Rightarrow> u64 \<Rightarrow> redemption_entry res" where
  "entry_at s i = ok_or (qw_entries s i) (Anchor AccountNotInitialized)"

fun queue_exec :: "'w queue_event \<Rightarrow> 'w queue_world \<Rightarrow> 'w queue_world res" where
  "queue_exec (Enqueue rt ctx amount) s =
     (let i = rq_queue_tail (qw_queue s) in
      andthen (enqueue_redemption_handler rt (qw_ledger s)
          (ctx\<lparr>eq_config := set_data (eq_config ctx) (qw_config s), eq_queue := set_data (eq_queue ctx) (qw_queue s),
               eq_existing := qw_entries s i\<rparr>) amount)
        (\<lambda>(q, e, w). Inr (s\<lparr>qw_queue := q, qw_entries := (qw_entries s)(i \<mapsto> e), qw_ledger := w\<rparr>)))"
| "queue_exec (Settle rt ctx i) s =
     andthen (entry_at s i) (\<lambda>e0.
     andthen (process_redemption_handler rt (qw_ledger s)
         (ctx\<lparr>pr_config := set_data (pr_config ctx) (qw_config s), pr_queue := set_data (pr_queue ctx) (qw_queue s),
              pr_entry := set_data (pr_entry ctx) e0\<rparr>) i)
       (\<lambda>(c, q, e, pay, w). Inr (s\<lparr>qw_config := c, qw_queue := q, qw_entries := (qw_entries s)(i \<mapsto> e), qw_ledger := w\<rparr>)))"
| "queue_exec (Withdraw rt ctx i) s =
     andthen (entry_at s i) (\<lambda>e0.
     andthen (cancel_redemption_handler rt (qw_ledger s)
         (ctx\<lparr>ca_config := set_data (ca_config ctx) (qw_config s), ca_queue := set_data (ca_queue ctx) (qw_queue s),
              ca_entry := set_data (ca_entry ctx) e0\<rparr>) i)
       (\<lambda>(q, e, w). Inr (s\<lparr>qw_queue := q, qw_entries := (qw_entries s)(i \<mapsto> e), qw_ledger := w\<rparr>)))"
| "queue_exec (Compact rt (ck, qk, ek) i) s =
     andthen (entry_at s i) (\<lambda>e.
     andthen (compact_redemption_head_handler rt \<lparr>key_of = ck, data_of = qw_config s\<rparr>
         \<lparr>key_of = qk, data_of = qw_queue s\<rparr> \<lparr>key_of = ek, data_of = e\<rparr> i)
       (\<lambda>q. Inr (s\<lparr>qw_queue := q\<rparr>)))"
| "queue_exec (Retune rt (authority, ck, qk) delay depth bps reward) s =
     andthen (update_redemption_queue_handler rt authority \<lparr>key_of = ck, data_of = qw_config s\<rparr>
         \<lparr>key_of = qk, data_of = qw_queue s\<rparr> delay depth bps reward)
       (\<lambda>q. Inr (s\<lparr>qw_queue := q\<rparr>))"
| "queue_exec (Elsewhere f) s =
     (let r = f (qw_config s) (qw_ledger s) in Inr (s\<lparr>qw_config := fst r, qw_ledger := snd r\<rparr>))"

section \<open>The specification: a line with numbers\<close>

text \<open>
  The abstract state is the next number to hand out and the numbers that wait, in order. Whoever
  joins gets the next number at the end of the line; only the first is served; anyone in the line
  may leave it.
\<close>

datatype line_op = Join | Serve nat | Leave nat | Idle

type_synonym line = "nat \<times> nat list"

fun line_step :: "line_op \<Rightarrow> line \<Rightarrow> line option" where
  "line_step Join (n, ws) = Some (n + 1, ws @ [n])"
| "line_step (Serve i) (n, ws) = (case ws of [] \<Rightarrow> None | w # rest \<Rightarrow> if w = i then Some (n, rest) else None)"
| "line_step (Leave i) (n, ws) = (if i \<in> set ws then Some (n, remove1 i ws) else None)"
| "line_step Idle l = Some l"

fun line_run :: "line_op list \<Rightarrow> line \<Rightarrow> line option" where
  "line_run [] l = Some l"
| "line_run (a # as) l = (case line_step a l of None \<Rightarrow> None | Some l' \<Rightarrow> line_run as l')"

fun served :: "line_op list \<Rightarrow> nat list" where
  "served [] = []"
| "served (Serve i # as) = i # served as"
| "served (a # as) = served as"

lemma sorted_wrt_remove1: "sorted_wrt R xs \<Longrightarrow> sorted_wrt R (remove1 x xs)"
  by (induction xs) (auto dest: notin_set_remove1)

text \<open>Of a line in order, the numbers served come in order, none twice.\<close>

lemma served_in_order:
  assumes "line_run as (n, ws) = Some l" and "sorted_wrt (<) ws" and "\<forall>w \<in> set ws. w < n"
  shows "sorted_wrt (<) (served as) \<and> (\<forall>i \<in> set (served as). i \<in> set ws \<or> n \<le> i)"
  using assms
proof (induction as arbitrary: n ws)
  case Nil
  then show ?case by simp
next
  case (Cons a as)
  then obtain n' ws' where step: "line_step a (n, ws) = Some (n', ws')" and rest: "line_run as (n', ws') = Some l"
    by (auto split: option.splits)
  have "sorted_wrt (<) ws' \<and> (\<forall>w \<in> set ws'. w < n') \<and> set ws' \<subseteq> set ws \<union> {n} \<and> n \<le> n'"
    using step Cons.prems(2,3)
    by (cases a) (auto simp: sorted_wrt_append less_Suc_eq split: if_splits list.splits
        dest: notin_set_remove1 intro: sorted_wrt_remove1)
  then have IH: "sorted_wrt (<) (served as) \<and> (\<forall>i \<in> set (served as). i \<in> set ws' \<or> n' \<le> i)"
    and sub: "set ws' \<subseteq> set ws \<union> {n}" "n \<le> n'" using Cons.IH [OF rest] by blast+
  show ?case
  proof (cases "\<exists>i. a = Serve i")
    case True
    then obtain i where a: "a = Serve i" by blast
    with step have "ws = i # ws'" "n' = n" by (auto split: list.splits if_splits)
    with IH Cons.prems(2,3) a show ?thesis by fastforce
  next
    case False
    then have "served (a # as) = served as" by (cases a) auto
    with IH sub show ?thesis by fastforce
  qed
qed

section \<open>Successful runs\<close>

lemma enqueue_ok:
  assumes "enqueue_redemption_handler rt w ctx amount = Inr (q', e', w')"
  shows "q' = (data_of (eq_queue ctx))\<lparr>rq_queue_tail := saturating_add (rq_queue_tail (data_of (eq_queue ctx))) 1\<rparr>"
    and "re_amount e' = amount" "re_owner e' = eq_user ctx" "\<not> re_fulfilled e'" "\<not> re_cancelled e'"
    and "re_enqueue_slot e' = rt_slot rt" "re_queue_index e' = rq_queue_tail (data_of (eq_queue ctx))"
    and "0 < unat amount" and "eq_existing ctx = None"
    and "unat (rq_queue_tail (data_of (eq_queue ctx))) - unat (rq_queue_head (data_of (eq_queue ctx))) <
           unat (rq_max_queue_depth (data_of (eq_queue ctx)))"
  using assms
  by (auto simp: enqueue_redemption_handler_def Let_def run_ok guarded_Inr word_less_nat_alt arith_ok)

lemma slot_charge_ok:
  assumes "slot_charge slot stable_supply amount q = Inr q'"
  shows "rq_last_slot_processed q' = slot" and "rq_queue_head q' = rq_queue_head q" "rq_queue_tail q' = rq_queue_tail q"
    and "unat (rq_slot_redemption_total q') = (if rq_last_slot_processed q = slot
           then unat (rq_slot_redemption_total q) else 0) + unat amount \<or>
         unat (rq_slot_redemption_total q') = 2 ^ 64 - 1"
    and "rq_slot_redemption_total q' \<le> slot_cap stable_supply (rq_max_redemption_per_slot_bps q)"
  using assms by (auto simp: slot_charge_def Let_def run_ok arith_ok min_def split: if_splits)

lemma process_ok:
  assumes "process_redemption_handler rt w ctx i = Inr (c', q', e', pay, w')"
  obtains smint q1 w1 k d where
    "rt_mint rt w (pr_stable_mint ctx) = Some smint"
    "slot_charge (rt_slot rt) (tm_supply smint) (re_amount (data_of (pr_entry ctx))) (data_of (pr_queue ctx)) = Inr q1"
    "rt_invoke rt w (k # [pr_keeper ctx, pr_reserve_vault_authority ctx]) (Burn (pr_stable_mint ctx) (pr_escrow ctx)
       (key_of (pr_queue ctx)) (re_amount (data_of (pr_entry ctx)))) = Inr w1"
    "rt_invoke rt w1 [pr_keeper ctx, pr_reserve_vault_authority ctx] (TransferChecked (pr_reserve_vault ctx)
       (pr_collateral_mint ctx) (pr_user_collateral ctx) (pr_reserve_vault_authority ctx)
       (re_amount (data_of (pr_entry ctx))) d) = Inr w'"
    "q' = q1\<lparr>rq_queue_head := saturating_add (rq_queue_head q1) 1\<rparr>"
    "e' = (data_of (pr_entry ctx))\<lparr>re_fulfilled := True\<rparr>"
    "i = rq_queue_head (data_of (pr_queue ctx))"
    "\<not> re_fulfilled (data_of (pr_entry ctx))" "\<not> re_cancelled (data_of (pr_entry ctx))"
    "min (unat (re_enqueue_slot (data_of (pr_entry ctx))) + unat (rq_min_delay_slots (data_of (pr_queue ctx)))) (2 ^ 64 - 1)
       \<le> unat (rt_slot rt)"
    "c' = (data_of (pr_config ctx))\<lparr>c_total_burned := c_total_burned c', c_total_collateral := c_total_collateral c'\<rparr>"
    "unat (c_total_burned c') = unat (c_total_burned (data_of (pr_config ctx))) + unat (re_amount (data_of (pr_entry ctx)))"
    "unat (c_total_collateral (data_of (pr_config ctx))) = unat (re_amount (data_of (pr_entry ctx))) + unat (c_total_collateral c')"
  using assms unfolding process_redemption_handler_def Let_def
  apply (simp add: run_ok guarded_Inr arith_ok process_accounts_def entry_pending_def word_le_nat_alt Let_def)
  apply (elim exE conjE)
  apply (rule that, assumption+)
  apply auto
  done

lemma cancel_ok:
  assumes "cancel_redemption_handler rt w ctx i = Inr (q', e', w')"
  shows "q' = (if i = rq_queue_head (data_of (ca_queue ctx))
      then (data_of (ca_queue ctx))\<lparr>rq_queue_head := saturating_add (rq_queue_head (data_of (ca_queue ctx))) 1\<rparr>
      else data_of (ca_queue ctx))"
    and "e' = (data_of (ca_entry ctx))\<lparr>re_cancelled := True\<rparr>"
    and "\<not> re_fulfilled (data_of (ca_entry ctx))" "\<not> re_cancelled (data_of (ca_entry ctx))"
    and "re_owner (data_of (ca_entry ctx)) = ca_owner ctx"
    and "\<exists>k d. rt_invoke rt w (k # [ca_owner ctx]) (TransferChecked (ca_escrow ctx) (ca_stable_mint ctx)
           (ca_user_stable ctx) (key_of (ca_queue ctx)) (re_amount (data_of (ca_entry ctx))) d) = Inr w'"
  using assms by (auto simp: cancel_redemption_handler_def Let_def run_ok guarded_Inr entry_pending_def)

lemma compact_ok:
  assumes "compact_redemption_head_handler rt cfg q e i = Inr q'"
  shows "q' = (data_of q)\<lparr>rq_queue_head := saturating_add (rq_queue_head (data_of q)) 1\<rparr>"
    and "i = rq_queue_head (data_of q)" and "re_cancelled (data_of e) \<or> re_fulfilled (data_of e)"
  using assms by (auto simp: compact_redemption_head_handler_def run_ok guarded_Inr)

lemma update_queue_ok:
  assumes "update_redemption_queue_handler rt authority cfg q delay depth bps reward = Inr q'"
  shows "rq_queue_head q' = rq_queue_head (data_of q)" and "rq_queue_tail q' = rq_queue_tail (data_of q)"
  using assms by (auto simp: update_redemption_queue_handler_def Let_def run_ok guarded_Inr split: option.splits)

section \<open>The queue is a line with numbers\<close>

definition pending :: "redemption_entry \<Rightarrow> bool" where
  "pending e \<longleftrightarrow> \<not> re_fulfilled e \<and> \<not> re_cancelled e"

definition waits :: "(u64 \<Rightarrow> redemption_entry option) \<Rightarrow> nat \<Rightarrow> bool" where
  "waits es n = (case es (of_nat n) of None \<Rightarrow> False | Some e \<Rightarrow> pending e)"

definition line_at :: "nat \<Rightarrow> nat \<Rightarrow> (u64 \<Rightarrow> redemption_entry option) \<Rightarrow> line" where
  "line_at h t es = (t, filter (waits es) [h ..< t])"

definition wf_at :: "nat \<Rightarrow> nat \<Rightarrow> (u64 \<Rightarrow> redemption_entry option) \<Rightarrow> bool" where
  "wf_at h t es \<longleftrightarrow> h \<le> t \<and> (\<forall>i. es i \<noteq> None \<longleftrightarrow> unat i < t) \<and>
     (\<forall>i e. es i = Some e \<and> unat i < h \<longrightarrow> \<not> pending e)"

abbreviation head_of :: "'w queue_world \<Rightarrow> nat" where "head_of s \<equiv> unat (rq_queue_head (qw_queue s))"
abbreviation tail_of :: "'w queue_world \<Rightarrow> nat" where "tail_of s \<equiv> unat (rq_queue_tail (qw_queue s))"

definition line_of :: "'w queue_world \<Rightarrow> line" where
  "line_of s = line_at (head_of s) (tail_of s) (qw_entries s)"

definition queue_wf :: "'w queue_world \<Rightarrow> bool" where
  "queue_wf s \<longleftrightarrow> wf_at (head_of s) (tail_of s) (qw_entries s)"

fun op_of :: "'w queue_event \<Rightarrow> line_op" where
  "op_of (Enqueue rt ctx amount) = Join"
| "op_of (Settle rt ctx i) = Serve (unat i)"
| "op_of (Withdraw rt ctx i) = Leave (unat i)"
| "op_of e = Idle"

text \<open>The operations of the events that go through.\<close>

fun queue_log :: "'w queue_event list \<Rightarrow> 'w queue_world \<Rightarrow> line_op list" where
  "queue_log [] s = []"
| "queue_log (e # es) s = (case queue_exec e s of Inl _ \<Rightarrow> queue_log es s | Inr s' \<Rightarrow> op_of e # queue_log es s')"

lemma waits_upd: "waits (es(i \<mapsto> e)) n \<longleftrightarrow> (if of_nat n = i then pending e else waits es n)"
  by (simp add: waits_def)

lemma of_nat_u64: "n < 2 ^ 64 \<Longrightarrow> (of_nat n :: u64) = i \<longleftrightarrow> n = unat i"
  by (auto simp: word_unat_eq_iff unat_of_nat)

text \<open>Joining: a new pending entry at the tail.\<close>

lemma line_join:
  assumes "wf_at h (unat i) es" and "unat i + 1 < 2 ^ 64" and "pending e"
  shows "wf_at h (unat i + 1) (es(i \<mapsto> e))"
    and "line_step Join (line_at h (unat i) es) = Some (line_at h (unat i + 1) (es(i \<mapsto> e)))"
proof -
  have "filter (waits (es(i \<mapsto> e))) [h ..< unat i] = filter (waits es) [h ..< unat i]"
    using assms(2) by (intro filter_cong) (auto simp: waits_upd of_nat_u64)
  moreover have "waits (es(i \<mapsto> e)) (unat i)" using assms(3) by (simp add: waits_upd)
  ultimately show "line_step Join (line_at h (unat i) es) = Some (line_at h (unat i + 1) (es(i \<mapsto> e)))"
    using assms(1) by (simp add: line_at_def wf_at_def)
  show "wf_at h (unat i + 1) (es(i \<mapsto> e))"
    using assms(1) by (auto simp: wf_at_def word_unat_eq_iff less_Suc_eq)
qed

text \<open>Settling a pending number, with or without stepping the head over it.\<close>

lemma line_settle:
  assumes "wf_at h t es" and "t < 2 ^ 64" and "es i = Some e0" and "pending e0" and "\<not> pending e"
  shows "wf_at (if unat i = h then h + 1 else h) t (es(i \<mapsto> e))"
    and "line_step (Leave (unat i)) (line_at h t es) =
           Some (line_at (if unat i = h then h + 1 else h) t (es(i \<mapsto> e)))"
    and "unat i = h \<Longrightarrow> line_step (Serve (unat i)) (line_at h t es) = Some (line_at (h + 1) t (es(i \<mapsto> e)))"
proof -
  have lt: "unat i < t" using assms(1,3) by (auto simp: wf_at_def)
  have ge: "h \<le> unat i" using assms(1,3,4) by (auto simp: wf_at_def not_less [symmetric])
  have wait: "waits es (unat i)" using assms(3,4) by (simp add: waits_def)
  show "wf_at (if unat i = h then h + 1 else h) t (es(i \<mapsto> e))"
    using assms(1,5) lt by (auto simp: wf_at_def less_Suc_eq word_unat_eq_iff)
  have others: "filter (waits (es(i \<mapsto> e))) xs = filter (\<lambda>n. n \<noteq> unat i) (filter (waits es) xs)"
    if "set xs \<subseteq> {..< t}" for xs
  proof -
    have "of_nat x = i \<longleftrightarrow> x = unat i" if "x \<in> set xs" for x
      using that \<open>set xs \<subseteq> {..< t}\<close> assms(2) by (intro of_nat_u64) auto
    then have "filter (waits (es(i \<mapsto> e))) xs = filter (\<lambda>n. waits es n \<and> n \<noteq> unat i) xs"
      using assms(5) by (intro filter_cong) (simp_all add: waits_upd)
    then show ?thesis by (simp add: conj_commute)
  qed
  have gone: "filter (\<lambda>n. n \<noteq> unat i) (filter (waits es) [h ..< t]) = remove1 (unat i) (filter (waits es) [h ..< t])"
    by (simp add: distinct_remove1_removeAll removeAll_filter_not_eq eq_commute)
  have first: "filter (waits es) [h ..< t] = h # filter (waits es) [Suc h ..< t]" if "unat i = h"
    using that lt wait by (simp add: upt_conv_Cons)
  have stay: "filter (waits (es(i \<mapsto> e))) [Suc h ..< t] = filter (waits es) [Suc h ..< t]" if "unat i = h"
    using that by (subst others) (auto intro: filter_cong)
  show "line_step (Serve (unat i)) (line_at h t es) = Some (line_at (h + 1) t (es(i \<mapsto> e)))" if "unat i = h"
    using first [OF that] stay [OF that] that by (simp add: line_at_def)
  have mem: "unat i \<in> set (filter (waits es) [h ..< t])" using ge lt wait by simp
  show "line_step (Leave (unat i)) (line_at h t es) =
      Some (line_at (if unat i = h then h + 1 else h) t (es(i \<mapsto> e)))"
  proof (cases "unat i = h")
    case True
    with mem first [OF True] stay [OF True] show ?thesis by (simp add: line_at_def)
  next
    case False
    have "set [h ..< t] \<subseteq> {..< t}" by auto
    from others [OF this] False mem gone show ?thesis by (simp add: line_at_def)
  qed
qed

text \<open>Stepping the head over a settled number.\<close>

lemma line_skip:
  assumes "wf_at h t es" and "es i = Some e" and "\<not> pending e" and "unat i = h"
  shows "wf_at (h + 1) t es" and "line_at (h + 1) t es = line_at h t es"
proof -
  have lt: "h < t" using assms(1,2,4) by (auto simp: wf_at_def)
  have "\<not> waits es h" using assms(2,3,4) by (auto simp: waits_def)
  with lt show "line_at (h + 1) t es = line_at h t es" by (simp add: line_at_def upt_conv_Cons)
  show "wf_at (h + 1) t es"
    using assms lt by (auto simp: wf_at_def less_Suc_eq) (metis option.inject word_unat_eq_iff)
qed

lemma sat_succ: "unat (a :: u64) < unat (b :: u64) \<Longrightarrow> unat (saturating_add a 1) = unat a + 1"
  using u64_bound [of b] by (simp add: unat_saturating_add min_def)

text \<open>One event of the queue is one step of the line.\<close>

lemma exec_is_line_step:
  assumes "queue_exec ev s = Inr s'" and "queue_wf s" and "tail_of s + 1 < 2 ^ 64"
  shows "queue_wf s' \<and> line_step (op_of ev) (line_of s) = Some (line_of s') \<and> tail_of s' \<le> tail_of s + 1"
proof (cases ev)
  case (Enqueue rt ctx amount)
  with assms(1) obtain q e w where run: "enqueue_redemption_handler rt (qw_ledger s)
      (ctx\<lparr>eq_config := set_data (eq_config ctx) (qw_config s), eq_queue := set_data (eq_queue ctx) (qw_queue s),
           eq_existing := qw_entries s (rq_queue_tail (qw_queue s))\<rparr>) amount = Inr (q, e, w)"
    and s': "s' = s\<lparr>qw_queue := q, qw_entries := (qw_entries s)(rq_queue_tail (qw_queue s) \<mapsto> e), qw_ledger := w\<rparr>"
    by (auto simp: Let_def run_ok)
  note ok = enqueue_ok [OF run]
  have "pending e" using ok(4,5) by (simp add: pending_def)
  moreover have "unat (rq_queue_tail q) = tail_of s + 1" "rq_queue_head q = rq_queue_head (qw_queue s)"
    using ok(1) assms(3) by (simp_all add: unat_saturating_add)
  ultimately show ?thesis
    using line_join [of "head_of s" "rq_queue_tail (qw_queue s)" "qw_entries s" e] assms(2,3)
    by (simp add: Enqueue s' queue_wf_def line_of_def)
next
  case (Settle rt ctx i)
  with assms(1) obtain e0 c q e pay w where e0: "qw_entries s i = Some e0"
    and run: "process_redemption_handler rt (qw_ledger s)
         (ctx\<lparr>pr_config := set_data (pr_config ctx) (qw_config s), pr_queue := set_data (pr_queue ctx) (qw_queue s),
              pr_entry := set_data (pr_entry ctx) e0\<rparr>) i = Inr (c, q, e, pay, w)"
    and s': "s' = s\<lparr>qw_config := c, qw_queue := q, qw_entries := (qw_entries s)(i \<mapsto> e), qw_ledger := w\<rparr>"
    by (auto simp: entry_at_def run_ok)
  from run show ?thesis
  proof (cases rule: process_ok)
    case (1 smint q1 w1 k d)
    have pend: "pending e0" "\<not> pending e" using 1(6,8,9) by (simp_all add: pending_def)
    have head: "i = rq_queue_head (qw_queue s)" using 1(7) by simp
    have lt: "unat i < tail_of s" using e0 assms(2) by (auto simp: queue_wf_def wf_at_def)
    have "unat (rq_queue_head q) = head_of s + 1" "rq_queue_tail q = rq_queue_tail (qw_queue s)"
      using 1(5) slot_charge_ok(2,3) [OF 1(2)] head lt sat_succ [of "rq_queue_head (qw_queue s)" "rq_queue_tail (qw_queue s)"]
      by simp_all
    then show ?thesis
      using line_settle [OF assms(2) [unfolded queue_wf_def] _ e0 pend] head assms(3)
      by (simp add: Settle s' queue_wf_def line_of_def)
  qed
next
  case (Withdraw rt ctx i)
  with assms(1) obtain e0 q e w where e0: "qw_entries s i = Some e0"
    and run: "cancel_redemption_handler rt (qw_ledger s)
         (ctx\<lparr>ca_config := set_data (ca_config ctx) (qw_config s), ca_queue := set_data (ca_queue ctx) (qw_queue s),
              ca_entry := set_data (ca_entry ctx) e0\<rparr>) i = Inr (q, e, w)"
    and s': "s' = s\<lparr>qw_queue := q, qw_entries := (qw_entries s)(i \<mapsto> e), qw_ledger := w\<rparr>"
    by (auto simp: entry_at_def run_ok)
  note ok = cancel_ok [OF run]
  have pend: "pending e0" "\<not> pending e" using ok(2-4) by (simp_all add: pending_def)
  have lt: "unat i < tail_of s" using e0 assms(2) by (auto simp: queue_wf_def wf_at_def)
  have "unat (rq_queue_head q) = (if unat i = head_of s then head_of s + 1 else head_of s)"
    "rq_queue_tail q = rq_queue_tail (qw_queue s)"
    using ok(1) lt sat_succ [of "rq_queue_head (qw_queue s)" "rq_queue_tail (qw_queue s)"]
    by (auto simp: word_unat_eq_iff)
  then show ?thesis
    using line_settle [OF assms(2) [unfolded queue_wf_def] _ e0 pend] assms(3)
    by (simp add: Withdraw s' queue_wf_def line_of_def)
next
  case (Compact rt ks i)
  obtain ck qk ek where ks: "ks = (ck, qk, ek)" by (cases ks)
  with assms(1) Compact obtain e q where e: "qw_entries s i = Some e"
    and run: "compact_redemption_head_handler rt \<lparr>key_of = ck, data_of = qw_config s\<rparr>
         \<lparr>key_of = qk, data_of = qw_queue s\<rparr> \<lparr>key_of = ek, data_of = e\<rparr> i = Inr q"
    and s': "s' = s\<lparr>qw_queue := q\<rparr>"
    by (auto simp: entry_at_def run_ok)
  note ok = compact_ok [OF run]
  have "\<not> pending e" "i = rq_queue_head (qw_queue s)" using ok(2,3) by (auto simp: pending_def)
  moreover have "unat i < tail_of s" using e assms(2) by (auto simp: queue_wf_def wf_at_def)
  then have "unat (rq_queue_head q) = head_of s + 1" "rq_queue_tail q = rq_queue_tail (qw_queue s)"
    using ok(1,2) sat_succ [of "rq_queue_head (qw_queue s)" "rq_queue_tail (qw_queue s)"] by auto
  ultimately show ?thesis
    using line_skip [OF assms(2) [unfolded queue_wf_def] e] by (simp add: Compact s' queue_wf_def line_of_def)
next
  case (Retune rt ks delay depth bps reward)
  obtain au ck qk where "ks = (au, ck, qk)" by (cases ks)
  with assms(1) Retune obtain q where run: "update_redemption_queue_handler rt au
      \<lparr>key_of = ck, data_of = qw_config s\<rparr> \<lparr>key_of = qk, data_of = qw_queue s\<rparr> delay depth bps reward = Inr q"
    and s': "s' = s\<lparr>qw_queue := q\<rparr>" by (auto simp: run_ok)
  from update_queue_ok [OF run] assms(2) show ?thesis by (simp add: Retune s' queue_wf_def line_of_def)
next
  case (Elsewhere f)
  with assms(1,2) show ?thesis by (auto simp: Let_def queue_wf_def line_of_def)
qed

lemma history_is_line_run:
  "queue_wf s \<Longrightarrow> tail_of s + length es < 2 ^ 64 \<Longrightarrow>
     queue_wf (play queue_exec es s) \<and>
     line_run (queue_log es s) (line_of s) = Some (line_of (play queue_exec es s))"
proof (induction es arbitrary: s)
  case Nil
  then show ?case by simp
next
  case (Cons ev es)
  show ?case
  proof (cases "queue_exec ev s")
    case (Inl x)
    with Cons show ?thesis by simp
  next
    case (Inr s')
    from exec_is_line_step [OF Inr Cons.prems(1)] Cons.prems(2) Cons.IH [of s'] Inr show ?thesis by simp
  qed
qed

definition open_queue :: "stablecoin_config \<Rightarrow> redemption_queue \<Rightarrow> 'w \<Rightarrow> 'w queue_world" where
  "open_queue c q w = \<lparr>qw_config = c, qw_queue = q, qw_entries = Map.empty, qw_ledger = w\<rparr>"

text \<open>C9: The redemption queue is a line with numbers: along any history of its instructions, failing or not, with
  anything else happening to the configuration and to the ledger in between, what goes through is a run of
  the specification (join at the end, serve only the first, leave at will), ending in the line the state
  shows; numbers are served in increasing order, none twice, and none after it left.\<close>

theorem queue_is_a_line:
  assumes "init_redemption_queue_handler rt authority cfg existing = Inr q" and "length es < 2 ^ 64"
  shows "let s = open_queue (data_of cfg) q w; log = queue_log es s in
    line_run log (0, []) = Some (line_of (play queue_exec es s)) \<and> sorted_wrt (<) (served log)"
proof -
  let ?s = "open_queue (data_of cfg) q w"
  from assms(1) have start: "queue_wf ?s" "line_of ?s = (0, [])" "tail_of ?s = 0"
    by (auto simp: init_redemption_queue_handler_def Let_def guarded_Inr queue_wf_def wf_at_def line_of_def line_at_def
        open_queue_def)
  with history_is_line_run [of ?s es] assms(2)
  have run: "line_run (queue_log es ?s) (0, []) = Some (line_of (play queue_exec es ?s))" by simp
  moreover have "sorted_wrt (<) (served (queue_log es ?s))" using served_in_order [OF run] by simp
  ultimately show ?thesis by (simp add: Let_def)
qed

section \<open>The cap per slot\<close>

text \<open>The counter of the slot is a window, as long as the cap leaves room to count.\<close>

definition counter :: "redemption_queue \<Rightarrow> u64 \<times> u64" where
  "counter q = (rq_last_slot_processed q, rq_slot_redemption_total q)"

definition queue_admit :: "u64 \<Rightarrow> nat \<Rightarrow> nat \<Rightarrow> u64 \<times> u64 \<Rightarrow> u64 \<times> u64 \<Rightarrow> bool" where
  "queue_admit t n l c c' \<longleftrightarrow> l < 2 ^ 64 - 1 \<and>
     (\<exists>stable_supply amount q q'. c = counter q \<and> c' = counter q' \<and> n = unat amount \<and>
        l = unat (slot_cap stable_supply (rq_max_redemption_per_slot_bps q)) \<and>
        slot_charge t stable_supply amount q = Inr q')"

lemma slot_charge_exact:
  assumes "slot_charge t stable_supply amount q = Inr q'"
    and "unat (slot_cap stable_supply (rq_max_redemption_per_slot_bps q)) < 2 ^ 64 - 1"
  shows "unat (rq_slot_redemption_total q') =
    (if rq_last_slot_processed q = t then unat (rq_slot_redemption_total q) else 0) + unat amount"
proof -
  note ok = slot_charge_ok [OF assms(1)]
  have "unat (rq_slot_redemption_total q') < 2 ^ 64 - 1" using ok(5) assms(2) by (simp add: word_le_nat_alt)
  with ok(4) show ?thesis by auto
qed

interpretation slot: rate_window queue_admit fst "\<lambda>c. unat (snd c)"
  by unfold_locales
     (auto simp: queue_admit_def counter_def word_le_nat_alt slot_charge_exact dest: slot_charge_ok)

text \<open>When, how much, and under which cap each successful settlement went.\<close>

fun settle_log :: "'w queue_event list \<Rightarrow> 'w queue_world \<Rightarrow> (u64 \<times> nat \<times> nat) list" where
  "settle_log [] s = []"
| "settle_log (e # es) s =
     (case queue_exec e s of
        Inl _ \<Rightarrow> settle_log es s
      | Inr s' \<Rightarrow>
          (case e of
             Settle rt ctx i \<Rightarrow>
               [(rt_slot rt, (case qw_entries s i of None \<Rightarrow> 0 | Some re \<Rightarrow> unat (re_amount re)),
                 (case rt_mint rt (qw_ledger s) (pr_stable_mint ctx) of None \<Rightarrow> 0
                  | Some m \<Rightarrow> unat (slot_cap (tm_supply m) (rq_max_redemption_per_slot_bps (qw_queue s)))))]
           | _ \<Rightarrow> []) @ settle_log es s')"

fun event_slot :: "'w queue_event \<Rightarrow> u64 option" where
  "event_slot (Settle rt ctx i) = Some (rt_slot rt)"
| "event_slot e = None"

lemma settle_step:
  assumes "queue_exec (Settle rt ctx i) s = Inr s'"
  obtains re m where "qw_entries s i = Some re" "rt_mint rt (qw_ledger s) (pr_stable_mint ctx) = Some m"
    "unat (slot_cap (tm_supply m) (rq_max_redemption_per_slot_bps (qw_queue s))) < 2 ^ 64 - 1 \<Longrightarrow>
       queue_admit (rt_slot rt) (unat (re_amount re))
         (unat (slot_cap (tm_supply m) (rq_max_redemption_per_slot_bps (qw_queue s))))
         (counter (qw_queue s)) (counter (qw_queue s'))"
proof -
  from assms obtain e0 c q e pay w where e0: "qw_entries s i = Some e0"
    and run: "process_redemption_handler rt (qw_ledger s)
         (ctx\<lparr>pr_config := set_data (pr_config ctx) (qw_config s), pr_queue := set_data (pr_queue ctx) (qw_queue s),
              pr_entry := set_data (pr_entry ctx) e0\<rparr>) i = Inr (c, q, e, pay, w)"
    and s': "s' = s\<lparr>qw_config := c, qw_queue := q, qw_entries := (qw_entries s)(i \<mapsto> e), qw_ledger := w\<rparr>"
    by (auto simp: entry_at_def run_ok)
  from run show ?thesis
  proof (cases rule: process_ok)
    case (1 smint q1 w1 k d)
    have "counter q = counter q1" by (simp add: 1(5) counter_def)
    moreover have "slot_charge (rt_slot rt) (tm_supply smint) (re_amount e0) (qw_queue s) = Inr q1" using 1(2) by simp
    ultimately show ?thesis using 1(1) by (intro that [OF e0, of smint]) (auto simp: queue_admit_def s')
  qed
qed

lemma other_step:
  assumes "queue_exec ev s = Inr s'" and "event_slot ev = None"
  shows "counter (qw_queue s') = counter (qw_queue s)"
  using assms
proof (cases ev)
  case (Enqueue rt ctx amount)
  with assms(1) show ?thesis by (auto simp: Let_def run_ok counter_def dest!: enqueue_ok(1))
next
  case (Withdraw rt ctx i)
  with assms(1) show ?thesis by (auto simp: run_ok counter_def dest!: cancel_ok(1))
next
  case (Compact rt ks i)
  with assms(1) show ?thesis by (cases ks) (auto simp: run_ok counter_def dest!: compact_ok(1))
next
  case (Retune rt ks delay depth bps reward)
  with assms(1) show ?thesis
    by (cases ks) (auto simp: run_ok update_redemption_queue_handler_def Let_def guarded_Inr counter_def
        split: option.splits)
next
  case (Elsewhere f)
  with assms(1) show ?thesis by (auto simp: Let_def)
qed auto

lemma settle_log_admits:
  "\<forall>(t, n, l) \<in> set (settle_log es s). l < 2 ^ 64 - 1 \<Longrightarrow>
     \<exists>c. slot.admits (settle_log es s) (counter (qw_queue s)) c"
proof (induction es arbitrary: s)
  case Nil
  then show ?case by (auto intro: slot.admits_Nil)
next
  case (Cons ev es)
  show ?case
  proof (cases "queue_exec ev s")
    case (Inl x)
    with Cons show ?thesis by simp
  next
    case (Inr s')
    have IH: "\<exists>c. slot.admits (settle_log es s') (counter (qw_queue s')) c"
      using Cons.prems Inr by (intro Cons.IH) auto
    show ?thesis
    proof (cases "event_slot ev")
      case None
      then have "settle_log (ev # es) s = settle_log es s'" using Inr by (cases ev) auto
      with IH other_step [OF Inr None] show ?thesis by simp
    next
      case (Some t)
      then obtain rt ctx i where ev: "ev = Settle rt ctx i" by (cases ev) auto
      from Inr [unfolded ev] show ?thesis
      proof (cases rule: settle_step)
        case (1 re m)
        let ?l = "unat (slot_cap (tm_supply m) (rq_max_redemption_per_slot_bps (qw_queue s)))"
        have log: "settle_log (ev # es) s = (rt_slot rt, unat (re_amount re), ?l) # settle_log es s'"
          using Inr 1(1,2) by (simp add: ev)
        with Cons.prems have "?l < 2 ^ 64 - 1" by auto
        with 1(3) IH log show ?thesis by (auto intro: slot.admits_Cons)
      qed
    qed
  qed
qed

lemma settle_log_slots: "Some ` fst ` set (settle_log es s) \<subseteq> event_slot ` set es"
proof (induction es arbitrary: s)
  case (Cons ev es)
  show ?case
  proof (cases "queue_exec ev s")
    case (Inl x)
    with Cons [of s] show ?thesis by auto
  next
    case (Inr s')
    with Cons [of s'] show ?thesis by (cases ev) auto
  qed
qed simp

lemma settle_log_sorted:
  "sorted_wrt (\<lambda>a b. \<forall>s t. event_slot a = Some s \<and> event_slot b = Some t \<longrightarrow> s \<le> t) es \<Longrightarrow>
     sorted (map fst (settle_log es s))"
proof (induction es arbitrary: s)
  case (Cons ev es)
  show ?case
  proof (cases "queue_exec ev s")
    case (Inl x)
    with Cons show ?thesis by simp
  next
    case (Inr s')
    have "sorted (map fst (settle_log es s'))" using Cons by simp
    moreover have "t \<le> u" if "event_slot ev = Some t" "u \<in> fst ` set (settle_log es s')" for t u
      using settle_log_slots [of es s'] that Cons.prems by fastforce
    ultimately show ?thesis using Inr by (cases ev) auto
  qed
qed simp

text \<open>In any one slot the queue pays out at most the largest cap in force in that slot, however many keepers
  settle, whatever they settle and whatever happens in between: the cap is the configured share of the
  stablecoin's supply, and at least one unit.\<close>

theorem queue_slot_cap:
  assumes "sorted_wrt (\<lambda>a b. \<forall>s t. event_slot a = Some s \<and> event_slot b = Some t \<longrightarrow> s \<le> t) es"
    and "\<forall>(t', n, l) \<in> set (settle_log es s). l < 2 ^ 64 - 1 \<and> (t' = t \<longrightarrow> l \<le> L)"
  shows "sum_list (map (fst \<circ> snd) (filter (\<lambda>e. fst e = t) (settle_log es s))) \<le> L"
proof -
  obtain c where "slot.admits (settle_log es s) (counter (qw_queue s)) c"
    using settle_log_admits [of es s] assms(2) by fastforce
  then show ?thesis by (rule slot.window_total) (use settle_log_sorted [OF assms(1)] assms(2) in auto)
qed

text \<open>A request larger than the cap blocks the queue: while it is at the head, pending, and above the cap, no
  settlement succeeds, neither its own (in any slot, by any keeper) nor any other, which would be out of
  order; only its owner can clear the way.\<close>

theorem oversized_head_blocks_queue:
  assumes "qw_entries s (rq_queue_head (qw_queue s)) = Some e"
    and "\<forall>m. rt_mint rt (qw_ledger s) (pr_stable_mint ctx) = Some m \<longrightarrow>
           slot_cap (tm_supply m) (rq_max_redemption_per_slot_bps (qw_queue s)) < re_amount e"
  shows "\<exists>err. queue_exec (Settle rt ctx i) s = Inl err"
proof (rule ccontr)
  assume "\<not> ?thesis"
  then obtain s' where "queue_exec (Settle rt ctx i) s = Inr s'" by (cases "queue_exec (Settle rt ctx i) s") auto
  then obtain e0 c q e' pay w where e0: "qw_entries s i = Some e0"
    and run: "process_redemption_handler rt (qw_ledger s)
         (ctx\<lparr>pr_config := set_data (pr_config ctx) (qw_config s), pr_queue := set_data (pr_queue ctx) (qw_queue s),
              pr_entry := set_data (pr_entry ctx) e0\<rparr>) i = Inr (c, q, e', pay, w)"
    by (auto simp: entry_at_def run_ok)
  from run show False
  proof (cases rule: process_ok)
    case (1 smint q1 w1 k d)
    then have "e0 = e" using e0 assms(1) by simp
    with 1(2) have charge: "slot_charge (rt_slot rt) (tm_supply smint) (re_amount e) (qw_queue s) = Inr q1" by simp
    have "unat (re_amount e) \<le> unat (rq_slot_redemption_total q1)"
      using slot_charge_ok(4) [OF charge] u64_bound [of "re_amount e"] by auto
    with slot_charge_ok(5) [OF charge] assms(2) 1(1) show False by (auto simp: word_le_nat_alt word_less_nat_alt)
  qed
qed

section \<open>A queue in use\<close>

definition demo_queue_cfg :: stablecoin_config where
  "demo_queue_cfg = demo_config\<lparr>c_feature_flags := FLAG_REDEMPTION_QUEUE\<rparr>"

definition demo_queue_key :: pubkey where "demo_queue_key = ref_pda (queue_seeds 5)"

definition demo_queue :: redemption_queue where
  "demo_queue =
     \<lparr>rq_sss_mint = 5, rq_queue_head = 0, rq_queue_tail = 0, rq_min_delay_slots = 750, rq_max_queue_depth = 1000,
      rq_max_redemption_per_slot_bps = 100, rq_last_slot_processed = 0, rq_slot_redemption_total = 0,
      rq_keeper_reward_lamports = 1000000, rq_bump = 255\<rparr>"

definition ref_open_account :: "ref_ledger \<Rightarrow> pubkey \<Rightarrow> pubkey \<Rightarrow> pubkey \<Rightarrow> nat + ref_ledger" where
  "ref_open_account w k mint owner =
     Inr (w\<lparr>rl_tokens := (rl_tokens w)(k \<mapsto> \<lparr>ta_mint = mint, ta_owner = owner, ta_amount = 0\<rparr>)\<rparr>)"

text \<open>User 9 queues; keeper 10 settles with an account of its own as the reserve and as the payee.\<close>

definition demo_enqueue :: "u64 \<Rightarrow> ref_ledger queue_event" where
  "demo_enqueue amount = Enqueue (ref_runtime 10 3 0)
     \<lparr>eq_user = 9, eq_config = \<lparr>key_of = demo_cfg_key, data_of = demo_config\<rparr>,
      eq_queue = \<lparr>key_of = demo_queue_key, data_of = demo_queue\<rparr>, eq_existing = None, eq_user_stable = 20,
      eq_open_account = ref_open_account, eq_slot_hashes = [], eq_stable_mint = 5\<rparr> amount"

definition demo_entry :: "u64 \<Rightarrow> redemption_entry" where
  "demo_entry amount =
     \<lparr>re_queue_index = 0, re_owner = 9, re_amount = amount, re_enqueue_slot = 10, re_slot_hash_seed = replicate 8 0,
      re_fulfilled = False, re_cancelled = False, re_bump = 255\<rparr>"

definition demo_settle :: "pubkey \<Rightarrow> ref_ledger queue_event" where
  "demo_settle account = Settle (ref_runtime 760 3 0)
     \<lparr>pr_keeper = 10, pr_config = \<lparr>key_of = demo_cfg_key, data_of = demo_config\<rparr>,
      pr_queue = \<lparr>key_of = demo_queue_key, data_of = demo_queue\<rparr>,
      pr_entry = \<lparr>key_of = ref_pda (entry_seeds 5 0), data_of = demo_entry 0\<rparr>,
      pr_escrow = ref_pda (escrow_seeds 5 0), pr_reserve_vault = account, pr_reserve_vault_authority = 10,
      pr_user_collateral = account, pr_stable_mint = 5, pr_collateral_mint = 6,
      pr_queue_lamports = 2000000, pr_rent_minimum = 1500000, pr_keeper_lamports = 0\<rparr> 0"

definition demo_world :: "ref_ledger queue_world" where
  "demo_world = open_queue demo_queue_cfg demo_queue demo_ledger"

lemmas queue_eval [eval_defs] =
  demo_queue_cfg_def demo_queue_key_def demo_queue_def ref_open_account_def demo_enqueue_def demo_entry_def demo_settle_def demo_world_def
  open_queue_def entry_at_def enqueue_redemption_handler_def queue_enabled_def queue_ok_def config_ok_def entry_ok_def
  escrow_ok_def entry_pending_def process_redemption_handler_def process_accounts_def slot_charge_def slot_cap_def
  saturating_add_def saturating_mul_def keeper_payment_def slot_hash_seed_def

lemma demo_queue_pdas [simp]: "ref_pda (escrow_seeds 5 0) = 1000005012" "ref_pda (queue_seeds 5) = 1005016"
  "ref_pda (entry_seeds 5 0) = 1000005016"
  by (simp_all add: ref_pda_def escrow_seeds_def queue_seeds_def entry_seeds_def)

definition demo_queued :: "u64 \<Rightarrow> ref_ledger queue_world" where
  "demo_queued amount = demo_world
     \<lparr>qw_queue := demo_queue\<lparr>rq_queue_tail := 1\<rparr>, qw_entries := [0 \<mapsto> demo_entry amount],
      qw_ledger := demo_ledger
        \<lparr>rl_tokens := (rl_tokens demo_ledger)
           (1000005012 \<mapsto> \<lparr>ta_mint = 5, ta_owner = demo_queue_key, ta_amount = amount\<rparr>,
            20 \<mapsto> \<lparr>ta_mint = 5, ta_owner = 9, ta_amount = 600 - amount\<rparr>),
         rl_frozen := (\<lambda>_. False)\<rparr>\<rparr>"

lemma demo_joined: "queue_exec (demo_enqueue 9) demo_world = Inr (demo_queued 9)"
  by (simp add: eval_defs demo_cfg_key_def demo_queued_def fun_eq_iff)

text \<open>A settlement need not pay the owner, nor touch the reserve: the accounts of the payout are the keeper's
  choice. Here keeper 10 names its own account both as the reserve and as the payee; the owner's 9
  stablecoins are burned, the owner's collateral account and the reserve vault stay as they were, and the
  books release 9 of collateral.\<close>

theorem settlement_need_not_pay_owner:
  "\<exists>s'. queue_exec (demo_settle 32) (demo_queued 9) = Inr s' \<and>
     supply_of (ref_runtime 760 3 0) (qw_ledger s') 5 = 891 \<and>
     balance_of (ref_runtime 760 3 0) (qw_ledger s') 31 = 50 \<and>
     balance_of (ref_runtime 760 3 0) (qw_ledger s') 30 = 900 \<and>
     c_total_collateral (qw_config s') = 891"
  by (simp add: eval_defs demo_cfg_key_def demo_queued_def balance_of_def supply_of_def)

lemma demo_settle_goes: "\<exists>s'. queue_exec (demo_settle 32) (demo_queued 9) = Inr s'"
  by (simp add: eval_defs demo_cfg_key_def demo_queued_def)

lemma demo_queue_inits:
  "init_redemption_queue_handler (ref_runtime 1 0 0) 7 (demo_acct demo_queue_cfg) None = Inr demo_queue"
  by (simp add: eval_defs init_redemption_queue_handler_def demo_cfg_key_def DEFAULT_MIN_DELAY_SLOTS_def
      DEFAULT_MAX_QUEUE_DEPTH_def DEFAULT_MAX_REDEMPTION_PER_SLOT_BPS_def DEFAULT_KEEPER_REWARD_LAMPORTS_def)

theorem queue_is_a_line_witness:
  "queue_log [demo_enqueue 9, demo_settle 32] demo_world = [Join, Serve 0] \<and>
   line_run [Join, Serve 0] (0, []) = Some (line_of (play queue_exec [demo_enqueue 9, demo_settle 32] demo_world))"
proof -
  have world: "open_queue (data_of (demo_acct demo_queue_cfg)) demo_queue demo_ledger = demo_world"
    by (simp add: demo_world_def)
  obtain s' where "queue_exec (demo_settle 32) (demo_queued 9) = Inr s'" using demo_settle_goes by blast
  then have log: "queue_log [demo_enqueue 9, demo_settle 32] demo_world = [Join, Serve 0]"
    by (simp add: demo_joined) (simp add: demo_enqueue_def demo_settle_def)
  have "length [demo_enqueue 9, demo_settle 32] < 2 ^ 64" by simp
  from queue_is_a_line [OF demo_queue_inits this, of demo_ledger] log show ?thesis
    by (simp only: world Let_def)
qed

lemma demo_slot_cap: "slot_cap 900 100 = 9"
  by (simp add: slot_cap_def saturating_mul_def max_def word_le_nat_alt)

lemma demo_queued_fields:
  "qw_entries (demo_queued n) 0 = Some (demo_entry n)" "rl_mints (qw_ledger (demo_queued n)) 5 =
     Some \<lparr>tm_decimals = 6, tm_supply = 900\<rparr>" "rq_max_redemption_per_slot_bps (qw_queue (demo_queued n)) = 100"
  "rq_queue_head (qw_queue (demo_queued n)) = 0"
  by (simp_all add: demo_queued_def demo_queue_def demo_ledger_def)

lemma demo_settle_log: "settle_log [demo_enqueue 9, demo_settle 32] demo_world = [(760, 9, 9)]"
proof -
  obtain s' where go: "queue_exec (demo_settle 32) (demo_queued 9) = Inr s'" using demo_settle_goes by blast
  obtain ctx where join: "demo_enqueue 9 = Enqueue (ref_runtime 10 3 0) ctx 9" by (simp add: demo_enqueue_def)
  obtain ctx' where settle: "demo_settle 32 = Settle (ref_runtime 760 3 0) ctx' 0" "pr_stable_mint ctx' = 5"
    by (simp add: demo_settle_def)
  show ?thesis
    using demo_joined go by (simp only: settle_log.simps sum.case join settle queue_event.case)
      (simp add: demo_queued_fields demo_slot_cap settle demo_entry_def)
qed

theorem queue_slot_cap_witness:
  "sum_list (map (fst \<circ> snd) (filter (\<lambda>e. fst e = 760) (settle_log [demo_enqueue 9, demo_settle 32] demo_world))) \<le> 9"
proof (rule queue_slot_cap)
  show "sorted_wrt (\<lambda>a b. \<forall>s t. event_slot a = Some s \<and> event_slot b = Some t \<longrightarrow> s \<le> t) [demo_enqueue 9, demo_settle 32]"
    by (simp add: demo_enqueue_def)
  show "\<forall>(t', n, l) \<in> set (settle_log [demo_enqueue 9, demo_settle 32] demo_world).
      l < 2 ^ 64 - 1 \<and> (t' = 760 \<longrightarrow> l \<le> 9)"
    by (subst demo_settle_log) simp
qed

theorem oversized_head_blocks_queue_witness:
  "\<exists>err. queue_exec (demo_settle 32) (demo_queued 600) = Inl err"
proof -
  obtain ctx where settle: "demo_settle 32 = Settle (ref_runtime 760 3 0) ctx 0" "pr_stable_mint ctx = 5"
    by (simp add: demo_settle_def)
  show ?thesis unfolding settle
    by (rule oversized_head_blocks_queue [where e = "demo_entry 600"])
       (auto simp: demo_queued_fields demo_slot_cap settle(2), simp add: demo_entry_def)
qed

end
