(* ===== verification/Curves.thy ===== *)
theory Curves
  imports Reserve Oracle Machine "HOL-Library.Signed_Division"
begin

text \<open>
  Fees that a formula sets. The controller that moves the stability fee with the deviation of the price
  from its target (programs/sss-token/src/instructions/pid\_fee.rs), the fee curve of the peg stability
  module and the swap that charges it (psm\_amm\_slippage.rs, state.rs), and the tiers of the graduated
  liquidation bonus (liquidation\_bonus.rs).
\<close>

section \<open>The controller\<close>

definition clamp :: "int \<Rightarrow> int \<Rightarrow> int \<Rightarrow> int" where
  "clamp x lo hi = (if x < lo then lo else if x > hi then hi else x)"

record pid_config =
  pid_sss_mint :: pubkey
  pid_kp :: i64
  pid_ki :: i64
  pid_kd :: i64
  pid_target_price :: u64
  pid_min_fee_bps :: u16
  pid_max_fee_bps :: u16
  pid_last_error :: i64
  pid_integral :: i64
  pid_last_update_slot :: u64
  pid_bump :: u8

record pid_params =
  np_kp :: i64
  np_ki :: i64
  np_kd :: i64
  np_target_price :: u64
  np_min_fee_bps :: u16
  np_max_fee_bps :: u16

definition pid_seeds :: "pubkey \<Rightarrow> seed list" where
  "pid_seeds mint = [SeedStr ''pid-config'', SeedKey mint]"

definition init_pid_config_handler ::
  "'w runtime \<Rightarrow> pubkey \<Rightarrow> stablecoin_config account \<Rightarrow> pid_config option \<Rightarrow> pid_params \<Rightarrow> (stablecoin_config \<times> pid_config) res" where
  "init_pid_config_handler rt authority cfg existing p =
     (let c = data_of cfg in
      guarded (owner_accounts rt authority cfg @ [(existing = None, Anchor AccountAlreadyInUse)])
        (andthen (squads_gate c authority) (\<lambda>_.
         guarded [(np_min_fee_bps p \<le> np_max_fee_bps p, Hardening InvalidPidFeeRange)]
           (Inr (c\<lparr>c_feature_flags := set_flags (c_feature_flags c) FLAG_PID_FEE_CONTROL\<rparr>,
                 \<lparr>pid_sss_mint = c_mint c, pid_kp = np_kp p, pid_ki = np_ki p, pid_kd = np_kd p,
                  pid_target_price = np_target_price p, pid_min_fee_bps = np_min_fee_bps p,
                  pid_max_fee_bps = np_max_fee_bps p, pid_last_error = 0, pid_integral = 0,
                  pid_last_update_slot = rt_slot rt, pid_bump = snd (rt_find_pda rt (pid_seeds (c_mint c)))\<rparr>)))))"

text \<open>The sanity check of the price that the caller supplies: none unless an oracle other than Pyth is configured.\<close>

definition pid_price_ok :: "stablecoin_config \<Rightarrow> pid_config \<Rightarrow> u64 \<Rightarrow> bool" where
  "pid_price_ok c pid current_price \<longleftrightarrow>
     (c_oracle_type c \<noteq> 0 \<and> c_oracle_feed c \<noteq> default_key \<longrightarrow>
        (let target = pid_target_price pid; max_deviation = target div 10 in
         saturating_sub target max_deviation \<le> current_price \<and> current_price \<le> saturating_add target max_deviation))"

definition pid_error :: "pid_config \<Rightarrow> u64 \<Rightarrow> i64" where
  "pid_error pid current_price = i64_saturating_sub (u64_as_i64 (pid_target_price pid)) (u64_as_i64 current_price)"

definition pid_new_integral :: "pid_config \<Rightarrow> i64 \<Rightarrow> i64" where
  "pid_new_integral pid err = clamp (i64_saturating_add (pid_integral pid) err) (- 1000000000) 1000000000"

definition pid_delta_bps :: "pid_config \<Rightarrow> i64 \<Rightarrow> i64" where
  "pid_delta_bps pid err =
     (let derivative = i64_saturating_sub err (pid_last_error pid) in
      i64_saturating_add
        (i64_saturating_add (i64_saturating_mul (pid_kp pid) err) (i64_saturating_mul (pid_ki pid) (pid_new_integral pid err)))
        (i64_saturating_mul (pid_kd pid) derivative) sdiv 1000000)"

definition update_stability_fee_pid_handler ::
  "'w runtime \<Rightarrow> stablecoin_config account \<Rightarrow> pid_config account \<Rightarrow> u64 \<Rightarrow> (stablecoin_config \<times> pid_config) res" where
  "update_stability_fee_pid_handler rt cfg pida current_price =
     (let c = data_of cfg; pid = data_of pida; err = pid_error pid current_price;
          lo = int (unat (pid_min_fee_bps pid)); hi = int (unat (pid_max_fee_bps pid)) in
      guarded
        (config_ok rt cfg (c_mint c) @
         [(seeds_ok rt (key_of pida) (pid_seeds (c_mint c)) (pid_bump pid), Anchor ConstraintSeeds),
          (flag_set c FLAG_PID_FEE_CONTROL, Late PidConfigNotFound),
          (saturating_add (pid_last_update_slot pid) 10 \<le> rt_slot rt, Late PidUpdateTooFrequent),
          (pid_price_ok c pid current_price, Cdp InvalidPrice), (lo \<le> hi, Panic)])
        (let new_bps = clamp (i64_saturating_add (int (unat (c_stability_fee_bps c))) (pid_delta_bps pid err)) lo hi in
         Inr (c\<lparr>c_stability_fee_bps := word_of_int new_bps\<rparr>,
              pid\<lparr>pid_last_error := err, pid_integral := pid_new_integral pid err, pid_last_update_slot := rt_slot rt\<rparr>)))"

section \<open>The fee curve of the peg stability module\<close>

record psm_curve_config =
  ps_sss_mint :: pubkey
  ps_authority :: pubkey
  ps_base_fee_bps :: u16
  ps_curve_k :: u64
  ps_max_fee_bps :: u16
  ps_bump :: u8

definition PSM_MAX_FEE_BPS :: u16 where "PSM_MAX_FEE_BPS = 1000"

definition psm_imbalance :: "u64 \<Rightarrow> u64 \<Rightarrow> u64" where
  "psm_imbalance vault_amount total_reserves =
     (let ideal = total_reserves div 2 in
      if vault_amount > ideal then vault_amount - ideal else ideal - vault_amount)"

definition compute_fee :: "psm_curve_config \<Rightarrow> u64 \<Rightarrow> u64 \<Rightarrow> u16" where
  "compute_fee curve vault_amount total_reserves =
     (if total_reserves = 0 then ps_base_fee_bps curve
      else
        let imbalance_ratio = unwrap_or (checked_div
              (saturating_mul (ucast (psm_imbalance vault_amount total_reserves) :: u128) 1000000) (ucast total_reserves)) 0;
            delta = ucast (min (unwrap_or (checked_div
              (saturating_mul (saturating_mul (ucast (ps_curve_k curve)) imbalance_ratio) imbalance_ratio) 1000000000000) 0)
              (ucast (ps_max_fee_bps curve)));
            fee = saturating_add (ps_base_fee_bps curve) delta in
        min fee (ps_max_fee_bps curve))"

definition validate_curve_params :: "u16 \<Rightarrow> u16 \<Rightarrow> (bool \<times> error) list" where
  "validate_curve_params base_fee_bps max_fee_bps =
     [(max_fee_bps \<le> PSM_MAX_FEE_BPS, Hardening InvalidPsmCurveMaxFee),
      (base_fee_bps \<le> max_fee_bps, Hardening InvalidPsmCurveBaseFee)]"

definition psm_seeds :: "pubkey \<Rightarrow> seed list" where
  "psm_seeds mint = [SeedStr ''psm-curve-config'', SeedKey mint]"

definition init_psm_curve_config_handler ::
  "'w runtime \<Rightarrow> pubkey \<Rightarrow> stablecoin_config account \<Rightarrow> psm_curve_config option \<Rightarrow> u16 \<Rightarrow> u64 \<Rightarrow> u16 \<Rightarrow>
     (stablecoin_config \<times> psm_curve_config) res" where
  "init_psm_curve_config_handler rt authority cfg existing base_fee_bps curve_k max_fee_bps =
     (let c = data_of cfg in
      guarded (owner_accounts rt authority cfg @
          [(c_preset c = 3, Core InvalidPreset), (existing = None, Anchor AccountAlreadyInUse)])
        (andthen (squads_gate c authority) (\<lambda>_.
         guarded (validate_curve_params base_fee_bps max_fee_bps)
           (Inr (c\<lparr>c_feature_flags := set_flags (c_feature_flags c) FLAG_PSM_DYNAMIC_FEES\<rparr>,
                 \<lparr>ps_sss_mint = c_mint c, ps_authority = authority, ps_base_fee_bps = base_fee_bps, ps_curve_k = curve_k,
                  ps_max_fee_bps = max_fee_bps, ps_bump = snd (rt_find_pda rt (psm_seeds (c_mint c)))\<rparr>)))))"

definition update_psm_curve_config_handler ::
  "'w runtime \<Rightarrow> pubkey \<Rightarrow> stablecoin_config account \<Rightarrow> psm_curve_config account \<Rightarrow> u16 \<Rightarrow> u64 \<Rightarrow> u16 \<Rightarrow> psm_curve_config res" where
  "update_psm_curve_config_handler rt authority cfg curve base_fee_bps curve_k max_fee_bps =
     (let c = data_of cfg in
      guarded (owner_accounts rt authority cfg @
          [(seeds_ok rt (key_of curve) (psm_seeds (c_mint c)) (ps_bump (data_of curve)), Anchor ConstraintSeeds),
           (ps_sss_mint (data_of curve) = c_mint c, Late PsmCurveConfigNotFound)])
        (andthen (squads_gate c authority) (\<lambda>_.
         guarded (validate_curve_params base_fee_bps max_fee_bps)
           (Inr ((data_of curve)\<lparr>ps_base_fee_bps := base_fee_bps, ps_curve_k := curve_k, ps_max_fee_bps := max_fee_bps\<rparr>)))))"

text \<open>
  The swap takes the accounts of a redemption and the curve. The fee in 128 bits is cast back to 64;
  a fee above the amount leaves nothing.
\<close>

definition psm_accounts ::
  "'w runtime \<Rightarrow> redeem_ctx \<Rightarrow> psm_curve_config account \<Rightarrow> token_account \<Rightarrow> token_account \<Rightarrow> token_account \<Rightarrow> (bool \<times> error) list" where
  "psm_accounts rt ctx curve sss vault out =
     (let cfg = rd_config ctx; c = data_of cfg; cm = rd_collateral_mint ctx in
      config_ok rt cfg (rd_sss_mint ctx) @
      [(c_preset c = 3, Core InvalidPreset),
       (\<not> c_paused c, Core MintPaused),
       (flag_set c FLAG_PSM_DYNAMIC_FEES, Late PsmDynamicFeesNotEnabled),
       (seeds_ok rt (key_of curve) (psm_seeds (rd_sss_mint ctx)) (ps_bump (data_of curve)), Anchor ConstraintSeeds),
       (ps_sss_mint (data_of curve) = c_mint c, Late PsmCurveConfigNotFound),
       (rd_sss_mint ctx = c_mint c, Anchor ConstraintRaw),
       (ta_owner sss = rd_redeemer ctx, Anchor ConstraintRaw),
       (ta_mint sss = rd_sss_mint ctx, Anchor ConstraintRaw),
       (cm = c_collateral_mint c, Core InvalidCollateralMint),
       (rd_reserve_vault ctx = c_reserve_vault c, Core InvalidVault),
       (ta_mint vault = cm, Anchor ConstraintRaw),
       (ta_owner out = rd_redeemer ctx, Anchor ConstraintRaw),
       (ta_mint out = cm, Anchor ConstraintRaw)])"

definition psm_fee_amount :: "u64 \<Rightarrow> u16 \<Rightarrow> u64" where
  "psm_fee_amount amount fee_bps =
     ucast (unwrap_or (checked_div (saturating_mul (ucast amount :: u128) (ucast fee_bps)) 10000) 0)"

definition psm_dynamic_swap_handler ::
  "'w runtime \<Rightarrow> 'w \<Rightarrow> redeem_ctx \<Rightarrow> psm_curve_config account \<Rightarrow> u64 \<Rightarrow> (stablecoin_config \<times> 'w) res" where
  "psm_dynamic_swap_handler rt w ctx curve amount =
     (let cfg = rd_config ctx; c = data_of cfg; mint = rd_sss_mint ctx; cm = rd_collateral_mint ctx in
      andthen (load_mint rt w mint) (\<lambda>smint.
      andthen (load_token rt w (rd_redeemer_sss ctx)) (\<lambda>sss.
      andthen (load_mint rt w cm) (\<lambda>cmint.
      andthen (load_token rt w (rd_reserve_vault ctx)) (\<lambda>vault.
      andthen (load_token rt w (rd_redeemer_collateral ctx)) (\<lambda>out.
      guarded
        (psm_accounts rt ctx curve sss vault out @
         [(amount > 0, Core ZeroAmount), (amount \<le> ta_amount vault, Core InsufficientReserves)])
        (let fee_bps = compute_fee (data_of curve) (ta_amount vault) (c_total_collateral c);
             fee_amount = (if fee_bps > 0 then psm_fee_amount amount fee_bps else 0);
             collateral_out = unwrap_or (checked_sub amount fee_amount) 0 in
         guarded [(collateral_out > 0, Late PsmSwapOutputZero)]
         (andthen (cpi rt w [rd_redeemer ctx]
                     (BurnChecked mint (rd_redeemer_sss ctx) (rd_redeemer ctx) amount (tm_decimals smint))) (\<lambda>w1.
          andthen (cpi_signed rt w1 [rd_redeemer ctx] (config_seeds mint) (c_bump c)
                     (TransferChecked (rd_reserve_vault ctx) cm (rd_redeemer_collateral ctx)
                        (key_of cfg) collateral_out (tm_decimals cmint))) (\<lambda>w2.
          andthen (ok_or (checked_add (c_total_burned c) amount) (Late Overflow)) (\<lambda>tb.
          andthen (ok_or (checked_sub (c_total_collateral c) collateral_out) (Core InsufficientReserves)) (\<lambda>tc.
          Inr (c\<lparr>c_total_burned := tb, c_total_collateral := tc\<rparr>, w2)))))))))))))"

text \<open>The quote changes nothing; what it reports is the amount out, the fee and its rate.\<close>

definition get_psm_quote_handler ::
  "'w runtime \<Rightarrow> 'w \<Rightarrow> stablecoin_config account \<Rightarrow> psm_curve_config account \<Rightarrow> pubkey \<Rightarrow> pubkey \<Rightarrow> u64 \<Rightarrow> (u64 \<times> u64 \<times> u16) res" where
  "get_psm_quote_handler rt w cfg curve mint vault_key amount_in =
     (let c = data_of cfg in
      andthen (load_token rt w vault_key) (\<lambda>vault.
      guarded
        (config_ok rt cfg mint @
         [(flag_set c FLAG_PSM_DYNAMIC_FEES, Late PsmDynamicFeesNotEnabled),
          (seeds_ok rt (key_of curve) (psm_seeds mint) (ps_bump (data_of curve)), Anchor ConstraintSeeds),
          (ps_sss_mint (data_of curve) = c_mint c, Late PsmCurveConfigNotFound),
          (mint = c_mint c, Anchor ConstraintRaw),
          (vault_key = c_reserve_vault c, Core InvalidVault),
          (amount_in > 0, Core ZeroAmount)])
        (let fee_bps = compute_fee (data_of curve) (ta_amount vault) (c_total_collateral c);
             expected_fee = psm_fee_amount amount_in fee_bps in
         Inr (saturating_sub amount_in expected_fee, expected_fee, fee_bps))))"

section \<open>The tiers of the liquidation bonus\<close>

record bonus_tiers =
  bt_tier1_threshold_bps :: u16
  bt_tier1_bonus_bps :: u16
  bt_tier2_threshold_bps :: u16
  bt_tier2_bonus_bps :: u16
  bt_tier3_threshold_bps :: u16
  bt_tier3_bonus_bps :: u16
  bt_max_bonus_bps :: u16

record liquidation_bonus_config =
  lb_sss_mint :: pubkey
  lb_authority :: pubkey
  lb_tiers :: bonus_tiers
  lb_bump :: u8

definition validate_tiers :: "bonus_tiers \<Rightarrow> (bool \<times> error) list" where
  "validate_tiers t =
     [(bt_tier3_threshold_bps t < bt_tier2_threshold_bps t, Hardening InvalidLiquidationTierConfig),
      (bt_tier2_threshold_bps t < bt_tier1_threshold_bps t, Hardening InvalidLiquidationTierConfig),
      (bt_tier1_threshold_bps t \<le> 15000, Hardening InvalidLiquidationTierConfig),
      (bt_tier1_bonus_bps t \<le> bt_tier2_bonus_bps t \<and> bt_tier2_bonus_bps t \<le> bt_tier3_bonus_bps t,
         Hardening InvalidLiquidationTierConfig),
      (bt_max_bonus_bps t \<le> 5000, Hardening InvalidLiquidationTierConfig),
      (bt_tier1_bonus_bps t \<le> bt_max_bonus_bps t \<and> bt_tier2_bonus_bps t \<le> bt_max_bonus_bps t \<and>
         bt_tier3_bonus_bps t \<le> bt_max_bonus_bps t, Hardening InvalidLiquidationTierConfig)]"

definition bonus_seeds :: "pubkey \<Rightarrow> seed list" where
  "bonus_seeds mint = [SeedStr ''liquidation-bonus-config'', SeedKey mint]"

definition init_liquidation_bonus_config_handler ::
  "'w runtime \<Rightarrow> pubkey \<Rightarrow> stablecoin_config account \<Rightarrow> liquidation_bonus_config option \<Rightarrow> bonus_tiers \<Rightarrow>
     (stablecoin_config \<times> liquidation_bonus_config) res" where
  "init_liquidation_bonus_config_handler rt authority cfg existing t =
     (let c = data_of cfg in
      guarded (owner_accounts rt authority cfg @ [(existing = None, Anchor AccountAlreadyInUse)])
        (andthen (squads_gate c authority) (\<lambda>_.
         guarded (validate_tiers t)
           (Inr (c\<lparr>c_feature_flags := set_flags (c_feature_flags c) FLAG_GRAD_LIQUIDATION_BONUS\<rparr>,
                 \<lparr>lb_sss_mint = c_mint c, lb_authority = authority, lb_tiers = t,
                  lb_bump = snd (rt_find_pda rt (bonus_seeds (c_mint c)))\<rparr>)))))"

definition update_liquidation_bonus_config_handler ::
  "'w runtime \<Rightarrow> pubkey \<Rightarrow> stablecoin_config account \<Rightarrow> liquidation_bonus_config account \<Rightarrow> bonus_tiers \<Rightarrow>
     liquidation_bonus_config res" where
  "update_liquidation_bonus_config_handler rt authority cfg bonus t =
     (let c = data_of cfg in
      guarded (owner_accounts rt authority cfg @
          [(seeds_ok rt (key_of bonus) (bonus_seeds (c_mint c)) (lb_bump (data_of bonus)), Anchor ConstraintSeeds),
           (lb_sss_mint (data_of bonus) = c_mint c, Core Unauthorized)])
        (andthen (squads_gate c authority) (\<lambda>_.
         guarded (validate_tiers t) (Inr ((data_of bonus)\<lparr>lb_tiers := t\<rparr>)))))"

section \<open>The controller keeps its bounds\<close>

lemma clamp_between: "lo \<le> hi \<Longrightarrow> lo \<le> clamp x lo hi \<and> clamp x lo hi \<le> hi"
  by (simp add: clamp_def)

lemma clamp_u16:
  assumes "int (unat (lo :: u16)) \<le> int (unat (hi :: u16))"
  shows "int (unat (word_of_int (clamp x (int (unat lo)) (int (unat hi))) :: u16)) = clamp x (int (unat lo)) (int (unat hi))"
proof -
  have "0 \<le> clamp x (int (unat lo)) (int (unat hi))" "clamp x (int (unat lo)) (int (unat hi)) < 65536"
    using clamp_between [OF assms, of x] u16_bound [of hi] by linarith+
  then show ?thesis by (simp add: unsigned_of_int take_bit_int_eq_self_iff)
qed

lemma update_pid_ok:
  assumes "update_stability_fee_pid_handler rt cfg pida price = Inr (c', pid')"
  shows "flag_set (data_of cfg) FLAG_PID_FEE_CONTROL"
    and "pid_min_fee_bps (data_of pida) \<le> pid_max_fee_bps (data_of pida)"
    and "saturating_add (pid_last_update_slot (data_of pida)) 10 \<le> rt_slot rt"
    and "c' = (data_of cfg)\<lparr>c_stability_fee_bps := c_stability_fee_bps c'\<rparr>"
    and "int (unat (c_stability_fee_bps c')) =
      clamp (i64_saturating_add (int (unat (c_stability_fee_bps (data_of cfg)))) (pid_delta_bps (data_of pida) (pid_error (data_of pida) price)))
        (int (unat (pid_min_fee_bps (data_of pida)))) (int (unat (pid_max_fee_bps (data_of pida))))"
    and "pid' = (data_of pida)\<lparr>pid_last_error := pid_error (data_of pida) price,
      pid_integral := pid_new_integral (data_of pida) (pid_error (data_of pida) price), pid_last_update_slot := rt_slot rt\<rparr>"
proof -
  let ?b = "clamp (i64_saturating_add (int (unat (c_stability_fee_bps (data_of cfg)))) (pid_delta_bps (data_of pida) (pid_error (data_of pida) price)))
        (int (unat (pid_min_fee_bps (data_of pida)))) (int (unat (pid_max_fee_bps (data_of pida))))"
  from assms have le: "int (unat (pid_min_fee_bps (data_of pida))) \<le> int (unat (pid_max_fee_bps (data_of pida)))"
    by (auto simp: update_stability_fee_pid_handler_def Let_def guarded_Inr)
  note clamp_u16 [OF le]
  moreover have run: "flag_set (data_of cfg) FLAG_PID_FEE_CONTROL \<and> saturating_add (pid_last_update_slot (data_of pida)) 10 \<le> rt_slot rt"
    "c' = (data_of cfg)\<lparr>c_stability_fee_bps := word_of_int ?b\<rparr>"
    "pid' = (data_of pida)\<lparr>pid_last_error := pid_error (data_of pida) price,
      pid_integral := pid_new_integral (data_of pida) (pid_error (data_of pida) price), pid_last_update_slot := rt_slot rt\<rparr>"
    using assms unfolding update_stability_fee_pid_handler_def Let_def guarded_Inr by simp_all
  ultimately show "flag_set (data_of cfg) FLAG_PID_FEE_CONTROL"
    and "pid_min_fee_bps (data_of pida) \<le> pid_max_fee_bps (data_of pida)"
    and "saturating_add (pid_last_update_slot (data_of pida)) 10 \<le> rt_slot rt"
    and "c' = (data_of cfg)\<lparr>c_stability_fee_bps := c_stability_fee_bps c'\<rparr>"
    and "int (unat (c_stability_fee_bps c')) = ?b"
    and "pid' = (data_of pida)\<lparr>pid_last_error := pid_error (data_of pida) price,
      pid_integral := pid_new_integral (data_of pida) (pid_error (data_of pida) price), pid_last_update_slot := rt_slot rt\<rparr>"
    using le by (simp_all only: word_le_nat_alt of_nat_le_iff, simp_all)
qed

text \<open>whatever price a caller supplies, an update of the controller leaves the stability fee between the bounds of
  the controller, the accumulated error within a thousand million, and everything else of the configuration
  alone; and two updates are at least ten slots apart.\<close>

theorem pid_update_bounded:
  assumes "update_stability_fee_pid_handler rt cfg pida price = Inr (c', pid')"
    and "unat (pid_last_update_slot (data_of pida)) + 10 < 2 ^ 64"
  shows "pid_min_fee_bps (data_of pida) \<le> c_stability_fee_bps c' \<and> c_stability_fee_bps c' \<le> pid_max_fee_bps (data_of pida) \<and>
    \<bar>pid_integral pid'\<bar> \<le> 1000000000 \<and>
    unat (pid_last_update_slot (data_of pida)) + 10 \<le> unat (pid_last_update_slot pid') \<and>
    c' = (data_of cfg)\<lparr>c_stability_fee_bps := c_stability_fee_bps c'\<rparr>"
proof -
  note u = update_pid_ok [OF assms(1)]
  have le: "int (unat (pid_min_fee_bps (data_of pida))) \<le> int (unat (pid_max_fee_bps (data_of pida)))"
    using u(2) by (simp only: word_le_nat_alt of_nat_le_iff)
  have "\<bar>pid_new_integral (data_of pida) (pid_error (data_of pida) price)\<bar> \<le> 1000000000"
    by (auto simp: pid_new_integral_def clamp_def)
  moreover have "unat (pid_last_update_slot (data_of pida)) + 10 \<le> unat (rt_slot rt)"
    using u(3) assms(2) by (simp add: word_le_nat_alt unat_saturating_add)
  ultimately show ?thesis
    using clamp_between [OF le] u(4,5,6) by (simp add: word_le_def)
qed

lemma saturating_sub_small:
  "0 \<le> a \<Longrightarrow> a < 9223372036854775808 \<Longrightarrow> 0 \<le> b \<Longrightarrow> b < 9223372036854775808 \<Longrightarrow> i64_saturating_sub a b = a - b"
  by (simp add: i64_saturating_sub_def i64_min_def i64_max_def)

lemma saturating_mul_sign:
  "0 \<le> a \<Longrightarrow> 0 \<le> b \<Longrightarrow> 0 \<le> i64_saturating_mul a b"
  "0 \<le> a \<Longrightarrow> b \<le> 0 \<Longrightarrow> i64_saturating_mul a b \<le> 0"
  by (simp_all add: i64_saturating_mul_def i64_min_def i64_max_def le_max_iff_disj min_le_iff_disj mult_nonneg_nonpos)

lemma clamp_push:
  "lo \<le> x \<Longrightarrow> x \<le> hi \<Longrightarrow> hi < 65536 \<Longrightarrow> 0 \<le> x \<Longrightarrow> 0 \<le> d \<Longrightarrow> x \<le> clamp (i64_saturating_add x d) lo hi"
  "lo \<le> x \<Longrightarrow> x \<le> hi \<Longrightarrow> hi < 65536 \<Longrightarrow> 0 \<le> x \<Longrightarrow> d \<le> 0 \<Longrightarrow> clamp (i64_saturating_add x d) lo hi \<le> x"
  by (auto simp: clamp_def i64_saturating_add_def i64_min_def i64_max_def)

lemma sdiv_sign: "0 < d \<Longrightarrow> 0 \<le> a \<Longrightarrow> 0 \<le> a sdiv d" "0 < d \<Longrightarrow> a \<le> 0 \<Longrightarrow> a sdiv d \<le> 0" for a d :: int
  by (auto simp: signed_divide_int_def sgn_if pos_imp_zdiv_nonneg_iff)

text \<open>a proportional controller (no integral and no derivative gain) pushes the fee towards the peg: a price below the
  target never lowers a fee that is within the bounds, and a price above it never raises one.\<close>

theorem pid_pushes_towards_peg:
  assumes "update_stability_fee_pid_handler rt cfg pida price = Inr (c', pid')"
    and "0 \<le> pid_kp (data_of pida)" and "pid_ki (data_of pida) = 0" and "pid_kd (data_of pida) = 0"
    and "price < 2 ^ 63" and "pid_target_price (data_of pida) < 2 ^ 63"
    and "pid_min_fee_bps (data_of pida) \<le> c_stability_fee_bps (data_of cfg)"
    and "c_stability_fee_bps (data_of cfg) \<le> pid_max_fee_bps (data_of pida)"
  shows "if price \<le> pid_target_price (data_of pida) then c_stability_fee_bps (data_of cfg) \<le> c_stability_fee_bps c'
    else c_stability_fee_bps c' \<le> c_stability_fee_bps (data_of cfg)"
proof -
  let ?pid = "data_of pida"
  let ?err = "pid_error ?pid price"
  let ?delta = "pid_delta_bps ?pid ?err"
  have cast: "u64_as_i64 x = int (unat x)" if "x < 2 ^ 63" for x :: u64
  proof -
    have "unat x < 2 ^ 63" using that by (simp add: word_less_nat_alt)
    then have "uint x < 2 ^ 63" by (simp only: uint_nat of_nat_less_iff of_nat_power of_nat_numeral flip: of_nat_less_iff [where 'a = int])
    moreover have "- (2 ^ 63) \<le> uint x" by (rule order_trans [OF _ uint_ge_0]) simp
    ultimately show ?thesis by (simp add: u64_as_i64_def sint_uint signed_take_bit_int_eq_self_iff)
  qed
  have err: "?err = int (unat (pid_target_price ?pid)) - int (unat price)"
    using cast [OF assms(5)] cast [OF assms(6)] assms(5,6)
    by (simp add: pid_error_def word_less_def saturating_sub_small)
  have delta: "?delta = i64_saturating_mul (pid_kp ?pid) ?err sdiv 1000000"
    using assms(3,4) by (simp add: pid_delta_bps_def i64_saturating_mul_def i64_saturating_add_def i64_min_def i64_max_def Let_def)
  have sign: "0 \<le> ?delta" if "0 \<le> ?err"
    using that assms(2) unfolding delta by (intro sdiv_sign saturating_mul_sign) simp_all
  have sign': "?delta \<le> 0" if "?err \<le> 0"
    using that assms(2) unfolding delta by (intro sdiv_sign saturating_mul_sign) simp_all
  have range: "int (unat (pid_min_fee_bps ?pid)) \<le> int (unat (c_stability_fee_bps (data_of cfg)))"
      "int (unat (c_stability_fee_bps (data_of cfg))) \<le> int (unat (pid_max_fee_bps ?pid))"
      "int (unat (pid_max_fee_bps ?pid)) < 65536" "0 \<le> int (unat (c_stability_fee_bps (data_of cfg)))"
    using assms(7,8) u16_bound [of "pid_max_fee_bps ?pid"] by (simp_all only: word_le_nat_alt of_nat_le_iff)
  show ?thesis
  proof (cases "price \<le> pid_target_price ?pid")
    case True
    then have "0 \<le> ?err" unfolding err by (simp add: word_le_def)
    from clamp_push(1) [OF range sign [OF this]] True show ?thesis
      using update_pid_ok(5) [OF assms(1)] by (simp only: word_le_nat_alt of_nat_le_iff if_True)
  next
    case False
    then have "?err \<le> 0" unfolding err by (simp add: word_le_def)
    from clamp_push(2) [OF range sign' [OF this]] False show ?thesis
      using update_pid_ok(5) [OF assms(1)] by (simp only: word_le_nat_alt of_nat_le_iff if_False)
  qed
qed

text \<open>
  With a Pyth oracle (type 0) the price is whatever the caller says: no check looks at it, and so the
  caller chooses the next fee within the bounds.
\<close>

lemma pid_price_unchecked: "c_oracle_type c = 0 \<Longrightarrow> pid_price_ok c pid price"
  by (simp add: pid_price_ok_def)

section \<open>The curve\<close>

definition curve_wf :: "psm_curve_config \<Rightarrow> bool" where
  "curve_wf curve \<longleftrightarrow> ps_base_fee_bps curve \<le> ps_max_fee_bps curve \<and> ps_max_fee_bps curve \<le> PSM_MAX_FEE_BPS"

lemma init_curve_wf:
  "init_psm_curve_config_handler rt authority cfg existing b k m = Inr (c', curve) \<Longrightarrow> curve_wf curve"
  by (auto simp: init_psm_curve_config_handler_def validate_curve_params_def guarded_Inr run_ok Let_def curve_wf_def)

lemma update_curve_wf:
  "update_psm_curve_config_handler rt authority cfg curve b k m = Inr curve' \<Longrightarrow> curve_wf curve'"
  by (auto simp: update_psm_curve_config_handler_def validate_curve_params_def guarded_Inr run_ok Let_def curve_wf_def)

text \<open>The surcharge of the curve on natural numbers, with the two saturating products as minima.\<close>

definition surcharge :: "nat \<Rightarrow> nat \<Rightarrow> nat \<Rightarrow> nat" where
  "surcharge k imb held =
     (let r = min (imb * 1000000) (2 ^ 128 - 1) div held in
      min (min (k * r) (2 ^ 128 - 1) * r) (2 ^ 128 - 1) div 1000000000000)"

lemma surcharge_mono: "i \<le> j \<Longrightarrow> surcharge k i held \<le> surcharge k j held"
  unfolding surcharge_def Let_def
  by (intro div_le_mono min.mono mult_le_mono order_refl) auto

lemma surcharge_zero: "surcharge k 0 held = 0"
  by (simp add: surcharge_def)

lemma unwrap_checked_div: "b \<noteq> 0 \<Longrightarrow> unat (unwrap_or (checked_div a b) 0) = unat a div unat b"
  by (simp add: checked_div_def unwrap_or_def unat_div)

lemma compute_fee_nat:
  assumes "curve_wf curve" and "held \<noteq> 0"
  shows "unat (compute_fee curve vault held) =
    min (unat (ps_base_fee_bps curve) + min (surcharge (unat (ps_curve_k curve)) (unat (psm_imbalance vault held)) (unat held))
           (unat (ps_max_fee_bps curve))) (unat (ps_max_fee_bps curve))"
proof -
  let ?r = "unwrap_or (checked_div (saturating_mul (ucast (psm_imbalance vault held) :: u128) 1000000) (ucast held)) 0"
  let ?d = "unwrap_or (checked_div (saturating_mul (saturating_mul (ucast (ps_curve_k curve)) ?r) ?r) 1000000000000) 0 :: u128"
  have t: "(ucast held :: u128) \<noteq> 0" using assms(2) by (simp add: word_zero_unat)
  have r: "unat ?r = min (unat (psm_imbalance vault held) * 1000000) (2 ^ 128 - 1) div unat held"
    using t by (simp add: unwrap_checked_div unat_saturating_mul)
  have "unat ?d = surcharge (unat (ps_curve_k curve)) (unat (psm_imbalance vault held)) (unat held)"
    by (simp add: unwrap_checked_div unat_saturating_mul r surcharge_def Let_def)
  moreover have "unat (min ?d (ucast (ps_max_fee_bps curve))) < 65536"
    using u16_bound [of "ps_max_fee_bps curve"] by (simp add: unat_min)
  ultimately have "unat (ucast (min ?d (ucast (ps_max_fee_bps curve))) :: u16) =
      min (surcharge (unat (ps_curve_k curve)) (unat (psm_imbalance vault held)) (unat held)) (unat (ps_max_fee_bps curve))"
    by (simp add: unat_narrow_small unat_min)
  moreover have "unat (ps_base_fee_bps curve) + unat (ps_max_fee_bps curve) < 65536"
    using assms(1) by (simp add: curve_wf_def PSM_MAX_FEE_BPS_def word_le_nat_alt)
  ultimately show ?thesis
    using assms(2) by (simp add: compute_fee_def Let_def unat_min unat_saturating_add)
qed

lemma compute_fee_between:
  assumes "curve_wf curve"
  shows "ps_base_fee_bps curve \<le> compute_fee curve vault held \<and> compute_fee curve vault held \<le> ps_max_fee_bps curve"
proof (cases "held = 0")
  case True
  with assms show ?thesis by (simp add: compute_fee_def curve_wf_def)
next
  case False
  with assms show ?thesis by (simp add: word_le_nat_alt compute_fee_nat curve_wf_def)
qed

text \<open>the fee of the swap lies between the base fee and the maximal fee of the curve, is the base fee when the vault holds
  half of the recorded reserves, and never falls when the vault moves further from that half.\<close>

theorem psm_fee_curve:
  assumes "ps_base_fee_bps curve \<le> ps_max_fee_bps curve" and "ps_max_fee_bps curve \<le> 1000"
  shows "ps_base_fee_bps curve \<le> compute_fee curve vault held \<and> compute_fee curve vault held \<le> ps_max_fee_bps curve \<and>
    compute_fee curve (held div 2) held = ps_base_fee_bps curve \<and>
    (psm_imbalance vault held \<le> psm_imbalance vault' held \<longrightarrow> compute_fee curve vault held \<le> compute_fee curve vault' held)"
proof -
  have wf: "curve_wf curve" using assms by (simp add: curve_wf_def PSM_MAX_FEE_BPS_def)
  have "compute_fee curve (held div 2) held = ps_base_fee_bps curve"
  proof (cases "held = 0")
    case True
    then show ?thesis by (simp add: compute_fee_def)
  next
    case False
    have "psm_imbalance (held div 2) held = 0" by (simp add: psm_imbalance_def)
    then show ?thesis
      using compute_fee_nat [OF wf False, of "held div 2"] assms by (simp add: surcharge_zero word_unat_eq_iff word_le_nat_alt)
  qed
  moreover have "compute_fee curve vault held \<le> compute_fee curve vault' held" if "psm_imbalance vault held \<le> psm_imbalance vault' held"
  proof (cases "held = 0")
    case True
    then show ?thesis by (simp add: compute_fee_def)
  next
    case False
    have "surcharge (unat (ps_curve_k curve)) (unat (psm_imbalance vault held)) (unat held) \<le>
        surcharge (unat (ps_curve_k curve)) (unat (psm_imbalance vault' held)) (unat held)"
      using that by (intro surcharge_mono) (simp add: word_le_nat_alt)
    then show ?thesis by (simp add: word_le_nat_alt compute_fee_nat [OF wf False])
  qed
  ultimately show ?thesis using compute_fee_between [OF wf] by blast
qed

section \<open>The swap\<close>

lemma psm_fee_amount_nat:
  assumes "fee \<le> 1000"
  shows "unat (psm_fee_amount amount fee) = unat amount * unat fee div 10000"
proof -
  have f: "unat fee \<le> 1000" using assms by (simp add: word_le_nat_alt)
  have b: "unat amount * unat fee < 2 ^ 128"
    using u64_bound [of amount] f by (intro le_less_trans [OF mult_le_mono [OF less_imp_le [OF u64_bound] f]]) simp
  have "unat amount * unat fee \<le> unat amount * 1000" using f by (rule mult_le_mono2)
  then have "unat amount * unat fee div 10000 < 18446744073709551616" using u64_bound [of amount] by linarith
  with b show ?thesis
    by (simp add: psm_fee_amount_def unat_narrow_small unwrap_checked_div unat_saturating_mul min_absorb1)
qed

lemma swap_ok:
  assumes "psm_dynamic_swap_handler rt w ctx curve amount = Inr (c', w')"
  obtains vault out d1 d2 w1 k sss dest where
    "rt_token rt w (rd_reserve_vault ctx) = Some vault" "ta_mint vault = rd_collateral_mint ctx"
    "out = unwrap_or (checked_sub amount (let f = compute_fee (data_of curve) (ta_amount vault) (c_total_collateral (data_of (rd_config ctx)))
       in if f > 0 then psm_fee_amount amount f else 0)) 0" "0 < out"
    "amount \<le> ta_amount vault"
    "rt_invoke rt w [rd_redeemer ctx] (BurnChecked (rd_sss_mint ctx) (rd_redeemer_sss ctx) (rd_redeemer ctx) amount d1) = Inr w1"
    "rt_invoke rt w1 (k # [rd_redeemer ctx])
       (TransferChecked (rd_reserve_vault ctx) (rd_collateral_mint ctx) (rd_redeemer_collateral ctx)
          (key_of (rd_config ctx)) out d2) = Inr w'"
    "c' = (data_of (rd_config ctx))\<lparr>c_total_burned := c_total_burned c', c_total_collateral := c_total_collateral c'\<rparr>"
    "unat (c_total_burned c') = unat (c_total_burned (data_of (rd_config ctx))) + unat amount"
    "unat (c_total_collateral (data_of (rd_config ctx))) = unat (c_total_collateral c') + unat out"
    "rt_token rt w (rd_redeemer_sss ctx) = Some sss" "ta_mint sss = rd_sss_mint ctx"
    "rt_token rt w (rd_redeemer_collateral ctx) = Some dest" "ta_mint dest = rd_collateral_mint ctx"
    "rd_reserve_vault ctx = c_reserve_vault (data_of (rd_config ctx))"
    "flag_set (data_of (rd_config ctx)) FLAG_PSM_DYNAMIC_FEES"
  using assms
  by (auto simp: psm_dynamic_swap_handler_def psm_accounts_def Let_def run_ok guarded_Inr arith_ok)

lemma swap_paid:
  assumes "curve_wf curve" and "out = unwrap_or (checked_sub amount (let f = compute_fee curve v t in if f > 0 then psm_fee_amount amount f else 0)) 0"
  shows "unat out = unat amount - unat amount * unat (compute_fee curve v t) div 10000" and "unat amount * 9 \<le> unat out * 10"
proof -
  let ?f = "compute_fee curve v t"
  have f: "?f \<le> 1000" using compute_fee_between [OF assms(1), of v t] assms(1)
    by (auto simp: curve_wf_def PSM_MAX_FEE_BPS_def intro: order_trans)
  then have f': "unat ?f \<le> 1000" by (simp add: word_le_nat_alt)
  let ?fee = "if ?f > 0 then psm_fee_amount amount ?f else 0"
  have fee: "unat ?fee = unat amount * unat ?f div 10000"
    using psm_fee_amount_nat [OF f, of amount] by (auto simp: word_less_nat_alt word_zero_unat)
  have "unat amount * unat ?f \<le> unat amount * 1000" using f' by (rule mult_le_mono2)
  then have le: "unat ?fee * 10 \<le> unat amount" using fee by linarith
  then have "out = amount - ?fee" using assms(2) by (auto simp: Let_def checked_sub_def unwrap_or_def word_le_nat_alt)
  moreover have "?fee \<le> amount" using le by (auto simp: word_le_nat_alt)
  ultimately have out: "unat out = unat amount - unat ?fee" by (simp add: unat_sub)
  then show "unat out = unat amount - unat amount * unat ?f div 10000" using fee by simp
  from out le show "unat amount * 9 \<le> unat out * 10" by linarith
qed


section \<open>The tiers\<close>

text \<open>
  Accepted tiers are strictly ordered and their bonuses never fall with the distress and never exceed
  a half; the instructions keep this.
\<close>

definition tiers_wf :: "bonus_tiers \<Rightarrow> bool" where
  "tiers_wf t \<longleftrightarrow>
     bt_tier3_threshold_bps t < bt_tier2_threshold_bps t \<and> bt_tier2_threshold_bps t < bt_tier1_threshold_bps t \<and>
     bt_tier1_threshold_bps t \<le> 15000 \<and>
     sorted [bt_tier1_bonus_bps t, bt_tier2_bonus_bps t, bt_tier3_bonus_bps t, bt_max_bonus_bps t, 5000]"

lemma validate_tiers_wf: "list_all fst (validate_tiers t) \<longleftrightarrow> tiers_wf t"
  by (auto simp: validate_tiers_def tiers_wf_def intro: order_trans)

lemma init_bonus_tiers:
  "init_liquidation_bonus_config_handler rt authority cfg existing t = Inr (c', bonus) \<Longrightarrow> tiers_wf (lb_tiers bonus)"
  by (auto simp: init_liquidation_bonus_config_handler_def Let_def guarded_append validate_tiers_wf run_ok guarded_Inr
      split: if_splits)

lemma update_bonus_tiers:
  "update_liquidation_bonus_config_handler rt authority cfg bonus t = Inr bonus' \<Longrightarrow>
     tiers_wf (lb_tiers bonus') \<and> lb_sss_mint bonus' = lb_sss_mint (data_of bonus)"
  by (auto simp: update_liquidation_bonus_config_handler_def Let_def guarded_append validate_tiers_wf run_ok guarded_Inr
      split: if_splits)

section \<open>At work\<close>

definition demo_pid :: pid_config where
  "demo_pid = \<lparr>pid_sss_mint = 5, pid_kp = 2000000, pid_ki = 0, pid_kd = 0, pid_target_price = 1000, pid_min_fee_bps = 10,
     pid_max_fee_bps = 4000, pid_last_error = 0, pid_integral = 0, pid_last_update_slot = 0, pid_bump = 255\<rparr>"

definition demo_pid_acct :: "pid_config account" where
  "demo_pid_acct = \<lparr>key_of = ref_pda (pid_seeds 5), data_of = demo_pid\<rparr>"

definition demo_pid_cfg :: stablecoin_config where
  "demo_pid_cfg = demo_config\<lparr>c_feature_flags := FLAG_PID_FEE_CONTROL, c_stability_fee_bps := 100\<rparr>"

lemma demo_pid_simps:
  "pid_bump demo_pid = 255" "pid_last_update_slot demo_pid = 0" "pid_min_fee_bps demo_pid = 10" "pid_max_fee_bps demo_pid = 4000"
  by (simp_all add: demo_pid_def)

lemma demo_pid_init:
  "init_pid_config_handler (ref_runtime 0 0 0) 7 (demo_acct demo_config) None
     \<lparr>np_kp = 2000000, np_ki = 0, np_kd = 0, np_target_price = 1000, np_min_fee_bps = 10, np_max_fee_bps = 4000\<rparr> =
   Inr (demo_config\<lparr>c_feature_flags := FLAG_PID_FEE_CONTROL\<rparr>, demo_pid)"
  by (simp add: eval_defs demo_pid_def init_pid_config_handler_def owner_accounts_def config_ok_def squads_gate_def
      set_flags_def word_le_nat_alt demo_cfg_key_def)

lemmas pid_eval = u64_as_i64_def i64_saturating_sub_def i64_saturating_add_def i64_saturating_mul_def i64_min_def i64_max_def
  clamp_def signed_divide_int_def

lemma demo_pid_runs:
  "update_stability_fee_pid_handler (ref_runtime 50 0 0) (demo_acct demo_pid_cfg) demo_pid_acct 990 =
     Inr (demo_pid_cfg\<lparr>c_stability_fee_bps := 120\<rparr>,
       demo_pid\<lparr>pid_last_error := 10, pid_integral := 10, pid_last_update_slot := 50\<rparr>)"
proof -
  have e: "pid_error demo_pid 990 = 10" by (simp add: demo_pid_def pid_error_def pid_eval)
  have i: "pid_new_integral demo_pid 10 = 10" by (simp add: demo_pid_def pid_new_integral_def pid_eval)
  have d: "pid_delta_bps demo_pid 10 = 20" by (simp add: demo_pid_def pid_delta_bps_def pid_eval pid_new_integral_def Let_def)
  show ?thesis
    by (simp add: update_stability_fee_pid_handler_def demo_pid_acct_def demo_pid_cfg_def e i d Let_def)
      (simp add: e i d demo_pid_simps demo_config_def config_ok_def seeds_ok_def demo_cfg_key_def check_feature_flag_def flag_defs
        saturating_add_def word_le_nat_alt pid_price_ok_def pid_eval)
qed

theorem pid_update_bounded_witness: "(10 :: u16) \<le> 120 \<and> (120 :: u16) \<le> 4000"
  using pid_update_bounded [OF demo_pid_runs] by (simp add: demo_pid_acct_def demo_pid_def demo_pid_cfg_def)

theorem pid_pushes_towards_peg_witness: "(100 :: u16) \<le> 120"
  using pid_pushes_towards_peg [OF demo_pid_runs]
  by (simp add: demo_pid_acct_def demo_pid_def demo_pid_cfg_def word_le_nat_alt word_less_nat_alt)

definition demo_curve :: psm_curve_config where
  "demo_curve = \<lparr>ps_sss_mint = 5, ps_authority = 7, ps_base_fee_bps = 10, ps_curve_k = 400000000, ps_max_fee_bps = 500, ps_bump = 255\<rparr>"

definition demo_curve_acct :: "psm_curve_config account" where
  "demo_curve_acct = \<lparr>key_of = ref_pda (psm_seeds 5), data_of = demo_curve\<rparr>"

theorem psm_fee_curve_witness: "compute_fee demo_curve 450 900 = 10 \<and> (10 :: u16) \<le> compute_fee demo_curve 900 900"
  using psm_fee_curve [of demo_curve 900 900 900] by (simp add: demo_curve_def word_le_nat_alt)

definition demo_swap_cfg :: "u64 \<Rightarrow> stablecoin_config" where
  "demo_swap_cfg flags = demo_config\<lparr>c_feature_flags := flags\<rparr>"

lemma demo_fee: "compute_fee demo_curve 900 900 = 500" "psm_fee_amount 200 500 = 10"
  by (simp_all add: compute_fee_def demo_curve_def psm_imbalance_def psm_fee_amount_def unwrap_or_def checked_div_def
      saturating_mul_def saturating_add_def word_le_nat_alt word_less_nat_alt min_def Let_def)

lemma demo_curve_simps:
  "ps_bump demo_curve = 255" "ps_sss_mint demo_curve = 5" "ps_base_fee_bps demo_curve = 10" "ps_max_fee_bps demo_curve = 500"
  by (simp_all add: demo_curve_def)

lemma demo_swap:
  assumes "flags = 2048 \<or> flags = 2049"
  obtains c' w' where "psm_dynamic_swap_handler (ref_runtime 10 3 0) demo_ledger (demo_redeem_ctx (demo_swap_cfg flags)) demo_curve_acct 200
      = Inr (c', w')"
  using assms
  by (auto simp: eval_defs psm_dynamic_swap_handler_def psm_accounts_def demo_redeem_ctx_def demo_swap_cfg_def demo_curve_acct_def
      demo_curve_simps demo_fee config_ok_def demo_cfg_key_def unwrap_or_def)


text \<open>
  The circuit breaker stops \<open>redeem\<close> but not the swap, which also burns the stablecoin and pays out
  of the same vault; and the swap's flag does not close \<open>redeem\<close>.
\<close>

lemma swap_ignores_circuit_breaker:
  "\<exists>c' w'. psm_dynamic_swap_handler (ref_runtime 10 3 0) demo_ledger (demo_redeem_ctx (demo_swap_cfg 2049)) demo_curve_acct 200
      = Inr (c', w')"
  "redeem_handler (ref_runtime 10 3 0) demo_ledger (demo_redeem_ctx (demo_swap_cfg 2049)) 200 = Inl (Cdp CircuitBreakerActive)"
  "\<exists>c' w'. redeem_handler (ref_runtime 10 3 0) demo_ledger (demo_redeem_ctx (demo_swap_cfg 2048)) 200 = Inr (c', w')"
proof -
  show "\<exists>c' w'. psm_dynamic_swap_handler (ref_runtime 10 3 0) demo_ledger (demo_redeem_ctx (demo_swap_cfg 2049)) demo_curve_acct 200
      = Inr (c', w')" using demo_swap [of 2049] by blast
qed (simp_all add: eval_defs demo_redeem_ctx_def demo_swap_cfg_def demo_cfg_key_def)

end
