(* ===== verification/Redemption.thy ===== *)
theory Redemption
  imports AuthGate RateWindow Demo Machine
begin

text \<open>
  Redemption at par outside the queue: the pool of collateral that redeems at once for a fee
  (programs/sss-token/src/instructions/redemption\_pool.rs), and the guarantee under which a holder locks
  stablecoins and is either paid within the agreed time or gets them back with a penalty
  (redemption\_guarantee.rs).
\<close>

section \<open>The pool\<close>

record redemption_pool =
  rpl_sss_mint :: pubkey
  rpl_reserve_vault :: pubkey
  rpl_current_liquidity :: u64
  rpl_max_pool_size :: u64
  rpl_instant_redemption_fee_bps :: u16
  rpl_total_seeded :: u64
  rpl_total_redeemed :: u64
  rpl_total_replenished :: u64
  rpl_utilization_bps :: u16
  rpl_bump :: u8

definition MAX_FEE_BPS :: u16 where "MAX_FEE_BPS = 500"

definition pool_seeds :: "pubkey \<Rightarrow> seed list" where
  "pool_seeds mint = [SeedStr ''redemption-pool'', SeedKey mint]"

definition vault_authority_seeds :: "pubkey \<Rightarrow> seed list" where
  "vault_authority_seeds mint = [SeedStr ''vault-authority'', SeedKey mint]"

text \<open>The accounts of the four instructions: the signer, the signer's accounts in both tokens, the pool's vault and the mints.\<close>

record pool_ctx =
  plx_signer :: pubkey
  plx_config :: "stablecoin_config account"
  plx_user_token :: pubkey
  plx_user_reserve :: pubkey
  plx_reserve_vault :: pubkey
  plx_sss_mint :: pubkey
  plx_collateral_mint :: pubkey

definition pool_mints :: "pool_ctx \<Rightarrow> (bool \<times> error) list" where
  "pool_mints ctx =
     [(plx_sss_mint ctx = c_mint (data_of (plx_config ctx)), Pool RedemptionPoolMintMismatch),
      (plx_collateral_mint ctx = c_collateral_mint (data_of (plx_config ctx)), Compliance InvalidMint)]"

definition user_account_ok :: "pool_ctx \<Rightarrow> token_account \<Rightarrow> pubkey \<Rightarrow> (bool \<times> error) list" where
  "user_account_ok ctx ta mint =
     [(ta_owner ta = plx_signer ctx, Pool TokenAccountOwnerMismatch), (ta_mint ta = mint, Pool RedemptionPoolMintMismatch)]"

definition pool_ok :: "'w runtime \<Rightarrow> pool_ctx \<Rightarrow> redemption_pool account \<Rightarrow> (bool \<times> error) list" where
  "pool_ok rt ctx pa =
     [(seeds_ok rt (key_of pa) (pool_seeds (c_mint (data_of (plx_config ctx)))) (rpl_bump (data_of pa)), Anchor ConstraintSeeds),
      (rpl_sss_mint (data_of pa) = c_mint (data_of (plx_config ctx)), Pool RedemptionPoolMintMismatch),
      (plx_reserve_vault ctx = rpl_reserve_vault (data_of pa), Pool RedemptionPoolVaultMismatch)]"

text \<open>\<open>init_if_needed\<close>: the record is all zero before the first seeding.\<close>

definition zero_pool :: redemption_pool where
  "zero_pool =
     \<lparr>rpl_sss_mint = 0, rpl_reserve_vault = 0, rpl_current_liquidity = 0, rpl_max_pool_size = 0,
      rpl_instant_redemption_fee_bps = 0, rpl_total_seeded = 0, rpl_total_redeemed = 0, rpl_total_replenished = 0,
      rpl_utilization_bps = 0, rpl_bump = 0\<rparr>"

definition bound_pool :: "'w runtime \<Rightarrow> stablecoin_config \<Rightarrow> pubkey \<Rightarrow> redemption_pool \<Rightarrow> redemption_pool" where
  "bound_pool rt c vault p =
     (if rpl_bump p = 0 then
        p\<lparr>rpl_bump := snd (rt_find_pda rt (pool_seeds (c_mint c))), rpl_sss_mint := c_mint c, rpl_reserve_vault := vault\<rparr>
      else p)"

definition pool_has_room :: "u64 \<Rightarrow> redemption_pool \<Rightarrow> u64 \<Rightarrow> bool" where
  "pool_has_room max_size p amount \<longleftrightarrow> (max_size > 0 \<longrightarrow> saturating_add (rpl_current_liquidity p) amount \<le> max_size)"

definition seed_redemption_pool_handler ::
  "'w runtime \<Rightarrow> 'w \<Rightarrow> pool_ctx \<Rightarrow> redemption_pool option \<Rightarrow> u64 \<Rightarrow> u64 \<Rightarrow> u16 \<Rightarrow> (redemption_pool \<times> 'w) res" where
  "seed_redemption_pool_handler rt w ctx existing amount max_pool_size fee_bps =
     (let c = data_of (plx_config ctx) in
      andthen (load_token rt w (plx_reserve_vault ctx)) (\<lambda>vault.
      andthen (load_token rt w (plx_user_reserve ctx)) (\<lambda>src.
      andthen (load_mint rt w (plx_sss_mint ctx)) (\<lambda>_.
      andthen (load_mint rt w (plx_collateral_mint ctx)) (\<lambda>cm.
      guarded
        (owner_accounts rt (plx_signer ctx) (plx_config ctx) @
         [(ta_mint vault = c_collateral_mint c, Pool RedemptionPoolMintMismatch)] @
         user_account_ok ctx src (c_collateral_mint c) @ pool_mints ctx)
        (andthen (squads_gate c (plx_signer ctx)) (\<lambda>_.
         guarded
           [(c_collateral_mint c \<noteq> default_key, Late NoCollateralConfigured), (amount > 0, Backstop InvalidAmount),
            (fee_bps \<le> MAX_FEE_BPS, Pool RedemptionFeeTooHigh)]
           (let p = bound_pool rt c (plx_reserve_vault ctx) (case existing of None \<Rightarrow> zero_pool | Some p \<Rightarrow> p) in
            guarded
              [(rpl_reserve_vault p = plx_reserve_vault ctx, Pool RedemptionPoolVaultMismatch),
               (pool_has_room max_pool_size p amount, Pool RedemptionPoolFull)]
              (andthen (cpi rt w [plx_signer ctx]
                          (TransferChecked (plx_user_reserve ctx) (plx_collateral_mint ctx) (plx_reserve_vault ctx)
                             (plx_signer ctx) amount (tm_decimals cm))) (\<lambda>w'.
               Inr (p\<lparr>rpl_max_pool_size := max_pool_size, rpl_instant_redemption_fee_bps := fee_bps,
                      rpl_current_liquidity := saturating_add (rpl_current_liquidity p) amount,
                      rpl_total_seeded := saturating_add (rpl_total_seeded p) amount\<rparr>, w')))))))))))"

definition instant_fee :: "u64 \<Rightarrow> u16 \<Rightarrow> u64" where
  "instant_fee amount fee_bps = ucast (saturating_mul (ucast amount) (ucast fee_bps) div (10000 :: u128))"

definition utilization :: "redemption_pool \<Rightarrow> u16" where
  "utilization p =
     (let total_in = saturating_add (rpl_total_seeded p) (rpl_total_replenished p) in
      if total_in > 0
      then ucast (min (saturating_mul (ucast (rpl_total_redeemed p)) 10000 div (ucast total_in :: u128)) 10000)
      else rpl_utilization_bps p)"

definition instant_redemption_handler ::
  "'w runtime \<Rightarrow> 'w \<Rightarrow> pool_ctx \<Rightarrow> redemption_pool account \<Rightarrow> u64 \<Rightarrow> (redemption_pool \<times> 'w) res" where
  "instant_redemption_handler rt w ctx pa amount =
     (let c = data_of (plx_config ctx); p = data_of pa in
      andthen (load_token rt w (plx_user_token ctx)) (\<lambda>ut.
      andthen (load_token rt w (plx_reserve_vault ctx)) (\<lambda>_.
      andthen (load_token rt w (plx_user_reserve ctx)) (\<lambda>ur.
      andthen (load_mint rt w (plx_sss_mint ctx)) (\<lambda>_.
      andthen (load_mint rt w (plx_collateral_mint ctx)) (\<lambda>cm.
      guarded
        (config_ok rt (plx_config ctx) (c_mint c) @ [(\<not> c_paused c, Core MintPaused)] @ pool_ok rt ctx pa @
         user_account_ok ctx ut (c_mint c) @ user_account_ok ctx ur (c_collateral_mint c) @ pool_mints ctx @
         [(c_collateral_mint c \<noteq> default_key, Late NoCollateralConfigured), (amount > 0, Backstop InvalidAmount),
          (amount \<le> rpl_current_liquidity p, Pool RedemptionPoolEmpty)])
        (let payout = saturating_sub amount (instant_fee amount (rpl_instant_redemption_fee_bps p)) in
         guarded [(payout > 0, Backstop InvalidAmount)]
           (let p1 = p\<lparr>rpl_current_liquidity := saturating_sub (rpl_current_liquidity p) amount,
                       rpl_total_redeemed := saturating_add (rpl_total_redeemed p) amount\<rparr>;
                p2 = p1\<lparr>rpl_utilization_bps := utilization p1\<rparr>;
                auth = rt_find_pda rt (vault_authority_seeds (c_mint c)) in
            andthen (cpi rt w [plx_signer ctx] (Burn (plx_sss_mint ctx) (plx_user_token ctx) (plx_signer ctx) amount)) (\<lambda>w1.
            andthen (cpi_signed rt w1 [plx_signer ctx] (vault_authority_seeds (c_mint c)) (snd auth)
                       (TransferChecked (plx_reserve_vault ctx) (plx_collateral_mint ctx) (plx_user_reserve ctx) (fst auth)
                          payout (tm_decimals cm))) (\<lambda>w2.
            Inr (p2, w2)))))))))))"

definition replenish_redemption_pool_handler ::
  "'w runtime \<Rightarrow> 'w \<Rightarrow> pool_ctx \<Rightarrow> redemption_pool account \<Rightarrow> u64 \<Rightarrow> (redemption_pool \<times> 'w) res" where
  "replenish_redemption_pool_handler rt w ctx pa amount =
     (let c = data_of (plx_config ctx); p = data_of pa in
      andthen (load_token rt w (plx_reserve_vault ctx)) (\<lambda>_.
      andthen (load_token rt w (plx_user_reserve ctx)) (\<lambda>src.
      andthen (load_mint rt w (plx_sss_mint ctx)) (\<lambda>_.
      andthen (load_mint rt w (plx_collateral_mint ctx)) (\<lambda>cm.
      guarded
        (config_ok rt (plx_config ctx) (c_mint c) @ pool_ok rt ctx pa @ user_account_ok ctx src (c_collateral_mint c) @
         pool_mints ctx @
         [(c_collateral_mint c \<noteq> default_key, Late NoCollateralConfigured), (amount > 0, Backstop InvalidAmount),
          (pool_has_room (rpl_max_pool_size p) p amount, Pool RedemptionPoolFull)])
        (andthen (cpi rt w [plx_signer ctx]
                    (TransferChecked (plx_user_reserve ctx) (plx_collateral_mint ctx) (plx_reserve_vault ctx) (plx_signer ctx)
                       amount (tm_decimals cm))) (\<lambda>w'.
         Inr (p\<lparr>rpl_current_liquidity := saturating_add (rpl_current_liquidity p) amount,
                rpl_total_replenished := saturating_add (rpl_total_replenished p) amount\<rparr>, w'))))))))"

definition drain_redemption_pool_handler ::
  "'w runtime \<Rightarrow> 'w \<Rightarrow> pool_ctx \<Rightarrow> redemption_pool account \<Rightarrow> (redemption_pool \<times> 'w) res" where
  "drain_redemption_pool_handler rt w ctx pa =
     (let c = data_of (plx_config ctx); p = data_of pa; auth = rt_find_pda rt (vault_authority_seeds (c_mint c)) in
      andthen (load_token rt w (plx_reserve_vault ctx)) (\<lambda>_.
      andthen (load_token rt w (plx_user_reserve ctx)) (\<lambda>dest.
      andthen (load_mint rt w (plx_sss_mint ctx)) (\<lambda>_.
      andthen (load_mint rt w (plx_collateral_mint ctx)) (\<lambda>cm.
      guarded
        (owner_accounts rt (plx_signer ctx) (plx_config ctx) @ pool_ok rt ctx pa @
         user_account_ok ctx dest (c_collateral_mint c) @ pool_mints ctx @
         [(c_collateral_mint c \<noteq> default_key, Late NoCollateralConfigured)])
        (andthen (squads_gate c (plx_signer ctx)) (\<lambda>_.
         guarded [(rpl_current_liquidity p > 0, Backstop InvalidAmount)]
         (andthen (cpi_signed rt w [plx_signer ctx] (vault_authority_seeds (c_mint c)) (snd auth)
                     (TransferChecked (plx_reserve_vault ctx) (plx_collateral_mint ctx) (plx_user_reserve ctx) (fst auth)
                        (rpl_current_liquidity p) (tm_decimals cm))) (\<lambda>w'.
          Inr (p\<lparr>rpl_current_liquidity := 0\<rparr>, w'))))))))))"

section \<open>The pool over time\<close>

record 'w pool_world =
  plw_pool :: redemption_pool
  plw_ledger :: 'w

datatype 'w pool_event =
    SeedPool "'w runtime" pool_ctx u64 u64 u16
  | RedeemInstantly "'w runtime" pool_ctx u64
  | ReplenishPool "'w runtime" pool_ctx u64
  | DrainPool "'w runtime" pool_ctx
  | OthersMove "'w \<Rightarrow> 'w"

definition put_pool :: "redemption_pool \<times> 'w \<Rightarrow> 'w pool_world res" where
  "put_pool r = Inr \<lparr>plw_pool = fst r, plw_ledger = snd r\<rparr>"

fun pool_exec :: "pubkey \<Rightarrow> 'w pool_event \<Rightarrow> 'w pool_world \<Rightarrow> 'w pool_world res" where
  "pool_exec k (SeedPool rt ctx n m f) s =
     andthen (seed_redemption_pool_handler rt (plw_ledger s) ctx (Some (plw_pool s)) n m f) put_pool"
| "pool_exec k (RedeemInstantly rt ctx n) s =
     andthen (instant_redemption_handler rt (plw_ledger s) ctx \<lparr>key_of = k, data_of = plw_pool s\<rparr> n) put_pool"
| "pool_exec k (ReplenishPool rt ctx n) s =
     andthen (replenish_redemption_pool_handler rt (plw_ledger s) ctx \<lparr>key_of = k, data_of = plw_pool s\<rparr> n) put_pool"
| "pool_exec k (DrainPool rt ctx) s =
     andthen (drain_redemption_pool_handler rt (plw_ledger s) ctx \<lparr>key_of = k, data_of = plw_pool s\<rparr>) put_pool"
| "pool_exec k (OthersMove f) s = Inr (s\<lparr>plw_ledger := f (plw_ledger s)\<rparr>)"

text \<open>
  What is asked of the events: one ledger throughout, deposits that do not come from the pool's vault itself,
  stablecoins that are not burnt out of it, and other transactions that leave its collateral alone.
\<close>

fun pool_event_ok :: "('w \<Rightarrow> pubkey \<Rightarrow> nat) \<Rightarrow> pubkey \<Rightarrow> 'w pool_event \<Rightarrow> bool" where
  "pool_event_ok bal vault (SeedPool rt ctx n m f) \<longleftrightarrow> token_ledger rt \<and> balance_of rt = bal \<and> plx_user_reserve ctx \<noteq> vault"
| "pool_event_ok bal vault (RedeemInstantly rt ctx n) \<longleftrightarrow> token_ledger rt \<and> balance_of rt = bal \<and> plx_user_token ctx \<noteq> vault"
| "pool_event_ok bal vault (ReplenishPool rt ctx n) \<longleftrightarrow> token_ledger rt \<and> balance_of rt = bal \<and> plx_user_reserve ctx \<noteq> vault"
| "pool_event_ok bal vault (DrainPool rt ctx) \<longleftrightarrow> token_ledger rt \<and> balance_of rt = bal"
| "pool_event_ok bal vault (OthersMove f) \<longleftrightarrow> (\<forall>w. bal w vault \<le> bal (f w) vault)"

definition pool_covered :: "('w \<Rightarrow> pubkey \<Rightarrow> nat) \<Rightarrow> pubkey \<Rightarrow> 'w pool_world \<Rightarrow> bool" where
  "pool_covered bal vault s \<longleftrightarrow>
     unat (rpl_current_liquidity (plw_pool s)) \<le> bal (plw_ledger s) vault \<and> rpl_reserve_vault (plw_pool s) = vault \<and>
     rpl_instant_redemption_fee_bps (plw_pool s) \<le> MAX_FEE_BPS \<and> rpl_bump (plw_pool s) \<noteq> 0"

lemma seed_pool_ok:
  assumes "seed_redemption_pool_handler rt w ctx ex n m f = Inr (p', w')"
  defines "p \<equiv> bound_pool rt (data_of (plx_config ctx)) (plx_reserve_vault ctx) (case ex of None \<Rightarrow> zero_pool | Some p \<Rightarrow> p)"
  shows "p' = p\<lparr>rpl_max_pool_size := m, rpl_instant_redemption_fee_bps := f,
      rpl_current_liquidity := saturating_add (rpl_current_liquidity p) n, rpl_total_seeded := saturating_add (rpl_total_seeded p) n\<rparr>"
    and "f \<le> MAX_FEE_BPS" and "rpl_reserve_vault p = plx_reserve_vault ctx"
    and "\<exists>d. rt_invoke rt w [plx_signer ctx] (TransferChecked (plx_user_reserve ctx) (plx_collateral_mint ctx) (plx_reserve_vault ctx)
      (plx_signer ctx) n d) = Inr w'"
  using assms(1) unfolding p_def by (auto simp: seed_redemption_pool_handler_def guarded_Inr run_ok Let_def)

lemma replenish_pool_ok:
  assumes "replenish_redemption_pool_handler rt w ctx pa n = Inr (p', w')"
  defines "p \<equiv> data_of pa"
  shows "p' = p\<lparr>rpl_current_liquidity := saturating_add (rpl_current_liquidity p) n,
      rpl_total_replenished := saturating_add (rpl_total_replenished p) n\<rparr>"
    and "plx_reserve_vault ctx = rpl_reserve_vault p"
    and "\<exists>d. rt_invoke rt w [plx_signer ctx] (TransferChecked (plx_user_reserve ctx) (plx_collateral_mint ctx) (plx_reserve_vault ctx)
      (plx_signer ctx) n d) = Inr w'"
  using assms(1) unfolding p_def
  by (auto simp: replenish_redemption_pool_handler_def pool_ok_def guarded_Inr run_ok Let_def)

lemma instant_ok:
  assumes "instant_redemption_handler rt w ctx pa n = Inr (p', w')"
  defines "p \<equiv> data_of pa"
  defines "pay \<equiv> saturating_sub n (instant_fee n (rpl_instant_redemption_fee_bps p))"
  shows "n \<le> rpl_current_liquidity p" and "0 < pay" and "plx_reserve_vault ctx = rpl_reserve_vault p"
    and "rpl_current_liquidity p' = saturating_sub (rpl_current_liquidity p) n" and "rpl_reserve_vault p' = rpl_reserve_vault p"
    and "rpl_instant_redemption_fee_bps p' = rpl_instant_redemption_fee_bps p" and "rpl_bump p' = rpl_bump p"
    and "plx_sss_mint ctx = c_mint (data_of (plx_config ctx))" and "plx_collateral_mint ctx = c_collateral_mint (data_of (plx_config ctx))"
    and "\<not> c_paused (data_of (plx_config ctx))"
    and "\<exists>ut ur. rt_token rt w (plx_user_token ctx) = Some ut \<and> rt_token rt w (plx_user_reserve ctx) = Some ur \<and>
      ta_owner ut = plx_signer ctx \<and> ta_owner ur = plx_signer ctx \<and> ta_mint ut = plx_sss_mint ctx \<and> ta_mint ur = plx_collateral_mint ctx"
    and "\<exists>w1 k a d. rt_invoke rt w [plx_signer ctx] (Burn (plx_sss_mint ctx) (plx_user_token ctx) (plx_signer ctx) n) = Inr w1 \<and>
      rt_invoke rt w1 [k, plx_signer ctx] (TransferChecked (plx_reserve_vault ctx) (plx_collateral_mint ctx) (plx_user_reserve ctx) a pay d) = Inr w'"
  using assms(1) unfolding p_def pay_def
  by (auto simp: instant_redemption_handler_def pool_ok_def user_account_ok_def pool_mints_def guarded_Inr run_ok Let_def)

lemma drain_ok:
  assumes "drain_redemption_pool_handler rt w ctx pa = Inr (p', w')"
  shows "p' = (data_of pa)\<lparr>rpl_current_liquidity := 0\<rparr>" and "c_authority (data_of (plx_config ctx)) = plx_signer ctx"
    and "\<exists>k a d. rt_invoke rt w [k, plx_signer ctx] (TransferChecked (plx_reserve_vault ctx) (plx_collateral_mint ctx) (plx_user_reserve ctx)
      a (rpl_current_liquidity (data_of pa)) d) = Inr w'"
  using assms by (auto simp: drain_redemption_pool_handler_def owner_accounts_def guarded_Inr run_ok Let_def)

text \<open>The fee rounds down and is at most a twentieth.\<close>

lemma instant_fee_bound:
  assumes "f \<le> MAX_FEE_BPS"
  shows "unat (saturating_sub n (instant_fee n f)) = unat n - unat n * unat f div 10000"
    and "unat n * 9500 \<le> (unat n - unat n * unat f div 10000) * 10000"
proof -
  have f: "unat f \<le> 500" using assms by (simp add: MAX_FEE_BPS_def word_le_nat_alt)
  have n: "unat n * unat f < 2 ^ 128 - 1"
  proof -
    have "unat n * unat f \<le> 18446744073709551616 * 500" using u64_bound [of n] f by (intro mult_mono) auto
    then show ?thesis by simp
  qed
  have le: "unat n * unat f div 10000 \<le> unat n"
  proof -
    have "unat n * unat f div 10000 \<le> unat n * 10000 div 10000" using f by (intro div_le_mono mult_le_mono2) simp
    then show ?thesis by simp
  qed
  have "unat (saturating_mul (ucast n) (ucast f) div (10000 :: u128)) = unat n * unat f div 10000"
    using n by (simp add: unat_div arith_ok)
  with le u64_bound [of n] show "unat (saturating_sub n (instant_fee n f)) = unat n - unat n * unat f div 10000"
    by (simp add: instant_fee_def arith_ok unat_narrow)
  have "unat n * unat f div 10000 * 10000 \<le> unat n * unat f" by simp
  also have "\<dots> \<le> unat n * 500" using f by simp
  finally show "unat n * 9500 \<le> (unat n - unat n * unat f div 10000) * 10000"
    by (simp add: diff_mult_distrib)
qed

lemma pool_covered_exec:
  assumes inv: "pool_covered bal vault s" and ok: "pool_event_ok bal vault e" and run: "pool_exec k e s = Inr s'"
  shows "pool_covered bal vault s'"
proof (cases e)
  case (SeedPool rt ctx n m f)
  with run obtain p w where h: "seed_redemption_pool_handler rt (plw_ledger s) ctx (Some (plw_pool s)) n m f = Inr (p, w)"
    and s': "s' = \<lparr>plw_pool = p, plw_ledger = w\<rparr>" by (auto simp: run_ok put_pool_def)
  note o = seed_pool_ok [OF h]
  have "bound_pool rt c v (plw_pool s) = plw_pool s" for c v using inv by (simp add: bound_pool_def pool_covered_def)
  with o s' inv ok SeedPool show ?thesis
    by (auto simp: pool_covered_def arith_ok dest!: token_ledger.transfer_ok)
next
  case (RedeemInstantly rt ctx n)
  with run obtain p w where h: "instant_redemption_handler rt (plw_ledger s) ctx \<lparr>key_of = k, data_of = plw_pool s\<rparr> n = Inr (p, w)"
    and s': "s' = \<lparr>plw_pool = p, plw_ledger = w\<rparr>" by (auto simp: run_ok put_pool_def)
  note o = instant_ok [OF h]
  have led: "token_ledger rt" and bal: "balance_of rt = bal" "plx_user_token ctx \<noteq> vault" using ok RedeemInstantly by auto
  from o(12) obtain w1 k' a d where t:
    "rt_invoke rt (plw_ledger s) [plx_signer ctx] (Burn (plx_sss_mint ctx) (plx_user_token ctx) (plx_signer ctx) n) = Inr w1"
    "rt_invoke rt w1 [k', plx_signer ctx] (TransferChecked (plx_reserve_vault ctx) (plx_collateral_mint ctx) (plx_user_reserve ctx) a
      (saturating_sub n (instant_fee n (rpl_instant_redemption_fee_bps (plw_pool s)))) d) = Inr w" by auto
  have pay: "unat (saturating_sub n (instant_fee n (rpl_instant_redemption_fee_bps (plw_pool s)))) \<le> unat n" by (simp add: arith_ok)
  show ?thesis
    using token_ledger.burn_ok [OF led t(1)] token_ledger.transfer_ok [OF led t(2)] o(1,3-7) inv bal s' pay
    by (cases "plx_user_reserve ctx = vault") (auto simp: pool_covered_def arith_ok word_le_nat_alt)
next
  case (ReplenishPool rt ctx n)
  with run obtain p w where h: "replenish_redemption_pool_handler rt (plw_ledger s) ctx \<lparr>key_of = k, data_of = plw_pool s\<rparr> n = Inr (p, w)"
    and s': "s' = \<lparr>plw_pool = p, plw_ledger = w\<rparr>" by (auto simp: run_ok put_pool_def)
  from replenish_pool_ok [OF h] s' inv ok ReplenishPool show ?thesis
    by (auto simp: pool_covered_def arith_ok dest!: token_ledger.transfer_ok)
next
  case (DrainPool rt ctx)
  with run obtain p w where h: "drain_redemption_pool_handler rt (plw_ledger s) ctx \<lparr>key_of = k, data_of = plw_pool s\<rparr> = Inr (p, w)"
    and s': "s' = \<lparr>plw_pool = p, plw_ledger = w\<rparr>" by (auto simp: run_ok put_pool_def)
  from drain_ok(1) [OF h] s' inv show ?thesis by (simp add: pool_covered_def)
next
  case (OthersMove f)
  with inv ok run show ?thesis by (auto simp: pool_covered_def intro: order_trans)
qed

interpretation pool: preserved "pool_exec k" "pool_event_ok bal vault" "pool_covered bal vault" for k bal vault
  by unfold_locales (rule pool_covered_exec)

text \<open>the redemption pool can honour what it records: over any history from its creation the pool's vault holds at least
  the recorded liquidity, the vault is the one it was created with, and the fee stays within five per cent.\<close>

theorem pool_stays_covered:
  assumes "seed_redemption_pool_handler rt w ctx None n m f = Inr (p, w')"
    and "snd (rt_find_pda rt (pool_seeds (c_mint (data_of (plx_config ctx))))) \<noteq> 0"
    and "\<forall>e \<in> set (SeedPool rt ctx n m f # es). pool_event_ok (balance_of rt) (plx_reserve_vault ctx) e"
  shows "let s = play (pool_exec k) es \<lparr>plw_pool = p, plw_ledger = w'\<rparr> in
    unat (rpl_current_liquidity (plw_pool s)) \<le> balance_of rt (plw_ledger s) (plx_reserve_vault ctx) \<and>
    rpl_reserve_vault (plw_pool s) = plx_reserve_vault ctx \<and> rpl_instant_redemption_fee_bps (plw_pool s) \<le> 500"
proof -
  have led: "token_ledger rt" "plx_user_reserve ctx \<noteq> plx_reserve_vault ctx" using assms(3) by auto
  have "pool_covered (balance_of rt) (plx_reserve_vault ctx) \<lparr>plw_pool = p, plw_ledger = w'\<rparr>"
    using seed_pool_ok [OF assms(1)] led assms(2)
    by (auto simp: pool_covered_def bound_pool_def zero_pool_def arith_ok dest!: token_ledger.transfer_ok)
  from pool.play_inv [OF this, of es k] assms(3) show ?thesis by (simp add: pool_covered_def Let_def MAX_FEE_BPS_def)
qed

text \<open>an instant redemption is at par less the fee: it burns exactly the amount from the holder's own account, pays the
  amount less the fee (rounded down, at most five per cent) from the pool's vault to an account of the holder's, and lowers the
  liquidity by the amount; it never runs when paused or short of liquidity.\<close>

theorem instant_redemption_near_par:
  assumes ledger: "token_ledger rt" and run: "instant_redemption_handler rt w ctx pa n = Inr (p', w')"
    and fee: "rpl_instant_redemption_fee_bps (data_of pa) \<le> MAX_FEE_BPS"
    and mints: "plx_sss_mint ctx \<noteq> plx_collateral_mint ctx"
    and vault: "plx_reserve_vault ctx \<notin> {plx_user_token ctx, plx_user_reserve ctx}"
  defines "paid \<equiv> unat n - unat n * unat (rpl_instant_redemption_fee_bps (data_of pa)) div 10000"
  shows "\<not> c_paused (data_of (plx_config ctx)) \<and> unat n \<le> unat (rpl_current_liquidity (data_of pa)) \<and>
    supply_of rt w' = (supply_of rt w)(plx_sss_mint ctx := supply_of rt w (plx_sss_mint ctx) - unat n) \<and>
    unat n \<le> balance_of rt w (plx_user_token ctx) \<and>
    balance_of rt w' = (balance_of rt w)(plx_user_token ctx := balance_of rt w (plx_user_token ctx) - unat n,
      plx_reserve_vault ctx := balance_of rt w (plx_reserve_vault ctx) - paid,
      plx_user_reserve ctx := balance_of rt w (plx_user_reserve ctx) + paid) \<and>
    unat n * 9500 \<le> paid * 10000 \<and> paid \<le> unat n \<and>
    unat (rpl_current_liquidity p') = unat (rpl_current_liquidity (data_of pa)) - unat n \<and>
    (\<exists>ta. rt_token rt w (plx_user_reserve ctx) = Some ta \<and> ta_owner ta = plx_signer ctx)"
proof -
  note o = instant_ok [OF run]
  from o(11) mints have ne: "plx_user_token ctx \<noteq> plx_user_reserve ctx" by auto
  from o(12) obtain w1 k' a d where t:
    "rt_invoke rt w [plx_signer ctx] (Burn (plx_sss_mint ctx) (plx_user_token ctx) (plx_signer ctx) n) = Inr w1"
    "rt_invoke rt w1 [k', plx_signer ctx] (TransferChecked (plx_reserve_vault ctx) (plx_collateral_mint ctx) (plx_user_reserve ctx) a
      (saturating_sub n (instant_fee n (rpl_instant_redemption_fee_bps (data_of pa)))) d) = Inr w'" by blast
  have "balance_of rt w' = (balance_of rt w)(plx_user_token ctx := balance_of rt w (plx_user_token ctx) - unat n,
      plx_reserve_vault ctx := balance_of rt w (plx_reserve_vault ctx) - paid,
      plx_user_reserve ctx := balance_of rt w (plx_user_reserve ctx) + paid)"
    using token_ledger.burn_ok [OF ledger t(1)] token_ledger.transfer_ok [OF ledger t(2)] vault ne
    by (auto simp: fun_eq_iff instant_fee_bound(1) [OF fee] paid_def)
  moreover have "unat n \<le> balance_of rt w (plx_user_token ctx)" "supply_of rt w' = (supply_of rt w)(plx_sss_mint ctx := supply_of rt w (plx_sss_mint ctx) - unat n)"
    using token_ledger.burn_ok [OF ledger t(1)] token_ledger.transfer_ok [OF ledger t(2)] by auto
  moreover have "unat n * 9500 \<le> paid * 10000" "paid \<le> unat n"
    unfolding paid_def by (rule instant_fee_bound(2) [OF fee], simp)
  moreover have "unat (rpl_current_liquidity p') = unat (rpl_current_liquidity (data_of pa)) - unat n"
    using o(4) by (simp add: arith_ok)
  ultimately show ?thesis using o(1,10,11) by (auto simp: word_le_nat_alt)
qed

section \<open>The guarantee\<close>

record redemption_guarantee =
  rgt_sss_mint :: pubkey
  rgt_reserve_vault :: pubkey
  rgt_max_daily_redemption :: u64
  rgt_daily_redeemed :: u64
  rgt_day_start_slot :: u64
  rgt_sla_slots :: u64
  rgt_last_updated_slot :: u64
  rgt_bump :: u8

record redemption_request =
  rrq_sss_mint :: pubkey
  rrq_user :: pubkey
  rrq_amount :: u64
  rrq_requested_slot :: u64
  rrq_expiry_slot :: u64
  rrq_fulfilled :: bool
  rrq_sla_breached :: bool
  rrq_bump :: u8

definition DEFAULT_SLA_SLOTS :: u64 where "DEFAULT_SLA_SLOTS = 450"
definition PENALTY_BPS :: u64 where "PENALTY_BPS = 1000"
definition SLOTS_PER_DAY :: u64 where "SLOTS_PER_DAY = 216000"

definition guarantee_seeds :: "pubkey \<Rightarrow> seed list" where
  "guarantee_seeds mint = [SeedStr ''redemption-guarantee'', SeedKey mint]"

definition request_seeds :: "pubkey \<Rightarrow> pubkey \<Rightarrow> seed list" where
  "request_seeds mint user = [SeedStr ''redemption-request'', SeedKey mint, SeedKey user]"

definition redemption_escrow_seeds :: "pubkey \<Rightarrow> pubkey \<Rightarrow> seed list" where
  "redemption_escrow_seeds mint user = [SeedStr ''redemption-escrow'', SeedKey mint, SeedKey user]"

definition zero_guarantee :: redemption_guarantee where
  "zero_guarantee =
     \<lparr>rgt_sss_mint = 0, rgt_reserve_vault = 0, rgt_max_daily_redemption = 0, rgt_daily_redeemed = 0, rgt_day_start_slot = 0,
      rgt_sla_slots = 0, rgt_last_updated_slot = 0, rgt_bump = 0\<rparr>"

definition register_redemption_pool_handler ::
  "'w runtime \<Rightarrow> pubkey \<Rightarrow> stablecoin_config account \<Rightarrow> redemption_guarantee option \<Rightarrow> pubkey \<Rightarrow> u64 \<Rightarrow> redemption_guarantee res" where
  "register_redemption_pool_handler rt authority cfg existing reserve_vault max_daily =
     (let c = data_of cfg in
      guarded (owner_accounts rt authority cfg)
        (andthen (squads_gate c authority) (\<lambda>_.
         guarded [(max_daily > 0, Backstop InvalidAmount)]
           (let g0 = (case existing of None \<Rightarrow> zero_guarantee | Some g \<Rightarrow> g);
                g = (if rgt_bump g0 = 0 then
                       g0\<lparr>rgt_bump := snd (rt_find_pda rt (guarantee_seeds (c_mint c))), rgt_sss_mint := c_mint c\<rparr>
                     else g0) in
            Inr (g\<lparr>rgt_reserve_vault := reserve_vault, rgt_max_daily_redemption := max_daily, rgt_daily_redeemed := 0,
                   rgt_day_start_slot := rt_slot rt, rgt_sla_slots := DEFAULT_SLA_SLOTS,
                   rgt_last_updated_slot := rt_slot rt\<rparr>)))))"

text \<open>What the three instructions on a request have in common: the configuration, the guarantee, and the escrow of the user.\<close>

record guarantee_ctx =
  gtx_signer :: pubkey
  gtx_config :: "stablecoin_config account"
  gtx_guarantee :: "redemption_guarantee account"
  gtx_user_stable :: pubkey
  gtx_escrow :: pubkey
  gtx_user_collateral :: pubkey
  gtx_source :: pubkey
  gtx_burn_destination :: pubkey
  gtx_stable_mint :: pubkey
  gtx_payout_mint :: pubkey

definition guarantee_accounts :: "'w runtime \<Rightarrow> guarantee_ctx \<Rightarrow> pubkey \<Rightarrow> token_account \<Rightarrow> (bool \<times> error) list" where
  "guarantee_accounts rt ctx user escrow =
     (let c = data_of (gtx_config ctx); ga = gtx_guarantee ctx in
      config_ok rt (gtx_config ctx) (c_mint c) @
      [(seeds_ok rt (key_of ga) (guarantee_seeds (c_mint c)) (rgt_bump (data_of ga)), Anchor ConstraintSeeds),
       (rgt_sss_mint (data_of ga) = c_mint c, Core InvalidVault),
       (gtx_escrow ctx = fst (rt_find_pda rt (redemption_escrow_seeds (c_mint c) user)), Anchor ConstraintSeeds),
       (ta_mint escrow = c_mint c, Anchor ConstraintTokenMint),
       (ta_owner escrow = key_of ga, Anchor ConstraintTokenOwner)])"

definition own_stable_ok :: "guarantee_ctx \<Rightarrow> token_account \<Rightarrow> (bool \<times> error) list" where
  "own_stable_ok ctx ta =
     [(ta_mint ta = c_mint (data_of (gtx_config ctx)), Anchor ConstraintTokenMint),
      (ta_owner ta = gtx_signer ctx, Anchor ConstraintTokenOwner)]"

text \<open>The day's counter: it starts over when a day's slots have passed.\<close>

definition roll_day :: "u64 \<Rightarrow> redemption_guarantee \<Rightarrow> redemption_guarantee" where
  "roll_day slot g =
     (if saturating_sub slot (rgt_day_start_slot g) \<ge> SLOTS_PER_DAY
      then g\<lparr>rgt_daily_redeemed := 0, rgt_day_start_slot := slot\<rparr> else g)"

definition day_charge :: "u64 \<Rightarrow> u64 \<Rightarrow> redemption_guarantee \<Rightarrow> redemption_guarantee res" where
  "day_charge slot amount g =
     (let g1 = roll_day slot g in
      guarded [(saturating_add (rgt_daily_redeemed g1) amount \<le> rgt_max_daily_redemption g1, Pool RedemptionDailyLimitExceeded)]
        (Inr (g1\<lparr>rgt_daily_redeemed := saturating_add (rgt_daily_redeemed g1) amount\<rparr>)))"

definition request_redemption_handler ::
  "'w runtime \<Rightarrow> 'w \<Rightarrow> guarantee_ctx \<Rightarrow> redemption_request option \<Rightarrow> u64 \<Rightarrow> (redemption_guarantee \<times> redemption_request \<times> 'w) res" where
  "request_redemption_handler rt w ctx existing amount =
     (let c = data_of (gtx_config ctx); g = data_of (gtx_guarantee ctx); user = gtx_signer ctx in
      andthen (load_token rt w (gtx_user_stable ctx)) (\<lambda>us.
      andthen (load_token rt w (gtx_escrow ctx)) (\<lambda>escrow.
      andthen (load_mint rt w (gtx_stable_mint ctx)) (\<lambda>sm.
      guarded
        (guarantee_accounts rt ctx user escrow @ own_stable_ok ctx us @
         [(existing = None, Anchor AccountAlreadyInUse), (amount > 0, Backstop InvalidAmount)])
        (andthen (day_charge (rt_slot rt) amount g) (\<lambda>g'.
         andthen (cpi rt w [user]
                    (TransferChecked (gtx_user_stable ctx) (gtx_stable_mint ctx) (gtx_escrow ctx) user amount (tm_decimals sm))) (\<lambda>w'.
         Inr (g',
              \<lparr>rrq_sss_mint = c_mint c, rrq_user = user, rrq_amount = amount, rrq_requested_slot = rt_slot rt,
               rrq_expiry_slot = saturating_add (rt_slot rt) (rgt_sla_slots g), rrq_fulfilled = False, rrq_sla_breached = False,
               rrq_bump = snd (rt_find_pda rt (request_seeds (c_mint c) user))\<rparr>, w'))))))))"

definition request_open :: "'w runtime \<Rightarrow> guarantee_ctx \<Rightarrow> redemption_request account \<Rightarrow> pubkey \<Rightarrow> (bool \<times> error) list" where
  "request_open rt ctx ra user =
     [(seeds_ok rt (key_of ra) (request_seeds (c_mint (data_of (gtx_config ctx))) user) (rrq_bump (data_of ra)), Anchor ConstraintSeeds),
      (\<not> rrq_fulfilled (data_of ra), Pool RedemptionAlreadyFulfilled),
      (\<not> rrq_sla_breached (data_of ra), Pool RedemptionSLABreached)]"

definition fulfill_redemption_handler ::
  "'w runtime \<Rightarrow> 'w \<Rightarrow> guarantee_ctx \<Rightarrow> redemption_request account \<Rightarrow> (stablecoin_config \<times> redemption_request \<times> 'w) res" where
  "fulfill_redemption_handler rt w ctx ra =
     (let c = data_of (gtx_config ctx); ga = gtx_guarantee ctx; r = data_of ra in
      andthen (load_token rt w (gtx_escrow ctx)) (\<lambda>escrow.
      andthen (load_token rt w (gtx_source ctx)) (\<lambda>_.
      andthen (load_token rt w (gtx_user_collateral ctx)) (\<lambda>_.
      andthen (load_token rt w (gtx_burn_destination ctx)) (\<lambda>bd.
      andthen (load_mint rt w (gtx_stable_mint ctx)) (\<lambda>_.
      andthen (load_mint rt w (gtx_payout_mint ctx)) (\<lambda>cm.
      guarded
        (guarantee_accounts rt ctx (rrq_user r) escrow @ request_open rt ctx ra (rrq_user r) @
         [(gtx_source ctx = rgt_reserve_vault (data_of ga), Core InvalidVault),
          (ta_mint bd = c_mint c, Anchor ConstraintTokenMint),
          (rt_slot rt \<le> rrq_expiry_slot r, Pool RedemptionSLABreached)])
        (andthen (cpi_signed rt w [gtx_signer ctx] (guarantee_seeds (c_mint c)) (rgt_bump (data_of ga))
                    (Burn (gtx_stable_mint ctx) (gtx_escrow ctx) (key_of ga) (rrq_amount r))) (\<lambda>w1.
         andthen (cpi rt w1 [gtx_signer ctx]
                    (TransferChecked (gtx_source ctx) (gtx_payout_mint ctx) (gtx_user_collateral ctx) (gtx_signer ctx)
                       (rrq_amount r) (tm_decimals cm))) (\<lambda>w2.
         andthen (ok_or (checked_add (c_total_burned c) (rrq_amount r)) (Late Overflow)) (\<lambda>tb.
         Inr (c\<lparr>c_total_burned := tb\<rparr>, r\<lparr>rrq_fulfilled := True\<rparr>, w2))))))))))))"

definition penalty :: "u64 \<Rightarrow> u64 \<Rightarrow> u64" where
  "penalty amount fund = min (saturating_mul amount PENALTY_BPS div 10000) fund"

definition claim_expired_redemption_handler ::
  "'w runtime \<Rightarrow> 'w \<Rightarrow> guarantee_ctx \<Rightarrow> redemption_request account \<Rightarrow> (redemption_request \<times> 'w) res" where
  "claim_expired_redemption_handler rt w ctx ra =
     (let c = data_of (gtx_config ctx); ga = gtx_guarantee ctx; r = data_of ra; user = gtx_signer ctx in
      andthen (load_token rt w (gtx_escrow ctx)) (\<lambda>escrow.
      andthen (load_token rt w (gtx_user_stable ctx)) (\<lambda>us.
      andthen (load_token rt w (gtx_source ctx)) (\<lambda>fund.
      andthen (load_token rt w (gtx_user_collateral ctx)) (\<lambda>_.
      andthen (load_mint rt w (gtx_stable_mint ctx)) (\<lambda>sm.
      andthen (load_mint rt w (gtx_payout_mint ctx)) (\<lambda>pm.
      guarded
        (guarantee_accounts rt ctx user escrow @ request_open rt ctx ra user @
         [(rrq_user r = user, Core Unauthorized)] @ own_stable_ok ctx us @
         [(gtx_source ctx = c_insurance_fund_pubkey c, Core InvalidVault),
          (rrq_expiry_slot r < rt_slot rt, Pool RedemptionNotExpired),
          (c_insurance_fund_pubkey c \<noteq> default_key, Compliance InsuranceFundNotConfigured)])
        (andthen (cpi_signed rt w [user] (guarantee_seeds (c_mint c)) (rgt_bump (data_of ga))
                    (TransferChecked (gtx_escrow ctx) (gtx_stable_mint ctx) (gtx_user_stable ctx) (key_of ga) (rrq_amount r)
                       (tm_decimals sm))) (\<lambda>w1.
         andthen
           (if penalty (rrq_amount r) (ta_amount fund) > 0 then
              cpi_signed rt w1 [user] (config_seeds (c_mint c)) (c_bump c)
                (TransferChecked (gtx_source ctx) (gtx_payout_mint ctx) (gtx_user_collateral ctx) (key_of (gtx_config ctx))
                   (penalty (rrq_amount r) (ta_amount fund)) (tm_decimals pm))
            else Inr w1) (\<lambda>w2.
         Inr (r\<lparr>rrq_sla_breached := True\<rparr>, w2)))))))))))"

section \<open>The day's limit\<close>

text \<open>The counter is a window that is named by the slot at which its day began.\<close>

definition day_admit :: "u64 \<Rightarrow> nat \<Rightarrow> nat \<Rightarrow> redemption_guarantee \<Rightarrow> redemption_guarantee \<Rightarrow> bool" where
  "day_admit t n l g g' \<longleftrightarrow> t = rgt_day_start_slot g' \<and> l < 2 ^ 64 - 1 \<and>
     (\<exists>slot amount. n = unat amount \<and> l = unat (rgt_max_daily_redemption g) \<and> day_charge slot amount g = Inr g')"

lemma day_charge_ok:
  assumes "day_charge slot amount g = Inr g'"
  shows "rgt_max_daily_redemption g' = rgt_max_daily_redemption g" and "rgt_daily_redeemed g' \<le> rgt_max_daily_redemption g"
    and "rgt_day_start_slot g' = (if SLOTS_PER_DAY \<le> saturating_sub slot (rgt_day_start_slot g) then slot else rgt_day_start_slot g)"
    and "unat (rgt_daily_redeemed g') = min ((if SLOTS_PER_DAY \<le> saturating_sub slot (rgt_day_start_slot g) then 0
      else unat (rgt_daily_redeemed g)) + unat amount) (2 ^ 64 - 1)"
  using assms by (auto simp: day_charge_def roll_day_def guarded_Inr arith_ok Let_def split: if_splits)

lemma day_admit_used:
  assumes "day_admit t n l g g'"
  shows "unat (rgt_daily_redeemed g') = (if rgt_day_start_slot g = t then unat (rgt_daily_redeemed g) else 0) + n"
proof -
  from assms obtain slot amount where *: "n = unat amount" "t = rgt_day_start_slot g'" "unat (rgt_max_daily_redemption g) < 2 ^ 64 - 1"
    "day_charge slot amount g = Inr g'" by (auto simp: day_admit_def)
  note ok = day_charge_ok [OF *(4)]
  have "unat (rgt_daily_redeemed g') < 2 ^ 64 - 1" using ok(2) *(3) by (simp add: word_le_nat_alt)
  moreover have "slot \<noteq> rgt_day_start_slot g" if "SLOTS_PER_DAY \<le> saturating_sub slot (rgt_day_start_slot g)"
    using that by (auto simp: SLOTS_PER_DAY_def saturating_sub_def)
  ultimately show ?thesis using ok(3,4) *(1,2) by (auto split: if_splits)
qed

interpretation day: rate_window day_admit rgt_day_start_slot "\<lambda>g. unat (rgt_daily_redeemed g)"
proof unfold_locales
  fix t n l g g'
  assume admit: "day_admit t n l g g'"
  then show "rgt_day_start_slot g' = t" "unat (rgt_daily_redeemed g') \<le> l"
    by (auto simp: day_admit_def word_le_nat_alt dest: day_charge_ok(2))
  show "unat (rgt_daily_redeemed g') = (if rgt_day_start_slot g = t then unat (rgt_daily_redeemed g) else 0) + n"
    by (rule day_admit_used [OF admit])
qed

section \<open>The life of a request\<close>

record 'w request_world =
  rgw_config :: stablecoin_config
  rgw_request :: redemption_request
  rgw_ledger :: 'w

datatype 'w request_event =
    Fulfill "'w runtime" guarantee_ctx
  | ClaimExpired "'w runtime" guarantee_ctx
  | ElsewhereG stablecoin_config 'w

definition with_config :: "guarantee_ctx \<Rightarrow> stablecoin_config \<Rightarrow> guarantee_ctx" where
  "with_config ctx c = ctx\<lparr>gtx_config := set_data (gtx_config ctx) c\<rparr>"

fun request_exec :: "pubkey \<Rightarrow> 'w request_event \<Rightarrow> 'w request_world \<Rightarrow> 'w request_world res" where
  "request_exec k (Fulfill rt ctx) s =
     andthen (fulfill_redemption_handler rt (rgw_ledger s) (with_config ctx (rgw_config s)) \<lparr>key_of = k, data_of = rgw_request s\<rparr>)
       (\<lambda>(c, r, w). Inr \<lparr>rgw_config = c, rgw_request = r, rgw_ledger = w\<rparr>)"
| "request_exec k (ClaimExpired rt ctx) s =
     andthen (claim_expired_redemption_handler rt (rgw_ledger s) (with_config ctx (rgw_config s)) \<lparr>key_of = k, data_of = rgw_request s\<rparr>)
       (\<lambda>(r, w). Inr \<lparr>rgw_config = rgw_config s, rgw_request = r, rgw_ledger = w\<rparr>)"
| "request_exec k (ElsewhereG c w) s = Inr (s\<lparr>rgw_config := c, rgw_ledger := w\<rparr>)"

definition settled :: "'w request_world \<Rightarrow> bool" where
  "settled s \<longleftrightarrow> rrq_fulfilled (rgw_request s) \<or> rrq_sla_breached (rgw_request s)"

text \<open>What leaves the escrow: burnt for collateral, or returned.\<close>

fun released :: "'w request_event \<Rightarrow> 'w request_world \<Rightarrow> (u64 \<times> u64) option" where
  "released (Fulfill rt ctx) s = Some (rrq_amount (rgw_request s), 0)"
| "released (ClaimExpired rt ctx) s = Some (0, rrq_amount (rgw_request s))"
| "released (ElsewhereG c w) s = None"

lemma fulfill_ok:
  assumes "fulfill_redemption_handler rt w ctx ra = Inr (c', r', w')"
  defines "c \<equiv> data_of (gtx_config ctx)" and "r \<equiv> data_of ra"
  shows "r' = r\<lparr>rrq_fulfilled := True\<rparr>" and "\<not> rrq_fulfilled r" and "\<not> rrq_sla_breached r" and "rt_slot rt \<le> rrq_expiry_slot r"
    and "unat (c_total_burned c') = unat (c_total_burned c) + unat (rrq_amount r)" and "c' = c\<lparr>c_total_burned := c_total_burned c'\<rparr>"
    and "gtx_source ctx = rgt_reserve_vault (data_of (gtx_guarantee ctx))"
    and "\<exists>k w1 d. rt_invoke rt w [k, gtx_signer ctx] (Burn (gtx_stable_mint ctx) (gtx_escrow ctx) (key_of (gtx_guarantee ctx)) (rrq_amount r)) = Inr w1 \<and>
      rt_invoke rt w1 [gtx_signer ctx] (TransferChecked (gtx_source ctx) (gtx_payout_mint ctx) (gtx_user_collateral ctx) (gtx_signer ctx)
        (rrq_amount r) d) = Inr w'"
  using assms(1) unfolding c_def r_def
  by (auto simp: fulfill_redemption_handler_def request_open_def guarded_Inr run_ok arith_ok Let_def)

lemma claim_ok:
  assumes "claim_expired_redemption_handler rt w ctx ra = Inr (r', w')"
  defines "r \<equiv> data_of ra"
  shows "r' = r\<lparr>rrq_sla_breached := True\<rparr>" and "\<not> rrq_fulfilled r" and "\<not> rrq_sla_breached r" and "rrq_expiry_slot r < rt_slot rt"
    and "rrq_user r = gtx_signer ctx" and "gtx_source ctx = c_insurance_fund_pubkey (data_of (gtx_config ctx))"
    and "\<exists>us. rt_token rt w (gtx_user_stable ctx) = Some us \<and> ta_owner us = gtx_signer ctx"
    and "\<exists>fund k w1 d d' k'. rt_token rt w (gtx_source ctx) = Some fund \<and>
      rt_invoke rt w [k, gtx_signer ctx] (TransferChecked (gtx_escrow ctx) (gtx_stable_mint ctx) (gtx_user_stable ctx)
        (key_of (gtx_guarantee ctx)) (rrq_amount r) d) = Inr w1 \<and>
      (if penalty (rrq_amount r) (ta_amount fund) > 0
       then rt_invoke rt w1 [k', gtx_signer ctx] (TransferChecked (gtx_source ctx) (gtx_payout_mint ctx) (gtx_user_collateral ctx)
          (key_of (gtx_config ctx)) (penalty (rrq_amount r) (ta_amount fund)) d') = Inr w'
       else w' = w1)"
  using assms(1) unfolding r_def
  by (auto simp: claim_expired_redemption_handler_def request_open_def own_stable_ok_def guarded_Inr run_ok Let_def split: if_splits)

interpretation request: one_payout "request_exec k" "\<lambda>_. True" settled released "\<lambda>s. rrq_amount (rgw_request s)" for k
proof unfold_locales
  fix e and s s' :: "'a request_world"
  assume run: "request_exec k e s = Inr s'"
  show "rrq_amount (rgw_request s') = rrq_amount (rgw_request s)"
    using run by (cases e) (auto simp: run_ok dest!: fulfill_ok(1) claim_ok(1))
  {
    fix a b
    assume "released e s = Some (a, b)"
    with run show "\<not> settled s \<and> settled s' \<and> unat a + unat b = unat (rrq_amount (rgw_request s))"
      by (cases e) (auto simp: run_ok settled_def dest: fulfill_ok(1-3) claim_ok(1-3))
  }
  assume "released e s = None"
  with run show "settled s' = settled s" by (cases e) (auto simp: settled_def)
qed

text \<open>a redemption request is settled once and in one way: after a request, over any history, the locked amount either still
  lies in the escrow or left it exactly once, all of it, burnt for collateral in time or returned after the deadline.\<close>

theorem redemption_settled_once:
  assumes "request_redemption_handler rt w ctx ex n = Inr (g, r, w')"
  shows "let s = \<lparr>rgw_config = c, rgw_request = r, rgw_ledger = w'\<rparr>; out = payouts (request_exec k) released es s;
      s' = play (request_exec k) es s in
    out = [] \<and> \<not> settled s' \<or> (\<exists>a b. out = [(a, b)] \<and> unat a + unat b = unat n \<and> settled s')"
proof -
  have "rrq_amount r = n \<and> \<not> rrq_fulfilled r \<and> \<not> rrq_sla_breached r"
    using assms by (auto simp: request_redemption_handler_def guarded_Inr run_ok Let_def)
  with request.pays_once [of "\<lparr>rgw_config = c, rgw_request = r, rgw_ledger = w'\<rparr>" k es] show ?thesis
    by (auto simp: Let_def settled_def)
qed

lemma redemption_outcome:
  assumes ledger: "token_ledger rt"
  shows "fulfill_redemption_handler rt w ctx ra = Inr (c', r', w') \<Longrightarrow>
      rt_slot rt \<le> rrq_expiry_slot (data_of ra) \<and>
      supply_of rt w' (gtx_stable_mint ctx) + unat (rrq_amount (data_of ra)) = supply_of rt w (gtx_stable_mint ctx) \<and>
      unat (c_total_burned c') = unat (c_total_burned (data_of (gtx_config ctx))) + unat (rrq_amount (data_of ra)) \<and>
      (gtx_user_collateral ctx \<notin> {gtx_escrow ctx, gtx_source ctx} \<longrightarrow>
         balance_of rt w' (gtx_user_collateral ctx) = balance_of rt w (gtx_user_collateral ctx) + unat (rrq_amount (data_of ra)))"
    and "claim_expired_redemption_handler rt w ctx ra = Inr (r'', w'') \<Longrightarrow>
      rrq_expiry_slot (data_of ra) < rt_slot rt \<and> rrq_user (data_of ra) = gtx_signer ctx \<and> supply_of rt w'' = supply_of rt w \<and>
      (distinct [gtx_escrow ctx, gtx_user_stable ctx, gtx_source ctx, gtx_user_collateral ctx] \<longrightarrow>
         balance_of rt w'' (gtx_user_stable ctx) = balance_of rt w (gtx_user_stable ctx) + unat (rrq_amount (data_of ra)) \<and>
         balance_of rt w'' (gtx_user_collateral ctx) = balance_of rt w (gtx_user_collateral ctx) +
           unat (penalty (rrq_amount (data_of ra)) (of_nat (balance_of rt w (gtx_source ctx)))))"
proof -
  assume run: "fulfill_redemption_handler rt w ctx ra = Inr (c', r', w')"
  note o = fulfill_ok [OF run]
  from o(8) obtain k w1 d where t:
    "rt_invoke rt w [k, gtx_signer ctx] (Burn (gtx_stable_mint ctx) (gtx_escrow ctx) (key_of (gtx_guarantee ctx)) (rrq_amount (data_of ra))) = Inr w1"
    "rt_invoke rt w1 [gtx_signer ctx] (TransferChecked (gtx_source ctx) (gtx_payout_mint ctx) (gtx_user_collateral ctx) (gtx_signer ctx)
        (rrq_amount (data_of ra)) d) = Inr w'" by blast
  from token_ledger.burn_ok [OF ledger t(1)] token_ledger.transfer_ok [OF ledger t(2)] o(4,5)
  show "rt_slot rt \<le> rrq_expiry_slot (data_of ra) \<and>
      supply_of rt w' (gtx_stable_mint ctx) + unat (rrq_amount (data_of ra)) = supply_of rt w (gtx_stable_mint ctx) \<and>
      unat (c_total_burned c') = unat (c_total_burned (data_of (gtx_config ctx))) + unat (rrq_amount (data_of ra)) \<and>
      (gtx_user_collateral ctx \<notin> {gtx_escrow ctx, gtx_source ctx} \<longrightarrow>
         balance_of rt w' (gtx_user_collateral ctx) = balance_of rt w (gtx_user_collateral ctx) + unat (rrq_amount (data_of ra)))"
    by auto
next
  assume run: "claim_expired_redemption_handler rt w ctx ra = Inr (r'', w'')"
  note o = claim_ok [OF run]
  from o(8) obtain fund k w1 d d' k' where t: "rt_token rt w (gtx_source ctx) = Some fund"
    "rt_invoke rt w [k, gtx_signer ctx] (TransferChecked (gtx_escrow ctx) (gtx_stable_mint ctx) (gtx_user_stable ctx)
        (key_of (gtx_guarantee ctx)) (rrq_amount (data_of ra)) d) = Inr w1"
    and pen: "if penalty (rrq_amount (data_of ra)) (ta_amount fund) > 0
       then rt_invoke rt w1 [k', gtx_signer ctx] (TransferChecked (gtx_source ctx) (gtx_payout_mint ctx) (gtx_user_collateral ctx)
          (key_of (gtx_config ctx)) (penalty (rrq_amount (data_of ra)) (ta_amount fund)) d') = Inr w''
       else w'' = w1" by blast
  have fund: "of_nat (balance_of rt w (gtx_source ctx)) = ta_amount fund" using t(1) by (simp add: balance_of_def)
  have "supply_of rt w'' = supply_of rt w1 \<and> (gtx_source ctx \<noteq> gtx_user_collateral ctx \<longrightarrow>
      balance_of rt w'' (gtx_user_collateral ctx) = balance_of rt w1 (gtx_user_collateral ctx) + unat (penalty (rrq_amount (data_of ra)) (ta_amount fund))) \<and>
      (gtx_user_stable ctx \<notin> {gtx_source ctx, gtx_user_collateral ctx} \<longrightarrow>
        balance_of rt w'' (gtx_user_stable ctx) = balance_of rt w1 (gtx_user_stable ctx))"
    using pen token_ledger.transfer_ok [OF ledger, of w1 "[k', gtx_signer ctx]"] by (auto simp: word_pos_unat split: if_splits)
  with token_ledger.transfer_ok [OF ledger t(2)] o(4,5) fund
  show "rrq_expiry_slot (data_of ra) < rt_slot rt \<and> rrq_user (data_of ra) = gtx_signer ctx \<and> supply_of rt w'' = supply_of rt w \<and>
      (distinct [gtx_escrow ctx, gtx_user_stable ctx, gtx_source ctx, gtx_user_collateral ctx] \<longrightarrow>
         balance_of rt w'' (gtx_user_stable ctx) = balance_of rt w (gtx_user_stable ctx) + unat (rrq_amount (data_of ra)) \<and>
         balance_of rt w'' (gtx_user_collateral ctx) = balance_of rt w (gtx_user_collateral ctx) +
           unat (penalty (rrq_amount (data_of ra)) (of_nat (balance_of rt w (gtx_source ctx)))))"
    by auto
qed

text \<open>fulfilling a request in time takes exactly the locked amount out of the supply and books it as burnt, and pays the same
  amount of collateral from the registered vault; a claim after the deadline returns the locked amount to the user's own account and pays
  a tenth of it from the insurance fund, or what the fund holds.\<close>

theorem redemption_outcomes:
  assumes ledger: "token_ledger rt"
  shows "(fulfill_redemption_handler rt w ctx ra = Inr (c', r', w') \<longrightarrow>
      rt_slot rt \<le> rrq_expiry_slot (data_of ra) \<and>
      supply_of rt w' (gtx_stable_mint ctx) + unat (rrq_amount (data_of ra)) = supply_of rt w (gtx_stable_mint ctx) \<and>
      unat (c_total_burned c') = unat (c_total_burned (data_of (gtx_config ctx))) + unat (rrq_amount (data_of ra)) \<and>
      (gtx_user_collateral ctx \<notin> {gtx_escrow ctx, gtx_source ctx} \<longrightarrow>
         balance_of rt w' (gtx_user_collateral ctx) = balance_of rt w (gtx_user_collateral ctx) + unat (rrq_amount (data_of ra)))) \<and>
    (claim_expired_redemption_handler rt w ctx ra = Inr (r'', w'') \<longrightarrow>
      rrq_expiry_slot (data_of ra) < rt_slot rt \<and> rrq_user (data_of ra) = gtx_signer ctx \<and> supply_of rt w'' = supply_of rt w \<and>
      (distinct [gtx_escrow ctx, gtx_user_stable ctx, gtx_source ctx, gtx_user_collateral ctx] \<longrightarrow>
         balance_of rt w'' (gtx_user_stable ctx) = balance_of rt w (gtx_user_stable ctx) + unat (rrq_amount (data_of ra)) \<and>
         balance_of rt w'' (gtx_user_collateral ctx) = balance_of rt w (gtx_user_collateral ctx) +
           unat (penalty (rrq_amount (data_of ra)) (of_nat (balance_of rt w (gtx_source ctx))))))"
  using redemption_outcome [OF ledger] by blast

section \<open>Examples\<close>

text \<open>The authority 7 seeds a pool with 4000 and redeems 1000 at a fee of one per cent.\<close>

abbreviation demo_va :: pubkey where "demo_va \<equiv> ref_pda (vault_authority_seeds 5)"

definition demo_pool_ledger :: "u64 \<Rightarrow> u64 \<Rightarrow> u64 \<Rightarrow> u64 \<Rightarrow> ref_ledger" where
  "demo_pool_ledger mine coins vault left = demo_ledger\<lparr>rl_tokens := Map.empty
     (41 \<mapsto> \<lparr>ta_mint = 6, ta_owner = 7, ta_amount = mine\<rparr>,
      43 \<mapsto> \<lparr>ta_mint = 5, ta_owner = 7, ta_amount = coins\<rparr>,
      42 \<mapsto> \<lparr>ta_mint = 6, ta_owner = demo_va, ta_amount = vault\<rparr>),
    rl_mints := Map.empty
     (5 \<mapsto> \<lparr>tm_decimals = 6, tm_supply = left\<rparr>, 6 \<mapsto> \<lparr>tm_decimals = 6, tm_supply = 9000\<rparr>)\<rparr>"

definition demo_pool_ctx :: pool_ctx where
  "demo_pool_ctx =
     \<lparr>plx_signer = 7, plx_config = demo_acct demo_config, plx_user_token = 43, plx_user_reserve = 41, plx_reserve_vault = 42,
      plx_sss_mint = 5, plx_collateral_mint = 6\<rparr>"

definition demo_pool :: "u64 \<Rightarrow> u64 \<Rightarrow> u16 \<Rightarrow> redemption_pool" where
  "demo_pool liquidity redeemed used =
     \<lparr>rpl_sss_mint = 5, rpl_reserve_vault = 42, rpl_current_liquidity = liquidity, rpl_max_pool_size = 0,
      rpl_instant_redemption_fee_bps = 100, rpl_total_seeded = 4000, rpl_total_redeemed = redeemed, rpl_total_replenished = 0,
      rpl_utilization_bps = used, rpl_bump = 255\<rparr>"

abbreviation demo_pool_key :: pubkey where "demo_pool_key \<equiv> ref_pda (pool_seeds 5)"

lemmas pool_eval =
  demo_pool_ledger_def demo_pool_ctx_def demo_pool_def owner_accounts_def config_ok_def user_account_ok_def pool_mints_def
  pool_ok_def bound_pool_def zero_pool_def pool_has_room_def squads_gate_def MAX_FEE_BPS_def instant_fee_def utilization_def
  saturating_add_def saturating_mul_def

lemma demo_pool_steps:
  "seed_redemption_pool_handler (ref_runtime 1 0 0) (demo_pool_ledger 5000 1500 0 2000) demo_pool_ctx None 4000 0 100 =
     Inr (demo_pool 4000 0 0, demo_pool_ledger 1000 1500 4000 2000)"
  "instant_redemption_handler (ref_runtime 1 0 0) (demo_pool_ledger 1000 1500 4000 2000) demo_pool_ctx
     \<lparr>key_of = demo_pool_key, data_of = demo_pool 4000 0 0\<rparr> 1000 =
     Inr (demo_pool 3000 1000 2500, demo_pool_ledger 1990 500 3010 1000)"
  by (simp_all add: eval_defs pool_eval seed_redemption_pool_handler_def instant_redemption_handler_def fun_upd_twist word_le_nat_alt)
     (simp_all add: demo_cfg_key_def)

theorem pool_stays_covered_witness: "unat (3000 :: u64) \<le> balance_of (ref_runtime 1 0 0) (demo_pool_ledger 1990 500 3010 1000) 42"
proof -
  have run: "play (pool_exec demo_pool_key) [RedeemInstantly (ref_runtime 1 0 0) demo_pool_ctx 1000]
      \<lparr>plw_pool = demo_pool 4000 0 0, plw_ledger = demo_pool_ledger 1000 1500 4000 2000\<rparr> =
      \<lparr>plw_pool = demo_pool 3000 1000 2500, plw_ledger = demo_pool_ledger 1990 500 3010 1000\<rparr>"
    by (simp add: demo_pool_steps put_pool_def)
  have "let s = play (pool_exec demo_pool_key) [RedeemInstantly (ref_runtime 1 0 0) demo_pool_ctx 1000]
        \<lparr>plw_pool = demo_pool 4000 0 0, plw_ledger = demo_pool_ledger 1000 1500 4000 2000\<rparr> in
      unat (rpl_current_liquidity (plw_pool s)) \<le> balance_of (ref_runtime 1 0 0) (plw_ledger s) (plx_reserve_vault demo_pool_ctx) \<and>
      rpl_reserve_vault (plw_pool s) = plx_reserve_vault demo_pool_ctx \<and> rpl_instant_redemption_fee_bps (plw_pool s) \<le> 500"
    by (rule pool_stays_covered [OF demo_pool_steps(1)]) (auto simp: ref.token_ledger_axioms demo_pool_ctx_def)
  then show ?thesis unfolding run by (simp add: demo_pool_def demo_pool_ctx_def)
qed

theorem instant_redemption_near_par_witness:
  "balance_of (ref_runtime 1 0 0) (demo_pool_ledger 1990 500 3010 1000) 41 = 1000 + 990"
proof -
  have "balance_of (ref_runtime 1 0 0) (demo_pool_ledger 1000 1500 4000 2000) 41 = 1000"
    by (simp add: demo_pool_ledger_def balance_of_def)
  with instant_redemption_near_par [OF ref.token_ledger_axioms demo_pool_steps(2)] show ?thesis
    by (simp add: demo_pool_ctx_def demo_pool_def MAX_FEE_BPS_def)
qed

text \<open>User 9 asks for 100 at slot 10; nobody pays, and at slot 461 the user takes the stablecoins back with a penalty of 10.\<close>

definition demo_guarantee :: "u64 \<Rightarrow> redemption_guarantee" where
  "demo_guarantee used =
     \<lparr>rgt_sss_mint = 5, rgt_reserve_vault = 30, rgt_max_daily_redemption = 500, rgt_daily_redeemed = used, rgt_day_start_slot = 1,
      rgt_sla_slots = 450, rgt_last_updated_slot = 1, rgt_bump = 255\<rparr>"

abbreviation demo_escrow :: pubkey where "demo_escrow \<equiv> ref_pda (redemption_escrow_seeds 5 9)"
abbreviation demo_guarantee_key :: pubkey where "demo_guarantee_key \<equiv> ref_pda (guarantee_seeds 5)"
abbreviation demo_fund_config :: stablecoin_config where "demo_fund_config \<equiv> demo_config\<lparr>c_insurance_fund_pubkey := 44\<rparr>"

definition demo_guarantee_ctx :: guarantee_ctx where
  "demo_guarantee_ctx =
     \<lparr>gtx_signer = 9, gtx_config = demo_acct demo_fund_config,
      gtx_guarantee = \<lparr>key_of = demo_guarantee_key, data_of = demo_guarantee 0\<rparr>, gtx_user_stable = 20, gtx_escrow = demo_escrow,
      gtx_user_collateral = 31, gtx_source = 44, gtx_burn_destination = 20, gtx_stable_mint = 5, gtx_payout_mint = 6\<rparr>"

definition demo_guarantee_ledger :: "u64 \<Rightarrow> u64 \<Rightarrow> u64 \<Rightarrow> u64 \<Rightarrow> ref_ledger" where
  "demo_guarantee_ledger mine locked coll fund = demo_ledger\<lparr>rl_tokens := Map.empty
     (20 \<mapsto> \<lparr>ta_mint = 5, ta_owner = 9, ta_amount = mine\<rparr>,
      demo_escrow \<mapsto> \<lparr>ta_mint = 5, ta_owner = demo_guarantee_key, ta_amount = locked\<rparr>,
      31 \<mapsto> \<lparr>ta_mint = 6, ta_owner = 9, ta_amount = coll\<rparr>,
      44 \<mapsto> \<lparr>ta_mint = 6, ta_owner = demo_cfg_key, ta_amount = fund\<rparr>)\<rparr>"

definition demo_request :: "bool \<Rightarrow> redemption_request" where
  "demo_request breached =
     \<lparr>rrq_sss_mint = 5, rrq_user = 9, rrq_amount = 100, rrq_requested_slot = 10, rrq_expiry_slot = 460, rrq_fulfilled = False,
      rrq_sla_breached = breached, rrq_bump = 255\<rparr>"

lemmas guarantee_eval =
  demo_guarantee_def demo_guarantee_ctx_def demo_guarantee_ledger_def demo_request_def guarantee_accounts_def config_ok_def own_stable_ok_def
  request_open_def day_charge_def roll_day_def SLOTS_PER_DAY_def penalty_def PENALTY_BPS_def saturating_add_def saturating_mul_def

lemma demo_escrow_fresh: "demo_escrow \<noteq> 20" "demo_escrow \<noteq> 31" "demo_escrow \<noteq> 44"
  by (simp_all add: ref_pda_def redemption_escrow_seeds_def)

lemma demo_request_steps:
  "request_redemption_handler (ref_runtime 10 0 0) (demo_guarantee_ledger 600 0 50 90) demo_guarantee_ctx None 100 =
     Inr (demo_guarantee 100, demo_request False, demo_guarantee_ledger 500 100 50 90)"
  "claim_expired_redemption_handler (ref_runtime 461 0 0) (demo_guarantee_ledger 500 100 50 90) demo_guarantee_ctx
     \<lparr>key_of = ref_pda (request_seeds 5 9), data_of = demo_request False\<rparr> =
     Inr (demo_request True, demo_guarantee_ledger 600 0 60 80)"
  using demo_escrow_fresh demo_escrow_fresh [symmetric]
  by (simp_all add: eval_defs guarantee_eval request_redemption_handler_def claim_expired_redemption_handler_def fun_upd_twist word_le_nat_alt)
     (simp_all add: demo_cfg_key_def)

theorem redemption_settled_once_witness: "unat (0 :: u64) + unat (100 :: u64) = unat (100 :: u64)"
proof -
  let ?s = "\<lparr>rgw_config = demo_fund_config, rgw_request = demo_request False, rgw_ledger = demo_guarantee_ledger 500 100 50 90\<rparr>"
  have same: "with_config demo_guarantee_ctx demo_fund_config = demo_guarantee_ctx"
    by (simp add: with_config_def demo_guarantee_ctx_def demo_acct_def)
  have "payouts (request_exec (ref_pda (request_seeds 5 9))) released [ClaimExpired (ref_runtime 461 0 0) demo_guarantee_ctx] ?s = [(0, 100)]"
    by (simp add: same demo_request_steps) (simp add: demo_request_def)
  with redemption_settled_once [OF demo_request_steps(1), of demo_fund_config "ref_pda (request_seeds 5 9)"
      "[ClaimExpired (ref_runtime 461 0 0) demo_guarantee_ctx]"] show ?thesis
    by (simp add: Let_def del: payouts.simps)
qed

theorem redemption_outcomes_witness:
  "balance_of (ref_runtime 461 0 0) (demo_guarantee_ledger 600 0 60 80) 20 = 500 + 100 \<and>
   balance_of (ref_runtime 461 0 0) (demo_guarantee_ledger 600 0 60 80) 31 = 50 + 10"
proof -
  have "balance_of (ref_runtime 461 0 0) (demo_guarantee_ledger 500 100 50 90) 20 = 500"
    "balance_of (ref_runtime 461 0 0) (demo_guarantee_ledger 500 100 50 90) 31 = 50"
    "balance_of (ref_runtime 461 0 0) (demo_guarantee_ledger 500 100 50 90) 44 = 90"
    using demo_escrow_fresh by (simp_all add: demo_guarantee_ledger_def balance_of_def)
  moreover have "unat (penalty 100 90) = 10" by (simp add: penalty_def PENALTY_BPS_def saturating_mul_def word_le_nat_alt min_def)
  ultimately show ?thesis
    using redemption_outcomes [OF ref.token_ledger_axioms, THEN conjunct2, rule_format, OF demo_request_steps(2)] demo_escrow_fresh
    by (simp add: demo_guarantee_ctx_def demo_request_def)
qed

end
