(* ===== verification/Market.thy ===== *)
theory Market
  imports Oracle RateWindow
begin

text \<open>
  Market makers: whitelisted accounts mint and burn outside the ordinary minters' limits, while the price is near
  the peg and within a limit per slot (programs/sss-token/src/instructions/market\_maker.rs).
\<close>

section \<open>Configuration\<close>

record market_maker_config =
  mmk_sss_mint :: pubkey
  mmk_whitelisted_mms :: "pubkey list"
  mmk_mint_limit_per_slot :: u64
  mmk_burn_limit_per_slot :: u64
  mmk_spread_bps :: u16
  mmk_last_mint_slot :: u64
  mmk_minted_this_slot :: u64
  mmk_last_burn_slot :: u64
  mmk_burned_this_slot :: u64
  mmk_bump :: u8

record init_market_maker_params =
  imm_mint_limit_per_slot :: u64
  imm_burn_limit_per_slot :: u64
  imm_spread_bps :: u16

definition PEG_PRICE_MICRO_USD :: i64 where "PEG_PRICE_MICRO_USD = 1000000"
definition MAX_MARKET_MAKERS :: nat where "MAX_MARKET_MAKERS = 8"

definition mm_seeds :: "pubkey \<Rightarrow> seed list" where
  "mm_seeds mint = [SeedStr ''market-maker-config'', SeedKey mint]"

definition init_market_maker_config_handler ::
  "'w runtime \<Rightarrow> admin_ctx \<Rightarrow> market_maker_config option \<Rightarrow> init_market_maker_params \<Rightarrow> market_maker_config res" where
  "init_market_maker_config_handler rt ctx existing p =
     guarded (authority_accounts rt ctx @ [(existing = None, Anchor AccountAlreadyInUse)])
       (andthen (squads_gate (ac_cfg ctx) (ac_authority ctx)) (\<lambda>_.
        guarded [(flag_set (ac_cfg ctx) FLAG_MARKET_MAKER_HOOKS, Market MarketMakerHooksNotEnabled)]
          (Inr \<lparr>mmk_sss_mint = ac_mint ctx, mmk_whitelisted_mms = [], mmk_mint_limit_per_slot = imm_mint_limit_per_slot p,
                mmk_burn_limit_per_slot = imm_burn_limit_per_slot p, mmk_spread_bps = imm_spread_bps p, mmk_last_mint_slot = 0,
                mmk_minted_this_slot = 0, mmk_last_burn_slot = 0, mmk_burned_this_slot = 0,
                mmk_bump = snd (rt_find_pda rt (mm_seeds (ac_mint ctx)))\<rparr>)))"

definition mm_config_ok :: "'w runtime \<Rightarrow> pubkey \<Rightarrow> market_maker_config account \<Rightarrow> (bool \<times> error) list" where
  "mm_config_ok rt mint ma = [(seeds_ok rt (key_of ma) (mm_seeds mint) (mmk_bump (data_of ma)), Anchor ConstraintSeeds)]"

text \<open>The account has room for eight names; a ninth passes the check and fails when the account is written back.\<close>

definition register_market_maker_handler ::
  "'w runtime \<Rightarrow> admin_ctx \<Rightarrow> market_maker_config account \<Rightarrow> pubkey \<Rightarrow> market_maker_config res" where
  "register_market_maker_handler rt ctx ma mm =
     (let m = data_of ma in
      guarded
        (authority_accounts rt ctx @ mm_config_ok rt (ac_mint ctx) ma @
         [(flag_set (ac_cfg ctx) FLAG_MARKET_MAKER_HOOKS, Market MarketMakerHooksDisabled)])
        (andthen (squads_gate (ac_cfg ctx) (ac_authority ctx)) (\<lambda>_.
         guarded
           [(mm \<notin> set (mmk_whitelisted_mms m), Market MarketMakerAlreadyRegistered),
            (length (mmk_whitelisted_mms m) < 10, Market MarketMakerListFull),
            (length (mmk_whitelisted_mms m @ [mm]) \<le> MAX_MARKET_MAKERS, Anchor AccountDidNotSerialize)]
           (Inr (m\<lparr>mmk_whitelisted_mms := mmk_whitelisted_mms m @ [mm]\<rparr>)))))"

section \<open>The distance from the peg\<close>

text \<open>\<open>10i64.pow(n)\<close> panics beyond the range of the type.\<close>

definition i64_pow10 :: "nat \<Rightarrow> i64 res" where
  "i64_pow10 n = (if n \<le> 18 then Inr (10 ^ n) else Inl Panic)"

definition price_in_micro_usd :: "oracle_price \<Rightarrow> i64 res" where
  "price_in_micro_usd p =
     (let e = op_expo p; a = nat \<bar>e\<bar> in
      if e \<ge> 0 then andthen (i64_pow10 a) (\<lambda>f. Inr (i64_saturating_mul (i64_saturating_mul (op_price p) f) 1000000))
      else if a > 6 then andthen (i64_pow10 (a - 6)) (\<lambda>d. Inr (op_price p div d))
      else andthen (i64_pow10 (6 - a)) (\<lambda>f. Inr (i64_saturating_mul (op_price p) f)))"

definition check_oracle_spread :: "'w runtime \<Rightarrow> feed_account \<Rightarrow> stablecoin_config \<Rightarrow> u16 \<Rightarrow> unit res" where
  "check_oracle_spread rt feed c spread_bps =
     (if c_oracle_feed c = default_key then Inr ()
      else andthen (get_oracle_price feed c (rt_unix_timestamp rt)) (\<lambda>p.
           andthen (price_in_micro_usd p) (\<lambda>micro.
           guarded [(\<bar>micro - PEG_PRICE_MICRO_USD\<bar> \<le> i64_saturating_mul (int (unat spread_bps)) 100, Market OraclePriceOutsideSpread)]
             (Inr ()))))"

section \<open>Minting and burning\<close>

record mm_ctx =
  mmx_market_maker :: pubkey
  mmx_config :: "stablecoin_config account"
  mmx_mint :: pubkey
  mmx_token_account :: pubkey
  mmx_feed :: feed_account

definition mm_accounts :: "'w runtime \<Rightarrow> mm_ctx \<Rightarrow> market_maker_config account \<Rightarrow> token_account \<Rightarrow> u64 \<Rightarrow> (bool \<times> error) list" where
  "mm_accounts rt ctx ma ta amount =
     (let c = data_of (mmx_config ctx) in
      config_ok rt (mmx_config ctx) (mmx_mint ctx) @
      [(\<not> c_paused c, Core MintPaused), (mmx_mint ctx = c_mint c, Anchor ConstraintRaw)] @ mm_config_ok rt (mmx_mint ctx) ma @
      [(ta_mint ta = mmx_mint ctx, Pool TokenAccountMintMismatch), (ta_owner ta = mmx_market_maker ctx, Pool TokenAccountOwnerMismatch),
       (amount > 0, Core ZeroAmount),
       (flag_set c FLAG_MARKET_MAKER_HOOKS, Market MarketMakerHooksDisabled),
       (\<not> flag_set c FLAG_CIRCUIT_BREAKER, Cdp CircuitBreakerActive),
       (mmx_market_maker ctx \<in> set (mmk_whitelisted_mms (data_of ma)), Market NotWhitelistedMarketMaker)])"

definition mm_mint_charge :: "u64 \<Rightarrow> u64 \<Rightarrow> market_maker_config \<Rightarrow> market_maker_config res" where
  "mm_mint_charge slot amount m =
     (let m1 = (if slot \<noteq> mmk_last_mint_slot m then m\<lparr>mmk_minted_this_slot := 0, mmk_last_mint_slot := slot\<rparr> else m) in
      andthen (ok_or (checked_add (mmk_minted_this_slot m1) amount) (Market MmMintLimitExceeded)) (\<lambda>t.
      guarded [(t \<le> mmk_mint_limit_per_slot m1, Market MmMintLimitExceeded)]
        (Inr (m1\<lparr>mmk_minted_this_slot := t\<rparr>))))"

definition mm_burn_charge :: "u64 \<Rightarrow> u64 \<Rightarrow> market_maker_config \<Rightarrow> market_maker_config res" where
  "mm_burn_charge slot amount m =
     (let m1 = (if slot \<noteq> mmk_last_burn_slot m then m\<lparr>mmk_burned_this_slot := 0, mmk_last_burn_slot := slot\<rparr> else m) in
      andthen (ok_or (checked_add (mmk_burned_this_slot m1) amount) (Market MmBurnLimitExceeded)) (\<lambda>t.
      guarded [(t \<le> mmk_burn_limit_per_slot m1, Market MmBurnLimitExceeded)]
        (Inr (m1\<lparr>mmk_burned_this_slot := t\<rparr>))))"

definition mm_supply_ok :: "stablecoin_config \<Rightarrow> u64 \<Rightarrow> bool" where
  "mm_supply_ok c amount \<longleftrightarrow>
     (c_max_supply c > 0 \<longrightarrow>
        (case checked_add (net_supply c) amount of None \<Rightarrow> u64_max | Some x \<Rightarrow> x) \<le> c_max_supply c)"

definition mm_mint_handler ::
  "'w runtime \<Rightarrow> 'w \<Rightarrow> mm_ctx \<Rightarrow> market_maker_config account \<Rightarrow> u64 \<Rightarrow> (stablecoin_config \<times> market_maker_config \<times> 'w) res" where
  "mm_mint_handler rt w ctx ma amount =
     (let c = data_of (mmx_config ctx) in
      andthen (load_token rt w (mmx_token_account ctx)) (\<lambda>ta.
      guarded (mm_accounts rt ctx ma ta amount)
        (andthen (check_oracle_spread rt (mmx_feed ctx) c (mmk_spread_bps (data_of ma))) (\<lambda>_.
         andthen (mm_mint_charge (rt_slot rt) amount (data_of ma)) (\<lambda>m.
         guarded [(mm_supply_ok c amount, Core MaxSupplyExceeded)]
         (andthen (cpi_signed rt w [mmx_market_maker ctx] (config_seeds (c_mint c)) (c_bump c)
                     (MintTo (mmx_mint ctx) (mmx_token_account ctx) (key_of (mmx_config ctx)) amount)) (\<lambda>w'.
          andthen (ok_or (checked_add (c_total_minted c) amount) (Late Overflow)) (\<lambda>tm.
          Inr (c\<lparr>c_total_minted := tm\<rparr>, m, w')))))))))"

definition mm_burn_handler ::
  "'w runtime \<Rightarrow> 'w \<Rightarrow> mm_ctx \<Rightarrow> market_maker_config account \<Rightarrow> u64 \<Rightarrow> (stablecoin_config \<times> market_maker_config \<times> 'w) res" where
  "mm_burn_handler rt w ctx ma amount =
     (let c = data_of (mmx_config ctx) in
      andthen (load_token rt w (mmx_token_account ctx)) (\<lambda>ta.
      guarded (mm_accounts rt ctx ma ta amount)
        (andthen (check_oracle_spread rt (mmx_feed ctx) c (mmk_spread_bps (data_of ma))) (\<lambda>_.
         andthen (mm_burn_charge (rt_slot rt) amount (data_of ma)) (\<lambda>m.
         andthen (cpi rt w [mmx_market_maker ctx]
                    (Burn (mmx_mint ctx) (mmx_token_account ctx) (mmx_market_maker ctx) amount)) (\<lambda>w'.
         andthen (ok_or (checked_add (c_total_burned c) amount) (Late Overflow)) (\<lambda>tb.
         Inr (c\<lparr>c_total_burned := tb\<rparr>, m, w'))))))))"

text \<open>The capacity left in the current slot, for minting and burning.\<close>

definition get_mm_capacity_handler :: "'w runtime \<Rightarrow> pubkey \<Rightarrow> market_maker_config account \<Rightarrow> (u64 \<times> u64) res" where
  "get_mm_capacity_handler rt mint ma =
     (let m = data_of ma;
          minted = (if rt_slot rt = mmk_last_mint_slot m then mmk_minted_this_slot m else 0);
          burned = (if rt_slot rt = mmk_last_burn_slot m then mmk_burned_this_slot m else 0) in
      guarded (mm_config_ok rt mint ma)
        (Inr (saturating_sub (mmk_mint_limit_per_slot m) minted, saturating_sub (mmk_burn_limit_per_slot m) burned)))"

section \<open>Under guard\<close>

lemma mm_mint_charge_ok:
  assumes "mm_mint_charge slot n m = Inr m'"
  shows "unat (mmk_minted_this_slot m') = (if mmk_last_mint_slot m = slot then unat (mmk_minted_this_slot m) else 0) + unat n"
    and "mmk_last_mint_slot m' = slot" and "mmk_minted_this_slot m' \<le> mmk_mint_limit_per_slot m"
    and "mmk_mint_limit_per_slot m' = mmk_mint_limit_per_slot m" and "mmk_burn_limit_per_slot m' = mmk_burn_limit_per_slot m"
    and "mmk_last_burn_slot m' = mmk_last_burn_slot m" and "mmk_burned_this_slot m' = mmk_burned_this_slot m"
  using assms by (auto simp: mm_mint_charge_def Let_def run_ok arith_ok split: if_splits)

lemma mm_burn_charge_ok:
  assumes "mm_burn_charge slot n m = Inr m'"
  shows "unat (mmk_burned_this_slot m') = (if mmk_last_burn_slot m = slot then unat (mmk_burned_this_slot m) else 0) + unat n"
    and "mmk_last_burn_slot m' = slot" and "mmk_burned_this_slot m' \<le> mmk_burn_limit_per_slot m"
    and "mmk_mint_limit_per_slot m' = mmk_mint_limit_per_slot m" and "mmk_burn_limit_per_slot m' = mmk_burn_limit_per_slot m"
    and "mmk_last_mint_slot m' = mmk_last_mint_slot m" and "mmk_minted_this_slot m' = mmk_minted_this_slot m"
  using assms by (auto simp: mm_burn_charge_def Let_def run_ok arith_ok split: if_splits)

lemma mm_supply_nat: "mm_supply_ok c n \<Longrightarrow> unat (c_max_supply c) \<noteq> 0 \<Longrightarrow> c_max_supply c \<noteq> u64_max \<Longrightarrow> unat (net_supply c) + unat n \<le> unat (c_max_supply c)"
proof -
  assume ok: "mm_supply_ok c n" and cap: "unat (c_max_supply c) \<noteq> 0" "c_max_supply c \<noteq> u64_max"
  have le: "x \<le> (u64_max :: u64)" for x using u64_bound [of x] by (simp add: u64_max_def word_le_nat_alt)
  from ok cap(1) have "(case checked_add (net_supply c) n of None \<Rightarrow> u64_max | Some x \<Rightarrow> x) \<le> c_max_supply c"
    by (auto simp: mm_supply_ok_def word_less_nat_alt)
  with cap(2) le [of "c_max_supply c"] obtain x where "checked_add (net_supply c) n = Some x" "x \<le> c_max_supply c"
    by (cases "checked_add (net_supply c) n") (auto dest: antisym)
  then show ?thesis by (simp add: arith_ok word_le_nat_alt)
qed

lemma mm_mint_ok:
  assumes "mm_mint_handler rt w ctx ma n = Inr (c', m', w')"
  defines "c \<equiv> data_of (mmx_config ctx)"
  shows "\<not> c_paused c" and "\<not> flag_set c FLAG_CIRCUIT_BREAKER" and "flag_set c FLAG_MARKET_MAKER_HOOKS"
    and "mmx_market_maker ctx \<in> set (mmk_whitelisted_mms (data_of ma))"
    and "check_oracle_spread rt (mmx_feed ctx) c (mmk_spread_bps (data_of ma)) = Inr ()"
    and "mm_mint_charge (rt_slot rt) n (data_of ma) = Inr m'" and "mm_supply_ok c n"
    and "unat (c_total_minted c') = unat (c_total_minted c) + unat n"
    and "\<exists>k. rt_invoke rt w [k, mmx_market_maker ctx] (MintTo (mmx_mint ctx) (mmx_token_account ctx) (key_of (mmx_config ctx)) n) = Inr w'"
    and "c' = c\<lparr>c_total_minted := c_total_minted c'\<rparr>"
  using assms(1) unfolding c_def by (auto simp: mm_mint_handler_def mm_accounts_def guarded_Inr run_ok arith_ok Let_def)

lemma mm_burn_ok:
  assumes "mm_burn_handler rt w ctx ma n = Inr (c', m', w')"
  defines "c \<equiv> data_of (mmx_config ctx)"
  shows "\<not> c_paused c" and "\<not> flag_set c FLAG_CIRCUIT_BREAKER"
    and "mmx_market_maker ctx \<in> set (mmk_whitelisted_mms (data_of ma))"
    and "mm_burn_charge (rt_slot rt) n (data_of ma) = Inr m'"
    and "unat (c_total_burned c') = unat (c_total_burned c) + unat n"
    and "rt_invoke rt w [mmx_market_maker ctx] (Burn (mmx_mint ctx) (mmx_token_account ctx) (mmx_market_maker ctx) n) = Inr w'"
    and "c' = c\<lparr>c_total_burned := c_total_burned c'\<rparr>"
  using assms(1) unfolding c_def by (auto simp: mm_burn_handler_def mm_accounts_def guarded_Inr run_ok arith_ok Let_def)

lemma spread_le: "0 \<le> x \<Longrightarrow> 0 \<le> y \<Longrightarrow> i64_saturating_mul x y \<le> x * y"
  by (simp add: i64_saturating_mul_def i64_min_def order_trans [OF _ mult_nonneg_nonneg])

text \<open>a market maker mints only under guard: it is on the list, nothing is paused or halted, the price of the configured feed is
  within the spread of one dollar, and the supply, which grows by exactly the amount along with the books, stays within the cap.\<close>

theorem mm_mint_guarded:
  assumes ledger: "token_ledger rt" and run: "mm_mint_handler rt w ctx ma n = Inr (c', m', w')"
    and cap: "c_max_supply (data_of (mmx_config ctx)) \<noteq> u64_max"
  defines "c \<equiv> data_of (mmx_config ctx)"
  shows "mmx_market_maker ctx \<in> set (mmk_whitelisted_mms (data_of ma)) \<and> \<not> c_paused c \<and> \<not> flag_set c FLAG_CIRCUIT_BREAKER \<and>
    (c_oracle_feed c = default_key \<or>
      (\<exists>p micro. get_oracle_price (mmx_feed ctx) c (rt_unix_timestamp rt) = Inr p \<and> price_in_micro_usd p = Inr micro \<and>
        \<bar>micro - 1000000\<bar> \<le> 100 * int (unat (mmk_spread_bps (data_of ma))))) \<and>
    (unat (c_max_supply c) = 0 \<or> unat (net_supply c) + unat n \<le> unat (c_max_supply c)) \<and>
    supply_of rt w' (mmx_mint ctx) = supply_of rt w (mmx_mint ctx) + unat n \<and>
    unat (c_total_minted c') = unat (c_total_minted c) + unat n"
proof -
  note o = mm_mint_ok [OF run, folded c_def]
  have spread: "i64_saturating_mul (int (unat (mmk_spread_bps (data_of ma)))) 100 \<le> 100 * int (unat (mmk_spread_bps (data_of ma)))"
    using spread_le [of "int (unat (mmk_spread_bps (data_of ma)))" 100] by (simp add: mult.commute)
  have price: "c_oracle_feed c = default_key \<or>
      (\<exists>p micro. get_oracle_price (mmx_feed ctx) c (rt_unix_timestamp rt) = Inr p \<and> price_in_micro_usd p = Inr micro \<and>
        \<bar>micro - 1000000\<bar> \<le> 100 * int (unat (mmk_spread_bps (data_of ma))))"
    using o(5) spread by (auto simp: check_oracle_spread_def run_ok PEG_PRICE_MICRO_USD_def split: if_splits intro: order_trans)
  from o(9) obtain k where t: "rt_invoke rt w [k, mmx_market_maker ctx] (MintTo (mmx_mint ctx) (mmx_token_account ctx) (key_of (mmx_config ctx)) n) = Inr w'" by blast
  show ?thesis
    using o(1,2,4,8) price token_ledger.mint_to_ok [OF ledger t] mm_supply_nat [OF o(7)] cap [folded c_def] by auto
qed

section \<open>The limits per slot\<close>

record 'w mm_world =
  mkw_config :: stablecoin_config
  mkw_mm :: market_maker_config
  mkw_ledger :: 'w

datatype 'w mm_event =
    MmMint "'w runtime" mm_ctx u64
  | MmBurn "'w runtime" mm_ctx u64
  | RegisterMm "'w runtime" admin_ctx pubkey
  | ElsewhereK u64 stablecoin_config 'w

definition mm_at :: "mm_ctx \<Rightarrow> stablecoin_config \<Rightarrow> mm_ctx" where
  "mm_at ctx c = ctx\<lparr>mmx_config := set_data (mmx_config ctx) c\<rparr>"

fun mm_exec :: "pubkey \<Rightarrow> 'w mm_event \<Rightarrow> 'w mm_world \<Rightarrow> 'w mm_world res" where
  "mm_exec k (MmMint rt ctx n) s =
     andthen (mm_mint_handler rt (mkw_ledger s) (mm_at ctx (mkw_config s)) \<lparr>key_of = k, data_of = mkw_mm s\<rparr> n)
       (\<lambda>(c, m, w). Inr \<lparr>mkw_config = c, mkw_mm = m, mkw_ledger = w\<rparr>)"
| "mm_exec k (MmBurn rt ctx n) s =
     andthen (mm_burn_handler rt (mkw_ledger s) (mm_at ctx (mkw_config s)) \<lparr>key_of = k, data_of = mkw_mm s\<rparr> n)
       (\<lambda>(c, m, w). Inr \<lparr>mkw_config = c, mkw_mm = m, mkw_ledger = w\<rparr>)"
| "mm_exec k (RegisterMm rt ctx who) s =
     andthen (register_market_maker_handler rt (ctx\<lparr>ac_config := set_data (ac_config ctx) (mkw_config s)\<rparr>)
                \<lparr>key_of = k, data_of = mkw_mm s\<rparr> who) (\<lambda>m. Inr (s\<lparr>mkw_mm := m\<rparr>))"
| "mm_exec k (ElsewhereK slot c w) s = Inr (s\<lparr>mkw_config := c, mkw_ledger := w\<rparr>)"

fun mm_time :: "'w mm_event \<Rightarrow> u64" where
  "mm_time (MmMint rt ctx n) = rt_slot rt"
| "mm_time (MmBurn rt ctx n) = rt_slot rt"
| "mm_time (RegisterMm rt ctx who) = rt_slot rt"
| "mm_time (ElsewhereK slot c w) = slot"

text \<open>When, how much and under which limit an event mints or burns.\<close>

fun mint_charge_of :: "'w mm_event \<Rightarrow> 'w mm_world \<Rightarrow> (u64 \<times> nat \<times> nat) option" where
  "mint_charge_of (MmMint rt ctx n) s = Some (rt_slot rt, unat n, unat (mmk_mint_limit_per_slot (mkw_mm s)))"
| "mint_charge_of _ s = None"

fun burn_charge_of :: "'w mm_event \<Rightarrow> 'w mm_world \<Rightarrow> (u64 \<times> nat \<times> nat) option" where
  "burn_charge_of (MmBurn rt ctx n) s = Some (rt_slot rt, unat n, unat (mmk_burn_limit_per_slot (mkw_mm s)))"
| "burn_charge_of _ s = None"

definition mint_counter :: "'w mm_world \<Rightarrow> u64 \<times> nat" where
  "mint_counter s = (mmk_last_mint_slot (mkw_mm s), unat (mmk_minted_this_slot (mkw_mm s)))"

definition burn_counter :: "'w mm_world \<Rightarrow> u64 \<times> nat" where
  "burn_counter s = (mmk_last_burn_slot (mkw_mm s), unat (mmk_burned_this_slot (mkw_mm s)))"

definition slot_admit :: "u64 \<Rightarrow> nat \<Rightarrow> nat \<Rightarrow> u64 \<times> nat \<Rightarrow> u64 \<times> nat \<Rightarrow> bool" where
  "slot_admit t n l r r' \<longleftrightarrow> r' = (t, (if fst r = t then snd r else 0) + n) \<and> snd r' \<le> l"

lemma register_mm_ok:
  "register_market_maker_handler rt ctx ma mm = Inr m' \<Longrightarrow> m' = (data_of ma)\<lparr>mmk_whitelisted_mms := mmk_whitelisted_mms (data_of ma) @ [mm]\<rparr>"
  by (auto simp: register_market_maker_handler_def guarded_Inr run_ok Let_def)

interpretation mm_mints: window_machine slot_admit fst snd "mm_exec k" mint_charge_of mint_counter mm_time for k
proof unfold_locales
  fix e and s s' :: "'a mm_world" and t n l
  assume run: "mm_exec k e s = Inr s'"
  show "slot_admit t n l (mint_counter s) (mint_counter s') \<and> t = mm_time e" if "mint_charge_of e s = Some (t, n, l)"
    using run that by (cases e) (auto simp: run_ok slot_admit_def mint_counter_def word_le_nat_alt dest!: mm_mint_ok(6) dest: mm_mint_charge_ok)
  show "mint_counter s' = mint_counter s" if "mint_charge_of e s = None"
    using run that by (cases e) (auto simp: run_ok mint_counter_def dest!: mm_burn_ok(4) register_mm_ok dest: mm_burn_charge_ok)
qed (auto simp: slot_admit_def)

interpretation mm_burns: window_machine slot_admit fst snd "mm_exec k" burn_charge_of burn_counter mm_time for k
proof unfold_locales
  fix e and s s' :: "'a mm_world" and t n l
  assume run: "mm_exec k e s = Inr s'"
  show "slot_admit t n l (burn_counter s) (burn_counter s') \<and> t = mm_time e" if "burn_charge_of e s = Some (t, n, l)"
    using run that by (cases e) (auto simp: run_ok slot_admit_def burn_counter_def word_le_nat_alt dest!: mm_burn_ok(4) dest: mm_burn_charge_ok)
  show "burn_counter s' = burn_counter s" if "burn_charge_of e s = None"
    using run that by (cases e) (auto simp: run_ok burn_counter_def dest!: mm_mint_ok(6) register_mm_ok dest: mm_mint_charge_ok)
qed

text \<open>The limits themselves never change.\<close>

definition mm_limits :: "'w mm_world \<Rightarrow> u64 \<times> u64" where
  "mm_limits s = (mmk_mint_limit_per_slot (mkw_mm s), mmk_burn_limit_per_slot (mkw_mm s))"

lemma mm_limits_exec: "mm_exec k e s = Inr s' \<Longrightarrow> mm_limits s' = mm_limits s"
  by (cases e) (auto simp: run_ok mm_limits_def dest!: mm_mint_ok(6) mm_burn_ok(4) register_mm_ok dest: mm_mint_charge_ok(4,5) mm_burn_charge_ok(4,5))

lemma passed_limits:
  "(t, n, l) \<in> set (passed (mm_exec k) mint_charge_of es s) \<Longrightarrow> l = unat (fst (mm_limits s))"
  "(t, n, l) \<in> set (passed (mm_exec k) burn_charge_of es s) \<Longrightarrow> l = unat (snd (mm_limits s))"
proof (induction es arbitrary: s)
  case (Cons e es)
  {
    case 1
    then show ?case
    proof (cases "mm_exec k e s")
      case (Inr s')
      with 1 Cons.IH(1) [of s'] mm_limits_exec [OF Inr] show ?thesis
        by (cases e) (auto simp: mm_limits_def simp del: mm_exec.simps)
    qed (use Cons in simp)
  next
    case 2
    then show ?case
    proof (cases "mm_exec k e s")
      case (Inr s')
      with 2 Cons.IH(2) [of s'] mm_limits_exec [OF Inr] show ?thesis
        by (cases e) (auto simp: mm_limits_def simp del: mm_exec.simps)
    qed (use Cons in simp)
  }
qed simp_all

text \<open>in any one slot the market makers together mint at most the limit per slot, and burn at most theirs, whatever else happens,
  as long as transactions come in the order of slots.\<close>

theorem mm_limits_per_slot:
  assumes "sorted (map mm_time es)"
  shows "sum_list (map (fst \<circ> snd) (filter (\<lambda>e. fst e = t) (passed (mm_exec k) mint_charge_of es s))) \<le> unat (mmk_mint_limit_per_slot (mkw_mm s)) \<and>
    sum_list (map (fst \<circ> snd) (filter (\<lambda>e. fst e = t) (passed (mm_exec k) burn_charge_of es s))) \<le> unat (mmk_burn_limit_per_slot (mkw_mm s))"
  using mm_mints.passed_within [OF assms, of k s t "unat (mmk_mint_limit_per_slot (mkw_mm s))"]
    mm_burns.passed_within [OF assms, of k s t "unat (mmk_burn_limit_per_slot (mkw_mm s))"] passed_limits [of _ _ _ k es s]
  by (fastforce simp: mm_limits_def)

section \<open>Examples\<close>

text \<open>Market maker 9 mints 40 of the 100 allowed in slot 7, at a price of 0.9995 dollars.\<close>

definition demo_mm :: "u64 \<Rightarrow> u64 \<Rightarrow> market_maker_config" where
  "demo_mm slot minted =
     \<lparr>mmk_sss_mint = 5, mmk_whitelisted_mms = [9], mmk_mint_limit_per_slot = 100, mmk_burn_limit_per_slot = 50, mmk_spread_bps = 10,
      mmk_last_mint_slot = slot, mmk_minted_this_slot = minted, mmk_last_burn_slot = 0, mmk_burned_this_slot = 0, mmk_bump = 255\<rparr>"

definition demo_mm_config :: "u64 \<Rightarrow> stablecoin_config" where
  "demo_mm_config minted =
     demo_config\<lparr>c_feature_flags := FLAG_MARKET_MAKER_HOOKS, c_total_minted := minted, c_oracle_type := 2, c_oracle_feed := 60\<rparr>"

definition demo_mm_ctx :: mm_ctx where
  "demo_mm_ctx = \<lparr>mmx_market_maker = 9, mmx_config = demo_acct (demo_mm_config 1000), mmx_mint = 5, mmx_token_account = 20,
     mmx_feed = demo_feed 99950000 1000\<rparr>"

definition demo_mm_ledger :: "u64 \<Rightarrow> u64 \<Rightarrow> ref_ledger" where
  "demo_mm_ledger a circ = demo_ledger\<lparr>rl_tokens := Map.empty (20 \<mapsto> \<lparr>ta_mint = 5, ta_owner = 9, ta_amount = a\<rparr>),
    rl_mints := Map.empty (5 \<mapsto> \<lparr>tm_decimals = 6, tm_supply = circ\<rparr>)\<rparr>"

abbreviation demo_mm_key :: pubkey where "demo_mm_key \<equiv> ref_pda (mm_seeds 5)"

lemmas mm_eval =
  demo_mm_def demo_mm_config_def demo_mm_ctx_def demo_mm_ledger_def mm_accounts_def mm_config_ok_def config_ok_def
  check_oracle_spread_def mm_mint_charge_def mm_supply_ok_def mm_at_def price_in_micro_usd_def i64_pow10_def
  i64_saturating_mul_def PEG_PRICE_MICRO_USD_def

lemma demo_mm_run:
  "mm_mint_handler (ref_runtime 7 0 1030) (demo_mm_ledger 600 900) demo_mm_ctx \<lparr>key_of = demo_mm_key, data_of = demo_mm 0 0\<rparr> 40 =
     Inr (demo_mm_config 1040, demo_mm 7 40, demo_mm_ledger 640 940)"
  by (simp_all add: eval_defs mm_eval mm_mint_handler_def fun_upd_twist word_le_nat_alt word_less_nat_alt)
     (simp_all add: demo_cfg_key_def)

theorem mm_mint_guarded_witness:
  "supply_of (ref_runtime 7 0 1030) (demo_mm_ledger 640 940) 5 = 900 + 40 \<and>
   (\<exists>p micro. get_oracle_price (demo_feed 99950000 1000) (demo_mm_config 1000) 1030 = Inr p \<and>
     price_in_micro_usd p = Inr micro \<and> \<bar>micro - 1000000\<bar> \<le> 1000)"
proof -
  have "supply_of (ref_runtime 7 0 1030) (demo_mm_ledger 600 900) 5 = 900" by (simp add: demo_mm_ledger_def supply_of_def)
  moreover have "c_max_supply (data_of (mmx_config demo_mm_ctx)) \<noteq> u64_max"
    by (simp add: demo_mm_ctx_def demo_mm_config_def demo_config_def u64_max_def)
  note mm_mint_guarded [OF ref.token_ledger_axioms demo_mm_run this]
  ultimately show ?thesis by (simp add: demo_mm_ctx_def demo_mm_def) (simp add: demo_mm_config_def)
qed

definition demo_mm_world :: "ref_ledger mm_world" where
  "demo_mm_world = \<lparr>mkw_config = demo_mm_config 1000, mkw_mm = demo_mm 0 0, mkw_ledger = demo_mm_ledger 600 900\<rparr>"

theorem mm_limits_per_slot_witness:
  "sum_list (map (fst \<circ> snd) (filter (\<lambda>e. fst e = 7)
     (passed (mm_exec demo_mm_key) mint_charge_of [MmMint (ref_runtime 7 0 1030) demo_mm_ctx 40, MmMint (ref_runtime 7 0 1030) demo_mm_ctx 70]
       demo_mm_world))) \<le> 100"
  using mm_limits_per_slot [where t = 7 and k = demo_mm_key and s = demo_mm_world and
      es = "[MmMint (ref_runtime 7 0 1030) demo_mm_ctx 40, MmMint (ref_runtime 7 0 1030) demo_mm_ctx 70]"]
  by (simp add: demo_mm_world_def demo_mm_def)

end
