(* ===== verification/Bridge.thy ===== *)
theory Bridge
  imports Compliance Machine
begin

text \<open>
  The bridge: stablecoins are burnt here to be issued on another chain, and issued here against messages of a
  trusted relayer, each of which counts once (programs/sss-token/src/instructions/bridge.rs).
\<close>

section \<open>Records\<close>

record bridge_config =
  brc_sss_mint :: pubkey
  brc_bridge_type :: u8
  brc_bridge_program :: pubkey
  brc_max_bridge_amount_per_tx :: u64
  brc_bridge_fee_bps :: u16
  brc_fee_vault :: pubkey
  brc_authority :: pubkey
  brc_total_bridged_out :: u64
  brc_total_bridged_in :: u64
  brc_bump :: u8

record consumed_message =
  csm_message_id :: bytes32
  csm_sss_mint :: pubkey
  csm_bump :: u8

record bridge_proof =
  bpf_proof_bytes :: "u8 list"
  bpf_source_chain :: u16

definition BRIDGE_TYPE_WORMHOLE :: u8 where "BRIDGE_TYPE_WORMHOLE = 0"
definition BRIDGE_TYPE_LAYERZERO :: u8 where "BRIDGE_TYPE_LAYERZERO = 1"

definition bridge_seeds :: "pubkey \<Rightarrow> seed list" where
  "bridge_seeds mint = [SeedStr ''bridge-config'', SeedKey mint]"

definition message_seeds :: "pubkey \<Rightarrow> bytes32 \<Rightarrow> seed list" where
  "message_seeds mint message_id = [SeedStr ''consumed-message-id'', SeedKey mint, SeedKey message_id]"

definition init_bridge_config_handler ::
  "'w runtime \<Rightarrow> admin_ctx \<Rightarrow> bridge_config option \<Rightarrow> u8 \<Rightarrow> pubkey \<Rightarrow> u64 \<Rightarrow> u16 \<Rightarrow> pubkey \<Rightarrow> bridge_config res" where
  "init_bridge_config_handler rt ctx existing bridge_type bridge_program max_per_tx fee_bps fee_vault =
     guarded
       (config_ok rt (ac_config ctx) (ac_mint ctx) @
        [(c_authority (ac_cfg ctx) = ac_authority ctx, Core Unauthorized), (existing = None, Anchor AccountAlreadyInUse),
         (fee_bps \<le> 1000, Pool BridgeFeeTooHigh),
         (bridge_type = BRIDGE_TYPE_WORMHOLE \<or> bridge_type = BRIDGE_TYPE_LAYERZERO, Pool InvalidBridgeType)])
       (Inr \<lparr>brc_sss_mint = ac_mint ctx, brc_bridge_type = bridge_type, brc_bridge_program = bridge_program,
             brc_max_bridge_amount_per_tx = max_per_tx, brc_bridge_fee_bps = fee_bps, brc_fee_vault = fee_vault,
             brc_authority = c_authority (ac_cfg ctx), brc_total_bridged_out = 0, brc_total_bridged_in = 0,
             brc_bump = snd (rt_find_pda rt (bridge_seeds (ac_mint ctx)))\<rparr>)"

section \<open>Out\<close>

record bridge_ctx =
  bgx_signer :: pubkey
  bgx_config :: "stablecoin_config account"
  bgx_mint :: pubkey
  bgx_user_account :: pubkey
  bgx_fee_vault :: pubkey

definition bridge_ok :: "'w runtime \<Rightarrow> bridge_ctx \<Rightarrow> bridge_config account \<Rightarrow> (bool \<times> error) list" where
  "bridge_ok rt ctx ba =
     config_ok rt (bgx_config ctx) (bgx_mint ctx) @
     [(seeds_ok rt (key_of ba) (bridge_seeds (bgx_mint ctx)) (brc_bump (data_of ba)), Anchor ConstraintSeeds),
      (brc_sss_mint (data_of ba) = bgx_mint ctx, Pool BridgeConfigMintMismatch),
      (bgx_mint ctx = c_mint (data_of (bgx_config ctx)), Anchor ConstraintRaw)]"

definition bridge_open :: "stablecoin_config \<Rightarrow> u64 \<Rightarrow> (bool \<times> error) list" where
  "bridge_open c amount =
     [(amount > 0, Core ZeroAmount), (\<not> c_paused c, Core MintPaused),
      (\<not> flag_set c FLAG_CIRCUIT_BREAKER, Cdp CircuitBreakerActive), (flag_set c FLAG_BRIDGE_ENABLED, Pool BridgeNotEnabled)]"

definition bridge_fee :: "u64 \<Rightarrow> u16 \<Rightarrow> u64 res" where
  "bridge_fee amount fee_bps =
     (if fee_bps > 0 then
        andthen (ok_or (checked_mul (ucast amount :: u128) (ucast fee_bps)) (Cdp InvalidPrice)) (\<lambda>x.
        andthen (ok_or (checked_div x 10000) (Cdp InvalidPrice)) (\<lambda>y. Inr (ucast y)))
      else Inr 0)"

definition bridge_out_handler ::
  "'w runtime \<Rightarrow> 'w \<Rightarrow> bridge_ctx \<Rightarrow> bridge_config account \<Rightarrow> u64 \<Rightarrow> (stablecoin_config \<times> bridge_config \<times> 'w) res" where
  "bridge_out_handler rt w ctx ba amount =
     (let c = data_of (bgx_config ctx); b = data_of ba in
      andthen (load_mint rt w (bgx_mint ctx)) (\<lambda>m.
      andthen (load_token rt w (bgx_user_account ctx)) (\<lambda>ua.
      andthen (load_token rt w (bgx_fee_vault ctx)) (\<lambda>fv.
      guarded
        (bridge_ok rt ctx ba @
         [(ta_owner ua = bgx_signer ctx, Pool TokenAccountOwnerMismatch), (ta_mint ua = bgx_mint ctx, Pool TokenAccountMintMismatch),
          (bgx_fee_vault ctx = brc_fee_vault b, Pool FeeVaultMismatch), (ta_mint fv = bgx_mint ctx, Pool TokenAccountMintMismatch)] @
         bridge_open c amount @
         [(brc_max_bridge_amount_per_tx b = 0 \<or> amount \<le> brc_max_bridge_amount_per_tx b, Pool BridgeAmountExceedsLimit)])
        (andthen (bridge_fee amount (brc_bridge_fee_bps b)) (\<lambda>fee.
         andthen (ok_or (checked_sub amount fee) (Late Overflow)) (\<lambda>burnt.
         guarded [(burnt > 0, Core ZeroAmount)]
         (andthen
           (if fee > 0 then
              cpi rt w [bgx_signer ctx]
                (TransferChecked (bgx_user_account ctx) (bgx_mint ctx) (bgx_fee_vault ctx) (bgx_signer ctx) fee (tm_decimals m))
            else Inr w) (\<lambda>w1.
          andthen (cpi rt w1 [bgx_signer ctx] (Burn (bgx_mint ctx) (bgx_user_account ctx) (bgx_signer ctx) burnt)) (\<lambda>w2.
          andthen (ok_or (checked_add (c_total_burned c) burnt) (Late Overflow)) (\<lambda>tb.
          andthen (ok_or (checked_add (brc_total_bridged_out b) burnt) (Late Overflow)) (\<lambda>out.
          Inr (c\<lparr>c_total_burned := tb\<rparr>, b\<lparr>brc_total_bridged_out := out\<rparr>, w2)))))))))))))"

section \<open>In\<close>

text \<open>
  The check on the recipient reads the bytes of the sanctions record: the address and the data of the account that was
  passed, if any. \<open>consumed\<close> is what the address derived from the message holds already.
\<close>

definition recipient_clear :: "'w runtime \<Rightarrow> stablecoin_config \<Rightarrow> pubkey \<Rightarrow> pubkey \<Rightarrow> (pubkey \<times> u8 list) option \<Rightarrow> unit res" where
  "recipient_clear rt c mint recipient record =
     (if flag_set c FLAG_SANCTIONS_ORACLE then
        andthen (ok_or record (Compliance SanctionsRecordMissing)) (\<lambda>(k, bs).
        guarded
          [(k = fst (rt_find_pda rt (sanctions_seeds mint recipient)), Core Unauthorized),
           (\<not> (73 \<le> length bs \<and> bs ! 72 \<noteq> 0), Compliance SanctionedAddress)]
          (Inr ()))
      else Inr ())"

definition bridge_in_handler ::
  "'w runtime \<Rightarrow> 'w \<Rightarrow> bridge_ctx \<Rightarrow> bridge_config account \<Rightarrow> consumed_message option \<Rightarrow> (pubkey \<times> u8 list) option \<Rightarrow>
     bridge_proof \<Rightarrow> u64 \<Rightarrow> pubkey \<Rightarrow> bytes32 \<Rightarrow> (stablecoin_config \<times> bridge_config \<times> consumed_message \<times> 'w) res" where
  "bridge_in_handler rt w ctx ba consumed record proof amount recipient message_id =
     (let c = data_of (bgx_config ctx); b = data_of ba in
      andthen (load_token rt w (bgx_user_account ctx)) (\<lambda>ra.
      guarded
        ((bgx_signer ctx = brc_authority b, Pool BridgeRelayerUnauthorized) # bridge_ok rt ctx ba @
         [(consumed = None, Anchor AccountAlreadyInUse), (ta_mint ra = bgx_mint ctx, Pool TokenAccountMintMismatch)] @
         bridge_open c amount @
         [(ta_owner ra = recipient, Pool BridgeRecipientMismatch), (32 \<le> length (bpf_proof_bytes proof), Pool BridgeProofEmpty),
          (brc_authority b \<noteq> default_key, Core Unauthorized)])
        (andthen
          (if c_max_supply c > 0 then
             andthen (ok_or (checked_add (net_supply c) amount) (Late Overflow)) (\<lambda>s.
             guarded [(s \<le> c_max_supply c, Core MaxSupplyExceeded)] (Inr ()))
           else Inr ()) (\<lambda>_.
         andthen (recipient_clear rt c (bgx_mint ctx) recipient record) (\<lambda>_.
         andthen (cpi_signed rt w [bgx_signer ctx] (config_seeds (bgx_mint ctx)) (c_bump c)
                    (MintTo (bgx_mint ctx) (bgx_user_account ctx) (key_of (bgx_config ctx)) amount)) (\<lambda>w'.
         andthen (ok_or (checked_add (c_total_minted c) amount) (Late Overflow)) (\<lambda>tm.
         andthen (ok_or (checked_add (brc_total_bridged_in b) amount) (Late Overflow)) (\<lambda>tin.
         Inr (c\<lparr>c_total_minted := tm\<rparr>, b\<lparr>brc_total_bridged_in := tin\<rparr>,
              \<lparr>csm_message_id = message_id, csm_sss_mint = bgx_mint ctx,
               csm_bump = snd (rt_find_pda rt (message_seeds (bgx_mint ctx) message_id))\<rparr>, w')))))))))"

section \<open>What a crossing does\<close>

lemma bridge_fee_ok:
  "bridge_fee n f = Inr fee \<Longrightarrow> f \<le> 10000 \<Longrightarrow> unat fee = unat n * unat f div 10000"
proof -
  assume run: "bridge_fee n f = Inr fee" and f: "f \<le> 10000"
  show ?thesis
  proof (cases "f > 0")
    case True
    with run obtain y :: u128 where x: "unat y = unat n * unat f div 10000" "fee = ucast y"
      by (auto simp: bridge_fee_def run_ok arith_ok)
    have "unat n * unat f div 10000 \<le> unat n * 10000 div 10000"
      using f by (intro div_le_mono mult_le_mono2) (simp add: word_le_nat_alt)
    then have "unat n * unat f div 10000 < 18446744073709551616" using u64_bound [of n] by simp
    with x show ?thesis by (simp add: unat_narrow)
  next
    case False
    then have "unat f = 0" by (simp add: word_less_nat_alt)
    with run False show ?thesis by (simp add: bridge_fee_def)
  qed
qed

lemma bridge_out_ok:
  assumes run: "bridge_out_handler rt w ctx ba n = Inr (c', b', w')"
  defines "c \<equiv> data_of (bgx_config ctx)" and "b \<equiv> data_of ba"
  obtains fee burnt w1 d where "\<not> c_paused c" "\<not> flag_set c FLAG_CIRCUIT_BREAKER" "flag_set c FLAG_BRIDGE_ENABLED"
    "brc_max_bridge_amount_per_tx b = 0 \<or> n \<le> brc_max_bridge_amount_per_tx b"
    "bridge_fee n (brc_bridge_fee_bps b) = Inr fee" "unat n = unat fee + unat burnt" "0 < unat burnt"
    "if fee > 0 then rt_invoke rt w [bgx_signer ctx] (TransferChecked (bgx_user_account ctx) (bgx_mint ctx) (bgx_fee_vault ctx) (bgx_signer ctx) fee d) = Inr w1
       else w1 = w"
    "rt_invoke rt w1 [bgx_signer ctx] (Burn (bgx_mint ctx) (bgx_user_account ctx) (bgx_signer ctx) burnt) = Inr w'"
    "unat (c_total_burned c') = unat (c_total_burned c) + unat burnt" "c' = c\<lparr>c_total_burned := c_total_burned c'\<rparr>"
    "unat (brc_total_bridged_out b') = unat (brc_total_bridged_out b) + unat burnt" "brc_total_bridged_in b' = brc_total_bridged_in b"
proof -
  note open_up = bridge_out_handler_def bridge_ok_def bridge_open_def guarded_Inr Let_def c_def b_def
  obtain m where m: "load_mint rt w (bgx_mint ctx) = Inr m" using run by (auto simp: open_up andthen_Inr)
  obtain ua where ua: "load_token rt w (bgx_user_account ctx) = Inr ua" using run m by (auto simp: open_up andthen_Inr)
  obtain fv where fv: "load_token rt w (bgx_fee_vault ctx) = Inr fv" using run m ua by (auto simp: open_up andthen_Inr)
  obtain fee where fee: "bridge_fee n (brc_bridge_fee_bps b) = Inr fee" using run m ua fv by (auto simp: open_up andthen_Inr)
  obtain burnt where burnt: "checked_sub n fee = Some burnt" using run m ua fv fee by (auto simp: open_up andthen_Inr ok_or_Inr)
  note found = m ua fv fee burnt
  have gates: "\<not> c_paused c" "\<not> flag_set c FLAG_CIRCUIT_BREAKER" "flag_set c FLAG_BRIDGE_ENABLED"
    "brc_max_bridge_amount_per_tx b = 0 \<or> n \<le> brc_max_bridge_amount_per_tx b" "burnt > 0"
    using run found by (auto simp: open_up split: if_splits)
  obtain w1 where w1: "(if fee > 0 then cpi rt w [bgx_signer ctx] (TransferChecked (bgx_user_account ctx) (bgx_mint ctx) (bgx_fee_vault ctx)
      (bgx_signer ctx) fee (tm_decimals m)) else Inr w) = Inr w1" using run found gates by (auto simp: open_up andthen_Inr)
  obtain tb where tb: "checked_add (c_total_burned c) burnt = Some tb" using run found gates w1 by (auto simp: open_up andthen_Inr ok_or_Inr)
  obtain tout where tout: "checked_add (brc_total_bridged_out b) burnt = Some tout"
    using run found gates w1 tb by (auto simp: open_up andthen_Inr ok_or_Inr)
  have fin: "cpi rt w1 [bgx_signer ctx] (Burn (bgx_mint ctx) (bgx_user_account ctx) (bgx_signer ctx) burnt) = Inr w'"
    "c' = c\<lparr>c_total_burned := tb\<rparr>" "b' = b\<lparr>brc_total_bridged_out := tout\<rparr>"
    using run found gates w1 tb tout by (auto simp: open_up andthen_Inr)
  show thesis
    by (rule that [where d = "tm_decimals m" and ?w1.0 = w1])
      (use found gates w1 tb tout fin in \<open>auto simp: run_ok arith_ok word_pos_unat split: if_splits\<close>)
qed

lemma bridge_in_ok:
  assumes "bridge_in_handler rt w ctx ba consumed record proof n recipient mid = Inr (c', b', m, w')"
  defines "c \<equiv> data_of (bgx_config ctx)" and "b \<equiv> data_of ba"
  shows "bgx_signer ctx = brc_authority b" and "consumed = None" and "csm_message_id m = mid"
    and "\<not> c_paused c" and "\<not> flag_set c FLAG_CIRCUIT_BREAKER" and "flag_set c FLAG_BRIDGE_ENABLED"
    and "0 < unat (c_max_supply c) \<Longrightarrow> unat (net_supply c) + unat n \<le> unat (c_max_supply c)"
    and "unat (c_total_minted c') = unat (c_total_minted c) + unat n" and "c' = c\<lparr>c_total_minted := c_total_minted c'\<rparr>"
    and "unat (brc_total_bridged_in b') = unat (brc_total_bridged_in b) + unat n"
    and "b' = b\<lparr>brc_total_bridged_in := brc_total_bridged_in b'\<rparr>"
    and "\<exists>ta. rt_token rt w (bgx_user_account ctx) = Some ta \<and> ta_owner ta = recipient"
    and "\<exists>k. rt_invoke rt w [k, bgx_signer ctx] (MintTo (bgx_mint ctx) (bgx_user_account ctx) (key_of (bgx_config ctx)) n) = Inr w'"
  using assms(1) unfolding c_def b_def
  by (auto simp: bridge_in_handler_def bridge_ok_def bridge_open_def guarded_Inr run_ok arith_ok Let_def word_pos_unat word_le_nat_alt split: if_splits)

section \<open>Crossings over time\<close>

record 'w bridge_world =
  bgw_config :: stablecoin_config
  bgw_bridge :: bridge_config
  bgw_consumed :: "bytes32 \<Rightarrow> consumed_message option"
  bgw_ledger :: 'w

datatype 'w bridge_event =
    CrossOut "'w runtime" bridge_ctx u64
  | CrossIn "'w runtime" bridge_ctx "(pubkey \<times> u8 list) option" bridge_proof u64 pubkey bytes32
  | ElsewhereB stablecoin_config 'w

definition bridge_at :: "bridge_ctx \<Rightarrow> stablecoin_config \<Rightarrow> bridge_ctx" where
  "bridge_at ctx c = ctx\<lparr>bgx_config := set_data (bgx_config ctx) c\<rparr>"

fun bridge_exec :: "pubkey \<Rightarrow> 'w bridge_event \<Rightarrow> 'w bridge_world \<Rightarrow> 'w bridge_world res" where
  "bridge_exec k (CrossOut rt ctx n) s =
     andthen (bridge_out_handler rt (bgw_ledger s) (bridge_at ctx (bgw_config s)) \<lparr>key_of = k, data_of = bgw_bridge s\<rparr> n)
       (\<lambda>(c, b, w). Inr (s\<lparr>bgw_config := c, bgw_bridge := b, bgw_ledger := w\<rparr>))"
| "bridge_exec k (CrossIn rt ctx record proof n recipient mid) s =
     andthen (bridge_in_handler rt (bgw_ledger s) (bridge_at ctx (bgw_config s)) \<lparr>key_of = k, data_of = bgw_bridge s\<rparr>
                (bgw_consumed s mid) record proof n recipient mid)
       (\<lambda>(c, b, m, w). Inr (s\<lparr>bgw_config := c, bgw_bridge := b, bgw_consumed := (bgw_consumed s)(mid \<mapsto> m), bgw_ledger := w\<rparr>))"
| "bridge_exec k (ElsewhereB c w) s = Inr (s\<lparr>bgw_config := c, bgw_ledger := w\<rparr>)"

text \<open>The messages that were honoured, and what came in.\<close>

fun honoured :: "pubkey \<Rightarrow> 'w bridge_event list \<Rightarrow> 'w bridge_world \<Rightarrow> bytes32 list" where
  "honoured k [] s = []"
| "honoured k (e # es) s =
     (case bridge_exec k e s of
        Inl _ \<Rightarrow> honoured k es s
      | Inr s' \<Rightarrow> (case e of CrossIn rt ctx record proof n recipient mid \<Rightarrow> [mid] | _ \<Rightarrow> []) @ honoured k es s')"

fun came_in :: "'w bridge_event \<Rightarrow> nat" where
  "came_in (CrossIn rt ctx record proof n recipient mid) = unat n"
| "came_in _ = 0"

lemma bridge_exec_consumed:
  assumes "bridge_exec k e s = Inr s'"
  shows "dom (bgw_consumed s) \<subseteq> dom (bgw_consumed s')"
    and "e = CrossIn rt ctx record proof n recipient mid \<Longrightarrow> bgw_consumed s mid = None \<and> mid \<in> dom (bgw_consumed s')"
  using assms by (cases e; auto simp: run_ok dest: bridge_in_ok(2))+

lemma honoured_fresh:
  "distinct (honoured k es s) \<and> set (honoured k es s) \<inter> dom (bgw_consumed s) = {}"
proof (induction es arbitrary: s)
  case (Cons e es)
  show ?case
  proof (cases "bridge_exec k e s")
    case (Inr s')
    note ih = Cons.IH [of s']
    note c = bridge_exec_consumed [OF Inr]
    show ?thesis
    proof (cases e)
      case (CrossIn rt ctx sr pf n recipient mid)
      with c(2) [OF CrossIn] have "bgw_consumed s mid = None" "mid \<in> dom (bgw_consumed s')" by auto
      with ih c(1) Inr CrossIn show ?thesis by (auto simp del: bridge_exec.simps)
    qed (use ih c(1) Inr in \<open>auto simp del: bridge_exec.simps\<close>)
  qed (use Cons in simp)
qed simp

interpretation bridged_in: accounted "bridge_exec k" "\<lambda>s. unat (brc_total_bridged_in (bgw_bridge s))" came_in "\<lambda>_. 0" for k
proof unfold_locales
  fix e and s s' :: "'a bridge_world"
  assume run: "bridge_exec k e s = Inr s'"
  show "unat (brc_total_bridged_in (bgw_bridge s')) + 0 = unat (brc_total_bridged_in (bgw_bridge s)) + came_in e"
    using run by (cases e) (auto simp: run_ok dest: bridge_in_ok(10) elim!: bridge_out_ok)
qed

text \<open>C26: a message of the relayer counts once: over any history the messages that are honoured are pairwise distinct and were
  not consumed before, and what the bridge records as come in is the sum of their amounts.\<close>

theorem bridge_message_counts_once:
  "distinct (honoured k es s) \<and> set (honoured k es s) \<inter> dom (bgw_consumed s) = {} \<and>
   unat (brc_total_bridged_in (bgw_bridge (play (bridge_exec k) es s))) =
     unat (brc_total_bridged_in (bgw_bridge s)) + tally (bridge_exec k) came_in es s"
  using honoured_fresh [of k es s] bridged_in.play_level [of k es s] tally_zero [of "bridge_exec k" es s] by auto

text \<open>a crossing moves what it records: going out, the sender pays exactly the amount, a fee of at most a tenth goes to the
  vault, the rest leaves the supply and is booked as burnt; coming in, the supply and the recipient's balance grow by exactly the
  amount, which is booked as minted and stays within the cap, and only the relayer can cause it. Neither happens while paused,
  halted or disabled.\<close>

theorem bridge_effect:
  fixes ctx :: bridge_ctx
  assumes ledger: "token_ledger rt" and fee: "brc_bridge_fee_bps (data_of ba) \<le> 1000"
  defines "c \<equiv> data_of (bgx_config ctx)" and "me \<equiv> bgx_user_account ctx"
  shows "(bridge_out_handler rt w ctx ba n = Inr (c', b', w') \<and> me \<noteq> bgx_fee_vault ctx \<longrightarrow>
      (let fee = unat n * unat (brc_bridge_fee_bps (data_of ba)) div 10000 in
        \<not> c_paused c \<and> \<not> flag_set c FLAG_CIRCUIT_BREAKER \<and> flag_set c FLAG_BRIDGE_ENABLED \<and> fee * 10 \<le> unat n \<and>
        unat n \<le> balance_of rt w me \<and>
        balance_of rt w' = (balance_of rt w)(me := balance_of rt w me - unat n, bgx_fee_vault ctx := balance_of rt w (bgx_fee_vault ctx) + fee) \<and>
        supply_of rt w' (bgx_mint ctx) + (unat n - fee) = supply_of rt w (bgx_mint ctx) \<and>
        unat (c_total_burned c') = unat (c_total_burned c) + (unat n - fee))) \<and>
    (bridge_in_handler rt w ctx ba consumed record proof n recipient mid = Inr (c'', b'', m, w'') \<longrightarrow>
      \<not> c_paused c \<and> \<not> flag_set c FLAG_CIRCUIT_BREAKER \<and> flag_set c FLAG_BRIDGE_ENABLED \<and>
      bgx_signer ctx = brc_authority (data_of ba) \<and>
      supply_of rt w'' (bgx_mint ctx) = supply_of rt w (bgx_mint ctx) + unat n \<and> balance_of rt w'' me = balance_of rt w me + unat n \<and>
      unat (c_total_minted c'') = unat (c_total_minted c) + unat n \<and>
      (0 < unat (c_max_supply c) \<longrightarrow> unat (net_supply c) + unat n \<le> unat (c_max_supply c)))"
proof (intro conjI impI; (elim conjE)?)
  assume run: "bridge_out_handler rt w ctx ba n = Inr (c', b', w')" and ne: "me \<noteq> bgx_fee_vault ctx"
  obtain fee burnt w1 d where gates: "\<not> c_paused c" "\<not> flag_set c FLAG_CIRCUIT_BREAKER" "flag_set c FLAG_BRIDGE_ENABLED"
    and f: "bridge_fee n (brc_bridge_fee_bps (data_of ba)) = Inr fee" "unat n = unat fee + unat burnt"
    and t: "if fee > 0 then rt_invoke rt w [bgx_signer ctx] (TransferChecked me (bgx_mint ctx) (bgx_fee_vault ctx) (bgx_signer ctx) fee d) = Inr w1
       else w1 = w" and b: "rt_invoke rt w1 [bgx_signer ctx] (Burn (bgx_mint ctx) me (bgx_signer ctx) burnt) = Inr w'"
    and books: "unat (c_total_burned c') = unat (c_total_burned c) + unat burnt"
    by (rule bridge_out_ok [OF run, folded c_def me_def])
  have bps: "brc_bridge_fee_bps (data_of ba) \<le> 10000" "unat (brc_bridge_fee_bps (data_of ba)) \<le> 1000"
    using fee by (simp_all add: word_le_nat_alt)
  note fee' = bridge_fee_ok [OF f(1) bps(1)]
  have "unat n * unat (brc_bridge_fee_bps (data_of ba)) div 10000 * 10 \<le> unat n"
  proof -
    have "unat n * unat (brc_bridge_fee_bps (data_of ba)) div 10000 \<le> unat n * 1000 div 10000" using bps by (intro div_le_mono mult_le_mono2)
    then show ?thesis by simp
  qed
  moreover have "unat fee \<le> balance_of rt w me" "balance_of rt w1 = (balance_of rt w)(me := balance_of rt w me - unat fee,
      bgx_fee_vault ctx := balance_of rt w (bgx_fee_vault ctx) + unat fee)" "supply_of rt w1 = supply_of rt w"
    using t ne token_ledger.transfer_ok [OF ledger, of w "[bgx_signer ctx]"]
    by (auto simp: word_pos_unat fun_eq_iff word_zero_unat split: if_splits)
  ultimately show "let fee = unat n * unat (brc_bridge_fee_bps (data_of ba)) div 10000 in
        \<not> c_paused c \<and> \<not> flag_set c FLAG_CIRCUIT_BREAKER \<and> flag_set c FLAG_BRIDGE_ENABLED \<and> fee * 10 \<le> unat n \<and>
        unat n \<le> balance_of rt w me \<and>
        balance_of rt w' = (balance_of rt w)(me := balance_of rt w me - unat n, bgx_fee_vault ctx := balance_of rt w (bgx_fee_vault ctx) + fee) \<and>
        supply_of rt w' (bgx_mint ctx) + (unat n - fee) = supply_of rt w (bgx_mint ctx) \<and>
        unat (c_total_burned c') = unat (c_total_burned c) + (unat n - fee)"
    unfolding Let_def fee' [symmetric] using token_ledger.burn_ok [OF ledger b] gates f(2) books ne by (auto simp: fun_eq_iff)
next
  assume run: "bridge_in_handler rt w ctx ba consumed record proof n recipient mid = Inr (c'', b'', m, w'')"
  note o = bridge_in_ok [OF run, folded c_def me_def]
  from o(13) obtain k where t: "rt_invoke rt w [k, bgx_signer ctx] (MintTo (bgx_mint ctx) me (key_of (bgx_config ctx)) n) = Inr w''" by blast
  from token_ledger.mint_to_ok [OF ledger t] o
  show "\<not> c_paused c" "\<not> flag_set c FLAG_CIRCUIT_BREAKER" "flag_set c FLAG_BRIDGE_ENABLED" "bgx_signer ctx = brc_authority (data_of ba)"
    "supply_of rt w'' (bgx_mint ctx) = supply_of rt w (bgx_mint ctx) + unat n" "balance_of rt w'' me = balance_of rt w me + unat n"
    "unat (c_total_minted c'') = unat (c_total_minted c) + unat n"
    "0 < unat (c_max_supply c) \<Longrightarrow> unat (net_supply c) + unat n \<le> unat (c_max_supply c)" by auto
qed

text \<open>the bridge does not see sanctions: it looks for the mark at byte 72 of a record of 18 bytes, so its check passes for every
  record the oracle writes, also for a fresh one that marks the recipient, which the check of the transfer path refuses.\<close>

theorem bridge_blind_to_sanctions:
  assumes "k = fst (rt_find_pda rt (sanctions_seeds mint recipient))"
    and "flag_set c FLAG_SANCTIONS_ORACLE" "c_sanctions_oracle c \<noteq> default_key" "sr_is_sanctioned r"
    and "c_sanctions_max_staleness_slots c = 0 \<or> saturating_sub slot (sr_updated_slot r) \<le> c_sanctions_max_staleness_slots c"
  shows "recipient_clear rt c mint recipient (Some (k, sanctions_bytes r)) = Inr () \<and>
    verify_sanctions_if_required c (Some r) slot = Inl (Compliance SanctionedAddress)"
  using assms by (auto simp: recipient_clear_def sanctions_fields verify_sanctions_if_required_def word_less_nat_alt word_unat_eq_iff)

section \<open>Examples\<close>

text \<open>User 9 sends 100 out at a fee of five per cent, and the relayer 12 brings 40 in for user 10, once.\<close>

definition demo_bridge :: "u64 \<Rightarrow> u64 \<Rightarrow> bridge_config" where
  "demo_bridge out in' =
     \<lparr>brc_sss_mint = 5, brc_bridge_type = 0, brc_bridge_program = 0, brc_max_bridge_amount_per_tx = 0, brc_bridge_fee_bps = 500,
      brc_fee_vault = 21, brc_authority = 12, brc_total_bridged_out = out, brc_total_bridged_in = in', brc_bump = 255\<rparr>"

definition demo_bridge_config :: "u64 \<Rightarrow> u64 \<Rightarrow> stablecoin_config" where
  "demo_bridge_config minted burned = demo_config\<lparr>c_feature_flags := FLAG_BRIDGE_ENABLED, c_total_minted := minted, c_total_burned := burned\<rparr>"

definition demo_bridge_ctx :: "pubkey \<Rightarrow> pubkey \<Rightarrow> bridge_ctx" where
  "demo_bridge_ctx who acct =
     \<lparr>bgx_signer = who, bgx_config = demo_acct (demo_bridge_config 1000 100), bgx_mint = 5, bgx_user_account = acct, bgx_fee_vault = 21\<rparr>"

definition demo_bridge_ledger :: "u64 \<Rightarrow> u64 \<Rightarrow> u64 \<Rightarrow> ref_ledger" where
  "demo_bridge_ledger a b circ = demo_ledger\<lparr>rl_tokens := Map.empty
     (20 \<mapsto> \<lparr>ta_mint = 5, ta_owner = 9, ta_amount = a\<rparr>, 21 \<mapsto> \<lparr>ta_mint = 5, ta_owner = 10, ta_amount = b\<rparr>),
    rl_mints := Map.empty (5 \<mapsto> \<lparr>tm_decimals = 6, tm_supply = circ\<rparr>)\<rparr>"

abbreviation demo_bridge_key :: pubkey where "demo_bridge_key \<equiv> ref_pda (bridge_seeds 5)"
abbreviation demo_proof :: bridge_proof where "demo_proof \<equiv> \<lparr>bpf_proof_bytes = replicate 32 1, bpf_source_chain = 2\<rparr>"
abbreviation demo_in :: "ref_ledger bridge_event" where
  "demo_in \<equiv> CrossIn (ref_runtime 1 0 0) (demo_bridge_ctx 12 21) None demo_proof 40 10 77"

definition demo_consumed :: consumed_message where
  "demo_consumed = \<lparr>csm_message_id = 77, csm_sss_mint = 5, csm_bump = 255\<rparr>"

definition demo_bridge_world :: "stablecoin_config \<Rightarrow> bridge_config \<Rightarrow> (bytes32 \<Rightarrow> consumed_message option) \<Rightarrow> ref_ledger \<Rightarrow> ref_ledger bridge_world" where
  "demo_bridge_world c b m w = \<lparr>bgw_config = c, bgw_bridge = b, bgw_consumed = m, bgw_ledger = w\<rparr>"

lemmas bridge_eval =
  demo_bridge_def demo_bridge_config_def demo_bridge_ctx_def demo_bridge_ledger_def demo_consumed_def bridge_ok_def bridge_open_def
  config_ok_def bridge_fee_def recipient_clear_def

lemma demo_bridge_runs:
  "bridge_out_handler (ref_runtime 1 0 0) (demo_bridge_ledger 600 300 900) (demo_bridge_ctx 9 20)
     \<lparr>key_of = demo_bridge_key, data_of = demo_bridge 0 0\<rparr> 100 =
     Inr (demo_bridge_config 1000 195, demo_bridge 95 0, demo_bridge_ledger 500 305 805)"
  "bridge_in_handler (ref_runtime 1 0 0) (demo_bridge_ledger 600 300 900) (demo_bridge_ctx 12 21)
     \<lparr>key_of = demo_bridge_key, data_of = demo_bridge 0 0\<rparr> None None demo_proof 40 10 77 =
     Inr (demo_bridge_config 1040 100, demo_bridge 0 40, demo_consumed, demo_bridge_ledger 600 340 940)"
  by (simp_all add: eval_defs bridge_eval bridge_out_handler_def bridge_in_handler_def checked_div_def fun_upd_twist word_le_nat_alt word_less_nat_alt)
     (simp_all add: demo_cfg_key_def)

theorem bridge_effect_witness:
  "supply_of (ref_runtime 1 0 0) (demo_bridge_ledger 500 305 805) 5 + 95 = 900 \<and>
   supply_of (ref_runtime 1 0 0) (demo_bridge_ledger 600 340 940) 5 = 900 + 40"
proof -
  have start: "supply_of (ref_runtime 1 0 0) (demo_bridge_ledger 600 300 900) 5 = 900" by (simp add: demo_bridge_ledger_def supply_of_def)
  have fee: "brc_bridge_fee_bps (data_of \<lparr>key_of = demo_bridge_key, data_of = demo_bridge 0 0\<rparr>) \<le> 1000"
    by (simp add: demo_bridge_def word_le_nat_alt)
  from bridge_effect [OF ref.token_ledger_axioms fee, THEN conjunct1, rule_format, OF conjI, OF demo_bridge_runs(1)]
    bridge_effect [OF ref.token_ledger_axioms fee, THEN conjunct2, rule_format, OF demo_bridge_runs(2)] start
  show ?thesis by (simp add: demo_bridge_ctx_def demo_bridge_def Let_def)
qed

theorem bridge_blind_to_sanctions_witness:
  "recipient_clear (ref_runtime 1 0 0) (demo_config\<lparr>c_feature_flags := FLAG_SANCTIONS_ORACLE, c_sanctions_oracle := 3\<rparr>) 5 10
     (Some (ref_pda (sanctions_seeds 5 10), sanctions_bytes \<lparr>sr_is_sanctioned = True, sr_updated_slot = 1, sr_bump = 255\<rparr>)) = Inr ()"
  using bridge_blind_to_sanctions [of "ref_pda (sanctions_seeds 5 10)" "ref_runtime 1 0 0" 5 10
      "demo_config\<lparr>c_feature_flags := FLAG_SANCTIONS_ORACLE, c_sanctions_oracle := 3\<rparr>"
      "\<lparr>sr_is_sanctioned = True, sr_updated_slot = 1, sr_bump = 255\<rparr>" 2]
  by (simp add: check_feature_flag_def flag_defs demo_config_def)

end
