(* ===== verification/Supply.thy ===== *)
theory Supply
  imports Minting Liquidation Queue Curves Redemption Market Bridge
begin

text \<open>
  The supply as a whole: every instruction of the program that mints or burns the stablecoin, in any order, over one
  configuration and one ledger (the instructions of programs/sss-token/src/lib.rs that reach the token program's mint and
  burn), and what the books of the configuration then say about the tokens in circulation. The other accounts of an
  instruction (minter records, positions, queue entries) are whatever the transaction brings.
\<close>

section \<open>The instructions that issue and retire\<close>

record 'w issue_world =
  isw_config :: stablecoin_config
  isw_ledger :: 'w

datatype 'w issue_event =
    IMint "'w runtime" mint_ctx u64
  | ICpiMint "'w runtime" mint_ctx "interface_version account" u64 u8
  | IMmMint "'w runtime" mm_ctx "market_maker_config account" u64
  | IBridgeIn "'w runtime" bridge_ctx "bridge_config account" "consumed_message option" "(pubkey \<times> u8 list) option" bridge_proof u64 pubkey bytes32
  | IBorrow "'w runtime" cdp_borrow_ctx u64
  | IBurn "'w runtime" mint_ctx u64
  | ICpiBurn "'w runtime" mint_ctx "interface_version account" u64 u8
  | IMmBurn "'w runtime" mm_ctx "market_maker_config account" u64
  | IBridgeOut "'w runtime" bridge_ctx "bridge_config account" u64
  | IRedeem "'w runtime" redeem_ctx u64
  | ISwap "'w runtime" redeem_ctx "psm_curve_config account" u64
  | IRepay "'w runtime" cdp_repay_ctx u64
  | ICollectFee "'w runtime" collect_fee_ctx
  | ILiquidate "'w runtime" liquidate_ctx u64 u64
  | ILiquidateV2 "'w runtime" liquidate_ctx "collateral_config account" u64 u64
  | ISettleQueue "'w runtime" process_ctx u64
  | IFulfill "'w runtime" guarantee_ctx "redemption_request account"
  | IRedeemPool "'w runtime" pool_ctx "redemption_pool account" u64
  | IHolderBurn "'w runtime" pubkey pubkey u64
  | IElsewhere "stablecoin_config \<Rightarrow> stablecoin_config" "'w \<Rightarrow> 'w"

abbreviation put_issue :: "stablecoin_config \<Rightarrow> 'w \<Rightarrow> 'w issue_world" where
  "put_issue c w \<equiv> \<lparr>isw_config = c, isw_ledger = w\<rparr>"

text \<open>
  One transaction: the instruction runs on the configuration as it stands. Besides the program's instructions a holder may burn
  its own tokens with the token program, and everything else may change what this part does not look at.
\<close>

fun issue_exec :: "'w issue_event \<Rightarrow> 'w issue_world \<Rightarrow> 'w issue_world res" where
  "issue_exec (IMint rt ctx n) s =
     andthen (mint_handler rt (isw_ledger s) (ctx\<lparr>mt_config := set_data (mt_config ctx) (isw_config s)\<rparr>) n) (\<lambda>(c, mi, w). Inr (put_issue c w))"
| "issue_exec (ICpiMint rt ctx iv n v) s =
     andthen (cpi_mint_handler rt (isw_ledger s) (ctx\<lparr>mt_config := set_data (mt_config ctx) (isw_config s)\<rparr>) iv n v) (\<lambda>(c, mi, w). Inr (put_issue c w))"
| "issue_exec (IMmMint rt ctx ma n) s = andthen (mm_mint_handler rt (isw_ledger s) (mm_at ctx (isw_config s)) ma n) (\<lambda>(c, m, w). Inr (put_issue c w))"
| "issue_exec (IBridgeIn rt ctx ba consumed sanctions pf n who mid) s =
     andthen (bridge_in_handler rt (isw_ledger s) (bridge_at ctx (isw_config s)) ba consumed sanctions pf n who mid)
       (\<lambda>(c, b, m, w). Inr (put_issue c w))"
| "issue_exec (IBorrow rt ctx n) s =
     andthen (cdp_borrow_stable_handler rt (isw_ledger s) (ctx\<lparr>cb_config := set_data (cb_config ctx) (isw_config s)\<rparr>) n) (\<lambda>(c, p, w). Inr (put_issue c w))"
| "issue_exec (IBurn rt ctx n) s =
     andthen (burn_handler rt (isw_ledger s) (ctx\<lparr>mt_config := set_data (mt_config ctx) (isw_config s)\<rparr>) n) (\<lambda>(c, w). Inr (put_issue c w))"
| "issue_exec (ICpiBurn rt ctx iv n v) s =
     andthen (cpi_burn_handler rt (isw_ledger s) (ctx\<lparr>mt_config := set_data (mt_config ctx) (isw_config s)\<rparr>) iv n v) (\<lambda>(c, w). Inr (put_issue c w))"
| "issue_exec (IMmBurn rt ctx ma n) s = andthen (mm_burn_handler rt (isw_ledger s) (mm_at ctx (isw_config s)) ma n) (\<lambda>(c, m, w). Inr (put_issue c w))"
| "issue_exec (IBridgeOut rt ctx ba n) s =
     andthen (bridge_out_handler rt (isw_ledger s) (bridge_at ctx (isw_config s)) ba n) (\<lambda>(c, b, w). Inr (put_issue c w))"
| "issue_exec (IRedeem rt ctx n) s =
     andthen (redeem_handler rt (isw_ledger s) (ctx\<lparr>rd_config := set_data (rd_config ctx) (isw_config s)\<rparr>) n) (\<lambda>(c, w). Inr (put_issue c w))"
| "issue_exec (ISwap rt ctx curve n) s =
     andthen (psm_dynamic_swap_handler rt (isw_ledger s) (ctx\<lparr>rd_config := set_data (rd_config ctx) (isw_config s)\<rparr>) curve n)
       (\<lambda>(c, w). Inr (put_issue c w))"
| "issue_exec (IRepay rt ctx n) s =
     andthen (cdp_repay_stable_handler rt (isw_ledger s) (ctx\<lparr>cr_config := set_data (cr_config ctx) (isw_config s)\<rparr>) n)
       (\<lambda>(c, p, v, cc, w). Inr (put_issue c w))"
| "issue_exec (ICollectFee rt ctx) s =
     andthen (collect_stability_fee_handler rt (isw_ledger s) (ctx\<lparr>cf_config := set_data (cf_config ctx) (isw_config s)\<rparr>))
       (\<lambda>(c, p, w). Inr (put_issue c w))"
| "issue_exec (ILiquidate rt ctx a b) s =
     andthen (cdp_liquidate_handler rt (isw_ledger s) (ctx\<lparr>lq_config := set_data (lq_config ctx) (isw_config s)\<rparr>) a b)
       (\<lambda>(c, p, v, cc, w). Inr (put_issue c w))"
| "issue_exec (ILiquidateV2 rt ctx cca a b) s =
     andthen (cdp_liquidate_v2_handler rt (isw_ledger s) (ctx\<lparr>lq_config := set_data (lq_config ctx) (isw_config s)\<rparr>) cca a b)
       (\<lambda>(c, p, v, cc, w). Inr (put_issue c w))"
| "issue_exec (ISettleQueue rt ctx i) s =
     andthen (process_redemption_handler rt (isw_ledger s) (ctx\<lparr>pr_config := set_data (pr_config ctx) (isw_config s)\<rparr>) i)
       (\<lambda>(c, q, e, pay, w). Inr (put_issue c w))"
| "issue_exec (IFulfill rt ctx ra) s =
     andthen (fulfill_redemption_handler rt (isw_ledger s) (ctx\<lparr>gtx_config := set_data (gtx_config ctx) (isw_config s)\<rparr>) ra)
       (\<lambda>(c, r, w). Inr (put_issue c w))"
| "issue_exec (IRedeemPool rt ctx pa n) s =
     andthen (instant_redemption_handler rt (isw_ledger s) (ctx\<lparr>plx_config := set_data (plx_config ctx) (isw_config s)\<rparr>) pa n)
       (\<lambda>(p, w). Inr (put_issue (isw_config s) w))"
| "issue_exec (IHolderBurn rt who acct n) s =
     andthen (cpi rt (isw_ledger s) [who] (Burn (c_mint (isw_config s)) acct who n)) (\<lambda>w. Inr (put_issue (isw_config s) w))"
| "issue_exec (IElsewhere f g) s = Inr (put_issue (f (isw_config s)) (g (isw_ledger s)))"

section \<open>What one instruction books\<close>

text \<open>The token program burns from an account of the mint that is named, and from no other.\<close>

locale token_kinds = token_ledger rt for rt :: "'w runtime" +
  assumes burn_kind: "rt_invoke rt w sgs (Burn m k auth n) = Inr w' \<Longrightarrow> \<exists>ta. rt_token rt w k = Some ta \<and> ta_mint ta = m"

interpretation ref_kinds: token_kinds "ref_runtime s e t"
  by unfold_locales (auto simp: ref_burn_def run_ok)

text \<open>\<open>a\<close> issued and \<open>b\<close> retired, in the books and on the ledger alike; mint and cap stay.\<close>

definition booked :: "('w \<Rightarrow> pubkey \<Rightarrow> nat) \<Rightarrow> stablecoin_config \<Rightarrow> 'w \<Rightarrow> stablecoin_config \<Rightarrow> 'w \<Rightarrow> nat \<Rightarrow> nat \<Rightarrow> bool" where
  "booked circ c w c' w' a b \<longleftrightarrow>
     c_mint c' = c_mint c \<and> c_max_supply c' = c_max_supply c \<and>
     unat (c_total_minted c') = unat (c_total_minted c) + a \<and> unat (c_total_burned c') = unat (c_total_burned c) + b \<and>
     circ w' (c_mint c) + b = circ w (c_mint c) + a"

lemma issued_booked:
  assumes "token_ledger rt" and "rt_invoke rt w sgs (MintTo (c_mint c) to auth n) = Inr w'"
    and "c' = c\<lparr>c_total_minted := c_total_minted c'\<rparr>" and "unat (c_total_minted c') = unat (c_total_minted c) + unat n"
  shows "booked (supply_of rt) c w c' w' (unat n) 0"
proof -
  obtain t where "c' = c\<lparr>c_total_minted := t\<rparr>" using assms(3) by blast
  then show ?thesis using token_ledger.mint_to_ok [OF assms(1,2)] assms(4) by (simp add: booked_def)
qed

text \<open>A burn, and after it at most movements that leave every supply alone.\<close>

lemma retired_booked:
  assumes "unat n \<le> supply_of rt w (c_mint c)" and "supply_of rt w' (c_mint c) = supply_of rt w (c_mint c) - unat n"
    and "c' = c\<lparr>c_total_burned := c_total_burned c', c_total_collateral := c_total_collateral c'\<rparr>"
    and "unat (c_total_burned c') = unat (c_total_burned c) + unat n"
  shows "booked (supply_of rt) c w c' w' 0 (unat n)"
proof -
  obtain t u where "c' = c\<lparr>c_total_burned := t, c_total_collateral := u\<rparr>" using assms(3) by blast
  then show ?thesis using assms(1,2,4) by (simp add: booked_def)
qed

lemma only_burned: "c' = c\<lparr>c_total_burned := c_total_burned c'\<rparr> \<Longrightarrow>
    c' = c\<lparr>c_total_burned := c_total_burned c', c_total_collateral := c_total_collateral c'\<rparr>"
  by (cases c; cases c') simp

lemma mint_booked:
  assumes "token_ledger rt" and "mint_handler rt w ctx n = Inr (c', mi', w')"
  shows "booked (supply_of rt) (data_of (mt_config ctx)) w c' w' (unat n) 0"
proof -
  note body = mint_body_ok [OF mint_handler_body(1) [OF assms(2)]] and tie = mint_handler_body(2) [OF assms(2)]
  from body(7) obtain k where "rt_invoke rt w (k # [mt_minter ctx]) (MintTo (mt_mint ctx) (mt_token_account ctx) (key_of (mt_config ctx)) n) = Inr w'"
    by blast
  from issued_booked [OF assms(1) this [unfolded tie] body(8,9)] show ?thesis .
qed

lemma cpi_mint_booked:
  assumes "token_ledger rt" and "cpi_mint_handler rt w ctx iv n v = Inr (c', mi', w')"
  shows "booked (supply_of rt) (data_of (mt_config ctx)) w c' w' (unat n) 0"
proof -
  have run: "mint_body rt w [mt_minter ctx] (mt_config ctx) (mt_mint ctx) (data_of (mt_minter_info ctx))
      (mt_token_account ctx) (mt_remaining ctx) n = Inr (c', mi', w')" and tie: "mt_mint ctx = c_mint (data_of (mt_config ctx))"
    using assms(2) by (auto simp: cpi_mint_handler_def guarded_Inr run_ok Let_def)
  from mint_body_ok(7) [OF run] obtain k where
    "rt_invoke rt w (k # [mt_minter ctx]) (MintTo (mt_mint ctx) (mt_token_account ctx) (key_of (mt_config ctx)) n) = Inr w'" by blast
  from issued_booked [OF assms(1) this [unfolded tie] mint_body_ok(8,9) [OF run]] show ?thesis .
qed

lemma burn_body_booked:
  assumes "token_ledger rt" and "burn_body rt w minter c (c_mint c) source n = Inr (c', w')"
  shows "booked (supply_of rt) c w c' w' 0 (unat n)"
  using token_ledger.burn_ok [OF assms(1) burn_body_ok(4) [OF assms(2)]] burn_body_ok(6) [OF assms(2)]
  by (intro retired_booked only_burned [OF burn_body_ok(5) [OF assms(2)]]) simp_all

lemma burn_booked:
  assumes "token_ledger rt"
  shows "burn_handler rt w ctx n = Inr (c', w') \<Longrightarrow> booked (supply_of rt) (data_of (mt_config ctx)) w c' w' 0 (unat n)"
    and "cpi_burn_handler rt w ctx iv n v = Inr (c', w') \<Longrightarrow> booked (supply_of rt) (data_of (mt_config ctx)) w c' w' 0 (unat n)"
  using burn_body_booked [OF assms]
  by (auto simp: burn_handler_def cpi_burn_handler_def guarded_Inr run_ok Let_def)

lemma mm_mint_booked:
  assumes "token_ledger rt" and "mm_mint_handler rt w ctx ma n = Inr (c', m', w')"
  shows "booked (supply_of rt) (data_of (mmx_config ctx)) w c' w' (unat n) 0"
proof -
  have tie: "mmx_mint ctx = c_mint (data_of (mmx_config ctx))"
    using assms(2) by (auto simp: mm_mint_handler_def mm_accounts_def guarded_Inr run_ok Let_def)
  note o = mm_mint_ok [OF assms(2)]
  from o(9) obtain k where "rt_invoke rt w [k, mmx_market_maker ctx] (MintTo (mmx_mint ctx) (mmx_token_account ctx) (key_of (mmx_config ctx)) n) = Inr w'"
    by blast
  from issued_booked [OF assms(1) this [unfolded tie] o(10,8)] show ?thesis .
qed

lemma mm_burn_booked:
  assumes "token_ledger rt" and "mm_burn_handler rt w ctx ma n = Inr (c', m', w')"
  shows "booked (supply_of rt) (data_of (mmx_config ctx)) w c' w' 0 (unat n)"
proof -
  have tie: "mmx_mint ctx = c_mint (data_of (mmx_config ctx))"
    using assms(2) by (auto simp: mm_burn_handler_def mm_accounts_def guarded_Inr run_ok Let_def)
  note o = mm_burn_ok [OF assms(2)]
  from token_ledger.burn_ok [OF assms(1) o(6)] o(5) tie show ?thesis
    by (intro retired_booked only_burned [OF o(7)]) simp_all
qed

lemma bridge_in_booked:
  assumes "token_ledger rt" and "bridge_in_handler rt w ctx ba consumed sanctions pf n who mid = Inr (c', b', m, w')"
  shows "booked (supply_of rt) (data_of (bgx_config ctx)) w c' w' (unat n) 0"
proof -
  have tie: "bgx_mint ctx = c_mint (data_of (bgx_config ctx))"
    using assms(2) by (auto simp: bridge_in_handler_def bridge_ok_def guarded_Inr run_ok Let_def)
  note o = bridge_in_ok [OF assms(2)]
  from o(13) obtain k where "rt_invoke rt w [k, bgx_signer ctx] (MintTo (bgx_mint ctx) (bgx_user_account ctx) (key_of (bgx_config ctx)) n) = Inr w'" by blast
  from issued_booked [OF assms(1) this [unfolded tie] o(9,8)] show ?thesis .
qed

lemma bridge_out_booked:
  assumes "token_ledger rt" and "bridge_out_handler rt w ctx ba n = Inr (c', b', w')"
  shows "\<exists>b. booked (supply_of rt) (data_of (bgx_config ctx)) w c' w' 0 b"
proof -
  have tie: "bgx_mint ctx = c_mint (data_of (bgx_config ctx))"
    using assms(2) by (auto simp: bridge_out_handler_def bridge_ok_def guarded_Inr run_ok Let_def)
  obtain fee burnt w1 d where o: "if fee > 0 then rt_invoke rt w [bgx_signer ctx] (TransferChecked (bgx_user_account ctx) (bgx_mint ctx)
      (bgx_fee_vault ctx) (bgx_signer ctx) fee d) = Inr w1 else w1 = w"
    "rt_invoke rt w1 [bgx_signer ctx] (Burn (bgx_mint ctx) (bgx_user_account ctx) (bgx_signer ctx) burnt) = Inr w'"
    "unat (c_total_burned c') = unat (c_total_burned (data_of (bgx_config ctx))) + unat burnt"
    "c' = (data_of (bgx_config ctx))\<lparr>c_total_burned := c_total_burned c'\<rparr>"
    using assms(2) by (rule bridge_out_ok)
  have "supply_of rt w1 = supply_of rt w" using o(1) token_ledger.transfer_ok [OF assms(1)] by (auto split: if_splits)
  with token_ledger.burn_ok [OF assms(1) o(2)] o(3) tie have "booked (supply_of rt) (data_of (bgx_config ctx)) w c' w' 0 (unat burnt)"
    by (intro retired_booked only_burned [OF o(4)]) simp_all
  then show ?thesis ..
qed

lemma redeem_booked:
  assumes ledger: "token_ledger rt" and run: "redeem_handler rt w ctx n = Inr (c', w')"
  shows "booked (supply_of rt) (data_of (rd_config ctx)) w c' w' 0 (unat n)"
proof -
  have tie: "rd_sss_mint ctx = c_mint (data_of (rd_config ctx))"
    using run by (auto simp: redeem_handler_def redeem_accounts_def guarded_Inr run_ok Let_def)
  from run show ?thesis
  proof (cases rule: redeem_ok)
    case (1 fee out d1 d2 w1 k sss vault dest)
    show ?thesis
      by (rule retired_booked [OF _ _ 1(5,6)])
        (use token_ledger.burn_checked_ok [OF ledger 1(3)] token_ledger.transfer_ok [OF ledger 1(4)] tie in simp_all)
  qed
qed

lemma swap_booked:
  assumes ledger: "token_ledger rt" and run: "psm_dynamic_swap_handler rt w ctx curve n = Inr (c', w')"
  shows "booked (supply_of rt) (data_of (rd_config ctx)) w c' w' 0 (unat n)"
proof -
  have tie: "rd_sss_mint ctx = c_mint (data_of (rd_config ctx))"
    using run by (auto simp: psm_dynamic_swap_handler_def psm_accounts_def guarded_Inr run_ok Let_def)
  from run show ?thesis
  proof (cases rule: swap_ok)
    case (1 vault out d1 d2 w1 k sss dest)
    show ?thesis
      by (rule retired_booked [OF _ _ 1(8,9)])
        (use token_ledger.burn_checked_ok [OF ledger 1(6)] token_ledger.transfer_ok [OF ledger 1(7)] tie in simp_all)
  qed
qed

lemma borrow_booked:
  assumes "token_ledger rt" and "cdp_borrow_stable_handler rt w ctx n = Inr (c', p', w')"
  shows "booked (supply_of rt) (data_of (cb_config ctx)) w c' w' (unat n) 0"
  using assms(2)
proof (cases rule: borrow_ok)
  case (1 smint cmint price worth limit p1)
  from 1(12) obtain k where "rt_invoke rt w (k # [cb_user ctx]) (MintTo (cb_sss_mint ctx) (cb_user_sss ctx) (key_of (cb_config ctx)) n) = Inr w'" by blast
  from issued_booked [OF assms(1) this [unfolded 1(13)] 1(10,11)] show ?thesis .
qed

lemma repay_booked:
  assumes ledger: "token_ledger rt" and run: "cdp_repay_stable_handler rt w ctx n = Inr (c', p', v', cc', w')"
  shows "\<exists>b. booked (supply_of rt) (data_of (cr_config ctx)) w c' w' 0 b"
  using run
proof (cases rule: repay_ok)
  case (1 released burn w1 d)
  have "supply_of rt w' = supply_of rt w1" using 1(6) token_ledger.transfer_ok [OF ledger] by (auto split: if_splits)
  with token_ledger.burn_checked_ok [OF ledger 1(5)] 1(12) have "booked (supply_of rt) (data_of (cr_config ctx)) w c' w' 0 (unat burn)"
    by (intro retired_booked only_burned [OF 1(10)] 1(11)) simp_all
  then show ?thesis ..
qed

lemma collect_booked:
  assumes ledger: "token_ledger rt" and run: "collect_stability_fee_handler rt w ctx = Inr (c', p', w')"
  shows "\<exists>b. booked (supply_of rt) (data_of (cf_config ctx)) w c' w' 0 b"
  using collect_handler_ok(1) [OF run]
proof (cases rule: collect_fee_ok)
  case nothing
  then have "booked (supply_of rt) (data_of (cf_config ctx)) w c' w' 0 0" by (simp add: booked_def)
  then show ?thesis ..
next
  case (fee total f k)
  have "booked (supply_of rt) (data_of (cf_config ctx)) w c' w' 0 (unat total)"
    by (rule retired_booked [OF _ _ only_burned [OF fee(7)] fee(8)])
      (use token_ledger.burn_ok [OF ledger fee(6)] collect_handler_ok(2) [OF run] in simp_all)
  then show ?thesis ..
qed

lemma settle_liquidation_supply:
  assumes "token_ledger rt" and "settle_liquidation rt w ctx sdec cdec burn seize = Inr w'"
  shows "unat burn \<le> supply_of rt w (lq_sss_mint ctx)" and "supply_of rt w' (lq_sss_mint ctx) = supply_of rt w (lq_sss_mint ctx) - unat burn"
  using settle_ok [OF assms] by simp_all

lemma liquidate_booked:
  assumes ledger: "token_ledger rt"
  shows "cdp_liquidate_handler rt w ctx a b = Inr (c', p', v', cc', w') \<Longrightarrow> \<exists>b. booked (supply_of rt) (data_of (lq_config ctx)) w c' w' 0 b"
    and "cdp_liquidate_v2_handler rt w ctx cca a b = Inr (c', p', v', cc2, w') \<Longrightarrow> \<exists>b. booked (supply_of rt) (data_of (lq_config ctx)) w c' w' 0 b"
proof -
  assume "cdp_liquidate_handler rt w ctx a b = Inr (c', p', v', cc', w')"
  then show "\<exists>b. booked (supply_of rt) (data_of (lq_config ctx)) w c' w' 0 b"
  proof (cases rule: liquidate_ok)
    case (1 smint cmint price effective worth owed ratio burn seize)
    have "booked (supply_of rt) (data_of (lq_config ctx)) w c' w' 0 (unat burn)"
      by (rule retired_booked [OF _ _ only_burned [OF 1(14)] 1(15)]) (use settle_liquidation_supply [OF ledger 1(10)] 1(16) in simp_all)
    then show ?thesis ..
  qed
next
  assume "cdp_liquidate_v2_handler rt w ctx cca a b = Inr (c', p', v', cc2, w')"
  then show "\<exists>b. booked (supply_of rt) (data_of (lq_config ctx)) w c' w' 0 b"
  proof (cases rule: v2_ok)
    case (1 smint cmint price owing worth owed ratio repaid raw seize)
    have "booked (supply_of rt) (data_of (lq_config ctx)) w c' w' 0 (unat repaid)"
      by (rule retired_booked [OF _ _ only_burned [OF 1(16)] 1(17)]) (use settle_liquidation_supply [OF ledger 1(13)] 1(18) in simp_all)
    then show ?thesis ..
  qed
qed

lemma queue_booked:
  assumes ledger: "token_ledger rt" and run: "process_redemption_handler rt w ctx i = Inr (c', q', e', pay, w')"
    and own: "pr_stable_mint ctx = c_mint (data_of (pr_config ctx))"
  shows "\<exists>b. booked (supply_of rt) (data_of (pr_config ctx)) w c' w' 0 b"
  using run
proof (cases rule: process_ok)
  case (1 smint q1 w1 k d)
  have "booked (supply_of rt) (data_of (pr_config ctx)) w c' w' 0 (unat (re_amount (data_of (pr_entry ctx))))"
    by (rule retired_booked [OF _ _ 1(11,12)])
      (use token_ledger.burn_ok [OF ledger 1(3)] token_ledger.transfer_ok [OF ledger 1(4)] own in simp_all)
  then show ?thesis ..
qed

lemma fulfill_booked:
  assumes kinds: "token_kinds rt" and run: "fulfill_redemption_handler rt w ctx ra = Inr (c', r', w')"
  shows "\<exists>b. booked (supply_of rt) (data_of (gtx_config ctx)) w c' w' 0 b"
proof -
  have ledger: "token_ledger rt" using kinds by (rule token_kinds.axioms)
  note o = fulfill_ok [OF run]
  obtain k w1 d where b: "rt_invoke rt w [k, gtx_signer ctx] (Burn (gtx_stable_mint ctx) (gtx_escrow ctx)
      (key_of (gtx_guarantee ctx)) (rrq_amount (data_of ra))) = Inr w1"
    and t: "rt_invoke rt w1 [gtx_signer ctx] (TransferChecked (gtx_source ctx) (gtx_payout_mint ctx) (gtx_user_collateral ctx) (gtx_signer ctx)
      (rrq_amount (data_of ra)) d) = Inr w'" using o(8) by blast
  have "\<exists>ta. rt_token rt w (gtx_escrow ctx) = Some ta \<and> ta_mint ta = c_mint (data_of (gtx_config ctx))"
    using run by (auto simp: fulfill_redemption_handler_def guarantee_accounts_def guarded_Inr run_ok Let_def)
  with token_kinds.burn_kind [OF kinds b] have tie: "gtx_stable_mint ctx = c_mint (data_of (gtx_config ctx))" by auto
  have "booked (supply_of rt) (data_of (gtx_config ctx)) w c' w' 0 (unat (rrq_amount (data_of ra)))"
    by (rule retired_booked [OF _ _ only_burned [OF o(6)] o(5)]) (use token_ledger.burn_ok [OF ledger b] token_ledger.transfer_ok [OF ledger t] tie in simp_all)
  then show ?thesis ..
qed

lemma pool_unbooked:
  assumes ledger: "token_ledger rt" and run: "instant_redemption_handler rt w ctx pa n = Inr (p', w')"
  defines "m \<equiv> c_mint (data_of (plx_config ctx))"
  shows "supply_of rt w' m + unat n = supply_of rt w m"
proof -
  note o = instant_ok [OF run]
  obtain w1 k a d pay where "rt_invoke rt w [plx_signer ctx] (Burn (plx_sss_mint ctx) (plx_user_token ctx) (plx_signer ctx) n) = Inr w1"
    "rt_invoke rt w1 [k, plx_signer ctx] (TransferChecked (plx_reserve_vault ctx) (plx_collateral_mint ctx) (plx_user_reserve ctx) a pay d) = Inr w'"
    using o(12) by blast
  from token_ledger.burn_ok [OF ledger this(1)] token_ledger.transfer_ok [OF ledger this(2)] o(8) show ?thesis by (simp add: m_def)
qed

section \<open>The books over time\<close>

text \<open>The transactions run on one token program: its laws hold, and supplies are read the same way in all of them.\<close>

definition runs_on :: "('w \<Rightarrow> pubkey \<Rightarrow> nat) \<Rightarrow> 'w runtime \<Rightarrow> bool" where
  "runs_on circ rt \<longleftrightarrow> token_kinds rt \<and> supply_of rt = circ"

fun issue_ok :: "('w \<Rightarrow> pubkey \<Rightarrow> nat) \<Rightarrow> pubkey \<Rightarrow> 'w issue_event \<Rightarrow> bool" where
  "issue_ok circ m (IMint rt ctx n) \<longleftrightarrow> runs_on circ rt"
| "issue_ok circ m (ICpiMint rt ctx iv n v) \<longleftrightarrow> runs_on circ rt"
| "issue_ok circ m (IMmMint rt ctx ma n) \<longleftrightarrow> runs_on circ rt"
| "issue_ok circ m (IBridgeIn rt ctx ba consumed sanctions pf n who mid) \<longleftrightarrow> runs_on circ rt"
| "issue_ok circ m (IBorrow rt ctx n) \<longleftrightarrow> runs_on circ rt"
| "issue_ok circ m (IBurn rt ctx n) \<longleftrightarrow> runs_on circ rt"
| "issue_ok circ m (ICpiBurn rt ctx iv n v) \<longleftrightarrow> runs_on circ rt"
| "issue_ok circ m (IMmBurn rt ctx ma n) \<longleftrightarrow> runs_on circ rt"
| "issue_ok circ m (IBridgeOut rt ctx ba n) \<longleftrightarrow> runs_on circ rt"
| "issue_ok circ m (IRedeem rt ctx n) \<longleftrightarrow> runs_on circ rt"
| "issue_ok circ m (ISwap rt ctx curve n) \<longleftrightarrow> runs_on circ rt"
| "issue_ok circ m (IRepay rt ctx n) \<longleftrightarrow> runs_on circ rt"
| "issue_ok circ m (ICollectFee rt ctx) \<longleftrightarrow> runs_on circ rt"
| "issue_ok circ m (ILiquidate rt ctx a b) \<longleftrightarrow> runs_on circ rt"
| "issue_ok circ m (ILiquidateV2 rt ctx cca a b) \<longleftrightarrow> runs_on circ rt"
| "issue_ok circ m (ISettleQueue rt ctx i) \<longleftrightarrow> runs_on circ rt \<and> pr_stable_mint ctx = m"
| "issue_ok circ m (IFulfill rt ctx ra) \<longleftrightarrow> runs_on circ rt"
| "issue_ok circ m (IRedeemPool rt ctx pa n) \<longleftrightarrow> runs_on circ rt"
| "issue_ok circ m (IHolderBurn rt who acct n) \<longleftrightarrow> runs_on circ rt"
| "issue_ok circ m (IElsewhere f g) \<longleftrightarrow>
     (\<forall>c. c_mint (f c) = c_mint c \<and> c_max_supply (f c) = c_max_supply c \<and> c_total_minted (f c) = c_total_minted c \<and>
        c_total_burned (f c) = c_total_burned c) \<and> (\<forall>w. circ (g w) m = circ w m)"

text \<open>What leaves circulation past the books: redemptions from the pool and what holders burn themselves.\<close>

fun unbooked :: "'w issue_event \<Rightarrow> nat" where
  "unbooked (IRedeemPool rt ctx pa n) = unat n"
| "unbooked (IHolderBurn rt who acct n) = unat n"
| "unbooked _ = 0"

fun issuing :: "'w issue_event \<Rightarrow> bool" where
  "issuing (IMint rt ctx n) = True"
| "issuing (ICpiMint rt ctx iv n v) = True"
| "issuing (IMmMint rt ctx ma n) = True"
| "issuing (IBridgeIn rt ctx ba consumed sanctions pf n who mid) = True"
| "issuing (IBorrow rt ctx n) = True"
| "issuing _ = False"

definition issue_step :: "('w \<Rightarrow> pubkey \<Rightarrow> nat) \<Rightarrow> 'w issue_event \<Rightarrow> 'w issue_world \<Rightarrow> 'w issue_world \<Rightarrow> bool" where
  "issue_step circ e s s' \<longleftrightarrow>
     (unbooked e = 0 \<and> (\<exists>a b. (issuing e \<or> a = 0) \<and> booked circ (isw_config s) (isw_ledger s) (isw_config s') (isw_ledger s') a b)) \<or>
     (isw_config s' = isw_config s \<and>
        circ (isw_ledger s') (c_mint (isw_config s)) + unbooked e = circ (isw_ledger s) (c_mint (isw_config s)))"

lemma issued_step: "booked circ (isw_config s) (isw_ledger s) c w a b \<Longrightarrow> unbooked e = 0 \<Longrightarrow> issuing e \<Longrightarrow> issue_step circ e s (put_issue c w)"
  by (auto simp: issue_step_def)

lemma retired_step: "\<exists>b. booked circ (isw_config s) (isw_ledger s) c w 0 b \<Longrightarrow> unbooked e = 0 \<Longrightarrow> issue_step circ e s (put_issue c w)"
  by (auto simp: issue_step_def)

lemma runs_on_ledger: "runs_on circ rt \<Longrightarrow> token_ledger rt \<and> supply_of rt = circ"
  by (auto simp: runs_on_def dest: token_kinds.axioms)

lemmas issued = mint_booked cpi_mint_booked mm_mint_booked bridge_in_booked borrow_booked
lemmas retired =
  burn_booked [rotated] mm_burn_booked [rotated] redeem_booked [rotated] swap_booked [rotated] bridge_out_booked [rotated] repay_booked [rotated] collect_booked [rotated] liquidate_booked [rotated] queue_booked [rotated]

lemma issue_exec_step:
  assumes "issue_exec e s = Inr s'" and "issue_ok circ m e" and "c_mint (isw_config s) = m"
  shows "issue_step circ e s s'"
  using assms
  apply (cases e)
                     apply (auto simp: run_ok mm_at_def bridge_at_def dest!: runs_on_ledger intro!: issued_step dest: issued) [5]
                apply (auto simp: run_ok mm_at_def bridge_at_def dest!: runs_on_ledger retired intro!: retired_step) [11]
     apply (auto simp: run_ok runs_on_def intro!: retired_step dest!: fulfill_booked [rotated]) [1]
    apply (auto simp: run_ok issue_step_def dest!: runs_on_ledger dest: pool_unbooked token_ledger.burn_ok) [2]
  apply (auto simp: issue_step_def booked_def intro!: exI [of _ 0])
  done

text \<open>A level that transactions change only by what they leak.\<close>

locale leaking = preserved exec ok inv
  for exec :: "'e \<Rightarrow> 's \<Rightarrow> 'x + 's" and ok and inv +
  fixes level :: "'s \<Rightarrow> int"
    and leak :: "'e \<Rightarrow> nat"
  assumes exec_leak: "inv s \<Longrightarrow> ok e \<Longrightarrow> exec e s = Inr s' \<Longrightarrow> level s' = level s + int (leak e)"
begin

lemma play_leak: "inv s \<Longrightarrow> \<forall>e \<in> set es. ok e \<Longrightarrow> level (play exec es s) = level s + int (tally exec leak es s)"
proof (induction es arbitrary: s)
  case (Cons e es)
  show ?case
  proof (cases "exec e s")
    case (Inr s')
    have ok: "ok e" and rest: "\<forall>e \<in> set es. ok e" using Cons.prems(2) by auto
    from Cons.IH [OF exec_inv [OF Cons.prems(1) ok Inr] rest] exec_leak [OF Cons.prems(1) ok Inr] Inr show ?thesis by simp
  qed (use Cons in simp)
qed simp

end

definition book_gap :: "('w \<Rightarrow> pubkey \<Rightarrow> nat) \<Rightarrow> pubkey \<Rightarrow> 'w issue_world \<Rightarrow> int" where
  "book_gap circ m s = int (unat (c_total_minted (isw_config s))) - int (unat (c_total_burned (isw_config s))) - int (circ (isw_ledger s) m)"

interpretation books: leaking issue_exec "issue_ok circ m" "\<lambda>s. c_mint (isw_config s) = m" "book_gap circ m" unbooked for circ m
proof unfold_locales
  fix s s' and e :: "'a issue_event"
  assume m: "c_mint (isw_config s) = m" and ok: "issue_ok circ m e" and run: "issue_exec e s = Inr s'"
  note step = issue_exec_step [OF run ok m]
  then show "c_mint (isw_config s') = m" using m by (auto simp: issue_step_def booked_def)
  from step show "book_gap circ m s' = book_gap circ m s + int (unbooked e)"
    using m by (auto simp: issue_step_def booked_def book_gap_def simp del: of_nat_unat)
qed


section \<open>The cap over time\<close>

fun checks_cap :: "'w issue_event \<Rightarrow> bool" where
  "checks_cap (IBorrow rt ctx n) = False"
| "checks_cap _ = True"

definition room_for :: "stablecoin_config \<Rightarrow> nat \<Rightarrow> bool" where
  "room_for c n \<longleftrightarrow> unat (c_max_supply c) = 0 \<or> unat (net_supply c) + n \<le> unat (c_max_supply c)"

lemma mint_room:
  assumes "mint_handler rt w ctx n = Inr (c', mi', w')" and "token_ledger rt"
  shows "\<exists>k. room_for (data_of (mt_config ctx)) k \<and> booked (supply_of rt) (data_of (mt_config ctx)) w c' w' k 0"
proof -
  have "room_for (data_of (mt_config ctx)) (unat n)" using mint_body_ok(6) [OF mint_handler_body(1) [OF assms(1)]] by (simp add: room_for_def)
  with mint_booked [OF assms(2,1)] show ?thesis by blast
qed

lemma cpi_mint_room:
  assumes "cpi_mint_handler rt w ctx iv n v = Inr (c', mi', w')" and "token_ledger rt"
  shows "\<exists>k. room_for (data_of (mt_config ctx)) k \<and> booked (supply_of rt) (data_of (mt_config ctx)) w c' w' k 0"
proof -
  have "room_for (data_of (mt_config ctx)) (unat n)"
    using assms(1) by (auto simp: cpi_mint_handler_def guarded_Inr run_ok Let_def room_for_def dest!: mint_body_ok(6))
  with cpi_mint_booked [OF assms(2,1)] show ?thesis by blast
qed

lemma mm_mint_room:
  assumes "mm_mint_handler rt w ctx ma n = Inr (c', m', w')" and "token_ledger rt" and "c_max_supply (data_of (mmx_config ctx)) \<noteq> u64_max"
  shows "\<exists>k. room_for (data_of (mmx_config ctx)) k \<and> booked (supply_of rt) (data_of (mmx_config ctx)) w c' w' k 0"
proof -
  have "room_for (data_of (mmx_config ctx)) (unat n)"
    using mm_supply_nat [OF mm_mint_ok(7) [OF assms(1)] _ assms(3)] by (auto simp: room_for_def)
  with mm_mint_booked [OF assms(2,1)] show ?thesis by blast
qed

lemma bridge_in_room:
  assumes "bridge_in_handler rt w ctx ba consumed sanctions pf n who mid = Inr (c', b', m, w')" and "token_ledger rt"
  shows "\<exists>k. room_for (data_of (bgx_config ctx)) k \<and> booked (supply_of rt) (data_of (bgx_config ctx)) w c' w' k 0"
proof -
  have "room_for (data_of (bgx_config ctx)) (unat n)" using bridge_in_ok(7) [OF assms(1)] by (auto simp: room_for_def)
  with bridge_in_booked [OF assms(2,1)] show ?thesis by blast
qed

lemma issue_has_room:
  assumes "issue_exec e s = Inr s'" and "issue_ok circ m e" and "issuing e" and "checks_cap e" and "c_max_supply (isw_config s) \<noteq> u64_max"
  shows "\<exists>n. room_for (isw_config s) n \<and> booked circ (isw_config s) (isw_ledger s) (isw_config s') (isw_ledger s') n 0"
  using assms
  by (cases e) (auto simp: run_ok mm_at_def bridge_at_def dest!: runs_on_ledger mint_room cpi_mint_room mm_mint_room bridge_in_room)

definition capped :: "pubkey \<Rightarrow> u64 \<Rightarrow> 'w issue_world \<Rightarrow> bool" where
  "capped m cap s \<longleftrightarrow> c_mint (isw_config s) = m \<and> c_max_supply (isw_config s) = cap \<and> 0 < unat cap \<and> unat (net_supply (isw_config s)) \<le> unat cap"

lemma booked_net: "booked circ c w c' w' a b \<Longrightarrow> unat (net_supply c') \<le> unat (net_supply c) + a"
  by (simp add: booked_def unat_net_supply)

lemma capped_step:
  assumes cap: "capped m cap s" and ok: "issue_ok circ m e" "checks_cap e" and run: "issue_exec e s = Inr s'"
  shows "capped m cap s'"
proof -
  have m: "c_mint (isw_config s) = m" using cap by (simp add: capped_def)
  note step = issue_exec_step [OF run ok(1) m]
  have same: "c_mint (isw_config s') = m" "c_max_supply (isw_config s') = cap"
    using step cap by (auto simp: issue_step_def booked_def capped_def)
  have "unat (net_supply (isw_config s')) \<le> unat cap"
  proof (cases "issuing e \<and> cap \<noteq> u64_max")
    case True
    with issue_has_room [OF run ok(1) _ ok(2)] cap obtain n where
      "room_for (isw_config s) n" "booked circ (isw_config s) (isw_ledger s) (isw_config s') (isw_ledger s') n 0" by (auto simp: capped_def)
    with booked_net [OF this(2)] cap show ?thesis by (auto simp: room_for_def capped_def)
  next
    case False
    have "unat (net_supply (isw_config s')) \<le> unat (u64_max :: u64)" using u64_bound [of "net_supply (isw_config s')"] by (simp add: u64_max_def)
    moreover have "unat (net_supply (isw_config s')) \<le> unat (net_supply (isw_config s))" if "\<not> issuing e"
      using step that by (auto simp: issue_step_def dest!: booked_net)
    ultimately show ?thesis using False cap by (auto simp: capped_def)
  qed
  with same cap show ?thesis by (simp add: capped_def)
qed

interpretation cap_kept: preserved issue_exec "\<lambda>e. issue_ok circ m e \<and> checks_cap e" "capped m cap" for circ m cap
  by unfold_locales (blast intro: capped_step)


text \<open>why the queue has to settle in tokens of the stablecoin: nothing in the instruction says so, and a settlement in any other mint
  books a burn of stablecoins that are all still there, next to the collateral that it pays out.\<close>

theorem foreign_settlement_books_phantom_burn:
  assumes ledger: "token_ledger rt" and run: "process_redemption_handler rt w ctx i = Inr (c', q', e', pay, w')"
    and foreign: "pr_stable_mint ctx \<noteq> c_mint (data_of (pr_config ctx))"
  shows "supply_of rt w' (c_mint (data_of (pr_config ctx))) = supply_of rt w (c_mint (data_of (pr_config ctx))) \<and>
    unat (c_total_burned c') = unat (c_total_burned (data_of (pr_config ctx))) + unat (re_amount (data_of (pr_entry ctx)))"
  using run
proof (cases rule: process_ok)
  case (1 smint q1 w1 k d)
  then show ?thesis
    using token_ledger.burn_ok [OF ledger 1(3)] token_ledger.transfer_ok [OF ledger 1(4)] foreign by simp
qed

section \<open>Examples\<close>

text \<open>A minter mints 80 and the holder of account 20 burns 50 of its own.\<close>

definition demo_issue :: "ref_ledger issue_world" where
  "demo_issue = put_issue demo_config demo_ledger"

definition demo_issue_events :: "ref_ledger issue_event list" where
  "demo_issue_events = [IMint (ref_runtime 10 3 0) (demo_mint_ctx demo_config demo_minter) 80, IHolderBurn (ref_runtime 10 3 0) 9 20 50]"

lemma demo_issue_ok:
  "\<forall>e \<in> set demo_issue_events. issue_ok (supply_of (ref_runtime 10 3 0)) 5 e \<and> checks_cap e"
  by (simp add: demo_issue_events_def runs_on_def ref_kinds.token_kinds_axioms)

lemma demo_issue_start:
  "c_mint (isw_config demo_issue) = 5" "c_max_supply (isw_config demo_issue) = 5000" "c_total_minted (isw_config demo_issue) = 1000"
  "c_total_burned (isw_config demo_issue) = 100" "supply_of (ref_runtime 10 3 0) (isw_ledger demo_issue) 5 = 900"
  "unat (net_supply (isw_config demo_issue)) = 900"
  by (simp_all add: demo_issue_def demo_config_def demo_ledger_def supply_of_def unat_net_supply)



text \<open>Nine tokens of mint 8 wait in the escrow of the queue of mint 5, and are settled.\<close>

definition demo_foreign_ledger :: ref_ledger where
  "demo_foreign_ledger = demo_ledger
     \<lparr>rl_tokens := (rl_tokens demo_ledger)(1000005012 \<mapsto> \<lparr>ta_mint = 8, ta_owner = demo_queue_key, ta_amount = 9\<rparr>),
      rl_mints := (rl_mints demo_ledger)(8 \<mapsto> \<lparr>tm_decimals = 6, tm_supply = 900\<rparr>)\<rparr>"

definition demo_foreign_ctx :: process_ctx where
  "demo_foreign_ctx =
     \<lparr>pr_keeper = 10, pr_config = \<lparr>key_of = demo_cfg_key, data_of = demo_queue_cfg\<rparr>,
      pr_queue = \<lparr>key_of = demo_queue_key, data_of = demo_queue\<lparr>rq_queue_tail := 1\<rparr>\<rparr>,
      pr_entry = \<lparr>key_of = ref_pda (entry_seeds 5 0), data_of = demo_entry 9\<rparr>,
      pr_escrow = ref_pda (escrow_seeds 5 0), pr_reserve_vault = 32, pr_reserve_vault_authority = 10,
      pr_user_collateral = 32, pr_stable_mint = 8, pr_collateral_mint = 6,
      pr_queue_lamports = 2000000, pr_rent_minimum = 1500000, pr_keeper_lamports = 0\<rparr>"

lemma demo_foreign_settles:
  "\<exists>r. process_redemption_handler (ref_runtime 760 3 0) demo_foreign_ledger demo_foreign_ctx 0 = Inr r"
  by (simp add: eval_defs demo_foreign_ledger_def demo_foreign_ctx_def demo_cfg_key_def)

theorem foreign_settlement_books_phantom_burn_witness:
  "\<exists>c' q' e' pay w'. process_redemption_handler (ref_runtime 760 3 0) demo_foreign_ledger demo_foreign_ctx 0 = Inr (c', q', e', pay, w') \<and>
     supply_of (ref_runtime 760 3 0) w' 5 = 900 \<and> unat (c_total_burned c') = 109"
proof -
  obtain c' q' e' pay w' where run: "process_redemption_handler (ref_runtime 760 3 0) demo_foreign_ledger demo_foreign_ctx 0 = Inr (c', q', e', pay, w')"
    using demo_foreign_settles by (metis surj_pair)
  have foreign: "pr_stable_mint demo_foreign_ctx \<noteq> c_mint (data_of (pr_config demo_foreign_ctx))"
    by (simp add: demo_foreign_ctx_def demo_queue_cfg_def demo_config_def)
  have start: "supply_of (ref_runtime 760 3 0) demo_foreign_ledger 5 = 900" "c_mint (data_of (pr_config demo_foreign_ctx)) = 5"
    "unat (c_total_burned (data_of (pr_config demo_foreign_ctx))) = 100" "unat (re_amount (data_of (pr_entry demo_foreign_ctx))) = 9"
    by (simp_all add: demo_foreign_ctx_def demo_queue_cfg_def demo_config_def demo_foreign_ledger_def demo_ledger_def supply_of_def demo_entry_def)
  from foreign_settlement_books_phantom_burn [OF ref.token_ledger_axioms run foreign] run start show ?thesis by simp
qed

end
