(* ===== verification/Panics.thy ===== *)
theory Panics
  imports Supply
begin

text \<open>
  Error behaviour: an instruction that does not go through answers with one of the program's errors, an error of the account
  checks or of the token program; what stays of panics (arithmetic that aborts the transaction without a reason) is stated
  with the inputs that cause them.
\<close>

section \<open>No panic, composed\<close>

definition no_panic :: "'a res \<Rightarrow> bool" where
  "no_panic r \<longleftrightarrow> r \<noteq> Inl Panic"

definition named :: "(bool \<times> error) list \<Rightarrow> bool" where
  "named gs \<longleftrightarrow> list_all (\<lambda>g. snd g \<noteq> Panic) gs"

named_theorems calm \<open>computations that do not panic\<close>

lemma named_simps [simp]:
  "named []" "named ((b, e) # gs) \<longleftrightarrow> e \<noteq> Panic \<and> named gs" "named (gs @ hs) \<longleftrightarrow> named gs \<and> named hs"
  by (auto simp: named_def)

lemma no_panic_Inr [calm]: "no_panic (Inr x)" by (simp add: no_panic_def)

lemma no_panic_Inl [simp]: "no_panic (Inl e) \<longleftrightarrow> e \<noteq> Panic" by (simp add: no_panic_def)

lemma no_panic_guarded [calm]: "named gs \<Longrightarrow> (list_all fst gs \<Longrightarrow> no_panic k) \<Longrightarrow> no_panic (guarded gs k)"
  by (induction gs k rule: guarded.induct) (auto simp: no_panic_def)

lemma no_panic_andthen [calm]: "no_panic m \<Longrightarrow> (\<And>x. m = Inr x \<Longrightarrow> no_panic (k x)) \<Longrightarrow> no_panic (andthen m k)"
  by (cases m) (auto simp: no_panic_def)

lemma no_panic_ok_or [calm]: "(x = None \<Longrightarrow> e \<noteq> Panic) \<Longrightarrow> no_panic (ok_or x e)"
  by (cases x) (auto simp: no_panic_def)

lemma no_panic_if [calm]: "(b \<Longrightarrow> no_panic x) \<Longrightarrow> (\<not> b \<Longrightarrow> no_panic y) \<Longrightarrow> no_panic (if b then x else y)"
  by simp

lemma no_panic_pair [calm]: "(\<And>a b. p = (a, b) \<Longrightarrow> no_panic (f a b)) \<Longrightarrow> no_panic (case p of (a, b) \<Rightarrow> f a b)"
  by (cases p) simp

lemma no_panic_cpi [calm]: "no_panic (cpi rt w sgs ix)"
  unfolding cpi_def by (cases "rt_invoke rt w sgs ix") (auto simp: no_panic_def)

lemma no_panic_cpi_signed [calm]: "no_panic (cpi_signed rt w sgs seeds b ix)"
  unfolding cpi_signed_def using no_panic_cpi by (auto split: option.split)

lemma no_panic_load [calm]: "no_panic (load_token rt w k)" "no_panic (load_mint rt w k)"
  unfolding load_token_def load_mint_def by (auto intro: calm)

lemma no_panic_mul_or [calm]: "e \<noteq> Panic \<Longrightarrow> no_panic (mul_or a b e)"
  unfolding mul_or_def by (auto intro: calm)

section \<open>The instructions that issue and retire\<close>

lemmas account_lists =
  config_ok_def minter_ok_def redeem_accounts_def psm_accounts_def repay_accounts_def position_ok_def vault_ok_def
  collateral_config_ok_def bridge_ok_def bridge_open_def pool_ok_def user_account_ok_def pool_mints_def
  guarantee_accounts_def request_open_def

lemma mint_body_calm [calm]: "no_panic (mint_body rt w sgs cfg mint mi acct rem n)"
  unfolding mint_body_def por_gate_def within_limit_def Let_def
  by (auto intro!: calm split: list.split)

lemma burn_body_calm [calm]: "no_panic (burn_body rt w who c mint source n)"
  unfolding burn_body_def by (auto intro!: calm)

lemma mint_calm: "no_panic (mint_handler rt w ctx n)" "no_panic (cpi_mint_handler rt w ctx iv n v)"
  "no_panic (burn_handler rt w ctx n)" "no_panic (cpi_burn_handler rt w ctx iv n v)"
  unfolding mint_handler_def cpi_mint_handler_def burn_handler_def cpi_burn_handler_def Let_def
  by (auto intro!: calm simp: account_lists)

lemma redeem_calm: "no_panic (redeem_handler rt w ctx n)" "no_panic (psm_dynamic_swap_handler rt w ctx curve n)"
  unfolding redeem_handler_def redemption_fee_def psm_dynamic_swap_handler_def Let_def
  by (auto intro!: calm simp: account_lists Let_def)

lemma repay_calm: "no_panic (cdp_repay_stable_handler rt w ctx n)"
  unfolding cdp_repay_stable_handler_def collateral_release_def release_total_def Let_def
  by (auto intro!: calm simp: account_lists Let_def split: option.split)

lemma collect_calm: "no_panic (collect_stability_fee_handler rt w ctx)"
  unfolding collect_stability_fee_handler_def collect_fee_def stability_fee_def Let_def
  by (auto intro!: calm simp: account_lists Let_def)

lemma bridge_calm: "no_panic (bridge_in_handler rt w ctx ba consumed sanctions pf n who mid)" "no_panic (bridge_out_handler rt w ctx ba n)"
  unfolding bridge_in_handler_def bridge_out_handler_def bridge_fee_def recipient_clear_def Let_def
  by (auto intro!: calm simp: account_lists Let_def)

lemma pool_calm: "no_panic (instant_redemption_handler rt w ctx pa n)" "no_panic (fulfill_redemption_handler rt w gctx ra)"
  unfolding instant_redemption_handler_def fulfill_redemption_handler_def Let_def
  by (auto intro!: calm simp: account_lists Let_def)

section \<open>Prices and decimals within range\<close>

text \<open>What the feed can report: 64-bit prices with an exponent that ten can be raised to.\<close>

definition usable_price :: "nat \<Rightarrow> i64 \<Rightarrow> int \<Rightarrow> bool" where
  "usable_price k price expo \<longleftrightarrow> price \<le> i64_max \<and> nat \<bar>expo\<bar> \<le> k"

definition usable_feed :: "nat \<Rightarrow> feed_account \<Rightarrow> bool" where
  "usable_feed k feed \<longleftrightarrow>
     (\<forall>get now age p. fa_pyth feed = Some get \<longrightarrow> get now age = Some p \<longrightarrow> usable_price k (op_price p) (op_expo p)) \<and>
     (\<forall>f. fa_custom feed = Some f \<longrightarrow> usable_price k (cpf_price f) (cpf_expo f))"

definition usable_mints :: "'w runtime \<Rightarrow> nat \<Rightarrow> bool" where
  "usable_mints rt k \<longleftrightarrow> (\<forall>w m tm. rt_mint rt w m = Some tm \<longrightarrow> unat (tm_decimals tm) \<le> k)"

lemma oracle_calm [calm]: "no_panic (get_oracle_price feed c now)"
  unfolding get_oracle_price_def validate_feed_key_def pyth_get_price_def switchboard_get_price_def custom_get_price_def Let_def
  by (auto intro!: calm)

lemma effective_calm [calm]: "no_panic (get_effective_oracle_price feed c slot now oc)"
  unfolding get_effective_oracle_price_def Let_def by (auto intro!: calm)

lemma oracle_usable: "get_oracle_price feed c now = Inr p \<Longrightarrow> usable_feed k feed \<Longrightarrow> 0 < op_price p \<and> usable_price k (op_price p) (op_expo p)"
  by (auto simp: get_oracle_price_def validate_feed_key_def pyth_get_price_def switchboard_get_price_def custom_get_price_def
      usable_feed_def Let_def run_ok split: if_splits)

lemma effective_usable:
  "get_effective_oracle_price feed c slot now oc = Inr p \<Longrightarrow> usable_feed k feed \<Longrightarrow> 8 \<le> k \<Longrightarrow>
     nat \<bar>op_expo p\<bar> \<le> k"
  by (auto simp: get_effective_oracle_price_def run_ok usable_price_def split: if_splits dest: oracle_usable)

lemma spread_calm: "usable_feed 18 feed \<Longrightarrow> no_panic (check_oracle_spread rt feed c bps)"
  unfolding check_oracle_spread_def price_in_micro_usd_def i64_pow10_def Let_def
  by (auto intro!: calm dest!: oracle_usable simp: usable_price_def)

lemma mm_calm:
  assumes "usable_feed 18 (mmx_feed ctx)"
  shows "no_panic (mm_mint_handler rt w ctx ma n)" "no_panic (mm_burn_handler rt w ctx ma n)"
  unfolding mm_mint_handler_def mm_burn_handler_def mm_mint_charge_def mm_burn_charge_def Let_def
  by (auto intro!: calm spread_calm [OF assms] simp: account_lists mm_accounts_def mm_config_ok_def Let_def)

lemma keeper_payment_calm:
  "unat ql + unat kl < 2 ^ 64 \<Longrightarrow> no_panic (keeper_payment reward ql rent kl)"
  unfolding keeper_payment_def Let_def
  by (auto intro!: calm simp: arith_ok unat_min)

lemma queue_calm:
  assumes "unat (pr_queue_lamports ctx) + unat (pr_keeper_lamports ctx) < 2 ^ 64"
  shows "no_panic (process_redemption_handler rt w ctx i)"
  unfolding process_redemption_handler_def slot_charge_def Let_def
  by (auto intro!: calm keeper_payment_calm [OF assms] simp: account_lists process_accounts_def queue_enabled_def queue_ok_def entry_ok_def
      entry_pending_def escrow_ok_def Let_def)

lemma value_calm [calm]: "e \<le> 38 \<Longrightarrow> d \<le> 38 \<Longrightarrow> no_panic (collateral_value_e6 n price e d)"
  unfolding collateral_value_e6_def pow10_def by (auto intro!: calm)

lemma debt_calm [calm]: "d \<le> 38 \<Longrightarrow> no_panic (debt_value_e6 n d)"
  unfolding debt_value_e6_def pow10_def by (auto intro!: calm)

lemma max_borrow_calm [calm]: "d \<le> 38 \<Longrightarrow> no_panic (max_borrow v d)"
  unfolding max_borrow_def pow10_def by (auto intro!: calm)

lemma borrow_calm:
  assumes feed: "usable_feed 38 (cb_feed ctx)" and mints: "usable_mints rt 38"
  shows "no_panic (cdp_borrow_stable_handler rt w ctx n)"
proof -
  have mint: "load_mint rt w m = Inr tm \<Longrightarrow> unat (tm_decimals tm) \<le> 38" for m tm
    using mints by (auto simp: usable_mints_def run_ok)
  have price: "get_effective_oracle_price (cb_feed ctx) c slot now oc = Inr p \<Longrightarrow> nat \<bar>op_expo p\<bar> \<le> 38" for c slot now oc p
    using effective_usable [OF _ feed] by simp
  show ?thesis
    unfolding cdp_borrow_stable_handler_def open_position_def Let_def
    by (auto intro!: calm dest: mint price simp: account_lists consensus_ok_def Let_def split: option.split)
qed

section \<open>Liquidation\<close>

lemma rdiv_calm [calm]: "b \<noteq> 0 \<Longrightarrow> no_panic (rdiv a b)"
  unfolding rdiv_def by (auto intro: calm)

lemma sign_extend_nonzero: "x \<noteq> 0 \<Longrightarrow> i64_as_u128 (sint x) \<noteq> 0" for x :: u64
proof
  assume x: "x \<noteq> 0" and zero: "i64_as_u128 (sint x) = 0"
  then have "(word_of_int (sint x) :: u128) = word_of_int 0" unfolding i64_as_u128_def by (simp only: of_int_0)
  then have "take_bit LENGTH(128) (sint x) = take_bit LENGTH(128) 0" unfolding word_of_int_eq_iff .
  then have "take_bit 128 (sint x) = 0" by simp
  then have "take_bit 64 (take_bit 128 (sint x)) = 0" by simp
  then have "take_bit 64 (sint x) = 0" by simp
  then have "take_bit LENGTH(64) (sint x) = take_bit LENGTH(64) 0" by simp
  then have "(word_of_int (sint x) :: u64) = word_of_int 0" unfolding word_of_int_eq_iff .
  then have "(word_of_int (sint x) :: u64) = 0" by simp
  with x show False by simp
qed

lemma price_nonzero:
  assumes "get_effective_oracle_price feed c slot now oc = Inr p" and feed: "usable_feed k feed"
  shows "i64_as_u128 (op_price p) \<noteq> 0"
proof (cases "flag_set c FLAG_MULTI_ORACLE_CONSENSUS")
  case True
  with assms(1) obtain q where "op_price p = u64_as_i64 q" "q \<noteq> 0"
    by (auto simp: get_effective_oracle_price_def run_ok)
  then show ?thesis using sign_extend_nonzero by (simp add: u64_as_i64_def)
next
  case False
  with assms(1) have "get_oracle_price feed c now = Inr p" by (simp add: get_effective_oracle_price_def)
  from oracle_usable [OF this feed] have "unat (i64_as_u128 (op_price p)) = nat (op_price p)" "0 < nat (op_price p)"
    by (auto intro!: i64_as_u128_nat simp: usable_price_def)
  then show ?thesis by (metis unat_0 less_irrefl)
qed

text \<open>A debt is worth something as long as the stablecoin has at most six decimals.\<close>

lemma debt_nonzero: "debt_value_e6 n d = Inr v \<Longrightarrow> d \<le> 6 \<Longrightarrow> 0 < unat n \<Longrightarrow> v \<noteq> 0"
proof -
  assume v: "debt_value_e6 n d = Inr v" and d: "d \<le> 6" and n: "0 < unat n"
  have "(10 :: nat) ^ d \<le> 10 ^ 6" using d by (intro power_increasing) auto
  then have "(10 :: nat) ^ d \<le> unat n * 1000000" using n by (simp add: order_trans [of _ 1000000])
  then have "0 < unat v" using debt_value_ok(1) [OF v] by (simp add: div_greater_zero_iff)
  then show ?thesis by (simp add: unat_gt_0)
qed

lemma health_calm [calm]: "e \<le> 38 \<Longrightarrow> c \<le> 38 \<Longrightarrow> d \<le> 6 \<Longrightarrow> 0 < unat n \<Longrightarrow> no_panic (health_bps dep price e c n d)"
  unfolding health_bps_def ratio_bps_of_def by (auto intro!: calm dest: debt_nonzero)

lemma ratio_calm: "v \<noteq> 0 \<Longrightarrow> no_panic (ratio_bps_of a v)"
  unfolding ratio_bps_of_def by (auto intro!: calm)

lemma partial_calm [calm]: "price \<noteq> 0 \<Longrightarrow> e \<le> 38 \<Longrightarrow> c \<le> 38 \<Longrightarrow> d \<le> 6 \<Longrightarrow> no_panic (partial_seizure dep repay bonus price e c d)"
  unfolding partial_seizure_def pow10_def by (auto intro!: calm)

lemma seize_calm [calm]: "price \<noteq> 0 \<Longrightarrow> e \<le> 38 \<Longrightarrow> c \<le> 38 \<Longrightarrow> d \<le> 6 \<Longrightarrow> no_panic (seize_raw repaid bonus price e c d)"
  unfolding seize_raw_def pow10_def by (auto intro!: calm)

lemma amounts_calm [calm]:
  "price \<noteq> 0 \<Longrightarrow> e \<le> 38 \<Longrightarrow> c \<le> 38 \<Longrightarrow> d \<le> 6 \<Longrightarrow> no_panic (liquidation_amounts dep p eff repay terms price e c d)"
  unfolding liquidation_amounts_def by (auto intro!: calm simp: word_less_nat_alt)

lemma left_calm [calm]: "e \<le> 38 \<Longrightarrow> c \<le> 38 \<Longrightarrow> d \<le> 6 \<Longrightarrow> no_panic (v2_health_left dep seize owing repaid price e c d)"
  unfolding v2_health_left_def by (auto intro!: calm simp: word_less_nat_alt)

lemma settle_calm [calm]: "no_panic (settle_liquidation rt w ctx sdec cdec burn seize)"
  unfolding settle_liquidation_def by (auto intro!: calm)

lemma lower_calm [calm]: "no_panic (lower_total cc n)"
  unfolding lower_total_def by (auto intro!: calm split: option.split)

lemma debt_not_zero: "debt_value_e6 n d = Inr 0 \<Longrightarrow> d \<le> 6 \<Longrightarrow> 0 < unat n \<Longrightarrow> False"
  using debt_nonzero by blast

lemma liquidate_calm:
  assumes feed: "usable_feed 38 (lq_feed ctx)" and mints: "usable_mints rt 38"
    and six: "\<And>tm. rt_mint rt w (c_mint (data_of (lq_config ctx))) = Some tm \<Longrightarrow> unat (tm_decimals tm) \<le> 6"
  shows "no_panic (cdp_liquidate_handler rt w ctx a b)"
proof -
  have mint: "load_mint rt w m = Inr tm \<Longrightarrow> unat (tm_decimals tm) \<le> 38" for m tm
    using mints by (auto simp: usable_mints_def run_ok)
  have stable: "load_mint rt w (c_mint (data_of (lq_config ctx))) = Inr tm \<Longrightarrow> unat (tm_decimals tm) \<le> 6" for tm
    using six by (simp add: run_ok)
  have dust: "load_mint rt w (c_mint (data_of (lq_config ctx))) = Inr tm \<Longrightarrow> debt_value_e6 n (unat (tm_decimals tm)) = Inr 0 \<Longrightarrow> 0 < unat n \<Longrightarrow> False"
    for tm n using stable debt_not_zero by blast
  have price: "get_effective_oracle_price (lq_feed ctx) c slot now oc = Inr p \<Longrightarrow> nat \<bar>op_expo p\<bar> \<le> 38 \<and> i64_as_u128 (op_price p) \<noteq> 0"
    for c slot now oc p using effective_usable [OF _ feed] price_nonzero [OF _ feed] by auto
  show ?thesis
    unfolding cdp_liquidate_handler_def Let_def
    by (auto intro!: calm ratio_calm intro: mint stable dest: price dust simp: account_lists liquidate_accounts_def liquidate_config_ok_def
        liquidation_open_def consensus_ok_def Let_def word_less_nat_alt split: option.split)
qed

lemma v2_price_usable: "v2_price ctx now = Inr p \<Longrightarrow> usable_feed k (lq_feed ctx) \<Longrightarrow> nat \<bar>op_expo p\<bar> \<le> k \<and> i64_as_u128 (op_price p) \<noteq> 0"
proof -
  assume "v2_price ctx now = Inr p" and "usable_feed k (lq_feed ctx)"
  then have "0 < op_price p \<and> usable_price k (op_price p) (op_expo p)"
    by (auto simp: v2_price_def pyth_get_price_def usable_feed_def Let_def run_ok)
  then have "unat (i64_as_u128 (op_price p)) = nat (op_price p)" "0 < nat (op_price p)" "nat \<bar>op_expo p\<bar> \<le> k"
    by (auto intro!: i64_as_u128_nat simp: usable_price_def)
  then show ?thesis by (metis unat_0 less_irrefl)
qed

lemma v2_price_calm [calm]: "no_panic (v2_price ctx now)"
  unfolding v2_price_def pyth_get_price_def Let_def by (auto intro!: calm)

lemma liquidate_v2_calm:
  assumes feed: "usable_feed 38 (lq_feed ctx)" and mints: "usable_mints rt 38"
    and six: "\<And>tm. rt_mint rt w (c_mint (data_of (lq_config ctx))) = Some tm \<Longrightarrow> unat (tm_decimals tm) \<le> 6"
  shows "no_panic (cdp_liquidate_v2_handler rt w ctx cca a b)"
proof -
  have mint: "load_mint rt w m = Inr tm \<Longrightarrow> unat (tm_decimals tm) \<le> 38" for m tm
    using mints by (auto simp: usable_mints_def run_ok)
  have stable: "load_mint rt w (c_mint (data_of (lq_config ctx))) = Inr tm \<Longrightarrow> unat (tm_decimals tm) \<le> 6" for tm
    using six by (simp add: run_ok)
  have dust: "load_mint rt w (c_mint (data_of (lq_config ctx))) = Inr tm \<Longrightarrow> debt_value_e6 n (unat (tm_decimals tm)) = Inr 0 \<Longrightarrow> 0 < unat n \<Longrightarrow> False"
    for tm n using stable debt_not_zero by blast
  show ?thesis
    unfolding cdp_liquidate_v2_handler_def Let_def
    by (auto intro!: calm ratio_calm intro: mint stable dest: v2_price_usable [OF _ feed] dust
        simp: account_lists liquidate_accounts_def liquidate_config_ok_def
        liquidation_open_def Let_def word_less_nat_alt)
qed

section \<open>Every instruction that moves the supply\<close>

text \<open>The inputs that some instructions need to be spared a panic; the others need nothing.\<close>

fun within_range :: "'w issue_event \<Rightarrow> 'w issue_world \<Rightarrow> bool" where
  "within_range (IMmMint rt ctx ma n) s \<longleftrightarrow> usable_feed 18 (mmx_feed ctx)"
| "within_range (IMmBurn rt ctx ma n) s \<longleftrightarrow> usable_feed 18 (mmx_feed ctx)"
| "within_range (IBorrow rt ctx n) s \<longleftrightarrow> usable_feed 38 (cb_feed ctx) \<and> usable_mints rt 38"
| "within_range (ILiquidate rt ctx a b) s \<longleftrightarrow> usable_feed 38 (lq_feed ctx) \<and> usable_mints rt 38 \<and>
     (\<forall>tm. rt_mint rt (isw_ledger s) (c_mint (isw_config s)) = Some tm \<longrightarrow> unat (tm_decimals tm) \<le> 6)"
| "within_range (ILiquidateV2 rt ctx cca a b) s \<longleftrightarrow> usable_feed 38 (lq_feed ctx) \<and> usable_mints rt 38 \<and>
     (\<forall>tm. rt_mint rt (isw_ledger s) (c_mint (isw_config s)) = Some tm \<longrightarrow> unat (tm_decimals tm) \<le> 6)"
| "within_range (ISettleQueue rt ctx i) s \<longleftrightarrow> unat (pr_queue_lamports ctx) + unat (pr_keeper_lamports ctx) < 2 ^ 64"
| "within_range _ s \<longleftrightarrow> True"



text \<open>dust cannot be liquidated: a debt worth less than a millionth of a dollar (which needs a stablecoin of more than six decimals)
  rounds to nothing, and both versions divide by it.\<close>

theorem dust_debt_not_liquidated:
  assumes "rt_mint rt w (lq_sss_mint ctx) = Some tm"
    and "(unat (cp_debt_amount (data_of (lq_position ctx))) + unat (cp_accrued_fees (data_of (lq_position ctx)))) * 1000000 < 10 ^ unat (tm_decimals tm)"
  shows "(\<exists>e. cdp_liquidate_handler rt w ctx a b = Inl e) \<and> (\<exists>e. cdp_liquidate_v2_handler rt w ctx cca a b = Inl e)"
proof -
  have dust: "ratio_bps_of worth owed \<noteq> Inr ratio"
    if "debt_value_e6 n (unat (tm_decimals tm)) = Inr owed" "unat n * 1000000 < 10 ^ unat (tm_decimals tm)" for worth owed ratio n
    using debt_value_ok(1) [OF that(1)] that(2) by (auto simp: ratio_bps_of_def rdiv_def run_ok unat_eq_zero [symmetric])
  have "cdp_liquidate_handler rt w ctx a b \<noteq> Inr (c', p', v', cc', w')" for c' p' v' cc' w'
  proof
    assume "cdp_liquidate_handler rt w ctx a b = Inr (c', p', v', cc', w')"
    then show False by (cases rule: liquidate_ok) (use assms dust in auto)
  qed
  moreover have "cdp_liquidate_v2_handler rt w ctx cca a b \<noteq> Inr (c', p', v', cc', w')" for c' p' v' cc' w'
  proof
    assume "cdp_liquidate_v2_handler rt w ctx cca a b = Inr (c', p', v', cc', w')"
    then show False by (cases rule: v2_ok) (use assms dust in auto)
  qed
  ultimately show ?thesis
    by (metis old.sum.exhaust prod_cases5)
qed

text \<open>A stablecoin of twelve decimals and a debt of 320 of its units.\<close>

theorem dust_debt_not_liquidated_witness:
  "\<exists>e. cdp_liquidate_handler (ref_runtime 10 3 1030)
     (demo_cdp_ledger\<lparr>rl_mints := Map.empty (5 \<mapsto> \<lparr>tm_decimals = 12, tm_supply = 900\<rparr>)\<rparr>)
     (demo_liquidate_ctx demo_config (demo_feed 100000000 1000) 350 300) 0 0 = Inl e"
  by (rule dust_debt_not_liquidated [THEN conjunct1])
    (auto simp: demo_liquidate_ctx_def demo_position_def)

end
