(* ===== verification/Client.thy ===== *)
theory Client
  imports Bytes Minting Admin Cdp Ballots Governance Compliance Curves Oracle Redemption Registry
begin

text \<open>
  The client crate for other programs (crates/sss-cpi/src/{lib,discriminators,flags,version,pda,instructions}.rs) and the example
  caller (programs/cpi-caller/src/lib.rs): derived addresses, flag constants, the bytes and accounts of the two instructions that other
  programs may call, and the version check in front of them, set against what the program itself does.
\<close>

section \<open>Addresses\<close>

text \<open>What the crate takes from the SDK: parsing a key (the crate only parses its own constant) and \<open>Pubkey::find_program_address\<close>.\<close>

record sdk =
  sdk_from_str :: "string \<Rightarrow> pubkey"
  sdk_find :: "seed list \<Rightarrow> pubkey \<Rightarrow> pubkey \<times> u8"

definition SSS_PROGRAM_ID_STR :: string where "SSS_PROGRAM_ID_STR = ''AxE9NQ8z6tzNJT9AHBu2YRsVqX41uCjPmpN5RLavAaat''"
definition DECLARED_ID_STR :: string where "DECLARED_ID_STR = ''ApQTVMKdtUUrGXgL6Hhzt9W2JFyLt6vGnHuimcdXe811''"

definition sss_program_id :: "sdk \<Rightarrow> pubkey" where "sss_program_id k = sdk_from_str k SSS_PROGRAM_ID_STR"

definition SEED_CONFIG :: string where "SEED_CONFIG = ''stablecoin-config''"
definition SEED_MINTER_INFO :: string where "SEED_MINTER_INFO = ''minter-info''"
definition SEED_CDP_VAULT :: string where "SEED_CDP_VAULT = ''cdp-collateral-vault''"
definition SEED_CDP_POSITION :: string where "SEED_CDP_POSITION = ''cdp-position''"
definition SEED_INTERFACE_VERSION :: string where "SEED_INTERFACE_VERSION = ''interface-version''"
definition SEED_YIELD_COLLATERAL :: string where "SEED_YIELD_COLLATERAL = ''yield-collateral''"
definition SEED_DAO_PROPOSAL :: string where "SEED_DAO_PROPOSAL = ''dao-proposal''"
definition SEED_DAO_COMMITTEE :: string where "SEED_DAO_COMMITTEE = ''dao-committee''"
definition SEED_ZK_COMPLIANCE_CONFIG :: string where "SEED_ZK_COMPLIANCE_CONFIG = ''zk-compliance-config''"
definition SEED_ZK_VERIFICATION :: string where "SEED_ZK_VERIFICATION = ''zk-verification''"
definition SEED_COLLATERAL_CONFIG :: string where "SEED_COLLATERAL_CONFIG = ''collateral-config''"
definition SEED_CT_CONFIG :: string where "SEED_CT_CONFIG = ''ct-config''"
definition SEED_PROOF_OF_RESERVES :: string where "SEED_PROOF_OF_RESERVES = ''proof-of-reserves''"
definition SEED_RESERVE_COMPOSITION :: string where "SEED_RESERVE_COMPOSITION = ''reserve-composition''"
definition SEED_REDEMPTION_GUARANTEE :: string where "SEED_REDEMPTION_GUARANTEE = ''redemption-guarantee''"
definition SEED_REDEMPTION_REQUEST :: string where "SEED_REDEMPTION_REQUEST = ''redemption-request''"
definition SEED_TRAVEL_RULE_RECORD :: string where "SEED_TRAVEL_RULE_RECORD = ''travel-rule-record''"
definition SEED_SANCTIONS_RECORD :: string where "SEED_SANCTIONS_RECORD = ''sanctions-record''"
definition SEED_CREDENTIAL_REGISTRY :: string where "SEED_CREDENTIAL_REGISTRY = ''credential-registry''"
definition SEED_CREDENTIAL_RECORD :: string where "SEED_CREDENTIAL_RECORD = ''credential-record''"
definition SEED_PID_CONFIG :: string where "SEED_PID_CONFIG = ''pid-config''"
definition SEED_AUTHORITY_ROTATION :: string where "SEED_AUTHORITY_ROTATION = ''authority-rotation''"
definition SEED_GUARDIAN_CONFIG :: string where "SEED_GUARDIAN_CONFIG = ''guardian-config''"
definition SEED_PAUSE_PROPOSAL :: string where "SEED_PAUSE_PROPOSAL = ''pause-proposal''"
definition SEED_CUSTOM_PRICE_FEED :: string where "SEED_CUSTOM_PRICE_FEED = ''custom-price-feed''"
definition SEED_LIQUIDATION_BONUS_CONFIG :: string where "SEED_LIQUIDATION_BONUS_CONFIG = ''liquidation-bonus-config''"
definition SEED_PSM_CURVE_CONFIG :: string where "SEED_PSM_CURVE_CONFIG = ''psm-curve-config''"
definition SEED_WALLET_RATE_LIMIT :: string where "SEED_WALLET_RATE_LIMIT = ''wallet-rate-limit''"
definition SEED_SQUADS_MULTISIG_CONFIG :: string where "SEED_SQUADS_MULTISIG_CONFIG = ''squads-multisig-config''"

lemmas client_seed_defs =
  SEED_CONFIG_def SEED_MINTER_INFO_def SEED_CDP_VAULT_def SEED_CDP_POSITION_def SEED_INTERFACE_VERSION_def SEED_YIELD_COLLATERAL_def
  SEED_DAO_PROPOSAL_def SEED_DAO_COMMITTEE_def SEED_ZK_COMPLIANCE_CONFIG_def SEED_ZK_VERIFICATION_def SEED_COLLATERAL_CONFIG_def
  SEED_CT_CONFIG_def SEED_PROOF_OF_RESERVES_def SEED_RESERVE_COMPOSITION_def SEED_REDEMPTION_GUARANTEE_def SEED_REDEMPTION_REQUEST_def
  SEED_TRAVEL_RULE_RECORD_def SEED_SANCTIONS_RECORD_def SEED_CREDENTIAL_REGISTRY_def SEED_CREDENTIAL_RECORD_def SEED_PID_CONFIG_def
  SEED_AUTHORITY_ROTATION_def SEED_GUARDIAN_CONFIG_def SEED_PAUSE_PROPOSAL_def SEED_CUSTOM_PRICE_FEED_def
  SEED_LIQUIDATION_BONUS_CONFIG_def SEED_PSM_CURVE_CONFIG_def SEED_WALLET_RATE_LIMIT_def SEED_SQUADS_MULTISIG_CONFIG_def

definition find_config :: "sdk \<Rightarrow> pubkey \<Rightarrow> pubkey \<times> u8" where
  "find_config k mint = sdk_find k [SeedStr SEED_CONFIG, SeedKey mint] (sss_program_id k)"

definition find_minter_info :: "sdk \<Rightarrow> pubkey \<Rightarrow> pubkey \<Rightarrow> pubkey \<times> u8" where
  "find_minter_info k config minter = sdk_find k [SeedStr SEED_MINTER_INFO, SeedKey config, SeedKey minter] (sss_program_id k)"

definition find_interface_version :: "sdk \<Rightarrow> pubkey \<Rightarrow> pubkey \<times> u8" where
  "find_interface_version k mint = sdk_find k [SeedStr SEED_INTERFACE_VERSION, SeedKey mint] (sss_program_id k)"

definition find_cdp_vault :: "sdk \<Rightarrow> pubkey \<Rightarrow> pubkey \<Rightarrow> pubkey \<Rightarrow> pubkey \<times> u8" where
  "find_cdp_vault k sss_mint user collateral_mint =
     sdk_find k [SeedStr SEED_CDP_VAULT, SeedKey sss_mint, SeedKey user, SeedKey collateral_mint] (sss_program_id k)"

definition find_cdp_position :: "sdk \<Rightarrow> pubkey \<Rightarrow> pubkey \<Rightarrow> pubkey \<times> u8" where
  "find_cdp_position k sss_mint owner = sdk_find k [SeedStr SEED_CDP_POSITION, SeedKey sss_mint, SeedKey owner] (sss_program_id k)"

definition find_dao_committee :: "sdk \<Rightarrow> pubkey \<Rightarrow> pubkey \<times> u8" where
  "find_dao_committee k config = sdk_find k [SeedStr SEED_DAO_COMMITTEE, SeedKey config] (sss_program_id k)"

definition find_dao_proposal :: "sdk \<Rightarrow> pubkey \<Rightarrow> u64 \<Rightarrow> pubkey \<times> u8" where
  "find_dao_proposal k config i = sdk_find k [SeedStr SEED_DAO_PROPOSAL, SeedKey config, SeedU64 i] (sss_program_id k)"

definition find_authority_rotation_request :: "sdk \<Rightarrow> pubkey \<Rightarrow> pubkey \<times> u8" where
  "find_authority_rotation_request k mint = sdk_find k [SeedStr SEED_AUTHORITY_ROTATION, SeedKey mint] (sss_program_id k)"

definition find_guardian_config :: "sdk \<Rightarrow> pubkey \<Rightarrow> pubkey \<times> u8" where
  "find_guardian_config k config = sdk_find k [SeedStr SEED_GUARDIAN_CONFIG, SeedKey config] (sss_program_id k)"

text \<open>The one function that takes the program as an argument.\<close>

definition find_pause_proposal :: "sdk \<Rightarrow> pubkey \<Rightarrow> u64 \<Rightarrow> pubkey \<Rightarrow> pubkey \<times> u8" where
  "find_pause_proposal k config i program_id = sdk_find k [SeedStr SEED_PAUSE_PROPOSAL, SeedKey config, SeedU64 i] program_id"

definition find_zk_compliance_config :: "sdk \<Rightarrow> pubkey \<Rightarrow> pubkey \<times> u8" where
  "find_zk_compliance_config k mint = sdk_find k [SeedStr SEED_ZK_COMPLIANCE_CONFIG, SeedKey mint] (sss_program_id k)"

definition find_zk_verification_record :: "sdk \<Rightarrow> pubkey \<Rightarrow> pubkey \<Rightarrow> pubkey \<times> u8" where
  "find_zk_verification_record k mint user = sdk_find k [SeedStr SEED_ZK_VERIFICATION, SeedKey mint, SeedKey user] (sss_program_id k)"

definition find_credential_registry :: "sdk \<Rightarrow> pubkey \<Rightarrow> pubkey \<times> u8" where
  "find_credential_registry k mint = sdk_find k [SeedStr SEED_CREDENTIAL_REGISTRY, SeedKey mint] (sss_program_id k)"

definition find_credential_record :: "sdk \<Rightarrow> pubkey \<Rightarrow> pubkey \<Rightarrow> pubkey \<times> u8" where
  "find_credential_record k mint holder = sdk_find k [SeedStr SEED_CREDENTIAL_RECORD, SeedKey mint, SeedKey holder] (sss_program_id k)"

definition find_travel_rule_record :: "sdk \<Rightarrow> pubkey \<Rightarrow> u64 \<Rightarrow> pubkey \<times> u8" where
  "find_travel_rule_record k mint transfer_id =
     sdk_find k [SeedStr SEED_TRAVEL_RULE_RECORD, SeedKey mint, SeedU64 transfer_id] (sss_program_id k)"

definition find_sanctions_record :: "sdk \<Rightarrow> pubkey \<Rightarrow> pubkey \<Rightarrow> pubkey \<times> u8" where
  "find_sanctions_record k mint wallet = sdk_find k [SeedStr SEED_SANCTIONS_RECORD, SeedKey mint, SeedKey wallet] (sss_program_id k)"

definition find_collateral_config :: "sdk \<Rightarrow> pubkey \<Rightarrow> pubkey \<Rightarrow> pubkey \<times> u8" where
  "find_collateral_config k sss_mint collateral_mint =
     sdk_find k [SeedStr SEED_COLLATERAL_CONFIG, SeedKey sss_mint, SeedKey collateral_mint] (sss_program_id k)"

definition find_proof_of_reserves :: "sdk \<Rightarrow> pubkey \<Rightarrow> pubkey \<times> u8" where
  "find_proof_of_reserves k mint = sdk_find k [SeedStr SEED_PROOF_OF_RESERVES, SeedKey mint] (sss_program_id k)"

definition find_reserve_composition :: "sdk \<Rightarrow> pubkey \<Rightarrow> pubkey \<times> u8" where
  "find_reserve_composition k mint = sdk_find k [SeedStr SEED_RESERVE_COMPOSITION, SeedKey mint] (sss_program_id k)"

definition find_redemption_guarantee :: "sdk \<Rightarrow> pubkey \<Rightarrow> pubkey \<times> u8" where
  "find_redemption_guarantee k mint = sdk_find k [SeedStr SEED_REDEMPTION_GUARANTEE, SeedKey mint] (sss_program_id k)"

definition find_redemption_request :: "sdk \<Rightarrow> pubkey \<Rightarrow> pubkey \<Rightarrow> pubkey \<times> u8" where
  "find_redemption_request k mint requester =
     sdk_find k [SeedStr SEED_REDEMPTION_REQUEST, SeedKey mint, SeedKey requester] (sss_program_id k)"

definition find_pid_config :: "sdk \<Rightarrow> pubkey \<Rightarrow> pubkey \<times> u8" where
  "find_pid_config k mint = sdk_find k [SeedStr SEED_PID_CONFIG, SeedKey mint] (sss_program_id k)"

definition find_custom_price_feed :: "sdk \<Rightarrow> pubkey \<Rightarrow> pubkey \<times> u8" where
  "find_custom_price_feed k mint = sdk_find k [SeedStr SEED_CUSTOM_PRICE_FEED, SeedKey mint] (sss_program_id k)"

definition find_ct_config :: "sdk \<Rightarrow> pubkey \<Rightarrow> pubkey \<times> u8" where
  "find_ct_config k mint = sdk_find k [SeedStr SEED_CT_CONFIG, SeedKey mint] (sss_program_id k)"

definition find_liquidation_bonus_config :: "sdk \<Rightarrow> pubkey \<Rightarrow> pubkey \<times> u8" where
  "find_liquidation_bonus_config k mint = sdk_find k [SeedStr SEED_LIQUIDATION_BONUS_CONFIG, SeedKey mint] (sss_program_id k)"

definition find_psm_curve_config :: "sdk \<Rightarrow> pubkey \<Rightarrow> pubkey \<times> u8" where
  "find_psm_curve_config k mint = sdk_find k [SeedStr SEED_PSM_CURVE_CONFIG, SeedKey mint] (sss_program_id k)"

definition find_wallet_rate_limit :: "sdk \<Rightarrow> pubkey \<Rightarrow> pubkey \<Rightarrow> pubkey \<times> u8" where
  "find_wallet_rate_limit k mint wallet = sdk_find k [SeedStr SEED_WALLET_RATE_LIMIT, SeedKey mint, SeedKey wallet] (sss_program_id k)"

definition find_squads_multisig_config :: "sdk \<Rightarrow> pubkey \<Rightarrow> pubkey \<times> u8" where
  "find_squads_multisig_config k mint = sdk_find k [SeedStr SEED_SQUADS_MULTISIG_CONFIG, SeedKey mint] (sss_program_id k)"

definition find_yield_collateral_config :: "sdk \<Rightarrow> pubkey \<Rightarrow> pubkey \<times> u8" where
  "find_yield_collateral_config k mint = sdk_find k [SeedStr SEED_YIELD_COLLATERAL, SeedKey mint] (sss_program_id k)"

section \<open>Flags and versions\<close>

definition has_flag :: "u64 \<Rightarrow> u64 \<Rightarrow> bool" where "has_flag flags flag \<longleftrightarrow> flags AND flag \<noteq> 0"

definition CURRENT_INTERFACE_VERSION :: u8 where "CURRENT_INTERFACE_VERSION = 1"
definition MIN_SUPPORTED_INTERFACE :: u8 where "MIN_SUPPORTED_INTERFACE = 1"

definition is_supported_version :: "u8 \<Rightarrow> bool" where
  "is_supported_version v \<longleftrightarrow> MIN_SUPPORTED_INTERFACE \<le> v \<and> v \<le> CURRENT_INTERFACE_VERSION"

datatype interface_error = Deprecated | VersionMismatch (expected: u8) (actual: u8)

definition check_interface_compatibility :: "u8 \<Rightarrow> bool \<Rightarrow> u8 \<Rightarrow> interface_error + unit" where
  "check_interface_compatibility on_chain_version on_chain_active required_version =
     (if \<not> on_chain_active then Inl Deprecated
      else if on_chain_version \<noteq> required_version then Inl (VersionMismatch required_version on_chain_version)
      else Inr ())"

section \<open>Instruction data\<close>

record account_meta =
  am_key :: pubkey
  am_signer :: bool
  am_writable :: bool

abbreviation readonly :: "pubkey \<Rightarrow> bool \<Rightarrow> account_meta" where "readonly k s \<equiv> \<lparr>am_key = k, am_signer = s, am_writable = False\<rparr>"
abbreviation writable :: "pubkey \<Rightarrow> bool \<Rightarrow> account_meta" where "writable k s \<equiv> \<lparr>am_key = k, am_signer = s, am_writable = True\<rparr>"

record instruction =
  ins_program :: pubkey
  ins_accounts :: "account_meta list"
  ins_data :: "u8 list"

definition DISCRIMINATOR_CPI_MINT :: "u8 list" where "DISCRIMINATOR_CPI_MINT = [0xf5, 0xc7, 0x03, 0x25, 0x5b, 0xe6, 0xab, 0x3c]"
definition DISCRIMINATOR_CPI_BURN :: "u8 list" where "DISCRIMINATOR_CPI_BURN = [0x0e, 0xa7, 0xd8, 0xc7, 0x11, 0xa2, 0xe4, 0x59]"
definition DISCRIMINATOR_INITIALIZE :: "u8 list" where "DISCRIMINATOR_INITIALIZE = [0xaf, 0xaf, 0x6d, 0x1f, 0x0d, 0x98, 0x9b, 0xed]"
definition DISCRIMINATOR_MINT :: "u8 list" where "DISCRIMINATOR_MINT = [0xf1, 0x9a, 0x8d, 0x41, 0x4c, 0x5d, 0xd6, 0x72]"
definition DISCRIMINATOR_BURN :: "u8 list" where "DISCRIMINATOR_BURN = [0x76, 0x2f, 0x47, 0x02, 0x96, 0x6d, 0x0e, 0x89]"

record cpi_args =
  ca_minter :: pubkey
  ca_config :: pubkey
  ca_minter_info :: pubkey
  ca_mint :: pubkey
  ca_token_account :: pubkey
  ca_interface_version_pda :: pubkey
  ca_token_program :: pubkey
  ca_amount :: u64
  ca_required_version :: u8

definition build_cpi_mint_ix :: "sdk \<Rightarrow> cpi_args \<Rightarrow> instruction" where
  "build_cpi_mint_ix k args =
     \<lparr>ins_program = sss_program_id k,
      ins_accounts =
        [readonly (ca_minter args) True, writable (ca_config args) False, writable (ca_minter_info args) False,
         writable (ca_mint args) False, writable (ca_token_account args) False,
         readonly (ca_interface_version_pda args) False, readonly (ca_token_program args) False],
      ins_data = DISCRIMINATOR_CPI_MINT @ u64_bytes (ca_amount args) @ [ca_required_version args]\<rparr>"

definition build_cpi_burn_ix :: "sdk \<Rightarrow> cpi_args \<Rightarrow> instruction" where
  "build_cpi_burn_ix k args =
     \<lparr>ins_program = sss_program_id k,
      ins_accounts =
        [readonly (ca_minter args) True, writable (ca_config args) False, writable (ca_minter_info args) False,
         writable (ca_mint args) False, writable (ca_token_account args) False,
         readonly (ca_interface_version_pda args) False, readonly (ca_token_program args) False],
      ins_data = DISCRIMINATOR_CPI_BURN @ u64_bytes (ca_amount args) @ [ca_required_version args]\<rparr>"

text \<open>
  What the program reads: the first eight bytes name the instruction (\<open>sighash\<close> is the hash that the framework takes of the name), an
  amount and a version follow in little-endian order; anything else is not an instruction of the CPI interface.
\<close>

datatype cpi_request = RequestMint u64 u8 | RequestBurn u64 u8

definition read_request :: "(string \<Rightarrow> u8 list) \<Rightarrow> u8 list \<Rightarrow> cpi_request option" where
  "read_request sighash data =
     (if length data < 17 then None
      else if slice 0 8 data = sighash ''cpi_mint'' then Some (RequestMint (u64_at 8 data) (data ! 16))
      else if slice 0 8 data = sighash ''cpi_burn'' then Some (RequestBurn (u64_at 8 data) (data ! 16))
      else None)"

section \<open>The example caller\<close>

datatype caller_error = SssInterfaceDeprecated | SssVersionMismatch | CalleeError error

fun callee :: "'a res \<Rightarrow> caller_error + 'a" where
  "callee (Inl e) = Inl (CalleeError e)"
| "callee (Inr x) = Inr x"

text \<open>The accounts are passed on as they are; the call has no further accounts.\<close>

definition call_sss_mint ::
  "'w runtime \<Rightarrow> 'w \<Rightarrow> mint_ctx \<Rightarrow> interface_version account \<Rightarrow> u64 \<Rightarrow> u8 \<Rightarrow> caller_error + stablecoin_config \<times> minter_info \<times> 'w" where
  "call_sss_mint rt w ctx iv amount required_version =
     (if \<not> iv_active (data_of iv) then Inl SssInterfaceDeprecated
      else if iv_version (data_of iv) \<noteq> required_version then Inl SssVersionMismatch
      else callee (cpi_mint_handler rt w (ctx\<lparr>mt_remaining := []\<rparr>) iv amount required_version))"

definition call_sss_burn ::
  "'w runtime \<Rightarrow> 'w \<Rightarrow> mint_ctx \<Rightarrow> interface_version account \<Rightarrow> u64 \<Rightarrow> u8 \<Rightarrow> caller_error + stablecoin_config \<times> 'w" where
  "call_sss_burn rt w ctx iv amount required_version =
     (if \<not> iv_active (data_of iv) then Inl SssInterfaceDeprecated
      else if iv_version (data_of iv) \<noteq> required_version then Inl SssVersionMismatch
      else callee (cpi_burn_handler rt w (ctx\<lparr>mt_remaining := []\<rparr>) iv amount required_version))"

section \<open>Addresses and checks agree with the program\<close>

text \<open>A crate built with the identity of the program that it calls.\<close>

definition built_for :: "sdk \<Rightarrow> 'w runtime \<Rightarrow> bool" where
  "built_for k rt \<longleftrightarrow> (\<forall>seeds. rt_find_pda rt seeds = sdk_find k seeds (sss_program_id k))"

lemma client_addresses:
  assumes "built_for k rt"
  shows "find_config k m = rt_find_pda rt (config_seeds m)" "find_minter_info k c u = rt_find_pda rt (minter_seeds c u)"
    "find_interface_version k m = rt_find_pda rt (interface_seeds m)" "find_cdp_vault k m u cm = rt_find_pda rt (vault_seeds m u cm)"
    "find_cdp_position k m u = rt_find_pda rt (position_seeds m u)" "find_dao_committee k c = rt_find_pda rt (committee_seeds c)"
    "find_dao_proposal k c i = rt_find_pda rt (proposal_seeds c i)" "find_authority_rotation_request k m = rt_find_pda rt (rotation_seeds m)"
    "find_guardian_config k c = rt_find_pda rt (guardian_seeds c)"
    "find_pause_proposal k c i (sss_program_id k) = rt_find_pda rt (pause_proposal_seeds c i)"
    "find_zk_compliance_config k m = rt_find_pda rt (zk_config_seeds m)" "find_zk_verification_record k m u = rt_find_pda rt (verification_seeds m u)"
    "find_credential_registry k m = rt_find_pda rt (Compliance.registry_seeds m)"
    "find_credential_record k m u = rt_find_pda rt (credential_seeds m u)" "find_travel_rule_record k m i = rt_find_pda rt (travel_rule_seeds m i)"
    "find_sanctions_record k m u = rt_find_pda rt (sanctions_seeds m u)" "find_collateral_config k m cm = rt_find_pda rt (collateral_config_seeds m cm)"
    "find_proof_of_reserves k m = rt_find_pda rt (por_seeds m)" "find_reserve_composition k m = rt_find_pda rt (composition_seeds m)"
    "find_redemption_guarantee k m = rt_find_pda rt (guarantee_seeds m)" "find_redemption_request k m u = rt_find_pda rt (request_seeds m u)"
    "find_pid_config k m = rt_find_pda rt (pid_seeds m)" "find_custom_price_feed k m = rt_find_pda rt (custom_feed_seeds m)"
    "find_liquidation_bonus_config k m = rt_find_pda rt (bonus_seeds m)" "find_psm_curve_config k m = rt_find_pda rt (psm_seeds m)"
    "find_wallet_rate_limit k m u = rt_find_pda rt (wallet_limit_seeds m u)" "find_yield_collateral_config k m = rt_find_pda rt (yield_seeds m)"
  using assms
  by (simp_all add: built_for_def client_seed_defs config_seeds_def find_config_def minter_seeds_def find_minter_info_def interface_seeds_def
      find_interface_version_def vault_seeds_def find_cdp_vault_def position_seeds_def find_cdp_position_def committee_seeds_def
      find_dao_committee_def proposal_seeds_def find_dao_proposal_def rotation_seeds_def find_authority_rotation_request_def guardian_seeds_def
      find_guardian_config_def pause_proposal_seeds_def find_pause_proposal_def zk_config_seeds_def find_zk_compliance_config_def
      verification_seeds_def find_zk_verification_record_def Compliance.registry_seeds_def find_credential_registry_def credential_seeds_def
      find_credential_record_def travel_rule_seeds_def find_travel_rule_record_def sanctions_seeds_def find_sanctions_record_def
      collateral_config_seeds_def find_collateral_config_def por_seeds_def find_proof_of_reserves_def composition_seeds_def
      find_reserve_composition_def guarantee_seeds_def find_redemption_guarantee_def request_seeds_def find_redemption_request_def
      pid_seeds_def find_pid_config_def custom_feed_seeds_def find_custom_price_feed_def bonus_seeds_def find_liquidation_bonus_config_def
      psm_seeds_def find_psm_curve_config_def wallet_limit_seeds_def find_wallet_rate_limit_def yield_seeds_def
      find_yield_collateral_config_def)

lemma has_flag_is_check: "has_flag = check_feature_flag"
  by (simp add: fun_eq_iff has_flag_def check_feature_flag_def)

lemma supported_version_is_current: "is_supported_version v \<longleftrightarrow> v = INTERFACE_CURRENT_VERSION"
  by (auto simp: is_supported_version_def MIN_SUPPORTED_INTERFACE_def CURRENT_INTERFACE_VERSION_def INTERFACE_CURRENT_VERSION_def)

lemma check_ok [run_ok]: "check_interface_compatibility v a r = Inr u \<longleftrightarrow> a \<and> v = r"
  by (auto simp: check_interface_compatibility_def)

lemma callee_Inr [run_ok]: "callee r = Inr x \<longleftrightarrow> r = Inr x" by (cases r) auto

text \<open>The accounts that the crate derives for a mint, with the records that the program keeps at them.\<close>

definition derived :: "sdk \<Rightarrow> mint_ctx \<Rightarrow> interface_version account \<Rightarrow> bool" where
  "derived k ctx iv \<longleftrightarrow>
     (key_of (mt_config ctx), c_bump (data_of (mt_config ctx))) = find_config k (mt_mint ctx) \<and>
     c_mint (data_of (mt_config ctx)) = mt_mint ctx \<and>
     (key_of (mt_minter_info ctx), mi_bump (data_of (mt_minter_info ctx))) = find_minter_info k (key_of (mt_config ctx)) (mt_minter ctx) \<and>
     mi_config (data_of (mt_minter_info ctx)) = key_of (mt_config ctx) \<and> mi_minter (data_of (mt_minter_info ctx)) = mt_minter ctx \<and>
     (key_of iv, iv_bump (data_of iv)) = find_interface_version k (mt_mint ctx)"

definition consistent_pdas :: "'w runtime \<Rightarrow> bool" where
  "consistent_pdas rt \<longleftrightarrow> (\<forall>seeds. rt_create_pda rt seeds (snd (rt_find_pda rt seeds)) = Some (fst (rt_find_pda rt seeds)))"

lemma found_ok: "consistent_pdas rt \<Longrightarrow> (key, bump) = rt_find_pda rt seeds \<Longrightarrow> seeds_ok rt key seeds bump"
  by (metis consistent_pdas_def fst_conv seeds_ok_def snd_conv)


text \<open>how the program reads what the crate writes: amount and version come out as they went in, and the instruction is the one whose name
  hashes to the crate's constant, if any.\<close>

theorem client_request_read:
  "read_request sighash (ins_data (build_cpi_mint_ix k args)) =
     (if DISCRIMINATOR_CPI_MINT = sighash ''cpi_mint'' then Some (RequestMint (ca_amount args) (ca_required_version args))
      else if DISCRIMINATOR_CPI_MINT = sighash ''cpi_burn'' then Some (RequestBurn (ca_amount args) (ca_required_version args)) else None) \<and>
   read_request sighash (ins_data (build_cpi_burn_ix k args)) =
     (if DISCRIMINATOR_CPI_BURN = sighash ''cpi_mint'' then Some (RequestMint (ca_amount args) (ca_required_version args))
      else if DISCRIMINATOR_CPI_BURN = sighash ''cpi_burn'' then Some (RequestBurn (ca_amount args) (ca_required_version args)) else None)"
proof -
  have read: "length (d @ u64_bytes n @ [v]) = 17 \<and> slice 0 8 (d @ u64_bytes n @ [v]) = d \<and> u64_at 8 (d @ u64_bytes n @ [v]) = n \<and>
      (d @ u64_bytes n @ [v]) ! 16 = v" if "length d = 8" for d :: "u8 list" and n v
    using that by (simp add: slice_here u64_at_def slice_skip nth_append)
  have "length DISCRIMINATOR_CPI_MINT = 8" "length DISCRIMINATOR_CPI_BURN = 8"
    by (simp_all add: DISCRIMINATOR_CPI_MINT_def DISCRIMINATOR_CPI_BURN_def)
  note this [THEN read]
  then show ?thesis
    by (simp add: read_request_def build_cpi_mint_ix_def build_cpi_burn_ix_def)
qed

text \<open>no request that the crate builds is understood: SHA-256 of \<open>global:cpi_mint\<close> and \<open>global:cpi_burn\<close> does not begin with the bytes
  that the crate has for them.\<close>

theorem client_requests_unknown:
  assumes "sighash ''cpi_mint'' = [0x8e, 0xac, 0x36, 0x50, 0xbf, 0x12, 0xd1, 0xd5]"
    and "sighash ''cpi_burn'' = [0x96, 0xd3, 0xfd, 0xdd, 0x18, 0x73, 0x57, 0x6e]"
  shows "read_request sighash (ins_data (build_cpi_mint_ix k args)) = None \<and>
    read_request sighash (ins_data (build_cpi_burn_ix k args)) = None"
  by (simp add: read_request_def build_cpi_mint_ix_def build_cpi_burn_ix_def DISCRIMINATOR_CPI_MINT_def DISCRIMINATOR_CPI_BURN_def
      slice_here assms) (simp add: slice_def)

section \<open>The example caller\<close>

text \<open>the example caller adds nothing and takes away the extra accounts: it mints what \<open>cpi_mint\<close> mints when no proof of reserves is
  passed, so on a stablecoin that halts on a breach of its reserves it never mints at all; it burns what \<open>cpi_burn\<close> burns.\<close>

theorem caller_forwards:
  "(call_sss_mint rt w ctx iv n v = Inr r \<longleftrightarrow> cpi_mint_handler rt w (ctx\<lparr>mt_remaining := []\<rparr>) iv n v = Inr r) \<and>
   (call_sss_burn rt w ctx iv n v = Inr b \<longleftrightarrow> cpi_burn_handler rt w ctx iv n v = Inr b) \<and>
   \<not> (call_sss_mint rt w ctx iv n v = Inr r \<and> flag_set (data_of (mt_config ctx)) FLAG_POR_HALT_ON_BREACH)"
proof (intro conjI notI)
  show mint: "call_sss_mint rt w ctx iv n v = Inr r \<longleftrightarrow> cpi_mint_handler rt w (ctx\<lparr>mt_remaining := []\<rparr>) iv n v = Inr r"
    by (auto simp: call_sss_mint_def run_ok cpi_mint_handler_def Let_def guarded_Inr)
  show "call_sss_burn rt w ctx iv n v = Inr b \<longleftrightarrow> cpi_burn_handler rt w ctx iv n v = Inr b"
    by (auto simp: call_sss_burn_def run_ok cpi_burn_handler_def Let_def guarded_Inr)
  assume "call_sss_mint rt w ctx iv n v = Inr r \<and> flag_set (data_of (mt_config ctx)) FLAG_POR_HALT_ON_BREACH"
  with mint have "cpi_mint_handler rt w (ctx\<lparr>mt_remaining := []\<rparr>) iv n v = Inr r" "flag_set (data_of (mt_config ctx)) FLAG_POR_HALT_ON_BREACH"
    by simp_all
  then show False
    by (auto simp: cpi_mint_handler_def mint_body_def Let_def guarded_Inr run_ok)
qed

section \<open>Examples\<close>

text \<open>A crate built for the reference runtime, and the account of interface version 1 of mint 5.\<close>

definition demo_sdk :: sdk where "demo_sdk = \<lparr>sdk_from_str = (\<lambda>_. 77), sdk_find = (\<lambda>seeds program. (ref_pda seeds, 255))\<rparr>"

definition demo_interface :: "interface_version account" where
  "demo_interface = \<lparr>key_of = ref_pda (interface_seeds 5),
     data_of = \<lparr>iv_mint = 5, iv_version = 1, iv_active = True, iv_namespace = INTERFACE_NAMESPACE, iv_bump = 255\<rparr>\<rparr>"


theorem client_requests_unknown_witness:
  "read_request (\<lambda>s. if s = ''cpi_mint'' then [0x8e, 0xac, 0x36, 0x50, 0xbf, 0x12, 0xd1, 0xd5]
       else [0x96, 0xd3, 0xfd, 0xdd, 0x18, 0x73, 0x57, 0x6e])
     (ins_data (build_cpi_mint_ix demo_sdk
       \<lparr>ca_minter = 9, ca_config = 1, ca_minter_info = 2, ca_mint = 5, ca_token_account = 20, ca_interface_version_pda = 3,
        ca_token_program = 4, ca_amount = 80, ca_required_version = 1\<rparr>)) = None"
  by (rule client_requests_unknown [THEN conjunct1]) simp_all

end
