(* ===== verification/Wire.thy ===== *)
theory Wire
  imports Bytes
begin

text \<open>
  The endpoint of the backend that forwards a signed circuit-breaker transaction (backend/src/routes/circuit\_breaker.rs): base64 text,
  the compact length prefix, and the walk over the bytes of a transaction up to its first instruction. The hash of an instruction's
  name, the parsing of keys and the cluster are parameters; text is taken to be ASCII.
\<close>

section \<open>Base64\<close>

definition CHARS :: string where
  "CHARS = ''ABCDEFGHIJKLMNOPQRSTUVWXYZabcdefghijklmnopqrstuvwxyz0123456789+/''"

definition sextet :: "u32 \<Rightarrow> char" where "sextet m = CHARS ! unat (m AND 0x3f)"

definition word24 :: "u8 \<Rightarrow> u8 \<Rightarrow> u8 \<Rightarrow> u32" where
  "word24 a b c = push_bit 16 (ucast a) OR push_bit 8 (ucast b) OR ucast c"

fun base64_encode :: "u8 list \<Rightarrow> string" where
  "base64_encode [] = []"
| "base64_encode [a] = (let n = word24 a 0 0 in [sextet (drop_bit 18 n), sextet (drop_bit 12 n), CHR ''='', CHR ''=''])"
| "base64_encode [a, b] =
     (let n = word24 a b 0 in [sextet (drop_bit 18 n), sextet (drop_bit 12 n), sextet (drop_bit 6 n), CHR ''=''])"
| "base64_encode (a # b # c # rest) =
     (let n = word24 a b c in
      [sextet (drop_bit 18 n), sextet (drop_bit 12 n), sextet (drop_bit 6 n), sextet n] @ base64_encode rest)"

datatype b64_error = BadCharacter char | BadLength nat

definition code_of :: "char \<Rightarrow> nat" where "code_of c = of_char c"

definition char_val :: "char \<Rightarrow> b64_error + u32" where
  "char_val c =
     (let k = code_of c in
      if 65 \<le> k \<and> k \<le> 90 then Inr (of_nat (k - 65))
      else if 97 \<le> k \<and> k \<le> 122 then Inr (of_nat (k - 97 + 26))
      else if 48 \<le> k \<and> k \<le> 57 then Inr (of_nat (k - 48 + 52))
      else if c = CHR ''+'' then Inr 62
      else if c = CHR ''/'' then Inr 63
      else if c = CHR ''='' then Inr 0
      else Inl (BadCharacter c))"

definition quad_bytes :: "u32 \<Rightarrow> char \<Rightarrow> char \<Rightarrow> u8 list" where
  "quad_bytes n c2 c3 =
     [ucast (drop_bit 16 n AND 0xff)] @ (if c2 \<noteq> CHR ''='' then [ucast (drop_bit 8 n AND 0xff)] else []) @
     (if c3 \<noteq> CHR ''='' then [ucast (n AND 0xff)] else [])"

definition quad_word :: "u32 \<Rightarrow> u32 \<Rightarrow> u32 \<Rightarrow> u32 \<Rightarrow> u32" where
  "quad_word v0 v1 v2 v3 = push_bit 18 v0 OR push_bit 12 v1 OR push_bit 6 v2 OR v3"

fun decode_chunks :: "string \<Rightarrow> b64_error + u8 list" where
  "decode_chunks (c0 # c1 # c2 # c3 # rest) =
     andthen (char_val c0) (\<lambda>v0. andthen (char_val c1) (\<lambda>v1. andthen (char_val c2) (\<lambda>v2. andthen (char_val c3) (\<lambda>v3.
     andthen (decode_chunks rest) (\<lambda>out.
     Inr (quad_bytes (quad_word v0 v1 v2 v3) c2 c3 @ out))))))"
| "decode_chunks _ = Inr []"

definition is_space :: "char \<Rightarrow> bool" where
  "is_space c \<longleftrightarrow> code_of c = 32 \<or> (9 \<le> code_of c \<and> code_of c \<le> 13)"

definition trim :: "string \<Rightarrow> string" where
  "trim s = rev (dropWhile is_space (rev (dropWhile is_space s)))"

definition base64_decode :: "string \<Rightarrow> b64_error + u8 list" where
  "base64_decode s =
     (let t = trim s in guarded [(length t mod 4 = 0, BadLength (length t))] (decode_chunks t))"

section \<open>The compact length prefix\<close>

text \<open>The loop over the bytes behind the offset: at most three of them, because a fourth would shift out of 16 bits.\<close>

fun compact_loop :: "u8 list \<Rightarrow> u16 \<Rightarrow> nat \<Rightarrow> nat \<Rightarrow> (u16 \<times> nat) option" where
  "compact_loop [] val shift consumed = None"
| "compact_loop (b # bs) val shift consumed =
     (let v = val OR push_bit shift (ucast (b AND 0x7f)) in
      if b AND 0x80 = 0 then Some (v, consumed + 1)
      else if 16 \<le> shift + 7 then None
      else compact_loop bs v (shift + 7) (consumed + 1))"

definition read_compact_u16 :: "u8 list \<Rightarrow> nat \<Rightarrow> (u16 \<times> nat) option" where
  "read_compact_u16 buf off = compact_loop (drop off buf) 0 0 0"

section \<open>The walk over a transaction\<close>

datatype tx_error =
    TooShort | NoSignatureCount | NoSignatures | ManySignatures u16 | TruncatedSignatures | TruncatedHeader
  | NoKeyCount | NoKeys | TruncatedKeys | TruncatedBlockhash | NoInstructionCount | NoInstructions
  | TruncatedProgramIndex | ProgramIndexOutOfRange nat | UnexpectedProgram pubkey | NoAccountCount | NoDataLength
  | TruncatedData | DataTooShort nat | DiscriminatorMismatch | FlagMismatch u64

definition CIRCUIT_BREAKER_FLAG :: u64 where "CIRCUIT_BREAKER_FLAG = 1"

definition instruction_name :: "bool \<Rightarrow> string" where
  "instruction_name enabled = (if enabled then ''global:set_feature_flag'' else ''global:clear_feature_flag'')"

text \<open>What is asked of the data of the instruction.\<close>

definition check_data :: "(string \<Rightarrow> u8 list) \<Rightarrow> bool \<Rightarrow> u8 list \<Rightarrow> tx_error + unit" where
  "check_data anchor_discriminator enabled data =
     guarded
       [(16 \<le> length data, DataTooShort (length data)),
        (take 8 data = anchor_discriminator (instruction_name enabled), DiscriminatorMismatch),
        (u64_at 8 data = CIRCUIT_BREAKER_FLAG, FlagMismatch (u64_at 8 data))]
       (Inr ())"

definition validate_circuit_breaker_tx ::
  "(string \<Rightarrow> u8 list) \<Rightarrow> pubkey \<Rightarrow> u8 list \<Rightarrow> bool \<Rightarrow> tx_error + pubkey \<times> u8 list" where
  "validate_circuit_breaker_tx anchor_discriminator program tx enabled =
     guarded [(1 + 64 + 3 + 1 + 32 + 32 \<le> length tx, TooShort)]
       (andthen (ok_or (read_compact_u16 tx 0) NoSignatureCount) (\<lambda>(num_sigs, used).
        let sigs_end = used + unat num_sigs * 64 in
        guarded
          [(num_sigs \<noteq> 0, NoSignatures), (num_sigs \<le> 8, ManySignatures num_sigs), (sigs_end \<le> length tx, TruncatedSignatures),
           (sigs_end + 3 \<le> length tx, TruncatedHeader)]
          (andthen (ok_or (read_compact_u16 tx (sigs_end + 3)) NoKeyCount) (\<lambda>(num_keys, used).
           let keys = sigs_end + 3 + used; keys_end = keys + unat num_keys * 32 in
           guarded
             [(\<not> (num_keys = 0 \<or> tx ! sigs_end = 0), NoKeys), (keys_end \<le> length tx, TruncatedKeys),
              (keys_end + 32 \<le> length tx, TruncatedBlockhash)]
             (let all_keys = map (\<lambda>i. key_at (keys + i * 32) tx) [0..<unat num_keys]; ixs = keys_end + 32 in
              andthen (ok_or (read_compact_u16 tx ixs) NoInstructionCount) (\<lambda>(num_ixs, used).
              let ix = ixs + used in
              guarded [(num_ixs \<noteq> 0, NoInstructions), (ix < length tx, TruncatedProgramIndex)]
                (let index = unat (tx ! ix) in
                 guarded
                   [(index < length all_keys, ProgramIndexOutOfRange index), (all_keys ! index = program, UnexpectedProgram (all_keys ! index))]
                   (andthen (ok_or (read_compact_u16 tx (ix + 1)) NoAccountCount) (\<lambda>(num_accounts, used).
                    let data_at = ix + 1 + used + unat num_accounts in
                    andthen (ok_or (read_compact_u16 tx data_at) NoDataLength) (\<lambda>(data_len, used).
                    guarded [(data_at + used + unat data_len \<le> length tx, TruncatedData)]
                      (andthen (check_data anchor_discriminator enabled (slice (data_at + used) (unat data_len) tx)) (\<lambda>_.
                       Inr (key_at keys tx, tx)))))))))))))"

section \<open>The request\<close>

record cb_request =
  cbq_mint :: string
  cbq_enabled :: bool
  cbq_signed_transaction :: string

record cb_response =
  cbr_mint :: string
  cbr_enabled :: bool
  cbr_message :: string
  cbr_blockhash :: string
  cbr_authority :: pubkey
  cbr_signer :: pubkey

datatype cb_error = InvalidMint string | InvalidBase64 b64_error | ValidationFailed tx_error | RpcError string

datatype audit_entry = Breaker bool string string pubkey

text \<open>The audit entry holds the direction, the mint of the request, the signature that the cluster returned and the signer.\<close>

fun failing :: "('e \<Rightarrow> 'f) \<Rightarrow> 'e + 'a \<Rightarrow> 'f + 'a" where
  "failing f (Inl e) = Inl (f e)"
| "failing f (Inr x) = Inr x"

definition set_circuit_breaker ::
  "(string \<Rightarrow> pubkey option) \<Rightarrow> (string \<Rightarrow> u8 list) \<Rightarrow> pubkey \<Rightarrow> (string \<Rightarrow> string + string) \<Rightarrow> audit_entry list \<Rightarrow> cb_request \<Rightarrow>
     cb_error + cb_response \<times> audit_entry list" where
  "set_circuit_breaker from_str anchor_discriminator program send audit req =
     andthen (ok_or (from_str (cbq_mint req)) (InvalidMint (cbq_mint req))) (\<lambda>_.
     andthen (failing InvalidBase64 (base64_decode (cbq_signed_transaction req))) (\<lambda>tx.
     andthen (failing ValidationFailed (validate_circuit_breaker_tx anchor_discriminator program tx (cbq_enabled req))) (\<lambda>(signer, bytes).
     andthen (failing RpcError (send (base64_encode bytes))) (\<lambda>sig.
     Inr (\<lparr>cbr_mint = cbq_mint req, cbr_enabled = cbq_enabled req, cbr_message = cbq_signed_transaction req, cbr_blockhash = sig,
           cbr_authority = signer, cbr_signer = signer\<rparr>,
          audit @ [Breaker (cbq_enabled req) (cbq_mint req) sig signer])))))"

section \<open>Base64 comes back\<close>

lemma upt_64:
  "[0..<64] =
    [0, 1, 2, 3, 4, 5, 6, 7, 8, 9, 10, 11, 12, 13, 14, 15, 16, 17, 18, 19, 20, 21, 22, 23, 24, 25, 26, 27, 28, 29,
     30, 31, 32, 33, 34, 35, 36, 37, 38, 39, 40, 41, 42, 43, 44, 45, 46, 47, 48, 49, 50, 51, 52, 53, 54, 55, 56,
     57, 58, 59, 60, 61, 62, 63]"
  by code_simp

lemma char_vals: "map char_val CHARS = map (\<lambda>i. Inr (of_nat i)) [0..<64]"
  by (simp add: CHARS_def char_val_def code_of_def upt_64 Let_def)

lemma char_val_alphabet: "i < 64 \<Longrightarrow> char_val (CHARS ! i) = Inr (of_nat i) \<and> CHARS ! i \<noteq> CHR ''=''"
proof
  assume i: "i < 64"
  have "length CHARS = 64" by (simp add: CHARS_def)
  with i show "char_val (CHARS ! i) = Inr (of_nat i)"
    using arg_cong [OF char_vals, of "\<lambda>xs. xs ! i"] by simp
  have "CHR ''='' \<notin> set CHARS" by (simp add: CHARS_def)
  with i \<open>length CHARS = 64\<close> show "CHARS ! i \<noteq> CHR ''=''" by (metis nth_mem)
qed

lemma sextet_val: "char_val (sextet m) = Inr (m AND 0x3f)" "sextet m \<noteq> CHR ''=''"
proof -
  have "unat (m AND 0x3f) < 64"
    using word_and_le1 [of m "0x3f"] by (simp add: word_le_nat_alt)
  from char_val_alphabet [OF this] show "char_val (sextet m) = Inr (m AND 0x3f)" "sextet m \<noteq> CHR ''=''"
    by (simp_all add: sextet_def)
qed

lemma pad_val: "char_val (CHR ''='') = Inr 0"
  by (simp add: char_val_def code_of_def)

text \<open>Four sextets make up 24 bits, and 24 bits three bytes.\<close>

lemma four_sextets:
  fixes n :: u32
  assumes "n < 16777216"
  shows "quad_word (drop_bit 18 n AND 0x3f) (drop_bit 12 n AND 0x3f) (drop_bit 6 n AND 0x3f) (n AND 0x3f) = n"
proof (rule bit_word_eqI)
  fix k assume k: "k < LENGTH(32)"
  have m: "(0x3f :: u32) = mask 6" by (simp add: mask_eq_exp_minus_1)
  have "take_bit 24 n = n" using less_mask_eq [of n 24] assms by (simp add: take_bit_eq_mask)
  then have high: "bit n k \<Longrightarrow> k < 24" by (metis bit_take_bit_iff)
  consider "k < 6" | "6 \<le> k" "k < 12" | "12 \<le> k" "k < 18" | "18 \<le> k" "k < 24" | "24 \<le> k" by linarith
  then show "bit (quad_word (drop_bit 18 n AND 0x3f) (drop_bit 12 n AND 0x3f) (drop_bit 6 n AND 0x3f) (n AND 0x3f)) k = bit n k"
    unfolding m quad_word_def using high k by cases (auto simp: bit_simps)
qed

lemma word24_bytes:
  fixes a b c :: u8
  shows "ucast (drop_bit 16 (word24 a b c) AND 0xff) = a" "ucast (drop_bit 8 (word24 a b c) AND 0xff) = b"
    "ucast (word24 a b c AND 0xff) = c" "word24 a b c < 16777216"
proof -
  have m: "(0xff :: u32) = mask 8" by (simp add: mask_eq_exp_minus_1)
  have short: "\<not> bit x k" if "8 \<le> k" for x :: u8 and k using that bit_imp_le_length [of x k] by auto
  show "ucast (drop_bit 16 (word24 a b c) AND 0xff) = a" "ucast (drop_bit 8 (word24 a b c) AND 0xff) = b" "ucast (word24 a b c AND 0xff) = c"
    unfolding m word24_def by (rule bit_word_eqI; auto simp: bit_simps short)+
  have "take_bit 24 (word24 a b c) = word24 a b c"
    unfolding word24_def by (rule bit_word_eqI) (auto simp: bit_simps dest: bit_imp_le_length)
  then show "word24 a b c < 16777216" using and_mask_less' [of 24 "word24 a b c"] by (simp add: take_bit_eq_mask)
qed

lemma quad_encode:
  fixes n :: u32
  assumes "n < 16777216"
  shows "decode_chunks (sextet (drop_bit 18 n) # sextet (drop_bit 12 n) # sextet (drop_bit 6 n) # sextet n # rest) =
      andthen (decode_chunks rest) (\<lambda>out. Inr (quad_bytes n (CHR ''A'') (CHR ''A'') @ out))"
    "n AND 0x3f = 0 \<Longrightarrow> decode_chunks (sextet (drop_bit 18 n) # sextet (drop_bit 12 n) # sextet (drop_bit 6 n) # CHR ''='' # rest) =
      andthen (decode_chunks rest) (\<lambda>out. Inr (quad_bytes n (CHR ''A'') (CHR ''='') @ out))"
    "n AND 0x3f = 0 \<Longrightarrow> drop_bit 6 n AND 0x3f = 0 \<Longrightarrow> decode_chunks (sextet (drop_bit 18 n) # sextet (drop_bit 12 n) # CHR ''='' # CHR ''='' # rest) =
      andthen (decode_chunks rest) (\<lambda>out. Inr (quad_bytes n (CHR ''='') (CHR ''='') @ out))"
  using four_sextets [OF assms] by (simp_all add: sextet_val pad_val quad_bytes_def)

lemma padded_sextets:
  fixes a b :: u8
  shows "word24 a b 0 AND 0x3f = 0" "word24 a 0 0 AND 0x3f = 0" "drop_bit 6 (word24 a 0 0) AND 0x3f = 0"
proof -
  have m: "(0x3f :: u32) = mask 6" by (simp add: mask_eq_exp_minus_1)
  show "word24 a b 0 AND 0x3f = 0" "word24 a 0 0 AND 0x3f = 0" "drop_bit 6 (word24 a 0 0) AND 0x3f = 0"
    unfolding m word24_def by (rule bit_word_eqI; auto simp: bit_simps)+
qed

lemma decode_encode: "decode_chunks (base64_encode bs) = Inr bs"
  by (induction bs rule: base64_encode.induct)
    (simp_all add: Let_def quad_encode padded_sextets word24_bytes quad_bytes_def del: decode_chunks.simps(1))

lemma code_of_sextet: "\<not> is_space (sextet m)" "\<not> is_space (CHR ''='')"
proof -
  have "list_all (\<lambda>c. \<not> is_space c) CHARS" by (simp add: CHARS_def is_space_def code_of_def)
  moreover have "unat (m AND 0x3f) < length CHARS"
    using word_and_le1 [of m "0x3f"] by (simp add: word_le_nat_alt CHARS_def)
  ultimately show "\<not> is_space (sextet m)" by (simp add: sextet_def list_all_length)
qed (simp add: is_space_def code_of_def)

lemma encode_shape: "length (base64_encode bs) mod 4 = 0" "\<forall>c \<in> set (base64_encode bs). \<not> is_space c"
  by (induction bs rule: base64_encode.induct) (simp_all add: Let_def code_of_sextet)

lemma trim_none: "\<forall>c \<in> set s. \<not> is_space c \<Longrightarrow> trim s = s"
proof -
  have "dropWhile is_space t = t" if "\<forall>c \<in> set t. \<not> is_space c" for t using that by (cases t) auto
  from this [of s] this [of "rev s"] show "\<forall>c \<in> set s. \<not> is_space c \<Longrightarrow> trim s = s" by (simp add: trim_def)
qed

lemma read_back: "base64_decode (base64_encode bs) = Inr bs"
  by (simp add: base64_decode_def trim_none encode_shape decode_encode)

text \<open>C33: what the backend encodes it reads back: decoding the base64 text of any bytes, padding and all, gives those bytes.\<close>

theorem base64_roundtrip: "base64_decode (base64_encode bs) = Inr bs"
  by (rule read_back)

section \<open>Lengths come back\<close>

text \<open>The encoding of a length in the format of the chain: seven bits to a byte, the lowest first, the top bit for more to come.\<close>

definition compact_bytes :: "nat \<Rightarrow> u8 list" where
  "compact_bytes n =
     (if n < 128 then [of_nat n]
      else if n < 16384 then [of_nat (n mod 128 + 128), of_nat (n div 128)]
      else [of_nat (n mod 128 + 128), of_nat (n div 128 mod 128 + 128), of_nat (n div 16384)])"

lemma compact_step:
  fixes b :: u8
  shows "b AND 0x80 = 0 \<longleftrightarrow> unat b < 128" "ucast (b AND 0x7f) = (of_nat (unat b mod 128) :: u16)"
proof -
  have e: "(0x80 :: u8) = 2 ^ 7" by simp
  have "bit b 7 \<longleftrightarrow> bit (unat b) 7" by (simp add: bit_unsigned_iff)
  then have "b AND 0x80 = 0 \<longleftrightarrow> even (unat b div 2 ^ 7)"
    unfolding e and_exp_eq_0_iff_not_bit by (simp only: bit_iff_odd [of "unat b"] not_not)
  moreover have "unat b div 2 ^ 7 < 2" using unat_lt [of b] by simp
  ultimately show "b AND 0x80 = 0 \<longleftrightarrow> unat b < 128" by auto
  have m: "(0x7f :: u8) = mask 7" by (simp add: mask_eq_exp_minus_1)
  have low: "unat (b AND mask 7) = unat b mod 128"
    by (simp only: take_bit_eq_mask [symmetric] unsigned_take_bit_eq) (simp add: take_bit_eq_mod)
  show "ucast (b AND 0x7f) = (of_nat (unat b mod 128) :: u16)"
    unfolding m by (metis of_nat_unat low)
qed

lemma or_digits:
  fixes n k :: nat
  shows "of_nat (n mod 2 ^ k) OR push_bit k (of_nat (n div 2 ^ k)) = (of_nat n :: u16)"
  by (rule bit_word_eqI) (auto simp: bit_simps take_bit_eq_mod [symmetric] drop_bit_eq_div [symmetric])

lemma compact_loop_bytes:
  assumes "n < 65536"
  shows "compact_loop (compact_bytes n @ rest) 0 0 0 = Some (of_nat n, length (compact_bytes n))"
proof -
  have small: "unat (of_nat k :: u8) = k" if "k < 256" for k using that by (simp add: unat_of_nat)
  have more: "unat (of_nat k + 128 :: u8) = k + 128" if "k < 128" for k using small [of "k + 128"] that by simp
  have two: "of_nat (n mod 128) OR push_bit 7 (of_nat (n div 128 mod 128)) = (of_nat (n mod 16384) :: u16)"
    using or_digits [of "n mod 16384" 7] mod_mult2_eq [of n 128 128] by (simp add: mod_mod_cancel)
  have three: "of_nat (n mod 16384) OR push_bit 14 (of_nat (n div 16384)) = (of_nat n :: u16)"
    using or_digits [of n 14] by simp
  consider "n < 128" | "128 \<le> n" "n < 16384" | "16384 \<le> n" by linarith
  then show ?thesis
  proof cases
    case 1
    then show ?thesis by (simp add: compact_bytes_def compact_step small more Let_def)
  next
    case 2
    then have "n div 128 < 128" by (simp add: div_less_iff_less_mult)
    with 2 two show ?thesis by (simp add: compact_bytes_def compact_step small more Let_def)
  next
    case 3
    with assms have "n div 16384 < 128" by (simp add: div_less_iff_less_mult)
    with 3 two three show ?thesis by (simp add: compact_bytes_def compact_step small more Let_def)
  qed
qed

lemma compact_read:
  assumes "n < 65536" and "off = length pre"
  shows "read_compact_u16 (pre @ compact_bytes n @ rest) off = Some (of_nat n, length (compact_bytes n))"
  using compact_loop_bytes [OF assms(1)] assms(2) by (simp add: read_compact_u16_def)

section \<open>A transaction and its bytes\<close>

text \<open>The legacy format of a transaction: signatures, the three counts of the header, keys, a recent block and the instructions.\<close>

record tx_instruction =
  ti_program :: u8
  ti_accounts :: "u8 list"
  ti_data :: "u8 list"

record legacy_tx =
  lt_signatures :: "u8 list list"
  lt_required :: u8
  lt_readonly_signed :: u8
  lt_readonly_unsigned :: u8
  lt_keys :: "pubkey list"
  lt_blockhash :: "u8 list"
  lt_instructions :: "tx_instruction list"

definition instruction_bytes :: "tx_instruction \<Rightarrow> u8 list" where
  "instruction_bytes ix = [ti_program ix] @ compact_bytes (length (ti_accounts ix)) @ ti_accounts ix @
     compact_bytes (length (ti_data ix)) @ ti_data ix"

definition tx_bytes :: "legacy_tx \<Rightarrow> u8 list" where
  "tx_bytes t =
     compact_bytes (length (lt_signatures t)) @ concat (lt_signatures t) @
     [lt_required t, lt_readonly_signed t, lt_readonly_unsigned t] @
     compact_bytes (length (lt_keys t)) @ concat (map key_bytes (lt_keys t)) @ lt_blockhash t @
     compact_bytes (length (lt_instructions t)) @ concat (map instruction_bytes (lt_instructions t))"

definition wf_tx :: "legacy_tx \<Rightarrow> bool" where
  "wf_tx t \<longleftrightarrow>
     (\<forall>s \<in> set (lt_signatures t). length s = 64) \<and> lt_signatures t \<noteq> [] \<and> length (lt_signatures t) < 65536 \<and>
     lt_keys t \<noteq> [] \<and> length (lt_keys t) < 65536 \<and> length (lt_blockhash t) = 32 \<and> length (lt_instructions t) < 65536 \<and>
     (\<forall>ix \<in> set (lt_instructions t). length (ti_accounts ix) < 65536 \<and> length (ti_data ix) < 65536)"

text \<open>What the endpoint asks of a transaction: it looks at the first instruction, and at nothing behind it.\<close>

definition inspect :: "(string \<Rightarrow> u8 list) \<Rightarrow> pubkey \<Rightarrow> bool \<Rightarrow> legacy_tx \<Rightarrow> tx_error + pubkey" where
  "inspect anchor_discriminator program enabled t =
     guarded
       [(length (lt_signatures t) \<le> 8, ManySignatures (of_nat (length (lt_signatures t)))), (lt_required t \<noteq> 0, NoKeys)]
       (case lt_instructions t of
          [] \<Rightarrow> Inl NoInstructions
        | ix # _ \<Rightarrow>
            (let index = unat (ti_program ix) in
             guarded
               [(index < length (lt_keys t), ProgramIndexOutOfRange index), (lt_keys t ! index = program, UnexpectedProgram (lt_keys t ! index))]
               (andthen (check_data anchor_discriminator enabled (ti_data ix)) (\<lambda>_. Inr (hd (lt_keys t))))))"

lemma compact_length: "1 \<le> length (compact_bytes n)" by (simp add: compact_bytes_def)

lemma length_concat_const: "\<forall>s \<in> set xs. length s = k \<Longrightarrow> length (concat xs) = length xs * k"
  by (induction xs) auto

lemma u16_length: "n < 65536 \<Longrightarrow> unat (of_nat n :: u16) = n" by (simp add: unat_of_nat)

lemma u16_zero: "n < 65536 \<Longrightarrow> (of_nat n :: u16) = 0 \<longleftrightarrow> n = 0"
  using u16_length [of n] by (metis unat_eq_zero)

text \<open>The walk, once the pieces of the bytes have been named.\<close>

lemma walk:
  fixes sigs keys tail :: "u8 list"
  assumes tx: "tx = compact_bytes ns @ sigs @ [r, ro, ru] @ compact_bytes nk @ keys @ hash @ compact_bytes ni @ tail"
    and lengths: "length sigs = ns * 64" "length keys = nk * 32" "length hash = 32" "0 < ns" "0 < nk" "ns < 65536" "nk < 65536" "ni < 65536"
    and first: "0 < ni \<Longrightarrow> tail = [prog] @ compact_bytes na @ accounts @ compact_bytes nd @ data @ others"
      "0 < ni \<Longrightarrow> length accounts = na" "0 < ni \<Longrightarrow> length data = nd" "na < 65536" "nd < 65536"
  shows "validate_circuit_breaker_tx disc program tx enabled =
    guarded [(ns \<le> 8, ManySignatures (of_nat ns)), (r \<noteq> 0, NoKeys), (ni \<noteq> 0, NoInstructions),
        (unat prog < nk, ProgramIndexOutOfRange (unat prog)),
        (key_at (unat prog * 32) keys = program, UnexpectedProgram (key_at (unat prog * 32) keys))]
      (andthen (check_data disc enabled data) (\<lambda>_. Inr (key_at 0 keys, tx)))"
proof -
  define c1 c2 c3 c4 c5 where c: "c1 = compact_bytes ns" "c2 = compact_bytes nk" "c3 = compact_bytes ni" "c4 = compact_bytes na" "c5 = compact_bytes nd"
  note one = compact_length [of ns, folded c] compact_length [of nk, folded c] compact_length [of ni, folded c]
  define S where "S = length c1 + ns * 64"
  define K where "K = S + 3 + length c2"
  define E where "E = K + nk * 32"
  have reads: "read_compact_u16 tx 0 = Some (of_nat ns, length c1)"
    "read_compact_u16 tx (S + 3) = Some (of_nat nk, length c2)" "read_compact_u16 tx (E + 32) = Some (of_nat ni, length c3)"
    using compact_read [of ns 0 "[]" "sigs @ [r, ro, ru] @ c2 @ keys @ hash @ c3 @ tail", folded c]
      compact_read [of nk "S + 3" "c1 @ sigs @ [r, ro, ru]" "keys @ hash @ c3 @ tail", folded c]
      compact_read [of ni "E + 32" "c1 @ sigs @ [r, ro, ru] @ c2 @ keys @ hash" tail, folded c] lengths
    by (simp_all add: tx c [symmetric] S_def K_def E_def)
  have size: "length tx = E + 32 + length c3 + length tail" and here: "tx ! S = r"
    using lengths by (simp_all add: tx c [symmetric] S_def K_def E_def nth_append)
  have key: "key_at (K + i * 32) tx = key_at (i * 32) keys" if "i < nk" for i
  proof -
    have "tx = (c1 @ sigs @ [r, ro, ru] @ c2) @ keys @ (hash @ c3 @ tail)" by (simp add: tx c)
    from at_part(1) [OF this, of "K + i * 32"] that lengths show ?thesis by (simp add: S_def K_def)
  qed
  have long: "133 \<le> length tx" using lengths one by (simp add: size S_def K_def E_def)
  define I where "I = E + 32 + length c3"
  note unfolded = validate_circuit_breaker_tx_def reads here long u16_length u16_zero lengths
  note fold = S_def [symmetric] K_def [symmetric] E_def [symmetric] I_def [symmetric]
  have fits: "S \<le> length tx" "S + 3 \<le> length tx" "E \<le> length tx" "E + 32 \<le> length tx" "I \<le> length tx"
    by (simp_all add: size K_def E_def I_def)
  show ?thesis
  proof (cases "ni = 0")
    case True
    then show ?thesis using fits lengths by (simp add: unfolded fold Let_def u16_zero word_le_nat_alt)
  next
    case False
    then have tail: "tail = [prog] @ c4 @ accounts @ c5 @ data @ others" "length accounts = na" "length data = nd" using first by (simp_all add: c)
    define D where "D = I + 1 + length c4 + na"
    define pre where "pre = c1 @ sigs @ [r, ro, ru] @ c2 @ keys @ hash @ c3"
    have pre: "length pre = I" using lengths by (simp add: pre_def I_def E_def K_def S_def)
    have whole: "tx = pre @ prog # c4 @ accounts @ c5 @ data @ others" by (simp add: tx tail pre_def c)
    have "slice (D + length c5) nd ((pre @ prog # c4 @ accounts @ c5) @ data @ others) = data"
      by (rule slice_field) (use tail pre in \<open>simp_all add: D_def\<close>)
    then have rest: "tx ! I = prog" "read_compact_u16 tx (I + 1) = Some (of_nat na, length c4)" "read_compact_u16 tx D = Some (of_nat nd, length c5)"
      "slice (D + length c5) nd tx = data" "D + length c5 + nd \<le> length tx" "I < length tx"
      using compact_read [of na "I + 1" "pre @ [prog]" "accounts @ c5 @ data @ others", folded c]
        compact_read [of nd D "pre @ [prog] @ c4 @ accounts" "data @ others", folded c] first(4,5) tail(2,3) pre
      by (simp_all add: whole D_def nth_append)
    have D: "Suc (I + length c4 + na) = D" and K0: "key_at K tx = key_at 0 keys"
      using key [of 0] lengths by (simp_all add: D_def)
    have fit: "Suc (I + length c4 + na + length c5 + nd) \<le> length tx" using rest(5) by (simp add: D_def)
    show ?thesis using fits lengths False rest first(4,5) fit by (simp add: unfolded fold D Let_def u16_zero word_le_nat_alt key K0)
  qed
qed

text \<open>For the bytes of any well-formed transaction, of any number of signatures, keys and instructions, the walk over the bytes decides
  what looking at the transaction itself decides.\<close>

lemma walk_is_inspection:
  assumes "wf_tx t"
  shows "validate_circuit_breaker_tx disc program (tx_bytes t) enabled =
    andthen (inspect disc program enabled t) (\<lambda>signer. Inr (signer, tx_bytes t))"
proof -
  have key: "key_at (i * 32) (concat (map key_bytes ks)) = ks ! i" if "i < length ks" for i ks
    using slice_key_list [OF that, of "[]"] by (simp add: key_at_def mult.commute)
  have keys: "lt_keys t \<noteq> []" "hd (lt_keys t) = lt_keys t ! 0" using assms by (simp_all add: wf_tx_def hd_conv_nth)
  have lens: "length (concat (lt_signatures t)) = length (lt_signatures t) * 64"
    "length (concat (map key_bytes (lt_keys t))) = length (lt_keys t) * 32"
    using assms by (auto simp: wf_tx_def intro: length_concat_const)
  show ?thesis
  proof (cases "lt_instructions t")
    case Nil
    with assms lens have "validate_circuit_breaker_tx disc program (tx_bytes t) enabled =
        guarded [(length (lt_signatures t) \<le> 8, ManySignatures (of_nat (length (lt_signatures t)))), (lt_required t \<noteq> 0, NoKeys), (0 \<noteq> (0::nat), NoInstructions),
            (unat (0::u8) < length (lt_keys t), ProgramIndexOutOfRange (unat (0::u8))),
            (key_at (unat (0::u8) * 32) (concat (map key_bytes (lt_keys t))) = program, UnexpectedProgram (key_at (unat (0::u8) * 32) (concat (map key_bytes (lt_keys t)))))]
          (andthen (check_data disc enabled []) (\<lambda>_. Inr (key_at 0 (concat (map key_bytes (lt_keys t))), tx_bytes t)))"
      by (intro walk [where tail = "[]" and na = 0 and nd = 0]) (auto simp: tx_bytes_def wf_tx_def)
    then show ?thesis using Nil by (simp add: inspect_def)
  next
    case (Cons ix ixs)
    with assms lens have "validate_circuit_breaker_tx disc program (tx_bytes t) enabled =
        guarded [(length (lt_signatures t) \<le> 8, ManySignatures (of_nat (length (lt_signatures t)))), (lt_required t \<noteq> 0, NoKeys),
            (length (lt_instructions t) \<noteq> 0, NoInstructions), (unat (ti_program ix) < length (lt_keys t), ProgramIndexOutOfRange (unat (ti_program ix))),
            (key_at (unat (ti_program ix) * 32) (concat (map key_bytes (lt_keys t))) = program,
              UnexpectedProgram (key_at (unat (ti_program ix) * 32) (concat (map key_bytes (lt_keys t)))))]
          (andthen (check_data disc enabled (ti_data ix)) (\<lambda>_. Inr (key_at 0 (concat (map key_bytes (lt_keys t))), tx_bytes t)))"
      by (intro walk [where others = "concat (map instruction_bytes ixs)"]) (auto simp: tx_bytes_def wf_tx_def instruction_bytes_def)
    then show ?thesis using Cons keys key [of 0 "lt_keys t"] key [of "unat (ti_program ix)" "lt_keys t"]
      by (cases "check_data disc enabled (ti_data ix)") (simp_all add: inspect_def Let_def)
  qed
qed

text \<open>what the circuit-breaker endpoint forwards: given the base64 text of any well-formed transaction, it sends that transaction on
  exactly when its first instruction is the program's and sets (or clears) the one flag, names the first key as the signer, and
  writes one audit entry; further instructions, the accounts that are named and the mint of the request play no part.\<close>

theorem endpoint_inspects_first_instruction:
  assumes "wf_tx t" and "from_str (cbq_mint req) = Some m" and "cbq_signed_transaction req = base64_encode (tx_bytes t)"
  shows "set_circuit_breaker from_str disc program send audit req =
    andthen (failing ValidationFailed (inspect disc program (cbq_enabled req) t)) (\<lambda>signer.
    andthen (failing RpcError (send (cbq_signed_transaction req))) (\<lambda>sig.
    Inr (\<lparr>cbr_mint = cbq_mint req, cbr_enabled = cbq_enabled req, cbr_message = cbq_signed_transaction req, cbr_blockhash = sig,
          cbr_authority = signer, cbr_signer = signer\<rparr>,
         audit @ [Breaker (cbq_enabled req) (cbq_mint req) sig signer])))"
  using assms(2,3) by (cases "inspect disc program (cbq_enabled req) t") (simp_all add: set_circuit_breaker_def read_back walk_is_inspection [OF assms(1)])

text \<open>The first of two instructions sets the circuit breaker; the other could be anything.\<close>

definition demo_disc :: "string \<Rightarrow> u8 list" where
  "demo_disc name = (if name = ''global:set_feature_flag'' then [1, 2, 3, 4, 5, 6, 7, 8] else [8, 7, 6, 5, 4, 3, 2, 1])"

definition demo_tx :: legacy_tx where
  "demo_tx =
     \<lparr>lt_signatures = [replicate 64 0], lt_required = 1, lt_readonly_signed = 0, lt_readonly_unsigned = 1, lt_keys = [7, 500, 9],
      lt_blockhash = replicate 32 1,
      lt_instructions =
        [\<lparr>ti_program = 1, ti_accounts = [0], ti_data = [1, 2, 3, 4, 5, 6, 7, 8] @ u64_bytes 1\<rparr>,
         \<lparr>ti_program = 2, ti_accounts = [0, 1], ti_data = [3]\<rparr>]\<rparr>"

theorem endpoint_inspects_first_instruction_witness:
  "\<exists>r. set_circuit_breaker (\<lambda>_. Some 5) demo_disc 500 (\<lambda>_. Inr ''sig'') []
     \<lparr>cbq_mint = ''5'', cbq_enabled = True, cbq_signed_transaction = base64_encode (tx_bytes demo_tx)\<rparr> =
     Inr (r, [Breaker True ''5'' ''sig'' 7])"
proof -
  have wf: "wf_tx demo_tx" by (simp add: wf_tx_def demo_tx_def)
  have "inspect demo_disc 500 True demo_tx = Inr 7"
    by (simp add: inspect_def demo_tx_def check_data_def instruction_name_def demo_disc_def at_field CIRCUIT_BREAKER_FLAG_def)
  with endpoint_inspects_first_instruction [OF wf, of "\<lambda>_. Some 5" "\<lparr>cbq_mint = ''5'', cbq_enabled = True,
      cbq_signed_transaction = base64_encode (tx_bytes demo_tx)\<rparr>" 5 demo_disc 500 "\<lambda>_. Inr ''sig''" "[]"]
  show ?thesis by simp
qed

end
