(* ===== verification/Books.thy ===== *)
theory Books
  imports Machine Oracle "HOL-Library.List_Lexorder" "HOL-Library.Char_ord"
begin

text \<open>
  The books of the backend: the tables of minted and burnt amounts, the blacklist, the audit log and the API keys (backend/src/db.rs),
  the endpoints that write and read them (backend/src/routes/{mint,burn,supply,events,compliance,apikeys}.rs) and the two middlewares in
  front of them (backend/src/auth.rs). A handler answers with an error or a result, and the tables may have changed in either case. Row
  identities, keys and the time (as text) are chosen outside; the rate limiter and the confirmation of a signature are parameters.
\<close>

section \<open>Tables\<close>

datatype app_error = Database | NotFound string | BadRequest string | UnprocessableEntity string | Internal string

record mint_event =
  me_id :: string
  me_token_mint :: string
  me_amount :: u64
  me_recipient :: string
  me_tx_signature :: "string option"
  me_created_at :: string

record burn_event =
  be_id :: string
  be_token_mint :: string
  be_amount :: u64
  be_source :: string
  be_tx_signature :: "string option"
  be_created_at :: string

record blacklist_entry =
  ble_id :: string
  ble_address :: string
  ble_reason :: string
  ble_created_at :: string

record audit_row =
  ae_id :: string
  ae_action :: string
  ae_address :: string
  ae_details :: string
  ae_created_at :: string

record api_key =
  ak_id :: string
  ak_key :: string
  ak_label :: string
  ak_is_admin :: bool
  ak_created_at :: string

datatype notice = Minted mint_event | Burned burn_event

record books =
  bk_mint_events :: "mint_event list"
  bk_burn_events :: "burn_event list"
  bk_blacklist :: "blacklist_entry list"
  bk_audit_log :: "audit_row list"
  bk_api_keys :: "api_key list"
  bk_dispatched :: "(string \<times> notice) list"

definition empty_books :: books where
  "empty_books = \<lparr>bk_mint_events = [], bk_burn_events = [], bk_blacklist = [], bk_audit_log = [], bk_api_keys = [], bk_dispatched = []\<rparr>"

text \<open>A handler that needs the tables of a step that may fail.\<close>

fun on_ok :: "(app_error + 'a) \<times> 'd \<Rightarrow> ('a \<Rightarrow> 'd \<Rightarrow> (app_error + 'b) \<times> 'd) \<Rightarrow> (app_error + 'b) \<times> 'd" where
  "on_ok (Inl e, d) k = (Inl e, d)"
| "on_ok (Inr x, d) k = k x d"

text \<open>What a query that orders by a column, newest first, and stops at a limit returns.\<close>

definition newest :: "('r \<Rightarrow> string) \<Rightarrow> nat \<Rightarrow> 'r list \<Rightarrow> 'r list" where
  "newest key n rows = take n (rev (sort_key key rows))"

text \<open>The sum of a column: an error when the running sum leaves 64 bits.\<close>

definition fits :: "int \<Rightarrow> bool" where "fits x \<longleftrightarrow> - (2 ^ 63) \<le> x \<and> x < 2 ^ 63"

fun sql_sum :: "int \<Rightarrow> int list \<Rightarrow> app_error + int" where
  "sql_sum acc [] = Inr acc"
| "sql_sum acc (x # xs) = (if fits (acc + x) then sql_sum (acc + x) xs else Inl Database)"

section \<open>Rows\<close>

definition record_mint ::
  "string \<Rightarrow> string \<Rightarrow> string \<Rightarrow> u64 \<Rightarrow> string \<Rightarrow> string option \<Rightarrow> books \<Rightarrow> (app_error + mint_event) \<times> books" where
  "record_mint i now token_mint amount recipient sig db =
     (if i \<in> me_id ` set (bk_mint_events db) then (Inl Database, db)
      else let e = \<lparr>me_id = i, me_token_mint = token_mint, me_amount = amount, me_recipient = recipient, me_tx_signature = sig, me_created_at = now\<rparr> in
           (Inr e, db\<lparr>bk_mint_events := bk_mint_events db @ [e]\<rparr>))"

definition record_burn ::
  "string \<Rightarrow> string \<Rightarrow> string \<Rightarrow> u64 \<Rightarrow> string \<Rightarrow> string option \<Rightarrow> books \<Rightarrow> (app_error + burn_event) \<times> books" where
  "record_burn i now token_mint amount source sig db =
     (if i \<in> be_id ` set (bk_burn_events db) then (Inl Database, db)
      else let e = \<lparr>be_id = i, be_token_mint = token_mint, be_amount = amount, be_source = source, be_tx_signature = sig, be_created_at = now\<rparr> in
           (Inr e, db\<lparr>bk_burn_events := bk_burn_events db @ [e]\<rparr>))"

definition of_mint :: "string option \<Rightarrow> string \<Rightarrow> bool" where
  "of_mint want m \<longleftrightarrow> (case want of None \<Rightarrow> True | Some w \<Rightarrow> m = w)"

definition get_supply :: "string option \<Rightarrow> books \<Rightarrow> app_error + u64 \<times> u64" where
  "get_supply token_mint db =
     andthen (sql_sum 0 (map (u64_as_i64 \<circ> me_amount) (filter (of_mint token_mint \<circ> me_token_mint) (bk_mint_events db)))) (\<lambda>total_minted.
     andthen (sql_sum 0 (map (u64_as_i64 \<circ> be_amount) (filter (of_mint token_mint \<circ> be_token_mint) (bk_burn_events db)))) (\<lambda>total_burned.
     Inr (i64_as_u64 total_minted, i64_as_u64 total_burned)))"

definition between :: "string option \<Rightarrow> string option \<Rightarrow> string \<Rightarrow> bool" where
  "between start stop t \<longleftrightarrow> (case start of None \<Rightarrow> True | Some f \<Rightarrow> f \<le> t) \<and> (case stop of None \<Rightarrow> True | Some u \<Rightarrow> t \<le> u)"

definition list_mint_events :: "string option \<Rightarrow> nat \<Rightarrow> string option \<Rightarrow> string option \<Rightarrow> books \<Rightarrow> mint_event list" where
  "list_mint_events token_mint n start stop db =
     newest me_created_at n (filter (\<lambda>e. of_mint token_mint (me_token_mint e) \<and> between start stop (me_created_at e)) (bk_mint_events db))"

definition list_burn_events :: "string option \<Rightarrow> nat \<Rightarrow> string option \<Rightarrow> string option \<Rightarrow> books \<Rightarrow> burn_event list" where
  "list_burn_events token_mint n start stop db =
     newest be_created_at n (filter (\<lambda>e. of_mint token_mint (be_token_mint e) \<and> between start stop (be_created_at e)) (bk_burn_events db))"

text \<open>Inserting or replacing drops every row with the same identity or the same address.\<close>

definition add_blacklist :: "string \<Rightarrow> string \<Rightarrow> string \<Rightarrow> string \<Rightarrow> books \<Rightarrow> (app_error + blacklist_entry) \<times> books" where
  "add_blacklist i now address reason db =
     (let e = \<lparr>ble_id = i, ble_address = address, ble_reason = reason, ble_created_at = now\<rparr> in
      (Inr e, db\<lparr>bk_blacklist := filter (\<lambda>r. ble_id r \<noteq> i \<and> ble_address r \<noteq> address) (bk_blacklist db) @ [e]\<rparr>))"

definition remove_blacklist :: "string \<Rightarrow> books \<Rightarrow> bool \<times> books" where
  "remove_blacklist i db =
     (list_ex (\<lambda>r. ble_id r = i) (bk_blacklist db), db\<lparr>bk_blacklist := filter (\<lambda>r. ble_id r \<noteq> i) (bk_blacklist db)\<rparr>)"

definition is_blacklisted_row :: "string \<Rightarrow> books \<Rightarrow> bool" where
  "is_blacklisted_row address db \<longleftrightarrow> list_ex (\<lambda>r. ble_address r = address) (bk_blacklist db)"

definition get_blacklist :: "books \<Rightarrow> blacklist_entry list" where
  "get_blacklist db = newest ble_created_at (length (bk_blacklist db)) (bk_blacklist db)"

definition add_audit :: "string \<Rightarrow> string \<Rightarrow> string \<Rightarrow> string \<Rightarrow> string \<Rightarrow> books \<Rightarrow> (app_error + audit_row) \<times> books" where
  "add_audit i now action address details db =
     (if i \<in> ae_id ` set (bk_audit_log db) then (Inl Database, db)
      else let e = \<lparr>ae_id = i, ae_action = action, ae_address = address, ae_details = details, ae_created_at = now\<rparr> in
           (Inr e, db\<lparr>bk_audit_log := bk_audit_log db @ [e]\<rparr>))"

definition get_audit_log :: "string option \<Rightarrow> string option \<Rightarrow> nat \<Rightarrow> books \<Rightarrow> audit_row list" where
  "get_audit_log address action n db =
     newest ae_created_at n (filter (\<lambda>e. of_mint address (ae_address e) \<and> of_mint action (ae_action e)) (bk_audit_log db))"

text \<open>The key is random text behind a prefix; identity and key are unique columns.\<close>

definition create_api_key_with_role ::
  "string \<Rightarrow> string \<Rightarrow> string \<Rightarrow> string \<Rightarrow> bool \<Rightarrow> books \<Rightarrow> (app_error + api_key) \<times> books" where
  "create_api_key_with_role i random now label is_admin db =
     (if i \<in> ak_id ` set (bk_api_keys db) \<or> ''sss_'' @ random \<in> ak_key ` set (bk_api_keys db) then (Inl Database, db)
      else let e = \<lparr>ak_id = i, ak_key = ''sss_'' @ random, ak_label = label, ak_is_admin = is_admin, ak_created_at = now\<rparr> in
           (Inr e, db\<lparr>bk_api_keys := bk_api_keys db @ [e]\<rparr>))"

definition create_api_key :: "string \<Rightarrow> string \<Rightarrow> string \<Rightarrow> string \<Rightarrow> books \<Rightarrow> (app_error + api_key) \<times> books" where
  "create_api_key i random now label db = create_api_key_with_role i random now label False db"

definition validate_api_key :: "string \<Rightarrow> books \<Rightarrow> bool option" where
  "validate_api_key key db = map_option ak_is_admin (find (\<lambda>r. ak_key r = key) (bk_api_keys db))"

definition role_of :: "bool \<Rightarrow> string" where "role_of admin = (if admin then ''admin'' else ''read'')"

definition get_api_key_role :: "string \<Rightarrow> books \<Rightarrow> string option" where
  "get_api_key_role key db = map_option (role_of \<circ> ak_is_admin) (find (\<lambda>r. ak_key r = key) (bk_api_keys db))"

definition list_api_keys :: "books \<Rightarrow> api_key list" where
  "list_api_keys db = newest ak_created_at (length (bk_api_keys db)) (bk_api_keys db)"

definition delete_api_key :: "string \<Rightarrow> books \<Rightarrow> bool \<times> books" where
  "delete_api_key i db = (list_ex (\<lambda>r. ak_id r = i) (bk_api_keys db), db\<lparr>bk_api_keys := filter (\<lambda>r. ak_id r \<noteq> i) (bk_api_keys db)\<rparr>)"

section \<open>Endpoints\<close>

fun decimal :: "nat \<Rightarrow> string" where
  "decimal n = (if n < 10 then [char_of (48 + n)] else decimal (n div 10) @ [char_of (48 + n mod 10)])"

declare decimal.simps [simp del]

record mint_request =
  mq_token_mint :: string
  mq_amount :: u64
  mq_recipient :: string
  mq_tx_signature :: "string option"

record burn_request =
  bq_token_mint :: string
  bq_amount :: u64
  bq_source :: string
  bq_tx_signature :: "string option"

text \<open>A signature is confirmed only if one is given; the confirmation answers with the reason of a refusal.\<close>

definition confirmed :: "(string \<Rightarrow> string option) \<Rightarrow> string option \<Rightarrow> app_error + unit" where
  "confirmed verify sig =
     (case sig of None \<Rightarrow> Inr ()
      | Some t \<Rightarrow> (case verify t of None \<Rightarrow> Inr () | Some e \<Rightarrow> Inl (BadRequest (''tx_signature verification failed: '' @ e))))"

definition shown :: "string option \<Rightarrow> string" where "shown sig = (case sig of None \<Rightarrow> ''none'' | Some t \<Rightarrow> t)"

text \<open>Recording a mint: the identities of its row and of its audit entry are \<open>i\<close> and \<open>j\<close>.\<close>

definition mint ::
  "(string \<Rightarrow> string option) \<Rightarrow> string \<Rightarrow> string \<Rightarrow> string \<Rightarrow> mint_request \<Rightarrow> books \<Rightarrow> (app_error + mint_event) \<times> books" where
  "mint verify i j now req db =
     on_ok (guarded
         [(mq_token_mint req \<noteq> [], BadRequest ''token_mint is required''), (mq_recipient req \<noteq> [], BadRequest ''recipient is required''),
          (mq_amount req \<noteq> 0, BadRequest ''amount must be greater than 0'')]
         (confirmed verify (mq_tx_signature req)), db) (\<lambda>_ db.
     if is_blacklisted_row (mq_recipient req) db then
       on_ok (add_audit j now ''MINT_BLOCKED'' (mq_recipient req) (''Blocked mint of '' @ decimal (unat (mq_amount req)) @ '' to blacklisted address'') db) (\<lambda>_ db.
       (Inl (BadRequest (''Recipient '' @ mq_recipient req @ '' is blacklisted'')), db))
     else
       on_ok (record_mint i now (mq_token_mint req) (mq_amount req) (mq_recipient req) (mq_tx_signature req) db) (\<lambda>e db.
       on_ok (add_audit j now ''MINT'' (mq_recipient req)
           (''Minted '' @ decimal (unat (mq_amount req)) @ '' tokens on mint '' @ mq_token_mint req @ '' tx='' @ shown (mq_tx_signature req)) db) (\<lambda>_ db.
       (Inr e, db\<lparr>bk_dispatched := bk_dispatched db @ [(''mint'', Minted e)]\<rparr>))))"

definition burn ::
  "(string \<Rightarrow> string option) \<Rightarrow> string \<Rightarrow> string \<Rightarrow> string \<Rightarrow> burn_request \<Rightarrow> books \<Rightarrow> (app_error + burn_event) \<times> books" where
  "burn verify i j now req db =
     on_ok (guarded
         [(bq_token_mint req \<noteq> [], BadRequest ''token_mint is required''), (bq_source req \<noteq> [], BadRequest ''source is required''),
          (bq_amount req \<noteq> 0, BadRequest ''amount must be greater than 0'')]
         (confirmed verify (bq_tx_signature req)), db) (\<lambda>_ db.
     on_ok (record_burn i now (bq_token_mint req) (bq_amount req) (bq_source req) (bq_tx_signature req) db) (\<lambda>e db.
     on_ok (add_audit j now ''BURN'' (bq_source req)
         (''Burned '' @ decimal (unat (bq_amount req)) @ '' tokens on mint '' @ bq_token_mint req @ '' tx='' @ shown (bq_tx_signature req)) db) (\<lambda>_ db.
     (Inr e, db\<lparr>bk_dispatched := bk_dispatched db @ [(''burn'', Burned e)]\<rparr>))))"

record supply_response =
  sup_token_mint :: string
  sup_total_minted :: u64
  sup_total_burned :: u64
  sup_circulating_supply :: u64

definition supply_of :: "string option \<Rightarrow> books \<Rightarrow> app_error + supply_response" where
  "supply_of token_mint db =
     andthen (get_supply token_mint db) (\<lambda>(total_minted, total_burned).
     Inr \<lparr>sup_token_mint = (case token_mint of None \<Rightarrow> ''all'' | Some m \<Rightarrow> m), sup_total_minted = total_minted, sup_total_burned = total_burned,
          sup_circulating_supply = saturating_sub total_minted total_burned\<rparr>)"

definition page :: "u32 option \<Rightarrow> nat" where "page n = (case n of None \<Rightarrow> 100 | Some k \<Rightarrow> min (unat k) 1000)"

definition events :: "string option \<Rightarrow> u32 option \<Rightarrow> string option \<Rightarrow> string option \<Rightarrow> books \<Rightarrow> mint_event list \<times> burn_event list" where
  "events token_mint n start stop db =
     (list_mint_events token_mint (page n) start stop db, list_burn_events token_mint (page n) start stop db)"

definition post_blacklist ::
  "string \<Rightarrow> string \<Rightarrow> string \<Rightarrow> string \<Rightarrow> string \<Rightarrow> books \<Rightarrow> (app_error + blacklist_entry) \<times> books" where
  "post_blacklist i j now address reason db =
     on_ok (guarded [(address \<noteq> [], BadRequest ''address is required''), (reason \<noteq> [], BadRequest ''reason is required'')] (Inr ()), db) (\<lambda>_ db.
     on_ok (add_blacklist i now address reason db) (\<lambda>e db.
     on_ok (add_audit j now ''BLACKLIST_ADD'' address (''Reason: '' @ reason) db) (\<lambda>_ db. (Inr e, db))))"

definition delete_blacklist :: "string \<Rightarrow> books \<Rightarrow> (app_error + string) \<times> books" where
  "delete_blacklist i db =
     (case remove_blacklist i db of
        (removed, db') \<Rightarrow> (if removed then Inr i else Inl (NotFound (''Blacklist entry '' @ i @ '' not found'')), db'))"

definition get_audit :: "string option \<Rightarrow> string option \<Rightarrow> u32 option \<Rightarrow> books \<Rightarrow> audit_row list" where
  "get_audit address action n db = get_audit_log address action (page n) db"

text \<open>What the listing shows of a key: the identity, the label, the role, the first eight characters, and the rest of the row.\<close>

type_synonym key_view = "string \<times> string \<times> string \<times> string \<times> bool \<times> string"

definition redacted :: "api_key \<Rightarrow> key_view" where
  "redacted k = (ak_id k, ak_label k, role_of (ak_is_admin k), take 8 (ak_key k), ak_is_admin k, ak_created_at k)"

definition post_api_key :: "string \<Rightarrow> string \<Rightarrow> string \<Rightarrow> string option \<Rightarrow> bool option \<Rightarrow> books \<Rightarrow> (app_error + api_key) \<times> books" where
  "post_api_key i random now label is_admin db =
     create_api_key_with_role i random now (case label of None \<Rightarrow> ''unnamed'' | Some l \<Rightarrow> l) (case is_admin of None \<Rightarrow> False | Some b \<Rightarrow> b) db"

section \<open>The router\<close>

datatype api_call =
    Health
  | PostMint mint_request
  | PostBurn burn_request
  | GetSupply "string option"
  | GetEvents "string option" "u32 option" "string option" "string option"
  | GetBlacklist
  | PostBlacklist string string
  | DeleteBlacklist string
  | GetAudit "string option" "string option" "u32 option"
  | ListKeys
  | PostKey "string option" "bool option"
  | DeleteKey string

datatype api_answer =
    Healthy
  | MintDone mint_event
  | BurnDone burn_event
  | SupplyIs supply_response
  | EventsAre "mint_event list" "burn_event list"
  | BlacklistIs "blacklist_entry list"
  | BlacklistAdded blacklist_entry
  | BlacklistRemoved string
  | AuditIs "audit_row list"
  | KeysAre "key_view list"
  | KeyCreated api_key
  | KeyDeleted

fun path_of :: "api_call \<Rightarrow> string" where
  "path_of Health = ''/api/health''"
| "path_of (PostMint _) = ''/api/mint''"
| "path_of (PostBurn _) = ''/api/burn''"
| "path_of (GetSupply _) = ''/api/supply''"
| "path_of (GetEvents _ _ _ _) = ''/api/events''"
| "path_of GetBlacklist = ''/api/compliance/blacklist''"
| "path_of (PostBlacklist _ _) = ''/api/compliance/blacklist''"
| "path_of (DeleteBlacklist i) = ''/api/compliance/blacklist/'' @ i"
| "path_of (GetAudit _ _ _) = ''/api/compliance/audit''"
| "path_of ListKeys = ''/api/admin/keys''"
| "path_of (PostKey _ _) = ''/api/admin/keys''"
| "path_of (DeleteKey i) = ''/api/admin/keys/'' @ i"

definition starts_with :: "string \<Rightarrow> string \<Rightarrow> bool" where "starts_with p s \<longleftrightarrow> take (length p) s = p"

text \<open>The sub-router behind the second middleware.\<close>

fun on_admin_router :: "api_call \<Rightarrow> bool" where
  "on_admin_router ListKeys = True"
| "on_admin_router (PostKey _ _) = True"
| "on_admin_router (DeleteKey _) = True"
| "on_admin_router _ = False"

text \<open>What is chosen outside for a request: two row identities, the random part of a key, the time.\<close>

record stamp =
  sm_i :: string
  sm_j :: string
  sm_random :: string
  sm_now :: string

fun answer :: "('a \<Rightarrow> api_answer) \<Rightarrow> (app_error + 'a) \<times> books \<Rightarrow> (app_error + api_answer) \<times> books" where
  "answer f (Inl e, db) = (Inl e, db)"
| "answer f (Inr x, db) = (Inr (f x), db)"

fun handle :: "(string \<Rightarrow> string option) \<Rightarrow> stamp \<Rightarrow> api_call \<Rightarrow> books \<Rightarrow> (app_error + api_answer) \<times> books" where
  "handle verify st Health db = (Inr Healthy, db)"
| "handle verify st (PostMint req) db = answer MintDone (mint verify (sm_i st) (sm_j st) (sm_now st) req db)"
| "handle verify st (PostBurn req) db = answer BurnDone (burn verify (sm_i st) (sm_j st) (sm_now st) req db)"
| "handle verify st (GetSupply m) db = answer SupplyIs (supply_of m db, db)"
| "handle verify st (GetEvents m n start stop) db = (case events m n start stop db of (ms, bs) \<Rightarrow> (Inr (EventsAre ms bs), db))"
| "handle verify st GetBlacklist db = (Inr (BlacklistIs (get_blacklist db)), db)"
| "handle verify st (PostBlacklist address reason) db = answer BlacklistAdded (post_blacklist (sm_i st) (sm_j st) (sm_now st) address reason db)"
| "handle verify st (DeleteBlacklist i) db = answer BlacklistRemoved (delete_blacklist i db)"
| "handle verify st (GetAudit address action n) db = (Inr (AuditIs (get_audit address action n db)), db)"
| "handle verify st ListKeys db = (Inr (KeysAre (map redacted (list_api_keys db))), db)"
| "handle verify st (PostKey label is_admin) db = answer KeyCreated (post_api_key (sm_i st) (sm_random st) (sm_now st) label is_admin db)"
| "handle verify st (DeleteKey i) db =
     (case delete_api_key i db of (deleted, db') \<Rightarrow> (if deleted then Inr KeyDeleted else Inl (NotFound i), db'))"

datatype http_answer =
    MissingKey | UnreadableKey | InvalidKey | InsufficientPrivileges | AdminRequired | RateLimited nat | Answered "app_error + api_answer"

text \<open>The first middleware: whether the key is an administrator's. A header may be absent or not
  readable as text, and the limiter answers with the seconds to wait when it refuses.\<close>

definition require_api_key :: "nat option \<Rightarrow> string option option \<Rightarrow> string \<Rightarrow> books \<Rightarrow> http_answer + bool" where
  "require_api_key limited header path db =
     andthen (ok_or header MissingKey) (\<lambda>text.
     andthen (ok_or text UnreadableKey) (\<lambda>key.
     andthen (ok_or (get_api_key_role key db) InvalidKey) (\<lambda>role.
     guarded [(\<not> (starts_with ''/api/admin/'' path \<and> role \<noteq> ''admin''), InsufficientPrivileges)]
       (case limited of None \<Rightarrow> Inr (role = ''admin'') | Some secs \<Rightarrow> Inl (RateLimited secs)))))"

definition require_admin :: "bool \<Rightarrow> http_answer + unit" where
  "require_admin is_admin = guarded [(is_admin, AdminRequired)] (Inr ())"

record api_request =
  arq_key :: "string option option"
  arq_limited :: "nat option"
  arq_stamp :: stamp
  arq_call :: api_call

definition serve :: "(string \<Rightarrow> string option) \<Rightarrow> api_request \<Rightarrow> books \<Rightarrow> http_answer \<times> books" where
  "serve verify req db =
     (let run = (case handle verify (arq_stamp req) (arq_call req) db of (a, db') \<Rightarrow> (Answered a, db')) in
      if path_of (arq_call req) = ''/api/health'' then run
      else (case require_api_key (arq_limited req) (arq_key req) (path_of (arq_call req)) db of
              Inl h \<Rightarrow> (h, db)
            | Inr is_admin \<Rightarrow>
                (if on_admin_router (arq_call req) then (case require_admin is_admin of Inl h \<Rightarrow> (h, db) | Inr _ \<Rightarrow> run) else run)))"

fun serve_all :: "(string \<Rightarrow> string option) \<Rightarrow> api_request list \<Rightarrow> books \<Rightarrow> http_answer list \<times> books" where
  "serve_all verify [] db = ([], db)"
| "serve_all verify (r # rs) db =
     (case serve verify r db of (a, db') \<Rightarrow> (case serve_all verify rs db' of (as, db'') \<Rightarrow> (a # as, db'')))"

section \<open>The supply is what was asked for\<close>

fun accepted_mint :: "string \<Rightarrow> api_call \<times> http_answer \<Rightarrow> nat" where
  "accepted_mint t (PostMint q, Answered (Inr a)) = (if mq_token_mint q = t then unat (mq_amount q) else 0)"
| "accepted_mint t _ = 0"

fun accepted_burn :: "string \<Rightarrow> api_call \<times> http_answer \<Rightarrow> nat" where
  "accepted_burn t (PostBurn q, Answered (Inr a)) = (if bq_token_mint q = t then unat (bq_amount q) else 0)"
| "accepted_burn t _ = 0"

definition exchanges :: "api_request list \<Rightarrow> http_answer list \<Rightarrow> (api_call \<times> http_answer) list" where
  "exchanges reqs answers = zip (map arq_call reqs) answers"

definition booked_mint :: "string \<Rightarrow> books \<Rightarrow> nat" where
  "booked_mint t db = sum_list (map (unat \<circ> me_amount) (filter (\<lambda>e. me_token_mint e = t) (bk_mint_events db)))"

definition booked_burn :: "string \<Rightarrow> books \<Rightarrow> nat" where
  "booked_burn t db = sum_list (map (unat \<circ> be_amount) (filter (\<lambda>e. be_token_mint e = t) (bk_burn_events db)))"

definition audit_ids :: "books \<Rightarrow> string set" where "audit_ids db = ae_id ` set (bk_audit_log db)"

lemmas books_ops = mint_def burn_def post_blacklist_def delete_blacklist_def post_api_key_def create_api_key_with_role_def delete_api_key_def
  remove_blacklist_def add_blacklist_def add_audit_def record_mint_def record_burn_def

lemma on_ok_split: "P (on_ok m k) \<longleftrightarrow> (\<forall>e d. m = (Inl e, d) \<longrightarrow> P (Inl e, d)) \<and> (\<forall>x d. m = (Inr x, d) \<longrightarrow> P (k x d))"
  by (cases "(m, k)" rule: on_ok.cases) auto

lemma answer_split: "P (answer f m) \<longleftrightarrow> (\<forall>e d. m = (Inl e, d) \<longrightarrow> P (Inl e, d)) \<and> (\<forall>x d. m = (Inr x, d) \<longrightarrow> P (Inr (f x), d))"
  by (cases "(f, m)" rule: answer.cases) auto

lemma handle_audit: "audit_ids (snd (handle verify st call db)) \<subseteq> insert (sm_j st) (audit_ids db)"
  by (cases call) (auto simp: books_ops audit_ids_def events_def Let_def split: on_ok_split answer_split prod.split if_splits)

lemma mint_rows:
  assumes "j \<notin> audit_ids db"
  shows "case mint verify i j now q db of (r, db') \<Rightarrow> bk_burn_events db' = bk_burn_events db \<and>
    (case r of Inl _ \<Rightarrow> bk_mint_events db' = bk_mint_events db
     | Inr e \<Rightarrow> bk_mint_events db' = bk_mint_events db @ [e] \<and> me_token_mint e = mq_token_mint q \<and> me_amount e = mq_amount q)"
  using assms by (auto simp: mint_def record_mint_def add_audit_def audit_ids_def Let_def split: on_ok_split if_splits)

lemma burn_rows:
  assumes "j \<notin> audit_ids db"
  shows "case burn verify i j now q db of (r, db') \<Rightarrow> bk_mint_events db' = bk_mint_events db \<and>
    (case r of Inl _ \<Rightarrow> bk_burn_events db' = bk_burn_events db
     | Inr e \<Rightarrow> bk_burn_events db' = bk_burn_events db @ [e] \<and> be_token_mint e = bq_token_mint q \<and> be_amount e = bq_amount q)"
  using assms by (auto simp: burn_def record_burn_def add_audit_def audit_ids_def Let_def split: on_ok_split if_splits)

lemma other_rows:
  "\<forall>q. call \<noteq> PostMint q \<Longrightarrow> \<forall>q. call \<noteq> PostBurn q \<Longrightarrow>
     bk_mint_events (snd (handle verify st call db)) = bk_mint_events db \<and> bk_burn_events (snd (handle verify st call db)) = bk_burn_events db"
  by (cases call) (auto simp: books_ops events_def Let_def split: on_ok_split answer_split prod.split if_splits)

lemma handle_booked:
  assumes "sm_j st \<notin> audit_ids db"
  shows "booked_mint t (snd (handle verify st call db)) = booked_mint t db + accepted_mint t (call, Answered (fst (handle verify st call db))) \<and>
    booked_burn t (snd (handle verify st call db)) = booked_burn t db + accepted_burn t (call, Answered (fst (handle verify st call db)))"
proof (cases "(\<exists>q. call = PostMint q) \<or> (\<exists>q. call = PostBurn q)")
  case True
  then consider q where "call = PostMint q" | q where "call = PostBurn q" by blast
  then show ?thesis
  proof cases
    case 1
    obtain r db' where m: "mint verify (sm_i st) (sm_j st) (sm_now st) q db = (r, db')" by force
    from mint_rows [where verify = verify and i = "sm_i st" and now = "sm_now st" and q = q, OF assms] m show ?thesis by (cases r) (auto simp: 1 m booked_mint_def booked_burn_def)
  next
    case 2
    obtain r db' where m: "burn verify (sm_i st) (sm_j st) (sm_now st) q db = (r, db')" by force
    from burn_rows [where verify = verify and i = "sm_i st" and now = "sm_now st" and q = q, OF assms] m show ?thesis by (cases r) (auto simp: 2 m booked_mint_def booked_burn_def)
  qed
next
  case False
  with other_rows [of call verify st db] show ?thesis by (cases call) (auto simp: booked_mint_def booked_burn_def)
qed

lemma ok_or_None [simp]: "ok_or x e = (case x of None \<Rightarrow> Inl e | Some y \<Rightarrow> Inr y)"
  by (cases x) auto

lemma refusal_is_no_answer: "require_api_key limited header path db = Inl h \<Longrightarrow> h \<noteq> Answered r"
  by (cases header; cases "the header"; cases "get_api_key_role (the (the header)) db") (auto simp: require_api_key_def split: if_splits option.splits)

lemma never_answered [simp]: "require_api_key limited header path db = Inl (Answered r) \<longleftrightarrow> False"
  using refusal_is_no_answer by blast

lemma serve_cases:
  assumes "serve verify req db = (a, db')"
  obtains (run) "a = Answered (fst (handle verify (arq_stamp req) (arq_call req) db))" "db' = snd (handle verify (arq_stamp req) (arq_call req) db)"
  | (turned_away) "db' = db" "\<And>r. a \<noteq> Answered r"
proof -
  obtain x y where h: "handle verify (arq_stamp req) (arq_call req) db = (x, y)" by force
  have "a = Answered x \<and> db' = y \<or> db' = db \<and> (\<forall>r. a \<noteq> Answered r)"
    using assms by (auto simp: serve_def h require_admin_def Let_def split: if_splits sum.splits)
  then show thesis using run turned_away by (auto simp: h)
qed

lemma serve_all_booked:
  assumes "serve_all verify reqs db = (answers, db')" and "distinct (map (sm_j \<circ> arq_stamp) reqs)"
    and "audit_ids db \<inter> set (map (sm_j \<circ> arq_stamp) reqs) = {}"
  shows "booked_mint t db' = booked_mint t db + sum_list (map (accepted_mint t) (exchanges reqs answers)) \<and>
    booked_burn t db' = booked_burn t db + sum_list (map (accepted_burn t) (exchanges reqs answers))"
  using assms
proof (induction reqs arbitrary: db answers)
  case (Cons r rs)
  obtain a db1 as where step: "serve verify r db = (a, db1)" "serve_all verify rs db1 = (as, db')" "answers = a # as"
    using Cons.prems(1) by (auto split: prod.splits)
  from step(1) have one: "audit_ids db1 \<subseteq> insert (sm_j (arq_stamp r)) (audit_ids db) \<and>
      booked_mint t db1 = booked_mint t db + accepted_mint t (arq_call r, a) \<and> booked_burn t db1 = booked_burn t db + accepted_burn t (arq_call r, a)"
  proof (cases rule: serve_cases)
    case run
    then show ?thesis using handle_audit [of verify "arq_stamp r" "arq_call r" db] handle_booked [of "arq_stamp r" db t verify "arq_call r"] Cons.prems(3)
      by auto
  next
    case turned_away
    then show ?thesis by (cases a; cases "arq_call r") auto
  qed
  have "x \<notin> audit_ids db1" if "x \<in> set (map (sm_j \<circ> arq_stamp) rs)" for x
    using that conjunct1 [OF one] Cons.prems(2,3) by (metis (no_types) comp_apply disjoint_iff distinct.simps(2) insert_iff list.set_intros(2) list.simps(9) subset_iff)
  then have "audit_ids db1 \<inter> set (map (sm_j \<circ> arq_stamp) rs) = {}" by blast
  with Cons.IH [OF step(2)] one Cons.prems(2) show ?case by (simp add: exchanges_def step(3))
qed (simp add: exchanges_def)

lemma sql_sum_exact:
  "0 \<le> acc \<Longrightarrow> (\<forall>x \<in> set xs. 0 \<le> x) \<Longrightarrow> acc + sum_list xs < 2 ^ 63 \<Longrightarrow> sql_sum acc xs = Inr (acc + sum_list xs)"
proof (induction xs arbitrary: acc)
  case (Cons x xs)
  have "0 \<le> sum_list xs" using Cons.prems(2) by (intro sum_list_nonneg) auto
  then show ?case using Cons.IH [of "acc + x"] Cons.prems by (auto simp: fits_def)
qed simp

lemma signed_amounts:
  assumes "sum_list (map (unat \<circ> f) rows) < 2 ^ 63"
  shows "map (u64_as_i64 \<circ> f) rows = map (\<lambda>r. int (unat (f r))) rows"
proof (rule map_cong [OF refl])
  fix r assume "r \<in> set rows"
  then have "unat (f r) \<le> sum_list (map (unat \<circ> f) rows)" by (auto intro: member_le_sum_list)
  with assms have "unat (f r) < 2 ^ 63" by simp
  then have "uint (f r) < 2 ^ 63" by (metis of_nat_less_iff of_nat_numeral of_nat_power uint_nat)
  then show "(u64_as_i64 \<circ> f) r = int (unat (f r))"
    by (simp add: u64_as_i64_def sint_uint signed_take_bit_int_eq_self_iff order_trans [OF _ uint_ge_0])
qed

lemma booked_sum:
  assumes "sum_list (map (unat \<circ> f) rows) < 2 ^ 63"
  shows "sql_sum 0 (map (u64_as_i64 \<circ> f) rows) = Inr (int (sum_list (map (unat \<circ> f) rows)))"
proof -
  have "sum_list (map (\<lambda>r. int (unat (f r))) rows) = int (sum_list (map (unat \<circ> f) rows))"
    by (induction rows) auto
  with assms show ?thesis unfolding signed_amounts [OF assms] by (subst sql_sum_exact) auto
qed

text \<open>C35: the reported supply is the sum of what was asked for and accepted: after any history of requests with row identities of their
  own, from empty books on, whatever keys, limits and refusals, the supply of a mint is the total of the accepted mint requests less that of
  the accepted burn requests (never below zero), as long as neither total reaches two to the 63.\<close>

theorem supply_is_sum_of_requests:
  assumes "serve_all verify reqs (empty_books\<lparr>bk_api_keys := keys\<rparr>) = (answers, db)" and "distinct (map (sm_j \<circ> arq_stamp) reqs)"
    and "minted = sum_list (map (accepted_mint t) (exchanges reqs answers))" and "burned = sum_list (map (accepted_burn t) (exchanges reqs answers))"
    and "minted < 2 ^ 63" and "burned < 2 ^ 63"
  shows "supply_of (Some t) db =
    Inr \<lparr>sup_token_mint = t, sup_total_minted = of_nat minted, sup_total_burned = of_nat burned, sup_circulating_supply = of_nat (minted - burned)\<rparr>"
proof -
  have "booked_mint t db = minted" "booked_burn t db = burned"
    using serve_all_booked [OF assms(1,2), of t]
    by (simp_all add: assms(3,4) audit_ids_def empty_books_def booked_mint_def booked_burn_def)
  then have sums: "get_supply (Some t) db = Inr (of_nat minted, of_nat burned)"
    using booked_sum [of me_amount "filter (\<lambda>e. me_token_mint e = t) (bk_mint_events db)"] assms(5,6)
      booked_sum [of be_amount "filter (\<lambda>e. be_token_mint e = t) (bk_burn_events db)"]
    by (simp add: get_supply_def booked_mint_def booked_burn_def of_mint_def comp_def i64_as_u64_def)
  have "saturating_sub (of_nat minted) (of_nat burned) = (of_nat (minted - burned) :: u64)"
    using assms(5,6) by (auto simp: saturating_sub_def word_le_nat_alt unat_of_nat of_nat_diff)
  with sums show ?thesis by (simp add: supply_of_def)
qed

section \<open>Keys are for administrators\<close>

lemma handle_keys: "\<not> on_admin_router call \<Longrightarrow> bk_api_keys (snd (handle verify st call db)) = bk_api_keys db"
  by (cases call) (auto simp: books_ops events_def Let_def split: on_ok_split answer_split prod.split if_splits)

lemma admin_path: "on_admin_router call \<Longrightarrow> starts_with ''/api/admin/'' (path_of call) \<and> path_of call \<noteq> ''/api/health''"
  by (cases call) (auto simp: starts_with_def)

lemma no_admin_role:
  assumes "\<And>e. e \<in> set (bk_api_keys db) \<Longrightarrow> ak_key e = k \<Longrightarrow> \<not> ak_is_admin e"
  shows "get_api_key_role k db \<noteq> Some ''admin''"
  using assms by (auto simp: get_api_key_role_def role_of_def find_Some_iff dest: nth_mem)

definition plain_caller :: "api_request \<Rightarrow> api_key list \<Rightarrow> bool" where
  "plain_caller r keys \<longleftrightarrow> (case arq_key r of Some (Some k) \<Rightarrow> \<not> list_ex (\<lambda>e. ak_key e = k \<and> ak_is_admin e) keys | _ \<Rightarrow> True)"

lemma plain_step:
  assumes "serve verify r db = (a, db')" and "plain_caller r (bk_api_keys db)"
  shows "bk_api_keys db' = bk_api_keys db \<and> (on_admin_router (arq_call r) \<longrightarrow> (\<forall>x. a \<noteq> Answered x))"
proof (cases "on_admin_router (arq_call r)")
  case True
  have "require_api_key (arq_limited r) (arq_key r) (path_of (arq_call r)) db \<noteq> Inr u" for u
  proof (cases "arq_key r")
    case (Some k')
    then show ?thesis
    proof (cases k')
      case (Some k)
      have "get_api_key_role k db \<noteq> Some ''admin''"
        by (rule no_admin_role) (use assms(2) \<open>arq_key r = Some k'\<close> Some in \<open>auto simp: plain_caller_def list_ex_iff\<close>)
      with admin_path [OF True] \<open>arq_key r = Some k'\<close> Some show ?thesis
        by (cases "get_api_key_role k db") (auto simp: require_api_key_def)
    qed (use \<open>arq_key r = Some k'\<close> in \<open>simp add: require_api_key_def\<close>)
  qed (simp add: require_api_key_def)
  with assms(1) True admin_path [OF True] show ?thesis
    by (auto simp: serve_def Let_def split: sum.splits if_splits)
next
  case False
  from assms(1) show ?thesis by (cases rule: serve_cases) (use handle_keys [OF False] False in auto)
qed

text \<open>only administrators touch the keys: over any history of requests none of which carries an administrator's key, the table of keys
  stays as it was, and no request to list, create or delete keys is answered, whatever else is asked and however it is interleaved.\<close>

theorem plain_keys_change_no_keys:
  assumes "serve_all verify reqs db = (answers, db')" and "list_all (\<lambda>r. plain_caller r (bk_api_keys db)) reqs"
  shows "bk_api_keys db' = bk_api_keys db \<and> list_all (\<lambda>(c, a). on_admin_router c \<longrightarrow> (\<forall>x. a \<noteq> Answered x)) (exchanges reqs answers)"
  using assms
proof (induction reqs arbitrary: db answers)
  case (Cons r rs)
  obtain a db1 as where step: "serve verify r db = (a, db1)" "serve_all verify rs db1 = (as, db')" "answers = a # as"
    using Cons.prems(1) by (auto split: prod.splits)
  from plain_step [OF step(1)] Cons.prems(2)
  have "bk_api_keys db1 = bk_api_keys db \<and> (on_admin_router (arq_call r) \<longrightarrow> (\<forall>x. a \<noteq> Answered x))" by simp
  with Cons.IH [OF step(2)] Cons.prems(2) show ?case by (simp add: exchanges_def step(3))
qed (simp add: exchanges_def)

section \<open>A concrete history\<close>

definition demo_keys :: "api_key list" where
  "demo_keys = [\<lparr>ak_id = ''k1'', ak_key = ''sss_root'', ak_label = ''ops'', ak_is_admin = True, ak_created_at = ''2026-01-01''\<rparr>,
     \<lparr>ak_id = ''k2'', ak_key = ''sss_web'', ak_label = ''web'', ak_is_admin = False, ak_created_at = ''2026-01-02''\<rparr>]"

definition demo_request :: "string \<Rightarrow> string \<Rightarrow> api_call \<Rightarrow> api_request" where
  "demo_request key i call = \<lparr>arq_key = Some (Some key), arq_limited = None,
     arq_stamp = \<lparr>sm_i = i, sm_j = i, sm_random = i, sm_now = ''2026-02-01''\<rparr>, arq_call = call\<rparr>"

definition demo_history :: "api_request list" where
  "demo_history =
     [demo_request ''sss_web'' ''a'' (PostMint \<lparr>mq_token_mint = ''M'', mq_amount = 70, mq_recipient = ''alice'', mq_tx_signature = None\<rparr>),
      demo_request ''sss_web'' ''b'' (PostBlacklist ''mallory'' ''fraud''),
      demo_request ''sss_web'' ''c'' (PostMint \<lparr>mq_token_mint = ''M'', mq_amount = 5, mq_recipient = ''mallory'', mq_tx_signature = None\<rparr>),
      demo_request ''sss_web'' ''d'' (PostBurn \<lparr>bq_token_mint = ''M'', bq_amount = 30, bq_source = ''alice'', bq_tx_signature = None\<rparr>),
      demo_request ''sss_web'' ''e'' (PostKey None (Some True))]"

theorem supply_is_sum_of_requests_witness:
  "supply_of (Some ''M'') (snd (serve_all (\<lambda>_. None) demo_history (empty_books\<lparr>bk_api_keys := demo_keys\<rparr>))) =
     Inr \<lparr>sup_token_mint = ''M'', sup_total_minted = 70, sup_total_burned = 30, sup_circulating_supply = 40\<rparr>"
proof -
  let ?run = "serve_all (\<lambda>_. None) demo_history (empty_books\<lparr>bk_api_keys := demo_keys\<rparr>)"
  have "distinct (map (sm_j \<circ> arq_stamp) demo_history)" by code_simp
  moreover have "sum_list (map (accepted_mint ''M'') (exchanges demo_history (fst ?run))) = 70" by code_simp
  moreover have "sum_list (map (accepted_burn ''M'') (exchanges demo_history (fst ?run))) = 30" by code_simp
  ultimately show ?thesis
    using supply_is_sum_of_requests [of "\<lambda>_. None" demo_history demo_keys "fst ?run" "snd ?run" 70 "''M''" 30] by simp
qed

theorem plain_keys_change_no_keys_witness:
  "bk_api_keys (snd (serve_all (\<lambda>_. None) demo_history (empty_books\<lparr>bk_api_keys := demo_keys\<rparr>))) = demo_keys"
proof -
  let ?db = "empty_books\<lparr>bk_api_keys := demo_keys\<rparr>"
  have "list_all (\<lambda>r. plain_caller r (bk_api_keys ?db)) demo_history" by code_simp
  from plain_keys_change_no_keys [OF prod.collapse [symmetric] this, of "\<lambda>_. None"] show ?thesis by simp
qed

end
