(* ===== verification/Chronicle.thy ===== *)
theory Chronicle
  imports Books Bytes
begin

text \<open>
  What the backend learns from the chain: the event log, the cursor of the indexer, the registry of collateral and the history of
  liquidations (backend/src/db.rs), the indexer that polls signatures and reads log lines (backend/src/indexer.rs), the cache of the feature
  flags (backend/src/flag\_refresh.rs, feature\_flags.rs, state.rs) and the monitor's checks in whole numbers (backend/src/monitor). The
  cluster, the JSON parser and the clock are parameters; row identities, which nothing reads, are left out.
\<close>

section \<open>JSON\<close>

datatype json = JNull | JBool bool | JInt int | JFraction string | JStr string | JArr "json list" | JObj "(string \<times> json) list"

fun json_get :: "string \<Rightarrow> json \<Rightarrow> json option" where
  "json_get k (JObj kvs) = map_of kvs k"
| "json_get k _ = None"

fun as_str :: "json \<Rightarrow> string option" where "as_str (JStr s) = Some s" | "as_str _ = None"
fun as_bool :: "json \<Rightarrow> bool option" where "as_bool (JBool b) = Some b" | "as_bool _ = None"
fun as_i64 :: "json \<Rightarrow> int option" where "as_i64 (JInt i) = (if fits i then Some i else None)" | "as_i64 _ = None"
fun as_u64 :: "json \<Rightarrow> int option" where "as_u64 (JInt i) = (if 0 \<le> i \<and> i < 2 ^ 64 then Some i else None)" | "as_u64 _ = None"

definition field :: "(json \<Rightarrow> 'a option) \<Rightarrow> string \<Rightarrow> json \<Rightarrow> 'a option" where
  "field f k v = Option.bind (json_get k v) f"

definition or_else :: "'a option \<Rightarrow> 'a option \<Rightarrow> 'a option" where "or_else x y = (if x = None then y else x)"
definition unwrap_or :: "'a \<Rightarrow> 'a option \<Rightarrow> 'a" where "unwrap_or d x = (case x of None \<Rightarrow> d | Some y \<Rightarrow> y)"

section \<open>Tables\<close>

record event_row =
  el_event_type :: string
  el_address :: string
  el_data :: json
  el_tx_signature :: "string option"
  el_slot :: "int option"
  el_created_at :: string

record collateral_row =
  clr_sss_mint :: string
  clr_collateral_mint :: string
  clr_whitelisted :: bool
  clr_max_ltv_bps :: u16
  clr_liquidation_threshold_bps :: u16
  clr_liquidation_bonus_bps :: u16
  clr_max_deposit_cap :: int
  clr_total_deposited :: int
  clr_tx_signature :: "string option"
  clr_updated_at :: string

record liquidation_row =
  lh_cdp_address :: string
  lh_collateral_mint :: string
  lh_collateral_seized :: int
  lh_debt_repaid :: int
  lh_liquidator :: string
  lh_slot :: "int option"
  lh_tx_sig :: "string option"
  lh_created_at :: string

record chronicle =
  ch_event_log :: "event_row list"
  ch_cursor :: "string \<Rightarrow> string option"
  ch_collateral :: "collateral_row list"
  ch_liquidations :: "liquidation_row list"
  ch_feature_flags :: u64

definition empty_chronicle :: chronicle where
  "empty_chronicle = \<lparr>ch_event_log = [], ch_cursor = (\<lambda>_. None), ch_collateral = [], ch_liquidations = [], ch_feature_flags = 0\<rparr>"

text \<open>The clock says when the n-th row of the event log is written.\<close>

definition insert_event_log ::
  "(nat \<Rightarrow> string) \<Rightarrow> string \<Rightarrow> string \<Rightarrow> json \<Rightarrow> string option \<Rightarrow> int option \<Rightarrow> chronicle \<Rightarrow> chronicle" where
  "insert_event_log clock event_type address data sig slot s =
     s\<lparr>ch_event_log := ch_event_log s @
        [\<lparr>el_event_type = event_type, el_address = address, el_data = data, el_tx_signature = sig, el_slot = slot,
          el_created_at = clock (length (ch_event_log s))\<rparr>]\<rparr>"

definition query_event_log :: "string option \<Rightarrow> string option \<Rightarrow> nat \<Rightarrow> nat \<Rightarrow> chronicle \<Rightarrow> event_row list" where
  "query_event_log event_type address n start s =
     take n (drop start (rev (sort_key el_created_at
       (filter (\<lambda>e. of_mint event_type (el_event_type e) \<and> of_mint address (el_address e)) (ch_event_log s)))))"

definition list_event_log :: "string option \<Rightarrow> string option \<Rightarrow> nat \<Rightarrow> chronicle \<Rightarrow> event_row list" where
  "list_event_log event_type address n s =
     newest el_created_at n (filter (\<lambda>e. of_mint event_type (el_event_type e) \<and> of_mint address (el_address e)) (ch_event_log s))"

definition chain_events :: "string option \<Rightarrow> string option \<Rightarrow> u32 option \<Rightarrow> chronicle \<Rightarrow> event_row list" where
  "chain_events event_type address n s = list_event_log event_type address (page n) s"

definition get_indexer_cursor :: "string \<Rightarrow> chronicle \<Rightarrow> string option" where "get_indexer_cursor program s = ch_cursor s program"

definition set_indexer_cursor :: "string \<Rightarrow> string \<Rightarrow> chronicle \<Rightarrow> chronicle" where
  "set_indexer_cursor program sig s = s\<lparr>ch_cursor := (ch_cursor s)(program \<mapsto> sig)\<rparr>"

text \<open>One row per pair of mints: a row that is there keeps its place.\<close>

definition upsert_collateral_config :: "collateral_row \<Rightarrow> chronicle \<Rightarrow> chronicle" where
  "upsert_collateral_config row s =
     (let same = (\<lambda>r. clr_sss_mint r = clr_sss_mint row \<and> clr_collateral_mint r = clr_collateral_mint row) in
      s\<lparr>ch_collateral := (if list_ex same (ch_collateral s) then map (\<lambda>r. if same r then row else r) (ch_collateral s)
                         else ch_collateral s @ [row])\<rparr>)"

definition list_collateral_configs :: "string option \<Rightarrow> string option \<Rightarrow> bool \<Rightarrow> chronicle \<Rightarrow> collateral_row list" where
  "list_collateral_configs sss_mint collateral_mint whitelisted_only s =
     rev (sort_key clr_updated_at (filter
       (\<lambda>r. of_mint sss_mint (clr_sss_mint r) \<and> of_mint collateral_mint (clr_collateral_mint r) \<and> (whitelisted_only \<longrightarrow> clr_whitelisted r))
       (ch_collateral s)))"

section \<open>Log lines\<close>

definition EVENT_PATTERNS :: "(string \<times> string) list" where
  "EVENT_PATTERNS =
     [(''CircuitBreakerToggled'', ''circuit_breaker_toggle''), (''CollateralDeposited'', ''cdp_deposit''),
      (''StablecoinsIssued'', ''cdp_borrow''), (''PositionLiquidated'', ''cdp_liquidate''),
      (''OracleParamsUpdated'', ''oracle_params_update''), (''StabilityFeeAccrued'', ''stability_fee_accrual''),
      (''CollateralRegistered'', ''collateral_registered''), (''CollateralConfigUpdated'', ''collateral_config_updated'')]"

definition strip :: "string \<Rightarrow> string \<Rightarrow> string option" where
  "strip p s = (if starts_with p s then Some (drop (length p) s) else None)"

definition blank :: "char \<Rightarrow> bool" where
  "blank c \<longleftrightarrow> (let k = of_char c :: nat in k = 32 \<or> (9 \<le> k \<and> k \<le> 13))"

definition trim_text :: "string \<Rightarrow> string" where
  "trim_text s = rev (dropWhile blank (rev (dropWhile blank s)))"

definition payload_of :: "(string \<Rightarrow> json option) \<Rightarrow> string \<Rightarrow> json" where
  "payload_of parse rest =
     (if starts_with ''{'' rest then unwrap_or (JObj [(''raw'', JStr rest)]) (parse rest)
      else if rest = [] then JObj []
      else JObj [(''raw'', JStr rest)])"

fun first_of :: "string list \<Rightarrow> json \<Rightarrow> json option" where
  "first_of [] v = None"
| "first_of (k # ks) v = (case json_get k v of None \<Rightarrow> first_of ks v | Some x \<Rightarrow> Some x)"

fun match_event :: "(string \<Rightarrow> json option) \<Rightarrow> string \<Rightarrow> string \<Rightarrow> (string \<times> string) list \<Rightarrow> (string \<times> string \<times> json) option" where
  "match_event parse program body [] = None"
| "match_event parse program body ((anchor_name, event_type) # ps) =
     (if starts_with anchor_name body then
        let data = payload_of parse (trim_text (drop (length anchor_name) body)) in
        Some (event_type,
          unwrap_or program (Option.bind (first_of [''address'', ''mint'', ''position'', ''authority''] data) as_str), data)
      else
        (case (if starts_with ''{'' body then parse body else None) of
           None \<Rightarrow> match_event parse program body ps
         | Some v \<Rightarrow>
             (if unwrap_or [] (Option.bind (first_of [''event'', ''name''] v) as_str) = anchor_name then
                Some (event_type, unwrap_or program (Option.bind (first_of [''address'', ''mint'', ''position''] v) as_str), v)
              else match_event parse program body ps)))"

definition parse_event_log :: "(string \<Rightarrow> json option) \<Rightarrow> string \<Rightarrow> string \<Rightarrow> (string \<times> string \<times> json) option" where
  "parse_event_log parse line program =
     (case or_else (strip ''Program log: '' line) (strip ''Program data: '' line) of
        None \<Rightarrow> None
      | Some body \<Rightarrow> match_event parse program body EVENT_PATTERNS)"

definition to_u16 :: "int \<Rightarrow> u16" where "to_u16 i = word_of_int i"

text \<open>The time of the row is that of the event's row in the log.\<close>

definition maybe_upsert_collateral_config :: "(nat \<Rightarrow> string) \<Rightarrow> json \<Rightarrow> string option \<Rightarrow> chronicle \<Rightarrow> chronicle" where
  "maybe_upsert_collateral_config clock data sig s =
     (case (field as_str ''sss_mint'' data, field as_str ''collateral_mint'' data) of
        (Some sss_mint, Some collateral_mint) \<Rightarrow>
          upsert_collateral_config
            \<lparr>clr_sss_mint = sss_mint, clr_collateral_mint = collateral_mint, clr_whitelisted = unwrap_or True (field as_bool ''whitelisted'' data),
             clr_max_ltv_bps = to_u16 (unwrap_or 6667 (field as_u64 ''max_ltv_bps'' data)),
             clr_liquidation_threshold_bps = to_u16 (unwrap_or 7500 (field as_u64 ''liquidation_threshold_bps'' data)),
             clr_liquidation_bonus_bps = to_u16 (unwrap_or 500 (field as_u64 ''liquidation_bonus_bps'' data)),
             clr_max_deposit_cap = unwrap_or 0 (field as_i64 ''max_deposit_cap'' data),
             clr_total_deposited = unwrap_or 0 (field as_i64 ''total_deposited'' data), clr_tx_signature = sig,
             clr_updated_at = clock (length (ch_event_log s))\<rparr> s
      | _ \<Rightarrow> s)"

section \<open>Polling\<close>

definition SIG_BATCH :: nat where "SIG_BATCH = 50"

record sig_entry =
  se_signature :: "string option"
  se_slot :: "int option"
  se_failed :: bool

text \<open>The cluster: signatures of an address newest first, and the log lines of a transaction, if it answers and knows it.\<close>

record cluster =
  rpc_signatures :: "string \<Rightarrow> nat \<Rightarrow> string option \<Rightarrow> sig_entry list option"
  rpc_logs :: "string \<Rightarrow> string list option option"

definition fetch_signatures :: "cluster \<Rightarrow> string \<Rightarrow> nat \<Rightarrow> string option \<Rightarrow> (string \<times> int) list option" where
  "fetch_signatures rpc program n until =
     map_option (List.map_filter (\<lambda>e.
         if se_failed e then None else map_option (\<lambda>sig. (sig, unwrap_or 0 (se_slot e))) (se_signature e)))
       (rpc_signatures rpc program n until)"

definition index_line ::
  "(string \<Rightarrow> json option) \<Rightarrow> (nat \<Rightarrow> string) \<Rightarrow> string \<Rightarrow> string \<Rightarrow> int \<Rightarrow> string \<Rightarrow> chronicle \<Rightarrow> chronicle" where
  "index_line parse clock program sig slot line s =
     (case parse_event_log parse line program of
        None \<Rightarrow> s
      | Some (event_type, address, data) \<Rightarrow>
          insert_event_log clock event_type address data (Some sig) (Some slot)
            (if event_type = ''collateral_registered'' \<or> event_type = ''collateral_config_updated''
             then maybe_upsert_collateral_config clock data (Some sig) s else s))"

text \<open>A transaction that cannot be fetched, or is not known, leaves nothing behind.\<close>

definition fetch_and_index_tx ::
  "(string \<Rightarrow> json option) \<Rightarrow> (nat \<Rightarrow> string) \<Rightarrow> cluster \<Rightarrow> string \<Rightarrow> string \<times> int \<Rightarrow> chronicle \<Rightarrow> chronicle" where
  "fetch_and_index_tx parse clock rpc program = (\<lambda>(sig, slot) s.
     (case rpc_logs rpc sig of
        Some (Some logs) \<Rightarrow> fold (index_line parse clock program sig slot) logs s
      | _ \<Rightarrow> s))"

definition poll_program :: "(string \<Rightarrow> json option) \<Rightarrow> (nat \<Rightarrow> string) \<Rightarrow> cluster \<Rightarrow> string \<Rightarrow> chronicle \<Rightarrow> chronicle" where
  "poll_program parse clock rpc program s =
     (case fetch_signatures rpc program SIG_BATCH (get_indexer_cursor program s) of
        None \<Rightarrow> s
      | Some [] \<Rightarrow> s
      | Some sigs \<Rightarrow> set_indexer_cursor program (fst (hd sigs)) (fold (fetch_and_index_tx parse clock rpc program) (rev sigs) s))"

section \<open>Liquidations\<close>

definition insert_liquidation :: "liquidation_row \<Rightarrow> chronicle \<Rightarrow> chronicle" where
  "insert_liquidation row s = s\<lparr>ch_liquidations := ch_liquidations s @ [row]\<rparr>"

definition wanted :: "string option \<Rightarrow> string option \<Rightarrow> liquidation_row \<Rightarrow> bool" where
  "wanted cdp_address collateral_mint r \<longleftrightarrow> of_mint cdp_address (lh_cdp_address r) \<and> of_mint collateral_mint (lh_collateral_mint r)"

definition list_liquidations :: "string option \<Rightarrow> string option \<Rightarrow> nat \<Rightarrow> nat \<Rightarrow> chronicle \<Rightarrow> liquidation_row list" where
  "list_liquidations cdp_address collateral_mint n start s =
     take n (drop start (rev (sort_key lh_created_at (filter (wanted cdp_address collateral_mint) (ch_liquidations s)))))"

definition count_liquidations :: "string option \<Rightarrow> string option \<Rightarrow> chronicle \<Rightarrow> nat" where
  "count_liquidations cdp_address collateral_mint s = length (filter (wanted cdp_address collateral_mint) (ch_liquidations s))"

text \<open>An absent signature equals nothing, not even an absent one.\<close>

definition materialised :: "liquidation_row list \<Rightarrow> event_row \<Rightarrow> bool" where
  "materialised history e \<longleftrightarrow>
     list_ex (\<lambda>r. lh_tx_sig r \<noteq> None \<and> lh_tx_sig r = el_tx_signature e \<and> lh_cdp_address r = el_address e) history"

definition liquidation_of :: "string \<Rightarrow> event_row \<Rightarrow> liquidation_row option" where
  "liquidation_of now e =
     (let v = el_data e in
      map_option (\<lambda>collateral_mint.
          \<lparr>lh_cdp_address = unwrap_or (el_address e) (field as_str ''cdp_address'' v), lh_collateral_mint = collateral_mint,
           lh_collateral_seized = unwrap_or 0 (field as_i64 ''collateral_seized'' v), lh_debt_repaid = unwrap_or 0 (field as_i64 ''debt_repaid'' v),
           lh_liquidator = unwrap_or [] (field as_str ''liquidator'' v), lh_slot = el_slot e, lh_tx_sig = el_tx_signature e, lh_created_at = now\<rparr>)
        (field as_str ''collateral_mint'' v))"

definition sync_liquidations_from_event_log :: "string \<Rightarrow> chronicle \<Rightarrow> nat \<times> chronicle" where
  "sync_liquidations_from_event_log now s =
     (let missing = filter (\<lambda>e. el_event_type e = ''cdp_liquidate'' \<and> \<not> materialised (ch_liquidations s) e) (ch_event_log s);
          rows = List.map_filter (liquidation_of now) missing in
      (length rows, s\<lparr>ch_liquidations := ch_liquidations s @ rows\<rparr>))"

record liquidation_page =
  lqp_items :: "liquidation_row list"
  lqp_total :: nat
  lqp_limit :: nat
  lqp_offset :: nat

definition get_liquidations :: "string \<Rightarrow> string option \<Rightarrow> string option \<Rightarrow> u32 option \<Rightarrow> u32 option \<Rightarrow> chronicle \<Rightarrow> liquidation_page \<times> chronicle" where
  "get_liquidations now cdp_address collateral_mint n start s =
     (let k = page n; skip = (case start of None \<Rightarrow> 0 | Some x \<Rightarrow> unat x); s' = snd (sync_liquidations_from_event_log now s) in
      (\<lparr>lqp_items = list_liquidations cdp_address collateral_mint k skip s', lqp_total = count_liquidations cdp_address collateral_mint s',
        lqp_limit = k, lqp_offset = skip\<rparr>, s'))"

section \<open>Feature flags\<close>

definition FLAG_CIRCUIT_BREAKER_api :: u64 where "FLAG_CIRCUIT_BREAKER_api = push_bit 0 1"
definition FLAG_ZK_COMPLIANCE_api :: u64 where "FLAG_ZK_COMPLIANCE_api = push_bit 4 1"
definition FLAG_SANCTIONS_ORACLE_api :: u64 where "FLAG_SANCTIONS_ORACLE_api = push_bit 7 1"
definition FLAG_ZK_CREDENTIALS_api :: u64 where "FLAG_ZK_CREDENTIALS_api = push_bit 8 1"
definition FLAG_BRIDGE_ENABLED_api :: u64 where "FLAG_BRIDGE_ENABLED_api = push_bit 17 1"

datatype flag_conflict = BridgeWhileHalted | SanctionsWithoutIdentity

definition check_incompatible_combos :: "u64 \<Rightarrow> flag_conflict option" where
  "check_incompatible_combos flags =
     (if flags AND FLAG_CIRCUIT_BREAKER_api \<noteq> 0 \<and> flags AND FLAG_BRIDGE_ENABLED_api \<noteq> 0 then Some BridgeWhileHalted
      else if flags AND FLAG_SANCTIONS_ORACLE_api \<noteq> 0 \<and> flags AND FLAG_ZK_COMPLIANCE_api = 0 \<and> flags AND FLAG_ZK_CREDENTIALS_api = 0
      then Some SanctionsWithoutIdentity
      else None)"

text \<open>The messages of the two conflicts.\<close>

fun conflict_text :: "flag_conflict \<Rightarrow> string" where
  "conflict_text BridgeWhileHalted =
     ''FLAG_CIRCUIT_BREAKER + FLAG_BRIDGE_ENABLED both set: bridge should be disabled when circuit breaker is active''"
| "conflict_text SanctionsWithoutIdentity =
     ''FLAG_SANCTIONS_ORACLE set but neither FLAG_ZK_COMPLIANCE nor FLAG_ZK_CREDENTIALS is set: sanctions checks lack identity verification path''"

definition flag_cached :: "u64 \<Rightarrow> chronicle \<Rightarrow> bool" where "flag_cached flag s \<longleftrightarrow> ch_feature_flags s AND flag \<noteq> 0"

datatype severity = Info | Warning | Critical

fun severity_text :: "severity \<Rightarrow> string" where
  "severity_text Info = ''INFO''" | "severity_text Warning = ''WARNING''" | "severity_text Critical = ''CRITICAL''"

text \<open>An alert is a row of the event log; the messages to Discord and PagerDuty are not modelled.\<close>

definition fire_alert :: "(nat \<Rightarrow> string) \<Rightarrow> string \<Rightarrow> string \<Rightarrow> string \<Rightarrow> severity \<Rightarrow> chronicle \<Rightarrow> chronicle" where
  "fire_alert clock now invariant detail sev s =
     insert_event_log clock ''AlertRecord'' invariant
       (JObj [(''invariant'', JStr invariant), (''detail'', JStr detail), (''severity'', JStr (severity_text sev)), (''timestamp'', JStr now)]) None None s"

definition FLAGS_BYTE_OFFSET :: nat where "FLAGS_BYTE_OFFSET = 298"

text \<open>One round: the base64 text of the account, if the cluster has one, and the decoder of the library.\<close>

definition refresh_flags :: "(nat \<Rightarrow> string) \<Rightarrow> string \<Rightarrow> (string \<Rightarrow> u8 list option) \<Rightarrow> string option \<Rightarrow> chronicle \<Rightarrow> chronicle" where
  "refresh_flags clock now decode reply s =
     (case (case reply of None \<Rightarrow> None | Some text \<Rightarrow> if text = [] then None else decode text) of
        None \<Rightarrow> s
      | Some data \<Rightarrow>
          (if length data < FLAGS_BYTE_OFFSET + 8 then s
           else let flags = u64_at FLAGS_BYTE_OFFSET data; s' = s\<lparr>ch_feature_flags := flags\<rparr> in
                (case check_incompatible_combos flags of
                   None \<Rightarrow> s'
                 | Some conflict \<Rightarrow> fire_alert clock now ''incompatible_flag_combo'' (conflict_text conflict) Critical s')))"

section \<open>The monitor\<close>

text \<open>The absolute value of the least number of 64 bits overflows, which ends the task.\<close>

datatype invariant_status = Holds | Violated string | Crashed

definition check_supply_consistency :: "books \<Rightarrow> invariant_status" where
  "check_supply_consistency db =
     (case get_supply None db of
        Inl _ \<Rightarrow> Violated ''supply_consistency''
      | Inr (minted, burned) \<Rightarrow> (if burned > minted then Violated ''supply_consistency'' else Holds))"

definition touches :: "string list \<Rightarrow> event_row \<Rightarrow> bool" where
  "touches sanctioned e \<longleftrightarrow> el_address e \<in> set sanctioned \<or>
     list_ex (\<lambda>k. case field as_str k (el_data e) of None \<Rightarrow> False | Some a \<Rightarrow> a \<in> set sanctioned) [''recipient'', ''source'', ''wallet'']"

definition check_sanctioned_transactions :: "books \<Rightarrow> chronicle \<Rightarrow> invariant_status" where
  "check_sanctioned_transactions db s =
     (let sanctioned = map ble_address (get_blacklist db) in
      if sanctioned = [] then Holds
      else if list_ex (touches sanctioned)
          (query_event_log (Some ''MintExecuted'') None 1000 0 s @ query_event_log (Some ''BurnExecuted'') None 1000 0 s)
      then Violated ''sanctioned_transaction'' else Holds)"

text \<open>The last of the rows with the largest slot.\<close>

definition slot_of :: "event_row \<Rightarrow> int" where "slot_of e = unwrap_or 0 (el_slot e)"

fun latest :: "event_row list \<Rightarrow> event_row option" where
  "latest [] = None"
| "latest (e # es) = (case latest es of None \<Rightarrow> Some e | Some b \<Rightarrow> if slot_of e > slot_of b then Some e else Some b)"

definition CIRCUIT_BREAKER_BPS :: int where "CIRCUIT_BREAKER_BPS = 500"

definition check_circuit_breaker :: "chronicle \<Rightarrow> invariant_status" where
  "check_circuit_breaker s =
     (let is_halted = unwrap_or False (Option.bind (latest (query_event_log (Some ''circuit_breaker_toggle'') None 100 0 s)) (\<lambda>e. field as_bool ''halted'' (el_data e)));
          deviation = unwrap_or 0 (Option.bind (latest (query_event_log (Some ''oracle_price_update'') None 10 0 s)) (\<lambda>e. field as_i64 ''peg_deviation_bps'' (el_data e))) in
      if deviation = - (2 ^ 63) then Crashed
      else if \<bar>deviation\<bar> > CIRCUIT_BREAKER_BPS \<and> \<not> is_halted then Violated ''circuit_breaker'' else Holds)"

definition check_incompatible_flags :: "chronicle \<Rightarrow> invariant_status" where
  "check_incompatible_flags s =
     (case check_incompatible_combos (ch_feature_flags s) of None \<Rightarrow> Holds | Some _ \<Rightarrow> Violated ''incompatible_flag_combo'')"

section \<open>The event log follows the chain\<close>

text \<open>A chain of transactions, oldest first, and a cluster that answers as documented: the newest signatures that come after the given one.\<close>

record chain_tx =
  ctx_sig :: string
  ctx_slot :: int
  ctx_failed :: bool
  ctx_logs :: "string list"

definition unseen :: "string option \<Rightarrow> chain_tx list \<Rightarrow> chain_tx list" where
  "unseen cursor chain = takeWhile (\<lambda>t. Some (ctx_sig t) \<noteq> cursor) (rev chain)"

definition honest :: "chain_tx list \<Rightarrow> cluster" where
  "honest chain =
     \<lparr>rpc_signatures = (\<lambda>program n until. Some (map (\<lambda>t. \<lparr>se_signature = Some (ctx_sig t), se_slot = Some (ctx_slot t), se_failed = ctx_failed t\<rparr>)
        (take n (unseen until chain)))),
      rpc_logs = (\<lambda>sig. Some (map_option ctx_logs (find (\<lambda>t. ctx_sig t = sig) chain)))\<rparr>"

definition good :: "chain_tx list \<Rightarrow> chain_tx list" where "good chain = filter (\<lambda>t. \<not> ctx_failed t) chain"

definition last_good :: "chain_tx list \<Rightarrow> string option" where
  "last_good chain = (case rev (good chain) of [] \<Rightarrow> None | t # _ \<Rightarrow> Some (ctx_sig t))"

type_synonym log_entry = "(string \<times> string \<times> json) \<times> string \<times> int"

definition events_of :: "(string \<Rightarrow> json option) \<Rightarrow> string \<Rightarrow> chain_tx \<Rightarrow> log_entry list" where
  "events_of parse program t =
     map (\<lambda>e. (e, ctx_sig t, ctx_slot t)) (List.map_filter (\<lambda>line. parse_event_log parse line program) (ctx_logs t))"

fun row_of :: "(nat \<Rightarrow> string) \<Rightarrow> nat \<times> log_entry \<Rightarrow> event_row" where
  "row_of clock (k, ((event_type, address, data), sig, slot)) =
     \<lparr>el_event_type = event_type, el_address = address, el_data = data, el_tx_signature = Some sig, el_slot = Some slot, el_created_at = clock k\<rparr>"

definition log_rows :: "(nat \<Rightarrow> string) \<Rightarrow> log_entry list \<Rightarrow> event_row list" where
  "log_rows clock xs = map (row_of clock) (List.enumerate 0 xs)"

text \<open>The chain grows by one block of transactions before each poll.\<close>

fun follow :: "(string \<Rightarrow> json option) \<Rightarrow> (nat \<Rightarrow> string) \<Rightarrow> string \<Rightarrow> chain_tx list \<Rightarrow> chain_tx list list \<Rightarrow> chronicle \<Rightarrow> chronicle" where
  "follow parse clock program chain [] s = s"
| "follow parse clock program chain (d # ds) s =
     follow parse clock program (chain @ d) ds (poll_program parse clock (honest (chain @ d)) program s)"

fun keeps_up :: "chain_tx list \<Rightarrow> chain_tx list list \<Rightarrow> bool" where
  "keeps_up chain [] \<longleftrightarrow> True"
| "keeps_up chain (d # ds) \<longleftrightarrow> length (unseen (last_good chain) (chain @ d)) \<le> SIG_BATCH \<and> keeps_up (chain @ d) ds"

lemma log_rows_snoc: "log_rows clock (xs @ [x]) = log_rows clock xs @ [row_of clock (length xs, x)]"
  by (simp add: log_rows_def enumerate_append_eq)

lemma log_rows_length [simp]: "length (log_rows clock xs) = length xs"
  by (simp add: log_rows_def)

lemma upsert_frame [simp]:
  "ch_event_log (upsert_collateral_config r s) = ch_event_log s" "ch_cursor (upsert_collateral_config r s) = ch_cursor s"
  "ch_event_log (maybe_upsert_collateral_config clock d sig s) = ch_event_log s" "ch_cursor (maybe_upsert_collateral_config clock d sig s) = ch_cursor s"
  by (simp_all add: upsert_collateral_config_def maybe_upsert_collateral_config_def Let_def split: option.split)

lemma index_line_log:
  assumes "ch_event_log s = log_rows clock xs"
  shows "ch_event_log (index_line parse clock program sig slot line s) =
      log_rows clock (xs @ map (\<lambda>e. (e, sig, slot)) (List.map_filter (\<lambda>line. parse_event_log parse line program) [line])) \<and>
    ch_cursor (index_line parse clock program sig slot line s) = ch_cursor s"
  using assms by (auto simp: index_line_def insert_event_log_def log_rows_snoc map_filter_def split: option.split)

lemma index_lines_log:
  assumes "ch_event_log s = log_rows clock xs"
  shows "ch_event_log (fold (index_line parse clock program sig slot) logs s) =
      log_rows clock (xs @ map (\<lambda>e. (e, sig, slot)) (List.map_filter (\<lambda>line. parse_event_log parse line program) logs)) \<and>
    ch_cursor (fold (index_line parse clock program sig slot) logs s) = ch_cursor s"
  using assms
proof (induction logs arbitrary: s xs)
  case (Cons line logs)
  note one = index_line_log [OF Cons.prems, of parse program sig slot line]
  from Cons.IH [OF conjunct1 [OF one]] one show ?case by (simp add: map_filter_def)
qed (simp add: map_filter_def)

lemma find_unique: "t \<in> set xs \<Longrightarrow> distinct (map f xs) \<Longrightarrow> find (\<lambda>u. f u = f t) xs = Some t"
proof (induction xs)
  case (Cons x xs)
  then show ?case by (cases "x = t") (auto simp: image_iff)
qed simp

lemma index_txs_log:
  assumes "ch_event_log s = log_rows clock xs" and "set ts \<subseteq> set chain" and "distinct (map ctx_sig chain)"
  shows "ch_event_log (fold (fetch_and_index_tx parse clock (honest chain) program) (map (\<lambda>t. (ctx_sig t, ctx_slot t)) ts) s) =
      log_rows clock (xs @ concat (map (events_of parse program) ts)) \<and>
    ch_cursor (fold (fetch_and_index_tx parse clock (honest chain) program) (map (\<lambda>t. (ctx_sig t, ctx_slot t)) ts) s) = ch_cursor s"
  using assms(1,2)
proof (induction ts arbitrary: s xs)
  case (Cons t ts)
  have "find (\<lambda>u. ctx_sig u = ctx_sig t) chain = Some t"
    using Cons.prems(2) assms(3) by (intro find_unique) auto
  then have tx: "fetch_and_index_tx parse clock (honest chain) program (ctx_sig t, ctx_slot t) s =
      fold (index_line parse clock program (ctx_sig t) (ctx_slot t)) (ctx_logs t) s"
    by (simp add: fetch_and_index_tx_def honest_def)
  note one = index_lines_log [OF Cons.prems(1), of parse program "ctx_sig t" "ctx_slot t" "ctx_logs t"]
  from Cons.IH [OF conjunct1 [OF one]] one Cons.prems(2) show ?case by (simp add: tx events_of_def)
qed simp

lemma good_append [simp]: "good (a @ b) = good a @ good b"
  by (simp add: good_def)

lemma fetched:
  assumes "length (unseen cursor chain) \<le> SIG_BATCH"
  shows "fetch_signatures (honest chain) program SIG_BATCH cursor = Some (map (\<lambda>t. (ctx_sig t, ctx_slot t)) (good (unseen cursor chain)))"
proof -
  have "List.map_filter (\<lambda>e. if se_failed e then None else map_option (\<lambda>sig. (sig, unwrap_or 0 (se_slot e))) (se_signature e))
      (map (\<lambda>t. \<lparr>se_signature = Some (ctx_sig t), se_slot = Some (ctx_slot t), se_failed = ctx_failed t\<rparr>) ts) =
    map (\<lambda>t. (ctx_sig t, ctx_slot t)) (good ts)" for ts
    by (induction ts) (auto simp: map_filter_def good_def unwrap_or_def)
  with assms show ?thesis by (simp add: fetch_signatures_def honest_def)
qed

lemma unseen_good:
  assumes "distinct (map ctx_sig (c @ d))"
  shows "good (unseen (last_good c) (c @ d)) = rev (good d)"
proof (cases "rev (good c)")
  case Nil
  then have "unseen (last_good c) (c @ d) = rev (c @ d)" "good c = []" by (simp_all add: last_good_def unseen_def takeWhile_eq_all_conv)
  then show ?thesis by (simp add: good_def rev_filter filter_empty_conv)
next
  case (Cons g rest)
  then have "filter (\<lambda>t. \<not> ctx_failed t) (rev c) = g # rest" by (simp add: good_def rev_filter)
  then obtain us vs where c: "rev c = us @ g # vs" "\<forall>u \<in> set us. ctx_failed u" by (auto simp: filter_eq_Cons_iff)
  have "distinct (map ctx_sig (rev d @ us @ g # vs))"
    using assms by (metis c(1) distinct_rev rev_append rev_map)
  then have "takeWhile (\<lambda>t. Some (ctx_sig t) \<noteq> Some (ctx_sig g)) (rev d @ us @ g # vs) = rev d @ us"
    by (subst append.assoc [symmetric], subst takeWhile_append2) (auto simp: image_iff)
  then have "unseen (last_good c) (c @ d) = rev d @ us" by (simp add: unseen_def last_good_def Cons c(1))
  then show ?thesis using c(2) by (simp add: good_def rev_filter filter_empty_conv)
qed

lemma poll_follows:
  assumes log: "ch_event_log s = log_rows clock (concat (map (events_of parse program) (good c)))"
    and cursor: "get_indexer_cursor program s = last_good c"
    and room: "length (unseen (last_good c) (c @ d)) \<le> SIG_BATCH" and sigs: "distinct (map ctx_sig (c @ d))"
    and s': "s' = poll_program parse clock (honest (c @ d)) program s"
  shows "ch_event_log s' = log_rows clock (concat (map (events_of parse program) (good (c @ d)))) \<and> get_indexer_cursor program s' = last_good (c @ d)"
proof -
  have f: "fetch_signatures (honest (c @ d)) program SIG_BATCH (get_indexer_cursor program s) =
      Some (map (\<lambda>t. (ctx_sig t, ctx_slot t)) (rev (good d)))"
    unfolding cursor using fetched [OF room, of program] by (simp add: unseen_good [OF sigs])
  show ?thesis
  proof (cases "rev (good d)")
    case Nil
    then show ?thesis using log cursor f by (simp add: s' poll_program_def last_good_def)
  next
    case (Cons t ts)
    have s'': "s' = set_indexer_cursor program (ctx_sig t)
        (fold (fetch_and_index_tx parse clock (honest (c @ d)) program) (map (\<lambda>t. (ctx_sig t, ctx_slot t)) (good d)) s)"
      using f Cons by (simp add: s' poll_program_def rev_map [symmetric] rev_swap [symmetric])
    have "set (good d) \<subseteq> set (c @ d)" by (auto simp: good_def)
    from index_txs_log [OF log this sigs, of parse program] Cons show ?thesis
      by (simp add: s'' set_indexer_cursor_def get_indexer_cursor_def last_good_def)
  qed
qed


text \<open>Two blocks with a failed transaction between two deposits, and a parser that knows no JSON.\<close>

definition demo_blocks :: "chain_tx list list" where
  "demo_blocks =
     [[\<lparr>ctx_sig = ''s1'', ctx_slot = 1, ctx_failed = False, ctx_logs = [''Program log: CollateralDeposited'', ''Program log: done'']\<rparr>,
       \<lparr>ctx_sig = ''s2'', ctx_slot = 2, ctx_failed = True, ctx_logs = [''Program log: CollateralDeposited'']\<rparr>],
      [\<lparr>ctx_sig = ''s3'', ctx_slot = 3, ctx_failed = False, ctx_logs = [''Program log: PositionLiquidated'']\<rparr>]]"


section \<open>Liquidations are recorded once\<close>

lemma liquidation_of_time: "liquidation_of now e = None \<longleftrightarrow> liquidation_of now' e = None"
  by (simp add: liquidation_of_def Let_def)

text \<open>asking twice changes nothing: when every liquidation in the event log that can be recorded carries a signature and names the address
  it is logged under, a second synchronisation, whenever it comes, finds nothing to add.\<close>

theorem liquidations_synced_once:
  assumes own: "\<And>e r. e \<in> set (ch_event_log s) \<Longrightarrow> el_event_type e = ''cdp_liquidate'' \<Longrightarrow> liquidation_of now e = Some r \<Longrightarrow>
      el_tx_signature e \<noteq> None \<and> lh_cdp_address r = el_address e"
    and s': "s' = snd (sync_liquidations_from_event_log now s)"
  shows "sync_liquidations_from_event_log now' s' = (0, s')"
proof -
  let ?missing = "filter (\<lambda>e. el_event_type e = ''cdp_liquidate'' \<and> \<not> materialised (ch_liquidations s) e) (ch_event_log s)"
  have log: "ch_event_log s' = ch_event_log s"
    and hist: "ch_liquidations s' = ch_liquidations s @ List.map_filter (liquidation_of now) ?missing"
    by (simp_all add: s' sync_liquidations_from_event_log_def Let_def)
  have "liquidation_of now' e = None"
    if e: "e \<in> set (ch_event_log s)" "el_event_type e = ''cdp_liquidate''" "\<not> materialised (ch_liquidations s') e" for e
  proof (rule ccontr)
    assume "liquidation_of now' e \<noteq> None"
    then obtain r where r: "liquidation_of now e = Some r" using liquidation_of_time [of now e now'] by auto
    have "\<not> materialised (ch_liquidations s) e" using e(3) by (auto simp: materialised_def hist)
    with e r have "r \<in> set (ch_liquidations s')" by (force simp: hist map_filter_def)
    moreover have "lh_tx_sig r = el_tx_signature e" using r by (auto simp: liquidation_of_def Let_def)
    ultimately show False using own [OF e(1,2) r] e(3) by (auto simp: materialised_def list_ex_iff)
  qed
  then have "List.map_filter (liquidation_of now')
      (filter (\<lambda>e. el_event_type e = ''cdp_liquidate'' \<and> \<not> materialised (ch_liquidations s') e) (ch_event_log s')) = []"
    by (auto simp: map_filter_def log filter_empty_conv) (metis option.distinct(1))
  then show ?thesis by (simp add: sync_liquidations_from_event_log_def Let_def)
qed

text \<open>Otherwise every query adds a row: a liquidation whose data name another address than the one it is logged under is never found again.\<close>

lemma misfiled_liquidation_repeats:
  assumes "ch_event_log s = [e]" and "el_event_type e = ''cdp_liquidate''" and "field as_str ''collateral_mint'' (el_data e) = Some m"
    and "field as_str ''cdp_address'' (el_data e) = Some a" and "a \<noteq> el_address e" and "ch_liquidations s = []"
  shows "length (ch_liquidations (((snd \<circ> sync_liquidations_from_event_log now) ^^ n) s)) = n"
proof -
  obtain r where r: "liquidation_of now e = Some r" "lh_cdp_address r = a" using assms(3,4) by (simp add: liquidation_of_def Let_def unwrap_or_def)
  have again: "snd (sync_liquidations_from_event_log now t) = t\<lparr>ch_liquidations := ch_liquidations t @ [r]\<rparr>"
    if "ch_event_log t = [e]" "list_all (\<lambda>r. lh_cdp_address r = a) (ch_liquidations t)" for t
  proof -
    have "\<not> materialised (ch_liquidations t) e" using that(2) assms(5) by (auto simp: materialised_def list_all_iff list_ex_iff)
    then show ?thesis using that(1) assms(2) r(1) by (simp add: sync_liquidations_from_event_log_def map_filter_def)
  qed
  have "ch_event_log (((snd \<circ> sync_liquidations_from_event_log now) ^^ n) s) = [e] \<and>
    length (ch_liquidations (((snd \<circ> sync_liquidations_from_event_log now) ^^ n) s)) = n \<and>
    list_all (\<lambda>r. lh_cdp_address r = a) (ch_liquidations (((snd \<circ> sync_liquidations_from_event_log now) ^^ n) s))"
    by (induction n) (use assms(1,6) in \<open>simp_all add: again r(2)\<close>)
  then show ?thesis by simp
qed

section \<open>The flags that the backend sees\<close>

text \<open>C37: the backend sees the program's flags: refreshed from the stored bytes of any configuration, at the offset it has hard-wired, its cache
  holds the configuration's feature flags, and an alert is logged exactly when the program itself would see the circuit breaker together
  with the bridge, or the sanctions oracle without either identity check.\<close>

theorem refresh_reads_program_flags:
  assumes "text \<noteq> []" and "decode text = Some (config_bytes c)"
  shows "ch_feature_flags (refresh_flags clock now decode (Some text) s) = c_feature_flags c \<and>
    (length (ch_event_log (refresh_flags clock now decode (Some text) s)) = length (ch_event_log s) + 1 \<longleftrightarrow>
       flag_set c FLAG_CIRCUIT_BREAKER \<and> flag_set c FLAG_BRIDGE_ENABLED \<or>
       flag_set c FLAG_SANCTIONS_ORACLE \<and> \<not> flag_set c FLAG_ZK_COMPLIANCE \<and> \<not> flag_set c FLAG_ZK_CREDENTIALS)"
proof -
  have len: "\<not> length (config_bytes c) < FLAGS_BYTE_OFFSET + 8" using config_bytes_fields(6) [of c] by (simp add: FLAGS_BYTE_OFFSET_def)
  have off: "u64_at FLAGS_BYTE_OFFSET (config_bytes c) = c_feature_flags c" by (simp add: FLAGS_BYTE_OFFSET_def config_bytes_fields(1))
  have flags: "FLAG_CIRCUIT_BREAKER_api = FLAG_CIRCUIT_BREAKER" "FLAG_BRIDGE_ENABLED_api = FLAG_BRIDGE_ENABLED"
    "FLAG_SANCTIONS_ORACLE_api = FLAG_SANCTIONS_ORACLE" "FLAG_ZK_COMPLIANCE_api = FLAG_ZK_COMPLIANCE" "FLAG_ZK_CREDENTIALS_api = FLAG_ZK_CREDENTIALS"
    by (simp_all add: FLAG_CIRCUIT_BREAKER_api_def FLAG_CIRCUIT_BREAKER_def FLAG_BRIDGE_ENABLED_api_def FLAG_BRIDGE_ENABLED_def
      FLAG_SANCTIONS_ORACLE_api_def FLAG_SANCTIONS_ORACLE_def FLAG_ZK_COMPLIANCE_api_def FLAG_ZK_COMPLIANCE_def
      FLAG_ZK_CREDENTIALS_api_def FLAG_ZK_CREDENTIALS_def)
  show ?thesis
    using assms by (simp add: refresh_flags_def len off Let_def check_incompatible_combos_def flags check_feature_flag_def fire_alert_def insert_event_log_def)
qed

definition demo_liquidation :: event_row where
  "demo_liquidation = \<lparr>el_event_type = ''cdp_liquidate'', el_address = ''cdp1'', el_data = JObj [(''collateral_mint'', JStr ''C''), (''debt_repaid'', JInt 40)],
     el_tx_signature = Some ''s9'', el_slot = Some 9, el_created_at = ''t''\<rparr>"

theorem liquidations_synced_once_witness:
  "fst (sync_liquidations_from_event_log ''t1'' (empty_chronicle\<lparr>ch_event_log := [demo_liquidation]\<rparr>)) = 1 \<and>
   fst (sync_liquidations_from_event_log ''t2'' (snd (sync_liquidations_from_event_log ''t1'' (empty_chronicle\<lparr>ch_event_log := [demo_liquidation]\<rparr>)))) = 0"
proof
  let ?s = "empty_chronicle\<lparr>ch_event_log := [demo_liquidation]\<rparr>"
  show "fst (sync_liquidations_from_event_log ''t1'' ?s) = 1" by code_simp
  have "el_tx_signature e \<noteq> None \<and> lh_cdp_address r = el_address e"
    if "e \<in> set (ch_event_log ?s)" "liquidation_of ''t1'' e = Some r" for e r
    using that by (auto simp: demo_liquidation_def liquidation_of_def field_def unwrap_or_def)
  from liquidations_synced_once [OF this refl, of ?s "''t1''" "''t2''"]
  show "fst (sync_liquidations_from_event_log ''t2'' (snd (sync_liquidations_from_event_log ''t1'' ?s))) = 0" by simp
qed

theorem refresh_reads_program_flags_witness:
  "ch_feature_flags (refresh_flags (\<lambda>_. []) [] (\<lambda>_. Some (config_bytes demo_config)) (Some ''x'') empty_chronicle) = c_feature_flags demo_config"
  using refresh_reads_program_flags [of "''x''" "\<lambda>_. Some (config_bytes demo_config)" demo_config "\<lambda>_. []" "[]" empty_chronicle] by simp

end
