(* ===== verification/Delivery.thy ===== *)
theory Delivery
  imports Machine
begin

text \<open>
  Webhooks of the backend: the guard on their addresses (backend/src/routes/webhooks.rs), the rows of the delivery log
  (backend/src/db.rs), dispatching, one attempt and its backoff (backend/src/webhook\_dispatch.rs), and the worker that retries
  (backend/src/webhook\_retry\_worker.rs). Tasks interleave: an attempt is two steps, claiming its row and recording the outcome, with
  the request in between. Instants are seconds; row identities are chosen outside (random UUIDs).
\<close>

section \<open>The guard on addresses\<close>

datatype ip_addr = V4 nat nat nat nat | V6 "u16 list"

definition lower :: "string \<Rightarrow> string" where
  "lower s = map (\<lambda>c. let k = of_char c :: nat in if 65 \<le> k \<and> k \<le> 90 then char_of (k + 32) else c) s"

definition strip_prefix :: "string \<Rightarrow> string \<Rightarrow> string option" where
  "strip_prefix p s = (if take (length p) s = p then Some (drop (length p) s) else None)"

definition ends_with :: "string \<Rightarrow> string \<Rightarrow> bool" where
  "ends_with s e \<longleftrightarrow> length e \<le> length s \<and> drop (length s - length e) s = e"

definition is_digit :: "char \<Rightarrow> bool" where
  "is_digit c \<longleftrightarrow> (let k = of_char c :: nat in 48 \<le> k \<and> k \<le> 57)"

text \<open>Up to the first slash, without a last colon that only digits follow.\<close>

definition host_of :: "string \<Rightarrow> string" where
  "host_of rest =
     (let h = takeWhile (\<lambda>c. c \<noteq> CHR ''/'') rest;
          after = rev (takeWhile (\<lambda>c. c \<noteq> CHR '':'') (rev h)) in
      if CHR '':'' \<in> set h \<and> list_all is_digit after then take (length h - length after - 1) h else h)"

definition v4_blocked :: "nat \<Rightarrow> nat \<Rightarrow> nat \<Rightarrow> nat \<Rightarrow> bool" where
  "v4_blocked a b c d \<longleftrightarrow>
     a = 127 \<or> (a = 10 \<or> a = 172 \<and> 16 \<le> b \<and> b \<le> 31 \<or> a = 192 \<and> b = 168) \<or> a = 169 \<and> b = 254 \<or>
     (a = 0 \<and> b = 0 \<and> c = 0 \<and> d = 0) \<or> (a = 255 \<and> b = 255 \<and> c = 255 \<and> d = 255)"

definition v6_blocked :: "u16 list \<Rightarrow> bool" where
  "v6_blocked s \<longleftrightarrow>
     s = [0, 0, 0, 0, 0, 0, 0, 1] \<or> s = replicate 8 0 \<or> hd s AND 0xfe00 = 0xfc00 \<or> hd s AND 0xffc0 = 0xfe80"

fun ip_blocked :: "ip_addr \<Rightarrow> bool" where
  "ip_blocked (V4 a b c d) = v4_blocked a b c d"
| "ip_blocked (V6 s) = v6_blocked s"

datatype url_error = BadScheme | EmptyHost | LocalHost | PrivateAddress

definition unbracket :: "string \<Rightarrow> string" where
  "unbracket h = rev (dropWhile (\<lambda>c. c = CHR '']'') (rev (dropWhile (\<lambda>c. c = CHR ''['') h)))"

definition check_host :: "(string \<Rightarrow> ip_addr option) \<Rightarrow> string \<Rightarrow> url_error + unit" where
  "check_host parse_ip h =
     guarded
       [(h \<noteq> [], EmptyHost), (\<not> (h = ''localhost'' \<or> ends_with h ''.localhost''), LocalHost),
        (\<not> (case parse_ip (unbracket h) of None \<Rightarrow> False | Some ip \<Rightarrow> ip_blocked ip), PrivateAddress)]
       (Inr ())"

definition validate_webhook_url :: "(string \<Rightarrow> ip_addr option) \<Rightarrow> string \<Rightarrow> url_error + unit" where
  "validate_webhook_url parse_ip raw =
     (let l = lower raw in
      case strip_prefix ''https://'' l of
        Some rest \<Rightarrow> check_host parse_ip (host_of rest)
      | None \<Rightarrow> (case strip_prefix ''http://'' l of Some rest \<Rightarrow> check_host parse_ip (host_of rest) | None \<Rightarrow> Inl BadScheme))"

section \<open>The delivery log\<close>

datatype delivery_status = Pending | InProgress | Delivered | Failed | PermanentlyFailed

text \<open>What is posted: the event, the identity of the delivery (absent from what is stored), the time and the data.\<close>

record 'd webhook_body =
  wb_event :: string
  wb_delivery_id :: "string option"
  wb_delivered_at :: int
  wb_data :: 'd

record 'd delivery_row =
  dl_id :: string
  dl_webhook_id :: string
  dl_event_type :: string
  dl_payload :: "'d webhook_body"
  dl_status :: delivery_status
  dl_attempt_count :: int
  dl_next_retry_at :: "int option"
  dl_created_at :: int
  dl_updated_at :: int

record webhook_entry =
  wh_id :: string
  wh_url :: string
  wh_events :: "string list"
  wh_secret :: "string option"

datatype db_error = Conflict | NotFound string

type_synonym 'd delivery_log = "'d delivery_row list"

definition claimable :: "delivery_status \<Rightarrow> bool" where "claimable st \<longleftrightarrow> st = Pending \<or> st = Failed"

definition update_row :: "string \<Rightarrow> ('d delivery_row \<Rightarrow> 'd delivery_row) \<Rightarrow> 'd delivery_log \<Rightarrow> 'd delivery_log" where
  "update_row i f log = map (\<lambda>r. if dl_id r = i then f r else r) log"

definition has_row :: "string \<Rightarrow> 'd delivery_log \<Rightarrow> bool" where "has_row i log \<longleftrightarrow> i \<in> dl_id ` set log"

definition insert_webhook_delivery :: "int \<Rightarrow> string \<Rightarrow> string \<Rightarrow> string \<Rightarrow> 'd webhook_body \<Rightarrow> 'd delivery_log \<Rightarrow> db_error + 'd delivery_log" where
  "insert_webhook_delivery now i webhook event payload log =
     guarded [(\<not> has_row i log, Conflict)]
       (Inr (log @ [\<lparr>dl_id = i, dl_webhook_id = webhook, dl_event_type = event, dl_payload = payload, dl_status = Pending,
                     dl_attempt_count = 0, dl_next_retry_at = None, dl_created_at = now, dl_updated_at = now\<rparr>]))"

definition mark_webhook_delivery_delivered :: "int \<Rightarrow> string \<Rightarrow> 'd delivery_log \<Rightarrow> db_error + 'd delivery_log" where
  "mark_webhook_delivery_delivered now i log =
     guarded [(has_row i log, NotFound i)] (Inr (update_row i (\<lambda>r. r\<lparr>dl_status := Delivered, dl_updated_at := now\<rparr>) log))"

definition mark_webhook_delivery_failed :: "int \<Rightarrow> string \<Rightarrow> int \<Rightarrow> int option \<Rightarrow> 'd delivery_log \<Rightarrow> db_error + 'd delivery_log" where
  "mark_webhook_delivery_failed now i attempt_count next_retry_at log =
     guarded [(has_row i log, NotFound i)]
       (Inr (update_row i
          (\<lambda>r. r\<lparr>dl_status := (if next_retry_at \<noteq> None then Failed else PermanentlyFailed), dl_attempt_count := attempt_count,
                 dl_next_retry_at := next_retry_at, dl_updated_at := now\<rparr>) log))"

text \<open>Whether a row was claimed, and the log.\<close>

definition claim_webhook_delivery :: "int \<Rightarrow> string \<Rightarrow> 'd delivery_log \<Rightarrow> bool \<times> 'd delivery_log" where
  "claim_webhook_delivery now i log =
     (list_ex (\<lambda>r. dl_id r = i \<and> claimable (dl_status r)) log,
      map (\<lambda>r. if dl_id r = i \<and> claimable (dl_status r) then r\<lparr>dl_status := InProgress, dl_updated_at := now\<rparr> else r) log)"

definition due :: "int \<Rightarrow> 'd delivery_row \<Rightarrow> bool" where
  "due now r \<longleftrightarrow> dl_status r = Pending \<or>
     (dl_status r = Failed \<and> (case dl_next_retry_at r of None \<Rightarrow> False | Some t \<Rightarrow> t \<le> now))"

definition get_pending_webhook_deliveries :: "int \<Rightarrow> 'd delivery_log \<Rightarrow> 'd delivery_row list" where
  "get_pending_webhook_deliveries now log = take 100 (sort_key dl_created_at (filter (due now) log))"

definition list_failed_webhook_deliveries :: "'d delivery_log \<Rightarrow> 'd delivery_row list" where
  "list_failed_webhook_deliveries log =
     take 500 (rev (sort_key dl_updated_at (filter (\<lambda>r. dl_status r \<in> {PermanentlyFailed, Failed}) log)))"

section \<open>An attempt\<close>

definition BACKOFF_SECS :: "int list" where "BACKOFF_SECS = [1, 5]"
definition MAX_ATTEMPTS :: int where "MAX_ATTEMPTS = 3"

definition next_retry_after :: "int \<Rightarrow> int \<Rightarrow> int option" where
  "next_retry_after now attempt =
     (if MAX_ATTEMPTS \<le> attempt then None
      else Some (now + (if 0 \<le> attempt - 1 \<and> nat (attempt - 1) < length BACKOFF_SECS then BACKOFF_SECS ! nat (attempt - 1) else 30)))"

text \<open>An answer of any kind counts as delivered: the status of the response is only logged.\<close>

datatype post_outcome = Answered nat | NoAnswer

fun post_ok :: "post_outcome \<Rightarrow> bool" where
  "post_ok (Answered code) = True"
| "post_ok NoAnswer = False"

text \<open>Recording the outcome. An update that fails is only logged, so the log is then as it was; running out of attempts leaves an alert.\<close>

fun keep_log :: "'d delivery_log \<Rightarrow> db_error + 'd delivery_log \<Rightarrow> 'd delivery_log" where
  "keep_log log (Inl e) = log"
| "keep_log log (Inr log') = log'"

definition finish_attempt :: "int \<Rightarrow> string \<Rightarrow> int \<Rightarrow> post_outcome \<Rightarrow> 'd delivery_log \<times> string list \<Rightarrow> 'd delivery_log \<times> string list" where
  "finish_attempt now i attempt outcome = (\<lambda>(log, alerts).
     if post_ok outcome then (keep_log log (mark_webhook_delivery_delivered now i log), alerts)
     else (case next_retry_after now attempt of
             None \<Rightarrow> (keep_log log (mark_webhook_delivery_failed now i attempt None log), alerts @ [i])
           | Some t \<Rightarrow> (keep_log log (mark_webhook_delivery_failed now i attempt (Some t) log), alerts)))"

section \<open>Tasks\<close>

text \<open>
  What runs: attempts that \<open>dispatch\<close> has spawned and that have not claimed yet, what the current pass of the retry worker still has
  to do, the requests that are out, and everything that has been posted. The worker waits for its own request.
\<close>

record 'd attempt =
  at_id :: string
  at_count :: int
  at_body :: "'d webhook_body"

record 'd courier =
  co_log :: "'d delivery_log"
  co_alerts :: "string list"
  co_spawned :: "'d attempt list"
  co_queue :: "'d delivery_row list"
  co_flying :: "(bool \<times> 'd attempt) list"
  co_posted :: "'d attempt list"

text \<open>What the database answers when the worker looks up the webhook of a delivery.\<close>

datatype webhook_lookup = FoundWebhook webhook_entry | NoWebhook | LookupFailed

datatype 'd courier_event =
    Dispatch int string 'd "(webhook_entry \<times> string) list"
  | RunSpawned int nat
  | RetryPass int
  | RetryNext int webhook_lookup bool
  | Finish int nat post_outcome
  | Restart

definition wants :: "string \<Rightarrow> webhook_entry \<Rightarrow> bool" where
  "wants event wh \<longleftrightarrow> list_ex (\<lambda>e. e = event \<or> e = ''*'') (wh_events wh)"

text \<open>One webhook of \<open>dispatch\<close>, with the identity that its row gets; an insert that fails skips it.\<close>

definition dispatch_one :: "int \<Rightarrow> string \<Rightarrow> 'd \<Rightarrow> webhook_entry \<times> string \<Rightarrow> 'd courier \<Rightarrow> 'd courier" where
  "dispatch_one now event payload = (\<lambda>(wh, i) s.
     if \<not> wants event wh then s
     else (case insert_webhook_delivery now i (wh_id wh) event
                  \<lparr>wb_event = event, wb_delivery_id = None, wb_delivered_at = now, wb_data = payload\<rparr> (co_log s) of
             Inl _ \<Rightarrow> s
           | Inr log \<Rightarrow>
               s\<lparr>co_log := log,
                 co_spawned := co_spawned s @
                   [\<lparr>at_id = i, at_count = 1,
                     at_body = \<lparr>wb_event = event, wb_delivery_id = Some i, wb_delivered_at = now, wb_data = payload\<rparr>\<rparr>]\<rparr>))"

definition dispatch :: "int \<Rightarrow> string \<Rightarrow> 'd \<Rightarrow> (webhook_entry \<times> string) list \<Rightarrow> 'd courier \<Rightarrow> 'd courier" where
  "dispatch now event payload whs s = fold (dispatch_one now event payload) whs s"

text \<open>The first half of \<open>execute_attempt\<close>.\<close>

definition start_attempt :: "int \<Rightarrow> bool \<Rightarrow> 'd attempt \<Rightarrow> 'd courier \<Rightarrow> 'd courier" where
  "start_attempt now worker a s =
     (let (claimed, log) = claim_webhook_delivery now (at_id a) (co_log s) in
      if claimed then s\<lparr>co_log := log, co_flying := co_flying s @ [(worker, a)], co_posted := co_posted s @ [a]\<rparr> else s)"

definition worker_idle :: "'d courier \<Rightarrow> bool" where
  "worker_idle s \<longleftrightarrow> co_queue s = [] \<and> \<not> list_ex fst (co_flying s)"

definition drop_at :: "nat \<Rightarrow> 'a list \<Rightarrow> 'a list" where "drop_at n xs = take n xs @ drop (Suc n) xs"

text \<open>
  One delivery of a retry pass: its webhook may be gone or its payload unreadable, and then it has failed for good; a lookup that fails
  skips it.
\<close>

definition retry_one :: "int \<Rightarrow> webhook_lookup \<Rightarrow> bool \<Rightarrow> 'd delivery_row \<Rightarrow> 'd courier \<Rightarrow> 'd courier" where
  "retry_one now webhook readable r s =
     (if webhook = LookupFailed then s
      else if webhook = NoWebhook \<or> \<not> readable then
        s\<lparr>co_log := keep_log (co_log s) (mark_webhook_delivery_failed now (dl_id r) (dl_attempt_count r + 1) None (co_log s))\<rparr>
      else start_attempt now True \<lparr>at_id = dl_id r, at_count = dl_attempt_count r + 1, at_body = dl_payload r\<rparr> s)"

text \<open>A step that cannot happen now is an error: an index that is not there, or a worker that is busy.\<close>

fun courier_exec :: "'d courier_event \<Rightarrow> 'd courier \<Rightarrow> unit + 'd courier" where
  "courier_exec (Dispatch now event payload whs) s = Inr (dispatch now event payload whs s)"
| "courier_exec (RunSpawned now n) s =
     guarded [(n < length (co_spawned s), ())]
       (Inr (start_attempt now False (co_spawned s ! n) (s\<lparr>co_spawned := drop_at n (co_spawned s)\<rparr>)))"
| "courier_exec (RetryPass now) s =
     guarded [(worker_idle s, ())] (Inr (s\<lparr>co_queue := get_pending_webhook_deliveries now (co_log s)\<rparr>))"
| "courier_exec (RetryNext now webhook readable) s =
     guarded [(\<not> list_ex fst (co_flying s), ())]
       (case co_queue s of
          [] \<Rightarrow> Inl ()
        | r # rest \<Rightarrow> Inr (retry_one now webhook readable r (s\<lparr>co_queue := rest\<rparr>)))"
| "courier_exec (Finish now n outcome) s =
     guarded [(n < length (co_flying s), ())]
       (let a = snd (co_flying s ! n); (log, alerts) = finish_attempt now (at_id a) (at_count a) outcome (co_log s, co_alerts s) in
        Inr (s\<lparr>co_log := log, co_alerts := alerts, co_flying := drop_at n (co_flying s)\<rparr>))"
| "courier_exec Restart s = Inr (s\<lparr>co_spawned := [], co_queue := [], co_flying := []\<rparr>)"

section \<open>How often a delivery is posted\<close>

definition posts :: "string \<Rightarrow> 'd courier \<Rightarrow> nat" where
  "posts d s = length (filter (\<lambda>a. at_id a = d) (co_posted s))"

text \<open>
  While the spawned attempt of a delivery has not run, every post has been counted in its row; the spawned attempt knows nothing of
  what the worker did meanwhile, so afterwards the row may be up to two posts behind.
\<close>

definition slack :: "string \<Rightarrow> 'd courier \<Rightarrow> nat" where
  "slack d s = (if d \<in> at_id ` set (co_spawned s) then 0 else 2)"

definition ready :: "'d courier \<Rightarrow> string \<Rightarrow> int \<Rightarrow> bool" where
  "ready s d c \<longleftrightarrow> 0 \<le> c \<and> c \<le> 2 \<and> int (posts d s) \<le> c + int (slack d s)"

definition in_flight :: "'d courier \<Rightarrow> string \<Rightarrow> int \<Rightarrow> bool" where
  "in_flight s d k \<longleftrightarrow> 1 \<le> k \<and> k \<le> 3 \<and> int (posts d s) \<le> k + int (slack d s) \<and>
     (\<forall>r \<in> set (co_log s). dl_id r = d \<longrightarrow> \<not> claimable (dl_status r))"

definition known :: "'d courier \<Rightarrow> bool" where
  "known s \<longleftrightarrow> at_id ` set (co_spawned s) \<subseteq> dl_id ` set (co_log s) \<and> dl_id ` set (co_queue s) \<subseteq> dl_id ` set (co_log s) \<and>
     (at_id \<circ> snd) ` set (co_flying s) \<subseteq> dl_id ` set (co_log s) \<and> at_id ` set (co_posted s) \<subseteq> dl_id ` set (co_log s)"

definition single :: "'d courier \<Rightarrow> bool" where
  "single s \<longleftrightarrow> distinct (map dl_id (co_log s)) \<and> distinct (map at_id (co_spawned s)) \<and> distinct (map dl_id (co_queue s)) \<and>
     distinct (map (at_id \<circ> snd) (co_flying s))"

definition courier_inv :: "'d courier \<Rightarrow> bool" where
  "courier_inv s \<longleftrightarrow> single s \<and> known s \<and> (\<forall>a \<in> set (co_spawned s). at_count a = 1) \<and>
     (\<forall>r \<in> set (co_log s). claimable (dl_status r) \<longrightarrow> ready s (dl_id r) (dl_attempt_count r)) \<and>
     (\<forall>r \<in> set (co_queue s). ready s (dl_id r) (dl_attempt_count r)) \<and>
     (\<forall>x \<in> set (co_flying s). in_flight s (at_id (snd x)) (at_count (snd x))) \<and> (\<forall>d. posts d s \<le> 5)"

lemmas courier_defs = courier_inv_def single_def known_def ready_def in_flight_def posts_def slack_def

lemma set_drop_at: "set (drop_at n xs) \<subseteq> set xs"
  by (auto simp: drop_at_def dest: in_set_takeD in_set_dropD)

lemma distinct_drop_at:
  assumes "distinct (map f xs)" and "n < length xs"
  shows "distinct (map f (drop_at n xs))" "f (xs ! n) \<notin> f ` set (drop_at n xs)" "f ` set (drop_at n xs) = f ` set xs - {f (xs ! n)}"
proof -
  have split: "map f xs = map f (take n xs) @ f (xs ! n) # map f (drop (Suc n) xs)"
    using id_take_nth_drop [OF assms(2)] by (metis list.simps(9) map_append)
  have "distinct (map f (take n xs) @ f (xs ! n) # map f (drop (Suc n) xs))" using assms(1) split by metis
  then show "distinct (map f (drop_at n xs))" "f (xs ! n) \<notin> f ` set (drop_at n xs)" by (auto simp: drop_at_def)
  moreover have "f ` set xs = insert (f (xs ! n)) (f ` set (drop_at n xs))"
    using arg_cong [OF split, of set] by (auto simp: drop_at_def)
  ultimately show "f ` set (drop_at n xs) = f ` set xs - {f (xs ! n)}" by auto
qed

lemma update_row_ids [simp]: "map dl_id (update_row i (\<lambda>r. r\<lparr>dl_status := a r, dl_attempt_count := b r, dl_next_retry_at := c r, dl_updated_at := e r\<rparr>) log) = map dl_id log"
  by (simp add: update_row_def)

lemma claim_ids [simp]: "map dl_id (snd (claim_webhook_delivery now i log)) = map dl_id log"
  by (simp add: claim_webhook_delivery_def)

text \<open>An attempt that may start leaves the invariant intact.\<close>

lemma start_attempt_inv:
  assumes inv: "courier_inv s" and k: "1 \<le> at_count a" "at_count a \<le> 3"
    and room: "\<And>r. r \<in> set (co_log s) \<Longrightarrow> dl_id r = at_id a \<Longrightarrow> claimable (dl_status r) \<Longrightarrow>
        int (posts (at_id a) s) + 1 \<le> at_count a + int (slack (at_id a) s)"
    and waiting: "\<And>r. r \<in> set (co_queue s) \<Longrightarrow> dl_id r = at_id a \<Longrightarrow> int (posts (at_id a) s) + 1 \<le> dl_attempt_count r + int (slack (at_id a) s)"
  shows "courier_inv (start_attempt now worker a s)"
proof (cases "list_ex (\<lambda>r. dl_id r = at_id a \<and> claimable (dl_status r)) (co_log s)")
  case True
  then obtain r where r: "r \<in> set (co_log s)" "dl_id r = at_id a" "claimable (dl_status r)" by (auto simp: list_ex_iff)
  let ?s = "start_attempt now worker a s"
  have s': "co_log ?s = snd (claim_webhook_delivery now (at_id a) (co_log s))" "co_spawned ?s = co_spawned s" "co_queue ?s = co_queue s"
    "co_flying ?s = co_flying s @ [(worker, a)]" "co_posted ?s = co_posted s @ [a]"
    using True by (simp_all add: start_attempt_def claim_webhook_delivery_def)
  have p: "posts d ?s = posts d s + (if at_id a = d then 1 else 0)" and sl: "slack d ?s = slack d s" for d
    by (simp_all add: posts_def slack_def s')
  have none: "at_id a \<notin> (at_id \<circ> snd) ` set (co_flying s)"
    using inv r by (force simp: courier_inv_def in_flight_def)
  have log: "r' \<in> set (co_log ?s) \<Longrightarrow> claimable (dl_status r') \<Longrightarrow> r' \<in> set (co_log s) \<and> dl_id r' \<noteq> at_id a" for r'
    by (auto simp: s' claim_webhook_delivery_def claimable_def split: if_splits)
  have ids: "dl_id ` set (co_log ?s) = dl_id ` set (co_log s)" using arg_cong [OF claim_ids [of now "at_id a" "co_log s"], of set] by (simp only: set_map s')
  have "single ?s" using inv none by (auto simp: courier_inv_def single_def s')
  moreover have "known ?s" using inv r by (auto simp: courier_inv_def known_def ids) (auto simp: s' r(2) [symmetric])
  moreover have "\<forall>d. posts d ?s \<le> 5"
    using inv room [OF r] k(2) by (auto simp: courier_inv_def p slack_def split: if_splits)
  moreover have "\<forall>r \<in> set (co_log ?s). claimable (dl_status r) \<longrightarrow> ready ?s (dl_id r) (dl_attempt_count r)"
  proof (intro ballI impI)
    fix r' assume r': "r' \<in> set (co_log ?s)" "claimable (dl_status r')"
    with log have "r' \<in> set (co_log s)" "dl_id r' \<noteq> at_id a" by auto
    with inv r'(2) show "ready ?s (dl_id r') (dl_attempt_count r')" by (auto simp: courier_inv_def ready_def p sl)
  qed
  moreover have "\<forall>r \<in> set (co_queue ?s). ready ?s (dl_id r) (dl_attempt_count r)"
    using inv waiting by (auto simp: courier_inv_def ready_def p sl s')
  moreover have "\<forall>x \<in> set (co_flying ?s). in_flight ?s (at_id (snd x)) (at_count (snd x))"
  proof
    fix x assume "x \<in> set (co_flying ?s)"
    then consider "x \<in> set (co_flying s)" "at_id (snd x) \<noteq> at_id a" | "x = (worker, a)" using none by (force simp: s')
    then show "in_flight ?s (at_id (snd x)) (at_count (snd x))"
    proof cases
      case 1
      with inv have "in_flight s (at_id (snd x)) (at_count (snd x))" by (simp add: courier_inv_def)
      with 1(2) log show ?thesis by (auto simp: in_flight_def p sl)
    next
      case 2
      with room [OF r] k log show ?thesis by (auto simp: in_flight_def p sl)
    qed
  qed
  ultimately show ?thesis using inv by (simp add: courier_inv_def s')
next
  case False
  then show ?thesis using inv by (simp add: start_attempt_def claim_webhook_delivery_def)
qed

lemma frame [simp]:
  "posts d (s\<lparr>co_log := l, co_alerts := al, co_flying := fl\<rparr>) = posts d s" "slack d (s\<lparr>co_log := l, co_alerts := al, co_flying := fl\<rparr>) = slack d s"
  "posts d (s\<lparr>co_log := l\<rparr>) = posts d s" "slack d (s\<lparr>co_log := l\<rparr>) = slack d s"
  "posts d (s\<lparr>co_queue := q\<rparr>) = posts d s" "slack d (s\<lparr>co_queue := q\<rparr>) = slack d s" "posts d (s\<lparr>co_spawned := sp\<rparr>) = posts d s"
  by (simp_all add: posts_def slack_def)

lemma queue_inv:
  assumes "courier_inv s" and "distinct (map dl_id q)" and "dl_id ` set q \<subseteq> dl_id ` set (co_log s)"
    and "\<And>r. r \<in> set q \<Longrightarrow> ready s (dl_id r) (dl_attempt_count r)"
  shows "courier_inv (s\<lparr>co_queue := q\<rparr>)"
  using assms by (auto simp: courier_inv_def single_def known_def ready_def in_flight_def)

lemma looser:
  assumes "posts d s' = posts d s" and "slack d s \<le> slack d s'"
  shows "ready s d c \<Longrightarrow> ready s' d c" "in_flight s d k \<Longrightarrow> co_log s' = co_log s \<Longrightarrow> in_flight s' d k"
  using assms by (auto simp: ready_def in_flight_def)

lemma unspawn_inv:
  assumes inv: "courier_inv s" and n: "n < length (co_spawned s)"
  shows "courier_inv (s\<lparr>co_spawned := drop_at n (co_spawned s)\<rparr>)"
proof -
  let ?s = "s\<lparr>co_spawned := drop_at n (co_spawned s)\<rparr>"
  have "slack d s \<le> slack d ?s" for d using set_drop_at [of n "co_spawned s"] by (auto simp: slack_def)
  note looser = looser [OF frame(7) this]
  have "distinct (map at_id (drop_at n (co_spawned s)))"
    by (rule distinct_drop_at(1) [OF _ n]) (use inv in \<open>simp add: courier_inv_def single_def\<close>)
  then have "single ?s" using inv by (simp add: courier_inv_def single_def)
  moreover have "known ?s" using inv set_drop_at [of n "co_spawned s"] by (auto simp: courier_inv_def known_def)
  ultimately show ?thesis
    using inv set_drop_at [of n "co_spawned s"] by (auto simp: courier_inv_def intro: looser)
qed

lemma update_ids: "map dl_id (update_row i f log) = map dl_id log" "dl_id ` set (update_row i f log) = dl_id ` set log"
  if "\<And>r. dl_id (f r) = dl_id r"
proof -
  show ids: "map dl_id (update_row i f log) = map dl_id log" using that by (simp add: update_row_def)
  show "dl_id ` set (update_row i f log) = dl_id ` set log" using arg_cong [OF ids, of set] by (simp only: set_map)
qed

text \<open>The rows of one delivery change, and if it may be claimed afterwards it is in the air no more.\<close>

lemma update_inv:
  assumes inv: "courier_inv s" and id: "\<And>r. dl_id (f r) = dl_id r"
    and again: "\<And>r. claimable (dl_status (f r)) \<Longrightarrow> ready s i (dl_attempt_count (f r)) \<and> i \<notin> (at_id \<circ> snd) ` set (co_flying s)"
  shows "courier_inv (s\<lparr>co_log := update_row i f (co_log s)\<rparr>)"
proof -
  let ?s = "s\<lparr>co_log := update_row i f (co_log s)\<rparr>"
  have row: "r \<in> set (co_log s) \<and> dl_id r \<noteq> i \<or> (\<exists>r0. r = f r0 \<and> dl_id r0 = i)" if "r \<in> set (co_log ?s)" for r
    using that by (auto simp: update_row_def split: if_splits)
  have "\<forall>r \<in> set (co_log ?s). claimable (dl_status r) \<longrightarrow> ready ?s (dl_id r) (dl_attempt_count r)"
  proof (intro ballI impI)
    fix r assume r: "r \<in> set (co_log ?s)" "claimable (dl_status r)"
    from row [OF r(1)] show "ready ?s (dl_id r) (dl_attempt_count r)"
    proof
      assume "r \<in> set (co_log s) \<and> dl_id r \<noteq> i"
      with inv r(2) show ?thesis by (simp add: courier_inv_def ready_def)
    next
      assume "\<exists>r0. r = f r0 \<and> dl_id r0 = i"
      with again r(2) id show ?thesis by (auto simp: ready_def)
    qed
  qed
  moreover have "\<forall>x \<in> set (co_flying ?s). in_flight ?s (at_id (snd x)) (at_count (snd x))"
  proof
    fix x assume "x \<in> set (co_flying ?s)"
    then have x: "x \<in> set (co_flying s)" "in_flight s (at_id (snd x)) (at_count (snd x))" using inv by (simp_all add: courier_inv_def)
    have "\<not> claimable (dl_status r)" if "r \<in> set (co_log ?s)" "dl_id r = at_id (snd x)" for r
      using row [OF that(1)] x that(2) again id by (force simp: in_flight_def)
    with x(2) show "in_flight ?s (at_id (snd x)) (at_count (snd x))" by (simp add: in_flight_def)
  qed
  moreover have "single ?s \<and> known ?s" using inv by (simp add: courier_inv_def single_def known_def update_ids [OF id])
  moreover have "\<forall>r \<in> set (co_queue ?s). ready ?s (dl_id r) (dl_attempt_count r)" using inv by (simp add: courier_inv_def ready_def)
  ultimately show ?thesis using inv by (simp add: courier_inv_def)
qed

lemma land_inv:
  assumes inv: "courier_inv s" and n: "n < length (co_flying s)"
  shows "courier_inv (s\<lparr>co_flying := drop_at n (co_flying s)\<rparr>)"
    "at_id (snd (co_flying s ! n)) \<notin> (at_id \<circ> snd) ` set (drop_at n (co_flying s))"
proof -
  have d: "distinct (map (at_id \<circ> snd) (co_flying s))" using inv by (simp add: courier_inv_def single_def)
  show "at_id (snd (co_flying s ! n)) \<notin> (at_id \<circ> snd) ` set (drop_at n (co_flying s))" using distinct_drop_at(2) [OF d n] by simp
  let ?s = "s\<lparr>co_flying := drop_at n (co_flying s)\<rparr>"
  have p: "posts i ?s = posts i s" and sl: "slack i ?s = slack i s" for i by (simp_all add: posts_def slack_def)
  have "single ?s" using inv distinct_drop_at(1) [OF d n] by (simp add: courier_inv_def single_def)
  moreover have "known ?s"
    using inv subset_trans [OF image_mono [OF set_drop_at [of n "co_flying s"], of "at_id \<circ> snd"]] by (simp add: courier_inv_def known_def)
  moreover have "ready ?s i c = ready s i c" "in_flight ?s i c = in_flight s i c" for i c by (simp_all add: ready_def in_flight_def p sl)
  moreover have "\<forall>x \<in> set (co_flying s). in_flight s (at_id (snd x)) (at_count (snd x))" using inv by (simp add: courier_inv_def)
  then have "\<forall>x \<in> set (co_flying ?s). in_flight s (at_id (snd x)) (at_count (snd x))" using set_drop_at [of n "co_flying s"] by auto
  ultimately show "courier_inv ?s" using inv by (simp add: courier_inv_def p)
qed

lemma alerts_inv [simp]: "courier_inv (s\<lparr>co_alerts := al\<rparr>) = courier_inv s"
  by (simp add: courier_defs)

lemma finish_inv:
  assumes inv: "courier_inv s" and n: "n < length (co_flying s)" and step: "courier_exec (Finish now n outcome) s = Inr s'"
  shows "courier_inv s'"
proof -
  define a where "a = snd (co_flying s ! n)"
  define s1 where "s1 = s\<lparr>co_flying := drop_at n (co_flying s)\<rparr>"
  have fl: "in_flight s (at_id a) (at_count a)" using inv n by (simp add: courier_inv_def a_def)
  have k: "ready s1 (at_id a) (at_count a)" if "next_retry_after now (at_count a) = Some t" for t
    using fl that by (auto simp: s1_def ready_def in_flight_def next_retry_after_def MAX_ATTEMPTS_def posts_def slack_def split: if_splits)
  note land = land_inv [OF inv n, folded a_def s1_def]
  have free: "at_id a \<notin> (at_id \<circ> snd) ` set (co_flying s1)" using land(2) by (simp add: s1_def)
  have s': "s' = s1\<lparr>co_log := fst (finish_attempt now (at_id a) (at_count a) outcome (co_log s1, co_alerts s1)),
                    co_alerts := snd (finish_attempt now (at_id a) (at_count a) outcome (co_log s1, co_alerts s1))\<rparr>"
    using step n by (cases s) (auto simp: a_def s1_def Let_def case_prod_unfold)
  have same: "courier_inv (s1\<lparr>co_log := co_log s1\<rparr>)" using land(1) by simp
  have gone: "courier_inv (s1\<lparr>co_log := keep_log (co_log s1) (mark_webhook_delivery_delivered now (at_id a) (co_log s1))\<rparr>)"
    using update_inv [OF land(1), of "\<lambda>r. r\<lparr>dl_status := Delivered, dl_updated_at := now\<rparr>" "at_id a"] same
    by (simp add: mark_webhook_delivery_delivered_def claimable_def)
  have lost: "courier_inv (s1\<lparr>co_log := keep_log (co_log s1) (mark_webhook_delivery_failed now (at_id a) (at_count a) t (co_log s1))\<rparr>)"
    if "next_retry_after now (at_count a) = t" for t
    using update_inv [OF land(1), of "\<lambda>r. r\<lparr>dl_status := (if t \<noteq> None then Failed else PermanentlyFailed), dl_attempt_count := at_count a,
        dl_next_retry_at := t, dl_updated_at := now\<rparr>" "at_id a"] same k free that
    by (cases t) (auto simp: mark_webhook_delivery_failed_def claimable_def)
  show ?thesis
    using gone lost [OF refl] by (auto simp: s' finish_attempt_def split: option.splits)
qed

lemma dispatch_one_inv: "courier_inv s \<Longrightarrow> courier_inv (dispatch_one now event payload x s)"
proof -
  assume inv: "courier_inv s"
  obtain wh i where x: "x = (wh, i)" by force
  show ?thesis
  proof (cases "wants event wh \<and> \<not> has_row i (co_log s)")
    case False
    then show ?thesis using inv by (auto simp: x dispatch_one_def insert_webhook_delivery_def)
  next
    case True
    let ?s = "dispatch_one now event payload x s"
    have new: "i \<notin> dl_id ` set (co_log s)" using True by (simp add: has_row_def)
    define row where "row = \<lparr>dl_id = i, dl_webhook_id = wh_id wh, dl_event_type = event,
      dl_payload = \<lparr>wb_event = event, wb_delivery_id = None, wb_delivered_at = now, wb_data = payload\<rparr>,
      dl_status = Pending, dl_attempt_count = 0, dl_next_retry_at = None, dl_created_at = now, dl_updated_at = now\<rparr>"
    define a where "a = \<lparr>at_id = i, at_count = 1,
      at_body = \<lparr>wb_event = event, wb_delivery_id = Some i, wb_delivered_at = now, wb_data = payload\<rparr>\<rparr>"
    have s': "?s = s\<lparr>co_log := co_log s @ [row], co_spawned := co_spawned s @ [a]\<rparr>"
      using True by (simp add: x dispatch_one_def insert_webhook_delivery_def row_def a_def)
    have ra: "dl_id row = i" "dl_attempt_count row = 0" "dl_status row = Pending" "at_id a = i" "at_count a = 1" by (simp_all add: row_def a_def)
    have known: "known s" using inv by (simp add: courier_inv_def)
    then have zero: "posts i s = 0" using new by (auto simp: known_def posts_def filter_empty_conv)
    have p: "posts d ?s = posts d s" for d by (simp add: posts_def s')
    have sl: "slack d ?s = slack d s" if "d \<noteq> i" for d using that by (auto simp: slack_def s' ra)
    have fresh: "i \<notin> at_id ` set (co_spawned s)" "i \<notin> dl_id ` set (co_queue s)" "i \<notin> (at_id \<circ> snd) ` set (co_flying s)"
      using known new by (auto simp: known_def)
    have "single ?s" using inv new fresh by (auto simp: courier_inv_def single_def s' ra)
    moreover have "known ?s" using known by (auto simp: known_def s' ra)
    moreover have "\<forall>r \<in> set (co_log ?s). claimable (dl_status r) \<longrightarrow> ready ?s (dl_id r) (dl_attempt_count r)"
    proof (intro ballI impI)
      fix r assume r: "r \<in> set (co_log ?s)" "claimable (dl_status r)"
      then consider "r = row" | "r \<in> set (co_log s)" "dl_id r \<noteq> i" using new by (auto simp: s')
      then show "ready ?s (dl_id r) (dl_attempt_count r)"
        using inv r(2) zero by cases (auto simp: courier_inv_def ready_def p ra sl)
    qed
    moreover have "\<forall>r \<in> set (co_queue ?s). ready ?s (dl_id r) (dl_attempt_count r)"
    proof
      fix r assume "r \<in> set (co_queue ?s)"
      then have "ready s (dl_id r) (dl_attempt_count r)" "dl_id r \<noteq> i" using inv fresh(2) by (auto simp: s' courier_inv_def)
      then show "ready ?s (dl_id r) (dl_attempt_count r)" by (simp add: ready_def p sl)
    qed
    moreover have "\<forall>x \<in> set (co_flying ?s). in_flight ?s (at_id (snd x)) (at_count (snd x))"
    proof
      fix x assume "x \<in> set (co_flying ?s)"
      then have "x \<in> set (co_flying s)" by (simp add: s')
      then have "in_flight s (at_id (snd x)) (at_count (snd x))" "at_id (snd x) \<noteq> i" using inv fresh(3) by (auto simp: courier_inv_def)
      then show "in_flight ?s (at_id (snd x)) (at_count (snd x))" by (auto simp: in_flight_def p sl) (auto simp: s' ra)
    qed
    ultimately show ?thesis using inv p by (auto simp: courier_inv_def s' ra)
  qed
qed

text \<open>A step that runs an attempt: the spawned one counts one post, the one of the worker one more than its row.\<close>

lemma run_spawned_inv:
  assumes inv: "courier_inv s" and n: "n < length (co_spawned s)"
  shows "courier_inv (start_attempt now False (co_spawned s ! n) (s\<lparr>co_spawned := drop_at n (co_spawned s)\<rparr>))"
proof -
  let ?a = "co_spawned s ! n" and ?s = "s\<lparr>co_spawned := drop_at n (co_spawned s)\<rparr>"
  have a: "?a \<in> set (co_spawned s)" using n by simp
  then have one: "at_count ?a = 1" using inv by (simp add: courier_inv_def)
  have "distinct (map at_id (co_spawned s))" using inv by (simp add: courier_inv_def single_def)
  from distinct_drop_at(2) [OF this n] have sl: "slack (at_id ?a) ?s = 2" by (simp add: slack_def)
  have "slack (at_id ?a) s = 0" using a by (simp add: slack_def)
  then have few: "ready s (at_id ?a) c \<Longrightarrow> int (posts (at_id ?a) s) \<le> c \<and> c \<le> 2" for c by (simp add: ready_def)
  show ?thesis
    by (rule start_attempt_inv [OF unspawn_inv [OF inv n]]) (use inv few in \<open>force simp: one sl courier_inv_def\<close>)+
qed

lemma retry_one_inv:
  assumes inv: "courier_inv s" and q: "co_queue s = r # rest"
  shows "courier_inv (retry_one now webhook readable r (s\<lparr>co_queue := rest\<rparr>))"
proof -
  let ?s = "s\<lparr>co_queue := rest\<rparr>"
  have rest: "courier_inv ?s" using inv q by (intro queue_inv) (auto simp: courier_inv_def single_def known_def)
  have r: "ready ?s (dl_id r) (dl_attempt_count r)" "dl_id r \<notin> dl_id ` set rest"
    using inv q by (auto simp: courier_inv_def single_def ready_def)
  have lost: "courier_inv (?s\<lparr>co_log := keep_log (co_log ?s) (mark_webhook_delivery_failed now (dl_id r) k None (co_log ?s))\<rparr>)" for k
    using update_inv [OF rest, of "\<lambda>r. r\<lparr>dl_status := PermanentlyFailed, dl_attempt_count := k, dl_next_retry_at := None, dl_updated_at := now\<rparr>" "dl_id r"] rest
    by (simp add: mark_webhook_delivery_failed_def claimable_def)
  show ?thesis
  proof (cases "webhook = LookupFailed \<or> webhook = NoWebhook \<or> \<not> readable")
    case True
    then show ?thesis using lost rest by (auto simp: retry_one_def)
  next
    case False
    have "courier_inv (start_attempt now True \<lparr>at_id = dl_id r, at_count = dl_attempt_count r + 1, at_body = dl_payload r\<rparr> ?s)"
      by (rule start_attempt_inv [OF rest]) (use r in \<open>auto simp: ready_def image_iff\<close>)
    with False show ?thesis by (auto simp: retry_one_def)
  qed
qed

lemma pass_inv: "courier_inv s \<Longrightarrow> courier_inv (s\<lparr>co_queue := get_pending_webhook_deliveries now (co_log s)\<rparr>)"
proof (rule queue_inv)
  assume inv: "courier_inv s"
  have sub: "r \<in> set (co_log s) \<and> due now r" if "r \<in> set (get_pending_webhook_deliveries now (co_log s))" for r
    using in_set_takeD [OF that [unfolded get_pending_webhook_deliveries_def]] by simp
  then show "dl_id ` set (get_pending_webhook_deliveries now (co_log s)) \<subseteq> dl_id ` set (co_log s)" by blast
  have "distinct (map dl_id (filter (due now) (co_log s)))"
    using inv by (simp add: courier_inv_def single_def distinct_map_filter)
  then show "distinct (map dl_id (get_pending_webhook_deliveries now (co_log s)))"
    by (simp add: get_pending_webhook_deliveries_def distinct_map distinct_take inj_on_subset [OF _ set_take_subset])
  show "ready s (dl_id r) (dl_attempt_count r)" if "r \<in> set (get_pending_webhook_deliveries now (co_log s))" for r
    using sub [OF that] inv by (auto simp: courier_inv_def due_def claimable_def)
qed

lemma restart_inv:
  assumes inv: "courier_inv s"
  shows "courier_inv (s\<lparr>co_spawned := [], co_queue := [], co_flying := []\<rparr>)"
proof -
  let ?s = "s\<lparr>co_spawned := [], co_queue := [], co_flying := []\<rparr>"
  have p: "posts d ?s = posts d s" and sl: "slack d s \<le> slack d ?s" for d by (simp_all add: posts_def slack_def)
  have "ready ?s d c" if "ready s d c" for d c using that sl [of d] by (simp add: ready_def p)
  then show ?thesis using inv by (simp add: courier_inv_def single_def known_def p)
qed

lemma courier_exec_inv: "courier_inv s \<Longrightarrow> courier_exec e s = Inr s' \<Longrightarrow> courier_inv s'"
proof (cases e)
  case (Dispatch now event payload whs)
  moreover have "courier_inv t \<Longrightarrow> courier_inv (fold (dispatch_one now event payload) whs t)" for t
    by (induction whs arbitrary: t) (auto intro: dispatch_one_inv)
  ultimately show "courier_inv s \<Longrightarrow> courier_exec e s = Inr s' \<Longrightarrow> courier_inv s'" by (auto simp: dispatch_def)
next
  case (RunSpawned now n)
  then show "courier_inv s \<Longrightarrow> courier_exec e s = Inr s' \<Longrightarrow> courier_inv s'" by (auto split: if_splits intro: run_spawned_inv)
next
  case (RetryPass now)
  then show "courier_inv s \<Longrightarrow> courier_exec e s = Inr s' \<Longrightarrow> courier_inv s'" by (auto split: if_splits intro: pass_inv)
next
  case (RetryNext now webhook readable)
  then show "courier_inv s \<Longrightarrow> courier_exec e s = Inr s' \<Longrightarrow> courier_inv s'"
    by (auto split: if_splits list.splits intro: retry_one_inv)
next
  case (Finish now n outcome)
  moreover assume "courier_inv s" "courier_exec e s = Inr s'"
  moreover from calculation have "n < length (co_flying s)" by (simp split: if_splits)
  ultimately show "courier_inv s'" using finish_inv by metis
next
  case Restart
  then show "courier_inv s \<Longrightarrow> courier_exec e s = Inr s' \<Longrightarrow> courier_inv s'" using restart_inv by fastforce
qed

interpretation courier: preserved courier_exec "\<lambda>_. True" courier_inv
  by unfold_locales (rule courier_exec_inv)

definition idle_courier :: "'d courier" where
  "idle_courier = \<lparr>co_log = [], co_alerts = [], co_spawned = [], co_queue = [], co_flying = [], co_posted = []\<rparr>"

lemma idle_inv: "courier_inv idle_courier"
  by (simp add: idle_courier_def courier_defs)

text \<open>The spawned attempt is overtaken by two rounds of the worker, and then starts counting from one again.\<close>

definition overtaken :: "'d \<Rightarrow> 'd courier_event list" where
  "overtaken x =
     [Dispatch 0 ''burn'' x [(\<lparr>wh_id = ''w'', wh_url = ''https://example.org'', wh_events = [''*''], wh_secret = None\<rparr>, ''d'')],
      RetryPass 0, RetryNext 0 (FoundWebhook \<lparr>wh_id = ''w'', wh_url = ''https://example.org'', wh_events = [''*''], wh_secret = None\<rparr>) True, Finish 0 0 NoAnswer,
      RetryPass 1, RetryNext 1 (FoundWebhook \<lparr>wh_id = ''w'', wh_url = ''https://example.org'', wh_events = [''*''], wh_secret = None\<rparr>) True, Finish 1 0 NoAnswer,
      RunSpawned 2 0, Finish 2 0 NoAnswer,
      RetryPass 3, RetryNext 3 (FoundWebhook \<lparr>wh_id = ''w'', wh_url = ''https://example.org'', wh_events = [''*''], wh_secret = None\<rparr>) True, Finish 3 0 NoAnswer,
      RetryPass 8, RetryNext 8 (FoundWebhook \<lparr>wh_id = ''w'', wh_url = ''https://example.org'', wh_events = [''*''], wh_secret = None\<rparr>) True, Finish 8 0 NoAnswer]"

lemmas courier_eval = dispatch_def dispatch_one_def wants_def insert_webhook_delivery_def has_row_def start_attempt_def claim_webhook_delivery_def
  claimable_def worker_idle_def get_pending_webhook_deliveries_def due_def retry_one_def finish_attempt_def next_retry_after_def MAX_ATTEMPTS_def
  BACKOFF_SECS_def mark_webhook_delivery_failed_def mark_webhook_delivery_delivered_def update_row_def drop_at_def idle_courier_def

lemma overtaken_posts: "posts ''d'' (play courier_exec (overtaken x) idle_courier) = 5"
  by code_simp

text \<open>C34: However dispatches, spawned attempts, worker passes, answers and restarts interleave, from an empty log on, a delivery is posted
  at most five times, and five is reached: three attempts are meant, but an attempt spawned by the dispatch that the worker has
  overtaken writes its own count over the one in the row.
\<close>

theorem posted_at_most_five:
  "posts d (play courier_exec es idle_courier) \<le> 5 \<and> (\<exists>es'. posts ''d'' (play courier_exec es' (idle_courier :: 'd courier)) = 5)"
proof
  show "posts d (play courier_exec es idle_courier) \<le> 5"
    using courier.play_inv [OF idle_inv, of es] by (simp add: courier_inv_def)
  show "\<exists>es'. posts ''d'' (play courier_exec es' (idle_courier :: 'd courier)) = 5" by (rule exI, rule overtaken_posts)
qed

section \<open>A delivery interrupted by a restart\<close>

definition stranded :: "string \<Rightarrow> nat \<Rightarrow> 'd courier \<Rightarrow> bool" where
  "stranded d n s \<longleftrightarrow> has_row d (co_log s) \<and> (\<forall>r \<in> set (co_log s). dl_id r = d \<longrightarrow> dl_status r = InProgress) \<and>
     d \<notin> dl_id ` set (co_queue s) \<and> d \<notin> (at_id \<circ> snd) ` set (co_flying s) \<and> posts d s = n"

lemma stranded_update: "stranded d n s \<Longrightarrow> i \<noteq> d \<Longrightarrow> (\<And>r. dl_id (f r) = dl_id r) \<Longrightarrow> stranded d n (s\<lparr>co_log := update_row i f (co_log s)\<rparr>)"
  by (auto simp: stranded_def has_row_def update_ids) (auto simp: update_row_def split: if_splits)

lemma stranded_failed:
  "stranded d n s \<Longrightarrow> i \<noteq> d \<Longrightarrow> stranded d n (s\<lparr>co_log := keep_log (co_log s) (mark_webhook_delivery_failed now i k t (co_log s))\<rparr>)"
  "stranded d n s \<Longrightarrow> i \<noteq> d \<Longrightarrow> stranded d n (s\<lparr>co_log := keep_log (co_log s) (mark_webhook_delivery_delivered now i (co_log s))\<rparr>)"
  by (auto simp: mark_webhook_delivery_failed_def mark_webhook_delivery_delivered_def intro!: stranded_update)

lemma stranded_alerts [simp]: "stranded d n (s\<lparr>co_alerts := al\<rparr>) = stranded d n s"
  by (simp add: stranded_def posts_def)

lemma stranded_start: "stranded d n s \<Longrightarrow> stranded d n (start_attempt now worker a s)"
  by (auto simp: stranded_def start_attempt_def claim_webhook_delivery_def claimable_def has_row_def posts_def list_ex_iff image_iff)

lemma stranded_dispatch: "stranded d n s \<Longrightarrow> stranded d n (dispatch_one now event payload x s)"
  by (auto simp: stranded_def dispatch_one_def insert_webhook_delivery_def has_row_def posts_def split: prod.split)

lemma stranded_exec: "stranded d n s \<Longrightarrow> courier_exec e s = Inr s' \<Longrightarrow> stranded d n s'"
proof (cases e)
  case (Dispatch now event payload whs)
  moreover have "stranded d n t \<Longrightarrow> stranded d n (fold (dispatch_one now event payload) whs t)" for t
    by (induction whs arbitrary: t) (auto intro: stranded_dispatch)
  ultimately show "stranded d n s \<Longrightarrow> courier_exec e s = Inr s' \<Longrightarrow> stranded d n s'" by (auto simp: dispatch_def)
next
  case (RunSpawned now k)
  moreover have "stranded d n s \<Longrightarrow> stranded d n (s\<lparr>co_spawned := drop_at k (co_spawned s)\<rparr>)" by (simp add: stranded_def posts_def)
  ultimately show "stranded d n s \<Longrightarrow> courier_exec e s = Inr s' \<Longrightarrow> stranded d n s'" by (auto split: if_splits intro: stranded_start)
next
  case (RetryPass now)
  then show "stranded d n s \<Longrightarrow> courier_exec e s = Inr s' \<Longrightarrow> stranded d n s'"
    by (auto simp: stranded_def get_pending_webhook_deliveries_def due_def posts_def split: if_splits dest!: in_set_takeD)
next
  case (RetryNext now webhook readable)
  moreover assume st: "stranded d n s" and "courier_exec e s = Inr s'"
  ultimately obtain r rest where r: "co_queue s = r # rest" "s' = retry_one now webhook readable r (s\<lparr>co_queue := rest\<rparr>)"
    by (auto split: if_splits list.splits)
  have q: "stranded d n (s\<lparr>co_queue := rest\<rparr>)" "dl_id r \<noteq> d" using st r(1) by (auto simp: stranded_def posts_def)
  then show "stranded d n s'"
    using q(1) stranded_failed(1) [OF q, of now "dl_attempt_count r + 1" None] by (auto simp: r(2) retry_one_def intro: stranded_start)
next
  case (Finish now k outcome)
  assume st: "stranded d n s" and "courier_exec e s = Inr s'"
  with Finish have k: "k < length (co_flying s)"
    and s': "s' = s\<lparr>co_flying := drop_at k (co_flying s), co_log := fst (finish_attempt now (at_id (snd (co_flying s ! k))) (at_count (snd (co_flying s ! k))) outcome (co_log s, co_alerts s)),
        co_alerts := snd (finish_attempt now (at_id (snd (co_flying s ! k))) (at_count (snd (co_flying s ! k))) outcome (co_log s, co_alerts s))\<rparr>"
    by (auto simp: Let_def case_prod_unfold split: if_splits)
  have "stranded d n (s\<lparr>co_flying := drop_at k (co_flying s)\<rparr>)" using st set_drop_at [of k "co_flying s"] by (auto simp: stranded_def posts_def)
  moreover have "at_id (snd (co_flying s ! k)) \<noteq> d" using st nth_mem [OF k] by (auto simp: stranded_def image_iff)
  ultimately show "stranded d n s'"
    using stranded_failed [of d n "s\<lparr>co_flying := drop_at k (co_flying s)\<rparr>" "at_id (snd (co_flying s ! k))"]
    by (auto simp: s' finish_attempt_def split: option.split)
next
  case Restart
  then show "stranded d n s \<Longrightarrow> courier_exec e s = Inr s' \<Longrightarrow> stranded d n s'" by (auto simp: stranded_def posts_def)
qed

interpretation lost: preserved courier_exec "\<lambda>_. True" "stranded d n" for d n
  by unfold_locales (rule stranded_exec)

text \<open>A delivery whose request is out when the process restarts is lost: its row stays in progress whatever happens afterwards, and it is
  never posted again, for neither a worker pass nor a claim takes a row that is in progress.
\<close>

theorem restart_loses_delivery:
  assumes "has_row d (co_log s)" and "\<And>r. r \<in> set (co_log s) \<Longrightarrow> dl_id r = d \<Longrightarrow> dl_status r = InProgress"
    and "t = play courier_exec (Restart # es) s"
  shows "has_row d (co_log t) \<and> (\<forall>r \<in> set (co_log t). dl_id r = d \<longrightarrow> dl_status r = InProgress) \<and> posts d t = posts d s"
proof -
  have "stranded d (posts d s) (s\<lparr>co_spawned := [], co_queue := [], co_flying := []\<rparr>)"
    using assms(1,2) by (simp add: stranded_def posts_def)
  from lost.play_inv [OF this, of es] show ?thesis by (simp add: assms(3) stranded_def)
qed

text \<open>One request is out when the process restarts.\<close>

definition interrupted :: "nat courier" where
  "interrupted = play courier_exec
     [Dispatch 0 ''mint'' 7 [(\<lparr>wh_id = ''w'', wh_url = ''https://example.org'', wh_events = [''mint''], wh_secret = None\<rparr>, ''d'')], RunSpawned 0 0] idle_courier"

theorem restart_loses_delivery_witness:
  "posts ''d'' interrupted = 1 \<and> list_all (\<lambda>r. dl_status r = InProgress) (co_log (play courier_exec [Restart, RetryPass 100] interrupted))"
proof
  let ?t = "play courier_exec [Restart, RetryPass 100] interrupted"
  have "list_all (\<lambda>r. dl_status r = InProgress) (co_log interrupted) \<and> has_row ''d'' (co_log interrupted)" by code_simp
  then have "has_row ''d'' (co_log interrupted)" "\<And>r. r \<in> set (co_log interrupted) \<Longrightarrow> dl_id r = ''d'' \<Longrightarrow> dl_status r = InProgress"
    by (auto simp: list_all_iff)
  from restart_loses_delivery [OF this refl, of "[RetryPass 100]"]
  have "\<forall>r \<in> set (co_log ?t). dl_id r = ''d'' \<longrightarrow> dl_status r = InProgress" by (rule conjunct1 [OF conjunct2])
  moreover have "list_all (\<lambda>r. dl_id r = ''d'') (co_log ?t)" by code_simp
  ultimately show "list_all (\<lambda>r. dl_status r = InProgress) (co_log ?t)" by (simp add: list_all_iff)
  show "posts ''d'' interrupted = 1" by code_simp
qed

section \<open>What the address guard lets through\<close>

lemma strip_prefix_append [simp]: "strip_prefix p (p @ s) = Some s"
  by (simp add: strip_prefix_def)

lemma lower_append: "lower (a @ b) = lower a @ lower b"
  by (simp add: lower_def)

lemma host_of_at: "CHR ''@'' \<in> set (host_of s)" if "CHR ''@'' \<in> set (takeWhile (\<lambda>c. c \<noteq> CHR ''/'') s)"
proof -
  define h where "h = takeWhile (\<lambda>c. c \<noteq> CHR ''/'') s"
  define after where "after = rev (takeWhile (\<lambda>c. c \<noteq> CHR '':'') (rev h))"
  have host: "host_of s = (if CHR '':'' \<in> set h \<and> list_all is_digit after then take (length h - length after - 1) h else h)"
    by (simp only: host_of_def Let_def h_def after_def)
  show ?thesis
  proof (cases "CHR '':'' \<in> set h \<and> list_all is_digit after")
    case True
    define front where "front = rev (dropWhile (\<lambda>c. c \<noteq> CHR '':'') (rev h))"
    have h: "h = front @ after"
      unfolding front_def after_def rev_append [symmetric] takeWhile_dropWhile_id by simp
    have "dropWhile (\<lambda>c. c \<noteq> CHR '':'') (rev h) \<noteq> []" using True by (simp add: dropWhile_eq_Nil_conv)
    then obtain u where u: "front = u @ [CHR '':'']"
      using hd_dropWhile [of "\<lambda>c. c \<noteq> CHR '':''" "rev h"]
      by (cases "dropWhile (\<lambda>c. c \<noteq> CHR '':'') (rev h)") (auto simp: front_def)
    have "CHR ''@'' \<notin> set after" using True by (auto simp: list_all_iff is_digit_def)
    moreover have "CHR ''@'' \<in> set h" using that by (simp add: h_def)
    ultimately have "CHR ''@'' \<in> set u" by (simp add: h u)
    moreover have "host_of s = u" using host True by (simp only: if_True) (simp add: h u)
    ultimately show ?thesis by simp
  next
    case False
    then show ?thesis using host that by (simp only: if_False) (simp add: h_def)
  qed
qed

lemma lower_at: "CHR ''@'' \<in> set (takeWhile (\<lambda>c. c \<noteq> CHR ''/'') (lower (u @ CHR ''@'' # h)))" if user: "CHR ''/'' \<notin> set u"
proof -
  have slash: "(if 65 \<le> k \<and> k \<le> 90 then char_of (k + 32) else c) \<noteq> CHR ''/''" if "c \<noteq> CHR ''/''" for c and k :: nat
  proof (cases "65 \<le> k \<and> k \<le> 90")
    case True
    have "char_of (k + 32) \<noteq> CHR ''/''"
    proof
      assume "char_of (k + 32) = CHR ''/''"
      then have "(of_char (char_of (k + 32)) :: nat) = of_char (CHR ''/'')" by simp
      then show False using True by simp
    qed
    with True show ?thesis by simp
  next
    case False
    with that show ?thesis by auto
  qed
  have "x \<noteq> CHR ''/''" if x: "x \<in> set (lower u)" for x
  proof -
    from x obtain c where c: "c \<in> set u" "x = (let k = of_char c :: nat in if 65 \<le> k \<and> k \<le> 90 then char_of (k + 32) else c)"
      unfolding lower_def set_map by blast
    from c(1) user have "c \<noteq> CHR ''/''" by metis
    from slash [OF this, of "of_char c"] show ?thesis unfolding c(2) Let_def .
  qed
  then have "takeWhile (\<lambda>c. c \<noteq> CHR ''/'') (lower u @ s) = lower u @ takeWhile (\<lambda>c. c \<noteq> CHR ''/'') s" for s by (rule takeWhile_append2) blast
  then show ?thesis by (simp add: lower_append [of u "CHR ''@'' # h"]) (simp add: lower_def)
qed

text \<open>The guard against private addresses looks at all that stands before the first slash: an address that names a user before the
  host is let through, whatever the host is (unless it ends with .localhost), because what it tries to parse is then no address.
\<close>

theorem userinfo_passes_guard:
  assumes "\<And>s. CHR ''@'' \<in> set s \<Longrightarrow> parse_ip s = None" and "CHR ''/'' \<notin> set u"
    and "\<not> ends_with (host_of (lower (u @ CHR ''@'' # h))) ''.localhost''"
  shows "validate_webhook_url parse_ip (''http://'' @ u @ CHR ''@'' # h) = Inr ()"
proof -
  let ?h = "host_of (lower (u @ CHR ''@'' # h))"
  have at: "CHR ''@'' \<in> set ?h" by (rule host_of_at [OF lower_at [OF assms(2)]])
  have "CHR ''@'' \<in> set (unbracket s)" if "CHR ''@'' \<in> set s" for s
  proof -
    have keep: "CHR ''@'' \<in> set (dropWhile (\<lambda>c. c = b) t)" if "CHR ''@'' \<in> set t" "b \<noteq> CHR ''@''" for b t
      using that by (induction t) auto
    from keep [OF that, of "CHR ''[''"] have "CHR ''@'' \<in> set (rev (dropWhile (\<lambda>c. c = CHR ''['') s))" by simp
    from keep [OF this, of "CHR '']''"] show ?thesis by (simp add: unbracket_def)
  qed
  from assms(1) [OF this [OF at]] have none: "parse_ip (unbracket ?h) = None" .
  have "?h \<noteq> []" "?h \<noteq> ''localhost''" using at by auto
  then have ok: "check_host parse_ip ?h = Inr ()" using none assms(3) by (simp add: check_host_def)
  have low: "lower (''http://'' @ s) = ''http://'' @ lower s" for s by (simp add: lower_def)
  have "strip_prefix ''https://'' (''http://'' @ s) = None" for s by (simp add: strip_prefix_def)
  then show ?thesis unfolding validate_webhook_url_def low Let_def strip_prefix_append using ok by simp
qed

text \<open>With a reader that knows one address, which is refused without the user name.\<close>

definition loopback_reader :: "string \<Rightarrow> ip_addr option" where
  "loopback_reader s = (if s = ''127.0.0.1'' then Some (V4 127 0 0 1) else None)"

theorem userinfo_passes_guard_witness:
  "validate_webhook_url loopback_reader ''http://127.0.0.1:8080/admin'' = Inl PrivateAddress \<and>
   validate_webhook_url loopback_reader ''http://user@127.0.0.1:8080/admin'' = Inr ()"
proof
  show "validate_webhook_url loopback_reader ''http://127.0.0.1:8080/admin'' = Inl PrivateAddress" by code_simp
  have "\<not> ends_with (host_of (lower (''user'' @ CHR ''@'' # ''127.0.0.1:8080/admin''))) ''.localhost''" by code_simp
  moreover have "loopback_reader s = None" if "CHR ''@'' \<in> set s" for s using that by (auto simp: loopback_reader_def)
  moreover have "CHR ''/'' \<notin> set ''user''" by simp
  ultimately have "validate_webhook_url loopback_reader (''http://'' @ ''user'' @ CHR ''@'' # ''127.0.0.1:8080/admin'') = Inr ()"
    by (intro userinfo_passes_guard)
  then show "validate_webhook_url loopback_reader ''http://user@127.0.0.1:8080/admin'' = Inr ()" by simp
qed

end
