(* ===== verification/Filings.thy ===== *)
theory Filings
  imports Chronicle Delivery
begin

text \<open>
  What the backend files for others: travel-rule records against the registry of service providers (backend/src/routes/travel\_rule.rs),
  credentials and their registries (backend/src/routes/zk\_credentials.rs), both behind a feature flag of the program, the comparison of the
  booked supply with the chain's (backend/src/routes/supply\_verify.rs), and the registration of webhooks (backend/src/routes/webhooks.rs),
  with their tables (backend/src/db.rs). A query of a table that the schema does not create is a database error.
\<close>

section \<open>Tables\<close>

record vasp =
  vp_vasp_id :: string
  vp_name :: string
  vp_jurisdiction :: string

record travel_record =
  tvr_id :: string
  tvr_originator_vasp :: string
  tvr_beneficiary_vasp :: string
  tvr_mint :: string
  tvr_amount :: int
  tvr_threshold :: int
  tvr_compliant :: bool
  tvr_tx_signature :: "string option"
  tvr_created_at :: string

record credential_entry =
  cre_id :: string
  cre_mint :: string
  cre_user :: string
  cre_credential_type :: string
  cre_issuer_pubkey :: string
  cre_verified_at :: int
  cre_expires_at :: int
  cre_is_valid :: bool
  cre_tx_signature :: "string option"
  cre_slot :: "int option"
  cre_created_at :: string

record registry_entry =
  crg_id :: string
  crg_mint :: string
  crg_credential_type :: string
  crg_issuer_pubkey :: string
  crg_merkle_root :: string
  crg_proof_expiry_seconds :: int
  crg_created_at :: string
  crg_updated_at :: string

record webhook_row =
  whr_id :: string
  whr_url :: string
  whr_events :: "string list"
  whr_secret_key :: "string option"
  whr_created_at :: string

text \<open>A table that may not exist is an option.\<close>

record filings =
  fl_known_vasps :: "vasp list"
  fl_travel_rule_records :: "travel_record list"
  fl_credential_records :: "credential_entry list option"
  fl_credential_registries :: "registry_entry list option"
  fl_webhooks :: "webhook_row list"

definition seed_known_vasps :: "vasp list" where
  "seed_known_vasps =
     [\<lparr>vp_vasp_id = ''SSSISSUER001'', vp_name = ''SSS Protocol Issuer'', vp_jurisdiction = ''US''\<rparr>,
      \<lparr>vp_vasp_id = ''SSSMARKET001'', vp_name = ''SSS Market Maker'', vp_jurisdiction = ''US''\<rparr>,
      \<lparr>vp_vasp_id = ''TESTVASP0001'', vp_name = ''Test VASP (devnet only)'', vp_jurisdiction = ''TEST''\<rparr>]"

text \<open>The schema has no table for credentials or their registries.\<close>

definition init_filings :: filings where
  "init_filings = \<lparr>fl_known_vasps = seed_known_vasps, fl_travel_rule_records = [], fl_credential_records = None,
     fl_credential_registries = None, fl_webhooks = []\<rparr>"

section \<open>The travel rule\<close>

definition is_known_vasp :: "string \<Rightarrow> filings \<Rightarrow> bool" where "is_known_vasp i db \<longleftrightarrow> list_ex (\<lambda>v. vp_vasp_id v = i) (fl_known_vasps db)"

record travel_request =
  tvq_originator_vasp :: string
  tvq_beneficiary_vasp :: string
  tvq_mint :: string
  tvq_amount :: int
  tvq_threshold :: int
  tvq_compliant :: bool
  tvq_tx_signature :: "string option"

definition insert_travel_rule_record :: "string \<Rightarrow> string \<Rightarrow> travel_request \<Rightarrow> filings \<Rightarrow> (app_error + travel_record) \<times> filings" where
  "insert_travel_rule_record i now q db =
     on_ok (guarded
         [(is_known_vasp (tvq_originator_vasp q) db,
           UnprocessableEntity (''UNKNOWN_VASP: originator_vasp '' @ tvq_originator_vasp q @ '' is not in the VASP registry'')),
          (is_known_vasp (tvq_beneficiary_vasp q) db,
           UnprocessableEntity (''UNKNOWN_VASP: beneficiary_vasp '' @ tvq_beneficiary_vasp q @ '' is not in the VASP registry'')),
          (i \<notin> tvr_id ` set (fl_travel_rule_records db), Database)]
         (Inr ()), db) (\<lambda>_ db.
     let r = \<lparr>tvr_id = i, tvr_originator_vasp = tvq_originator_vasp q, tvr_beneficiary_vasp = tvq_beneficiary_vasp q, tvr_mint = tvq_mint q,
              tvr_amount = tvq_amount q, tvr_threshold = tvq_threshold q, tvr_compliant = tvq_compliant q,
              tvr_tx_signature = tvq_tx_signature q, tvr_created_at = now\<rparr> in
     (Inr r, db\<lparr>fl_travel_rule_records := fl_travel_rule_records db @ [r]\<rparr>))"

definition list_travel_rule_records :: "string option \<Rightarrow> string option \<Rightarrow> nat \<Rightarrow> filings \<Rightarrow> travel_record list" where
  "list_travel_rule_records wallet token n db =
     newest tvr_created_at n (filter
       (\<lambda>r. (of_mint wallet (tvr_originator_vasp r) \<or> of_mint wallet (tvr_beneficiary_vasp r)) \<and> of_mint token (tvr_mint r))
       (fl_travel_rule_records db))"

datatype refusal = ServiceUnavailable | BadParameter | Unprocessable app_error | InternalFailure | TaskPanicked

definition FLAG_TRAVEL_RULE_api :: u64 where "FLAG_TRAVEL_RULE_api = push_bit 6 1"

definition require_wallet_param :: "string option \<Rightarrow> string option" where
  "require_wallet_param wallet = (case wallet of None \<Rightarrow> None | Some w \<Rightarrow> if trim_text w = [] then None else Some w)"

definition get_travel_rule_records :: "string option \<Rightarrow> string option \<Rightarrow> u32 option \<Rightarrow> chronicle \<Rightarrow> filings \<Rightarrow> refusal + travel_record list" where
  "get_travel_rule_records wallet token n s db =
     guarded [(flag_cached FLAG_TRAVEL_RULE_api s, ServiceUnavailable)]
       (andthen (ok_or (require_wallet_param wallet) BadParameter) (\<lambda>w. Inr (list_travel_rule_records (Some w) token (page n) db)))"

fun refusal_of :: "app_error \<Rightarrow> refusal" where
  "refusal_of (UnprocessableEntity e) = Unprocessable (UnprocessableEntity e)"
| "refusal_of (BadRequest e) = BadParameter"
| "refusal_of _ = InternalFailure"

definition post_travel_rule_record :: "string \<Rightarrow> string \<Rightarrow> travel_request \<Rightarrow> chronicle \<Rightarrow> filings \<Rightarrow> (refusal + travel_record) \<times> filings" where
  "post_travel_rule_record i now q s db =
     (if \<not> flag_cached FLAG_TRAVEL_RULE_api s then (Inl ServiceUnavailable, db)
      else (case insert_travel_rule_record i now q db of
              (Inl e, db') \<Rightarrow> (Inl (refusal_of e), db')
            | (Inr r, db') \<Rightarrow> (Inr r, db')))"

definition SSS_TOKEN_PROGRAM_ID_api :: string where "SSS_TOKEN_PROGRAM_ID_api = ''ApQTVMKdtUUrGXgL6Hhzt9W2JFyLt6vGnHuimcdXe811''"
definition SSS_TRANSFER_HOOK_PROGRAM_ID_api :: string where "SSS_TRANSFER_HOOK_PROGRAM_ID_api = ''phAtzRyRUJGpMC3ftAtWzoaX7UkghRe9x5KTig8jPQp''"

text \<open>The threshold comes from the environment, zero where it is unset or no number.\<close>

definition get_pid_config :: "int option \<Rightarrow> chronicle \<Rightarrow> refusal + (string \<times> string \<times> bool \<times> int)" where
  "get_pid_config env s =
     guarded [(flag_cached FLAG_TRAVEL_RULE_api s, ServiceUnavailable)]
       (Inr (SSS_TOKEN_PROGRAM_ID_api, SSS_TRANSFER_HOOK_PROGRAM_ID_api, True, unwrap_or 0 env))"

section \<open>Credentials\<close>

definition same_credential :: "string \<Rightarrow> string \<Rightarrow> string \<Rightarrow> credential_entry \<Rightarrow> bool" where
  "same_credential token user credential_type r \<longleftrightarrow> cre_mint r = token \<and> cre_user r = user \<and> cre_credential_type r = credential_type"

definition list_credential_records ::
  "int \<Rightarrow> string option \<Rightarrow> string option \<Rightarrow> string option \<Rightarrow> bool \<Rightarrow> nat \<Rightarrow> filings \<Rightarrow> app_error + credential_entry list" where
  "list_credential_records now user token credential_type valid_only n db =
     andthen (ok_or (fl_credential_records db) Database) (\<lambda>rows.
     Inr (newest cre_created_at n (filter
       (\<lambda>r. of_mint user (cre_user r) \<and> of_mint token (cre_mint r) \<and> of_mint credential_type (cre_credential_type r) \<and>
          (valid_only \<longrightarrow> cre_expires_at r > now \<and> cre_is_valid r)) rows)))"

text \<open>A row that is there keeps its identity and its time of creation; what is returned is the row as it would be new.\<close>

definition upsert_credential_record ::
  "string \<Rightarrow> string \<Rightarrow> int \<Rightarrow> string \<Rightarrow> string \<Rightarrow> string \<Rightarrow> string \<Rightarrow> int \<Rightarrow> int \<Rightarrow> string option \<Rightarrow> int option \<Rightarrow> filings \<Rightarrow>
     (app_error + credential_entry) \<times> filings" where
  "upsert_credential_record i created_at now token user credential_type issuer verified_at expires_at sig slot db =
     (case fl_credential_records db of
        None \<Rightarrow> (Inl Database, db)
      | Some rows \<Rightarrow>
          (let new = \<lparr>cre_id = i, cre_mint = token, cre_user = user, cre_credential_type = credential_type, cre_issuer_pubkey = issuer,
                      cre_verified_at = verified_at, cre_expires_at = expires_at, cre_is_valid = (expires_at > now), cre_tx_signature = sig,
                      cre_slot = slot, cre_created_at = created_at\<rparr> in
           (Inr new, db\<lparr>fl_credential_records := Some
              (if list_ex (same_credential token user credential_type) rows
               then map (\<lambda>r. if same_credential token user credential_type r
                             then new\<lparr>cre_id := cre_id r, cre_created_at := cre_created_at r\<rparr> else r) rows
               else rows @ [new])\<rparr>)))"

definition get_credential_record :: "string \<Rightarrow> string \<Rightarrow> string \<Rightarrow> filings \<Rightarrow> app_error + credential_entry option" where
  "get_credential_record token user credential_type db =
     andthen (ok_or (fl_credential_records db) Database) (\<lambda>rows. Inr (find (same_credential token user credential_type) rows))"

definition list_credential_registries :: "string option \<Rightarrow> string option \<Rightarrow> filings \<Rightarrow> app_error + registry_entry list" where
  "list_credential_registries token credential_type db =
     andthen (ok_or (fl_credential_registries db) Database) (\<lambda>rows.
     Inr (rev (sort_key crg_updated_at (filter (\<lambda>r. of_mint token (crg_mint r) \<and> of_mint credential_type (crg_credential_type r)) rows))))"

definition upsert_credential_registry ::
  "string \<Rightarrow> string \<Rightarrow> string \<Rightarrow> string \<Rightarrow> string \<Rightarrow> string \<Rightarrow> u64 \<Rightarrow> filings \<Rightarrow> (app_error + registry_entry) \<times> filings" where
  "upsert_credential_registry i now token credential_type issuer merkle_root expiry db =
     (case fl_credential_registries db of
        None \<Rightarrow> (Inl Database, db)
      | Some rows \<Rightarrow>
          (let new = \<lparr>crg_id = i, crg_mint = token, crg_credential_type = credential_type, crg_issuer_pubkey = issuer,
                      crg_merkle_root = merkle_root, crg_proof_expiry_seconds = u64_as_i64 expiry, crg_created_at = now, crg_updated_at = now\<rparr>;
               same = (\<lambda>r. crg_mint r = token \<and> crg_credential_type r = credential_type) in
           (Inr new, db\<lparr>fl_credential_registries := Some
              (if list_ex same rows then map (\<lambda>r. if same r then new\<lparr>crg_id := crg_id r, crg_created_at := crg_created_at r\<rparr> else r) rows
               else rows @ [new])\<rparr>)))"

text \<open>What a route answers besides a refusal: data, or a reason that comes with the status of success.\<close>

datatype 'a reply = Data 'a | Declined string

definition hex_digit :: "char \<Rightarrow> bool" where
  "hex_digit c \<longleftrightarrow> (let k = of_char c :: nat in 48 \<le> k \<and> k \<le> 57 \<or> 65 \<le> k \<and> k \<le> 70 \<or> 97 \<le> k \<and> k \<le> 102)"

definition get_credential_records ::
  "int \<Rightarrow> string option \<Rightarrow> string option \<Rightarrow> string option \<Rightarrow> bool option \<Rightarrow> u32 option \<Rightarrow> chronicle \<Rightarrow> filings \<Rightarrow>
     refusal + credential_entry list" where
  "get_credential_records now user token credential_type valid_only n s db =
     guarded [(flag_cached FLAG_ZK_CREDENTIALS_api s, ServiceUnavailable)]
       (case list_credential_records now user token credential_type (unwrap_or False valid_only) (page n) db of
          Inl e \<Rightarrow> Inl InternalFailure
        | Inr rows \<Rightarrow> Inr rows)"

record submit_request =
  sbq_mint :: string
  sbq_user :: string
  sbq_credential_type :: string
  sbq_issuer_pubkey :: string
  sbq_proof_data :: string
  sbq_proof_expiry_seconds :: "u64 option"
  sbq_tx_signature :: "string option"
  sbq_slot :: "int option"

text \<open>
  The clock is read once by the handler and once more by the table (\<open>later\<close>). The sum of the clock and the window is checked for
  overflow, which stops the task.
\<close>

definition expiry_of :: "u64 option \<Rightarrow> u64" where "expiry_of e = unwrap_or 2592000 e"

definition submit_credential ::
  "string \<Rightarrow> string \<Rightarrow> int \<Rightarrow> int \<Rightarrow> submit_request \<Rightarrow> chronicle \<Rightarrow> filings \<Rightarrow> (refusal + credential_entry reply) \<times> filings" where
  "submit_credential i created_at now later q s db =
     (if \<not> flag_cached FLAG_ZK_CREDENTIALS_api s then (Inl ServiceUnavailable, db)
      else if sbq_mint q = [] \<or> sbq_user q = [] \<or> sbq_credential_type q = [] \<or> sbq_issuer_pubkey q = [] then (Inl BadParameter, db)
      else if sbq_proof_data q = [] \<or> \<not> list_all hex_digit (sbq_proof_data q) then
        (Inr (Declined ''proof_data must be a non-empty hex string''), db)
      else if \<not> fits (now + u64_as_i64 (expiry_of (sbq_proof_expiry_seconds q))) then (Inl TaskPanicked, db)
      else (case upsert_credential_record i created_at later (sbq_mint q) (sbq_user q) (sbq_credential_type q) (sbq_issuer_pubkey q) now
                   (now + u64_as_i64 (expiry_of (sbq_proof_expiry_seconds q))) (sbq_tx_signature q) (sbq_slot q) db of
              (Inl e, db') \<Rightarrow> (Inl InternalFailure, db')
            | (Inr r, db') \<Rightarrow> (Inr (Data r), db')))"

text \<open>The answer of a check: whether, which record, and a message; how a time is shown is a parameter.\<close>

type_synonym check_answer = "bool \<times> credential_entry option \<times> string"

definition verify_credential ::
  "(int \<Rightarrow> string) \<Rightarrow> string \<Rightarrow> string \<Rightarrow> string \<Rightarrow> chronicle \<Rightarrow> filings \<Rightarrow> refusal + check_answer" where
  "verify_credential show_time token user credential_type s db =
     guarded
       [(flag_cached FLAG_ZK_CREDENTIALS_api s, ServiceUnavailable), (token \<noteq> [] \<and> user \<noteq> [] \<and> credential_type \<noteq> [], BadParameter)]
       (case get_credential_record token user credential_type db of
          Inl e \<Rightarrow> Inl InternalFailure
        | Inr None \<Rightarrow> Inr (False, None, ''No credential record found - proof submission required'')
        | Inr (Some r) \<Rightarrow>
            Inr (if cre_is_valid r then (True, Some r, ''User is compliant - credential expires at '' @ show_time (cre_expires_at r))
                 else (False, Some r, ''Credential expired at '' @ show_time (cre_expires_at r))))"

definition list_registries :: "string option \<Rightarrow> string option \<Rightarrow> chronicle \<Rightarrow> filings \<Rightarrow> refusal + registry_entry list" where
  "list_registries token credential_type s db =
     guarded [(flag_cached FLAG_ZK_CREDENTIALS_api s, ServiceUnavailable)]
       (case list_credential_registries token credential_type db of Inl e \<Rightarrow> Inl InternalFailure | Inr rows \<Rightarrow> Inr rows)"

record registry_request =
  rgq_mint :: string
  rgq_credential_type :: string
  rgq_issuer_pubkey :: string
  rgq_merkle_root :: string
  rgq_proof_expiry_seconds :: "u64 option"

definition upsert_registry ::
  "string \<Rightarrow> string \<Rightarrow> registry_request \<Rightarrow> chronicle \<Rightarrow> filings \<Rightarrow> (refusal + registry_entry reply) \<times> filings" where
  "upsert_registry i now q s db =
     (if \<not> flag_cached FLAG_ZK_CREDENTIALS_api s then (Inl ServiceUnavailable, db)
      else if rgq_mint q = [] \<or> rgq_credential_type q = [] \<or> rgq_issuer_pubkey q = [] then (Inl BadParameter, db)
      else if length (rgq_merkle_root q) \<noteq> 64 \<or> \<not> list_all hex_digit (rgq_merkle_root q) then
        (Inr (Declined ''merkle_root must be 64 hex characters (32 bytes)''), db)
      else (case upsert_credential_registry i now (rgq_mint q) (rgq_credential_type q) (rgq_issuer_pubkey q) (rgq_merkle_root q)
                   (expiry_of (rgq_proof_expiry_seconds q)) db of
              (Inl e, db') \<Rightarrow> (Inl InternalFailure, db')
            | (Inr r, db') \<Rightarrow> (Inr (Data r), db')))"

section \<open>Supply against the chain\<close>

text \<open>The decimal number of a string as a word: digits, with one plus sign in front allowed.\<close>

definition digits_nat :: "string \<Rightarrow> nat" where "digits_nat ds = foldl (\<lambda>n c. 10 * n + (of_char c - 48)) 0 ds"

definition parse_u64 :: "string \<Rightarrow> u64 option" where
  "parse_u64 t =
     (let ds = (case t of [] \<Rightarrow> [] | c # cs \<Rightarrow> if c = CHR ''+'' then cs else t) in
      if ds = [] \<or> \<not> list_all is_digit ds \<or> 2 ^ 64 \<le> digits_nat ds then None else Some (of_nat (digits_nat ds)))"

datatype supply_failure = NoMint | Transport string | MissingAmount | NotANumber

text \<open>The cluster answers with a document or with the reason why there is none.\<close>

definition fetch_token_supply :: "(string \<Rightarrow> string + json) \<Rightarrow> string \<Rightarrow> supply_failure + u64" where
  "fetch_token_supply rpc token =
     (case rpc token of
        Inl e \<Rightarrow> Inl (Transport e)
      | Inr v \<Rightarrow>
          andthen (ok_or (Option.bind (json_get ''result'' v) (\<lambda>a. Option.bind (json_get ''value'' a) (field as_str ''amount''))) MissingAmount) (\<lambda>t.
          ok_or (parse_u64 t) NotANumber))"

record verify_response =
  svr_token_mint :: string
  svr_db_supply :: u64
  svr_onchain_supply :: "u64 option"
  svr_mismatch :: bool
  svr_delta :: "u64 option"
  svr_threshold :: u64
  svr_rpc_error :: "supply_failure option"

definition abs_diff :: "u64 \<Rightarrow> u64 \<Rightarrow> u64" where "abs_diff a b = (if a < b then b - a else a - b)"

definition compare_supply :: "u64 \<Rightarrow> u64 \<Rightarrow> u64 option \<Rightarrow> bool \<times> u64 option" where
  "compare_supply threshold db_supply onchain =
     (case onchain of None \<Rightarrow> (False, None) | Some x \<Rightarrow> (abs_diff db_supply x > threshold, Some (abs_diff db_supply x)))"

text \<open>The mint comes from the query, else from the environment, else it is the word all, for which the cluster is not asked.\<close>

definition supply_verify ::
  "(string \<Rightarrow> string + json) \<Rightarrow> string option \<Rightarrow> string option \<Rightarrow> string option \<Rightarrow> books \<Rightarrow> app_error + verify_response" where
  "supply_verify rpc env_mint env_threshold query db =
     (let token_mint = unwrap_or ''all'' (or_else query env_mint);
          threshold = unwrap_or 0 (Option.bind env_threshold parse_u64) in
      andthen (get_supply (if token_mint = ''all'' then None else Some token_mint) db) (\<lambda>(total_minted, total_burned).
      let db_supply = saturating_sub total_minted total_burned;
          (onchain, failed) = (if token_mint = ''all'' then (None, Some NoMint)
             else (case fetch_token_supply rpc token_mint of Inl e \<Rightarrow> (None, Some e) | Inr n \<Rightarrow> (Some n, None)));
          (mismatch, delta) = compare_supply threshold db_supply onchain in
      Inr \<lparr>svr_token_mint = token_mint, svr_db_supply = db_supply, svr_onchain_supply = onchain, svr_mismatch = mismatch, svr_delta = delta,
           svr_threshold = threshold, svr_rpc_error = failed\<rparr>))"

definition list_token_mints :: "books \<Rightarrow> string list" where
  "list_token_mints db = sort (remdups (map me_token_mint (bk_mint_events db) @ map be_token_mint (bk_burn_events db)))"

text \<open>One pass of the worker: the mints it warns of, with the difference.\<close>

definition reconcile_pass :: "(string \<Rightarrow> string + json) \<Rightarrow> u64 \<Rightarrow> books \<Rightarrow> (string \<times> u64) list" where
  "reconcile_pass rpc threshold db = concat (map (\<lambda>token.
     case get_supply (Some token) db of
       Inl e \<Rightarrow> []
     | Inr (total_minted, total_burned) \<Rightarrow>
         (case fetch_token_supply rpc token of
            Inl e \<Rightarrow> []
          | Inr onchain \<Rightarrow>
              let delta = abs_diff (saturating_sub total_minted total_burned) onchain in if delta > threshold then [(token, delta)] else []))
     (list_token_mints db))"

section \<open>Webhooks\<close>

text \<open>The events are stored as a JSON text and read back; the secret is stored as it was given.\<close>

definition insert_webhook :: "string \<Rightarrow> string \<Rightarrow> string \<Rightarrow> string list \<Rightarrow> string option \<Rightarrow> filings \<Rightarrow> (app_error + webhook_row) \<times> filings" where
  "insert_webhook i now url evs secret db =
     (if i \<in> whr_id ` set (fl_webhooks db) then (Inl Database, db)
      else let r = \<lparr>whr_id = i, whr_url = url, whr_events = evs, whr_secret_key = secret, whr_created_at = now\<rparr> in
           (Inr r, db\<lparr>fl_webhooks := fl_webhooks db @ [r]\<rparr>))"

definition list_webhooks :: "filings \<Rightarrow> webhook_row list" where
  "list_webhooks db = newest whr_created_at (length (fl_webhooks db)) (fl_webhooks db)"

definition drop_webhook :: "string \<Rightarrow> filings \<Rightarrow> bool \<times> filings" where
  "drop_webhook i db = (list_ex (\<lambda>r. whr_id r = i) (fl_webhooks db), db\<lparr>fl_webhooks := filter (\<lambda>r. whr_id r \<noteq> i) (fl_webhooks db)\<rparr>)"

definition get_webhook_by_id :: "string \<Rightarrow> filings \<Rightarrow> webhook_row option" where
  "get_webhook_by_id i db = find (\<lambda>r. whr_id r = i) (fl_webhooks db)"

fun url_text :: "url_error \<Rightarrow> string" where
  "url_text BadScheme = ''Webhook URL must use http or https scheme''"
| "url_text EmptyHost = ''Webhook URL must have a non-empty host''"
| "url_text LocalHost = ''Webhook URL must not target localhost''"
| "url_text PrivateAddress = ''Webhook URL must not target a private, loopback, or link-local IP address''"

record webhook_request =
  whq_url :: string
  whq_events :: "string list"
  whq_secret_key :: "string option"

definition register_webhook ::
  "(string \<Rightarrow> ip_addr option) \<Rightarrow> string \<Rightarrow> string \<Rightarrow> webhook_request \<Rightarrow> filings \<Rightarrow> (app_error + webhook_row) \<times> filings" where
  "register_webhook parse_ip i now q db =
     on_ok (guarded [(whq_url q \<noteq> [], BadRequest ''url is required''), (whq_events q \<noteq> [], BadRequest ''events list cannot be empty'')]
         (case validate_webhook_url parse_ip (whq_url q) of Inl e \<Rightarrow> Inl (BadRequest (url_text e)) | Inr u \<Rightarrow> Inr ()), db) (\<lambda>_ db.
     insert_webhook i now (whq_url q) (whq_events q) (whq_secret_key q) db)"

definition delete_webhook :: "string \<Rightarrow> filings \<Rightarrow> (app_error + string) \<times> filings" where
  "delete_webhook i db =
     (case drop_webhook i db of
        (deleted, db') \<Rightarrow> (if deleted then Inr i else Inl (app_error.NotFound (''Webhook '' @ i @ '' not found'')), db'))"

text \<open>The operator's view of the deliveries ignores the status that is asked for.\<close>

definition list_webhook_deliveries :: "string option \<Rightarrow> 'd delivery_log \<Rightarrow> 'd delivery_row list" where
  "list_webhook_deliveries status log = list_failed_webhook_deliveries log"

section \<open>What holds of the tables\<close>

text \<open>Requests that write, with what is chosen outside for them, and the tables after one.\<close>

datatype filing =
    FileTravel string string travel_request chronicle
  | FileCredential string string int int submit_request chronicle
  | FileRegistry string string registry_request chronicle
  | FileWebhook string string webhook_request
  | DropWebhook string

fun file_request :: "(string \<Rightarrow> ip_addr option) \<Rightarrow> filing \<Rightarrow> filings \<Rightarrow> filings" where
  "file_request parse_ip (FileTravel i now q s) db = snd (post_travel_rule_record i now q s db)"
| "file_request parse_ip (FileCredential i created_at now later q s) db = snd (submit_credential i created_at now later q s db)"
| "file_request parse_ip (FileRegistry i now q s) db = snd (upsert_registry i now q s db)"
| "file_request parse_ip (FileWebhook i now q) db = snd (register_webhook parse_ip i now q db)"
| "file_request parse_ip (DropWebhook i) db = snd (delete_webhook i db)"

definition travel_ok :: "filings \<Rightarrow> bool" where
  "travel_ok db \<longleftrightarrow> list_all (\<lambda>r. is_known_vasp (tvr_originator_vasp r) db \<and> is_known_vasp (tvr_beneficiary_vasp r) db) (fl_travel_rule_records db)"

definition webhooks_ok :: "(string \<Rightarrow> ip_addr option) \<Rightarrow> filings \<Rightarrow> bool" where
  "webhooks_ok parse_ip db \<longleftrightarrow> distinct (map whr_id (fl_webhooks db)) \<and>
     list_all (\<lambda>r. whr_events r \<noteq> [] \<and> validate_webhook_url parse_ip (whr_url r) = Inr ()) (fl_webhooks db)"

definition no_credentials :: "filings \<Rightarrow> bool" where
  "no_credentials db \<longleftrightarrow> fl_credential_records db = None \<and> fl_credential_registries db = None"

lemma post_travel_cases:
  obtains "snd (post_travel_rule_record i now q s db) = db"
  | r where "snd (post_travel_rule_record i now q s db) = db\<lparr>fl_travel_rule_records := fl_travel_rule_records db @ [r]\<rparr>"
      "is_known_vasp (tvr_originator_vasp r) db" "is_known_vasp (tvr_beneficiary_vasp r) db"
  by (cases "flag_cached FLAG_TRAVEL_RULE_api s"; cases "is_known_vasp (tvq_originator_vasp q) db";
      cases "is_known_vasp (tvq_beneficiary_vasp q) db"; cases "i \<in> tvr_id ` set (fl_travel_rule_records db)")
    (auto simp: post_travel_rule_record_def insert_travel_rule_record_def Let_def)

lemma credentials_absent:
  assumes "no_credentials db"
  shows "snd (submit_credential i created_at now later q s db) = db" "snd (upsert_registry i now' q' s' db) = db"
  using assms
  by (simp_all add: no_credentials_def submit_credential_def upsert_registry_def upsert_credential_record_def upsert_credential_registry_def)

lemma register_cases:
  obtains "snd (register_webhook parse_ip i now q db) = db"
  | r where "snd (register_webhook parse_ip i now q db) = db\<lparr>fl_webhooks := fl_webhooks db @ [r]\<rparr>" "whr_id r = i" "whr_events r \<noteq> []"
      "i \<notin> whr_id ` set (fl_webhooks db)" "validate_webhook_url parse_ip (whr_url r) = Inr ()"
  by (cases "whq_url q = []"; cases "whq_events q = []"; cases "validate_webhook_url parse_ip (whq_url q)";
      cases "i \<in> whr_id ` set (fl_webhooks db)")
    (auto simp: register_webhook_def insert_webhook_def Let_def)

lemma file_request_keeps:
  assumes "travel_ok db" and "webhooks_ok parse_ip db" and "no_credentials db"
  shows "travel_ok (file_request parse_ip f db) \<and> webhooks_ok parse_ip (file_request parse_ip f db) \<and> no_credentials (file_request parse_ip f db)"
proof (cases f)
  case (FileTravel i now q s)
  show ?thesis
    using assms by (cases rule: post_travel_cases [of i now q s db])
      (simp_all add: FileTravel travel_ok_def webhooks_ok_def no_credentials_def is_known_vasp_def)
next
  case (FileWebhook i now q)
  show ?thesis
    using assms by (cases rule: register_cases [of parse_ip i now q db])
      (simp_all add: FileWebhook travel_ok_def webhooks_ok_def no_credentials_def is_known_vasp_def)
next
  case (DropWebhook i)
  have "list_all P (filter Q xs)" if "list_all P xs" for P Q and xs :: "webhook_row list"
    using that by (auto simp: list_all_iff)
  then show ?thesis
    using assms by (simp add: DropWebhook delete_webhook_def drop_webhook_def travel_ok_def webhooks_ok_def no_credentials_def is_known_vasp_def
        distinct_map_filter)
qed (use assms in \<open>simp_all add: credentials_absent\<close>)

lemma filings_keep:
  assumes "travel_ok db" and "webhooks_ok parse_ip db" and "no_credentials db"
  shows "travel_ok (fold (file_request parse_ip) fs db) \<and> webhooks_ok parse_ip (fold (file_request parse_ip) fs db) \<and>
    no_credentials (fold (file_request parse_ip) fs db)"
  using assms by (induction fs arbitrary: db) (simp_all add: file_request_keeps)

lemma init_filings_ok: "travel_ok init_filings" "webhooks_ok parse_ip init_filings" "no_credentials init_filings"
  by (simp_all add: travel_ok_def webhooks_ok_def no_credentials_def init_filings_def)

text \<open>C38: after any history of filed requests on a fresh database, both providers of every travel-rule record are in the registry, every
  webhook has events and an address that passes the guard, and no two have the same identity; and no credential has been stored: whatever
  the flags are, listing, checking and listing registries are refused, and submitting a proof or a registry never answers with a record,
  because the schema creates neither table.\<close>

theorem filings_sound:
  "(let db = fold (file_request parse_ip) fs init_filings in
     list_all (\<lambda>r. is_known_vasp (tvr_originator_vasp r) db \<and> is_known_vasp (tvr_beneficiary_vasp r) db) (fl_travel_rule_records db) \<and>
     list_all (\<lambda>r. whr_events r \<noteq> [] \<and> validate_webhook_url parse_ip (whr_url r) = Inr ()) (fl_webhooks db) \<and>
     distinct (map whr_id (fl_webhooks db)) \<and>
     isl (get_credential_records now user token kind valid_only n s db) \<and>
     isl (verify_credential show_time t u k s db) \<and>
     isl (list_registries token kind s db) \<and>
     fst (submit_credential i created_at now later q s db) \<noteq> Inr (Data record_given) \<and>
     fst (upsert_registry i created_at q' s db) \<noteq> Inr (Data registry_given))"
proof -
  define db where "db = fold (file_request parse_ip) fs init_filings"
  have ok: "travel_ok db" "webhooks_ok parse_ip db" "no_credentials db"
    using filings_keep [OF init_filings_ok, of parse_ip fs] by (simp_all add: db_def)
  have "isl (get_credential_records now user token kind valid_only n s db)"
    using ok(3) by (simp add: get_credential_records_def list_credential_records_def no_credentials_def)
  moreover have "isl (verify_credential show_time t u k s db)"
    using ok(3) by (simp add: verify_credential_def get_credential_record_def no_credentials_def)
  moreover have "isl (list_registries token kind s db)"
    using ok(3) by (simp add: list_registries_def list_credential_registries_def no_credentials_def)
  moreover have "fst (submit_credential i created_at now later q s db) \<noteq> Inr (Data record_given)"
    using ok(3) by (simp add: submit_credential_def upsert_credential_record_def no_credentials_def)
  moreover have "fst (upsert_registry i created_at q' s db) \<noteq> Inr (Data registry_given)"
    using ok(3) by (simp add: upsert_registry_def upsert_credential_registry_def no_credentials_def)
  ultimately show ?thesis
    using ok(1,2) by (simp add: db_def [symmetric] Let_def travel_ok_def webhooks_ok_def)
qed

text \<open>
  On a table that somebody else has created: a credential that was valid when it was indexed is reported as compliant for ever, also when
  the listing of valid credentials no longer shows it.
\<close>

lemma find_updated:
  assumes "find P xs = Some r" and "\<And>x. P x \<Longrightarrow> P (f x)"
  shows "find P (map (\<lambda>x. if P x then f x else x) xs) = Some (f r)"
  using assms by (induction xs) (auto split: if_splits)

lemma expired_credential_verifies:
  assumes run: "submit_credential i created_at now now q s db = (Inr (Data r), db')"
    and window: "0 < u64_as_i64 (expiry_of (sbq_proof_expiry_seconds q))"
  shows "\<exists>r'. verify_credential show_time (sbq_mint q) (sbq_user q) (sbq_credential_type q) s db' =
      Inr (True, Some r', ''User is compliant - credential expires at '' @ show_time (cre_expires_at r')) \<and>
      cre_expires_at r' = now + u64_as_i64 (expiry_of (sbq_proof_expiry_seconds q))"
proof -
  let ?m = "sbq_mint q" and ?u = "sbq_user q" and ?k = "sbq_credential_type q"
  let ?e = "now + u64_as_i64 (expiry_of (sbq_proof_expiry_seconds q))"
  let ?P = "same_credential ?m ?u ?k"
  have named: "?m \<noteq> [] \<and> ?u \<noteq> [] \<and> ?k \<noteq> []" "flag_cached FLAG_ZK_CREDENTIALS_api s"
    using run by (auto simp: submit_credential_def split: if_splits)
  obtain rows where rows: "fl_credential_records db = Some rows"
    using run by (auto simp: submit_credential_def upsert_credential_record_def split: if_splits option.splits)
  define new where "new = \<lparr>cre_id = i, cre_mint = ?m, cre_user = ?u, cre_credential_type = ?k, cre_issuer_pubkey = sbq_issuer_pubkey q,
    cre_verified_at = now, cre_expires_at = ?e, cre_is_valid = True, cre_tx_signature = sbq_tx_signature q, cre_slot = sbq_slot q,
    cre_created_at = created_at\<rparr>"
  have stored: "fl_credential_records db' = Some (if list_ex ?P rows
      then map (\<lambda>x. if ?P x then new\<lparr>cre_id := cre_id x, cre_created_at := cre_created_at x\<rparr> else x) rows else rows @ [new])"
    using run window
    by (auto simp: submit_credential_def upsert_credential_record_def rows Let_def new_def split: if_splits)
  have "\<exists>r'. get_credential_record ?m ?u ?k db' = Inr (Some r') \<and> cre_is_valid r' \<and> cre_expires_at r' = ?e"
  proof (cases "find ?P rows")
    case None
    then have "\<not> list_ex ?P rows" by (auto simp: find_None_iff list_ex_iff)
    moreover have "find ?P (rows @ [new]) = Some new"
      using None by (induction rows) (auto simp: new_def same_credential_def split: if_splits)
    ultimately show ?thesis by (simp add: get_credential_record_def stored) (simp add: new_def)
  next
    case (Some x)
    then have "list_ex ?P rows" by (auto simp: find_Some_iff list_ex_iff)
    moreover have "find ?P (map (\<lambda>x. if ?P x then new\<lparr>cre_id := cre_id x, cre_created_at := cre_created_at x\<rparr> else x) rows) =
        Some (new\<lparr>cre_id := cre_id x, cre_created_at := cre_created_at x\<rparr>)"
      by (rule find_updated [OF Some]) (simp add: new_def same_credential_def)
    ultimately show ?thesis by (simp add: get_credential_record_def stored) (simp add: new_def)
  qed
  then show ?thesis using named by (auto simp: verify_credential_def)
qed

end
