(* ===== verification/Reports.thy ===== *)
theory Reports
  imports Filings
begin

text \<open>
  What the backend reports about the chain and about its own tables: the confirmation of a signature (backend/src/routes/onchain.rs), the
  proof of reserves as a snapshot of the supply (backend/src/routes/reserves.rs), alerts (backend/src/routes/alerts.rs), collateral
  configurations (backend/src/routes/collateral\_config.rs) and the analytics in whole numbers (backend/src/routes/analytics.rs, backend/src/db.rs).
  The cluster, the hash and the texts of library errors are parameters or left out.
\<close>

section \<open>Base 58\<close>

definition in_base58 :: "char \<Rightarrow> bool" where
  "in_base58 c \<longleftrightarrow> (let k = of_char c :: nat in
     49 \<le> k \<and> k \<le> 57 \<or> 65 \<le> k \<and> k \<le> 72 \<or> 74 \<le> k \<and> k \<le> 78 \<or> 80 \<le> k \<and> k \<le> 90 \<or> 97 \<le> k \<and> k \<le> 107 \<or> 109 \<le> k \<and> k \<le> 122)"

section \<open>Is a signature confirmed\<close>

text \<open>Indexing a document with a key that is not there gives null.\<close>

definition at_key :: "string \<Rightarrow> json \<Rightarrow> json" where "at_key k v = (case json_get k v of None \<Rightarrow> JNull | Some x \<Rightarrow> x)"

fun nonempty_object :: "json \<Rightarrow> bool" where
  "nonempty_object (JObj kvs) = (kvs \<noteq> [])"
| "nonempty_object _ = False"

text \<open>The reason of a refusal, if there is one. The cluster answers with a document or with an error text; \<open>show_json\<close> prints a document.\<close>

definition tx_answer :: "(json \<Rightarrow> string) \<Rightarrow> string \<Rightarrow> json \<Rightarrow> string option" where
  "tx_answer show_json sig resp =
     (case json_get ''error'' resp of
        Some err \<Rightarrow> Some (''RPC error for tx '' @ sig @ '': '' @ show_json err)
      | None \<Rightarrow>
          (let result = at_key ''result'' resp; err = at_key ''err'' (at_key ''meta'' result) in
           if result = JNull then Some (''tx_signature '' @ sig @ '' not found on-chain (not confirmed or does not exist)'')
           else if nonempty_object err then Some (''transaction '' @ sig @ '' failed on-chain: '' @ show_json err)
           else None))"

definition verify_tx_signature :: "bool \<Rightarrow> (string \<Rightarrow> string + json) \<Rightarrow> (json \<Rightarrow> string) \<Rightarrow> string \<Rightarrow> string option" where
  "verify_tx_signature skip_rpc rpc show_json sig =
     (if sig = [] then Some ''tx_signature is empty''
      else if skip_rpc then None
      else if length sig < 80 \<or> 90 < length sig then
        Some (''tx_signature has unexpected length '' @ decimal (length sig) @ '' (expected 86-88 base58 chars)'')
      else if \<not> list_all in_base58 sig then Some ''tx_signature contains invalid base58 characters''
      else (case rpc sig of Inl e \<Rightarrow> Some e | Inr resp \<Rightarrow> tx_answer show_json sig resp))"

section \<open>The snapshot of the reserves\<close>

datatype proof_type = MerkleBalance | SupplySnapshot

record proof_response =
  prr_merkle_root :: string
  prr_total_supply :: u64
  prr_last_verified_slot :: u64
  prr_proof_type :: proof_type
  prr_mint :: string
  prr_holder :: "string option"

definition hex_text :: "u8 list \<Rightarrow> string" where
  "hex_text bs = concat (map (\<lambda>b. [''0123456789abcdef'' ! (unat b div 16), ''0123456789abcdef'' ! (unat b mod 16)]) bs)"

definition merkle_root_from_supply :: "(u8 list \<Rightarrow> u8 list) \<Rightarrow> u64 \<Rightarrow> string" where
  "merkle_root_from_supply sha256 total_supply = (let leaf = sha256 (u64_bytes total_supply); root = sha256 leaf in hex_text root)"

text \<open>A document without a result is no answer; a result without a value is the mint's fault, a value without an amount is not.\<close>

definition supply_in :: "json \<Rightarrow> string \<Rightarrow> app_error + u64" where
  "supply_in doc token =
     (case json_get ''result'' doc of
        None \<Rightarrow> Inl (Internal ''parse getTokenSupply'')
      | Some result \<Rightarrow>
          (case json_get ''value'' result of
             None \<Rightarrow> Inl (BadRequest (''mint not found on devnet: '' @ token))
           | Some v \<Rightarrow>
               andthen (ok_or (field as_str ''amount'' v) (Internal ''missing amount in supply response'')) (\<lambda>t.
               ok_or (parse_u64 t) (Internal (''parse supply amount: '' @ t)))))"

fun as_u64 :: "json \<Rightarrow> u64 option" where
  "as_u64 (JInt i) = (if 0 \<le> i \<and> i < 2 ^ 64 then Some (word_of_int i) else None)"
| "as_u64 _ = None"

definition get_reserves_proof ::
  "(u8 list \<Rightarrow> u8 list) \<Rightarrow> (string \<Rightarrow> json \<Rightarrow> app_error + json) \<Rightarrow> string \<Rightarrow> string option \<Rightarrow> app_error + proof_response" where
  "get_reserves_proof sha256 rpc_call token holder =
     guarded
       [(32 \<le> length token \<and> length token \<le> 44, BadRequest (''invalid mint pubkey length: '' @ decimal (length token))),
        (list_all in_base58 token, BadRequest ''invalid base58 characters in mint'')]
       (andthen (rpc_call ''getSlot'' (JArr [])) (\<lambda>slot_doc.
        andthen (ok_or (field as_u64 ''result'' slot_doc) (Internal ''parse getSlot'')) (\<lambda>slot.
        andthen (rpc_call ''getTokenSupply'' (JArr [JStr token])) (\<lambda>supply_doc.
        andthen (supply_in supply_doc token) (\<lambda>total_supply.
        Inr \<lparr>prr_merkle_root = merkle_root_from_supply sha256 total_supply, prr_total_supply = total_supply, prr_last_verified_slot = slot,
             prr_proof_type = SupplySnapshot, prr_mint = token, prr_holder = holder\<rparr>)))))"

section \<open>Alerts\<close>

definition alert_severity :: "string option \<Rightarrow> severity" where
  "alert_severity s = (let t = unwrap_or ''warning'' s in if t = ''critical'' then Critical else if t = ''info'' then Info else Warning)"

definition post_alert ::
  "(nat \<Rightarrow> string) \<Rightarrow> string \<Rightarrow> string \<Rightarrow> string \<Rightarrow> string option \<Rightarrow> chronicle \<Rightarrow> (app_error + string \<times> string \<times> string) \<times> chronicle" where
  "post_alert clock now invariant detail severity s =
     (if invariant = [] then (Inl (BadRequest ''invariant must not be empty''), s)
      else if detail = [] then (Inl (BadRequest ''detail must not be empty''), s)
      else (Inr (invariant, detail, severity_text (alert_severity severity)), fire_alert clock now invariant detail (alert_severity severity) s))"

record alert_view =
  alv_invariant :: string
  alv_detail :: string
  alv_severity :: string
  alv_timestamp :: string
  alv_created_at :: string

definition view_alert :: "event_row \<Rightarrow> alert_view" where
  "view_alert e =
     \<lparr>alv_invariant = unwrap_or (el_address e) (field as_str ''invariant'' (el_data e)), alv_detail = unwrap_or [] (field as_str ''detail'' (el_data e)),
      alv_severity = unwrap_or ''WARNING'' (field as_str ''severity'' (el_data e)),
      alv_timestamp = unwrap_or (el_created_at e) (field as_str ''timestamp'' (el_data e)), alv_created_at = el_created_at e\<rparr>"

definition get_alerts :: "string option \<Rightarrow> u32 \<Rightarrow> chronicle \<Rightarrow> nat \<times> alert_view list" where
  "get_alerts invariant n s =
     (let records = map view_alert (query_event_log (Some ''AlertRecord'') invariant (min (unat n) 1000) 0 s) in (length records, records))"

section \<open>Collateral configurations and analytics\<close>

definition get_collateral_configs :: "string option \<Rightarrow> string option \<Rightarrow> bool option \<Rightarrow> chronicle \<Rightarrow> collateral_row list" where
  "get_collateral_configs sss_mint collateral_mint whitelisted_only s =
     list_collateral_configs sss_mint collateral_mint (unwrap_or False whitelisted_only) s"

datatype window = H24 | D7 | D30

fun label_and_hours :: "window \<Rightarrow> string \<times> int" where
  "label_and_hours H24 = (''24h'', 24)"
| "label_and_hours D7 = (''7d'', 168)"
| "label_and_hours D30 = (''30d'', 720)"

record liquidation_stats =
  lst_count :: nat
  lst_total_collateral_seized :: int
  lst_total_debt_repaid :: int
  lst_avg_collateral_seized :: int

text \<open>The text of the instant so many hours ago comes from the database's clock, and rows are compared with it as texts.\<close>

definition liquidation_analytics :: "(int \<Rightarrow> string) \<Rightarrow> int \<Rightarrow> chronicle \<Rightarrow> app_error + liquidation_stats" where
  "liquidation_analytics ago hours s =
     (let rows = filter (\<lambda>r. ago hours \<le> lh_created_at r) (ch_liquidations s) in
      andthen (sql_sum 0 (map lh_collateral_seized rows)) (\<lambda>seized.
      andthen (sql_sum 0 (map lh_debt_repaid rows)) (\<lambda>repaid.
      Inr \<lparr>lst_count = length rows, lst_total_collateral_seized = seized, lst_total_debt_repaid = repaid,
           lst_avg_collateral_seized = (if 0 < length rows then (if seized < 0 then - (- seized div int (length rows)) else seized div int (length rows)) else 0)\<rparr>)))"

definition get_liquidation_analytics ::
  "string \<Rightarrow> (int \<Rightarrow> string) \<Rightarrow> window option \<Rightarrow> chronicle \<Rightarrow> (app_error + string \<times> liquidation_stats) \<times> chronicle" where
  "get_liquidation_analytics now ago w s =
     (let s' = snd (sync_liquidations_from_event_log now s); (label, hours) = label_and_hours (unwrap_or H24 w) in
      (andthen (liquidation_analytics ago hours s') (\<lambda>stats. Inr (label, stats)), s'))"

record protocol_stats =
  pst_total_collateral_locked :: int
  pst_total_debt :: int
  pst_backstop_debt_repaid :: int
  pst_active_collateral_types :: u32

text \<open>The difference of the two totals is checked for overflow, which ends the task.\<close>

definition protocol_stats :: "books \<Rightarrow> chronicle \<Rightarrow> refusal + protocol_stats" where
  "protocol_stats db s =
     (let sums = (\<lambda>xs. case sql_sum 0 xs of Inl e \<Rightarrow> Inl InternalFailure | Inr n \<Rightarrow> Inr n) in
      andthen (sums (map clr_total_deposited (filter clr_whitelisted (ch_collateral s)))) (\<lambda>locked.
      andthen (sums (map (u64_as_i64 \<circ> me_amount) (bk_mint_events db))) (\<lambda>minted.
      andthen (sums (map (u64_as_i64 \<circ> be_amount) (bk_burn_events db))) (\<lambda>burned.
      guarded [(fits (minted - burned), TaskPanicked)]
        (andthen (sums (map lh_debt_repaid (ch_liquidations s))) (\<lambda>repaid.
         Inr \<lparr>pst_total_collateral_locked = locked, pst_total_debt = max (minted - burned) 0, pst_backstop_debt_repaid = repaid,
              pst_active_collateral_types =
                word_of_int (int (length (filter (\<lambda>r. clr_whitelisted r \<and> clr_total_deposited r > 0) (ch_collateral s))))\<rparr>)))))) "

section \<open>Confirmed mints\<close>

text \<open>What the cluster must have said of a signature.\<close>

definition found_on_chain :: "(string \<Rightarrow> string + json) \<Rightarrow> string \<Rightarrow> bool" where
  "found_on_chain rpc sig \<longleftrightarrow> 80 \<le> length sig \<and> length sig \<le> 90 \<and> list_all in_base58 sig \<and>
     (case rpc sig of Inl e \<Rightarrow> False
      | Inr doc \<Rightarrow> json_get ''error'' doc = None \<and> at_key ''result'' doc \<noteq> JNull \<and>
          \<not> nonempty_object (at_key ''err'' (at_key ''meta'' (at_key ''result'' doc))))"

lemma verified_found: "verify_tx_signature False rpc show_json sig = None \<longleftrightarrow> found_on_chain rpc sig"
  by (auto simp: verify_tx_signature_def tx_answer_def found_on_chain_def Let_def not_less split: sum.split option.split)

definition confirmed_rows :: "(string \<Rightarrow> string option) \<Rightarrow> books \<Rightarrow> bool" where
  "confirmed_rows verify db \<longleftrightarrow>
     list_all (\<lambda>e. case me_tx_signature e of None \<Rightarrow> True | Some t \<Rightarrow> verify t = None) (bk_mint_events db) \<and>
     list_all (\<lambda>e. case be_tx_signature e of None \<Rightarrow> True | Some t \<Rightarrow> verify t = None) (bk_burn_events db)"

lemma confirmed_Inr: "confirmed verify sig = Inr u \<longleftrightarrow> (case sig of None \<Rightarrow> True | Some t \<Rightarrow> verify t = None)"
  by (auto simp: confirmed_def split: option.split)

lemma mint_confirmed: "confirmed_rows verify db \<Longrightarrow> confirmed_rows verify (snd (mint verify i j now q db))"
  by (auto simp: mint_def record_mint_def add_audit_def confirmed_rows_def confirmed_Inr guarded_Inr Let_def split: on_ok_split if_splits)

lemma burn_confirmed: "confirmed_rows verify db \<Longrightarrow> confirmed_rows verify (snd (burn verify i j now q db))"
  by (auto simp: burn_def record_burn_def add_audit_def confirmed_rows_def confirmed_Inr guarded_Inr Let_def split: on_ok_split if_splits)

lemma handle_confirmed: "confirmed_rows verify db \<Longrightarrow> confirmed_rows verify (snd (handle verify st call db))"
proof (cases "(\<exists>q. call = PostMint q) \<or> (\<exists>q. call = PostBurn q)")
  case True
  assume ok: "confirmed_rows verify db"
  from True show ?thesis
  proof
    assume "\<exists>q. call = PostMint q"
    then obtain q where c: "call = PostMint q" by blast
    obtain r d where m: "mint verify (sm_i st) (sm_j st) (sm_now st) q db = (r, d)" by force
    show ?thesis using mint_confirmed [OF ok, of "sm_i st" "sm_j st" "sm_now st" q] by (cases r) (simp_all add: c m)
  next
    assume "\<exists>q. call = PostBurn q"
    then obtain q where c: "call = PostBurn q" by blast
    obtain r d where m: "burn verify (sm_i st) (sm_j st) (sm_now st) q db = (r, d)" by force
    show ?thesis using burn_confirmed [OF ok, of "sm_i st" "sm_j st" "sm_now st" q] by (cases r) (simp_all add: c m)
  qed
next
  case False
  assume "confirmed_rows verify db"
  with False other_rows [of call verify st db] show ?thesis by (simp add: confirmed_rows_def)
qed

lemma serve_confirmed:
  assumes "confirmed_rows verify db"
  shows "confirmed_rows verify (snd (serve_all verify reqs db))"
  using assms
proof (induction reqs arbitrary: db)
  case (Cons r rs)
  obtain a db1 where step: "serve verify r db = (a, db1)" by force
  have "confirmed_rows verify db1"
    using step by (cases rule: serve_cases) (use Cons.prems handle_confirmed in auto)
  then show ?case using Cons.IH [of db1] step by (auto split: prod.splits)
qed simp


section \<open>Alerts and windows\<close>

text \<open>An alert that was posted is listed, as long as the page is long enough.\<close>

lemma posted_alert_listed:
  assumes run: "post_alert clock now invariant detail severity s = (Inr a, s')"
    and room: "length (filter (\<lambda>e. el_event_type e = ''AlertRecord'' \<and> el_address e = invariant) (ch_event_log s')) \<le> min (unat n) 1000"
  shows "\<exists>v \<in> set (snd (get_alerts (Some invariant) n s')).
    alv_invariant v = invariant \<and> alv_detail v = detail \<and> alv_severity v = severity_text (alert_severity severity) \<and> alv_timestamp v = now"
proof -
  define e where "e = \<lparr>el_event_type = ''AlertRecord'', el_address = invariant,
    el_data = JObj [(''invariant'', JStr invariant), (''detail'', JStr detail), (''severity'', JStr (severity_text (alert_severity severity))),
      (''timestamp'', JStr now)], el_tx_signature = None, el_slot = None, el_created_at = clock (length (ch_event_log s))\<rparr>"
  have s': "ch_event_log s' = ch_event_log s @ [e]"
    using run by (auto simp: post_alert_def fire_alert_def insert_event_log_def e_def split: if_splits)
  let ?rows = "filter (\<lambda>e. of_mint (Some ''AlertRecord'') (el_event_type e) \<and> of_mint (Some invariant) (el_address e)) (ch_event_log s')"
  have "e \<in> set ?rows" by (simp add: s' e_def of_mint_def)
  moreover have "take (min (unat n) 1000) (drop 0 (rev (sort_key el_created_at ?rows))) = rev (sort_key el_created_at ?rows)"
    using room by (simp add: of_mint_def)
  ultimately have "view_alert e \<in> set (snd (get_alerts (Some invariant) n s'))"
    by (simp add: get_alerts_def query_event_log_def Let_def)
  then show ?thesis by (rule rev_bexI) (simp add: view_alert_def e_def field_def unwrap_or_def)
qed

text \<open>
  Rows say when with a T between the day and the time, the window's start has a blank there: of the first day of a window, the rows
  before its start are counted, too.
\<close>

lemma window_counts_whole_day:
  assumes "lh_created_at r = day @ ''T'' @ time" and "ago hours = day @ '' '' @ start" and "r \<in> set (ch_liquidations s)"
  shows "r \<in> set (filter (\<lambda>r. ago hours \<le> lh_created_at r) (ch_liquidations s))"
proof -
  have "day @ CHR '' '' # start \<le> day @ CHR ''T'' # time"
    by (induction day) (simp_all add: less_char_def)
  then show ?thesis using assms by simp
qed

end
