(* ===== verification/Streams.thy ===== *)
theory Streams
  imports Reports
begin

text \<open>
  What the backend tells others while it follows the chain: the broadcast of indexed events (backend/src/indexer.rs), the subscriptions with
  their filters and the loop that serves one connection (backend/src/routes/ws\_events.rs), the metrics in whole numbers
  (backend/src/monitor/metric\_collector.rs), the parser of the webhook schema (backend/src/indexer\_schema/mod.rs) and the endpoint for
  confidential transfers. The socket, the broadcast channel, the JSON parser and the decoder of base64 are parameters; texts are ASCII.
\<close>

section \<open>Subscriptions\<close>

fun split_at :: "char \<Rightarrow> string \<Rightarrow> string list" where
  "split_at c [] = [[]]"
| "split_at c (x # xs) = (if x = c then [] # split_at c xs else (case split_at c xs of [] \<Rightarrow> [[x]] | p # ps \<Rightarrow> (x # p) # ps))"

definition patterns_of :: "string \<Rightarrow> string list" where
  "patterns_of part =
     (if part = ''liquidation'' then [''cdp_liquidate'']
      else if part = ''cdp'' then [''cdp_deposit'', ''cdp_borrow'', ''cdp_liquidate'']
      else if part = ''circuit-breaker'' then [''circuit_breaker_toggle'']
      else [part])"

definition add_type :: "string \<Rightarrow> string list \<Rightarrow> string list" where
  "add_type t types = (if t \<in> set types then types else types @ [t])"

definition expand_filter :: "string option \<Rightarrow> string list option" where
  "expand_filter raw =
     (case raw of
        None \<Rightarrow> None
      | Some text \<Rightarrow>
          (if trim_text text = [] then None
           else let types = fold (\<lambda>part. fold add_type (patterns_of (trim_text part))) (split_at (CHR '','') text) [] in
                if types = [] then None else Some types))"

definition event_matches :: "json \<Rightarrow> string list option \<Rightarrow> bool" where
  "event_matches event types =
     (case types of None \<Rightarrow> True | Some ts \<Rightarrow> unwrap_or [] (field as_str ''event_type'' event) \<in> set ts)"

section \<open>One connection\<close>

text \<open>What wakes the loop: an event, the number of events that were missed, the end of the channel, a close frame or the end of the
  connection, a ping, or another frame. The n-th message to the client gets through if \<open>up n\<close>.\<close>

datatype wake = Arrived json | Lagged nat | ChannelClosed | ClientLeft | Pinged "u8 list" | OtherFrame

datatype frame = Subscribed "string option" | Forwarded json | LagNotice nat | Pong "u8 list"

fun join_commas :: "string list \<Rightarrow> string" where
  "join_commas [] = []"
| "join_commas [t] = t"
| "join_commas (t # ts) = t @ '','' @ join_commas ts"

fun socket_loop :: "(nat \<Rightarrow> bool) \<Rightarrow> string list option \<Rightarrow> nat \<Rightarrow> wake list \<Rightarrow> frame list" where
  "socket_loop up types n [] = []"
| "socket_loop up types n (Arrived event # ws) =
     (if event_matches event types then (if up n then Forwarded event # socket_loop up types (n + 1) ws else [])
      else socket_loop up types n ws)"
| "socket_loop up types n (Lagged k # ws) = (if up n then LagNotice k # socket_loop up types (n + 1) ws else [])"
| "socket_loop up types n (ChannelClosed # ws) = []"
| "socket_loop up types n (ClientLeft # ws) = []"
| "socket_loop up types n (Pinged payload # ws) = (if up n then Pong payload # socket_loop up types (n + 1) ws else [])"
| "socket_loop up types n (OtherFrame # ws) = socket_loop up types n ws"

definition handle_socket :: "(nat \<Rightarrow> bool) \<Rightarrow> string list option \<Rightarrow> wake list \<Rightarrow> frame list" where
  "handle_socket up types ws = (if up 0 then Subscribed (map_option join_commas types) # socket_loop up types 1 ws else [])"

section \<open>The broadcast\<close>

definition ws_event :: "string \<Rightarrow> string \<Rightarrow> json \<Rightarrow> string \<Rightarrow> int \<Rightarrow> json" where
  "ws_event event_type address data sig slot =
     JObj [(''event_type'', JStr event_type), (''address'', JStr address), (''data'', data), (''signature'', JStr sig), (''slot'', JInt slot)]"

definition sent_for_line :: "(string \<Rightarrow> json option) \<Rightarrow> string \<Rightarrow> string \<Rightarrow> int \<Rightarrow> string \<Rightarrow> json list" where
  "sent_for_line parse program sig slot line =
     (case parse_event_log parse line program of
        None \<Rightarrow> []
      | Some (event_type, address, data) \<Rightarrow> [ws_event event_type address data sig slot])"

definition sent_for_tx :: "(string \<Rightarrow> json option) \<Rightarrow> cluster \<Rightarrow> string \<Rightarrow> string \<times> int \<Rightarrow> json list" where
  "sent_for_tx parse rpc program = (\<lambda>(sig, slot).
     (case rpc_logs rpc sig of
        Some (Some logs) \<Rightarrow> concat (map (sent_for_line parse program sig slot) logs)
      | _ \<Rightarrow> []))"

definition sent_by_poll :: "(string \<Rightarrow> json option) \<Rightarrow> cluster \<Rightarrow> string \<Rightarrow> chronicle \<Rightarrow> json list" where
  "sent_by_poll parse rpc program s =
     (case fetch_signatures rpc program SIG_BATCH (get_indexer_cursor program s) of
        None \<Rightarrow> []
      | Some sigs \<Rightarrow> concat (map (sent_for_tx parse rpc program) (rev sigs)))"

section \<open>Metrics\<close>

record metric_snapshot =
  msn_supply_total :: int
  msn_reserve_balance :: int
  msn_active_cdps :: nat
  msn_peg_deviation_bps :: int

definition saturate :: "int \<Rightarrow> int" where "saturate i = max (- (2 ^ 63)) (min (2 ^ 63 - 1) i)"

text \<open>Deposits are added with an overflow check, which ends the task; withdrawals are subtracted without one.\<close>

fun backstop_balance :: "int \<Rightarrow> event_row list \<Rightarrow> int option" where
  "backstop_balance b [] = Some b"
| "backstop_balance b (e # es) =
     (case field as_i64 ''amount'' (el_data e) of
        None \<Rightarrow> backstop_balance b es
      | Some a \<Rightarrow>
          (if el_event_type e = ''BackstopDeposit'' then (if fits (b + a) then backstop_balance (b + a) es else None)
           else if el_event_type e = ''BackstopWithdraw'' then backstop_balance (saturate (b - a)) es
           else backstop_balance b es))"

definition active_cdps :: "event_row list \<Rightarrow> nat" where
  "active_cdps es =
     (let opened = map el_address (filter (\<lambda>e. el_event_type e \<in> {''cdp_deposit'', ''CDPOpened''}) es);
          liquidated = map el_address (filter (\<lambda>e. el_event_type e \<in> {''CDPLiquidated'', ''cdp_liquidate''}) es) in
      length (filter (\<lambda>a. a \<notin> set liquidated) (remdups opened)))"

definition peg_deviation :: "event_row list \<Rightarrow> int" where
  "peg_deviation es = unwrap_or 0 (Option.bind (latest es) (\<lambda>e. field as_i64 ''peg_deviation_bps'' (el_data e)))"

definition collect_metrics_snapshot :: "books \<Rightarrow> chronicle \<Rightarrow> metric_snapshot option" where
  "collect_metrics_snapshot db s =
     (let es = query_event_log None None 10000 0 s in
      map_option (\<lambda>reserve.
          \<lparr>msn_supply_total = (case get_supply None db of Inl _ \<Rightarrow> 0 | Inr (minted, burned) \<Rightarrow> u64_as_i64 (saturating_sub minted burned)),
           msn_reserve_balance = reserve, msn_active_cdps = active_cdps es,
           msn_peg_deviation_bps = peg_deviation (query_event_log (Some ''oracle_price_update'') None 100 0 s)\<rparr>)
        (backstop_balance 0 es))"

section \<open>The schema of the webhooks\<close>

definition EVENT_TYPES :: "string list" where
  "EVENT_TYPES =
     [''MintExecuted'', ''BurnExecuted'', ''CDPOpened'', ''CDPRepaid'', ''CDPLiquidated'', ''CircuitBreakerTriggered'', ''ReserveAttestation'',
      ''OracleParamsUpdated'', ''StabilityFeeAccrued'', ''CollateralRegistered'', ''CollateralConfigUpdated'', ''TransferHookExecuted'',
      ''SpendPolicyUpdated'']"

definition EVENT_DISCRIMINATORS :: "(u8 list \<times> string) list" where
  "EVENT_DISCRIMINATORS =
     [([0xe4, 0x45, 0xa5, 0x2e, 0x51, 0xcb, 0x9a, 0x1d], ''MintExecuted''),
      ([0x1c, 0x9b, 0x02, 0xed, 0x3f, 0x7b, 0xd4, 0x3b], ''BurnExecuted''),
      ([0xa8, 0x3c, 0x50, 0x1e, 0xf5, 0x2c, 0xd8, 0x6a], ''CDPOpened''),
      ([0x7d, 0x4f, 0xb1, 0x22, 0xcc, 0x09, 0xa0, 0x5e], ''CDPRepaid''),
      ([0x3b, 0x7e, 0x1d, 0x40, 0x9f, 0x81, 0x6c, 0xb2], ''CDPLiquidated''),
      ([0xf1, 0x2d, 0x8e, 0x03, 0x47, 0xac, 0xb9, 0x5c], ''CircuitBreakerTriggered''),
      ([0x2a, 0xc1, 0x77, 0x4e, 0x0b, 0xd5, 0xe3, 0x91], ''ReserveAttestation''),
      ([0x6e, 0x91, 0x3f, 0xb8, 0x55, 0x2d, 0x04, 0xc7], ''OracleParamsUpdated''),
      ([0x84, 0x0f, 0x6b, 0xd9, 0x1c, 0xe2, 0x58, 0xaf], ''StabilityFeeAccrued''),
      ([0xd3, 0x5a, 0x87, 0x16, 0x4a, 0x79, 0xb0, 0xf3], ''CollateralRegistered''),
      ([0x9c, 0x63, 0x2e, 0xf7, 0x38, 0x1b, 0xd1, 0x85], ''CollateralConfigUpdated''),
      ([0xb7, 0x2f, 0x54, 0x0c, 0x61, 0xe5, 0x9d, 0x27], ''TransferHookExecuted''),
      ([0x4d, 0x88, 0xc3, 0x71, 0x06, 0xa4, 0xf2, 0xbe], ''SpendPolicyUpdated'')]"

record sss_event =
  sse_schema_version :: string
  sse_event_type :: string
  sse_data :: json
  sse_signature :: "string option"
  sse_slot :: "u64 option"
  sse_observed_at :: string

definition new_event :: "string \<Rightarrow> string \<Rightarrow> json \<Rightarrow> sss_event" where
  "new_event now event_type data =
     \<lparr>sse_schema_version = ''1'', sse_event_type = event_type, sse_data = data, sse_signature = None, sse_slot = None, sse_observed_at = now\<rparr>"

definition with_tx :: "string \<Rightarrow> u64 \<Rightarrow> sss_event \<Rightarrow> sss_event" where
  "with_tx sig slot e = e\<lparr>sse_signature := Some sig, sse_slot := Some slot\<rparr>"

definition parse_log_line :: "(string \<Rightarrow> json option) \<Rightarrow> string \<Rightarrow> string \<Rightarrow> sss_event option" where
  "parse_log_line parse now line =
     (case strip ''Program log: '' (trim_text line) of
        None \<Rightarrow> None
      | Some body \<Rightarrow>
          (let name = takeWhile (\<lambda>c. c \<notin> {CHR '' '', CHR ''{''}) body; json_part = trim_text (drop (length name) body) in
           if name \<notin> set EVENT_TYPES then None
           else Some (new_event now name
             (if starts_with ''{'' json_part then unwrap_or JNull (parse (map (\<lambda>c. if c = CHR 0x27 then CHR 0x22 else c) json_part)) else JNull))))"

definition parse_program_data :: "(string \<Rightarrow> u8 list option) \<Rightarrow> string \<Rightarrow> (string \<times> u8 list) option" where
  "parse_program_data decode line =
     (case strip ''Program data: '' (trim_text line) of
        None \<Rightarrow> None
      | Some b64 \<Rightarrow>
          (case decode b64 of
             None \<Rightarrow> None
           | Some bytes \<Rightarrow>
               (if length bytes < 8 then None
                else map_option (\<lambda>name. (name, bytes)) (map_of EVENT_DISCRIMINATORS (take 8 bytes)))))"

section \<open>Confidential transfers\<close>

definition FLAG_CONFIDENTIAL_TRANSFERS_api :: u64 where "FLAG_CONFIDENTIAL_TRANSFERS_api = push_bit 5 1"

text \<open>The status of the answer; the integration behind the flag does not exist.\<close>

definition initiate_confidential_transfer :: "chronicle \<Rightarrow> nat" where
  "initiate_confidential_transfer s = (if \<not> flag_cached FLAG_CONFIDENTIAL_TRANSFERS_api s then 503 else 501)"

section \<open>What a subscriber gets\<close>

fun ends_session :: "wake \<Rightarrow> bool" where
  "ends_session ChannelClosed = True" | "ends_session ClientLeft = True" | "ends_session _ = False"

fun reply_to :: "string list option \<Rightarrow> wake \<Rightarrow> frame list" where
  "reply_to types (Arrived event) = (if event_matches event types then [Forwarded event] else [])"
| "reply_to types (Lagged k) = [LagNotice k]"
| "reply_to types (Pinged payload) = [Pong payload]"
| "reply_to types _ = []"

text \<open>The replies to everything up to the end of the session, cut at the first one that does not get through.\<close>

definition replies :: "string list option \<Rightarrow> wake list \<Rightarrow> frame list" where
  "replies types ws = concat (map (reply_to types) (takeWhile (\<lambda>w. \<not> ends_session w) ws))"

lemma replies_simps [simp]:
  "replies types [] = []"
  "replies types (w # ws) = (if ends_session w then [] else reply_to types w @ replies types ws)"
  by (simp_all add: replies_def)

definition delivered :: "(nat \<Rightarrow> bool) \<Rightarrow> nat \<Rightarrow> frame list \<Rightarrow> frame list" where
  "delivered up n fs = map snd (takeWhile (\<lambda>(k, _). up k) (enumerate n fs))"

lemma delivered_simps [simp]:
  "delivered up n [] = []"
  "delivered up n (f # fs) = (if up n then f # delivered up (Suc n) fs else [])"
  by (simp_all add: delivered_def)

lemma socket_delivers_replies: "socket_loop up types n ws = delivered up n (replies types ws)"
  by (induction up types n ws rule: socket_loop.induct) auto

lemma handle_socket_replies: "handle_socket up types ws = delivered up 0 (Subscribed (map_option join_commas types) # replies types ws)"
  by (simp add: handle_socket_def socket_delivers_replies)

lemma delivered_all: "delivered (\<lambda>_. True) n fs = fs"
  by (induction fs arbitrary: n) auto

lemma replies_arrivals: "replies types (map Arrived es) = map Forwarded (filter (\<lambda>e. event_matches e types) es)"
  by (induction es) auto

section \<open>Filters\<close>

lemma add_type_set [simp]: "set (add_type t types) = insert t (set types)" and add_type_distinct [simp]: "distinct types \<Longrightarrow> distinct (add_type t types)"
  by (auto simp: add_type_def)

lemma add_types [simp]:
  "set (fold add_type ts types) = set types \<union> set ts" "distinct types \<Longrightarrow> distinct (fold add_type ts types)"
  by (induction ts arbitrary: types) auto

lemma add_patterns:
  "set (fold (\<lambda>part. fold add_type (patterns_of (trim_text part))) parts types) = set types \<union> (\<Union>part\<in>set parts. set (patterns_of (trim_text part)))"
  "distinct types \<Longrightarrow> distinct (fold (\<lambda>part. fold add_type (patterns_of (trim_text part))) parts types)"
  by (induction parts arbitrary: types) auto

lemma expand_filter_types:
  "case expand_filter (Some text) of
     None \<Rightarrow> trim_text text = []
   | Some types \<Rightarrow> distinct types \<and> set types = (\<Union>part\<in>set (split_at (CHR '','') text). set (patterns_of (trim_text part)))"
proof -
  have "split_at c xs \<noteq> []" for c xs by (induction c xs rule: split_at.induct) (auto split: list.split)
  moreover have "patterns_of part \<noteq> []" for part by (simp add: patterns_of_def)
  ultimately show ?thesis
    using add_patterns [where types = "[]"] by (simp add: expand_filter_def Let_def) (metis SUP_eq_const UN_empty2 empty_iff set_empty list.set_sel(1) UN_iff)
qed

section \<open>The broadcast is the event log\<close>

definition broadcast_of :: "event_row \<Rightarrow> json" where
  "broadcast_of e = ws_event (el_event_type e) (el_address e) (el_data e) (unwrap_or [] (el_tx_signature e)) (slot_of e)"

lemma broadcast_matches: "event_matches (broadcast_of e) types \<longleftrightarrow> (case types of None \<Rightarrow> True | Some ts \<Rightarrow> el_event_type e \<in> set ts)"
  by (simp add: event_matches_def broadcast_of_def ws_event_def field_def unwrap_or_def split: option.split)

definition grows :: "json list \<Rightarrow> chronicle \<Rightarrow> chronicle \<Rightarrow> bool" where
  "grows sent s s' \<longleftrightarrow> (\<exists>new. ch_event_log s' = ch_event_log s @ new \<and> map broadcast_of new = sent)"

lemma grows_refl [simp]: "grows [] s s"
  by (simp add: grows_def)

lemma grows_trans: "grows a s t \<Longrightarrow> grows b t u \<Longrightarrow> grows (a @ b) s u"
  unfolding grows_def by (metis append.assoc map_append)

lemma grows_fold:
  assumes "\<And>x t. grows (sent x) t (f x t)"
  shows "grows (concat (map sent xs)) s (fold f xs s)"
  by (induction xs arbitrary: s) (auto intro: grows_trans assms)

lemma index_line_sends: "grows (sent_for_line parse program sig slot line) s (index_line parse clock program sig slot line s)"
  by (auto simp: grows_def index_line_def sent_for_line_def insert_event_log_def broadcast_of_def unwrap_or_def slot_of_def split: option.split)

lemma index_tx_sends: "grows (sent_for_tx parse rpc program tx) s (fetch_and_index_tx parse clock rpc program tx s)"
  by (cases tx) (auto simp: fetch_and_index_tx_def sent_for_tx_def intro!: grows_fold index_line_sends split: option.split)

lemma set_cursor_grows [simp]: "grows sent s (set_indexer_cursor program sig t) = grows sent s t"
  by (simp add: grows_def set_indexer_cursor_def)

lemma poll_sends: "grows (sent_by_poll parse rpc program s) s (poll_program parse clock rpc program s)"
proof (cases "fetch_signatures rpc program SIG_BATCH (get_indexer_cursor program s)")
  case (Some sigs)
  then show ?thesis
    by (cases "sigs = []") (auto simp: sent_by_poll_def poll_program_def neq_Nil_conv simp del: rev.simps(2) intro!: grows_fold index_tx_sends)
qed (simp add: sent_by_poll_def poll_program_def)

text \<open>The rows that a query of the endpoint asks for.\<close>

definition asked_for :: "string option \<Rightarrow> event_row \<Rightarrow> bool" where
  "asked_for query e \<longleftrightarrow>
     (case query of
        None \<Rightarrow> True
      | Some text \<Rightarrow> trim_text text = [] \<or> list_ex (\<lambda>part. el_event_type e \<in> set (patterns_of (trim_text part))) (split_at (CHR '','') text))"

lemma filter_asked: "event_matches (broadcast_of e) (expand_filter query) \<longleftrightarrow> asked_for query e"
proof (cases query)
  case (Some raw)
  with expand_filter_types [of raw] show ?thesis
    by (auto simp: broadcast_matches asked_for_def list_ex_iff expand_filter_def Let_def split: option.splits if_splits)
qed (simp add: broadcast_matches asked_for_def expand_filter_def)


section \<open>What the monitor cannot see\<close>

text \<open>Everything that writes to the event log: polls, alerts, rounds of the flag refresh and the note on a delivery that is given up.\<close>

datatype log_source = Polled cluster string | Alerted string string string severity | Refreshed string "string option" | GivenUp json

fun log_step :: "(string \<Rightarrow> json option) \<Rightarrow> (nat \<Rightarrow> string) \<Rightarrow> (string \<Rightarrow> u8 list option) \<Rightarrow> log_source \<Rightarrow> chronicle \<Rightarrow> chronicle" where
  "log_step parse clock decode (Polled rpc program) s = poll_program parse clock rpc program s"
| "log_step parse clock decode (Alerted now invariant detail sev) s = fire_alert clock now invariant detail sev s"
| "log_step parse clock decode (Refreshed now reply) s = refresh_flags clock now decode reply s"
| "log_step parse clock decode (GivenUp data) s = insert_event_log clock ''MetricsAlert'' ''webhook_retry'' data None None s"

definition written_types :: "string set" where
  "written_types = set (map snd EVENT_PATTERNS) \<union> {''AlertRecord'', ''MetricsAlert''}"

definition written_only :: "chronicle \<Rightarrow> bool" where
  "written_only s \<longleftrightarrow> list_all (\<lambda>e. el_event_type e \<in> written_types) (ch_event_log s)"

lemma match_event_type: "match_event parse program body ps = Some (t, a, d) \<Longrightarrow> t \<in> set (map snd ps)"
  by (induction parse program body ps rule: match_event.induct) (auto simp: Let_def split: if_splits option.splits)

lemma written_insert: "written_only s \<Longrightarrow> t \<in> written_types \<Longrightarrow> written_only (insert_event_log clock t a d sig slot s)"
  by (simp add: written_only_def insert_event_log_def)

lemma written_frame [simp]:
  "written_only (s\<lparr>ch_feature_flags := f\<rparr>) = written_only s" "written_only (set_indexer_cursor program sig s) = written_only s"
  "written_only (maybe_upsert_collateral_config clock d sg s) = written_only s"
  by (simp_all add: written_only_def set_indexer_cursor_def)

lemma written_line: "written_only s \<Longrightarrow> written_only (index_line parse clock program sig slot line s)"
  by (auto simp: index_line_def parse_event_log_def written_types_def dest!: match_event_type split: option.split intro!: written_insert)

lemma written_fold: "(\<And>x t. written_only t \<Longrightarrow> written_only (f x t)) \<Longrightarrow> written_only s \<Longrightarrow> written_only (fold f xs s)"
  by (induction xs arbitrary: s) auto

lemma written_tx: "written_only s \<Longrightarrow> written_only (fetch_and_index_tx parse clock rpc program tx s)"
  by (cases tx) (auto simp: fetch_and_index_tx_def split: option.split intro: written_fold written_line)

lemma written_poll: "written_only s \<Longrightarrow> written_only (poll_program parse clock rpc program s)"
  by (auto simp: poll_program_def split: option.split list.split simp del: rev.simps intro!: written_fold written_tx)

lemma written_alert: "written_only s \<Longrightarrow> written_only (fire_alert clock now invariant detail sev s)"
  by (simp add: fire_alert_def written_insert written_types_def)

lemma written_step: "written_only s \<Longrightarrow> written_only (log_step parse clock decode x s)"
  by (cases x) (auto simp: written_poll written_alert written_insert refresh_flags_def Let_def written_types_def split: option.split)

lemma written_log: "written_only (fold (log_step parse clock decode) steps empty_chronicle)"
  by (rule written_fold [OF written_step]) (simp_all add: written_only_def empty_chronicle_def)

lemma no_rows_of:
  assumes "written_only s" "t \<notin> written_types"
  shows "query_event_log (Some t) address n k s = []"
proof -
  have "filter (\<lambda>e. of_mint (Some t) (el_event_type e) \<and> of_mint address (el_address e)) (ch_event_log s) = []"
    using assms by (auto simp: written_only_def of_mint_def list_all_iff filter_empty_conv)
  then show ?thesis by (simp only: query_event_log_def) simp
qed

lemma no_backstop:
  assumes "list_all (\<lambda>e. el_event_type e \<notin> {''BackstopDeposit'', ''BackstopWithdraw''}) es"
  shows "backstop_balance b es = Some b"
  using assms by (induction es) (auto split: option.split)

lemma query_rows: "e \<in> set (query_event_log t a n k s) \<Longrightarrow> e \<in> set (ch_event_log s)"
  by (auto simp: query_event_log_def dest!: in_set_takeD in_set_dropD)

text \<open>Whatever happened on the chain and to the deliveries: no price, no mint and no movement of the backstop is ever in the log, so the
  checks that look for them are satisfied and the gauges stay at zero.\<close>

lemma monitor_sees_nothing:
  assumes "s = fold (log_step parse clock decode) steps empty_chronicle"
  shows "check_circuit_breaker s = Holds \<and> check_sanctioned_transactions db s = Holds \<and>
    (\<exists>m. collect_metrics_snapshot db s = Some m \<and> msn_reserve_balance m = 0 \<and> msn_peg_deviation_bps m = 0)"
proof -
  have w: "written_only s" by (simp add: assms written_log)
  have none: "query_event_log (Some t) a n k s = []" if "t \<in> {''oracle_price_update'', ''MintExecuted'', ''BurnExecuted''}" for t a n k
    using that by (intro no_rows_of [OF w]) (auto simp: written_types_def EVENT_PATTERNS_def)
  have "backstop_balance 0 (query_event_log None None 10000 0 s) = Some 0"
  proof (rule no_backstop, unfold list_all_iff, rule ballI)
    fix e assume "e \<in> set (query_event_log None None 10000 0 s)"
    with w have "el_event_type e \<in> written_types" by (auto simp: written_only_def list_all_iff dest: query_rows)
    then show "el_event_type e \<notin> {''BackstopDeposit'', ''BackstopWithdraw''}" by (auto simp: written_types_def EVENT_PATTERNS_def)
  qed
  then show ?thesis
    by (simp add: check_circuit_breaker_def check_sanctioned_transactions_def collect_metrics_snapshot_def peg_deviation_def none unwrap_or_def Let_def CIRCUIT_BREAKER_BPS_def)
qed

section \<open>Gauges, schema and frames\<close>

text \<open>A position that was liquidated once is not counted again, however often it is opened afterwards.\<close>

lemma active_cdps_counts_addresses:
  "active_cdps es = card ({el_address e |e. e \<in> set es \<and> el_event_type e \<in> {''cdp_deposit'', ''CDPOpened''}} -
     {el_address e |e. e \<in> set es \<and> el_event_type e \<in> {''CDPLiquidated'', ''cdp_liquidate''}})"
proof -
  let ?o = "map el_address (filter (\<lambda>e. el_event_type e \<in> {''cdp_deposit'', ''CDPOpened''}) es)"
  let ?l = "map el_address (filter (\<lambda>e. el_event_type e \<in> {''CDPLiquidated'', ''cdp_liquidate''}) es)"
  have "active_cdps es = card (set (filter (\<lambda>a. a \<notin> set ?l) (remdups ?o)))"
    unfolding active_cdps_def Let_def by (rule distinct_card [symmetric]) simp
  also have "set (filter (\<lambda>a. a \<notin> set ?l) (remdups ?o)) = set ?o - set ?l" by auto
  finally show ?thesis by (simp only: set_map set_filter image_Collect) 
qed

text \<open>Every type of the schema has a discriminator of eight bytes and no two share one.\<close>

lemma schema_discriminators:
  "map snd EVENT_DISCRIMINATORS = EVENT_TYPES" "list_all (\<lambda>d. length (fst d) = 8) EVENT_DISCRIMINATORS"
  "distinct (map (take 1 \<circ> fst) EVENT_DISCRIMINATORS)" "distinct EVENT_TYPES"
  by (simp_all add: EVENT_DISCRIMINATORS_def EVENT_TYPES_def)

lemma log_line_in_schema: "parse_log_line parse now line = Some e \<Longrightarrow> sse_event_type e \<in> set EVENT_TYPES \<and> sse_schema_version e = ''1''"
  by (auto simp: parse_log_line_def new_event_def Let_def split: option.splits if_splits)

lemma program_data_in_schema:
  assumes "parse_program_data decode line = Some (name, bytes)"
  shows "name \<in> set EVENT_TYPES \<and> (take 8 bytes, name) \<in> set EVENT_DISCRIMINATORS"
  using assms
  by (auto simp: parse_program_data_def schema_discriminators(1) [symmetric] split: option.splits if_splits dest!: map_of_SomeD intro: rev_image_eqI)

end
