(* ===== verification/Harnesses.thy ===== *)
theory Harnesses
  imports Curves Cdp Bytes
begin

unbundle bit_operations_syntax

text \<open>
  The program's own verification harnesses (programs/sss-token/src/proofs.rs, compiled for the Kani model checker only). A harness takes
  arbitrary values, restricts them by assumptions and asserts; it is verified if no values violate an assertion or overflow an operation.
  Each harness is a function of its arbitrary values; arrays of 32 bytes are keys.
\<close>

section \<open>What a harness can come to\<close>

datatype verdict = Passed | Vacuous | Violated | Overflowed

definition assuming :: "bool list \<Rightarrow> verdict \<Rightarrow> verdict" where "assuming bs v = (if list_all id bs then v else Vacuous)"
definition asserting :: "bool list \<Rightarrow> verdict \<Rightarrow> verdict" where "asserting bs v = (if list_all id bs then v else Violated)"

text \<open>Operations that the checker wants free of overflow and of division by zero.\<close>

definition add_ov :: "'a::len word \<Rightarrow> 'a word \<Rightarrow> ('a word \<Rightarrow> verdict) \<Rightarrow> verdict" where
  "add_ov a b k = (case checked_add a b of None \<Rightarrow> Overflowed | Some c \<Rightarrow> k c)"
definition sub_ov :: "'a::len word \<Rightarrow> 'a word \<Rightarrow> ('a word \<Rightarrow> verdict) \<Rightarrow> verdict" where
  "sub_ov a b k = (case checked_sub a b of None \<Rightarrow> Overflowed | Some c \<Rightarrow> k c)"
definition div_ov :: "'a::len word \<Rightarrow> 'a word \<Rightarrow> ('a word \<Rightarrow> verdict) \<Rightarrow> verdict" where
  "div_ov a b k = (if b = 0 then Overflowed else k (a div b))"

definition verified :: "verdict \<Rightarrow> bool" where "verified v \<longleftrightarrow> v = Passed \<or> v = Vacuous"

lemma verified_simps [simp]:
  "verified Passed" "\<not> verified Violated" "\<not> verified Overflowed"
  "verified (assuming bs v) \<longleftrightarrow> (list_all id bs \<longrightarrow> verified v)"
  "verified (asserting bs v) \<longleftrightarrow> list_all id bs \<and> verified v"
  "verified (add_ov (a :: 'a::len word) b k) \<longleftrightarrow> unat a + unat b < 2 ^ LENGTH('a) \<and> verified (k (a + b))"
  "verified (sub_ov a b k) \<longleftrightarrow> b \<le> a \<and> verified (k (a - b))"
  "verified (div_ov a b k) \<longleftrightarrow> b \<noteq> 0 \<and> verified (k (a div b))"
  by (auto simp: verified_def assuming_def asserting_def add_ov_def sub_ov_def div_ov_def checked_add_def checked_sub_def split: option.split)

section \<open>What several harnesses compute\<close>

text \<open>The powers are of exponents up to nine, where they do not overflow.\<close>

definition pow_10 :: "u32 \<Rightarrow> u128" where "pow_10 n = 10 ^ unat n"

definition value_e6 :: "u64 \<Rightarrow> u128 \<Rightarrow> u32 \<Rightarrow> u32 \<Rightarrow> u128 option" where
  "value_e6 deposited price expo decimals =
     map_option (\<lambda>v. v div pow_10 expo div pow_10 decimals)
       (Option.bind (checked_mul (ucast deposited) price) (\<lambda>v. checked_mul v 1000000))"

definition ltv_limit :: "u128 option \<Rightarrow> u128 \<Rightarrow> u128 option" where
  "ltv_limit collateral sss_unit =
     map_option (\<lambda>v. v div 1000000)
       (Option.bind (map_option (\<lambda>v. v div ucast MIN_COLLATERAL_RATIO_BPS) (Option.bind collateral (\<lambda>cv. checked_mul cv 10000)))
          (\<lambda>v. checked_mul v sss_unit))"

text \<open>The harnesses' own copy of the fee curve.\<close>

definition curve_copy :: "u16 \<Rightarrow> u16 \<Rightarrow> u64 \<Rightarrow> u64 \<Rightarrow> u64 \<Rightarrow> u16" where
  "curve_copy base_fee_bps max_fee_bps curve_k vault_amount total_reserves =
     (let ideal = ucast total_reserves div 2 :: u128; vault = ucast vault_amount;
          imbalance = (if vault > ideal then vault - ideal else ideal - vault);
          ratio = saturating_mul imbalance 1000000 div ucast total_reserves;
          ratio_sq = saturating_mul ratio ratio;
          fee_delta = saturating_mul (ucast curve_k) ratio_sq div 1000000000000;
          raw_fee = saturating_add (ucast base_fee_bps) fee_delta in
      ucast (min raw_fee (ucast max_fee_bps)))"

text \<open>The bytes of a blacklist address: two keys copied behind each other.\<close>

definition copy_into :: "nat \<Rightarrow> u8 list \<Rightarrow> u8 list \<Rightarrow> u8 list" where
  "copy_into off xs h = take off h @ xs @ drop (off + length xs) h"

definition seed_hash :: "pubkey \<Rightarrow> pubkey \<Rightarrow> u8 list" where
  "seed_hash mint wallet = copy_into 32 (key_bytes wallet) (copy_into 0 (key_bytes mint) (replicate 64 0))"

section \<open>Arithmetic, supply and minter caps\<close>

definition proof_u64_checked_add_no_overflow ::
  "u64 \<Rightarrow> u64 \<Rightarrow> verdict" where
  "proof_u64_checked_add_no_overflow a b =
     (case checked_add a b of
        Some r \<Rightarrow> asserting [r = a + b, a \<le> r, b \<le> r] Passed
      | None \<Rightarrow> asserting [a + b < a \<or> a + b < b] Passed)"

definition proof_u64_checked_sub_no_underflow ::
  "u64 \<Rightarrow> u64 \<Rightarrow> verdict" where
  "proof_u64_checked_sub_no_underflow a b =
     (case checked_sub a b of
        Some r \<Rightarrow> asserting [r = a - b, r \<le> a] Passed
      | None \<Rightarrow> asserting [b > a] Passed)"

definition proof_u128_reserve_ratio_nonzero ::
  "u128 \<Rightarrow> u128 \<Rightarrow> verdict" where
  "proof_u128_reserve_ratio_nonzero supply_amount collateral =
     assuming [supply_amount > 0, collateral > 0, collateral \<le> supply_amount]
       (case checked_mul collateral 10000 of
          None \<Rightarrow> Passed
        | Some numerator \<Rightarrow> div_ov numerator supply_amount (\<lambda>ratio. asserting [collateral \<ge> supply_amount div 10000 \<longrightarrow> ratio \<ge> 1] Passed))"

definition proof_total_minted_strictly_increases ::
  "u64 \<Rightarrow> u64 \<Rightarrow> verdict" where
  "proof_total_minted_strictly_increases total_minted amount =
     assuming [amount > 0]
       (case checked_add total_minted amount of None \<Rightarrow> Passed | Some new_total \<Rightarrow> asserting [new_total > total_minted] Passed)"

definition proof_total_burned_monotonic ::
  "u64 \<Rightarrow> u64 \<Rightarrow> verdict" where
  "proof_total_burned_monotonic total_burned amount =
     assuming [amount > 0]
       (case checked_add total_burned amount of None \<Rightarrow> Passed | Some new_burned \<Rightarrow> asserting [new_burned > total_burned] Passed)"

definition proof_net_supply_nonnegative ::
  "u64 \<Rightarrow> u64 \<Rightarrow> u64 \<Rightarrow> verdict" where
  "proof_net_supply_nonnegative total_minted total_burned amount =
     assuming [total_burned \<le> total_minted, amount > 0]
       (sub_ov total_minted total_burned (\<lambda>net.
        assuming [amount \<le> net]
          (case checked_add total_burned amount of None \<Rightarrow> Passed
           | Some new_burned \<Rightarrow> asserting [new_burned \<le> total_minted]
               (sub_ov total_minted new_burned (\<lambda>new_net. asserting [new_net < net] Passed)))))"

definition proof_total_minted_never_decreases ::
  "u64 \<Rightarrow> u64 \<Rightarrow> verdict" where
  "proof_total_minted_never_decreases total_minted amount =
     assuming [amount > 0]
       (asserting [case checked_add total_minted amount of None \<Rightarrow> True | Some after_mint \<Rightarrow> after_mint \<ge> total_minted]
          (let after_burn = total_minted in asserting [after_burn = total_minted] Passed))"

definition proof_net_supply_bounded_by_max ::
  "u64 \<Rightarrow> u64 \<Rightarrow> u64 \<Rightarrow> verdict" where
  "proof_net_supply_bounded_by_max max_supply net amount =
     assuming [max_supply > 0, net \<le> max_supply, amount > 0]
       (case checked_add net amount of None \<Rightarrow> Passed
        | Some new_net \<Rightarrow> asserting [new_net \<le> max_supply \<longrightarrow> new_net \<le> max_supply] Passed)"

definition proof_minter_cap_inductive ::
  "u64 \<Rightarrow> u64 \<Rightarrow> u64 \<Rightarrow> verdict" where
  "proof_minter_cap_inductive cap minted amount =
     assuming [cap > 0, minted \<le> cap, amount > 0]
       (case checked_add minted amount of None \<Rightarrow> Passed
        | Some new_minted \<Rightarrow> asserting [new_minted \<le> cap \<longrightarrow> new_minted \<le> cap \<and> new_minted > minted] Passed)"

definition proof_unlimited_cap_never_blocks ::
  "u64 \<Rightarrow> u64 \<Rightarrow> verdict" where
  "proof_unlimited_cap_never_blocks minted amount =
     assuming [amount > 0]
       (let cap = 0 :: u64; cap_check_active = (cap \<noteq> 0) in asserting [\<not> cap_check_active \<longrightarrow> \<not> cap_check_active] Passed)"

section \<open>Solvency and collateralised debt\<close>

definition proof_sss3_mint_solvency_inductive ::
  "u64 \<Rightarrow> u64 \<Rightarrow> u64 \<Rightarrow> verdict" where
  "proof_sss3_mint_solvency_inductive vault_balance net amount =
     assuming [vault_balance \<ge> net, amount > 0]
       (case (checked_add vault_balance amount, checked_add net amount) of
          (Some new_vault, Some new_net) \<Rightarrow> asserting [new_vault \<ge> new_net] Passed
        | _ \<Rightarrow> Passed)"

definition proof_sss3_redeem_preserves_solvency ::
  "u64 \<Rightarrow> u64 \<Rightarrow> u64 \<Rightarrow> verdict" where
  "proof_sss3_redeem_preserves_solvency vault_balance net amount =
     assuming [vault_balance \<ge> net, amount > 0 \<and> amount \<le> net, vault_balance \<ge> amount]
       (sub_ov vault_balance amount (\<lambda>new_vault. sub_ov net amount (\<lambda>new_net. asserting [new_vault \<ge> new_net] Passed)))"

definition proof_deposit_improves_reserve_ratio ::
  "u64 \<Rightarrow> u64 \<Rightarrow> u64 \<Rightarrow> verdict" where
  "proof_deposit_improves_reserve_ratio vault net deposit =
     assuming [net > 0, deposit > 0, vault \<le> - 1 - deposit]
       (add_ov vault deposit (\<lambda>new_vault. asserting [new_vault > vault, new_vault \<ge> vault] Passed))"

definition proof_reserve_ratio_exact_at_parity ::
  "u64 \<Rightarrow> verdict" where
  "proof_reserve_ratio_exact_at_parity amount =
     assuming [amount > 0]
       (let supply_amount = amount; collateral = amount in
        div_ov (saturating_mul (ucast collateral :: u128) 10000) (ucast supply_amount) (\<lambda>ratio. asserting [ratio = 10000] Passed))"

definition proof_cdp_borrow_enforces_ltv ::
  "u64 \<Rightarrow> u128 \<Rightarrow> u32 \<Rightarrow> u32 \<Rightarrow> u64 \<Rightarrow> u32 \<Rightarrow> verdict" where
  "proof_cdp_borrow_enforces_ltv deposited price_val price_expo_abs collateral_decimals amount sss_decimals =
     assuming [price_expo_abs \<le> 9, collateral_decimals \<le> 9, price_val > 0 \<and> price_val < 1000000000000, deposited > 0, amount > 0, sss_decimals \<le> 9]
       (let collateral_value = value_e6 deposited price_val price_expo_abs collateral_decimals;
            sss_unit = pow_10 sss_decimals;
            max_amount = ltv_limit collateral_value sss_unit in
        case (collateral_value, max_amount) of
          (Some cv, Some m) \<Rightarrow>
            if ucast amount \<le> m then
              (let debt = (case checked_mul (ucast amount) 1000000 of None \<Rightarrow> - 1 | Some v \<Rightarrow> v div sss_unit) in
               if debt > 0 then asserting [saturating_mul cv 10000 div debt \<ge> 14999] Passed else Passed)
            else Passed
        | _ \<Rightarrow> Passed)"

definition proof_cdp_collateral_ratio_inductive ::
  "u128 \<Rightarrow> u128 \<Rightarrow> u128 \<Rightarrow> verdict" where
  "proof_cdp_collateral_ratio_inductive collateral debt extra =
     assuming [debt > 0, extra > 0]
       (let min_bps = ucast MIN_COLLATERAL_RATIO_BPS in
        div_ov (saturating_mul collateral 10000) debt (\<lambda>ratio_before.
        assuming [ratio_before \<ge> min_bps, collateral \<le> - 1 - extra]
          (add_ov collateral extra (\<lambda>new_collateral.
           div_ov (saturating_mul new_collateral 10000) debt (\<lambda>ratio_after.
           asserting [ratio_after \<ge> ratio_before, ratio_after \<ge> min_bps] Passed)))))"

definition proof_cdp_liquidation_only_when_undercollateralised ::
  "u128 \<Rightarrow> u128 \<Rightarrow> verdict" where
  "proof_cdp_liquidation_only_when_undercollateralised collateral debt =
     assuming [debt > 0]
       (let threshold = ucast LIQUIDATION_THRESHOLD_BPS in
        div_ov (saturating_mul collateral 10000) debt (\<lambda>ratio.
        let can_liquidate = (ratio < threshold) in
        if ratio \<ge> threshold then asserting [\<not> can_liquidate] Passed else asserting [can_liquidate] Passed))"

definition proof_cdp_repay_decreases_debt ::
  "u64 \<Rightarrow> u64 \<Rightarrow> verdict" where
  "proof_cdp_repay_decreases_debt debt_amount repay_amount =
     assuming [debt_amount > 0, repay_amount > 0 \<and> repay_amount \<le> debt_amount]
       (sub_ov debt_amount repay_amount (\<lambda>new_debt. asserting [new_debt < debt_amount, new_debt \<le> debt_amount] Passed))"

section \<open>Pause, timelock, committee, authority, addresses, flags\<close>

definition proof_pause_inductive_blocks_all_mints ::
  "u64 \<Rightarrow> verdict" where
  "proof_pause_inductive_blocks_all_mints amount =
     (let paused = True; gate_passes = (\<not> paused) in asserting [\<not> gate_passes, paused = True] Passed)"

definition proof_pause_idempotent ::
  "bool \<Rightarrow> verdict" where
  "proof_pause_idempotent paused_before =
     (let paused_after = True in asserting [paused_after = True, paused_before \<longrightarrow> paused_after = paused_before] Passed)"

definition proof_timelock_delay_enforced ::
  "u64 \<Rightarrow> u64 \<Rightarrow> verdict" where
  "proof_timelock_delay_enforced current_slot delay =
     (let default_delay = DEFAULT_ADMIN_TIMELOCK_DELAY in
      assuming [delay \<ge> default_delay]
        (case checked_add current_slot delay of None \<Rightarrow> Passed
         | Some mature_slot \<Rightarrow> add_ov current_slot default_delay (\<lambda>earliest. asserting [mature_slot \<ge> earliest] Passed)))"

definition proof_timelock_cancel_clears_pending ::
  "u8 \<Rightarrow> verdict" where
  "proof_timelock_cancel_clears_pending pending_op =
     assuming [pending_op = ADMIN_OP_TRANSFER_AUTHORITY \<or> pending_op = ADMIN_OP_SET_FEATURE_FLAG \<or> pending_op = ADMIN_OP_CLEAR_FEATURE_FLAG]
       (let op_after_cancel = ADMIN_OP_NONE; can_execute = (op_after_cancel \<noteq> ADMIN_OP_NONE) in
        asserting [op_after_cancel = 0, \<not> can_execute] Passed)"

definition proof_timelock_no_double_execute ::
  "u8 \<Rightarrow> verdict" where
  "proof_timelock_no_double_execute op_kind =
     assuming [op_kind \<noteq> ADMIN_OP_NONE]
       (let kind_after_first = ADMIN_OP_NONE; second_execute_allowed = (kind_after_first \<noteq> ADMIN_OP_NONE) in
        asserting [\<not> second_execute_allowed] Passed)"

definition proof_dao_quorum_enforced ::
  "u8 \<Rightarrow> u8 \<Rightarrow> verdict" where
  "proof_dao_quorum_enforced votes quorum =
     assuming [quorum \<ge> 1, quorum \<le> 10, votes \<le> 10]
       (let can_execute = (votes \<ge> quorum) in
        if votes < quorum then asserting [\<not> can_execute] Passed else asserting [can_execute] Passed)"

definition proof_dao_no_double_vote ::
  "bool \<Rightarrow> verdict" where
  "proof_dao_no_double_vote already_voted =
     (let vote_allowed = (\<not> already_voted) in
      if already_voted then asserting [\<not> vote_allowed] Passed else asserting [vote_allowed] Passed)"

definition proof_dao_member_dedup ::
  "pubkey \<Rightarrow> pubkey \<Rightarrow> verdict" where
  "proof_dao_member_dedup m0 m1 =
     (let init_succeeds = (m0 \<noteq> m1) in
      if m0 = m1 then asserting [\<not> init_succeeds] Passed else asserting [init_succeeds] Passed)"

definition proof_authority_two_step_inductive ::
  "pubkey \<Rightarrow> verdict" where
  "proof_authority_two_step_inductive pending =
     assuming [pending \<noteq> 0]
       (let new_authority = pending; new_pending = 0 :: pubkey in asserting [new_authority \<noteq> 0, new_pending = 0] Passed)"

definition proof_authority_accept_clears_pending ::
  "pubkey \<Rightarrow> verdict" where
  "proof_authority_accept_clears_pending pending_before =
     assuming [pending_before \<noteq> 0]
       (let pending_after = 0 :: pubkey; second_accept_allowed = (pending_after \<noteq> 0) in
        asserting [pending_after = 0, \<not> second_accept_allowed] Passed)"

definition proof_blacklist_pda_deterministic ::
  "pubkey \<Rightarrow> pubkey \<Rightarrow> verdict" where
  "proof_blacklist_pda_deterministic mint wallet =
     (let seed_hash_a = seed_hash mint wallet; seed_hash_b = seed_hash mint wallet in asserting [seed_hash_a = seed_hash_b] Passed)"

definition proof_blacklist_pda_no_collision ::
  "pubkey \<Rightarrow> pubkey \<Rightarrow> pubkey \<Rightarrow> pubkey \<Rightarrow> verdict" where
  "proof_blacklist_pda_no_collision mint_a wallet_a mint_b wallet_b =
     assuming [mint_a \<noteq> mint_b \<or> wallet_a \<noteq> wallet_b]
       (let seeds_a = (mint_a, wallet_a); seeds_b = (mint_b, wallet_b); same_seeds = (fst seeds_a = fst seeds_b \<and> snd seeds_a = snd seeds_b) in
        asserting [\<not> same_seeds] Passed)"

definition proof_feature_flags_set_clear_inverse ::
  "u64 \<Rightarrow> u64 \<Rightarrow> verdict" where
  "proof_feature_flags_set_clear_inverse flags bits =
     assuming [bits > 0]
       (let after_set = flags OR bits; after_clear = flags AND NOT bits in
        asserting [after_set AND bits = bits, after_clear AND bits = 0, after_set AND NOT bits = flags AND NOT bits,
                   after_clear AND NOT bits = flags AND NOT bits] Passed)"

definition proof_feature_flag_bit_isolation ::
  "u64 \<Rightarrow> verdict" where
  "proof_feature_flag_bit_isolation flags =
     (let fa = FLAG_CIRCUIT_BREAKER; fb = FLAG_SPEND_POLICY; after_set_a = flags OR fa; fb_before = flags AND fb; fb_after = after_set_a AND fb in
      asserting [fb_before = fb_after] Passed)"

section \<open>Fees, backstop, probabilistic balances, reserves, channels\<close>

definition proof_psm_fee_bounded ::
  "u16 \<Rightarrow> verdict" where
  "proof_psm_fee_bounded fee_bps =
     (let max_fee = 1000 in if fee_bps \<le> max_fee then (let stored_fee = fee_bps in asserting [stored_fee \<le> max_fee, stored_fee \<le> 10000] Passed) else Passed)"

definition proof_stability_fee_bounded ::
  "u16 \<Rightarrow> verdict" where
  "proof_stability_fee_bounded fee_bps =
     (let max_fee = 10000 in if fee_bps \<le> max_fee then (let stored_fee = fee_bps in asserting [stored_fee \<le> max_fee] Passed) else Passed)"

definition proof_backstop_never_overdraws_fund ::
  "u64 \<Rightarrow> u64 \<Rightarrow> u64 \<Rightarrow> verdict" where
  "proof_backstop_never_overdraws_fund fund_balance shortfall max_allowed =
     assuming [fund_balance > 0, shortfall > 0]
       (let draw = min (min shortfall fund_balance) max_allowed in
        asserting [draw \<le> fund_balance]
          (sub_ov fund_balance draw (\<lambda>fund_after. asserting [fund_after \<le> fund_balance, fund_balance \<ge> draw] Passed)))"

definition proof_pbs_committed_amount_never_lost ::
  "u64 \<Rightarrow> u64 \<Rightarrow> u64 \<Rightarrow> verdict" where
  "proof_pbs_committed_amount_never_lost committed_amount released refunded =
     assuming [released \<le> committed_amount, refunded \<le> saturating_sub committed_amount released]
       (asserting [saturating_add released refunded \<le> committed_amount] Passed)"

definition proof_pbs_cannot_double_resolve ::
  "u8 \<Rightarrow> verdict" where
  "proof_pbs_cannot_double_resolve status =
     (let is_terminal = (status = 1 \<or> status = 2) in
      if is_terminal then (let can_resolve = (\<not> is_terminal) in asserting [\<not> can_resolve] Passed) else Passed)"

definition proof_pbs_partial_bounded ::
  "u64 \<Rightarrow> u64 \<Rightarrow> u64 \<Rightarrow> verdict" where
  "proof_pbs_partial_bounded committed already_resolved partial_amount =
     assuming [already_resolved \<le> committed]
       (let remaining = saturating_sub committed already_resolved in
        assuming [partial_amount \<le> remaining]
          (let new_total = saturating_add already_resolved partial_amount in asserting [new_total \<le> committed] Passed))"

definition proof_reserve_ratio_never_misreported ::
  "u64 \<Rightarrow> u64 \<Rightarrow> verdict" where
  "proof_reserve_ratio_never_misreported reserve_amount net =
     assuming [net > 0, reserve_amount \<le> - 1]
       (div_ov (saturating_mul (ucast reserve_amount :: u128) 10000) (ucast net) (\<lambda>q.
        let ratio_bps = ucast q :: u64 in
        asserting [reserve_amount = net \<longrightarrow> ratio_bps = 10000, reserve_amount < net \<longrightarrow> ratio_bps < 10000, ratio_bps \<le> - 1,
                   (ucast ratio_bps :: u128) \<le> saturating_mul (ucast reserve_amount) 10000] Passed))"

definition proof_reserve_breach_condition_correct ::
  "u64 \<Rightarrow> u16 \<Rightarrow> verdict" where
  "proof_reserve_breach_condition_correct ratio_bps min_ratio_bps =
     (let breach = (min_ratio_bps > 0 \<and> ratio_bps < ucast min_ratio_bps) in
      asserting [min_ratio_bps = 0 \<longrightarrow> \<not> breach, min_ratio_bps > 0 \<and> ratio_bps \<ge> ucast min_ratio_bps \<longrightarrow> \<not> breach,
                 min_ratio_bps > 0 \<and> ratio_bps < ucast min_ratio_bps \<longrightarrow> breach] Passed)"

definition proof_reserve_attestation_stores_latest ::
  "u64 \<Rightarrow> u64 \<Rightarrow> verdict" where
  "proof_reserve_attestation_stores_latest prev_reserve new_reserve =
     assuming [new_reserve > 0] (let stored_reserve = new_reserve in asserting [stored_reserve = new_reserve, stored_reserve > 0] Passed)"

definition proof_apc_funds_always_conserved ::
  "u64 \<Rightarrow> u64 \<Rightarrow> u64 \<Rightarrow> verdict" where
  "proof_apc_funds_always_conserved initiator_deposit released_to_counterparty returned_to_initiator =
     assuming [released_to_counterparty \<le> initiator_deposit, returned_to_initiator = saturating_sub initiator_deposit released_to_counterparty]
       (let in_all = saturating_add released_to_counterparty returned_to_initiator in asserting [in_all = initiator_deposit] Passed)"

definition proof_apc_timeout_always_available ::
  "u64 \<Rightarrow> u64 \<Rightarrow> u64 \<Rightarrow> u8 \<Rightarrow> verdict" where
  "proof_apc_timeout_always_available open_slot timeout_slots current_slot status =
     assuming [status = 0, timeout_slots \<le> - 1 - open_slot]
       (let deadline = saturating_add open_slot timeout_slots in
        assuming [current_slot \<ge> deadline]
          (let force_close_allowed = (current_slot \<ge> deadline \<and> status = 0) in asserting [force_close_allowed] Passed))"

definition proof_apc_no_double_settle ::
  "u8 \<Rightarrow> verdict" where
  "proof_apc_no_double_settle status =
     assuming [status = 2] (let settle_allowed = (status = 0) in asserting [\<not> settle_allowed] Passed)"

section \<open>Rotation, guardians, bonus tiers and the fee curve\<close>

definition proof_authority_rotation_atomic ::
  "u8 \<Rightarrow> verdict" where
  "proof_authority_rotation_atomic op =
     assuming [op \<le> 2]
       (let holder_before = 0 :: u8 in
        asserting [holder_before = 0]
          (let holder_after = (if op = 0 then 1 else if op = 1 then 2 else 0) :: u8;
               two_holders_active = (holder_after = 0 \<and> op \<noteq> 2 \<or> holder_after = 1 \<and> op \<noteq> 0 \<or> holder_after = 2 \<and> op \<noteq> 1) in
           asserting [holder_after \<le> 2, \<not> two_holders_active] Passed))"

definition proof_rotation_timelock_enforced ::
  "u64 \<Rightarrow> u64 \<Rightarrow> pubkey \<Rightarrow> verdict" where
  "proof_rotation_timelock_enforced proposed_slot current_slot new_auth =
     (let timelock_slots = 432000; timelock_met = (current_slot \<ge> saturating_add proposed_slot timelock_slots) in
      asserting [\<not> timelock_met \<longrightarrow> current_slot < saturating_add proposed_slot timelock_slots]
        (if timelock_met then assuming [new_auth \<noteq> 0] (let authority_after = new_auth in asserting [authority_after \<noteq> 0] Passed) else Passed))"

definition proof_emergency_recovery_window ::
  "u64 \<Rightarrow> u64 \<Rightarrow> verdict" where
  "proof_emergency_recovery_window proposed_slot current_slot =
     (let emergency_slots = 7 * 432000;
          emergency_ready = (current_slot \<ge> saturating_add proposed_slot emergency_slots);
          accept_ready = (current_slot \<ge> saturating_add proposed_slot 432000) in
      asserting [emergency_ready \<longrightarrow> accept_ready, accept_ready \<and> \<not> emergency_ready \<longrightarrow> \<not> emergency_ready] Passed)"

definition proof_guardian_cannot_mint ::
  "bool \<Rightarrow> bool \<Rightarrow> verdict" where
  "proof_guardian_cannot_mint is_registered_minter is_guardian =
     assuming [is_guardian, \<not> is_registered_minter] (let mint_allowed = is_registered_minter in asserting [\<not> mint_allowed] Passed)"

definition proof_guardian_threshold_invariant ::
  "u8 \<Rightarrow> u8 \<Rightarrow> verdict" where
  "proof_guardian_threshold_invariant votes threshold =
     assuming [votes \<le> 7, threshold \<ge> 1, threshold \<le> 7]
       (add_ov threshold 1 (\<lambda>most.
        assuming [votes \<le> most]
          (let should_execute = (votes \<ge> threshold) in
           asserting [votes = threshold \<longrightarrow> should_execute, votes < threshold \<longrightarrow> \<not> should_execute] Passed)))"

definition proof_guardian_lift_requires_full_quorum ::
  "u8 \<Rightarrow> u8 \<Rightarrow> verdict" where
  "proof_guardian_lift_requires_full_quorum total_guardians pending_votes =
     assuming [total_guardians \<ge> 2, total_guardians \<le> 7, pending_votes < total_guardians]
       (let is_authority = False; lift_allowed = (is_authority \<or> pending_votes \<ge> total_guardians) in asserting [\<not> lift_allowed] Passed)"

definition proof_liquidation_bonus_bounded ::
  "u16 \<Rightarrow> u16 \<Rightarrow> u16 \<Rightarrow> u16 \<Rightarrow> u16 \<Rightarrow> u16 \<Rightarrow> u16 \<Rightarrow> u128 \<Rightarrow> verdict" where
  "proof_liquidation_bonus_bounded max_bonus_bps tier1_bonus tier2_bonus tier3_bonus tier1_threshold tier2_threshold tier3_threshold ratio_bps =
     assuming [max_bonus_bps \<le> 5000, tier1_bonus \<le> max_bonus_bps, tier2_bonus \<le> max_bonus_bps, tier3_bonus \<le> max_bonus_bps,
               tier1_bonus \<le> tier2_bonus, tier2_bonus \<le> tier3_bonus, tier3_threshold < tier2_threshold, tier2_threshold < tier1_threshold,
               tier1_threshold \<le> 15000, ratio_bps \<le> 20000]
       (let raw_bonus = (if ratio_bps < ucast tier3_threshold then tier3_bonus else if ratio_bps < ucast tier2_threshold then tier2_bonus else tier1_bonus);
            bonus = min raw_bonus max_bonus_bps in
        asserting [bonus \<le> max_bonus_bps, bonus \<le> 5000] Passed)"

definition proof_psm_fee_curve_bounded ::
  "u16 \<Rightarrow> u16 \<Rightarrow> u64 \<Rightarrow> u64 \<Rightarrow> u64 \<Rightarrow> verdict" where
  "proof_psm_fee_curve_bounded base_fee_bps max_fee_bps curve_k vault_amount total_reserves =
     assuming [max_fee_bps \<le> 2000, base_fee_bps \<le> max_fee_bps]
       (let fee = (if total_reserves = 0 then base_fee_bps else curve_copy base_fee_bps max_fee_bps curve_k vault_amount total_reserves) in
        asserting [fee \<le> max_fee_bps, fee \<le> 2000, fee \<ge> base_fee_bps] Passed)"

definition proof_psm_fee_curve_balanced_is_base ::
  "u16 \<Rightarrow> u16 \<Rightarrow> u64 \<Rightarrow> u64 \<Rightarrow> verdict" where
  "proof_psm_fee_curve_balanced_is_base base_fee_bps max_fee_bps curve_k total_reserves =
     assuming [max_fee_bps \<le> 2000, base_fee_bps \<le> max_fee_bps, total_reserves > 1, total_reserves mod 2 = 0]
       (let vault_amount = total_reserves div 2; fee = curve_copy base_fee_bps max_fee_bps curve_k vault_amount total_reserves in
        asserting [fee \<ge> base_fee_bps, fee \<le> max_fee_bps] Passed)"

section \<open>State transitions and addresses\<close>

definition proof_mint_mutates_only_total_minted ::
  "pubkey \<Rightarrow> pubkey \<Rightarrow> u8 \<Rightarrow> bool \<Rightarrow> u64 \<Rightarrow> u64 \<Rightarrow> u64 \<Rightarrow> u64 \<Rightarrow> u64 \<Rightarrow> verdict" where
  "proof_mint_mutates_only_total_minted authority compliance_authority preset paused_before total_minted_before total_burned_before feature_flags_before max_supply amount =
     assuming [\<not> paused_before, amount > 0,
               max_supply = 0 \<or> total_minted_before \<le> total_burned_before \<or>
                 total_minted_before - total_burned_before \<le> saturating_sub max_supply amount]
       (let total_minted_after = saturating_add total_minted_before amount in
        asserting [total_minted_after \<ge> total_minted_before]
          (let paused_after = paused_before; authority_after = authority; compliance_after = compliance_authority; preset_after = preset;
               feature_flags_after = feature_flags_before; total_burned_after = total_burned_before in
           asserting [paused_after = paused_before, authority_after = authority, compliance_after = compliance_authority, preset_after = preset,
                      feature_flags_after = feature_flags_before, total_burned_after = total_burned_before] Passed))"

definition proof_burn_mutates_only_total_burned ::
  "u64 \<Rightarrow> u64 \<Rightarrow> bool \<Rightarrow> pubkey \<Rightarrow> u64 \<Rightarrow> u64 \<Rightarrow> verdict" where
  "proof_burn_mutates_only_total_burned total_minted total_burned_before paused_before authority feature_flags amount =
     assuming [\<not> paused_before, amount > 0, total_burned_before \<le> total_minted]
       (sub_ov total_minted total_burned_before (\<lambda>net_before.
        assuming [amount \<le> net_before]
          (let total_burned_after = saturating_add total_burned_before amount in
           sub_ov total_minted total_burned_after (\<lambda>net_after.
           asserting [total_burned_after > total_burned_before, net_after < net_before]
             (let total_minted_unchanged = total_minted in
              asserting [total_minted_unchanged = total_minted, paused_before = paused_before] Passed)))))"

definition proof_pause_mutates_only_paused_field ::
  "pubkey \<Rightarrow> u64 \<Rightarrow> u64 \<Rightarrow> u64 \<Rightarrow> u8 \<Rightarrow> bool \<Rightarrow> verdict" where
  "proof_pause_mutates_only_paused_field authority total_minted total_burned feature_flags preset paused_before =
     (let paused_after = True in
      asserting [paused_after = True]
        (let total_minted_after = total_minted; total_burned_after = total_burned; feature_flags_after = feature_flags; preset_after = preset in
         asserting [total_minted_after = total_minted, total_burned_after = total_burned, feature_flags_after = feature_flags,
                    preset_after = preset] Passed))"

definition proof_accept_authority_mutates_only_authority_fields ::
  "pubkey \<Rightarrow> pubkey \<Rightarrow> u64 \<Rightarrow> u64 \<Rightarrow> u64 \<Rightarrow> u64 \<Rightarrow> u8 \<Rightarrow> bool \<Rightarrow> verdict" where
  "proof_accept_authority_mutates_only_authority_fields authority_before pending_authority total_minted total_burned feature_flags max_supply preset paused =
     assuming [pending_authority \<noteq> 0]
       (let authority_after = pending_authority; pending_after = 0 :: pubkey in
        asserting [authority_after = pending_authority, authority_after \<noteq> 0, pending_after = 0, total_minted = total_minted,
                   total_burned = total_burned, feature_flags = feature_flags, max_supply = max_supply, preset = preset, paused = paused] Passed)"

definition proof_set_feature_flag_mutates_only_flags_field ::
  "u64 \<Rightarrow> u64 \<Rightarrow> pubkey \<Rightarrow> u64 \<Rightarrow> u64 \<Rightarrow> u64 \<Rightarrow> bool \<Rightarrow> u8 \<Rightarrow> verdict" where
  "proof_set_feature_flag_mutates_only_flags_field feature_flags_before bits authority total_minted total_burned max_supply paused preset =
     assuming [bits > 0]
       (let feature_flags_after = feature_flags_before OR bits in
        asserting [feature_flags_after AND bits = bits, feature_flags_after AND NOT bits = feature_flags_before AND NOT bits] Passed)"

definition proof_config_pda_seeds_collision_resistant ::
  "pubkey \<Rightarrow> pubkey \<Rightarrow> verdict" where
  "proof_config_pda_seeds_collision_resistant mint_a mint_b =
     assuming [mint_a \<noteq> mint_b] (let seeds_equal = (mint_a = mint_b) in asserting [\<not> seeds_equal] Passed)"

definition proof_minter_info_pda_seeds_collision_resistant ::
  "pubkey \<Rightarrow> pubkey \<Rightarrow> pubkey \<Rightarrow> pubkey \<Rightarrow> verdict" where
  "proof_minter_info_pda_seeds_collision_resistant config_a minter_a config_b minter_b =
     assuming [config_a \<noteq> config_b \<or> minter_a \<noteq> minter_b]
       (let seeds_equal = (config_a = config_b \<and> minter_a = minter_b) in asserting [\<not> seeds_equal] Passed)"

definition proof_cdp_position_pda_seeds_collision_resistant ::
  "pubkey \<Rightarrow> pubkey \<Rightarrow> pubkey \<Rightarrow> pubkey \<Rightarrow> verdict" where
  "proof_cdp_position_pda_seeds_collision_resistant config_a owner_a config_b owner_b =
     assuming [config_a \<noteq> config_b \<or> owner_a \<noteq> owner_b]
       (let seeds_equal = (config_a = config_b \<and> owner_a = owner_b) in asserting [\<not> seeds_equal] Passed)"

definition proof_dao_committee_pda_seeds_collision_resistant ::
  "pubkey \<Rightarrow> pubkey \<Rightarrow> verdict" where
  "proof_dao_committee_pda_seeds_collision_resistant config_a config_b =
     assuming [config_a \<noteq> config_b] (let seeds_equal = (config_a = config_b) in asserting [\<not> seeds_equal] Passed)"

definition proof_dao_proposal_pda_seeds_collision_resistant ::
  "pubkey \<Rightarrow> u64 \<Rightarrow> u64 \<Rightarrow> verdict" where
  "proof_dao_proposal_pda_seeds_collision_resistant config id_a id_b =
     assuming [id_a \<noteq> id_b] (let seeds_equal = (u64_bytes id_a = u64_bytes id_b) in asserting [\<not> seeds_equal] Passed)"

section \<open>Adversarial scenarios\<close>

definition proof_spoofed_signer_rejected_on_mint ::
  "pubkey \<Rightarrow> pubkey \<Rightarrow> verdict" where
  "proof_spoofed_signer_rejected_on_mint signer_key expected_pda =
     assuming [signer_key \<noteq> expected_pda] (let signer_valid = (signer_key = expected_pda) in asserting [\<not> signer_valid] Passed)"

definition proof_supply_cap_cannot_be_bypassed_by_sequential_mints ::
  "u64 \<Rightarrow> u64 \<Rightarrow> u64 \<Rightarrow> u64 \<Rightarrow> verdict" where
  "proof_supply_cap_cannot_be_bypassed_by_sequential_mints max_supply net_supply_before amount1 amount2 =
     assuming [max_supply > 0, amount1 > 0 \<and> amount2 > 0, net_supply_before \<le> max_supply]
       (let net_after_mint1 = saturating_add net_supply_before amount1 in
        assuming [net_after_mint1 = max_supply]
          (let second_mint_allowed = (saturating_add net_after_mint1 amount2 \<le> max_supply) in asserting [\<not> second_mint_allowed] Passed))"

definition proof_pause_blocks_burn_as_well_as_mint ::
  "bool \<Rightarrow> verdict" where
  "proof_pause_blocks_burn_as_well_as_mint is_mint =
     (let paused = True; gate_passes = (\<not> paused) in asserting [\<not> gate_passes] Passed)"

definition proof_timelock_shortcut_rejected_before_mature ::
  "u64 \<Rightarrow> u64 \<Rightarrow> u64 \<Rightarrow> verdict" where
  "proof_timelock_shortcut_rejected_before_mature proposed_slot delay current_slot =
     (let default_delay = 432000 in
      assuming [delay \<ge> default_delay]
        (let mature_slot = saturating_add proposed_slot delay in
         assuming [current_slot < mature_slot] (let can_execute = (current_slot \<ge> mature_slot) in asserting [\<not> can_execute] Passed)))"

definition proof_double_mint_blocked_by_cap_state ::
  "u64 \<Rightarrow> u64 \<Rightarrow> u64 \<Rightarrow> u64 \<Rightarrow> verdict" where
  "proof_double_mint_blocked_by_cap_state cap minted_before amount1 amount2 =
     assuming [cap > 0, amount1 > 0 \<and> amount2 > 0, minted_before \<le> cap, saturating_add minted_before amount1 = cap]
       (let minted_after_first = saturating_add minted_before amount1;
            second_allowed = (cap > 0 \<and> saturating_add minted_after_first amount2 \<le> cap) in
        asserting [\<not> second_allowed] Passed)"

definition proof_zero_amount_mint_unconditionally_rejected ::
  "verdict" where
  "proof_zero_amount_mint_unconditionally_rejected =
     (let amount = 0 :: u64; gate_passes = (amount > 0) in asserting [\<not> gate_passes] Passed)"

definition proof_cdp_overborrow_rejected_on_price_overflow ::
  "u64 \<Rightarrow> u128 \<Rightarrow> verdict" where
  "proof_cdp_overborrow_rejected_on_price_overflow deposited price =
     assuming [deposited > 0]
       (let scale = 1000000; collateral_value_opt = Option.bind (checked_mul (ucast deposited) price) (\<lambda>v. checked_mul v scale) in
        asserting [collateral_value_opt = None \<longrightarrow> True]
          (case collateral_value_opt of None \<Rightarrow> Passed
           | Some cv \<Rightarrow>
               (let most = saturating_mul (cv div ucast MIN_COLLATERAL_RATIO_BPS) 10000 in
                asserting [most \<le> saturating_mul cv 10000 div ucast MIN_COLLATERAL_RATIO_BPS] Passed)))"

definition proof_liquidation_front_run_impossible ::
  "u128 \<Rightarrow> u128 \<Rightarrow> verdict" where
  "proof_liquidation_front_run_impossible collateral_usd debt_usd =
     (let threshold_bps = ucast LIQUIDATION_THRESHOLD_BPS in
      assuming [debt_usd > 0]
        (div_ov (saturating_mul collateral_usd 10000) debt_usd (\<lambda>ratio_bps.
         assuming [ratio_bps \<ge> threshold_bps] (let can_liquidate = (ratio_bps < threshold_bps) in asserting [\<not> can_liquidate] Passed))))"

definition proof_old_authority_cannot_act_after_transfer ::
  "pubkey \<Rightarrow> pubkey \<Rightarrow> pubkey \<Rightarrow> verdict" where
  "proof_old_authority_cannot_act_after_transfer old_authority new_authority signer =
     assuming [old_authority \<noteq> new_authority, new_authority \<noteq> 0, signer = old_authority]
       (let config_authority = new_authority; authorised = (signer = config_authority) in asserting [\<not> authorised] Passed)"

definition proof_feature_flag_race_order_independent ::
  "u64 \<Rightarrow> u64 \<Rightarrow> u64 \<Rightarrow> verdict" where
  "proof_feature_flag_race_order_independent flags_initial set_mask clear_mask =
     assuming [set_mask > 0 \<and> clear_mask > 0, set_mask AND clear_mask = 0]
       (let after_set_first = (flags_initial OR set_mask) AND NOT clear_mask; after_clear_first = (flags_initial AND NOT clear_mask) OR set_mask in
        asserting [after_set_first = after_clear_first, after_set_first AND set_mask = set_mask, after_set_first AND clear_mask = 0] Passed)"

definition proof_minter_pda_owner_check_unconditional ::
  "pubkey \<Rightarrow> pubkey \<Rightarrow> pubkey \<Rightarrow> verdict" where
  "proof_minter_pda_owner_check_unconditional account_owner expected_program_id attacker_program_id =
     assuming [attacker_program_id \<noteq> expected_program_id, account_owner = attacker_program_id]
       (let owner_valid = (account_owner = expected_program_id) in asserting [\<not> owner_valid] Passed)"

definition proof_cdp_withdrawal_cannot_breach_min_collateral_ratio ::
  "u128 \<Rightarrow> u128 \<Rightarrow> u128 \<Rightarrow> verdict" where
  "proof_cdp_withdrawal_cannot_breach_min_collateral_ratio collateral_usd debt_usd withdraw_amount_usd =
     (let min_bps = ucast MIN_COLLATERAL_RATIO_BPS in
      assuming [debt_usd > 0, withdraw_amount_usd < collateral_usd]
        (let new_collateral = saturating_sub collateral_usd withdraw_amount_usd in
         div_ov (saturating_mul new_collateral 10000) debt_usd (\<lambda>new_ratio_bps.
         let withdrawal_allowed = (new_ratio_bps \<ge> min_bps) in
         if new_ratio_bps < min_bps then asserting [\<not> withdrawal_allowed] Passed else asserting [withdrawal_allowed] Passed)))"

section \<open>The harnesses that hold\<close>

lemma plain_harnesses:
  "verified (proof_unlimited_cap_never_blocks minted amount)"
  "verified (proof_cdp_liquidation_only_when_undercollateralised collateral debt)"
  "verified (proof_pause_inductive_blocks_all_mints amount)"
  "verified (proof_pause_idempotent paused_before)"
  "verified (proof_timelock_cancel_clears_pending pending_op)"
  "verified (proof_timelock_no_double_execute op_kind)"
  "verified (proof_dao_quorum_enforced votes quorum)"
  "verified (proof_dao_no_double_vote already_voted)"
  "verified (proof_dao_member_dedup m0 m1)"
  "verified (proof_authority_two_step_inductive pending)"
  "verified (proof_authority_accept_clears_pending pending_before)"
  "verified (proof_blacklist_pda_deterministic mint wallet)"
  "verified (proof_blacklist_pda_no_collision mint_a wallet_a mint_b wallet_b)"
  "verified (proof_stability_fee_bounded fee_bps)"
  "verified (proof_pbs_cannot_double_resolve status)"
  "verified (proof_reserve_breach_condition_correct ratio_bps min_ratio_bps)"
  "verified (proof_reserve_attestation_stores_latest prev_reserve new_reserve)"
  "verified (proof_apc_timeout_always_available open_slot timeout_slots current_slot status)"
  "verified (proof_apc_no_double_settle status)"
  "verified (proof_rotation_timelock_enforced proposed_slot current_slot new_auth)"
  "verified (proof_guardian_cannot_mint is_registered_minter is_guardian)"
  "verified (proof_guardian_lift_requires_full_quorum total_guardians pending_votes)"
  "verified (proof_pause_mutates_only_paused_field authority total_minted total_burned feature_flags preset paused_before)"
  "verified (proof_accept_authority_mutates_only_authority_fields authority_before pending_authority total_minted total_burned feature_flags max_supply preset paused)"
  "verified (proof_config_pda_seeds_collision_resistant mint_a mint_b)"
  "verified (proof_minter_info_pda_seeds_collision_resistant config_a minter_a config_b minter_b)"
  "verified (proof_cdp_position_pda_seeds_collision_resistant config_a owner_a config_b owner_b)"
  "verified (proof_dao_committee_pda_seeds_collision_resistant config_a config_b)"
  "verified (proof_spoofed_signer_rejected_on_mint signer_key expected_pda)"
  "verified (proof_pause_blocks_burn_as_well_as_mint is_mint)"
  "verified (proof_timelock_shortcut_rejected_before_mature proposed_slot delay current_slot)"
  "verified (proof_zero_amount_mint_unconditionally_rejected)"
  "verified (proof_liquidation_front_run_impossible collateral_usd debt_usd)"
  "verified (proof_old_authority_cannot_act_after_transfer old_authority new_authority signer)"
  "verified (proof_minter_pda_owner_check_unconditional account_owner expected_program_id attacker_program_id)"
  "verified (proof_cdp_withdrawal_cannot_breach_min_collateral_ratio collateral_usd debt_usd withdraw_amount_usd)"
  by (simp_all add: Let_def not_le not_less ADMIN_OP_NONE_def word_neq_0_conv
      proof_unlimited_cap_never_blocks_def proof_cdp_liquidation_only_when_undercollateralised_def
      proof_pause_inductive_blocks_all_mints_def proof_pause_idempotent_def proof_timelock_cancel_clears_pending_def
      proof_timelock_no_double_execute_def proof_dao_quorum_enforced_def proof_dao_no_double_vote_def proof_dao_member_dedup_def
      proof_authority_two_step_inductive_def proof_authority_accept_clears_pending_def proof_blacklist_pda_deterministic_def
      proof_blacklist_pda_no_collision_def proof_stability_fee_bounded_def proof_pbs_cannot_double_resolve_def
      proof_reserve_breach_condition_correct_def proof_reserve_attestation_stores_latest_def proof_apc_timeout_always_available_def
      proof_apc_no_double_settle_def proof_rotation_timelock_enforced_def proof_guardian_cannot_mint_def
      proof_guardian_lift_requires_full_quorum_def proof_pause_mutates_only_paused_field_def
      proof_accept_authority_mutates_only_authority_fields_def proof_config_pda_seeds_collision_resistant_def
      proof_minter_info_pda_seeds_collision_resistant_def proof_cdp_position_pda_seeds_collision_resistant_def
      proof_dao_committee_pda_seeds_collision_resistant_def proof_spoofed_signer_rejected_on_mint_def
      proof_pause_blocks_burn_as_well_as_mint_def proof_timelock_shortcut_rejected_before_mature_def
      proof_zero_amount_mint_unconditionally_rejected_def proof_liquidation_front_run_impossible_def
      proof_old_authority_cannot_act_after_transfer_def proof_minter_pda_owner_check_unconditional_def
      proof_cdp_withdrawal_cannot_breach_min_collateral_ratio_def)

lemmas word_nat = word_to_nat unat_plus_if' unat_sub_if' checked_add_def checked_sub_def unat_saturating_add unat_saturating_sub

text \<open>A debt within the harness' limit has the ratio that the limit is for.\<close>

lemma unat_pow_10:
  assumes "n \<le> 9" shows "unat (pow_10 n) = 10 ^ unat n"
proof -
  have "unat n \<in> {0, 1, 2, 3, 4, 5, 6, 7, 8, 9}" using assms by (auto simp: word_le_nat_alt)
  then show ?thesis by (auto simp: pow_10_def)
qed

lemma ltv_limit_ratio:
  assumes n: "n \<le> 9" and m: "ltv_limit (Some cv) (pow_10 n) = Some m" and amount: "ucast (amount :: u64) \<le> m"
  shows "(let debt = (case checked_mul (ucast amount) 1000000 of None \<Rightarrow> - 1 | Some v \<Rightarrow> v div pow_10 n) in
    0 < debt \<longrightarrow> 14999 \<le> saturating_mul cv 10000 div debt)"
proof -
  have u: "unat (pow_10 n) = 10 ^ unat n" by (rule unat_pow_10 [OF n])
  obtain a b where a: "checked_mul cv 10000 = Some a" and b: "checked_mul (a div ucast MIN_COLLATERAL_RATIO_BPS) (pow_10 n) = Some b"
    and mb: "m = b div 1000000" using m by (auto simp: ltv_limit_def bind_eq_Some_conv)
  have an: "unat a = unat cv * 10000" using a by (simp add: arith_ok)
  then have "unat b = unat cv * 10000 div 15000 * 10 ^ unat n" using b by (simp add: arith_ok unat_div MIN_COLLATERAL_RATIO_BPS_def u)
  then have "unat amount \<le> unat cv * 10000 div 15000 * 10 ^ unat n div 1000000"
    using amount by (simp add: mb word_le_nat_alt unat_div)
  then have low: "unat amount * 1000000 \<le> unat cv * 10000 div 15000 * 10 ^ unat n"
    by (subst (asm) less_eq_div_iff_mult_less_eq) simp_all
  have sat: "unat (saturating_mul cv 10000) = unat cv * 10000" using unat_lt [of a] an by (simp add: unat_saturating_mul)
  have "checked_mul (ucast amount :: u128) 1000000 \<noteq> None"
    using u64_bound [of amount] by (simp only: arith_ok) simp
  then obtain v where v: "checked_mul (ucast amount :: u128) 1000000 = Some v" by blast
  then have vn: "unat v = unat amount * 1000000" by (simp add: arith_ok)
  let ?d = "v div pow_10 n"
  have "unat ?d \<le> unat cv * 10000 div 15000"
    using div_le_mono [OF low, of "10 ^ unat n"] by (simp add: unat_div u vn)
  then have "unat ?d * 15000 \<le> unat cv * 10000" by (simp add: less_eq_div_iff_mult_less_eq)
  then have "15000 \<le> unat cv * 10000 div unat ?d" if "0 < ?d"
    using that by (simp add: less_eq_div_iff_mult_less_eq word_less_nat_alt mult.commute)
  then show ?thesis by (auto simp: v Let_def word_le_nat_alt unat_div sat)
qed

text \<open>The harnesses' copy of the curve is the surcharge of the code.\<close>

lemma sat_mul_assoc: "min (k * min (r * r) m) m = min (min (k * r) m * r) (m :: nat)"
proof (cases "k = 0 \<or> r = 0")
  case False
  then have k: "1 \<le> k" and r: "1 \<le> r" by auto
  have rr: "r * r \<le> k * r * r" "k * r \<le> k * r * r" using k r by simp_all
  have m: "m \<le> k * m" "m \<le> m * r" using k r by simp_all
  show ?thesis
  proof (cases "k * r \<le> m")
    case True
    show ?thesis
    proof (cases "r * r \<le> m")
      case False
      then have "m \<le> k * r * r" using rr by linarith
      with True False m show ?thesis by (simp add: min_absorb1 min_absorb2)
    qed (use True in \<open>simp add: min_absorb1 mult.assoc\<close>)
  next
    case False
    then have "m \<le> k * r * r" using rr by linarith
    with False m show ?thesis by (cases "r * r \<le> m") (simp_all add: min_absorb1 min_absorb2 mult.assoc)
  qed
qed auto

lemma curve_copy_nat:
  assumes "held \<noteq> 0"
  shows "unat (curve_copy base cap k vault held) =
    min (unat base + surcharge (unat k) (unat (psm_imbalance vault held)) (unat held)) (unat cap)"
proof -
  let ?ideal = "ucast held div 2 :: u128" and ?v = "ucast vault :: u128"
  define imb where "imb = (if ?v > ?ideal then ?v - ?ideal else ?ideal - ?v)"
  have imb: "unat imb = unat (psm_imbalance vault held)"
    by (auto simp: imb_def psm_imbalance_def Let_def word_less_nat_alt unat_div unat_sub_if')
  define r where "r = saturating_mul imb 1000000 div ucast held"
  have r: "unat r = min (unat (psm_imbalance vault held) * 1000000) (2 ^ 128 - 1) div unat held"
    by (simp add: r_def unat_div unat_saturating_mul imb)
  define q where "q = saturating_mul (ucast k :: u128) (saturating_mul r r) div 1000000000000"
  have "unat q = min (unat k * min (unat r * unat r) (2 ^ 128 - 1)) (2 ^ 128 - 1) div 1000000000000"
    unfolding q_def unat_div unat_saturating_mul by simp
  also have "\<dots> = min (min (unat k * unat r) (2 ^ 128 - 1) * unat r) (2 ^ 128 - 1) div 1000000000000"
    by (simp only: sat_mul_assoc)
  finally have q: "unat q = surcharge (unat k) (unat (psm_imbalance vault held)) (unat held)"
    by (simp only: surcharge_def Let_def r)
  have "unat q \<le> (2 ^ 128 - 1) div 1000000000000"
    unfolding q surcharge_def Let_def by (intro div_le_mono) simp
  then have "unat (saturating_add (ucast base) q) = unat base + unat q"
    using u16_bound [of base] by (simp add: unat_saturating_add)
  moreover have "curve_copy base cap k vault held = ucast (min (saturating_add (ucast base) q) (ucast cap))"
    by (simp add: curve_copy_def Let_def imb_def r_def q_def)
  ultimately show ?thesis
    using u16_bound [of cap] by (simp add: unat_narrow_small unat_min q)
qed

lemma net_supply_bounded_by_max_holds: "verified (proof_net_supply_bounded_by_max max_supply net amount)"
  by (simp add: proof_net_supply_bounded_by_max_def split: option.split)

lemma authority_rotation_atomic_holds: "verified (proof_authority_rotation_atomic op)"
  by (auto simp: proof_authority_rotation_atomic_def Let_def word_to_nat)

lemma feature_flags_set_clear_inverse_holds: "verified (proof_feature_flags_set_clear_inverse flags bits)"
  by (auto simp: proof_feature_flags_set_clear_inverse_def Let_def intro!: bit_word_eqI simp: bit_simps)

lemma feature_flag_bit_isolation_holds: "verified (proof_feature_flag_bit_isolation flags)"
  by (auto simp: proof_feature_flag_bit_isolation_def Let_def FLAG_CIRCUIT_BREAKER_def FLAG_SPEND_POLICY_def intro!: bit_word_eqI simp: bit_simps)

lemma set_feature_flag_mutates_only_flags_field_holds: "verified (proof_set_feature_flag_mutates_only_flags_field feature_flags_before bits authority total_minted total_burned max_supply paused preset)"
  by (auto simp: proof_set_feature_flag_mutates_only_flags_field_def Let_def intro!: bit_word_eqI simp: bit_simps)

lemma feature_flag_race_order_independent_holds: "verified (proof_feature_flag_race_order_independent flags_initial set_mask clear_mask)"
proof -
  have apart: "\<not> (bit set_mask i \<and> bit clear_mask i)" if "set_mask AND clear_mask = 0" for i
    using arg_cong [OF that, of "\<lambda>w. bit w i"] by (simp add: bit_simps)
  then show ?thesis
    by (auto simp: proof_feature_flag_race_order_independent_def Let_def intro!: bit_word_eqI simp: bit_simps)
qed

lemma dao_proposal_pda_seeds_collision_resistant_holds: "verified (proof_dao_proposal_pda_seeds_collision_resistant config id_a id_b)"
  by (auto simp: proof_dao_proposal_pda_seeds_collision_resistant_def Let_def dest: arg_cong [of "u64_bytes id_a" _ u64_from_le] simp: u64_roundtrip)

lemma u64_checked_add_no_overflow_holds: "verified (proof_u64_checked_add_no_overflow a b)"
  using u64_bound [of a]
  by (auto simp: proof_u64_checked_add_no_overflow_def Let_def word_nat split: option.split if_splits)

lemma u64_checked_sub_no_underflow_holds: "verified (proof_u64_checked_sub_no_underflow a b)"
  by (auto simp: proof_u64_checked_sub_no_underflow_def Let_def word_nat split: option.split if_splits)

lemma total_minted_strictly_increases_holds: "verified (proof_total_minted_strictly_increases total_minted amount)"
  by (auto simp: proof_total_minted_strictly_increases_def Let_def word_nat split: option.split if_splits)

lemma total_burned_monotonic_holds: "verified (proof_total_burned_monotonic total_burned amount)"
  by (auto simp: proof_total_burned_monotonic_def Let_def word_nat split: option.split if_splits)

lemma net_supply_nonnegative_holds: "verified (proof_net_supply_nonnegative total_minted total_burned amount)"
  by (auto simp: proof_net_supply_nonnegative_def Let_def word_nat split: option.split if_splits)

lemma total_minted_never_decreases_holds: "verified (proof_total_minted_never_decreases total_minted amount)"
  by (auto simp: proof_total_minted_never_decreases_def Let_def word_nat split: option.split if_splits)

lemma minter_cap_inductive_holds: "verified (proof_minter_cap_inductive cap minted amount)"
  by (auto simp: proof_minter_cap_inductive_def Let_def word_nat split: option.split if_splits)

lemma sss3_mint_solvency_inductive_holds: "verified (proof_sss3_mint_solvency_inductive vault_balance net amount)"
  by (auto simp: proof_sss3_mint_solvency_inductive_def Let_def word_nat split: option.split if_splits)

lemma sss3_redeem_preserves_solvency_holds: "verified (proof_sss3_redeem_preserves_solvency vault_balance net amount)"
  by (auto simp: proof_sss3_redeem_preserves_solvency_def Let_def word_nat split: option.split if_splits)

lemma deposit_improves_reserve_ratio_holds: "verified (proof_deposit_improves_reserve_ratio vault net deposit)"
  using u64_bound [of deposit]
  by (auto simp: proof_deposit_improves_reserve_ratio_def Let_def word_nat unat_minus_one_max split: option.split if_splits)

lemma cdp_repay_decreases_debt_holds: "verified (proof_cdp_repay_decreases_debt debt_amount repay_amount)"
  by (auto simp: proof_cdp_repay_decreases_debt_def Let_def word_nat split: option.split if_splits)

lemma timelock_delay_enforced_holds: "verified (proof_timelock_delay_enforced current_slot delay)"
  by (auto simp: proof_timelock_delay_enforced_def Let_def word_nat split: option.split if_splits)

lemma psm_fee_bounded_holds: "verified (proof_psm_fee_bounded fee_bps)"
  by (auto simp: proof_psm_fee_bounded_def Let_def word_nat split: option.split if_splits)

lemma backstop_never_overdraws_fund_holds: "verified (proof_backstop_never_overdraws_fund fund_balance shortfall max_allowed)"
  by (auto simp: proof_backstop_never_overdraws_fund_def Let_def word_nat split: option.split if_splits)

lemma pbs_committed_amount_never_lost_holds: "verified (proof_pbs_committed_amount_never_lost committed_amount released refunded)"
  by (auto simp: proof_pbs_committed_amount_never_lost_def Let_def word_nat split: option.split if_splits)

lemma pbs_partial_bounded_holds: "verified (proof_pbs_partial_bounded committed already_resolved partial_amount)"
  by (auto simp: proof_pbs_partial_bounded_def Let_def word_nat split: option.split if_splits)

lemma apc_funds_always_conserved_holds: "verified (proof_apc_funds_always_conserved initiator_deposit released_to_counterparty returned_to_initiator)"
  using u64_bound [of initiator_deposit]
  by (auto simp: proof_apc_funds_always_conserved_def Let_def word_nat min_def split: option.split if_splits)

lemma emergency_recovery_window_holds: "verified (proof_emergency_recovery_window proposed_slot current_slot)"
  by (auto simp: proof_emergency_recovery_window_def Let_def word_nat split: option.split if_splits)

lemma guardian_threshold_invariant_holds: "verified (proof_guardian_threshold_invariant votes threshold)"
  by (auto simp: proof_guardian_threshold_invariant_def Let_def word_nat split: option.split if_splits)

lemma liquidation_bonus_bounded_holds: "verified (proof_liquidation_bonus_bounded max_bonus_bps tier1_bonus tier2_bonus tier3_bonus tier1_threshold tier2_threshold tier3_threshold ratio_bps)"
  by (auto simp: proof_liquidation_bonus_bounded_def Let_def word_nat split: option.split if_splits)

lemma mint_mutates_only_total_minted_holds: "verified (proof_mint_mutates_only_total_minted authority compliance_authority preset paused_before total_minted_before total_burned_before feature_flags_before max_supply amount)"
  using u64_bound [of total_minted_before]
  by (auto simp: proof_mint_mutates_only_total_minted_def Let_def word_nat split: option.split if_splits)

lemma burn_mutates_only_total_burned_holds: "verified (proof_burn_mutates_only_total_burned total_minted total_burned_before paused_before authority feature_flags amount)"
  using u64_bound [of total_minted]
  by (auto simp: proof_burn_mutates_only_total_burned_def Let_def word_nat min_def split: option.split if_splits)

lemma reserve_ratio_exact_at_parity_holds: "verified (proof_reserve_ratio_exact_at_parity amount)"
  using u64_bound [of amount]
  by (auto simp: proof_reserve_ratio_exact_at_parity_def Let_def word_nat unat_saturating_mul unat_div)

lemma reserve_ratio_never_misreported_holds: "verified (proof_reserve_ratio_never_misreported reserve_amount net)"
proof -
  have exact: "unat (saturating_mul (ucast reserve_amount :: u128) 10000) = unat reserve_amount * 10000"
    using u64_bound [of reserve_amount] by (simp add: unat_saturating_mul)
  have below: "unat reserve_amount * 10000 div unat net < 10000" if "unat reserve_amount < unat net"
    using that by (simp add: div_less_iff_less_mult)
  have "unat reserve_amount * 10000 div unat net mod 2 ^ 64 \<le> unat reserve_amount * 10000"
    by (meson div_le_dividend le_trans mod_less_eq_dividend)
  moreover note narrow = unat_narrow [where 'a = 128 and 'b = 64]
  ultimately show ?thesis using exact below
    by (auto simp: proof_reserve_ratio_never_misreported_def Let_def word_to_nat unat_div narrow unat_minus_one_max)
qed

lemma cdp_collateral_ratio_inductive_holds: "verified (proof_cdp_collateral_ratio_inductive collateral debt extra)"
proof -
  have up: "min (a * 10000) m div d \<le> min ((a + e) * 10000) m div d" for a e m d :: nat
    by (intro div_le_mono min.mono) auto
  have "unat extra \<le> 2 ^ 128 - 1" using unat_lt [of extra] by simp
  then show ?thesis
    using up [of "unat collateral" "2 ^ 128 - 1" "unat debt" "unat extra"]
    by (auto simp: proof_cdp_collateral_ratio_inductive_def Let_def word_nat unat_saturating_mul unat_div unat_minus_one_max)
qed

lemma cdp_borrow_enforces_ltv_holds: "verified (proof_cdp_borrow_enforces_ltv deposited price_val price_expo_abs collateral_decimals amount sss_decimals)"
  by (auto simp: proof_cdp_borrow_enforces_ltv_def Let_def split: option.split dest: ltv_limit_ratio)

lemma psm_fee_curve_bounded_holds: "verified (proof_psm_fee_curve_bounded base_fee_bps max_fee_bps curve_k vault_amount total_reserves)"
  by (auto simp: proof_psm_fee_curve_bounded_def Let_def word_le_nat_alt word_less_nat_alt curve_copy_nat)

lemma psm_fee_curve_balanced_is_base_holds: "verified (proof_psm_fee_curve_balanced_is_base base_fee_bps max_fee_bps curve_k total_reserves)"
  by (cases "total_reserves = 0") (auto simp: proof_psm_fee_curve_balanced_is_base_def Let_def word_le_nat_alt word_less_nat_alt curve_copy_nat)

section \<open>The harnesses that do not hold\<close>

lemma refuted_harnesses:
  "proof_u128_reserve_ratio_nonzero 19999 1 = Violated"
  "proof_supply_cap_cannot_be_bypassed_by_sequential_mints (- 1) (- 2) 1 1 = Violated"
  "proof_double_mint_blocked_by_cap_state (- 1) (- 2) 1 1 = Violated"
  "proof_cdp_overborrow_rejected_on_price_overflow 1 (10 ^ 32) = Violated"
  by (simp_all add: proof_u128_reserve_ratio_nonzero_def proof_supply_cap_cannot_be_bypassed_by_sequential_mints_def
      proof_double_mint_blocked_by_cap_state_def proof_cdp_overborrow_rejected_on_price_overflow_def Let_def assuming_def asserting_def
      div_ov_def checked_mul_def saturating_add_def saturating_mul_def MIN_COLLATERAL_RATIO_BPS_def word_gt_0)

lemma reserve_ratio_harness_partly:
  "verified (proof_u128_reserve_ratio_nonzero supplied collateral) \<or> 0 < unat supplied mod 10000"
proof (cases "unat supplied mod 10000 = 0")
  case True
  then have "unat supplied = 10000 * (unat supplied div 10000)" by auto
  then have "1 \<le> unat collateral * 10000 div unat supplied" if "unat supplied div 10000 \<le> unat collateral" "0 < unat supplied"
    using that by (simp add: less_eq_div_iff_mult_less_eq)
  then show ?thesis
    by (auto simp: proof_u128_reserve_ratio_nonzero_def arith_ok word_to_nat unat_div split: option.split)
qed simp

lemma full_sum: "saturating_add (x :: u64) b \<le> x \<Longrightarrow> 0 < b \<Longrightarrow> x = - 1"
  using u64_bound [of x] by (auto simp: word_to_nat unat_saturating_add unat_minus_one_max)

lemma sequential_mints_harness_partly:
  "verified (proof_supply_cap_cannot_be_bypassed_by_sequential_mints x a b c) \<or> x = - 1"
  by (auto simp: proof_supply_cap_cannot_be_bypassed_by_sequential_mints_def Let_def dest: full_sum)

lemma double_mint_harness_partly: "verified (proof_double_mint_blocked_by_cap_state x a b c) \<or> x = - 1"
  by (auto simp: proof_double_mint_blocked_by_cap_state_def Let_def dest: full_sum)

lemma overborrow_harness_partly:
  "verified (proof_cdp_overborrow_rejected_on_price_overflow a y) \<or> 2 ^ 128 \<le> unat a * unat y * 10 ^ 10"
proof (cases "unat a * unat y * 10 ^ 10 < 2 ^ 128")
  case True
  have "cv div 15000 * 10000 \<le> cv * 10000 div (15000 :: nat)" for cv by (simp add: less_eq_div_iff_mult_less_eq)
  moreover have "cv div 15000 * 10000 \<le> (cv :: nat)" for cv by simp
  ultimately show ?thesis
    using True by (auto simp: proof_cdp_overborrow_rejected_on_price_overflow_def Let_def arith_ok word_to_nat unat_div
        unat_saturating_mul MIN_COLLATERAL_RATIO_BPS_def min_def bind_eq_Some_conv split: option.split)
qed simp

section \<open>What the file claims\<close>

lemma kani_harnesses_hold:
  "list_all verified
    [proof_u64_checked_add_no_overflow x1 x2,
     proof_u64_checked_sub_no_underflow x1 x2,
     proof_total_minted_strictly_increases x1 x2,
     proof_total_burned_monotonic x1 x2,
     proof_net_supply_nonnegative x1 x2 x3,
     proof_total_minted_never_decreases x1 x2,
     proof_net_supply_bounded_by_max x1 x2 x3,
     proof_minter_cap_inductive x1 x2 x3,
     proof_unlimited_cap_never_blocks x1 x2,
     proof_sss3_mint_solvency_inductive x1 x2 x3,
     proof_sss3_redeem_preserves_solvency x1 x2 x3,
     proof_deposit_improves_reserve_ratio x1 x2 x3,
     proof_reserve_ratio_exact_at_parity x1,
     proof_cdp_borrow_enforces_ltv x1 y1 m1 m2 x2 m3,
     proof_cdp_collateral_ratio_inductive y1 y2 y3,
     proof_cdp_liquidation_only_when_undercollateralised y1 y2,
     proof_cdp_repay_decreases_debt x1 x2,
     proof_pause_inductive_blocks_all_mints x1,
     proof_pause_idempotent b1,
     proof_timelock_delay_enforced x1 x2,
     proof_timelock_cancel_clears_pending k1,
     proof_timelock_no_double_execute k1,
     proof_dao_quorum_enforced k1 k2,
     proof_dao_no_double_vote b1,
     proof_dao_member_dedup key1 key2,
     proof_authority_two_step_inductive key1,
     proof_authority_accept_clears_pending key1,
     proof_blacklist_pda_deterministic key1 key2,
     proof_blacklist_pda_no_collision key1 key2 key3 key4,
     proof_feature_flags_set_clear_inverse x1 x2,
     proof_feature_flag_bit_isolation x1,
     proof_psm_fee_bounded n1,
     proof_stability_fee_bounded n1,
     proof_backstop_never_overdraws_fund x1 x2 x3,
     proof_pbs_committed_amount_never_lost x1 x2 x3,
     proof_pbs_cannot_double_resolve k1,
     proof_pbs_partial_bounded x1 x2 x3,
     proof_reserve_ratio_never_misreported x1 x2,
     proof_reserve_breach_condition_correct x1 n1,
     proof_reserve_attestation_stores_latest x1 x2,
     proof_apc_funds_always_conserved x1 x2 x3,
     proof_apc_timeout_always_available x1 x2 x3 k1,
     proof_apc_no_double_settle k1,
     proof_authority_rotation_atomic k1,
     proof_rotation_timelock_enforced x1 x2 key1,
     proof_emergency_recovery_window x1 x2,
     proof_guardian_cannot_mint b1 b2,
     proof_guardian_threshold_invariant k1 k2,
     proof_guardian_lift_requires_full_quorum k1 k2,
     proof_liquidation_bonus_bounded n1 n2 n3 n4 n5 n6 n7 y1,
     proof_psm_fee_curve_bounded n1 n2 x1 x2 x3,
     proof_psm_fee_curve_balanced_is_base n1 n2 x1 x2,
     proof_mint_mutates_only_total_minted key1 key2 k1 b1 x1 x2 x3 x4 x5,
     proof_burn_mutates_only_total_burned x1 x2 b1 key1 x3 x4,
     proof_pause_mutates_only_paused_field key1 x1 x2 x3 k1 b1,
     proof_accept_authority_mutates_only_authority_fields key1 key2 x1 x2 x3 x4 k1 b1,
     proof_set_feature_flag_mutates_only_flags_field x1 x2 key1 x3 x4 x5 b1 k1,
     proof_config_pda_seeds_collision_resistant key1 key2,
     proof_minter_info_pda_seeds_collision_resistant key1 key2 key3 key4,
     proof_cdp_position_pda_seeds_collision_resistant key1 key2 key3 key4,
     proof_dao_committee_pda_seeds_collision_resistant key1 key2,
     proof_dao_proposal_pda_seeds_collision_resistant key1 x1 x2,
     proof_spoofed_signer_rejected_on_mint key1 key2,
     proof_pause_blocks_burn_as_well_as_mint b1,
     proof_timelock_shortcut_rejected_before_mature x1 x2 x3,
     proof_zero_amount_mint_unconditionally_rejected,
     proof_liquidation_front_run_impossible y1 y2,
     proof_old_authority_cannot_act_after_transfer key1 key2 key3,
     proof_feature_flag_race_order_independent x1 x2 x3,
     proof_minter_pda_owner_check_unconditional key1 key2 key3,
     proof_cdp_withdrawal_cannot_breach_min_collateral_ratio y1 y2 y3]"
  by (simp only: list.pred_inject plain_harnesses net_supply_bounded_by_max_holds authority_rotation_atomic_holds feature_flags_set_clear_inverse_holds feature_flag_bit_isolation_holds
    set_feature_flag_mutates_only_flags_field_holds feature_flag_race_order_independent_holds
    dao_proposal_pda_seeds_collision_resistant_holds u64_checked_add_no_overflow_holds u64_checked_sub_no_underflow_holds
    total_minted_strictly_increases_holds total_burned_monotonic_holds net_supply_nonnegative_holds total_minted_never_decreases_holds
    minter_cap_inductive_holds sss3_mint_solvency_inductive_holds sss3_redeem_preserves_solvency_holds
    deposit_improves_reserve_ratio_holds cdp_repay_decreases_debt_holds timelock_delay_enforced_holds psm_fee_bounded_holds
    backstop_never_overdraws_fund_holds pbs_committed_amount_never_lost_holds pbs_partial_bounded_holds apc_funds_always_conserved_holds
    emergency_recovery_window_holds guardian_threshold_invariant_holds liquidation_bonus_bounded_holds
    mint_mutates_only_total_minted_holds burn_mutates_only_total_burned_holds reserve_ratio_exact_at_parity_holds
    reserve_ratio_never_misreported_holds cdp_collateral_ratio_inductive_holds cdp_borrow_enforces_ltv_holds psm_fee_curve_bounded_holds
    psm_fee_curve_balanced_is_base_holds simp_thms)


text \<open>The borrowing limit of the harness is the one of the program.\<close>

lemma ltv_limit_is_code:
  assumes "d \<le> 9"
  shows "max_borrow v d = Inr m \<longleftrightarrow> ltv_limit (Some v) (pow_10 (of_nat d)) = Some m"
proof -
  have d: "unat (of_nat d :: u32) = d" using assms by (simp add: unat_of_nat)
  then have p: "pow_10 (of_nat d) = 10 ^ d" and q: "pow10 d = Inr (10 ^ d)" using assms by (simp_all add: pow_10_def pow10_def)
  show ?thesis
  proof (cases "checked_mul v 10000")
    case None
    then show ?thesis by (simp add: max_borrow_def ltv_limit_def mul_or_def)
  next
    case (Some a)
    then show ?thesis
      by (cases "checked_mul (a div ucast MIN_COLLATERAL_RATIO_BPS) (10 ^ d)") (simp_all add: max_borrow_def ltv_limit_def mul_or_def p q)
  qed
qed

text \<open>C14: what the harnesses check in place of the program agrees with it: the copy of the fee curve gives the fee of every curve that the
  program accepts and every filled vault, although it multiplies in a different order and saturates at different places, and the
  copy of the borrowing limit gives the limit, or an error, exactly as the program does for up to nine decimals.\<close>

theorem harness_copies_are_code:
  assumes "ps_base_fee_bps curve \<le> ps_max_fee_bps curve" and "ps_max_fee_bps curve \<le> PSM_MAX_FEE_BPS" and "held \<noteq> 0" and "d \<le> 9"
  shows "curve_copy (ps_base_fee_bps curve) (ps_max_fee_bps curve) (ps_curve_k curve) vault held = compute_fee curve vault held \<and>
    (max_borrow v d = Inr m \<longleftrightarrow> ltv_limit (Some v) (pow_10 (of_nat d)) = Some m)"
proof -
  have "curve_wf curve" using assms by (simp add: curve_wf_def)
  then show ?thesis using assms ltv_limit_is_code [of d v m]
    by (simp add: word_unat_eq_iff curve_copy_nat compute_fee_nat min_def)
qed

theorem harness_copies_are_code_witness:
  "curve_copy 10 100 40000 900 1000 =
    compute_fee \<lparr>ps_sss_mint = 0, ps_authority = 0, ps_base_fee_bps = 10, ps_curve_k = 40000, ps_max_fee_bps = 100, ps_bump = 0\<rparr> 900 1000"
  using harness_copies_are_code [of "\<lparr>ps_sss_mint = 0, ps_authority = 0, ps_base_fee_bps = 10, ps_curve_k = 40000, ps_max_fee_bps = 100,
    ps_bump = 0\<rparr>" 1000 6 900 15000000 0]
  by (simp add: PSM_MAX_FEE_BPS_def)

end
