(* ===== verification/Spec2Isabelle.thy ===== *)
theory Spec2Isabelle
  imports Governance Hook Ballots Consensus Escrow Insurance Keeper Registry Upgrade Panics Client Wire Streams Harnesses
begin

text \<open>
  A verification development of the Solana stablecoin standard: the token program (programs/sss-token/src), the transfer hook
  (programs/transfer-hook/src/lib.rs), the client crate and its example caller (crates/sss-cpi/src, programs/cpi-caller/src) and the parts
  of the backend that decide something (backend/src).

  \<^bold>\<open>The program.\<close> A stablecoin is a configuration account (\<open>StablecoinConfig\<close>, state.rs) that every instruction of the token program
  loads, checks and writes back; the accounts beside it (minters, positions, queue entries, vaults, ballots, records of all kinds) are
  loaded at addresses derived from the mint. Tokens are moved, minted and burnt by calls to the token program, which is not part of the
  repository. The transfer hook is a second program that the ledger runs on every transfer; it reads the accounts of the first one as raw
  bytes at fixed offsets. The backend is a service beside both: it forwards signed transactions, keeps books in a database and calls
  webhooks.

  \<^bold>\<open>How it is modelled.\<close> An account is a record with the source's fields, an instruction handler a function from the accounts, the arguments
  and the ledger to an error or to the new accounts and the new ledger, with the \<open>#[derive(Accounts)]\<close> constraints first and then the
  body, check by check in the order of the code. Integers are words of the source's width. The programs are compiled with overflow checks,
  so that plain arithmetic out of range is the error \<open>Panic\<close>; checked, saturating and truncating operations are the ones of the theory
  \<open>Prelude\<close>. A failed transaction leaves everything as it was; histories are lists of events run by \<open>play\<close> (theory \<open>Machine\<close>). What the
  program emits as events or logs is not modelled.

  \<^bold>\<open>Foundations.\<close> \<open>Prelude\<close>: integer operations, the result type with \<open>guarded\<close> (a list of \<open>require!\<close>s), \<open>andthen\<close> and \<open>ok_or\<close> and their
  inversion rules. \<open>Errors\<close>: the variants of \<open>SssError\<close> (error.rs). \<open>Runtime\<close>: clock, derived addresses and the token program as the record
  \<open>runtime\<close> of parameters, and the locale \<open>token_ledger\<close> of the laws of the token program that the properties about balances use.
  \<open>RefLedger\<close>, \<open>Demo\<close>: an instance of these parameters, which discharges the laws and on which the witnesses are evaluated. \<open>State\<close>: the
  configuration, flags and operation kinds (state.rs). \<open>AuthGate\<close>: the multisig of preset 4 and the shared checks of an authority's
  instruction (squads\_authority.rs). \<open>Machine\<close>, \<open>RateWindow\<close>, \<open>Pace\<close>: contracts as locales (an invariant kept by every event; an escrow
  paid out once; a level that events raise and lower; a counter that limits what passes in a window; a clock that makes an operation
  wait), whose consequences for whole histories are proved once and used by every component through an interpretation.

  \<^bold>\<open>Components\<close> (files under programs/sss-token/src/instructions unless said otherwise), each with its operations and what is shown:
  \<^item> \<open>Minting\<close> (mint.rs, burn.rs, cpi\_mint.rs, cpi\_burn.rs, update\_minter.rs, revoke\_minter.rs, proof\_of\_reserves.rs, interface\_version.rs): limits of a minter,
    per mint and per epoch; nothing is issued or burnt while halted.
  \<^item> \<open>Reserve\<close> (initialize.rs, deposit\_collateral.rs, redeem.rs, freeze.rs, thaw.rs): the effect of a redemption, backing and vault coverage,
    and that a holder can leave.
  \<^item> \<open>Admin\<close>, \<open>Governance\<close> (admin\_timelock.rs, the direct setters, pause.rs, update\_roles.rs, authority\_rotation.rs): what histories of
    governance instructions can change, and how fast.
  \<^item> \<open>Ballots\<close> (guardian.rs, dao\_committee.rs): quorum and the day a guardian pause holds.
  \<^item> \<open>Oracle\<close>, \<open>Consensus\<close> (oracle\_config.rs, ../oracle, multi\_oracle.rs): prices, the sort and the median, the record of the sources.
  \<^item> \<open>Cdp\<close>, \<open>Lending\<close>, \<open>Liquidation\<close> (the cdp files, collateral\_config.rs, yield\_collateral.rs, stability\_fee.rs): over-collateralisation of
    loans, fees, and what a liquidation pays.
  \<^item> \<open>Curves\<close> (pid\_fee.rs, psm\_amm\_slippage.rs, liquidation\_bonus.rs), \<open>Market\<close> (market\_maker.rs), \<open>Bridge\<close> (bridge.rs), \<open>Keeper\<close>
    (circuit\_breaker\_keeper.rs), \<open>Insurance\<close> (insurance\_vault.rs, bad\_debt\_backstop.rs), \<open>Redemption\<close> (redemption\_pool.rs,
    redemption\_guarantee.rs), \<open>Queue\<close> (redemption\_queue.rs, refined to a line with numbers), \<open>Escrow\<close> (apc.rs, pbs.rs), \<open>Registry\<close>
    (legal\_entity\_registry.rs, reserve\_composition.rs, upgrade\_authority\_guard.rs).
  \<^item> \<open>Bytes\<close>, \<open>Compliance\<close>, \<open>Hook\<close>, \<open>Upgrade\<close> (wallet\_rate\_limit.rs, sanctions\_oracle.rs, zk\_compliance.rs, zk\_credential.rs,
    travel\_rule.rs, blacklist.rs, the hook, upgrade.rs): the stored layout of accounts, its round trip, the policy that the hook enforces on those bytes,
    and the migration of old accounts.
  \<^item> \<open>Supply\<close>: all instructions that mint or burn in one history over one configuration and one ledger, and what the books say about the
    circulation. \<open>Panics\<close>: the same instructions never abort without an error of their own, except for named inputs.
  \<^item> \<open>Client\<close> (crates/sss-cpi, cpi-caller): derived addresses and requests against what the program reads.
  \<^item> \<open>Wire\<close> (backend/src/routes/circuit\_breaker.rs): base64 and the walk over a signed transaction. \<open>Delivery\<close> (webhook\_dispatch.rs,
    webhook\_retry\_worker.rs, routes/webhooks.rs, the delivery log of db.rs): interleaved attempts.
  \<^item> \<open>Books\<close> (the tables of db.rs, routes/{mint,burn,supply,events,compliance,apikeys}.rs, auth.rs, the router of main.rs): reported supply,
    and who may touch the keys. \<open>Chronicle\<close> (indexer.rs, flag\_refresh.rs, feature\_flags.rs, monitor, the event tables of db.rs): the event log as
    the image of the chain, the history of liquidations, and the flags read from the bytes of a configuration.
  \<^item> \<open>Filings\<close> (routes/{travel\_rule,zk\_credentials,supply\_verify,webhooks}.rs and their tables): what can be stored, listed and decided.
    \<open>Reports\<close> (routes/{onchain,reserves,alerts,analytics,collateral\_config}.rs): a signature enters the books only when the cluster
    confirms it. \<open>Streams\<close> (routes/ws\_events.rs, monitor/metric\_collector.rs, indexer\_schema/mod.rs): a subscriber gets the new rows of the
    event log that it asked for.
  \<^item> \<open>Harnesses\<close> (../proofs.rs): every harness of the bounded model checker as a function from its inputs to its verdict, which of them
    hold for all inputs, and which of the copies that they check agree with the code.

  The forwarders of lib.rs are the step functions of the histories (\<open>gov_exec\<close>, \<open>queue_exec\<close>, \<open>vault_exec\<close> and so on): one clause for each
  instruction, which passes the arguments to the handler.

  \<^bold>\<open>Parameters and hypotheses.\<close> The runtime (\<open>runtime\<close>: clock, derived addresses, token calls), the Pyth library, the hash functions, the
  key and address parsers and the cluster are arguments. Hypotheses about them are the laws of \<open>token_ledger\<close> (a call changes the
  balances and the supply it names and nothing else), that the derivation of addresses does not collide where two accounts must differ,
  and values of the hash where a constant of the code stands for one; each is instantiated in a witness.

  \<^bold>\<open>Bounds and fuel.\<close> Loops are structural or carry a measure: the insertion sort of \<open>Consensus\<close> is a \<open>while\<close> with a proof that it ends, the
  compact length of \<open>Wire\<close> reads three bytes at most because a fourth would shift out of 16 bits. No definition uses fuel.

  \<^bold>\<open>Not modelled.\<close> events.rs, whose records are only logged, and fuzz\_tests.rs, which tests copies of the arithmetic with random
  inputs; the forwarders of lib.rs that no history names, which only pass their arguments on; of the backend, start-up, SQL and HTTP as
  such, fixed answers, and what computes in floating point: the rate limiter (rate\_limit.rs), the positions that routes/cdp.rs makes up,
  the reserve ratio of the monitor, the distribution of positions over health classes and the rendered ratio of the gauges.
\<close>

end
